(* ===== verification/ADA_Prelude.thy ===== *)
theory ADA_Prelude
  imports
    Complex_Main
    "HOL-Library.AList"
    "HOL-Library.Char_ord"
    "HOL-Library.List_Lexorder"
    "HOL-Library.Multiset"
    "HOL-Library.Product_Lexorder"
begin

text \<open>
  What every component shares.  Python exceptions are values of \<open>exn\<close> and a fallible
  operation returns \<open>exn + 'a\<close>; a Python \<open>dict\<close> is an association list in insertion
  order, updated in place or at its end as Python does; \<open>sorted\<close> is the library's stable
  \<open>sort_key\<close>, with strings, tuples and numbers ordered as Python orders them; and a
  string is a list of characters.  The lemmas are the facts about these that the components
  use; those marked \<open>[simp]\<close> or collected in \<open>dict_simps\<close> carry most of the proofs.
\<close>

named_theorems dict_simps \<open>lookups in dictionaries and grouped dictionaries\<close>
named_theorems res_simps \<open>unfolding of the error-result combinators\<close>

section \<open>Exceptions as values\<close>

datatype exn =
    IllegalTransition string
  | MappingError string
  | ContextTooSmall string
  | CrossTenantContext string
  | PolicyViolation string
  | NarrationRejected string
  | DPTooLarge string
  | ValueError string
  | ValidationError string
  | LookupError string
  | KeyError string
  | IndexError
  | ZeroDivisionError
  | PermissionError string
  | RuntimeError string
  | ChurnScorerUnavailable string

type_synonym 'a result = "exn + 'a"

definition bind_result :: "'a result \<Rightarrow> ('a \<Rightarrow> 'b result) \<Rightarrow> 'b result" where
  "bind_result m f = (case m of Inl e \<Rightarrow> Inl e | Inr x \<Rightarrow> f x)"

lemma bind_result_simps [simp, res_simps]:
  "bind_result (Inl e) f = Inl e"
  "bind_result (Inr x) f = f x"
  by (simp_all add: bind_result_def)

lemma bind_result_Inr [res_simps]:
  "bind_result m f = Inr y \<longleftrightarrow> (\<exists>x. m = Inr x \<and> f x = Inr y)"
  by (cases m) auto

lemma bind_result_Inl [res_simps]:
  "bind_result m f = Inl e \<longleftrightarrow> m = Inl e \<or> (\<exists>x. m = Inr x \<and> f x = Inl e)"
  by (cases m) auto

lemma bind_result_cong [fundef_cong]:
  "m = m' \<Longrightarrow> (\<And>x. m' = Inr x \<Longrightarrow> f x = f' x) \<Longrightarrow> bind_result m f = bind_result m' f'"
  by (cases m') auto

text \<open>A list comprehension whose element expression may raise stops at the first error.\<close>

fun map_result :: "('a \<Rightarrow> 'b result) \<Rightarrow> 'a list \<Rightarrow> 'b list result" where
  "map_result f [] = Inr []"
| "map_result f (x # xs) =
     bind_result (f x) (\<lambda>y. bind_result (map_result f xs) (\<lambda>ys. Inr (y # ys)))"

lemma map_result_Inr_iff:
  "map_result f xs = Inr ys \<longleftrightarrow> list_all2 (\<lambda>x y. f x = Inr y) xs ys"
  by (induction xs arbitrary: ys) (auto simp: res_simps list_all2_Cons1)

lemma map_result_length: "map_result f xs = Inr ys \<Longrightarrow> length ys = length xs"
  by (simp add: map_result_Inr_iff list_all2_lengthD)

lemma map_result_total: "(\<And>x. x \<in> set xs \<Longrightarrow> f x = Inr (g x)) \<Longrightarrow> map_result f xs = Inr (map g xs)"
  by (induction xs) auto

section \<open>Dictionaries\<close>

definition dict_get :: "('k \<times> 'v) list \<Rightarrow> 'k \<Rightarrow> 'v \<Rightarrow> 'v" where
  "dict_get d k v = (case map_of d k of None \<Rightarrow> v | Some w \<Rightarrow> w)"

definition dict_setdefault :: "'k \<Rightarrow> 'v \<Rightarrow> ('k \<times> 'v) list \<Rightarrow> ('k \<times> 'v) list" where
  "dict_setdefault k v d = (case map_of d k of None \<Rightarrow> d @ [(k, v)] | Some _ \<Rightarrow> d)"

text \<open>\<open>d.setdefault(key x, []).append(x)\<close>, and the loop that does it for every element.\<close>

definition group_add :: "'k \<Rightarrow> 'a \<Rightarrow> ('k \<times> 'a list) list \<Rightarrow> ('k \<times> 'a list) list" where
  "group_add k x d = AList.update k (dict_get d k [] @ [x]) d"

fun group_into :: "('a \<Rightarrow> 'k) \<Rightarrow> 'a list \<Rightarrow> ('k \<times> 'a list) list \<Rightarrow> ('k \<times> 'a list) list" where
  "group_into f [] d = d"
| "group_into f (x # xs) d = group_into f xs (group_add (f x) x d)"

definition group_by :: "('a \<Rightarrow> 'k) \<Rightarrow> 'a list \<Rightarrow> ('k \<times> 'a list) list" where
  "group_by f xs = group_into f xs []"

lemma map_of_setdefault [dict_simps]:
  "map_of (dict_setdefault k v d) j =
     (case map_of d j of None \<Rightarrow> if j = k then Some v else None | Some w \<Rightarrow> Some w)"
  by (auto simp: dict_setdefault_def map_add_def split: option.splits)

lemma dict_setdefault_keys [dict_simps]:
  "fst ` set (dict_setdefault k v d) = insert k (fst ` set d)"
proof (cases "map_of d k")
  case None
  then show ?thesis by (simp add: dict_setdefault_def)
next
  case (Some w)
  then have "k \<in> fst ` set d" by (metis image_eqI map_of_SomeD fst_conv)
  with Some show ?thesis by (auto simp: dict_setdefault_def)
qed

lemma map_of_eq_None_keys: "map_of d k = None \<longleftrightarrow> k \<notin> fst ` set d"
  by (simp add: map_of_eq_None_iff)

lemma distinct_setdefault [dict_simps]:
  "distinct (map fst d) \<Longrightarrow> distinct (map fst (dict_setdefault k v d))"
  by (auto simp: dict_setdefault_def map_of_eq_None_keys split: option.splits)

lemma group_add_map_of:
  "map_of (group_add k x d) j = (if j = k then Some (dict_get d k [] @ [x]) else map_of d j)"
  by (simp add: group_add_def AList.update_conv')

lemma group_into_map_of:
  "map_of (group_into f xs d) k =
     (if k \<in> f ` set xs \<or> map_of d k \<noteq> None
      then Some (dict_get d k [] @ filter (\<lambda>x. f x = k) xs) else None)"
proof (induction xs arbitrary: d)
  case Nil
  then show ?case by (auto simp: dict_get_def)
next
  case (Cons x xs)
  then show ?case by (auto simp: group_add_map_of dict_get_def)
qed

lemma group_by_map_of [dict_simps]:
  "map_of (group_by f xs) k =
     (if k \<in> f ` set xs then Some (filter (\<lambda>x. f x = k) xs) else None)"
  by (simp add: group_by_def group_into_map_of dict_get_def)

lemma group_into_distinct: "distinct (map fst d) \<Longrightarrow> distinct (map fst (group_into f xs d))"
  by (induction xs arbitrary: d) (simp_all add: group_add_def AList.distinct_update)

lemma group_by_distinct [dict_simps]: "distinct (map fst (group_by f xs))"
  by (simp add: group_by_def group_into_distinct)

lemma group_by_keys [dict_simps]: "fst ` set (group_by f xs) = f ` set xs"
proof -
  have "fst ` set (group_by f xs) = dom (map_of (group_by f xs))"
    by (simp add: dom_map_of_conv_image_fst)
  also have "\<dots> = f ` set xs" by (auto simp: group_by_map_of dom_def split: if_splits)
  finally show ?thesis .
qed

lemma group_by_in [dict_simps]:
  "(k, ys) \<in> set (group_by f xs) \<longleftrightarrow> k \<in> f ` set xs \<and> ys = filter (\<lambda>x. f x = k) xs"
proof -
  have "(k, ys) \<in> set (group_by f xs) \<longleftrightarrow> map_of (group_by f xs) k = Some ys"
    by (simp add: group_by_distinct map_of_eq_Some_iff)
  then show ?thesis by (auto simp: group_by_map_of)
qed

lemma mset_concat_eq: "mset xs = mset ys \<Longrightarrow> mset (concat xs) = mset (concat ys)"
  by (metis mset_concat mset_map sum_mset_sum_list)

lemma group_add_concat:
  "distinct (map fst d) \<Longrightarrow> mset (concat (map snd (group_add k x d))) = mset (concat (map snd d)) + {#x#}"
proof (induction d)
  case (Cons p d)
  show ?case
  proof (cases "fst p = k")
    case True
    then show ?thesis by (cases p) (simp add: group_add_def dict_get_def)
  next
    case False
    then have "dict_get (p # d) k [] = dict_get d k []" by (cases p) (simp add: dict_get_def)
    with Cons False show ?thesis by (cases p) (simp add: group_add_def)
  qed
qed (simp add: group_add_def dict_get_def)

text \<open>Grouping only regroups: the groups together hold the elements of the list.\<close>

lemma group_by_concat: "mset (concat (map snd (group_by f xs))) = mset xs"
proof -
  have "mset (concat (map snd (group_into f xs d))) = mset (concat (map snd d)) + mset xs"
    if "distinct (map fst d)" for d
    using that
  proof (induction xs arbitrary: d)
    case (Cons x xs)
    have "distinct (map fst (group_add (f x) x d))"
      using Cons.prems by (simp add: group_add_def AList.distinct_update)
    with Cons show ?case by (simp add: group_add_concat)
  qed simp
  then show ?thesis by (simp add: group_by_def)
qed

text \<open>\<open>d[k] = d.get(k, 0) + v\<close>, alone and for a whole list of such increments.\<close>

definition dict_incr :: "'k \<Rightarrow> int \<Rightarrow> ('k \<times> int) list \<Rightarrow> ('k \<times> int) list" where
  "dict_incr k v d = AList.update k (dict_get d k 0 + v) d"

definition tally :: "('k \<times> int) list \<Rightarrow> ('k \<times> int) list \<Rightarrow> ('k \<times> int) list" where
  "tally d xs = foldl (\<lambda>d (k, v). dict_incr k v d) d xs"

lemma dict_incr_get: "dict_get (dict_incr k v d) j 0 = dict_get d j 0 + (if j = k then v else 0)"
  by (simp add: dict_incr_def dict_get_def AList.update_conv')

lemma tally_Nil [simp]: "tally d [] = d"
  by (simp add: tally_def)

lemma tally_Cons [simp]: "tally d ((k, v) # xs) = tally (dict_incr k v d) xs"
  by (simp add: tally_def)

lemma tally_get [dict_simps]:
  "dict_get (tally d xs) j 0 = dict_get d j 0 + sum_list (map snd (filter (\<lambda>p. fst p = j) xs))"
  by (induction xs arbitrary: d) (auto simp: dict_incr_get)

lemma tally_keys [dict_simps]: "fst ` set (tally d xs) = fst ` set d \<union> fst ` set xs"
proof (induction xs arbitrary: d)
  case (Cons x xs)
  then show ?case by (cases x) (simp add: dict_incr_def AList.dom_update Un_assoc)
qed simp

lemma tally_distinct [dict_simps]: "distinct (map fst d) \<Longrightarrow> distinct (map fst (tally d xs))"
  by (induction xs arbitrary: d) (auto simp: dict_incr_def AList.distinct_update)

section \<open>Sorting and lists\<close>

lemma sort_key_filter_eq [simp]: "set (sort_key f xs) = set xs"
  by simp

lemma sort_key_Nil_iff [simp]: "sort_key f xs = [] \<longleftrightarrow> xs = []"
  by (metis length_0_conv length_sort)

lemma distinct_map_sort_key [simp]:
  "distinct (map g (sort_key f xs)) \<longleftrightarrow> distinct (map g xs)"
proof -
  have "mset (map g (sort_key f xs)) = mset (map g xs)" by simp
  then show ?thesis by (rule mset_eq_imp_distinct_iff)
qed

lemma sum_list_map_sort_key [simp]:
  "sum_list (map (g :: 'a \<Rightarrow> 'b :: comm_monoid_add) (sort_key f xs)) = sum_list (map g xs)"
proof -
  have "sum_mset (mset (map g (sort_key f xs))) = sum_mset (mset (map g xs))" by simp
  then show ?thesis by (simp only: sum_mset_sum_list)
qed

lemma sum_list_filter_le:
  "(\<And>x. x \<in> set xs \<Longrightarrow> (0::'b::{ordered_comm_monoid_add}) \<le> g x) \<Longrightarrow>
   sum_list (map g (filter P xs)) \<le> sum_list (map g xs)"
  by (induction xs) (auto intro: add_mono add_increasing)

lemma distinct_map_filter_inj:
  "distinct (map f xs) \<Longrightarrow> x \<in> set xs \<Longrightarrow> y \<in> set xs \<Longrightarrow> f x = f y \<Longrightarrow> x = y"
  by (auto simp: distinct_map inj_on_def)

text \<open>Sorting by a key without ties forgets the order of the input.\<close>

lemma sort_key_unique:
  assumes "mset xs = mset ys" and "distinct (map f xs)"
  shows "sort_key f xs = sort_key f ys"
proof -
  have "set ys = set xs" using assms(1) by (metis set_mset_mset)
  then have set: "set (sort_key f xs) = set xs" "set (sort_key f ys) = set xs"
    by simp_all
  have m: "mset (map f (sort_key f xs)) = mset (map f (sort_key f ys))" using assms(1) by simp
  have "map f (sort_key f xs) = sort (map f (sort_key f ys))"
    using m by (intro properties_for_sort [symmetric]) simp_all
  also have "\<dots> = map f (sort_key f ys)" by (simp add: sorted_sort_id)
  finally have "map f (sort_key f xs) = map f (sort_key f ys)" .
  moreover have "inj_on f (set (sort_key f xs) \<union> set (sort_key f ys))"
    using assms(2) by (simp only: set Un_absorb distinct_map)
  ultimately show ?thesis by (rule map_inj_on)
qed

text \<open>The first element that satisfies a test, the \<open>for \<dots> if \<dots>: return\<close> loop.\<close>

lemma find_SomeD: "find P xs = Some x \<Longrightarrow> x \<in> set xs \<and> P x"
  by (induction xs) (auto split: if_splits)

section \<open>Decimal text of integers\<close>

text \<open>\<open>str(n)\<close> of a Python integer.\<close>

fun show_nat :: "nat \<Rightarrow> string" where
  "show_nat n = (if n < 10 then [char_of (48 + n)]
                 else show_nat (n div 10) @ [char_of (48 + n mod 10)])"

declare show_nat.simps [simp del]

definition show_int :: "int \<Rightarrow> string" where
  "show_int i = (if i < 0 then ''-'' @ show_nat (nat (- i)) else show_nat (nat i))"

text \<open>\<open>sep.join(parts)\<close>.\<close>

fun join :: "string \<Rightarrow> string list \<Rightarrow> string" where
  "join sep [] = []"
| "join sep [x] = x"
| "join sep (x # xs) = x @ sep @ join sep xs"

text \<open>The ASCII part of \<open>str.isspace\<close>, \<open>str.strip\<close>, \<open>str.upper\<close> and \<open>str.lower\<close>.\<close>

definition is_space :: "char \<Rightarrow> bool" where
  "is_space c \<longleftrightarrow> (let n = of_char c :: nat in n = 32 \<or> (9 \<le> n \<and> n \<le> 13) \<or> (28 \<le> n \<and> n \<le> 31))"

definition py_strip :: "string \<Rightarrow> string" where
  "py_strip s = rev (dropWhile is_space (rev (dropWhile is_space s)))"

definition upper_char :: "char \<Rightarrow> char" where
  "upper_char c = (let n = of_char c :: nat in if 97 \<le> n \<and> n \<le> 122 then char_of (n - 32) else c)"

definition lower_char :: "char \<Rightarrow> char" where
  "lower_char c = (let n = of_char c :: nat in if 65 \<le> n \<and> n \<le> 90 then char_of (n + 32) else c)"

definition py_upper :: "string \<Rightarrow> string" where
  "py_upper s = map upper_char s"

definition py_lower :: "string \<Rightarrow> string" where
  "py_lower s = map lower_char s"

lemma py_strip_Nil [simp]: "py_strip [] = []"
  by (simp add: py_strip_def)

lemma py_strip_eq_Nil: "py_strip s = [] \<longleftrightarrow> (\<forall>c \<in> set s. is_space c)"
proof
  assume "py_strip s = []"
  then have *: "\<forall>c \<in> set (dropWhile is_space s). is_space c"
    by (simp add: py_strip_def dropWhile_eq_Nil_conv)
  have "dropWhile is_space s = []"
    using * hd_dropWhile [of is_space s] hd_in_set [of "dropWhile is_space s"] by blast
  then show "\<forall>c \<in> set s. is_space c" by (simp add: dropWhile_eq_Nil_conv)
next
  assume "\<forall>c \<in> set s. is_space c"
  then have "dropWhile is_space s = []" by (simp add: dropWhile_eq_Nil_conv)
  then show "py_strip s = []" by (auto simp: py_strip_def dest: set_dropWhileD)
qed

end
