(* ===== verification/Floats.thy ===== *)
theory Floats
  imports ADA_Prelude "HOL-Library.Log_Nat"
begin

text \<open>
  Python's \<open>float\<close>.  A finite binary64 value is the rational number it denotes, and every
  arithmetic operation of the source rounds its exact result with \<open>fl\<close>: to nearest, ties to
  even, 53 significant bits, and gradual underflow below \<open>2 ^ -1022\<close>.  Overflow to infinity
  and NaN are not modelled: the quantities of this program (probabilities, day counts and
  rupiah amounts) stay far below \<open>2 ^ 1024\<close>.  The sign of zero is not modelled either, and
  no comparison of the source can see it.

  The lemmas give what the components use: \<open>fl\<close> is monotone, odd, exact on every value
  with at most 53 significant bits, and the quotient of two integers below \<open>2 ^ 52\<close> rounds
  to a float with the same integer ceiling.
\<close>

type_synonym pyfloat = rat

section \<open>Rounding\<close>

text \<open>Round to the nearest integer, ties to even: Python's \<open>round(x)\<close>.\<close>

definition round_half_even :: "rat \<Rightarrow> int" where
  "round_half_even x =
     (let f = \<lfloor>x\<rfloor>; d = x - of_int f
      in if d < 1/2 then f else if 1/2 < d then f + 1 else if even f then f else f + 1)"

text \<open>The exponent of a positive rational: \<open>2 ^ ilog2 x \<le> x < 2 ^ (ilog2 x + 1)\<close>.\<close>

definition ilog2 :: "rat \<Rightarrow> int" where
  "ilog2 x = (case quotient_of x of (n, d) \<Rightarrow>
     let e = bitlen n - bitlen d in if 2 powi e \<le> x then e else e - 1)"

definition ulp_exp :: "rat \<Rightarrow> int" where
  "ulp_exp x = max (ilog2 x) (-1022) - 52"

definition fl :: "rat \<Rightarrow> pyfloat" where
  "fl x = (if x = 0 then 0
           else of_int (round_half_even (x / 2 powi ulp_exp \<bar>x\<bar>)) * 2 powi ulp_exp \<bar>x\<bar>)"

text \<open>
  Evaluation on integers: every rounded value is a quotient of two numerals, so that a long computation
  does not carry its own history along.
\<close>

definition round_quotient :: "int \<Rightarrow> int \<Rightarrow> int" where
  "round_quotient n d =
     (let f = n div d; r = n mod d in if 2 * r < d then f else if d < 2 * r then f + 1 else if even f then f else f + 1)"

lemma round_half_even_div:
  assumes "0 < d"
  shows "round_half_even (of_int n / of_int d) = round_quotient n d"
proof -
  have fl: "\<lfloor>of_int n / of_int d :: rat\<rfloor> = n div d" by (rule floor_divide_of_int_eq)
  have "of_int n = of_int (n div d) * of_int d + (of_int (n mod d) :: rat)"
    by (metis div_mult_mod_eq of_int_add of_int_mult)
  then have r: "of_int n / of_int d - of_int (n div d) = (of_int (n mod d) / of_int d :: rat)"
    using assms by (simp add: field_simps)
  let ?r = "n mod d"
  have "(of_int ?r / of_int d < (1/2 :: rat)) = (rat_of_int (2 * ?r) < of_int d)"
    and "((1/2 :: rat) < of_int ?r / of_int d) = (rat_of_int d < of_int (2 * ?r))"
    using assms by (simp_all add: divide_less_eq less_divide_eq mult.commute)
  then have less: "(of_int ?r / of_int d < (1/2 :: rat)) = (2 * ?r < d)" "((1/2 :: rat) < of_int ?r / of_int d) = (d < 2 * ?r)"
    by (simp_all only: of_int_less_iff)
  show ?thesis unfolding round_half_even_def round_quotient_def Let_def fl r less ..
qed

lemma round_half_even_code [code]: "round_half_even x = (case quotient_of x of (n, d) \<Rightarrow> round_quotient n d)"
proof (cases "quotient_of x")
  case (Pair n d)
  show ?thesis
    using round_half_even_div [OF quotient_of_denom_pos [OF Pair], of n] quotient_of_div [OF Pair, symmetric] by (simp add: Pair)
qed

lemma fl_code [code]:
  "fl x = (case quotient_of x of (n, d) \<Rightarrow>
     if n = 0 then 0
     else let e = ulp_exp \<bar>x\<bar> in
       if 0 \<le> e then of_int (round_quotient n (d * 2 ^ nat e) * 2 ^ nat e)
       else of_int (round_quotient (n * 2 ^ nat (- e)) d) / of_int (2 ^ nat (- e)))"
proof (cases "quotient_of x")
  case (Pair n d)
  have x: "x = of_int n / of_int d" and d: "0 < d" using quotient_of_div [OF Pair] quotient_of_denom_pos [OF Pair] by simp_all
  define e where "e = ulp_exp \<bar>x\<bar>"
  have zero: "x = 0 \<longleftrightarrow> n = 0" using d by (simp add: x)
  show ?thesis
  proof (cases "0 \<le> e")
    case True
    then have scale: "2 powi e = rat_of_int (2 ^ nat e)" by (simp add: power_int_def)
    have "x / 2 powi e = of_int n / of_int (d * 2 ^ nat e)" by (simp add: scale x)
    then have "round_half_even (x / 2 powi e) = round_quotient n (d * 2 ^ nat e)" using d round_half_even_div [of "d * 2 ^ nat e" n] by simp
    then show ?thesis using True by (simp add: Pair fl_def zero scale flip: e_def)
  next
    case False
    then have scale: "2 powi e = inverse (rat_of_int (2 ^ nat (- e)))" by (simp add: power_int_def power_one_over inverse_eq_divide)
    have "x / 2 powi e = of_int (n * 2 ^ nat (- e)) / of_int d" by (simp add: scale x divide_inverse)
    then have "round_half_even (x / 2 powi e) = round_quotient (n * 2 ^ nat (- e)) d" using d by (simp only: round_half_even_div)
    then show ?thesis using False by (simp add: Pair fl_def zero scale divide_inverse flip: e_def)
  qed
qed
section \<open>Arithmetic of the source\<close>

definition fadd :: "pyfloat \<Rightarrow> pyfloat \<Rightarrow> pyfloat" where "fadd a b = fl (a + b)"
definition fsub :: "pyfloat \<Rightarrow> pyfloat \<Rightarrow> pyfloat" where "fsub a b = fl (a - b)"
definition fmul :: "pyfloat \<Rightarrow> pyfloat \<Rightarrow> pyfloat" where "fmul a b = fl (a * b)"
definition fdiv :: "pyfloat \<Rightarrow> pyfloat \<Rightarrow> pyfloat" where "fdiv a b = fl (a / b)"

text \<open>\<open>float(n)\<close>, and the correctly rounded \<open>a / b\<close> of two integers.\<close>

definition float_of_int :: "int \<Rightarrow> pyfloat" where "float_of_int n = fl (of_int n)"
definition int_truediv :: "int \<Rightarrow> int \<Rightarrow> pyfloat" where
  "int_truediv a b = fl (of_int a / of_int b)"

text \<open>\<open>int(x)\<close> truncates towards zero; \<open>round(x, d)\<close> rounds the exact value to \<open>d\<close> decimals.\<close>

definition py_int :: "pyfloat \<Rightarrow> int" where
  "py_int x = (if x < 0 then - \<lfloor>- x\<rfloor> else \<lfloor>x\<rfloor>)"

definition py_round :: "pyfloat \<Rightarrow> nat \<Rightarrow> pyfloat" where
  "py_round x d = fl (of_int (round_half_even (x * 10 ^ d)) / 10 ^ d)"

text \<open>\<open>sum(xs)\<close> adds from the left, starting at 0 (the deployed interpreter is Python 3.11).\<close>

definition py_fsum :: "pyfloat list \<Rightarrow> pyfloat" where
  "py_fsum xs = foldl fadd 0 xs"

text \<open>\<open>statistics.fmean\<close>: an exactly rounded sum, then one division.\<close>

definition py_fmean :: "pyfloat list \<Rightarrow> pyfloat" where
  "py_fmean xs = fdiv (fl (sum_list xs)) (float_of_int (int (length xs)))"

text \<open>\<open>statistics.median\<close> of a non-empty list.\<close>

definition py_median :: "pyfloat list \<Rightarrow> pyfloat" where
  "py_median xs =
     (let s = sort xs; n = length s; i = n div 2
      in if odd n then s ! i else fdiv (fadd (s ! (i - 1)) (s ! i)) 2)"

section \<open>Rounding to an integer\<close>

lemma round_half_even_of_int [simp]: "round_half_even (of_int n) = n"
  by (simp add: round_half_even_def)

lemma round_half_even_0 [simp]: "round_half_even 0 = 0"
  using round_half_even_of_int [of 0] by simp

lemma round_half_even_near: "\<bar>of_int (round_half_even x) - x\<bar> \<le> 1/2"
proof -
  have "of_int \<lfloor>x\<rfloor> \<le> x" and "x < of_int \<lfloor>x\<rfloor> + 1" by linarith+
  then show ?thesis by (auto simp: round_half_even_def Let_def abs_le_iff)
qed

lemma round_half_even_cases: "round_half_even x = \<lfloor>x\<rfloor> \<or> round_half_even x = \<lfloor>x\<rfloor> + 1"
  by (simp add: round_half_even_def Let_def)

lemma round_half_even_mono: "x \<le> y \<Longrightarrow> round_half_even x \<le> round_half_even y"
proof (cases "\<lfloor>x\<rfloor> = \<lfloor>y\<rfloor>")
  case True
  moreover assume "x \<le> y"
  ultimately show ?thesis by (auto simp: round_half_even_def Let_def)
next
  case False
  assume "x \<le> y"
  with False have "\<lfloor>x\<rfloor> + 1 \<le> \<lfloor>y\<rfloor>" by (meson floor_mono order_neq_le_trans zless_imp_add1_zle)
  with round_half_even_cases [of x] round_half_even_cases [of y] show ?thesis by auto
qed

lemma round_half_even_minus: "round_half_even (- x) = - round_half_even x"
proof (cases "x = of_int \<lfloor>x\<rfloor>")
  case True
  then have "x = of_int \<lfloor>x\<rfloor> \<and> - x = of_int (- \<lfloor>x\<rfloor>)" by simp
  then show ?thesis by (metis round_half_even_of_int)
next
  case False
  have "of_int \<lfloor>x\<rfloor> < x" and "x < of_int \<lfloor>x\<rfloor> + 1"
    using False of_int_floor_le [of x] by linarith+
  then have "\<lfloor>- x\<rfloor> = - \<lfloor>x\<rfloor> - 1" by (simp add: floor_eq_iff)
  then show ?thesis by (auto simp: round_half_even_def Let_def)
qed

section \<open>The exponent\<close>

lemma powi_mono: "i \<le> j \<Longrightarrow> (2::rat) powi i \<le> 2 powi j"
  by (intro power_int_increasing) auto

lemma powi_pos [simp]: "0 < (2::rat) powi i"
  by (simp add: zero_less_power_int)

lemma powi_Suc: "(2::rat) powi (i + 1) = 2 * 2 powi i"
  by (simp add: power_int_add)

lemma ilog2_bounds:
  assumes "0 < x"
  shows "2 powi ilog2 x \<le> x" and "x < 2 powi (ilog2 x + 1)"
proof -
  obtain n d where q: "quotient_of x = (n, d)" by (cases "quotient_of x")
  then have d: "0 < d" and x: "x = of_int n / of_int d"
    by (auto dest: quotient_of_denom_pos quotient_of_div)
  with assms have n: "0 < n" by (simp add: zero_less_divide_iff)
  let ?e = "bitlen n - bitlen d"
  have b: "1 \<le> bitlen n" "1 \<le> bitlen d" using n d by (simp_all add: bitlen_alt_def)
  have pow: "(2::rat) powi (k - 1) \<le> of_int m \<and> of_int m < (2::rat) powi k"
    if "k = bitlen m" "1 \<le> k" "0 < m" for k m
  proof -
    have "2 ^ nat (k - 1) \<le> m" and "m < 2 ^ nat k" using bitlen_bounds [OF that(3)] that(1) by auto
    then have "(2::rat) ^ nat (k - 1) \<le> of_int m" and "of_int m < (2::rat) ^ nat k"
      by (metis of_int_le_iff of_int_numeral of_int_power, metis of_int_less_iff of_int_numeral of_int_power)
    with that(2) show ?thesis by (simp add: power_int_def)
  qed
  have lo: "2 powi (?e - 1) < x"
  proof -
    have "(2::rat) powi (?e - 1) * of_int d < 2 powi (?e - 1) * 2 powi bitlen d"
      using pow [OF refl b(2) d] by simp
    also have "\<dots> = 2 powi (bitlen n - 1)" by (simp flip: power_int_add)
    also have "\<dots> \<le> of_int n" using pow [OF refl b(1) n] by simp
    finally show ?thesis using d by (simp add: x field_simps)
  qed
  have hi: "x < 2 powi (?e + 1)"
  proof -
    have "of_int n < (2::rat) powi bitlen n" using pow [OF refl b(1) n] by simp
    also have "\<dots> = 2 powi (?e + 1) * 2 powi (bitlen d - 1)" by (simp flip: power_int_add)
    also have "\<dots> \<le> 2 powi (?e + 1) * of_int d"
      using pow [OF refl b(2) d] by (intro mult_left_mono) auto
    finally show ?thesis using d by (simp add: x field_simps)
  qed
  show "2 powi ilog2 x \<le> x" using q lo by (auto simp: ilog2_def Let_def)
  show "x < 2 powi (ilog2 x + 1)" using q hi by (auto simp: ilog2_def Let_def)
qed

lemma ilog2_mono: "0 < x \<Longrightarrow> x \<le> y \<Longrightarrow> ilog2 x \<le> ilog2 y"
proof (rule ccontr)
  assume x: "0 < x" and xy: "x \<le> y" and "\<not> ilog2 x \<le> ilog2 y"
  then have "(2::rat) powi (ilog2 y + 1) \<le> 2 powi ilog2 x" by (intro powi_mono) simp
  also have "\<dots> \<le> x" using x by (rule ilog2_bounds(1))
  also have "\<dots> \<le> y" by (rule xy)
  also have "\<dots> < 2 powi (ilog2 y + 1)" using x xy by (intro ilog2_bounds(2)) simp
  finally show False by simp
qed

section \<open>The rounding function\<close>

lemma fl_0 [simp]: "fl 0 = 0"
  by (simp add: fl_def)

lemma fl_minus: "fl (- x) = - fl x"
  by (simp add: fl_def round_half_even_minus)

lemma fl_pos_eq: "0 < x \<Longrightarrow> fl x = of_int (round_half_even (x / 2 powi ulp_exp x)) * 2 powi ulp_exp x"
  by (simp add: fl_def)

lemma round_half_even_nonneg: "0 \<le> x \<Longrightarrow> 0 \<le> round_half_even x"
  using round_half_even_mono [of 0 x] by simp

lemma fl_nonneg: "0 \<le> x \<Longrightarrow> 0 \<le> fl x"
  by (cases "x = 0") (auto simp: fl_pos_eq intro!: mult_nonneg_nonneg round_half_even_nonneg)

lemma ulp_scaled_bounds:
  assumes "0 < x"
  shows "x / 2 powi ulp_exp x < 2 ^ 53"
    and "-1022 < ilog2 x \<Longrightarrow> 2 ^ 52 \<le> x / 2 powi ulp_exp x"
proof -
  have "x < 2 powi (ilog2 x + 1)" using assms by (rule ilog2_bounds)
  also have "\<dots> \<le> 2 powi (ulp_exp x + 53)" by (intro powi_mono) (simp add: ulp_exp_def)
  also have "\<dots> = 2 ^ 53 * 2 powi ulp_exp x" by (simp add: power_int_add)
  finally show "x / 2 powi ulp_exp x < 2 ^ 53" by (simp add: pos_divide_less_eq)
next
  assume "-1022 < ilog2 x"
  then have "(2::rat) ^ 52 * 2 powi ulp_exp x = 2 powi ilog2 x"
    by (simp add: ulp_exp_def max_def power_int_diff)
  also have "\<dots> \<le> x" using assms by (rule ilog2_bounds)
  finally show "2 ^ 52 \<le> x / 2 powi ulp_exp x" by (simp add: pos_le_divide_eq)
qed

lemma fl_mono_pos:
  assumes x: "0 < x" and xy: "x \<le> y"
  shows "fl x \<le> fl y"
proof (cases "ulp_exp x = ulp_exp y")
  case True
  have "x / 2 powi ulp_exp x \<le> y / 2 powi ulp_exp x" using xy by (simp add: divide_right_mono)
  then have "round_half_even (x / 2 powi ulp_exp x) \<le> round_half_even (y / 2 powi ulp_exp x)"
    by (rule round_half_even_mono)
  with True x xy show ?thesis by (simp add: fl_pos_eq mult_right_mono)
next
  case False
  have y: "0 < y" using x xy by simp
  have le: "ilog2 x \<le> ilog2 y" using x xy by (rule ilog2_mono)
  with False have norm: "-1022 < ilog2 y" and lt: "ulp_exp x + 1 \<le> ulp_exp y"
    by (auto simp: ulp_exp_def)
  have "round_half_even (x / 2 powi ulp_exp x) \<le> round_half_even (2 ^ 53)"
    using ulp_scaled_bounds(1) [OF x] by (intro round_half_even_mono) simp
  then have rx: "of_int (round_half_even (x / 2 powi ulp_exp x)) \<le> (2::rat) ^ 53"
    using round_half_even_of_int [of "2 ^ 53"] by (metis of_int_le_iff of_int_numeral of_int_power)
  have "round_half_even (2 ^ 52) \<le> round_half_even (y / 2 powi ulp_exp y)"
    using ulp_scaled_bounds(2) [OF y norm] by (rule round_half_even_mono)
  then have ry: "(2::rat) ^ 52 \<le> of_int (round_half_even (y / 2 powi ulp_exp y))"
    using round_half_even_of_int [of "2 ^ 52"] by (metis of_int_le_iff of_int_numeral of_int_power)
  have "fl x \<le> 2 ^ 53 * 2 powi ulp_exp x" using x rx by (simp add: fl_pos_eq mult_right_mono)
  also have "\<dots> = 2 ^ 52 * 2 powi (ulp_exp x + 1)" by (simp add: powi_Suc)
  also have "\<dots> \<le> 2 ^ 52 * 2 powi ulp_exp y" using lt by (intro mult_left_mono powi_mono) auto
  also have "\<dots> \<le> fl y" using y ry by (simp add: fl_pos_eq mult_right_mono)
  finally show ?thesis .
qed

lemma fl_mono: "x \<le> y \<Longrightarrow> fl x \<le> fl y"
proof -
  assume xy: "x \<le> y"
  consider "0 < x" | "x \<le> 0" "0 \<le> y" | "y < 0" by linarith
  then show ?thesis
  proof cases
    case 1 then show ?thesis using xy by (rule fl_mono_pos)
  next
    case 2
    then have "0 \<le> fl (- x)" and "0 \<le> fl y" by (simp_all add: fl_nonneg)
    then show ?thesis by (simp add: fl_minus)
  next
    case 3
    then have "fl (- y) \<le> fl (- x)" using xy by (intro fl_mono_pos) auto
    then show ?thesis by (simp add: fl_minus)
  qed
qed

section \<open>Representable values\<close>

definition is_float :: "rat \<Rightarrow> bool" where
  "is_float x \<longleftrightarrow> (\<exists>k j. x = of_int k * 2 powi j \<and> \<bar>k\<bar> \<le> 2 ^ 53 \<and> -1074 \<le> j)"

lemma fl_exact_pos:
  assumes x: "x = of_int k * 2 powi j" and pos: "0 < k" and k: "k \<le> 2 ^ 53" and j: "-1074 \<le> j"
  shows "fl x = x"
proof -
  have x0: "0 < x" using x pos by simp
  have "\<exists>m::int. x / 2 powi ulp_exp x = of_int m"
  proof (cases "ulp_exp x \<le> j")
    case True
    have "x / 2 powi ulp_exp x = of_int k * 2 powi (j - ulp_exp x)"
      by (simp add: x power_int_diff)
    also have "\<dots> = of_int (k * 2 ^ nat (j - ulp_exp x))" using True by (simp add: power_int_def)
    finally show ?thesis by blast
  next
    case False
    then have norm: "-1022 < ilog2 x" and u: "ulp_exp x = ilog2 x - 52"
      using j by (auto simp: ulp_exp_def)
    have "2 powi ilog2 x \<le> x" using x0 by (rule ilog2_bounds)
    also have "x \<le> 2 ^ 53 * 2 powi j"
    proof -
      have "(of_int k :: rat) \<le> 2 ^ 53" using k by (metis of_int_le_iff of_int_numeral of_int_power)
      then show ?thesis by (simp add: x mult_right_mono)
    qed
    also have "\<dots> = 2 powi (j + 53)" by (simp add: power_int_add)
    finally have "\<not> (2::rat) powi (j + 53) < 2 powi ilog2 x" by simp
    then have "ilog2 x \<le> j + 53"
      using power_int_strict_increasing [of "j + 53" "ilog2 x" "2::rat"] by fastforce
    with False u have jj: "ilog2 x = j + 53" by simp
    have "(2::rat) powi (j + 53) \<le> of_int k * 2 powi j"
      using \<open>2 powi ilog2 x \<le> x\<close> jj x by simp
    then have "2 ^ 53 \<le> (of_int k :: rat)" by (simp add: power_int_add)
    then have "x = 2 ^ 53 * 2 powi j"
      using x k by (metis antisym of_int_le_iff of_int_numeral of_int_power)
    then have "x / 2 powi ulp_exp x = of_int (2 ^ 52)"
      using u jj by (simp add: power_int_add)
    then show ?thesis by blast
  qed
  then obtain m :: int where "x / 2 powi ulp_exp x = of_int m" by blast
  with x0 show ?thesis by (simp add: fl_pos_eq) (metis divide_eq_eq powi_pos less_irrefl)
qed

lemma fl_exact: "is_float x \<Longrightarrow> fl x = x"
proof -
  assume "is_float x"
  then obtain k j where x: "x = of_int k * 2 powi j" and k: "\<bar>k\<bar> \<le> 2 ^ 53" and j: "-1074 \<le> j"
    by (auto simp: is_float_def)
  consider "0 < k" | "k = 0" | "k < 0" by linarith
  then show ?thesis
  proof cases
    case 1 then show ?thesis using x k j by (intro fl_exact_pos) auto
  next
    case 2 then show ?thesis using x by simp
  next
    case 3
    then have "fl (- x) = - x" using x k j by (intro fl_exact_pos [where k = "- k"]) auto
    then show ?thesis by (simp add: fl_minus)
  qed
qed

lemma is_float_of_int: "\<bar>k\<bar> \<le> 2 ^ 53 \<Longrightarrow> is_float (of_int k)"
  unfolding is_float_def by (rule exI [of _ k], rule exI [of _ 0]) simp

lemma fl_of_int: "\<bar>k\<bar> \<le> 2 ^ 53 \<Longrightarrow> fl (of_int k) = of_int k"
  by (simp add: fl_exact is_float_of_int)

text \<open>Every result is a float, so rounding twice is rounding once.\<close>

lemma fl_is_float: "is_float (fl x)"
proof -
  have pos: "is_float (fl x)" if x: "0 < x" for x
  proof -
    let ?s = "x / 2 powi ulp_exp x"
    have "?s \<le> 2 ^ 53" using ulp_scaled_bounds [OF x] by (simp add: less_imp_le)
    then have "round_half_even ?s \<le> round_half_even (of_int (2 ^ 53))"
      by (intro round_half_even_mono) simp
    then have "round_half_even ?s \<le> 2 ^ 53" by (simp only: round_half_even_of_int)
    moreover have "0 \<le> round_half_even ?s" using x by (intro round_half_even_nonneg) simp
    moreover have "-1074 \<le> ulp_exp x" by (simp add: ulp_exp_def)
    ultimately show ?thesis unfolding is_float_def fl_pos_eq [OF x] by (intro exI conjI refl) auto
  qed
  have neg: "is_float y" if y: "is_float (- y)" for y
  proof -
    obtain k j where "- y = of_int k * 2 powi j" "\<bar>k\<bar> \<le> 2 ^ 53" "-1074 \<le> j"
      using y by (auto simp: is_float_def)
    moreover from this(1) have "y = of_int (- k) * 2 powi j" by simp
    ultimately show ?thesis unfolding is_float_def by (intro exI [of _ "- k"] exI [of _ j]) simp
  qed
  consider "0 < x" | "x = 0" | "0 < - x" by linarith
  then show ?thesis
  proof cases
    case 2
    then show ?thesis using is_float_of_int [of 0] by simp
  next
    case 3
    then have "is_float (- fl x)" using pos [of "- x"] by (simp add: fl_minus)
    then show ?thesis by (rule neg)
  qed (rule pos)
qed

lemma fl_idem [simp]: "fl (fl x) = fl x"
  by (simp add: fl_exact fl_is_float)

text \<open>A left-to-right sum of non-negative floats grows with the terms that are kept.\<close>

lemma fsum_filter_mono:
  assumes "\<forall>w \<in> set ws. 0 \<le> snd w" and "\<And>w. w \<in> set ws \<Longrightarrow> P w \<Longrightarrow> Q w"
  shows "py_fsum (map snd (filter P ws)) \<le> py_fsum (map snd (filter Q ws))"
proof -
  have "foldl fadd (fl a) (map snd (filter P ws)) \<le> foldl fadd (fl b) (map snd (filter Q ws))"
    if "fl a \<le> fl b" for a b
    using assms that
  proof (induction ws arbitrary: a b)
    case (Cons w ws)
    have w: "0 \<le> snd w" using Cons.prems(1) by simp
    have both: "fl (fl a + snd w) \<le> fl (fl b + snd w)" using Cons.prems(3) by (intro fl_mono) simp
    have "fl a \<le> fl (fl b + snd w)"
      using Cons.prems(3) w fl_mono [of "fl b" "fl b + snd w"] by simp
    then show ?case
      using Cons.IH [of "fl a + snd w" "fl b + snd w"] Cons.IH [of a "fl b + snd w"] Cons.IH [of a b]
        both Cons.prems by (auto simp: fadd_def)
  qed simp
  from this [of 0 0] show ?thesis by (simp add: py_fsum_def)
qed

lemma fsum_nonneg: "\<forall>x \<in> set xs. 0 \<le> x \<Longrightarrow> 0 \<le> py_fsum xs"
proof -
  have "0 \<le> foldl fadd a xs" if "0 \<le> a" "\<forall>x \<in> set xs. 0 \<le> x" for a
    using that by (induction xs arbitrary: a) (auto simp: fadd_def fl_nonneg)
  then show "\<forall>x \<in> set xs. 0 \<le> x \<Longrightarrow> 0 \<le> py_fsum xs" by (simp add: py_fsum_def)
qed

lemma fl_1 [simp]: "fl 1 = 1"
  using fl_of_int [of 1] by simp

lemma fl_le_of_int: "x \<le> of_int k \<Longrightarrow> \<bar>k\<bar> \<le> 2 ^ 53 \<Longrightarrow> fl x \<le> of_int k"
  using fl_mono [of x "of_int k"] by (simp add: fl_of_int)

lemma of_int_le_fl: "of_int k \<le> x \<Longrightarrow> \<bar>k\<bar> \<le> 2 ^ 53 \<Longrightarrow> of_int k \<le> fl x"
  using fl_mono [of "of_int k" x] by (simp add: fl_of_int)

lemma fl_unit: "0 \<le> x \<Longrightarrow> x \<le> 1 \<Longrightarrow> 0 \<le> fl x \<and> fl x \<le> 1"
  using fl_mono [of x 1] by (simp add: fl_nonneg)

section \<open>The ceiling of a rounded quotient\<close>

text \<open>
  \<open>math.ceil(a / b)\<close> on integers goes through a float.  Below \<open>2 ^ 52\<close> the rounding never
  reaches the integer below, so the ceiling is the exact one.
\<close>

lemma power2_between: "1 \<le> b \<Longrightarrow> \<exists>k. b \<le> 2 ^ k \<and> 2 ^ k < 2 * b" for b :: nat
proof (induction b rule: less_induct)
  case (less b)
  show ?case
  proof (cases "b = 1")
    case True then show ?thesis by (intro exI [of _ 0]) simp
  next
    case False
    let ?c = "(b + 1) div 2"
    have "1 \<le> ?c" "?c < b" using less.prems False by auto
    from less.IH [OF this(2,1)] obtain k where k: "?c \<le> 2 ^ k" "2 ^ k < 2 * ?c" by blast
    show ?thesis
    proof (cases "b \<le> 2 ^ k")
      case True
      moreover have "2 ^ k < 2 * b" using k(2) less.prems by auto
      ultimately show ?thesis by blast
    next
      case False
      then have "b \<le> 2 ^ Suc k" "2 ^ Suc k < 2 * b" using k(1) by auto
      then show ?thesis by blast
    qed
  qed
qed

lemma fl_above_of_int:
  assumes m: "0 \<le> m" "m * int b + 1 \<le> 2 ^ 52" and b: "1 \<le> b" "b \<le> 2 ^ 52"
    and x: "of_int m + 1 / of_nat b \<le> x"
  shows "of_int m < fl x"
proof -
  obtain k where k: "b \<le> 2 ^ k" "2 ^ k < 2 * b" using power2_between [OF b(1)] by blast
  have "(2::nat) ^ k < 2 ^ 53" using k(2) b(2) by simp
  then have "k < 53" by (rule power_less_imp_less_exp [rotated]) simp
  then have kle: "k \<le> 53" by simp
  let ?r = "of_int (m * 2 ^ k + 1) * (2::rat) powi (- int k)"
  have req: "?r = of_int m + 1 / 2 ^ k" by (simp add: field_simps power_int_minus)
  have "m * 2 ^ k \<le> m * (2 * int b)"
    using k(2) m(1) by (intro mult_left_mono) (metis of_nat_less_iff of_nat_mult of_nat_numeral of_nat_power less_imp_le)
  then have small: "m * 2 ^ k + 1 \<le> 2 ^ 53" using m(2) by simp
  have "is_float ?r" unfolding is_float_def
    using small m(1) kle by (intro exI [of _ "m * 2 ^ k + 1"] exI [of _ "- int k"]) simp
  then have "fl ?r = ?r" by (rule fl_exact)
  moreover have "?r \<le> x"
  proof -
    have "(of_nat b :: rat) \<le> 2 ^ k" using k(1) by (metis of_nat_le_iff of_nat_numeral of_nat_power)
    then have "1 / 2 ^ k \<le> 1 / (of_nat b :: rat)" using b(1) by (simp add: frac_le)
    with x req show ?thesis by linarith
  qed
  ultimately have "?r \<le> fl x" using fl_mono by metis
  moreover have "of_int m < ?r" using req by simp
  ultimately show ?thesis by linarith
qed

theorem ceiling_int_truediv:
  assumes a: "0 \<le> a" "a < 2 ^ 52" and b: "0 < b" "b \<le> 2 ^ 52"
  shows "\<lceil>int_truediv a b\<rceil> = \<lceil>(of_int a :: rat) / of_int b\<rceil>"
proof (cases "b dvd a")
  case True
  then obtain q where q: "a = b * q" by blast
  have "q * 1 \<le> q * b" if "0 \<le> q" using b(1) that by (intro mult_left_mono) auto
  moreover have "0 \<le> q" using a(1) b(1) q by (simp add: zero_le_mult_iff)
  ultimately have "\<bar>q\<bar> \<le> 2 ^ 53" using a q by (simp add: mult.commute)
  then show ?thesis using b(1) q by (simp add: int_truediv_def fl_of_int)
next
  case False
  let ?x = "(of_int a :: rat) / of_int b" and ?m = "a div b"
  have "a mod b \<noteq> 0" and "0 \<le> a mod b" using False b(1) by (simp_all add: dvd_eq_mod_eq_0)
  then have mod: "1 \<le> a mod b" by linarith
  have ab: "?m * b + a mod b = a" by simp
  have xm: "?x = of_int ?m + of_int (a mod b) / of_int b"
    using b(1) by (metis (no_types) ab add_divide_distrib nonzero_mult_div_cancel_right of_int_add
        of_int_eq_0_iff of_int_mult order_less_irrefl)
  have m0: "0 \<le> ?m" using a(1) b(1) by (simp add: pos_imp_zdiv_nonneg_iff)
  have "?m * 1 \<le> ?m * b" using b(1) m0 by (intro mult_left_mono) auto
  then have ml: "?m \<le> a" using ab mod by linarith
  have lower: "of_int ?m + 1 / of_nat (nat b) \<le> ?x"
    using mod b(1) by (simp add: xm divide_right_mono)
  have upper: "?x < of_int (?m + 1)"
    using b(1) by (simp add: xm)
  have "of_int ?m < fl ?x"
  proof (rule fl_above_of_int [OF m0 _ _ _ lower])
    have "?m * b + 1 \<le> 2 ^ 52" using ab mod a(2) by linarith
    then show "?m * int (nat b) + 1 \<le> 2 ^ 52" using b(1) by simp
  qed (use b in auto)
  moreover have "fl ?x \<le> of_int (?m + 1)"
    using upper ml a m0 by (intro fl_le_of_int) auto
  ultimately have "\<lceil>fl ?x\<rceil> = ?m + 1" by (simp add: ceiling_eq_iff)
  moreover have "\<lceil>?x\<rceil> = ?m + 1"
  proof -
    have "(0::rat) < 1 / of_nat (nat b)" using b(1) by simp
    then have "of_int ?m < of_int ?m + (1::rat) / of_nat (nat b)" by (simp only: less_add_same_cancel1)
    also have "\<dots> \<le> ?x" by (rule lower)
    finally have "of_int ?m < ?x" .
    with upper show ?thesis by (simp add: ceiling_eq_iff)
  qed
  ultimately show ?thesis by (simp add: int_truediv_def)
qed

end
