(* ===== verification/Contracts.thy ===== *)
theory Contracts
  imports Floats
begin

text \<open>
  The domain types of \<open>packages/core-contracts\<close> (L0), class by class: enumerations as
  datatypes with the source's constructors, frozen models as records whose fields carry a
  short prefix for their class.  A timezone-aware \<open>datetime\<close> is its instant in microseconds;
  a canonical event also keeps the UTC offset it was written with, which the code reads
  when it takes a calendar date.  The validators of the models are functions into results.
  The recommendation state machine (\<open>assert_transition\<close>) is in \<open>Lifecycle\<close>.
\<close>

section \<open>Instants and JSON values\<close>

type_synonym instant = int

definition timedelta_days :: "int \<Rightarrow> int" where
  "timedelta_days d = d * 86400000000"

text \<open>\<open>delta.total_seconds() / 86400\<close>\<close>

definition days_of :: "int \<Rightarrow> pyfloat" where
  "days_of us = fdiv (int_truediv us 1000000) 86400"

datatype json = JNull | JBool bool | JInt int | JFloat pyfloat | JStr string
  | JList "json list" | JDict "(string \<times> json) list"

section \<open>events.py\<close>

datatype canonical_event_type =
    PAYMENT | P2P_TRANSFER | TOPUP | WITHDRAWAL | SPLIT_BILL_CREATED | SPLIT_BILL_SETTLED
  | RECURRING_PAYMENT | LOAN_DISBURSED | LOAN_REPAYMENT | LOAN_REPAYMENT_LATE
  | SESSION_OPEN | FEATURE_USED | SUPPORT_CONTACT

definition COUNTERPARTY_EVENT_TYPES :: "canonical_event_type list" where
  "COUNTERPARTY_EVENT_TYPES =
     [P2P_TRANSFER, SPLIT_BILL_CREATED, SPLIT_BILL_SETTLED, RECURRING_PAYMENT]"

definition ALLOWED_ATTRIBUTE_KEYS :: "string list" where
  "ALLOWED_ATTRIBUTE_KEYS = [''channel'', ''region_code'', ''cohort_key'']"

record canonical_event =
  e_tenant_id :: string
  e_client_event_id :: string
  e_event_type :: canonical_event_type
  e_occurred_at :: instant
  e_utcoffset :: int
  e_user_pseudonym :: string
  e_amount_idr :: "int option"
  e_counterparty_pseudonym :: "string option"
  e_attributes :: "(string \<times> json) list"

text \<open>A parsed timestamp may lack a timezone; the model's validators reject such an event.\<close>

record py_datetime =
  dt_instant :: instant
  dt_offset :: "int option"

definition whitelist_attributes :: "(string \<times> json) list \<Rightarrow> (string \<times> json) list result" where
  "whitelist_attributes attrs =
     (if list_all (\<lambda>k. k \<in> set ALLOWED_ATTRIBUTE_KEYS) (map fst attrs) then Inr attrs
      else Inl (ValidationError ''attributes contains non-whitelisted keys''))"

definition make_canonical_event ::
  "string \<Rightarrow> string \<Rightarrow> canonical_event_type \<Rightarrow> py_datetime \<Rightarrow> string \<Rightarrow> int option \<Rightarrow>
   string option \<Rightarrow> (string \<times> json) list \<Rightarrow> canonical_event result" where
  "make_canonical_event tid ceid ty ts user amount cp attrs =
     (case dt_offset ts of
        None \<Rightarrow> Inl (ValidationError ''occurred_at must be timezone-aware'')
      | Some off \<Rightarrow>
          bind_result (whitelist_attributes attrs) (\<lambda>a. Inr
            \<lparr>e_tenant_id = tid, e_client_event_id = ceid, e_event_type = ty,
             e_occurred_at = dt_instant ts, e_utcoffset = off, e_user_pseudonym = user,
             e_amount_idr = amount, e_counterparty_pseudonym = cp, e_attributes = a\<rparr>))"

section \<open>external.py\<close>

datatype scope_type = CLIENT | REGION | COHORT
datatype signal_type = NEWS_SENTIMENT | SOCIAL_SENTIMENT | SECTOR_TREND

record external_signal =
  s_signal_id :: string
  s_source :: string
  s_scope_type :: scope_type
  s_scope_key :: string
  s_signal_type :: signal_type
  s_value :: pyfloat
  s_observed_at :: instant

section \<open>graph.py\<close>

datatype pattern_type = CIRCLE_SPECIFIC | MARKET_DRIVEN | STABLE

record edge =
  ed_user :: string
  ed_counterparty :: string
  ed_weight :: pyfloat
  ed_count :: int

record circle_snapshot =
  cs_user_pseudonym :: string
  cs_circle_size :: int
  cs_ratio_now :: pyfloat
  cs_ratio_30d_ago :: pyfloat
  cs_delta_stability :: pyfloat
  cs_pattern_type :: pattern_type

record circle =
  ci_circle_id :: string
  ci_members :: "string list"

section \<open>scores.py\<close>

datatype impact_segment = PERSUADABLE | SURE_THING | LOST_CAUSE | SLEEPING_DOG

record risk_score =
  rs_user_pseudonym :: string
  rs_churn_risk :: pyfloat
  rs_model :: string
  rs_context_row_count :: int
  rs_external_signal_id :: "string option"
  rs_external_signal_contribution :: pyfloat

record impact_score_rec =
  is_p_incentivized :: pyfloat
  is_p_not_incentivized :: pyfloat
  is_model :: string

definition impact_score :: "impact_score_rec \<Rightarrow> pyfloat" where
  "impact_score i = fsub (is_p_incentivized i) (is_p_not_incentivized i)"

record reason_factor =
  rf_code :: string
  rf_direction :: string
  rf_weight :: pyfloat
  rf_evidence :: "(string \<times> json) list"

section \<open>incentives.py\<close>

record incentive =
  in_code :: string
  in_display_name :: string
  in_cost_idr :: int
  in_encourages_borrowing :: bool
  in_changes_credit_terms :: bool
  in_is_group :: bool
  in_applicable_profile_types :: "string list"
  in_active :: bool

section \<open>measurement.py\<close>

datatype arm = CONTROL | NAIVE | ENGINE

text \<open>\<open>for arm in Arm\<close> runs in the order of the class body.\<close>

instantiation arm :: enum
begin
definition "enum_class.enum = [CONTROL, NAIVE, ENGINE]"
definition "enum_class.enum_all P \<longleftrightarrow> P CONTROL \<and> P NAIVE \<and> P ENGINE"
definition "enum_class.enum_ex P \<longleftrightarrow> P CONTROL \<or> P NAIVE \<or> P ENGINE"
instance
proof
  have univ: "(UNIV :: arm set) = {CONTROL, NAIVE, ENGINE}" by (auto intro: arm.exhaust)
  show "(UNIV :: arm set) = set enum_class.enum" by (simp add: enum_arm_def univ)
  show "distinct (enum_class.enum :: arm list)" by (simp add: enum_arm_def)
  show "enum_class.enum_all P \<longleftrightarrow> Ball (UNIV :: arm set) P" for P by (simp add: enum_all_arm_def univ)
  show "enum_class.enum_ex P \<longleftrightarrow> Bex (UNIV :: arm set) P" for P by (simp add: enum_ex_arm_def univ)
qed
end

record feature_snapshot =
  fs_tenant_id :: string
  fs_run_id :: string
  fs_user_pseudonym :: string
  fs_features :: "(string \<times> pyfloat) list"
  fs_churn_risk :: "pyfloat option"
  fs_impact_score :: "pyfloat option"
  fs_pattern_type :: "string option"
  fs_incentive_code :: "string option"
  fs_cost_idr :: int
  fs_business_value_idr :: int

record outcome_event =
  o_outcome_event_id :: string
  o_tenant_id :: string
  o_run_id :: string
  o_user_pseudonym :: string
  o_arm :: arm
  o_treated :: bool
  o_retained :: bool
  o_spend_idr :: int
  o_observed_at :: instant

record labeled_example =
  le_tenant_id :: string
  le_source_outcome_id :: string
  le_user_pseudonym :: string
  le_features :: "(string \<times> pyfloat) list"
  le_arm :: arm
  le_treated :: bool
  le_retained :: bool
  le_churn_risk :: "pyfloat option"
  le_impact_score :: "pyfloat option"
  le_pattern_type :: "string option"
  le_incentive_code :: "string option"
  le_cost_idr :: int
  le_business_value_idr :: int
  le_realized_value_idr :: pyfloat

section \<open>decision.py\<close>

record candidate =
  c_candidate_id :: string
  c_tenant_id :: string
  c_user_pseudonym :: string
  c_incentive_code :: string
  c_cost_idr :: int
  c_business_value_idr :: int
  c_encourages_borrowing :: bool
  c_changes_credit_terms :: bool
  c_group_id :: "string option"
  c_churn_risk :: pyfloat
  c_impact_score :: pyfloat
  c_segment :: impact_segment
  c_pattern_type :: pattern_type

record user_facts =
  uf_user_pseudonym :: string
  uf_now :: instant
  uf_late_repayment_at :: "instant list"
  uf_contacted_at :: "instant list"

datatype rule_code = RESPONSIBLE_LENDING | FREQUENCY_CAP | NO_CREDIT_DECISION | SEGMENT_EXCLUDED

record rule_result =
  rr_rule_code :: rule_code
  rr_allowed :: bool
  rr_reason :: string

record policy_decision =
  pd_candidate_id :: string
  pd_user_pseudonym :: string
  pd_outcome :: string
  pd_results :: "rule_result list"

definition decision_allowed :: "policy_decision \<Rightarrow> bool" where
  "decision_allowed d \<longleftrightarrow> pd_outcome d = ''ALLOW''"

definition denials :: "policy_decision \<Rightarrow> rule_result list" where
  "denials d = filter (\<lambda>r. \<not> rr_allowed r) (pd_results d)"

datatype ranking_strategy = TABPFN | SKLEARN_STAND_IN | FALLBACK | NAIVE_RISK_ONLY

record ranked_candidate =
  r_candidate :: candidate
  r_priority :: pyfloat
  r_ranking_strategy :: ranking_strategy

datatype exclusion_reason =
    BUDGET_EXHAUSTED | RUNNER_UP | NO_EXPECTED_GAIN | POLICY_DENIED | POLICY_RESPONSIBLE_LENDING
  | POLICY_FREQUENCY_CAP | POLICY_NO_CREDIT_DECISION | SEGMENT_SURE_THING | SEGMENT_LOST_CAUSE
  | SEGMENT_SLEEPING_DOG | GROUP_MEMBER_DENIED | CONTROL_HOLDOUT | IMPACT_UNAVAILABLE
  | NAIVE_BELOW_THRESHOLD | NAIVE_NOT_CHOSEN

record allocation_decision =
  ad_candidate_id :: string
  ad_choice_key :: string
  ad_selected :: bool
  ad_priority :: pyfloat
  ad_cost_idr :: int
  ad_rank :: "nat option"
  ad_is_runner_up :: bool
  ad_exclusion_reason :: "exclusion_reason option"

record allocation_result =
  ar_strategy :: string
  ar_budget_idr :: int
  ar_spent_idr :: int
  ar_objective_value_idr :: pyfloat
  ar_decisions :: "allocation_decision list"

definition ar_selected :: "allocation_result \<Rightarrow> allocation_decision list" where
  "ar_selected a = filter ad_selected (ar_decisions a)"

definition ar_excluded :: "allocation_result \<Rightarrow> allocation_decision list" where
  "ar_excluded a = filter (\<lambda>d. \<not> ad_selected d) (ar_decisions a)"

section \<open>The \<open>.value\<close> strings the code writes out\<close>

fun pattern_value :: "pattern_type \<Rightarrow> string" where
  "pattern_value CIRCLE_SPECIFIC = ''CIRCLE_SPECIFIC''"
| "pattern_value MARKET_DRIVEN = ''MARKET_DRIVEN''"
| "pattern_value STABLE = ''STABLE''"

fun segment_value :: "impact_segment \<Rightarrow> string" where
  "segment_value PERSUADABLE = ''PERSUADABLE''"
| "segment_value SURE_THING = ''SURE_THING''"
| "segment_value LOST_CAUSE = ''LOST_CAUSE''"
| "segment_value SLEEPING_DOG = ''SLEEPING_DOG''"

fun arm_value :: "arm \<Rightarrow> string" where
  "arm_value CONTROL = ''CONTROL''"
| "arm_value NAIVE = ''NAIVE''"
| "arm_value ENGINE = ''ENGINE''"

fun strategy_value :: "ranking_strategy \<Rightarrow> string" where
  "strategy_value TABPFN = ''TABPFN''"
| "strategy_value SKLEARN_STAND_IN = ''SKLEARN_STAND_IN''"
| "strategy_value FALLBACK = ''FALLBACK''"
| "strategy_value NAIVE_RISK_ONLY = ''NAIVE_RISK_ONLY''"

fun rule_value :: "rule_code \<Rightarrow> string" where
  "rule_value RESPONSIBLE_LENDING = ''RESPONSIBLE_LENDING''"
| "rule_value FREQUENCY_CAP = ''FREQUENCY_CAP''"
| "rule_value NO_CREDIT_DECISION = ''NO_CREDIT_DECISION''"
| "rule_value SEGMENT_EXCLUDED = ''SEGMENT_EXCLUDED''"

fun scope_value :: "scope_type \<Rightarrow> string" where
  "scope_value CLIENT = ''CLIENT''"
| "scope_value REGION = ''REGION''"
| "scope_value COHORT = ''COHORT''"

fun signal_type_value :: "signal_type \<Rightarrow> string" where
  "signal_type_value NEWS_SENTIMENT = ''NEWS_SENTIMENT''"
| "signal_type_value SOCIAL_SENTIMENT = ''SOCIAL_SENTIMENT''"
| "signal_type_value SECTOR_TREND = ''SECTOR_TREND''"

section \<open>ids.py\<close>

definition CROCKFORD :: string where
  "CROCKFORD = ''0123456789ABCDEFGHJKMNPQRSTVWXYZ''"

text \<open>\<open>_encode\<close> fills the character array from the last place, five bits at a time.\<close>

fun encode_loop :: "nat \<Rightarrow> nat \<Rightarrow> string \<Rightarrow> string" where
  "encode_loop v 0 acc = acc"
| "encode_loop v (Suc i) acc = encode_loop (v div 32) i (CROCKFORD ! (v mod 32) # acc)"

definition encode_id :: "nat \<Rightarrow> nat \<Rightarrow> string" where
  "encode_id value len = encode_loop value len []"

definition new_id :: "nat \<Rightarrow> nat \<Rightarrow> string" where
  "new_id time_ms randomness = encode_id (time_ms mod 2 ^ 48) 10 @ encode_id randomness 16"

text \<open>Reading an identifier back: the index of each character, most significant first.\<close>

fun index_of :: "'a list \<Rightarrow> 'a \<Rightarrow> nat" where
  "index_of [] x = 0"
| "index_of (y # ys) x = (if x = y then 0 else Suc (index_of ys x))"

definition decode_id :: "string \<Rightarrow> nat" where
  "decode_id s = foldl (\<lambda>acc ch. 32 * acc + index_of CROCKFORD ch) 0 s"

lemma CROCKFORD_props: "length CROCKFORD = 32 \<and> distinct CROCKFORD \<and> sorted CROCKFORD"
  by code_simp

lemma index_of_nth: "distinct xs \<Longrightarrow> i < length xs \<Longrightarrow> index_of xs (xs ! i) = i"
proof (induction xs arbitrary: i)
  case (Cons x xs)
  then show ?case by (cases i) auto
qed simp

lemma index_of_CROCKFORD: "i < 32 \<Longrightarrow> index_of CROCKFORD (CROCKFORD ! i) = i"
  by (simp add: index_of_nth CROCKFORD_props)

lemma encode_loop_acc: "encode_loop v n acc = encode_loop v n [] @ acc"
proof (induction n arbitrary: v acc)
  case (Suc n)
  show ?case by (simp add: Suc.IH [of _ "_ # acc"] Suc.IH [of _ "[_]"])
qed simp

lemma encode_id_Suc: "encode_id v (Suc n) = encode_id (v div 32) n @ [CROCKFORD ! (v mod 32)]"
  by (simp add: encode_id_def encode_loop_acc [of _ _ "[_]"])

lemma encode_id_0 [simp]: "encode_id v 0 = []"
  by (simp add: encode_id_def)

lemma encode_id_length: "length (encode_id v n) = n"
  by (induction n arbitrary: v) (simp_all add: encode_id_Suc)

lemma decode_encode_id: "v < 32 ^ n \<Longrightarrow> decode_id (encode_id v n) = v"
proof (induction n arbitrary: v)
  case 0 then show ?case by (simp add: decode_id_def)
next
  case (Suc n)
  then have "v div 32 < 32 ^ n" by (simp add: less_mult_imp_div_less)
  with Suc.IH [of "v div 32"] show ?case
    by (simp add: encode_id_Suc decode_id_def index_of_CROCKFORD)
qed

lemma CROCKFORD_less: "i < j \<Longrightarrow> j < 32 \<Longrightarrow> CROCKFORD ! i < CROCKFORD ! j"
  using CROCKFORD_props
  by (metis less_trans nth_eq_iff_index_eq order_le_less order_less_imp_not_eq sorted_nth_mono)

lemma list_less_snoc:
  "length xs = length ys \<Longrightarrow>
   (xs @ [x :: char] < ys @ [y]) \<longleftrightarrow> xs < ys \<or> (xs = ys \<and> x < y)"
  by (induction xs ys rule: list_induct2) auto

lemma encode_id_less:
  "v < w \<Longrightarrow> w < 32 ^ n \<Longrightarrow> encode_id v n < encode_id w n"
proof (induction n arbitrary: v w)
  case 0 then show ?case by simp
next
  case (Suc n)
  have w: "w div 32 < 32 ^ n" using Suc.prems by (simp add: less_mult_imp_div_less)
  show ?case
  proof (cases "v div 32 = w div 32")
    case True
    then have "v mod 32 < w mod 32" using Suc.prems(1)
      by (metis div_mult_mod_eq nat_add_left_cancel_less)
    with True show ?thesis
      by (simp add: encode_id_Suc list_less_snoc encode_id_length CROCKFORD_less)
  next
    case False
    then have "v div 32 < w div 32" using Suc.prems(1) by (simp add: div_le_mono order_le_neq_trans)
    with Suc.IH w show ?thesis by (simp add: encode_id_Suc list_less_snoc encode_id_length)
  qed
qed

lemma list_less_append:
  "length xs = length ys \<Longrightarrow> (xs :: string) < ys \<Longrightarrow> xs @ us < ys @ vs"
  by (induction xs ys rule: list_induct2) auto

text \<open>
  An identifier has 26 characters, its two parts can be read back, and of two
  identifiers the one with the later millisecond timestamp is lexicographically greater.
\<close>

theorem new_id_sortable:
  assumes "t < t'" and "t' < 2 ^ 48" and "r < 2 ^ 80"
  shows "length (new_id t r) = 26 \<and> decode_id (take 10 (new_id t r)) = t
       \<and> decode_id (drop 10 (new_id t r)) = r \<and> new_id t r < new_id t' r'"
proof -
  have len: "length (encode_id t 10) = 10" by (rule encode_id_length)
  have t: "t < 32 ^ 10" "t' < 32 ^ 10" and r: "r < 32 ^ 16" using assms by auto
  have "encode_id t 10 < encode_id t' 10" using assms(1) t(2) by (rule encode_id_less)
  then have "new_id t r < new_id t' r'"
    using assms(1,2) by (simp add: new_id_def list_less_append encode_id_length)
  moreover have "decode_id (encode_id t 10) = t" "decode_id (encode_id r 16) = r"
    using t r by (simp_all add: decode_encode_id)
  ultimately show ?thesis
    using assms(1,2) len by (simp add: new_id_def encode_id_length)
qed

theorem new_id_sortable_witness:
  "new_id 1000 5 < new_id 1001 0 \<and> decode_id (take 10 (new_id 1000 5)) = 1000"
  using new_id_sortable [of 1000 1001 5 0] by simp

end
