(* ===== verification/Policy.thy ===== *)
theory Policy
  imports Contracts "HOL-Library.Sublist"
begin

text \<open>
  \<open>packages/policy-guard\<close>: the four hard rules and \<open>evaluate\<close>, which runs every configured
  rule and allows a candidate only if none denies.  The locale \<open>hard_rule\<close> is what
  \<open>evaluate\<close> relies on in a rule (it reports its own code, and denies exactly when its
  condition is violated); each rule of the code is an interpretation of it.
\<close>

section \<open>rules.py\<close>

definition EXCLUDED_SEGMENTS :: "impact_segment list" where
  "EXCLUDED_SEGMENTS = [SURE_THING, LOST_CAUSE, SLEEPING_DOG]"

definition ok_rule :: "rule_code \<Rightarrow> rule_result" where
  "ok_rule code = \<lparr>rr_rule_code = code, rr_allowed = True, rr_reason = ''passed''\<rparr>"

text \<open>\<open>sum(1 for t in ts if since <= t <= now)\<close>\<close>

definition count_within :: "instant \<Rightarrow> instant \<Rightarrow> instant list \<Rightarrow> int" where
  "count_within since now ts = int (length (filter (\<lambda>t. since \<le> t \<and> t \<le> now) ts))"

definition responsible_lending :: "int \<Rightarrow> int \<Rightarrow> candidate \<Rightarrow> user_facts \<Rightarrow> rule_result" where
  "responsible_lending lookback_days min_late_events cand facts =
     (if \<not> c_encourages_borrowing cand then ok_rule RESPONSIBLE_LENDING
      else
        let since = uf_now facts - timedelta_days lookback_days;
            late = count_within since (uf_now facts) (uf_late_repayment_at facts)
        in if late \<ge> min_late_events
           then \<lparr>rr_rule_code = RESPONSIBLE_LENDING, rr_allowed = False,
                 rr_reason = ''borrowing incentive denied: '' @ show_int late
                   @ '' late repayment(s) in '' @ show_int lookback_days @ '' days''\<rparr>
           else ok_rule RESPONSIBLE_LENDING)"

definition frequency_cap :: "int option \<Rightarrow> int option \<Rightarrow> candidate \<Rightarrow> user_facts \<Rightarrow> rule_result" where
  "frequency_cap max_contacts window_days cand facts =
     (case (max_contacts, window_days) of
        (Some cap, Some window) \<Rightarrow>
          (let since = uf_now facts - timedelta_days window;
               contacts = count_within since (uf_now facts) (uf_contacted_at facts)
           in if contacts \<ge> cap
              then \<lparr>rr_rule_code = FREQUENCY_CAP, rr_allowed = False,
                    rr_reason = show_int contacts @ '' contact(s) in '' @ show_int window
                      @ '' days reaches cap '' @ show_int cap\<rparr>
              else ok_rule FREQUENCY_CAP)
      | _ \<Rightarrow> \<lparr>rr_rule_code = FREQUENCY_CAP, rr_allowed = False,
             rr_reason = ''frequency cap not configured (open decision); failing closed''\<rparr>)"

definition no_credit_decision :: "candidate \<Rightarrow> rule_result" where
  "no_credit_decision cand =
     (if c_changes_credit_terms cand
      then \<lparr>rr_rule_code = NO_CREDIT_DECISION, rr_allowed = False,
            rr_reason = ''incentive changes credit limit or pricing; not an engagement action''\<rparr>
      else ok_rule NO_CREDIT_DECISION)"

definition segment_excluded :: "candidate \<Rightarrow> rule_result" where
  "segment_excluded cand =
     (if c_segment cand \<in> set EXCLUDED_SEGMENTS
      then \<lparr>rr_rule_code = SEGMENT_EXCLUDED, rr_allowed = False,
            rr_reason = ''segment '' @ segment_value (c_segment cand)
              @ '' is not worth an incentive''\<rparr>
      else ok_rule SEGMENT_EXCLUDED)"

section \<open>guard.py\<close>

record policy_config =
  pc_lookback_days :: int
  pc_min_late_events :: int
  pc_max_contacts :: "int option"
  pc_window_days :: "int option"
  pc_apply_segment_rule :: bool

definition evaluate :: "candidate \<Rightarrow> user_facts \<Rightarrow> policy_config \<Rightarrow> policy_decision" where
  "evaluate cand facts config =
     (let results =
        [responsible_lending (pc_lookback_days config) (pc_min_late_events config) cand facts,
         frequency_cap (pc_max_contacts config) (pc_window_days config) cand facts,
         no_credit_decision cand]
        @ (if pc_apply_segment_rule config then [segment_excluded cand] else [])
      in \<lparr>pd_candidate_id = c_candidate_id cand,
          pd_user_pseudonym = c_user_pseudonym cand,
          pd_outcome = (if list_all rr_allowed results then ''ALLOW'' else ''DENY''),
          pd_results = results\<rparr>)"

section \<open>The contract of a rule\<close>

locale hard_rule =
  fixes rule :: "candidate \<Rightarrow> user_facts \<Rightarrow> rule_result"
    and code :: rule_code
    and violated :: "candidate \<Rightarrow> user_facts \<Rightarrow> bool"
  assumes rule_code: "rr_rule_code (rule cand facts) = code"
    and rule_allowed: "rr_allowed (rule cand facts) \<longleftrightarrow> \<not> violated cand facts"
begin

lemma denied_results:
  "filter (\<lambda>r. \<not> rr_allowed r) [rule cand facts] = (if violated cand facts then [rule cand facts] else [])"
  by (simp add: rule_allowed)

lemma denied_codes:
  "map rr_rule_code (filter (\<lambda>r. \<not> rr_allowed r) [rule cand facts])
     = (if violated cand facts then [code] else [])"
  by (simp add: rule_allowed rule_code)

end

text \<open>The conditions the rules enforce.\<close>

definition late_violation :: "policy_config \<Rightarrow> candidate \<Rightarrow> user_facts \<Rightarrow> bool" where
  "late_violation config cand facts \<longleftrightarrow> c_encourages_borrowing cand \<and>
     pc_min_late_events config \<le>
       count_within (uf_now facts - timedelta_days (pc_lookback_days config)) (uf_now facts)
         (uf_late_repayment_at facts)"

definition contact_violation :: "policy_config \<Rightarrow> candidate \<Rightarrow> user_facts \<Rightarrow> bool" where
  "contact_violation config cand facts \<longleftrightarrow>
     (case (pc_max_contacts config, pc_window_days config) of
        (Some cap, Some window) \<Rightarrow>
          cap \<le> count_within (uf_now facts - timedelta_days window) (uf_now facts)
                  (uf_contacted_at facts)
      | _ \<Rightarrow> True)"

interpretation lending: hard_rule
  "responsible_lending (pc_lookback_days config) (pc_min_late_events config)"
  RESPONSIBLE_LENDING "late_violation config" for config
  by unfold_locales
    (auto simp: responsible_lending_def late_violation_def ok_rule_def Let_def)

interpretation capping: hard_rule
  "frequency_cap (pc_max_contacts config) (pc_window_days config)"
  FREQUENCY_CAP "contact_violation config" for config
  by unfold_locales
    (auto simp: frequency_cap_def contact_violation_def ok_rule_def Let_def split: option.splits)

interpretation credit: hard_rule
  "\<lambda>cand facts. no_credit_decision cand" NO_CREDIT_DECISION "\<lambda>cand facts. c_changes_credit_terms cand"
  by unfold_locales (auto simp: no_credit_decision_def ok_rule_def)

interpretation segments: hard_rule
  "\<lambda>cand facts. segment_excluded cand" SEGMENT_EXCLUDED "\<lambda>cand facts. c_segment cand \<noteq> PERSUADABLE"
proof unfold_locales
  fix cand
  show "rr_rule_code (segment_excluded cand) = SEGMENT_EXCLUDED"
    by (simp add: segment_excluded_def ok_rule_def)
  show "rr_allowed (segment_excluded cand) \<longleftrightarrow> \<not> c_segment cand \<noteq> PERSUADABLE"
    by (cases "c_segment cand") (simp_all add: segment_excluded_def ok_rule_def EXCLUDED_SEGMENTS_def)
qed

lemmas rule_verdicts = lending.rule_allowed capping.rule_allowed credit.rule_allowed
  segments.rule_allowed

lemmas rule_codes = lending.rule_code capping.rule_code credit.rule_code segments.rule_code

lemma evaluate_allowed:
  "decision_allowed (evaluate cand facts config) \<longleftrightarrow>
     \<not> late_violation config cand facts \<and> \<not> contact_violation config cand facts
     \<and> \<not> c_changes_credit_terms cand
     \<and> (pc_apply_segment_rule config \<longrightarrow> c_segment cand = PERSUADABLE)"
  by (auto simp: evaluate_def decision_allowed_def Let_def rule_verdicts)

lemma evaluate_denials:
  "map rr_rule_code (denials (evaluate cand facts config)) =
     (if late_violation config cand facts then [RESPONSIBLE_LENDING] else [])
     @ (if contact_violation config cand facts then [FREQUENCY_CAP] else [])
     @ (if c_changes_credit_terms cand then [NO_CREDIT_DECISION] else [])
     @ (if pc_apply_segment_rule config \<and> c_segment cand \<noteq> PERSUADABLE
        then [SEGMENT_EXCLUDED] else [])"
  by (simp add: evaluate_def denials_def Let_def rule_verdicts rule_codes)

lemma denials_empty_iff: "denials (evaluate cand facts config) = [] \<longleftrightarrow> decision_allowed (evaluate cand facts config)"
  by (auto simp: evaluate_def denials_def decision_allowed_def Let_def list_all_iff filter_empty_conv)

lemma count_within_mono: "subseq ts us \<Longrightarrow> count_within a b ts \<le> count_within a b us"
  unfolding count_within_def by (simp add: list_emb_length [OF subseq_filter])

section \<open>Properties\<close>

text \<open>
  C31.  A candidate is allowed exactly when no hard rule is violated, every violated rule is
  reported in the code's order (not only the first), and the recorded outcome agrees with
  the list of denials.
\<close>

theorem evaluate_spec:
  "(decision_allowed (evaluate cand facts config) \<longleftrightarrow>
      \<not> late_violation config cand facts \<and> \<not> contact_violation config cand facts
      \<and> \<not> c_changes_credit_terms cand
      \<and> \<not> (pc_apply_segment_rule config \<and> c_segment cand \<noteq> PERSUADABLE))
   \<and> map rr_rule_code (denials (evaluate cand facts config)) =
      (if late_violation config cand facts then [RESPONSIBLE_LENDING] else [])
      @ (if contact_violation config cand facts then [FREQUENCY_CAP] else [])
      @ (if c_changes_credit_terms cand then [NO_CREDIT_DECISION] else [])
      @ (if pc_apply_segment_rule config \<and> c_segment cand \<noteq> PERSUADABLE
         then [SEGMENT_EXCLUDED] else [])
   \<and> (denials (evaluate cand facts config) = [] \<longleftrightarrow> decision_allowed (evaluate cand facts config))"
  using evaluate_allowed evaluate_denials denials_empty_iff by auto

text \<open>
  More contacts or more late repayments in a user's history never turn a denial into an
  approval: if a candidate is allowed with the longer history, it is allowed with any part of it.
\<close>

theorem evaluate_antimono:
  assumes "subseq (uf_contacted_at facts) (uf_contacted_at facts')"
    and "subseq (uf_late_repayment_at facts) (uf_late_repayment_at facts')"
    and "uf_now facts = uf_now facts'"
    and "decision_allowed (evaluate cand facts' config)"
  shows "decision_allowed (evaluate cand facts config)"
proof -
  have "late_violation config cand facts \<Longrightarrow> late_violation config cand facts'"
    using count_within_mono [OF assms(2)] assms(3)
    by (auto simp: late_violation_def intro: order_trans)
  moreover have "contact_violation config cand facts \<Longrightarrow> contact_violation config cand facts'"
    using count_within_mono [OF assms(1)] assms(3)
    by (auto simp: contact_violation_def split: option.splits intro: order_trans)
  ultimately show ?thesis using assms(4) by (auto simp: evaluate_allowed)
qed

text \<open>
  Without a configured frequency cap (either number missing) the guard denies every
  candidate, whatever the facts and the other settings: it fails closed.
\<close>

theorem fails_closed_without_cap:
  assumes "pc_max_contacts config = None \<or> pc_window_days config = None"
  shows "\<not> decision_allowed (evaluate cand facts config)
       \<and> FREQUENCY_CAP \<in> set (map rr_rule_code (denials (evaluate cand facts config)))"
proof -
  have "contact_violation config cand facts"
    using assms by (auto simp: contact_violation_def split: option.splits)
  then show ?thesis by (simp add: evaluate_allowed evaluate_denials)
qed

definition sample_candidate :: candidate where
  "sample_candidate =
     \<lparr>c_candidate_id = ''cand-1'', c_tenant_id = ''t1'', c_user_pseudonym = ''u1'',
      c_incentive_code = ''CASHBACK'', c_cost_idr = 25000, c_business_value_idr = 900000,
      c_encourages_borrowing = True, c_changes_credit_terms = False, c_group_id = None,
      c_churn_risk = 1/2, c_impact_score = 1/4, c_segment = PERSUADABLE, c_pattern_type = STABLE\<rparr>"

definition sample_config :: policy_config where
  "sample_config = \<lparr>pc_lookback_days = 60, pc_min_late_events = 1, pc_max_contacts = Some 2,
     pc_window_days = Some 30, pc_apply_segment_rule = True\<rparr>"

definition sample_facts :: "instant list \<Rightarrow> user_facts" where
  "sample_facts contacts = \<lparr>uf_user_pseudonym = ''u1'', uf_now = 5184000000000,
     uf_late_repayment_at = [], uf_contacted_at = contacts\<rparr>"

theorem evaluate_antimono_witness:
  "decision_allowed (evaluate sample_candidate (sample_facts []) sample_config)"
proof (rule evaluate_antimono)
  show "decision_allowed (evaluate sample_candidate (sample_facts [5000000000000]) sample_config)"
    by code_simp
qed (simp_all add: sample_facts_def)

theorem fails_closed_without_cap_witness:
  "\<not> decision_allowed
       (evaluate sample_candidate (sample_facts []) (sample_config\<lparr>pc_max_contacts := None\<rparr>))"
  using fails_closed_without_cap [of "sample_config\<lparr>pc_max_contacts := None\<rparr>" sample_candidate
      "sample_facts []"] by (simp add: sample_config_def)

end
