(* ===== verification/Impact.thy ===== *)
theory Impact
  imports Contracts
begin

text \<open>
  \<open>packages/impact\<close>: the two-model counterfactual estimate (\<open>two_model.py\<close>) and the four
  segments (\<open>segments.py\<close>).  A classifier library is a parameter: it is given the training
  matrix, the labels, the query rows and the seed and returns its class list with one
  probability row per query, or the exception it raised.  The \<open>except Exception: pass\<close> around
  TabPFN is the fall-through to the second parameter, the random forest.
\<close>

section \<open>segments.py\<close>

definition segment :: "impact_score_rec \<Rightarrow> pyfloat \<Rightarrow> pyfloat \<Rightarrow> impact_segment" where
  "segment impact impact_threshold sure_thing_p =
     (if impact_score impact > impact_threshold then PERSUADABLE
      else if impact_score impact < - impact_threshold then SLEEPING_DOG
      else if is_p_not_incentivized impact \<ge> sure_thing_p then SURE_THING
      else LOST_CAUSE)"

section \<open>two_model.py\<close>

type_synonym features = "(string \<times> pyfloat) list"
type_synonym classifier =
  "int \<Rightarrow> pyfloat list list \<Rightarrow> int list \<Rightarrow> pyfloat list list \<Rightarrow> (int list \<times> pyfloat list list) result"

definition MODEL_TABPFN :: string where "MODEL_TABPFN = ''TABPFN_TWO_MODEL''"
definition MODEL_STAND_IN :: string where "MODEL_STAND_IN = ''SKLEARN_RANDOM_FOREST_TWO_MODEL''"

text \<open>\<open>sorted({c for r in rows for c in r.features})\<close>\<close>

definition columns :: "labeled_example list \<Rightarrow> string list" where
  "columns rows = sort (remdups (concat (map (\<lambda>r. map fst (le_features r)) rows)))"

definition matrix :: "features list \<Rightarrow> string list \<Rightarrow> pyfloat list list" where
  "matrix feature_dicts cols = map (\<lambda>f. map (\<lambda>c. dict_get f c 0) cols) feature_dicts"

text \<open>\<open>xs[i]\<close> with the exception Python raises, and \<open>xs.index(v)\<close>.\<close>

definition py_nth :: "'a list \<Rightarrow> nat \<Rightarrow> 'a result" where
  "py_nth xs i = (if i < length xs then Inr (xs ! i) else Inl IndexError)"

definition py_index :: "'a list \<Rightarrow> 'a \<Rightarrow> nat result" where
  "py_index xs v = (if v \<in> set xs then Inr (index_of xs v)
                    else Inl (ValueError ''value is not in list''))"

text \<open>\<open>[float(p[col]) for p in model.predict_proba(query)]\<close> after \<open>fit\<close>, with the column of class 1.\<close>

definition predict_retained ::
  "classifier \<Rightarrow> int \<Rightarrow> pyfloat list list \<Rightarrow> int list \<Rightarrow> pyfloat list list \<Rightarrow> pyfloat list result" where
  "predict_retained clf seed X y query =
     bind_result (clf seed X y query) (\<lambda>(classes, proba).
       bind_result (py_index classes 1) (\<lambda>col. map_result (\<lambda>p. py_nth p col) proba))"

definition fit_predict ::
  "classifier \<Rightarrow> classifier \<Rightarrow> pyfloat list list \<Rightarrow> int list \<Rightarrow> pyfloat list list \<Rightarrow> int \<Rightarrow> bool \<Rightarrow>
   (pyfloat list \<times> bool) result" where
  "fit_predict tabpfn forest X y query seed use_tabpfn =
     (if length (remdups y) < 2
      then bind_result (py_nth y 0) (\<lambda>y0. Inr (replicate (length query) (of_int y0), False))
      else
        let stand_in = bind_result (predict_retained forest seed X y query) (\<lambda>ps. Inr (ps, False))
        in if use_tabpfn
           then (case predict_retained tabpfn seed X y query of
                   Inr ps \<Rightarrow> Inr (ps, True)
                 | Inl _ \<Rightarrow> stand_in)
           else stand_in)"

definition estimate_batch ::
  "classifier \<Rightarrow> classifier \<Rightarrow> labeled_example list \<Rightarrow> labeled_example list \<Rightarrow> features list \<Rightarrow>
   int \<Rightarrow> nat \<Rightarrow> bool \<Rightarrow> impact_score_rec list result" where
  "estimate_batch tabpfn forest treated control candidate_features seed min_rows use_tabpfn =
     (let tenants = remdups (map le_tenant_id (treated @ control)) in
      if length tenants > 1
      then Inl (CrossTenantContext (''impact context spans '' @ show_nat (length tenants) @ '' tenants''))
      else if length treated < min_rows
      then Inl (ContextTooSmall (''treated arm has '' @ show_nat (length treated)
             @ '' rows, need '' @ show_nat min_rows))
      else if length control < min_rows
      then Inl (ContextTooSmall (''control arm has '' @ show_nat (length control)
             @ '' rows, need '' @ show_nat min_rows))
      else if candidate_features = [] then Inr []
      else
        let cols = columns (treated @ control);
            query = matrix candidate_features cols;
            treated' = sort_key le_source_outcome_id treated;
            control' = sort_key le_source_outcome_id control
        in bind_result (fit_predict tabpfn forest (matrix (map le_features treated') cols)
               (map (\<lambda>r. if le_retained r then 1 else 0) treated') query seed use_tabpfn)
             (\<lambda>(p_inc, tab_a).
           bind_result (fit_predict tabpfn forest (matrix (map le_features control') cols)
               (map (\<lambda>r. if le_retained r then 1 else 0) control') query seed use_tabpfn)
             (\<lambda>(p_not, tab_b).
           let model = (if tab_a \<and> tab_b then MODEL_TABPFN else MODEL_STAND_IN)
           in Inr (map (\<lambda>(a, b). \<lparr>is_p_incentivized = a, is_p_not_incentivized = b,
                                    is_model = model\<rparr>) (zip p_inc p_not)))))"

definition estimate ::
  "classifier \<Rightarrow> classifier \<Rightarrow> labeled_example list \<Rightarrow> labeled_example list \<Rightarrow> features \<Rightarrow>
   int \<Rightarrow> nat \<Rightarrow> impact_score_rec result" where
  "estimate tabpfn forest treated control feats seed min_rows =
     bind_result (estimate_batch tabpfn forest treated control [feats] seed min_rows True)
       (\<lambda>scores. py_nth scores 0)"

section \<open>The contract of a classifier\<close>

text \<open>
  What scikit-learn documents: after \<open>fit\<close>, \<open>classes_\<close> is the list of distinct labels and
  \<open>predict_proba\<close> has one row per query with one probability per class.
\<close>

definition probability_classifier :: "classifier \<Rightarrow> bool" where
  "probability_classifier clf \<longleftrightarrow> (\<forall>seed X y query. \<exists>classes proba.
     clf seed X y query = Inr (classes, proba) \<and> set classes = set y \<and> distinct classes
     \<and> length proba = length query
     \<and> (\<forall>row \<in> set proba. length row = length classes \<and> (\<forall>p \<in> set row. 0 \<le> p \<and> p \<le> 1)))"

lemma index_of_less: "x \<in> set xs \<Longrightarrow> index_of xs x < length xs"
  by (induction xs) auto

lemma predict_retained_ok:
  assumes "probability_classifier clf" and "1 \<in> set y"
  obtains ps where "predict_retained clf seed X y query = Inr ps"
    and "length ps = length query" and "\<forall>p \<in> set ps. 0 \<le> p \<and> p \<le> 1"
proof -
  from assms(1) obtain classes proba where clf: "clf seed X y query = Inr (classes, proba)"
    and cl: "set classes = set y" and len: "length proba = length query"
    and rows: "\<forall>row \<in> set proba. length row = length classes \<and> (\<forall>p \<in> set row. 0 \<le> p \<and> p \<le> 1)"
    unfolding probability_classifier_def by metis
  let ?col = "index_of classes 1"
  have col: "?col < length classes" using assms(2) cl by (simp add: index_of_less)
  have ps: "map_result (\<lambda>p. py_nth p ?col) proba = Inr (map (\<lambda>p. p ! ?col) proba)"
    using rows col by (intro map_result_total) (simp add: py_nth_def)
  show ?thesis
  proof (rule that)
    show "predict_retained clf seed X y query = Inr (map (\<lambda>p. p ! ?col) proba)"
      using clf cl assms(2) ps by (simp add: predict_retained_def py_index_def)
    show "length (map (\<lambda>p. p ! ?col) proba) = length query" using len by simp
    show "\<forall>p \<in> set (map (\<lambda>p. p ! ?col) proba). 0 \<le> p \<and> p \<le> 1" using rows col by auto
  qed
qed

lemma two_labels: 
  assumes "\<not> length (remdups y) < 2" and "set y \<subseteq> {0, 1 :: int}"
  shows "1 \<in> set y"
proof (rule ccontr)
  assume "1 \<notin> set y"
  then have "set (remdups y) \<subseteq> {0}" using assms(2) by auto
  then have "card (set (remdups y)) \<le> 1" using card_mono [of "{0 :: int}"] by fastforce
  then show False using assms(1) distinct_card [of "remdups y"] by simp
qed

lemma fit_predict_ok:
  assumes clf: "probability_classifier forest" and y: "set y \<subseteq> {0, 1}" "y \<noteq> []"
    and tab: "\<And>s X y q ps. predict_retained tabpfn s X y q = Inr ps \<Longrightarrow>
                length ps = length q \<and> (\<forall>p \<in> set ps. 0 \<le> p \<and> p \<le> 1)"
  obtains ps b where "fit_predict tabpfn forest X y query seed use = Inr (ps, b)"
    and "length ps = length query" and "\<forall>p \<in> set ps. 0 \<le> p \<and> p \<le> 1" and "b \<longrightarrow> use"
proof (cases "length (remdups y) < 2")
  case True
  have "y ! 0 \<in> set y" using y(2) by simp
  then have "y ! 0 = 0 \<or> y ! 0 = 1" using y(1) by blast
  then show ?thesis using True y(2)
    by (intro that [of "replicate (length query) (of_int (y ! 0))" False])
      (auto simp: fit_predict_def py_nth_def)
next
  case False
  obtain ps where ps: "predict_retained forest seed X y query = Inr ps"
    "length ps = length query" "\<forall>p \<in> set ps. 0 \<le> p \<and> p \<le> 1"
    using predict_retained_ok [OF clf two_labels [OF False y(1)]] by metis
  show ?thesis
  proof (cases "use \<and> (\<exists>qs. predict_retained tabpfn seed X y query = Inr qs)")
    case True
    then obtain qs where "predict_retained tabpfn seed X y query = Inr qs" "use" by blast
    with False tab show ?thesis by (intro that [of qs True]) (auto simp: fit_predict_def)
  next
    case no: False
    with False ps show ?thesis
      by (intro that [of ps False]) (auto simp: fit_predict_def Let_def split: sum.splits)
  qed
qed


lemma estimate_batch_ok:
  assumes forest: "probability_classifier forest"
    and tab: "\<And>s X y q ps. predict_retained tabpfn s X y q = Inr ps \<Longrightarrow>
                length ps = length q \<and> (\<forall>p \<in> set ps. 0 \<le> p \<and> p \<le> 1)"
    and rows: "0 < min_rows" "min_rows \<le> length treated" "min_rows \<le> length control"
    and tenants: "\<forall>r \<in> set (treated @ control). le_tenant_id r = t"
  obtains scores where
    "estimate_batch tabpfn forest treated control feats seed min_rows use = Inr scores"
    and "length scores = length feats"
    and "\<forall>i \<in> set scores. 0 \<le> is_p_incentivized i \<and> is_p_incentivized i \<le> 1
           \<and> 0 \<le> is_p_not_incentivized i \<and> is_p_not_incentivized i \<le> 1
           \<and> (is_model i = MODEL_TABPFN \<longrightarrow> use)"
proof (cases "feats = []")
  case True
  have "set (map le_tenant_id (treated @ control)) \<subseteq> {t}" using tenants by auto
  then have "\<not> length (remdups (map le_tenant_id (treated @ control))) > 1"
    using card_mono [of "{t}" "set (map le_tenant_id (treated @ control))"]
    by (simp add: length_remdups_card_conv)
  with True rows show ?thesis by (intro that [of "[]"]) (simp_all add: estimate_batch_def)
next
  case False
  have "set (map le_tenant_id (treated @ control)) \<subseteq> {t}" using tenants by auto
  then have one: "\<not> length (remdups (map le_tenant_id (treated @ control))) > 1"
    using card_mono [of "{t}" "set (map le_tenant_id (treated @ control))"]
    by (simp add: length_remdups_card_conv)
  let ?cols = "columns (treated @ control)"
  let ?q = "matrix feats ?cols"
  let ?y = "\<lambda>arm. map (\<lambda>r. if le_retained r then 1 else 0) (sort_key le_source_outcome_id arm)"
  have y: "set (?y arm) \<subseteq> {0, 1 :: int}" for arm by auto
  have ne: "?y treated \<noteq> []" "?y control \<noteq> []" using rows by (auto simp flip: length_0_conv)
  obtain pa a where A: "fit_predict tabpfn forest
      (matrix (map le_features (sort_key le_source_outcome_id treated)) ?cols) (?y treated) ?q seed use
      = Inr (pa, a)" "length pa = length ?q" "\<forall>p \<in> set pa. 0 \<le> p \<and> p \<le> 1" "a \<longrightarrow> use"
    by (rule fit_predict_ok [OF forest y ne(1) tab])
  obtain pb b where B: "fit_predict tabpfn forest
      (matrix (map le_features (sort_key le_source_outcome_id control)) ?cols) (?y control) ?q seed use
      = Inr (pb, b)" "length pb = length ?q" "\<forall>p \<in> set pb. 0 \<le> p \<and> p \<le> 1" "b \<longrightarrow> use"
    by (rule fit_predict_ok [OF forest y ne(2) tab])
  let ?m = "if a \<and> b then MODEL_TABPFN else MODEL_STAND_IN"
  show ?thesis
  proof (rule that)
    show "estimate_batch tabpfn forest treated control feats seed min_rows use =
        Inr (map (\<lambda>(a, b). \<lparr>is_p_incentivized = a, is_p_not_incentivized = b, is_model = ?m\<rparr>) (zip pa pb))"
      using False one rows A(1) B(1) by (simp add: estimate_batch_def Let_def)
    show "length (map (\<lambda>(a, b). \<lparr>is_p_incentivized = a, is_p_not_incentivized = b, is_model = ?m\<rparr>)
        (zip pa pb)) = length feats"
      using A(2) B(2) by (simp add: matrix_def)
    show "\<forall>i \<in> set (map (\<lambda>(a, b). \<lparr>is_p_incentivized = a, is_p_not_incentivized = b, is_model = ?m\<rparr>)
        (zip pa pb)). 0 \<le> is_p_incentivized i \<and> is_p_incentivized i \<le> 1
           \<and> 0 \<le> is_p_not_incentivized i \<and> is_p_not_incentivized i \<le> 1
           \<and> (is_model i = MODEL_TABPFN \<longrightarrow> use)"
      using A(3,4) B(3,4)
      by (auto simp: MODEL_TABPFN_def MODEL_STAND_IN_def dest: set_zip_leftD set_zip_rightD)
  qed
qed

lemma columns_cong: "set xs = set ys \<Longrightarrow> columns xs = columns ys"
  by (simp add: columns_def sorted_list_of_set_sort_remdups [symmetric])

section \<open>Properties\<close>

text \<open>
  With a single tenant and enough rows on both sides, the estimate never fails: it gives
  one score per candidate, both probabilities lie in [0, 1], the impact score lies in
  [-1, 1], and the TabPFN label is only reported when TabPFN was allowed to run.
\<close>

theorem estimate_batch_bounds:
  assumes "probability_classifier forest"
    and "\<And>s X y q ps. predict_retained tabpfn s X y q = Inr ps \<Longrightarrow>
           length ps = length q \<and> (\<forall>p \<in> set ps. 0 \<le> p \<and> p \<le> 1)"
    and "0 < min_rows" "min_rows \<le> length treated" "min_rows \<le> length control"
    and "\<forall>r \<in> set (treated @ control). le_tenant_id r = t"
  shows "\<exists>scores. estimate_batch tabpfn forest treated control feats seed min_rows use = Inr scores
     \<and> length scores = length feats
     \<and> (\<forall>i \<in> set scores. 0 \<le> is_p_incentivized i \<and> is_p_incentivized i \<le> 1
          \<and> 0 \<le> is_p_not_incentivized i \<and> is_p_not_incentivized i \<le> 1
          \<and> \<bar>impact_score i\<bar> \<le> 1 \<and> (is_model i = MODEL_TABPFN \<longrightarrow> use))"
proof -
  have gap: "\<bar>fl (a - b)\<bar> \<le> 1" if "0 \<le> a" "a \<le> 1" "0 \<le> b" "b \<le> 1" for a b :: rat
    using fl_le_of_int [of "a - b" 1] of_int_le_fl [of "-1" "a - b"] that by simp
  obtain scores where
    "estimate_batch tabpfn forest treated control feats seed min_rows use = Inr scores"
    "length scores = length feats"
    "\<forall>i \<in> set scores. 0 \<le> is_p_incentivized i \<and> is_p_incentivized i \<le> 1
           \<and> 0 \<le> is_p_not_incentivized i \<and> is_p_not_incentivized i \<le> 1
           \<and> (is_model i = MODEL_TABPFN \<longrightarrow> use)"
    by (rule estimate_batch_ok [OF assms])
  then show ?thesis by (intro exI [of _ scores]) (auto simp: impact_score_def fsub_def gap)
qed

text \<open>
  The estimate does not depend on the order in which the context rows arrive (they are
  sorted by outcome id before training, and the columns are a sorted set), for any classifiers.
\<close>

theorem estimate_batch_order_independent:
  assumes "mset treated = mset treated'" and "mset control = mset control'"
    and "distinct (map le_source_outcome_id treated)"
    and "distinct (map le_source_outcome_id control)"
  shows "estimate_batch tabpfn forest treated control feats seed min_rows use
       = estimate_batch tabpfn forest treated' control' feats seed min_rows use"
proof -
  have sets: "set treated = set treated'" "set control = set control'"
    and lens: "length treated = length treated'" "length control = length control'"
    using assms(1,2) by (metis set_mset_mset, metis set_mset_mset, metis size_mset, metis size_mset)
  have "columns (treated @ control) = columns (treated' @ control')"
    using sets by (intro columns_cong) simp
  moreover have "length (remdups (map le_tenant_id (treated @ control)))
      = length (remdups (map le_tenant_id (treated' @ control')))"
    using sets by (simp add: length_remdups_card_conv)
  ultimately show ?thesis
    using lens sort_key_unique [OF assms(1,3)] sort_key_unique [OF assms(2,4)]
    by (simp add: estimate_batch_def Let_def)
qed

text \<open>
  The segment follows the true gap although the score is a rounded difference: a user is
  PERSUADABLE only if the exact gap of the two probabilities exceeds the threshold, a
  SLEEPING_DOG only if it is below minus the threshold, and raising the probability under
  the incentive never turns a PERSUADABLE user into another segment.
\<close>

theorem segment_sound:
  assumes "is_float threshold" and "0 \<le> threshold"
  shows "(segment i threshold s = PERSUADABLE \<longrightarrow>
            threshold < is_p_incentivized i - is_p_not_incentivized i)
       \<and> (segment i threshold s = SLEEPING_DOG \<longrightarrow>
            is_p_incentivized i - is_p_not_incentivized i < - threshold)
       \<and> (segment i threshold s = PERSUADABLE \<and> is_p_incentivized i \<le> p \<longrightarrow>
            segment (i\<lparr>is_p_incentivized := p\<rparr>) threshold s = PERSUADABLE)"
proof -
  have t: "fl threshold = threshold" "fl (- threshold) = - threshold"
    using assms(1) by (simp_all add: fl_exact fl_minus)
  have "threshold < x" if "threshold < fl x" for x
    using that t(1) fl_mono [of x threshold] by (cases "x \<le> threshold") auto
  moreover have "x < - threshold" if "fl x < - threshold" for x
    using that t(2) fl_mono [of "- threshold" x] by (cases "- threshold \<le> x") auto
  moreover have "threshold < fl (p - b)" if "threshold < fl (a - b)" "a \<le> p" for a b
    using that fl_mono [of "a - b" "p - b"] by simp
  ultimately show ?thesis
    by (auto simp: segment_def impact_score_def fsub_def split: if_splits)
qed

definition constant_classifier :: classifier where
  "constant_classifier seed X y query =
     Inr (remdups y, map (\<lambda>q. replicate (length (remdups y)) (1/2)) query)"

lemma constant_classifier_ok: "probability_classifier constant_classifier"
  by (auto simp: probability_classifier_def constant_classifier_def)

definition sample_example :: "string \<Rightarrow> bool \<Rightarrow> labeled_example" where
  "sample_example oid kept =
     \<lparr>le_tenant_id = ''t1'', le_source_outcome_id = oid, le_user_pseudonym = ''u'' @ oid,
      le_features = [(''tx_count'', 3), (''recency_days'', 1/2)], le_arm = ENGINE,
      le_treated = True, le_retained = kept, le_churn_risk = Some (1/4),
      le_impact_score = Some (1/8), le_pattern_type = Some ''STABLE'',
      le_incentive_code = Some ''CASHBACK'', le_cost_idr = 1000,
      le_business_value_idr = 50000, le_realized_value_idr = 49000\<rparr>"

theorem estimate_batch_bounds_witness:
  "\<exists>scores. estimate_batch (\<lambda>s X y q. Inl (RuntimeError ''no module'')) constant_classifier
       [sample_example ''1'' True, sample_example ''2'' False]
       [sample_example ''3'' True, sample_example ''4'' True] [[(''tx_count'', 9)]] 7 2 True = Inr scores
     \<and> length scores = 1"
  using estimate_batch_bounds [OF constant_classifier_ok,
      of "\<lambda>s X y q. Inl (RuntimeError ''no module'')" 2
         "[sample_example ''1'' True, sample_example ''2'' False]"
         "[sample_example ''3'' True, sample_example ''4'' True]" "''t1''" "[[(''tx_count'', 9)]]" 7 True]
  by (auto simp: predict_retained_def sample_example_def)

theorem estimate_batch_order_independent_witness:
  "estimate_batch constant_classifier constant_classifier
      [sample_example ''1'' True, sample_example ''2'' False] [sample_example ''3'' True] [[]] 7 1 True
   = estimate_batch constant_classifier constant_classifier
      [sample_example ''2'' False, sample_example ''1'' True] [sample_example ''3'' True] [[]] 7 1 True"
  by (rule estimate_batch_order_independent) (simp_all add: sample_example_def)

theorem segment_sound_witness:
  "1/8 < (3/4 :: rat) - 1/2"
proof -
  have "is_float (1/8)"
    unfolding is_float_def by (rule exI [of _ 1], rule exI [of _ "-3"]) (simp add: power_int_def power_one_over)
  moreover have "segment \<lparr>is_p_incentivized = 3/4, is_p_not_incentivized = 1/2, is_model = ''m''\<rparr> (1/8) (3/4)
      = PERSUADABLE"
    by code_simp
  ultimately show ?thesis
    using segment_sound [of "1/8" "\<lparr>is_p_incentivized = 3/4, is_p_not_incentivized = 1/2, is_model = ''m''\<rparr>" "3/4"]
    by simp
qed

end
