(* ===== verification/Measurement.thy ===== *)
theory Measurement
  imports Contracts
begin

text \<open>
  \<open>packages/measurement\<close>: deterministic arm assignment (\<open>assignment.py\<close>) and incremental
  lift (\<open>lift.py\<close>), with the aggregation the console endpoint
  \<open>services/api/src/api/routers/console/measurement.py\<close> does before it calls \<open>compute_lift\<close>.
  HMAC-SHA256 is a parameter, from the secret and the message to the bytes of the digest.
\<close>

section \<open>assignment.py\<close>

type_synonym hmac = "string \<Rightarrow> string \<Rightarrow> nat list"

text \<open>\<open>int.from_bytes(digest, "big")\<close>\<close>

definition int_from_bytes :: "nat list \<Rightarrow> int" where
  "int_from_bytes bs = foldl (\<lambda>acc b. acc * 256 + int b) 0 bs"

definition bucket :: "hmac \<Rightarrow> string \<Rightarrow> string \<Rightarrow> string \<Rightarrow> string \<Rightarrow> int result" where
  "bucket hmac tid experiment_id user secret =
     (if secret = [] then Inl (ValueError ''measurement secret must not be empty'')
      else Inr (int_from_bytes (hmac secret (tid @ '':'' @ experiment_id @ '':'' @ user)) mod 100))"

definition assign_arm ::
  "hmac \<Rightarrow> string \<Rightarrow> string \<Rightarrow> string \<Rightarrow> string \<Rightarrow> int \<Rightarrow> int \<Rightarrow> arm result" where
  "assign_arm hmac tid experiment_id user secret control_pct naive_pct =
     (if control_pct < 0 \<or> naive_pct < 0 \<or> control_pct + naive_pct > 100
      then Inl (ValueError ''arm percentages must be non-negative and sum to at most 100'')
      else bind_result (bucket hmac tid experiment_id user secret) (\<lambda>b.
        if b < control_pct then Inr CONTROL
        else if b < control_pct + naive_pct then Inr NAIVE
        else Inr ENGINE))"

lemma bucket_range: "bucket h t e u s = Inr b \<Longrightarrow> 0 \<le> b \<and> b < 100"
  by (auto simp: bucket_def split: if_splits)

section \<open>lift.py\<close>

fun parse_arm :: "string \<Rightarrow> arm result" where
  "parse_arm s = (if s = ''CONTROL'' then Inr CONTROL else if s = ''NAIVE'' then Inr NAIVE
     else if s = ''ENGINE'' then Inr ENGINE else Inl (ValueError ''not a valid Arm''))"

lemma parse_arm_value [simp]: "parse_arm (arm_value a) = Inr a"
  by (cases a) auto

declare parse_arm.simps [simp del]

text \<open>An outcome is an event row, or a dict with the counts of one arm (absent keys count 0).\<close>

record arm_counts =
  ac_arm :: string
  ac_n :: "int option"
  ac_retained :: "int option"
  ac_spend_idr :: "int option"

datatype outcome_input = EventRow outcome_event | Counts arm_counts

record arm_total =
  at_n :: int
  at_retained :: int
  at_spend_idr :: int

definition plus_total :: "arm_total \<Rightarrow> arm_total \<Rightarrow> arm_total" where
  "plus_total a b = \<lparr>at_n = at_n a + at_n b, at_retained = at_retained a + at_retained b,
     at_spend_idr = at_spend_idr a + at_spend_idr b\<rparr>"

definition zero_total :: arm_total where
  "zero_total = \<lparr>at_n = 0, at_retained = 0, at_spend_idr = 0\<rparr>"

definition int_or_0 :: "int option \<Rightarrow> int" where
  "int_or_0 v = (case v of None \<Rightarrow> 0 | Some i \<Rightarrow> i)"

fun contribution :: "outcome_input \<Rightarrow> (arm \<times> arm_total) result" where
  "contribution (Counts o1) = bind_result (parse_arm (ac_arm o1)) (\<lambda>a. Inr (a,
     \<lparr>at_n = int_or_0 (ac_n o1), at_retained = int_or_0 (ac_retained o1),
      at_spend_idr = int_or_0 (ac_spend_idr o1)\<rparr>))"
| "contribution (EventRow o1) = Inr (o_arm o1,
     \<lparr>at_n = 1, at_retained = (if o_retained o1 then 1 else 0), at_spend_idr = o_spend_idr o1\<rparr>)"

fun aggregate_loop :: "outcome_input list \<Rightarrow> (arm \<times> arm_total) list \<Rightarrow> (arm \<times> arm_total) list result" where
  "aggregate_loop [] totals = Inr totals"
| "aggregate_loop (o1 # os) totals = bind_result (contribution o1) (\<lambda>(a, t).
     aggregate_loop os (AList.update a (plus_total (dict_get totals a zero_total) t) totals))"

definition aggregate :: "outcome_input list \<Rightarrow> (arm \<times> arm_total) list result" where
  "aggregate outcomes = aggregate_loop outcomes (map (\<lambda>a. (a, zero_total)) enum_class.enum)"

record arm_stats =
  as_n :: int
  as_retained :: int
  as_retention_rate :: "pyfloat option"
  as_spend_idr :: int

record lift_report =
  lr_arms :: "(arm \<times> arm_stats) list"
  lr_vs_control :: "pyfloat option"
  lr_vs_naive :: "pyfloat option"
  lr_naive_vs_control :: "pyfloat option"
  lr_incremental_per_idr :: "pyfloat option"
  lr_engine_vs_control :: "(pyfloat \<times> pyfloat option) option"
  lr_engine_vs_naive :: "(pyfloat \<times> pyfloat option) option"
  lr_value_per_idr_naive :: "pyfloat option"
  lr_value_per_idr_engine :: "pyfloat option"
  lr_min_arm_size :: int
  lr_synthetic_data :: bool

definition arm_row :: "int \<Rightarrow> arm_total \<Rightarrow> arm_stats" where
  "arm_row min_arm_size row =
     \<lparr>as_n = at_n row, as_retained = at_retained row,
      as_retention_rate = (if at_n row \<ge> min_arm_size \<and> at_n row > 0
                           then Some (int_truediv (at_retained row) (at_n row)) else None),
      as_spend_idr = at_spend_idr row\<rparr>"

definition stats_of :: "(arm \<times> arm_stats) list \<Rightarrow> arm \<Rightarrow> arm_stats" where
  "stats_of arms a = the (map_of arms a)"

definition diff_rates :: "(arm \<times> arm_stats) list \<Rightarrow> arm \<Rightarrow> arm \<Rightarrow> pyfloat option" where
  "diff_rates arms a b =
     (case (as_retention_rate (stats_of arms a), as_retention_rate (stats_of arms b)) of
        (Some ra, Some rb) \<Rightarrow> Some (fsub ra rb)
      | _ \<Rightarrow> None)"

definition lift_block :: "(arm \<times> arm_stats) list \<Rightarrow> arm \<Rightarrow> arm \<Rightarrow> (pyfloat \<times> pyfloat option) option" where
  "lift_block arms a b =
     (case diff_rates arms a b of
        None \<Rightarrow> None
      | Some absolute \<Rightarrow>
          let rb = the (as_retention_rate (stats_of arms b))
          in Some (absolute, if rb > 0 then Some (fdiv absolute rb) else None))"

definition incremental_per_idr :: "(arm \<times> arm_stats) list \<Rightarrow> arm \<Rightarrow> pyfloat option" where
  "incremental_per_idr arms a =
     (case diff_rates arms a CONTROL of
        None \<Rightarrow> None
      | Some lift \<Rightarrow>
          if as_spend_idr (stats_of arms a) \<le> 0 then None
          else Some (fdiv (fmul lift (float_of_int (as_n (stats_of arms a))))
                       (float_of_int (as_spend_idr (stats_of arms a)))))"

definition compute_lift :: "outcome_input list \<Rightarrow> int \<Rightarrow> lift_report result" where
  "compute_lift outcomes min_arm_size =
     bind_result (aggregate outcomes) (\<lambda>totals.
       let arms = map (\<lambda>(key, row). (key, arm_row min_arm_size row)) totals in
       Inr \<lparr>lr_arms = arms,
            lr_vs_control = diff_rates arms ENGINE CONTROL,
            lr_vs_naive = diff_rates arms ENGINE NAIVE,
            lr_naive_vs_control = diff_rates arms NAIVE CONTROL,
            lr_incremental_per_idr = incremental_per_idr arms ENGINE,
            lr_engine_vs_control = lift_block arms ENGINE CONTROL,
            lr_engine_vs_naive = lift_block arms ENGINE NAIVE,
            lr_value_per_idr_naive = incremental_per_idr arms NAIVE,
            lr_value_per_idr_engine = incremental_per_idr arms ENGINE,
            lr_min_arm_size = min_arm_size,
            lr_synthetic_data = True\<rparr>)"

section \<open>The console endpoint's aggregation\<close>

text \<open>The rows of \<open>experiment_assignments\<close> and \<open>outcome_events\<close> that the handler reads.\<close>

record assignment_row =
  asg_user_pseudonym :: string
  asg_arm :: string

record outcome_row =
  or_user_pseudonym :: string
  or_outcome_type :: string
  or_value_idr :: "int option"

definition arm_by_user :: "assignment_row list \<Rightarrow> (string \<times> string) list" where
  "arm_by_user assignments =
     foldl (\<lambda>d a. AList.update (asg_user_pseudonym a) (asg_arm a) d) [] assignments"

definition retained_users :: "outcome_row list \<Rightarrow> string set" where
  "retained_users os = or_user_pseudonym ` set (filter (\<lambda>o1. or_outcome_type o1 = ''RETAINED'') os)"

definition spend_by_arm :: "(string \<times> string) list \<Rightarrow> outcome_row list \<Rightarrow> (string \<times> int) list" where
  "spend_by_arm by_user os = foldl (\<lambda>d o1.
     (case or_value_idr o1 of
        None \<Rightarrow> d
      | Some v \<Rightarrow> if v = 0 then d else
          (case map_of by_user (or_user_pseudonym o1) of
             None \<Rightarrow> d
           | Some a \<Rightarrow> if a = [] then d else dict_incr a v d))) [] os"

definition n_by_arm :: "(string \<times> string) list \<Rightarrow> (string \<times> int) list" where
  "n_by_arm by_user = foldl (\<lambda>d (user, a). dict_incr a 1 d) [] by_user"

definition retained_by_arm :: "string set \<Rightarrow> (string \<times> string) list \<Rightarrow> (string \<times> int) list" where
  "retained_by_arm retained by_user =
     foldl (\<lambda>d (user, a). if user \<in> retained then dict_incr a 1 d else d) [] by_user"

definition outcomes_payload :: "assignment_row list \<Rightarrow> outcome_row list \<Rightarrow> arm_counts list" where
  "outcomes_payload assignments os =
     (let by_user = arm_by_user assignments;
          spend = spend_by_arm by_user os;
          kept = retained_by_arm (retained_users os) by_user
      in map (\<lambda>(a, n). \<lparr>ac_arm = a, ac_n = Some n, ac_retained = Some (dict_get kept a 0),
                        ac_spend_idr = Some (dict_get spend a 0)\<rparr>) (n_by_arm by_user))"

definition get_measurement :: "assignment_row list \<Rightarrow> outcome_row list \<Rightarrow> int \<Rightarrow> lift_report result" where
  "get_measurement assignments os min_arm_size =
     compute_lift (map Counts (outcomes_payload assignments os)) min_arm_size"

section \<open>Aggregation as sums\<close>

lemma plus_zero_total [simp]: "plus_total zero_total t = t" "plus_total t zero_total = t"
  by (cases t, simp add: plus_total_def zero_total_def)+

definition table :: "(arm \<Rightarrow> 'a) \<Rightarrow> (arm \<times> 'a) list" where
  "table f = map (\<lambda>a. (a, f a)) [CONTROL, NAIVE, ENGINE]"

definition arm_sum :: "(arm \<times> arm_total) list \<Rightarrow> arm \<Rightarrow> arm_total" where
  "arm_sum cs a =
     (let mine = filter (\<lambda>c. fst c = a) cs in
      \<lparr>at_n = sum_list (map (at_n \<circ> snd) mine), at_retained = sum_list (map (at_retained \<circ> snd) mine),
       at_spend_idr = sum_list (map (at_spend_idr \<circ> snd) mine)\<rparr>)"

lemma arm_sum_Nil [simp]: "arm_sum [] a = zero_total"
  by (simp add: arm_sum_def zero_total_def)

lemma table_map_of [simp]: "map_of (table f) a = Some (f a)"
  by (cases a) (simp_all add: table_def)

lemma table_update: "AList.update a v (table f) = table (f(a := v))"
  by (cases a) (simp_all add: table_def)

lemma table_map: "map (\<lambda>(k, x). (k, g x)) (table f) = table (\<lambda>a. g (f a))"
  by (simp add: table_def)

lemma table_get [simp]: "dict_get (table f) a v = f a"
  by (simp add: dict_get_def)

lemma stats_of_table [simp]: "stats_of (table f) a = f a"
  by (simp add: stats_of_def)

lemma aggregate_loop_sums:
  "aggregate_loop os (table f) =
     bind_result (map_result contribution os) (\<lambda>cs. Inr (table (\<lambda>a. plus_total (f a) (arm_sum cs a))))"
proof (induction os arbitrary: f)
  case Nil
  then show ?case by simp
next
  case (Cons o1 os)
  show ?case
  proof (cases "contribution o1")
    case (Inr c)
    obtain a t where c: "c = (a, t)" by (cases c)
    have "plus_total ((f(a := plus_total (f a) t)) b) (arm_sum cs b)
        = plus_total (f b) (arm_sum ((a, t) # cs) b)" for cs b
      by (simp add: plus_total_def arm_sum_def Let_def)
    then show ?thesis using Cons.IH Inr c
      by (cases "map_result contribution os") (simp_all add: table_update)
  qed simp
qed

lemma aggregate_sums:
  "aggregate os = bind_result (map_result contribution os) (\<lambda>cs. Inr (table (arm_sum cs)))"
proof -
  have "map (\<lambda>a. (a, zero_total)) enum_class.enum = table (\<lambda>a. zero_total)"
    by (simp add: table_def enum_arm_def)
  then show ?thesis by (simp add: aggregate_def aggregate_loop_sums)
qed

lemma compute_lift_table:
  "compute_lift os m = bind_result (map_result contribution os) (\<lambda>cs.
     let arms = table (\<lambda>a. arm_row m (arm_sum cs a)) in
     Inr \<lparr>lr_arms = arms,
          lr_vs_control = diff_rates arms ENGINE CONTROL,
          lr_vs_naive = diff_rates arms ENGINE NAIVE,
          lr_naive_vs_control = diff_rates arms NAIVE CONTROL,
          lr_incremental_per_idr = incremental_per_idr arms ENGINE,
          lr_engine_vs_control = lift_block arms ENGINE CONTROL,
          lr_engine_vs_naive = lift_block arms ENGINE NAIVE,
          lr_value_per_idr_naive = incremental_per_idr arms NAIVE,
          lr_value_per_idr_engine = incremental_per_idr arms ENGINE,
          lr_min_arm_size = m,
          lr_synthetic_data = True\<rparr>)"
  by (cases "map_result contribution os")
    (simp_all add: compute_lift_def aggregate_sums table_map)

definition event_contribution :: "outcome_event \<Rightarrow> arm \<times> arm_total" where
  "event_contribution o1 = (o_arm o1, \<lparr>at_n = 1, at_retained = (if o_retained o1 then 1 else 0),
     at_spend_idr = o_spend_idr o1\<rparr>)"

lemma event_contributions:
  "map_result contribution (map EventRow os) = Inr (map event_contribution os)"
  by (induction os) (simp_all add: event_contribution_def)

definition arm_count :: "outcome_event list \<Rightarrow> arm \<Rightarrow> int" where
  "arm_count os a = int (length (filter (\<lambda>o1. o_arm o1 = a) os))"

definition arm_kept :: "outcome_event list \<Rightarrow> arm \<Rightarrow> int" where
  "arm_kept os a = int (length (filter (\<lambda>o1. o_arm o1 = a \<and> o_retained o1) os))"

definition arm_spend :: "outcome_event list \<Rightarrow> arm \<Rightarrow> int" where
  "arm_spend os a = sum_list (map o_spend_idr (filter (\<lambda>o1. o_arm o1 = a) os))"

lemma arm_sum_events:
  "arm_sum (map event_contribution os) a =
     \<lparr>at_n = arm_count os a, at_retained = arm_kept os a, at_spend_idr = arm_spend os a\<rparr>"
  by (induction os)
    (simp_all add: arm_sum_def Let_def event_contribution_def arm_count_def arm_kept_def arm_spend_def)





text \<open>One dict per group of outcomes of the same arm.\<close>

definition counts_of :: "arm \<times> outcome_event list \<Rightarrow> arm_counts" where
  "counts_of chunk = (case chunk of (a, os) \<Rightarrow>
     \<lparr>ac_arm = arm_value a, ac_n = Some (int (length os)),
      ac_retained = Some (int (length (filter o_retained os))),
      ac_spend_idr = Some (sum_list (map o_spend_idr os))\<rparr>)"

lemma arm_sum_append: "arm_sum (xs @ ys) a = plus_total (arm_sum xs a) (arm_sum ys a)"
  by (simp add: arm_sum_def plus_total_def Let_def)

lemma arm_sum_mset: 
  assumes "mset xs = mset ys" shows "arm_sum xs a = arm_sum ys a"
proof -
  have "sum_list (map (f \<circ> snd) (filter (\<lambda>c. fst c = a) xs))
      = sum_list (map (f \<circ> snd) (filter (\<lambda>c. fst c = a) ys))" for f :: "arm_total \<Rightarrow> int"
  proof -
    have "mset (map (f \<circ> snd) (filter (\<lambda>c. fst c = a) xs))
        = mset (map (f \<circ> snd) (filter (\<lambda>c. fst c = a) ys))" using assms by simp
    then show ?thesis by (metis sum_mset_sum_list)
  qed
  then show ?thesis by (simp add: arm_sum_def Let_def)
qed

lemma arm_sum_chunk:
  assumes "\<forall>o1 \<in> set os. o_arm o1 = b"
  shows "arm_sum (map event_contribution os) a =
    arm_sum [(b, \<lparr>at_n = int (length os), at_retained = int (length (filter o_retained os)),
                  at_spend_idr = sum_list (map o_spend_idr os)\<rparr>)] a"
proof (cases "a = b")
  case True
  then have "filter (\<lambda>o1. o_arm o1 = a) os = os"
    "filter (\<lambda>o1. o_arm o1 = a \<and> o_retained o1) os = filter o_retained os"
    using assms by (auto simp: filter_id_conv intro: filter_cong)
  then show ?thesis using True
    by (simp add: arm_sum_events arm_count_def arm_kept_def arm_spend_def) (simp add: arm_sum_def)
next
  case False
  then have "filter (\<lambda>o1. o_arm o1 = a) os = []" "filter (\<lambda>o1. o_arm o1 = a \<and> o_retained o1) os = []"
    using assms by (auto simp: filter_empty_conv)
  then show ?thesis using False
    by (simp add: arm_sum_events arm_count_def arm_kept_def arm_spend_def) (simp add: arm_sum_def)
qed

lemma chunk_contributions:
  "\<forall>(a, os) \<in> set chunks. \<forall>o1 \<in> set os. o_arm o1 = a \<Longrightarrow>
   \<exists>cs. map_result contribution (map (Counts \<circ> counts_of) chunks) = Inr cs
     \<and> arm_sum cs = arm_sum (map event_contribution (concat (map snd chunks)))"
proof (induction chunks)
  case (Cons c chunks)
  obtain a os where c: "c = (a, os)" by (cases c)
  have "\<forall>(a, os) \<in> set chunks. \<forall>o1 \<in> set os. o_arm o1 = a" using Cons.prems by auto
  then obtain cs where cs: "map_result contribution (map (Counts \<circ> counts_of) chunks) = Inr cs"
    "arm_sum cs = arm_sum (map event_contribution (concat (map snd chunks)))"
    using Cons.IH by blast
  let ?c = "(a, \<lparr>at_n = int (length os), at_retained = int (length (filter o_retained os)),
                 at_spend_idr = sum_list (map o_spend_idr os)\<rparr>)"
  have "contribution (Counts (counts_of c)) = Inr ?c" by (simp add: c counts_of_def int_or_0_def)
  then have "map_result contribution (map (Counts \<circ> counts_of) (c # chunks)) = Inr (?c # cs)"
    using cs(1) by simp
  moreover have "arm_sum (?c # cs) b
      = arm_sum (map event_contribution (concat (map snd (c # chunks)))) b" for b
    using arm_sum_append [of "[?c]" cs b] cs(2) Cons.prems arm_sum_chunk [of os a b]
    by (simp add: c arm_sum_append)
  ultimately show ?case by blast
qed simp

section \<open>The endpoint's dictionaries as tallies\<close>

lemma n_by_arm_tally: "n_by_arm by_user = tally [] (map (\<lambda>(u, a). (a, 1)) by_user)"
proof -
  have "foldl (\<lambda>d (user, a). dict_incr a 1 d) d by_user = tally d (map (\<lambda>(u, a). (a, 1)) by_user)" for d
    by (induction by_user arbitrary: d) auto
  then show ?thesis by (simp add: n_by_arm_def)
qed

lemma retained_by_arm_tally:
  "retained_by_arm R by_user = tally [] (map (\<lambda>(u, a). (a, 1)) (filter (\<lambda>(u, a). u \<in> R) by_user))"
proof -
  have "foldl (\<lambda>d (user, a). if user \<in> R then dict_incr a 1 d else d) d by_user
      = tally d (map (\<lambda>(u, a). (a, 1)) (filter (\<lambda>(u, a). u \<in> R) by_user))" for d
    by (induction by_user arbitrary: d) auto
  then show ?thesis by (simp add: retained_by_arm_def)
qed

lemma tally_ones:
  "sum_list (map snd (filter (\<lambda>p. fst p = a) (map (\<lambda>(u, a). (a, 1 :: int)) ps)))
     = int (length (filter (\<lambda>p. snd p = a) ps))"
  by (induction ps) auto

lemma n_by_arm_get: "dict_get (n_by_arm by_user) a 0 = int (length (filter (\<lambda>p. snd p = a) by_user))"
  by (simp add: n_by_arm_tally tally_get tally_ones) (simp add: dict_get_def)

lemma retained_by_arm_get:
  "dict_get (retained_by_arm R by_user) a 0
     = int (length (filter (\<lambda>p. snd p = a) (filter (\<lambda>(u, a). u \<in> R) by_user)))"
  by (simp add: retained_by_arm_tally tally_get tally_ones) (simp add: dict_get_def)

lemma retained_le_n: "dict_get (retained_by_arm R by_user) a 0 \<le> dict_get (n_by_arm by_user) a 0"
  by (induction by_user) (auto simp: n_by_arm_get retained_by_arm_get)

lemma arm_by_user_keys:
  "fst ` set (arm_by_user assignments) = asg_user_pseudonym ` set assignments
   \<and> distinct (map fst (arm_by_user assignments))"
proof -
  have "fst ` set (foldl (\<lambda>d a. AList.update (asg_user_pseudonym a) (asg_arm a) d) d assignments)
        = fst ` set d \<union> asg_user_pseudonym ` set assignments
      \<and> (distinct (map fst d) \<longrightarrow>
          distinct (map fst (foldl (\<lambda>d a. AList.update (asg_user_pseudonym a) (asg_arm a) d) d assignments)))" for d
    by (induction assignments arbitrary: d) (simp_all add: AList.dom_update AList.distinct_update Un_assoc)
  then show ?thesis by (simp add: arm_by_user_def)
qed

lemma in_payload:
  assumes "p \<in> set (outcomes_payload assignments os)"
  shows "ac_n p = Some (dict_get (n_by_arm (arm_by_user assignments)) (ac_arm p) 0)"
    and "ac_retained p = Some (dict_get (retained_by_arm (retained_users os) (arm_by_user assignments)) (ac_arm p) 0)"
proof -
  let ?d = "n_by_arm (arm_by_user assignments)"
  obtain a n where p: "(a, n) \<in> set ?d" "ac_arm p = a" "ac_n p = Some n"
    "ac_retained p = Some (dict_get (retained_by_arm (retained_users os) (arm_by_user assignments)) a 0)"
    using assms by (auto simp: outcomes_payload_def Let_def)
  have "distinct (map fst ?d)" by (simp add: n_by_arm_tally tally_distinct)
  then have "map_of ?d a = Some n" using p(1) by (simp add: map_of_eq_Some_iff)
  then show "ac_n p = Some (dict_get ?d (ac_arm p) 0)"
    "ac_retained p = Some (dict_get (retained_by_arm (retained_users os) (arm_by_user assignments)) (ac_arm p) 0)"
    using p by (simp_all add: dict_get_def)
qed

lemma payload_arms_distinct: "distinct (map ac_arm (outcomes_payload assignments os))"
proof -
  have "map ac_arm (outcomes_payload assignments os) = map fst (n_by_arm (arm_by_user assignments))"
    by (simp add: outcomes_payload_def Let_def comp_def case_prod_unfold)
  then show ?thesis by (simp add: n_by_arm_tally tally_distinct)
qed

section \<open>Properties\<close>

text \<open>
  The percentages are exact: of the 100 buckets the digest can fall into, control_pct go to
  CONTROL, naive_pct to NAIVE and the rest to ENGINE, for every user, tenant and experiment.
\<close>

theorem assign_arm_shares:
  assumes "0 \<le> control_pct" "0 \<le> naive_pct" "control_pct + naive_pct \<le> 100" "secret \<noteq> []"
  shows "int (length (filter (\<lambda>b. assign_arm (\<lambda>_ _. [b]) t e u secret control_pct naive_pct = Inr CONTROL) [0..<100]))
           = control_pct
       \<and> int (length (filter (\<lambda>b. assign_arm (\<lambda>_ _. [b]) t e u secret control_pct naive_pct = Inr NAIVE) [0..<100]))
           = naive_pct
       \<and> int (length (filter (\<lambda>b. assign_arm (\<lambda>_ _. [b]) t e u secret control_pct naive_pct = Inr ENGINE) [0..<100]))
           = 100 - control_pct - naive_pct"
proof -
  have arm: "assign_arm (\<lambda>_ _. [b]) t e u secret control_pct naive_pct
      = Inr (if int b < control_pct then CONTROL
             else if int b < control_pct + naive_pct then NAIVE else ENGINE)"
    if "b < 100" for b
    using assms that by (simp add: assign_arm_def bucket_def int_from_bytes_def)
  have len: "length (filter P [0..<100]) = card {b. b < 100 \<and> P b}" for P :: "nat \<Rightarrow> bool"
  proof -
    have "length (filter P [0..<100]) = card (set (filter P [0..<100]))"
      by (subst distinct_card) simp_all
    also have "set (filter P [0..<100]) = {b. b < 100 \<and> P b}" by auto
    finally show ?thesis .
  qed
  let ?arm = "\<lambda>a b. assign_arm (\<lambda>_ _. [b]) t e u secret control_pct naive_pct = Inr a"
  have "{b. b < 100 \<and> ?arm CONTROL b} = {0..<nat control_pct}"
    using assms by (auto simp: arm split: if_splits)
  moreover have "{b. b < 100 \<and> ?arm NAIVE b} = {nat control_pct..<nat (control_pct + naive_pct)}"
    using assms by (auto simp: arm zless_nat_eq_int_zless split: if_splits)
  moreover have "{b. b < 100 \<and> ?arm ENGINE b} = {nat (control_pct + naive_pct)..<100}"
    using assms by (auto simp: arm split: if_splits)
  ultimately show ?thesis using assms unfolding len by (auto simp: nat_add_distrib of_nat_diff)
qed

text \<open>
  Ramping an experiment up (a larger control share at the same or a larger total) moves no
  user who was in CONTROL out of it, and moves no user into ENGINE who was not there before.
\<close>

theorem assign_arm_rampup:
  assumes "assign_arm hmac t e u secret c n = Inr before"
    and "assign_arm hmac t e u secret c' n' = Inr after"
    and "c \<le> c'" and "c + n \<le> c' + n'"
  shows "(before = CONTROL \<longrightarrow> after = CONTROL) \<and> (after = ENGINE \<longrightarrow> before = ENGINE)"
  using assms by (auto simp: assign_arm_def res_simps split: if_splits)


text \<open>
  Event rows and pre-aggregated dicts are interchangeable: splitting the events, in any
  order, into groups of one arm each and reporting one dict of counts per group gives the
  same report, whatever the grouping.
\<close>

theorem compute_lift_aggregated:
  assumes "mset os = mset (concat (map snd chunks))"
    and "\<forall>(a, es) \<in> set chunks. \<forall>o1 \<in> set es. o_arm o1 = a"
  shows "compute_lift (map EventRow os) m = compute_lift (map (Counts \<circ> counts_of) chunks) m"
proof -
  obtain cs where cs: "map_result contribution (map (Counts \<circ> counts_of) chunks) = Inr cs"
    "arm_sum cs = arm_sum (map event_contribution (concat (map snd chunks)))"
    using chunk_contributions [OF assms(2)] by blast
  have "arm_sum (map event_contribution os) = arm_sum cs"
    using assms(1) cs(2) by (intro ext) (simp only: arm_sum_mset mset_map)
  then show ?thesis by (simp add: compute_lift_table event_contributions cs(1))
qed

text \<open>
  The console endpoint counts users, not outcome rows: its arms are distinct, their sizes
  sum to the number of assigned users, and the retained users of an arm are at most its size,
  however many outcome rows a user has.
\<close>

theorem outcomes_payload_counts_users:
  "distinct (map ac_arm (outcomes_payload assignments os))
   \<and> (\<forall>p \<in> set (outcomes_payload assignments os).
        0 \<le> int_or_0 (ac_retained p) \<and> int_or_0 (ac_retained p) \<le> int_or_0 (ac_n p))
   \<and> sum_list (map (int_or_0 \<circ> ac_n) (outcomes_payload assignments os))
       = int (card (asg_user_pseudonym ` set assignments))"
proof -
  let ?b = "arm_by_user assignments"
  have total: "sum_list (map snd (tally d (map (\<lambda>(u, a). (a, 1)) ps)))
      = sum_list (map snd d) + int (length ps)" if "distinct (map fst d)"
    for d :: "(string \<times> int) list" and ps :: "(string \<times> string) list"
    using that
  proof (induction ps arbitrary: d)
    case (Cons p ps)
    have upd: "sum_list (map snd (AList.update k (dict_get e k 0 + 1) e)) = sum_list (map snd e) + 1"
      if "distinct (map fst e)" for k and e :: "(string \<times> int) list"
      using that by (induction e) (auto simp: dict_get_def map_of_eq_None_keys)
    show ?case using Cons upd [OF Cons.prems, of "snd p"]
      by (cases p) (simp add: dict_incr_def AList.distinct_update)
  qed simp
  have "sum_list (map (int_or_0 \<circ> ac_n) (outcomes_payload assignments os)) = sum_list (map snd (n_by_arm ?b))"
    by (simp add: outcomes_payload_def Let_def comp_def case_prod_unfold int_or_0_def)
  also have "\<dots> = int (length ?b)" by (simp add: n_by_arm_tally total)
  also have "length ?b = card (asg_user_pseudonym ` set assignments)"
    using arm_by_user_keys [of assignments] distinct_card [of "map fst ?b"] by simp
  finally have "sum_list (map (int_or_0 \<circ> ac_n) (outcomes_payload assignments os))
      = int (card (asg_user_pseudonym ` set assignments))" .
  moreover have "0 \<le> int_or_0 (ac_retained p) \<and> int_or_0 (ac_retained p) \<le> int_or_0 (ac_n p)"
    if "p \<in> set (outcomes_payload assignments os)" for p
    using in_payload [OF that] retained_le_n [of "retained_users os" ?b "ac_arm p"]
    by (simp add: int_or_0_def retained_by_arm_get)
  ultimately show ?thesis using payload_arms_distinct by blast
qed

definition sample_outcome :: "string \<Rightarrow> arm \<Rightarrow> bool \<Rightarrow> outcome_event" where
  "sample_outcome oid a kept = \<lparr>o_outcome_event_id = oid, o_tenant_id = ''t1'', o_run_id = ''r1'',
     o_user_pseudonym = ''u'' @ oid, o_arm = a, o_treated = (a \<noteq> CONTROL), o_retained = kept,
     o_spend_idr = 5000, o_observed_at = 0\<rparr>"

theorem assign_arm_shares_witness:
  "int (length (filter (\<lambda>b. assign_arm (\<lambda>_ _. [b]) ''t'' ''e'' ''u'' ''k'' 20 30 = Inr NAIVE) [0..<100])) = 30"
  using assign_arm_shares [of 20 30 "''k''" "''t''" "''e''" "''u''"] by simp

theorem assign_arm_rampup_witness:
  "assign_arm (\<lambda>_ _. [0, 7]) ''t'' ''e'' ''u'' ''k'' 20 30 = Inr CONTROL"
proof -
  have "assign_arm (\<lambda>_ _. [0, 7]) ''t'' ''e'' ''u'' ''k'' 10 20 = Inr CONTROL" by code_simp
  moreover obtain a where a: "assign_arm (\<lambda>_ _. [0, 7]) ''t'' ''e'' ''u'' ''k'' 20 30 = Inr a"
    by (simp add: assign_arm_def bucket_def int_from_bytes_def)
  ultimately show ?thesis
    using assign_arm_rampup [of "\<lambda>_ _. [0, 7]" "''t''" "''e''" "''u''" "''k''" 10 20 CONTROL 20 30 a]
    by simp
qed

theorem compute_lift_aggregated_witness:
  "compute_lift (map EventRow [sample_outcome ''1'' ENGINE True, sample_outcome ''2'' CONTROL False,
       sample_outcome ''3'' ENGINE False]) 1
   = compute_lift (map (Counts \<circ> counts_of)
       [(CONTROL, [sample_outcome ''2'' CONTROL False]),
        (ENGINE, [sample_outcome ''1'' ENGINE True, sample_outcome ''3'' ENGINE False])]) 1"
  by (rule compute_lift_aggregated) (simp_all add: sample_outcome_def)


theorem outcomes_payload_counts_users_witness:
  "sum_list (map (int_or_0 \<circ> ac_n) (outcomes_payload
      [\<lparr>asg_user_pseudonym = ''u1'', asg_arm = ''ENGINE''\<rparr>, \<lparr>asg_user_pseudonym = ''u2'', asg_arm = ''CONTROL''\<rparr>]
      [\<lparr>or_user_pseudonym = ''u1'', or_outcome_type = ''RETAINED'', or_value_idr = None\<rparr>,
       \<lparr>or_user_pseudonym = ''u1'', or_outcome_type = ''RETAINED'', or_value_idr = None\<rparr>])) = 2"
  using outcomes_payload_counts_users [of
      "[\<lparr>asg_user_pseudonym = ''u1'', asg_arm = ''ENGINE''\<rparr>, \<lparr>asg_user_pseudonym = ''u2'', asg_arm = ''CONTROL''\<rparr>]"
      "[\<lparr>or_user_pseudonym = ''u1'', or_outcome_type = ''RETAINED'', or_value_idr = None\<rparr>,
        \<lparr>or_user_pseudonym = ''u1'', or_outcome_type = ''RETAINED'', or_value_idr = None\<rparr>]"]
  by simp

end
