(* ===== verification/Feedback.thy ===== *)
theory Feedback
  imports Contracts
begin

text \<open>
  \<open>packages/feedback\<close>: measured outcomes become labeled examples for the next context.  The
  snapshots are the dict \<open>{(run_id, user): FeatureSnapshot}\<close>, the set of already labeled
  outcomes is the list of its keys.
\<close>

type_synonym snapshots = "((string \<times> string) \<times> feature_snapshot) list"
type_synonym outcome_key = "string \<times> string"

definition outcome_key :: "outcome_event \<Rightarrow> outcome_key" where
  "outcome_key o1 = (o_tenant_id o1, o_outcome_event_id o1)"

definition example_key :: "labeled_example \<Rightarrow> outcome_key" where
  "example_key e = (le_tenant_id e, le_source_outcome_id e)"

definition make_example :: "outcome_event \<Rightarrow> feature_snapshot \<Rightarrow> labeled_example" where
  "make_example o1 snap =
     (let kept = (if o_retained o1 then fs_business_value_idr snap else 0) in
      \<lparr>le_tenant_id = o_tenant_id o1,
       le_source_outcome_id = o_outcome_event_id o1,
       le_user_pseudonym = o_user_pseudonym o1,
       le_features = fs_features snap,
       le_arm = o_arm o1,
       le_treated = o_treated o1,
       le_retained = o_retained o1,
       le_churn_risk = fs_churn_risk snap,
       le_impact_score = fs_impact_score snap,
       le_pattern_type = fs_pattern_type snap,
       le_incentive_code = (if o_treated o1 then fs_incentive_code snap else None),
       le_cost_idr = (if o_treated o1 then fs_cost_idr snap else 0),
       le_business_value_idr = fs_business_value_idr snap,
       le_realized_value_idr = float_of_int (kept - (if o_treated o1 then o_spend_idr o1 else 0))\<rparr>)"

fun label_loop ::
  "snapshots \<Rightarrow> outcome_event list \<Rightarrow> outcome_key list \<Rightarrow> labeled_example list \<Rightarrow> labeled_example list" where
  "label_loop snaps [] seen examples = examples"
| "label_loop snaps (o1 # os) seen examples =
     (let key = (o_tenant_id o1, o_outcome_event_id o1) in
      if key \<in> set seen then label_loop snaps os seen examples
      else (case map_of snaps (o_run_id o1, o_user_pseudonym o1) of
              None \<Rightarrow> label_loop snaps os seen examples
            | Some snap \<Rightarrow>
                if fs_tenant_id snap \<noteq> o_tenant_id o1 then label_loop snaps os seen examples
                else label_loop snaps os (key # seen) (examples @ [make_example o1 snap])))"

definition to_labeled_examples ::
  "outcome_event list \<Rightarrow> snapshots \<Rightarrow> outcome_key list \<Rightarrow> labeled_example list" where
  "to_labeled_examples outcomes snaps existing =
     label_loop snaps (sort_key o_outcome_event_id outcomes) existing []"

record feedback_summary =
  fb_new_labeled_examples :: nat
  fb_total_labeled_examples :: nat
  fb_meets_min_rows_per_cycle :: bool
  fb_used_in_next_context :: bool
  fb_synthetic_data :: bool

definition summarize :: "labeled_example list \<Rightarrow> nat \<Rightarrow> nat \<Rightarrow> bool \<Rightarrow> feedback_summary" where
  "summarize new_examples total_examples min_rows_per_cycle use_in_context =
     (let new_count = length new_examples in
      \<lparr>fb_new_labeled_examples = new_count,
       fb_total_labeled_examples = total_examples,
       fb_meets_min_rows_per_cycle = (new_count \<ge> min_rows_per_cycle),
       fb_used_in_next_context = (use_in_context \<and> new_count \<ge> min_rows_per_cycle),
       fb_synthetic_data = True\<rparr>)"

section \<open>Specification\<close>

text \<open>The outcome has a snapshot that can be trusted: same run, same user, same tenant.\<close>

definition trusted :: "snapshots \<Rightarrow> outcome_event \<Rightarrow> feature_snapshot \<Rightarrow> bool" where
  "trusted snaps o1 snap \<longleftrightarrow>
     map_of snaps (o_run_id o1, o_user_pseudonym o1) = Some snap \<and> fs_tenant_id snap = o_tenant_id o1"

lemma example_key_make [simp]: "example_key (make_example o1 snap) = outcome_key o1"
  by (simp add: example_key_def make_example_def outcome_key_def Let_def)

lemma label_loop_acc: "label_loop snaps os seen acc = acc @ label_loop snaps os seen []"
proof (induction os arbitrary: seen acc)
  case (Cons o1 os)
  show ?case
    by (simp add: Let_def Cons.IH [of _ acc] Cons.IH [of _ "_ @ [_]"] Cons.IH [of _ "[_]"]
        split: option.splits)
qed simp

lemma label_loop_Cons:
  "label_loop snaps (o1 # os) seen [] =
     (if outcome_key o1 \<in> set seen then label_loop snaps os seen []
      else (case map_of snaps (o_run_id o1, o_user_pseudonym o1) of
              None \<Rightarrow> label_loop snaps os seen []
            | Some snap \<Rightarrow>
                if fs_tenant_id snap \<noteq> o_tenant_id o1 then label_loop snaps os seen []
                else make_example o1 snap # label_loop snaps os (outcome_key o1 # seen) []))"
  by (simp add: Let_def outcome_key_def label_loop_acc [of _ _ _ "[_]"] split: option.splits)

declare label_loop.simps(2) [simp del]

lemma label_loop_sound:
  "e \<in> set (label_loop snaps os seen []) \<Longrightarrow>
   \<exists>o1 \<in> set os. \<exists>snap. trusted snaps o1 snap \<and> e = make_example o1 snap \<and> outcome_key o1 \<notin> set seen"
proof (induction os arbitrary: seen)
  case (Cons o1 os)
  then show ?case
    by (fastforce simp: label_loop_Cons trusted_def split: if_splits option.splits)
qed simp

lemma label_loop_keys_distinct:
  "distinct (map example_key (label_loop snaps os seen []))
   \<and> example_key ` set (label_loop snaps os seen []) \<inter> set seen = {}"
proof (induction os arbitrary: seen)
  case (Cons o1 os)
  show ?case
    using Cons.IH [of seen] Cons.IH [of "outcome_key o1 # seen"]
    by (auto simp: label_loop_Cons split: option.splits)
qed simp

lemma label_loop_complete:
  "o1 \<in> set os \<Longrightarrow> trusted snaps o1 snap \<Longrightarrow> outcome_key o1 \<notin> set seen \<Longrightarrow>
   outcome_key o1 \<in> example_key ` set (label_loop snaps os seen [])"
proof (induction os arbitrary: seen)
  case (Cons p os)
  show ?case
  proof (cases "outcome_key o1 = outcome_key p \<and> (\<exists>s. trusted snaps p s)")
    case True
    then show ?thesis using Cons.prems(3) by (auto simp: label_loop_Cons trusted_def)
  next
    case False
    then have "o1 \<in> set os" "outcome_key o1 \<noteq> outcome_key p \<or> (\<forall>s. \<not> trusted snaps p s)"
      using Cons.prems by auto
    then show ?thesis
      using Cons.IH [of seen] Cons.IH [of "outcome_key p # seen"] Cons.prems
      by (auto simp: label_loop_Cons trusted_def split: option.splits)
  qed
qed simp

lemma label_loop_nothing_new:
  "(\<And>o1 snap. o1 \<in> set os \<Longrightarrow> trusted snaps o1 snap \<Longrightarrow> outcome_key o1 \<in> set seen) \<Longrightarrow>
   label_loop snaps os seen [] = []"
  using label_loop_sound [of _ snaps os seen] by (metis last_in_set)

section \<open>Properties\<close>

text \<open>
  C35.  Labeling is exact: every example comes from an outcome with a trusted snapshot that was
  not labeled before, carries exactly the snapshot's features and scores and the outcome's label,
  no outcome is labeled twice, and every new outcome with a trusted snapshot is labeled.
\<close>

theorem to_labeled_examples_exact:
  "(\<forall>e \<in> set (to_labeled_examples outcomes snaps existing).
      \<exists>o1 \<in> set outcomes. \<exists>snap. trusted snaps o1 snap \<and> e = make_example o1 snap
        \<and> outcome_key o1 \<notin> set existing)
   \<and> distinct (map example_key (to_labeled_examples outcomes snaps existing))
   \<and> example_key ` set (to_labeled_examples outcomes snaps existing)
       = {outcome_key o1 |o1. o1 \<in> set outcomes \<and> (\<exists>snap. trusted snaps o1 snap)} - set existing"
proof -
  let ?es = "label_loop snaps (sort_key o_outcome_event_id outcomes) existing []"
  have sound: "\<exists>o1 \<in> set outcomes. \<exists>snap. trusted snaps o1 snap \<and> e = make_example o1 snap
        \<and> outcome_key o1 \<notin> set existing" if "e \<in> set ?es" for e
    using label_loop_sound [OF that] by simp
  have complete: "outcome_key o1 \<in> example_key ` set ?es"
    if "o1 \<in> set outcomes" "trusted snaps o1 snap" "outcome_key o1 \<notin> set existing" for o1 snap
    using that by (intro label_loop_complete) simp_all
  have "example_key ` set ?es
      = {outcome_key o1 |o1. o1 \<in> set outcomes \<and> (\<exists>snap. trusted snaps o1 snap)} - set existing"
    using sound complete by (fastforce intro: rev_image_eqI)
  then show ?thesis
    using sound label_loop_keys_distinct by (simp add: to_labeled_examples_def)
qed

text \<open>
  Ingesting the same outcomes again adds nothing: with the keys of the examples already
  produced among the existing ones, the next call returns no example.
\<close>

theorem relabel_nothing:
  "to_labeled_examples outcomes snaps
     (existing @ map example_key (to_labeled_examples outcomes snaps existing)) = []"
proof -
  have "outcome_key o1 \<in> set (existing @ map example_key (to_labeled_examples outcomes snaps existing))"
    if "o1 \<in> set (sort_key o_outcome_event_id outcomes)" "trusted snaps o1 snap" for o1 snap
    using label_loop_complete [OF that] by (auto simp: to_labeled_examples_def)
  then show ?thesis unfolding to_labeled_examples_def [of _ _ "_ @ _"]
    by (rule label_loop_nothing_new)
qed

definition feedback_outcome :: "string \<Rightarrow> outcome_event" where
  "feedback_outcome oid = \<lparr>o_outcome_event_id = oid, o_tenant_id = ''t1'', o_run_id = ''r1'',
     o_user_pseudonym = ''u1'', o_arm = ENGINE, o_treated = True, o_retained = True,
     o_spend_idr = 5000, o_observed_at = 0\<rparr>"

definition feedback_snapshot :: feature_snapshot where
  "feedback_snapshot = \<lparr>fs_tenant_id = ''t1'', fs_run_id = ''r1'', fs_user_pseudonym = ''u1'',
     fs_features = [(''tx_count'', 3)], fs_churn_risk = Some (1/2), fs_impact_score = Some (1/4),
     fs_pattern_type = Some ''STABLE'', fs_incentive_code = Some ''CASHBACK'', fs_cost_idr = 5000,
     fs_business_value_idr = 90000\<rparr>"

theorem to_labeled_examples_exact_witness:
  "example_key ` set (to_labeled_examples [feedback_outcome ''2'', feedback_outcome ''1'']
       [((''r1'', ''u1''), feedback_snapshot)] [(''t1'', ''2'')]) = {(''t1'', ''1'')}"
proof -
  let ?os = "[feedback_outcome ''2'', feedback_outcome ''1'']"
  have "\<exists>snap. trusted [((''r1'', ''u1''), feedback_snapshot)] o1 snap" if "o1 \<in> set ?os" for o1
    using that by (intro exI [of _ feedback_snapshot])
      (auto simp: trusted_def feedback_outcome_def feedback_snapshot_def)
  then have "{outcome_key o1 |o1. o1 \<in> set ?os \<and> (\<exists>snap. trusted [((''r1'', ''u1''), feedback_snapshot)] o1 snap)}
      = outcome_key ` set ?os" by blast
  moreover have "outcome_key ` set ?os - set [(''t1'', ''2'')] = {(''t1'', ''1'')}"
    by (simp add: outcome_key_def feedback_outcome_def)
  ultimately show ?thesis
    using to_labeled_examples_exact [of "[feedback_outcome ''2'', feedback_outcome ''1'']"
        "[((''r1'', ''u1''), feedback_snapshot)]" "[(''t1'', ''2'')]"] by simp
qed

end
