(* ===== verification/Ranker.thy ===== *)
theory Ranker
  imports Contracts
begin

text \<open>
  \<open>packages/ranker\<close>: the in-context rows (\<open>context.py\<close>) and priority scoring (\<open>ranker.py\<close>).
  A regressor library is a parameter that returns one prediction per query row or the
  exception it raised; the \<open>except Exception: pass\<close> around TabPFN falls through to the forest.
\<close>

section \<open>context.py\<close>

definition RANKER_COLUMNS :: "string list" where
  "RANKER_COLUMNS = [''impact_score'', ''churn_risk'', ''pattern_circle_specific'',
     ''pattern_market_driven'', ''pattern_stable'', ''cost_idr'', ''business_value_idr'']"

record ranker_context =
  rc_X :: "pyfloat list list"
  rc_y :: "pyfloat list"

definition parse_pattern :: "string \<Rightarrow> pattern_type result" where
  "parse_pattern s = (if s = ''CIRCLE_SPECIFIC'' then Inr CIRCLE_SPECIFIC
     else if s = ''MARKET_DRIVEN'' then Inr MARKET_DRIVEN
     else if s = ''STABLE'' then Inr STABLE
     else Inl (ValueError ''not a valid PatternType''))"

definition ranker_row ::
  "pyfloat \<Rightarrow> pyfloat \<Rightarrow> string option \<Rightarrow> int \<Rightarrow> int \<Rightarrow> pyfloat list result" where
  "ranker_row impact churn pattern_type cost business_value =
     bind_result (case pattern_type of None \<Rightarrow> Inr STABLE
                  | Some s \<Rightarrow> if s = [] then Inr STABLE else parse_pattern s) (\<lambda>pattern. Inr
       [impact,
        churn,
        if pattern = CIRCLE_SPECIFIC then 1 else 0,
        if pattern = MARKET_DRIVEN then 1 else 0,
        if pattern = STABLE then 1 else 0,
        float_of_int cost,
        float_of_int business_value])"

definition usable_example :: "labeled_example \<Rightarrow> bool" where
  "usable_example e \<longleftrightarrow> le_treated e \<and> le_impact_score e \<noteq> None \<and> le_churn_risk e \<noteq> None"

definition build_context :: "labeled_example list \<Rightarrow> ranker_context result" where
  "build_context labeled_examples =
     (let examples = sort_key le_source_outcome_id labeled_examples;
          tenants = remdups (map le_tenant_id examples)
      in if length tenants > 1
         then Inl (CrossTenantContext (''ranker context spans '' @ show_nat (length tenants) @ '' tenants''))
         else
           let usable = filter usable_example examples
           in bind_result (map_result (\<lambda>e. ranker_row (the (le_impact_score e)) (the (le_churn_risk e))
                              (le_pattern_type e) (le_cost_idr e) (le_business_value_idr e)) usable)
                (\<lambda>X. Inr \<lparr>rc_X = X, rc_y = map le_realized_value_idr usable\<rparr>))"

section \<open>ranker.py\<close>

type_synonym regressor =
  "int \<Rightarrow> pyfloat list list \<Rightarrow> pyfloat list \<Rightarrow> pyfloat list list \<Rightarrow> pyfloat list result"

definition candidate_row :: "candidate \<Rightarrow> pyfloat list result" where
  "candidate_row c = ranker_row (c_impact_score c) (c_churn_risk c)
     (Some (pattern_value (c_pattern_type c))) (c_cost_idr c) (c_business_value_idr c)"

definition regress ::
  "regressor \<Rightarrow> regressor \<Rightarrow> ranker_context \<Rightarrow> pyfloat list list \<Rightarrow> int \<Rightarrow> bool \<Rightarrow>
   (pyfloat list \<times> ranking_strategy) result" where
  "regress tabpfn forest ctx query seed use_tabpfn =
     (let stand_in = bind_result (forest seed (rc_X ctx) (rc_y ctx) query)
                       (\<lambda>ps. Inr (ps, SKLEARN_STAND_IN))
      in if use_tabpfn
         then (case tabpfn seed (rc_X ctx) (rc_y ctx) query of
                 Inr ps \<Rightarrow> Inr (ps, TABPFN)
               | Inl _ \<Rightarrow> stand_in)
         else stand_in)"

definition rank_key :: "ranked_candidate \<Rightarrow> rat \<times> string" where
  "rank_key r = (- r_priority r, c_candidate_id (r_candidate r))"

definition make_ranked :: "ranking_strategy \<Rightarrow> candidate list \<Rightarrow> pyfloat list \<Rightarrow> ranked_candidate list" where
  "make_ranked strategy cands priorities =
     map (\<lambda>(c, p). \<lparr>r_candidate = c, r_priority = p, r_ranking_strategy = strategy\<rparr>)
       (zip cands priorities)"

text \<open>\<open>c.impact_score * c.business_value_idr\<close>\<close>

definition fallback_priority :: "candidate \<Rightarrow> pyfloat" where
  "fallback_priority c = fmul (c_impact_score c) (float_of_int (c_business_value_idr c))"

definition rank ::
  "regressor \<Rightarrow> regressor \<Rightarrow> ranker_context option \<Rightarrow> candidate list \<Rightarrow> nat \<Rightarrow> int \<Rightarrow> bool \<Rightarrow>
   ranked_candidate list result" where
  "rank tabpfn forest ctx candidates min_context_rows seed use_tabpfn =
     (let cands = sort_key c_candidate_id candidates in
      if cands = [] then Inr []
      else bind_result
        (case ctx of
           None \<Rightarrow> Inr (map fallback_priority cands, FALLBACK)
         | Some cx \<Rightarrow>
             if length (rc_X cx) < min_context_rows
             then Inr (map fallback_priority cands, FALLBACK)
             else bind_result (map_result candidate_row cands)
                    (\<lambda>query. regress tabpfn forest cx query seed use_tabpfn))
        (\<lambda>(priorities, strategy).
           Inr (sort_key rank_key (make_ranked strategy cands priorities))))"

section \<open>The contract of a regressor\<close>







lemma make_ranked_fallback:
  "r \<in> set (make_ranked st cs (map f cs)) \<Longrightarrow> r_priority r = f (r_candidate r)"
  by (auto simp: make_ranked_def zip_map2 zip_same_conv_map)

definition enough_context :: "ranker_context option \<Rightarrow> nat \<Rightarrow> bool" where
  "enough_context ctx min_rows \<longleftrightarrow> (case ctx of None \<Rightarrow> False | Some cx \<Rightarrow> min_rows \<le> length (rc_X cx))"

text \<open>A run of \<open>rank\<close> that returns is the sorted list of one scored copy of each candidate.\<close>

lemma rank_fallback:
  "\<not> enough_context ctx m \<Longrightarrow>
   rank tab forest ctx candidates m seed use =
     Inr (sort_key rank_key (make_ranked FALLBACK (sort_key c_candidate_id candidates)
            (map fallback_priority (sort_key c_candidate_id candidates))))"
  by (cases "sort_key c_candidate_id candidates = []")
    (auto simp: rank_def enough_context_def make_ranked_def Let_def split: option.splits)



section \<open>Properties\<close>


text \<open>
  In FALLBACK mode the priorities respect dominance: a candidate with at least the impact and
  at least the business value of another (both not negative) has at least its priority, although
  both products are rounded.
\<close>

theorem fallback_dominance:
  assumes "rank tab forest ctx candidates m seed use = Inr ranked" and "\<not> enough_context ctx m"
    and "r \<in> set ranked" "r' \<in> set ranked"
    and "0 \<le> c_impact_score (r_candidate r)" "c_impact_score (r_candidate r) \<le> c_impact_score (r_candidate r')"
    and "0 \<le> c_business_value_idr (r_candidate r)"
    and "c_business_value_idr (r_candidate r) \<le> c_business_value_idr (r_candidate r')"
  shows "r_priority r \<le> r_priority r'"
proof -
  have prio: "r_priority x = fallback_priority (r_candidate x)" if "x \<in> set ranked" for x
    using that assms(1,2) make_ranked_fallback by (auto simp: rank_fallback)
  have "0 \<le> float_of_int (c_business_value_idr (r_candidate r))"
    using assms(7) by (simp add: float_of_int_def fl_nonneg)
  moreover have "float_of_int (c_business_value_idr (r_candidate r))
      \<le> float_of_int (c_business_value_idr (r_candidate r'))"
    using assms(8) by (simp add: float_of_int_def fl_mono)
  ultimately show ?thesis
    using assms(5,6) unfolding prio [OF assms(3)] prio [OF assms(4)] fallback_priority_def fmul_def
    by (intro fl_mono mult_mono) auto
qed

text \<open>
  A ranker context never mixes tenants and never learns from users who were not treated:
  it is refused exactly when two examples belong to different tenants (or a stored pattern
  is not one of the three), and otherwise has one full row and one target per treated example
  with recorded scores.
\<close>

theorem build_context_isolated:
  "(build_context es = Inl e \<longrightarrow>
      (\<exists>x \<in> set es. \<exists>y \<in> set es. le_tenant_id x \<noteq> le_tenant_id y)
      \<or> (\<exists>x \<in> set es. \<exists>s. le_pattern_type x = Some s \<and> s \<noteq> [] \<and> parse_pattern s = Inl e))
   \<and> (build_context es = Inr ctx \<longrightarrow>
      (\<forall>x \<in> set es. \<forall>y \<in> set es. le_tenant_id x = le_tenant_id y)
      \<and> length (rc_X ctx) = length (filter usable_example es)
      \<and> length (rc_y ctx) = length (rc_X ctx)
      \<and> (\<forall>row \<in> set (rc_X ctx). length row = length RANKER_COLUMNS))"
proof -
  let ?es = "sort_key le_source_outcome_id es"
  let ?row = "\<lambda>e. ranker_row (the (le_impact_score e)) (the (le_churn_risk e))
                              (le_pattern_type e) (le_cost_idr e) (le_business_value_idr e)"
  have one: "length (remdups (map le_tenant_id ?es)) \<le> 1
      \<longleftrightarrow> (\<forall>x \<in> set es. \<forall>y \<in> set es. le_tenant_id x = le_tenant_id y)"
    by (auto simp: length_remdups_card_conv card_le_Suc0_iff_eq)
  have err: "\<exists>x \<in> set xs. \<exists>s. le_pattern_type x = Some s \<and> s \<noteq> [] \<and> parse_pattern s = Inl e'"
    if "map_result ?row xs = Inl e'" for xs e'
    using that by (induction xs) (auto simp: ranker_row_def res_simps split: option.splits if_splits)
  have len: "length row = length RANKER_COLUMNS" if "ranker_row a b c d f = Inr row" for a b c d f row
    using that by (auto simp: ranker_row_def res_simps RANKER_COLUMNS_def)
  have rows: "\<forall>row \<in> set X. length row = length RANKER_COLUMNS"
    if "map_result ?row xs = Inr X" for xs X
    using that len by (induction xs arbitrary: X) (auto simp: res_simps)
  have filter: "length (filter usable_example ?es) = length (filter usable_example es)"
    by (metis filter_sort length_sort)
  show ?thesis
  proof (cases "length (remdups (map le_tenant_id ?es)) > 1")
    case True
    then have "\<exists>x \<in> set es. \<exists>y \<in> set es. le_tenant_id x \<noteq> le_tenant_id y"
      using one by (simp only: not_le [symmetric]) blast
    with True show ?thesis by (simp add: build_context_def)
  next
    case False
    then have same: "\<forall>x \<in> set es. \<forall>y \<in> set es. le_tenant_id x = le_tenant_id y"
      using one by (simp only: not_less)
    have run: "build_context es = bind_result (map_result ?row (filter usable_example ?es))
        (\<lambda>X. Inr \<lparr>rc_X = X, rc_y = map le_realized_value_idr (filter usable_example ?es)\<rparr>)"
      using False by (simp add: build_context_def Let_def)
    show ?thesis
    proof (cases "map_result ?row (filter usable_example ?es)")
      case (Inl e')
      have "\<exists>x \<in> set es. \<exists>s. le_pattern_type x = Some s \<and> s \<noteq> [] \<and> parse_pattern s = Inl e'"
        using err [OF Inl] by auto
      with run Inl show ?thesis by auto
    next
      case (Inr X)
      have "length X = length (filter usable_example es)"
        using map_result_length [OF Inr] filter by simp
      with run Inr rows [OF Inr] filter have "build_context es = Inr ctx \<longrightarrow>
          length (rc_X ctx) = length (filter usable_example es) \<and> length (rc_y ctx) = length (rc_X ctx)
          \<and> (\<forall>row \<in> set (rc_X ctx). length row = length RANKER_COLUMNS)" by auto
      moreover have "build_context es \<noteq> Inl e" using run Inr by simp
      ultimately show ?thesis using same by blast
    qed
  qed
qed

definition ranker_candidate :: "string \<Rightarrow> pyfloat \<Rightarrow> int \<Rightarrow> candidate" where
  "ranker_candidate cid impact value =
     \<lparr>c_candidate_id = cid, c_tenant_id = ''t1'', c_user_pseudonym = ''u'' @ cid,
      c_incentive_code = ''CASHBACK'', c_cost_idr = 1000, c_business_value_idr = value,
      c_encourages_borrowing = False, c_changes_credit_terms = False, c_group_id = None,
      c_churn_risk = 1/2, c_impact_score = impact, c_segment = PERSUADABLE, c_pattern_type = STABLE\<rparr>"

definition no_tabpfn :: regressor where
  "no_tabpfn seed X y query = Inl (RuntimeError ''No module named tabpfn'')"

definition first_column :: regressor where
  "first_column seed X y query = Inr (map (\<lambda>q. q ! 0) query)"



theorem fallback_dominance_witness:
  "(2 :: rat) \<le> 4"
proof -
  let ?a = "ranker_candidate ''a'' (1/4) 8"
  let ?b = "ranker_candidate ''b'' (1/2) 8"
  have run: "rank no_tabpfn first_column None [?a, ?b] 1 7 True =
      Inr [\<lparr>r_candidate = ?b, r_priority = 4, r_ranking_strategy = FALLBACK\<rparr>,
           \<lparr>r_candidate = ?a, r_priority = 2, r_ranking_strategy = FALLBACK\<rparr>]"
    by code_simp
  have "r_priority \<lparr>r_candidate = ?a, r_priority = 2, r_ranking_strategy = FALLBACK\<rparr>
      \<le> r_priority \<lparr>r_candidate = ?b, r_priority = 4, r_ranking_strategy = FALLBACK\<rparr>"
    by (rule fallback_dominance [OF run]) (simp_all add: enough_context_def ranker_candidate_def)
  then show ?thesis by simp
qed

definition ranker_example :: "string \<Rightarrow> bool \<Rightarrow> labeled_example" where
  "ranker_example oid treated =
     \<lparr>le_tenant_id = ''t1'', le_source_outcome_id = oid, le_user_pseudonym = ''u'' @ oid,
      le_features = [], le_arm = ENGINE, le_treated = treated, le_retained = True,
      le_churn_risk = Some (1/4), le_impact_score = Some (1/8), le_pattern_type = Some ''STABLE'',
      le_incentive_code = None, le_cost_idr = 1000, le_business_value_idr = 50000,
      le_realized_value_idr = 49000\<rparr>"

theorem build_context_isolated_witness:
  "\<exists>ctx. build_context [ranker_example ''1'' True, ranker_example ''2'' False] = Inr ctx
     \<and> length (rc_X ctx) = 1"
proof -
  let ?es = "[ranker_example ''1'' True, ranker_example ''2'' False]"
  have "build_context ?es = Inr \<lparr>rc_X = [[1/8, 1/4, 0, 0, 1, 1000, 50000]], rc_y = [49000]\<rparr>"
    by code_simp
  moreover have "length (filter usable_example ?es) = 1" by code_simp
  ultimately show ?thesis
    using build_context_isolated [of ?es _ "\<lparr>rc_X = [[1/8, 1/4, 0, 0, 1, 1000, 50000]], rc_y = [49000]\<rparr>"]
    by simp
qed

end
