(* ===== verification/Allocator.thy ===== *)
theory Allocator
  imports Contracts
begin

text \<open>
  \<open>packages/allocator\<close>: knapsack items (\<open>items.py\<close>), the greedy density fallback
  (\<open>greedy.py\<close>), the exact multiple-choice knapsack by dynamic programming (\<open>knapsack.py\<close>),
  group bundles (\<open>groups.py\<close>) and the allocation decisions (\<open>selection.py\<close>).  Values are
  floating-point numbers and costs are integers of rupiah.  A list read or written at an
  index follows Python: a negative index counts from the end, any other index outside the
  list raises.
\<close>

section \<open>items.py\<close>

record knapsack_item =
  it_id :: string
  it_key :: string
  it_cost :: int
  it_value :: pyfloat
  it_candidates :: "string list"

section \<open>greedy.py\<close>

definition density_key :: "knapsack_item \<Rightarrow> rat \<times> string" where
  "density_key i = (- fdiv (it_value i) (float_of_int (max (it_cost i) 1)), it_id i)"

fun greedy_loop :: "knapsack_item list \<Rightarrow> int \<Rightarrow> string list \<Rightarrow> string list \<Rightarrow> string list" where
  "greedy_loop [] remaining taken selected = selected"
| "greedy_loop (i # is) remaining taken selected =
     (if it_key i \<in> set taken \<or> it_cost i > remaining
      then greedy_loop is remaining taken selected
      else greedy_loop is (remaining - it_cost i) (it_key i # taken) (selected @ [it_id i]))"

definition greedy_solve :: "knapsack_item list \<Rightarrow> int \<Rightarrow> string list" where
  "greedy_solve items budget =
     (let usable = filter (\<lambda>i. it_value i > 0) items
      in sort (greedy_loop (sort_key density_key usable) budget [] []))"

section \<open>knapsack.py\<close>

definition py_pos :: "'a list \<Rightarrow> int \<Rightarrow> nat result" where
  "py_pos xs i =
     (if 0 \<le> i \<and> i < int (length xs) then Inr (nat i)
      else if - int (length xs) \<le> i \<and> i < 0 then Inr (nat (int (length xs) + i))
      else Inl IndexError)"

definition py_at :: "'a list \<Rightarrow> int \<Rightarrow> 'a result" where
  "py_at xs i = bind_result (py_pos xs i) (\<lambda>n. Inr (xs ! n))"

definition py_put :: "'a list \<Rightarrow> int \<Rightarrow> 'a \<Rightarrow> 'a list result" where
  "py_put xs i x = bind_result (py_pos xs i) (\<lambda>n. Inr (xs[n := x]))"

text \<open>The double nearest to \<open>1e-9\<close>.\<close>

definition tolerance :: pyfloat where "tolerance = fl (1 / 10 ^ 9)"

text \<open>\<open>for c in range(w, capacity + 1)\<close> for one item.\<close>

fun relax ::
  "pyfloat list \<Rightarrow> pyfloat \<Rightarrow> int \<Rightarrow> int \<Rightarrow> int list \<Rightarrow> pyfloat list \<Rightarrow> int list \<Rightarrow>
   (pyfloat list \<times> int list) result" where
  "relax best v w idx [] nxt choice = Inr (nxt, choice)"
| "relax best v w idx (c # cs) nxt choice =
     bind_result (py_at best (c - w)) (\<lambda>b.
     bind_result (py_at nxt c) (\<lambda>n.
       if fadd b v > fadd n tolerance
       then bind_result (py_put nxt c (fadd b v)) (\<lambda>nxt'.
            bind_result (py_put choice c idx) (\<lambda>choice'.
              relax best v w idx cs nxt' choice'))
       else relax best v w idx cs nxt choice))"

type_synonym weights = "(string \<times> int) list"

text \<open>\<open>weight[item.item_id]\<close>\<close>

definition weight_of :: "weights \<Rightarrow> knapsack_item \<Rightarrow> int result" where
  "weight_of ws i = (case map_of ws (it_id i) of None \<Rightarrow> Inl (KeyError (it_id i)) | Some w \<Rightarrow> Inr w)"

text \<open>\<open>for idx, item in enumerate(groups[key])\<close>\<close>

fun group_loop ::
  "weights \<Rightarrow> int \<Rightarrow> pyfloat list \<Rightarrow> int \<Rightarrow> knapsack_item list \<Rightarrow> pyfloat list \<Rightarrow> int list \<Rightarrow>
   (pyfloat list \<times> int list) result" where
  "group_loop ws capacity best idx [] nxt choice = Inr (nxt, choice)"
| "group_loop ws capacity best idx (i # is) nxt choice =
     bind_result (weight_of ws i) (\<lambda>w.
     bind_result (relax best (it_value i) w idx [w..capacity] nxt choice) (\<lambda>(nxt', choice').
       group_loop ws capacity best (idx + 1) is nxt' choice'))"

text \<open>\<open>for key in keys\<close>: the table of the last key and one choice array per key, the last first.\<close>

fun dp_loop ::
  "weights \<Rightarrow> int \<Rightarrow> knapsack_item list list \<Rightarrow> pyfloat list \<Rightarrow> (knapsack_item list \<times> int list) list \<Rightarrow>
   (pyfloat list \<times> (knapsack_item list \<times> int list) list) result" where
  "dp_loop ws capacity [] best rows = Inr (best, rows)"
| "dp_loop ws capacity (g # gs) best rows =
     bind_result (group_loop ws capacity best 0 g best (replicate (nat (capacity + 1)) (-1)))
       (\<lambda>(nxt, choice). dp_loop ws capacity gs nxt ((g, choice) # rows))"

text \<open>\<open>max(range(capacity + 1), key=lambda k: (best[k], -k))\<close>: Python keeps the first maximum.\<close>

fun max_by :: "('a \<Rightarrow> 'b::linorder) \<Rightarrow> 'a \<Rightarrow> 'a list \<Rightarrow> 'a" where
  "max_by f m [] = m"
| "max_by f m (x # xs) = (if f x > f m then max_by f x xs else max_by f m xs)"

definition best_capacity :: "pyfloat list \<Rightarrow> int \<Rightarrow> int result" where
  "best_capacity best capacity =
     (if capacity < 0 then Inl (ValueError ''max() arg is an empty sequence'')
      else Inr (max_by (\<lambda>k. (best ! nat k, - k)) 0 [1..capacity]))"

text \<open>The walk back over the keys, from the last to the first.\<close>

fun trace_back ::
  "weights \<Rightarrow> (knapsack_item list \<times> int list) list \<Rightarrow> int \<Rightarrow> string list result" where
  "trace_back ws [] c = Inr []"
| "trace_back ws ((g, choice) # rows) c =
     bind_result (py_at choice c) (\<lambda>idx.
       if idx \<ge> 0
       then bind_result (py_at g idx) (\<lambda>i.
            bind_result (weight_of ws i) (\<lambda>w.
            bind_result (trace_back ws rows (c - w)) (\<lambda>ids. Inr (it_id i # ids))))
       else trace_back ws rows c)"

definition usable_items :: "knapsack_item list \<Rightarrow> int \<Rightarrow> knapsack_item list" where
  "usable_items items budget = filter (\<lambda>i. it_value i > 0 \<and> it_cost i \<le> budget) items"

definition choice_groups :: "knapsack_item list \<Rightarrow> (string \<times> knapsack_item list) list" where
  "choice_groups usable = group_by it_key (sort_key (\<lambda>i. (it_key i, it_id i)) usable)"

text \<open>\<open>math.ceil(i.cost_idr / cost_scale_idr)\<close> and the dict of the weights.\<close>

definition scaled_cost :: "int \<Rightarrow> int \<Rightarrow> int" where
  "scaled_cost cost scale = \<lceil>int_truediv cost scale\<rceil>"

definition item_weights :: "knapsack_item list \<Rightarrow> int \<Rightarrow> weights" where
  "item_weights usable scale =
     foldl (\<lambda>d i. AList.update (it_id i) (scaled_cost (it_cost i) scale) d) [] usable"

definition knapsack_solve ::
  "knapsack_item list \<Rightarrow> int \<Rightarrow> int \<Rightarrow> int \<Rightarrow> string list result" where
  "knapsack_solve items budget cost_scale max_dp_cells =
     (let usable = usable_items items budget in
      if usable = [] then Inr []
      else if cost_scale = 0 then Inl ZeroDivisionError
      else
        let capacity = budget div cost_scale;
            groups = choice_groups usable;
            keys = sort (map fst groups)
        in if int (length keys) * (capacity + 1) > max_dp_cells
           then Inl (DPTooLarge (show_int (int (length keys)) @ '' x '' @ show_int (capacity + 1)
                       @ '' cells exceeds '' @ show_int max_dp_cells))
           else
             let ws = item_weights usable cost_scale;
                 rows = map (\<lambda>k. dict_get groups k []) keys
             in bind_result (dp_loop ws capacity rows (replicate (nat (capacity + 1)) 0) [])
                  (\<lambda>(best, choices).
                bind_result (best_capacity best capacity) (\<lambda>c.
                bind_result (trace_back ws choices c) (\<lambda>ids. Inr (sort ids)))))"

section \<open>groups.py\<close>

definition bundle_group :: "string \<Rightarrow> ranked_candidate list \<Rightarrow> knapsack_item result" where
  "bundle_group group_id member_candidates =
     (let members = sort_key (\<lambda>r. c_candidate_id (r_candidate r)) member_candidates in
      case members of
        [] \<Rightarrow> Inl (ValueError ''a group bundle needs at least one member'')
      | m # _ \<Rightarrow> Inr
          \<lparr>it_id = ''bundle:'' @ group_id,
           it_key = ''group:'' @ (case c_group_id (r_candidate m) of None \<Rightarrow> ''None'' | Some g \<Rightarrow> g),
           it_cost = sum_list (map (\<lambda>r. c_cost_idr (r_candidate r)) members),
           it_value = py_fsum (map r_priority members),
           it_candidates = map (\<lambda>r. c_candidate_id (r_candidate r)) members\<rparr>)"

section \<open>selection.py\<close>

definition STRATEGY_DP :: string where "STRATEGY_DP = ''EXACT_DP''"
definition STRATEGY_GREEDY :: string where "STRATEGY_GREEDY = ''GREEDY_DENSITY''"

record allocator_config =
  al_strategy :: string
  al_cost_scale_idr :: int
  al_max_dp_cells :: int

definition single_item :: "ranked_candidate \<Rightarrow> knapsack_item" where
  "single_item r = \<lparr>it_id = c_candidate_id (r_candidate r), it_key = c_user_pseudonym (r_candidate r),
     it_cost = c_cost_idr (r_candidate r), it_value = r_priority r,
     it_candidates = [c_candidate_id (r_candidate r)]\<rparr>"

definition bundles_of :: "ranked_candidate list \<Rightarrow> ((string \<times> string) \<times> ranked_candidate list) list" where
  "bundles_of candidates =
     group_by (\<lambda>r. (the (c_group_id (r_candidate r)), c_incentive_code (r_candidate r)))
       (filter (\<lambda>r. c_group_id (r_candidate r) \<noteq> None) candidates)"

definition allocation_items :: "ranked_candidate list \<Rightarrow> knapsack_item list result" where
  "allocation_items candidates =
     bind_result
       (map_result (\<lambda>((group_id, incentive), members). bundle_group (group_id @ '':'' @ incentive) members)
          (sort_key fst (bundles_of candidates)))
       (\<lambda>bundled. Inr (map single_item (filter (\<lambda>r. c_group_id (r_candidate r) = None) candidates) @ bundled))"

definition value_key :: "knapsack_item \<Rightarrow> rat \<times> string" where
  "value_key i = (- it_value i, it_id i)"

definition by_id :: "knapsack_item list \<Rightarrow> (string \<times> knapsack_item) list" where
  "by_id items = foldl (\<lambda>d i. AList.update (it_id i) i d) [] items"

text \<open>\<open>{item.item_id: n for n, item in enumerate(chosen_items, start=1)}\<close>\<close>

fun rank_of :: "nat \<Rightarrow> knapsack_item list \<Rightarrow> (string \<times> nat) list \<Rightarrow> (string \<times> nat) list" where
  "rank_of n [] d = d"
| "rank_of n (i # is) d = rank_of (Suc n) is (AList.update (it_id i) n d)"

fun runner_up_loop ::
  "string list \<Rightarrow> (string \<times> nat) list \<Rightarrow> knapsack_item list \<Rightarrow> (string \<times> string) list \<Rightarrow>
   (string \<times> string) list" where
  "runner_up_loop picked ranks [] d = d"
| "runner_up_loop picked ranks (i # is) d =
     (if it_key i \<in> set picked \<and> map_of ranks (it_id i) = None \<and> map_of d (it_key i) = None
         \<and> it_value i > 0
      then runner_up_loop picked ranks is (AList.update (it_key i) (it_id i) d)
      else runner_up_loop picked ranks is d)"

definition exclusion_of :: "string list \<Rightarrow> (string \<times> nat) list \<Rightarrow> knapsack_item \<Rightarrow> exclusion_reason option" where
  "exclusion_of picked ranks i =
     (if map_of ranks (it_id i) \<noteq> None then None
      else if it_value i \<le> 0 then Some NO_EXPECTED_GAIN
      else if it_key i \<in> set picked then Some RUNNER_UP
      else Some BUDGET_EXHAUSTED)"

definition item_decisions ::
  "string list \<Rightarrow> (string \<times> nat) list \<Rightarrow> (string \<times> string) list \<Rightarrow> knapsack_item \<Rightarrow>
   allocation_decision list" where
  "item_decisions picked ranks runner_ups i =
     map (\<lambda>cid. \<lparr>ad_candidate_id = cid, ad_choice_key = it_key i,
                 ad_selected = (map_of ranks (it_id i) \<noteq> None), ad_priority = it_value i,
                 ad_cost_idr = it_cost i, ad_rank = map_of ranks (it_id i),
                 ad_is_runner_up = (map_of runner_ups (it_key i) = Some (it_id i)),
                 ad_exclusion_reason = exclusion_of picked ranks i\<rparr>) (it_candidates i)"

text \<open>The second half of \<open>allocate\<close>, from the chosen item ids to the result.\<close>

definition decide :: "knapsack_item list \<Rightarrow> int \<Rightarrow> string \<Rightarrow> string list \<Rightarrow> allocation_result result" where
  "decide items budget strategy chosen =
     bind_result (map_result (\<lambda>i. case map_of (by_id items) i of
                                    None \<Rightarrow> Inl (KeyError i) | Some it \<Rightarrow> Inr it) chosen)
       (\<lambda>picked_items.
     let chosen_items = sort_key value_key picked_items;
         picked = map it_key chosen_items;
         ranks = rank_of 1 chosen_items [];
         runner_ups = runner_up_loop picked ranks (sort_key value_key items) [];
         decisions = concat (map (item_decisions picked ranks runner_ups)
                        (sort_key (\<lambda>i. (it_key i, it_id i)) items))
     in Inr \<lparr>ar_strategy = strategy,
             ar_budget_idr = budget,
             ar_spent_idr = sum_list (map it_cost chosen_items),
             ar_objective_value_idr = py_fsum (map it_value chosen_items),
             ar_decisions = decisions\<rparr>)"

definition allocate :: "ranked_candidate list \<Rightarrow> int \<Rightarrow> allocator_config \<Rightarrow> allocation_result result" where
  "allocate candidates budget config =
     bind_result (allocation_items candidates) (\<lambda>items.
       if py_lower (al_strategy config) \<in> {''auto'', ''exact_dp''}
       then (case knapsack_solve items budget (al_cost_scale_idr config) (al_max_dp_cells config) of
               Inr chosen \<Rightarrow> decide items budget STRATEGY_DP chosen
             | Inl (DPTooLarge msg) \<Rightarrow> decide items budget STRATEGY_GREEDY (greedy_solve items budget)
             | Inl e \<Rightarrow> Inl e)
       else decide items budget STRATEGY_GREEDY (greedy_solve items budget))"

end
