(* ===== verification/Allocation.thy ===== *)
theory Allocation
  imports Allocator
begin

text \<open>
  Correctness of the allocator.  The locale \<open>allocation_solver\<close> is what \<open>allocate\<close> relies on in
  a solver; the greedy and the dynamic-programming solver are its interpretations, and the
  lemmas about decisions (budget, one pick per key, reasons, ranks) are proved once inside it.
  The dynamic program is related to \<open>picks\<close>, the selections of at most one item per group:
  every table entry is the value of the selection the walk back finds, and on a grid of
  values the last table bounds every selection.
\<close>

section \<open>Selections of at most one item per group\<close>

text \<open>The groups are listed from the last to the first, as the walk back meets them.\<close>

inductive picks :: "knapsack_item list list \<Rightarrow> knapsack_item list \<Rightarrow> bool" where
  picks_Nil: "picks [] []"
| picks_skip: "picks gs Q \<Longrightarrow> picks (g # gs) Q"
| picks_take: "picks gs Q \<Longrightarrow> i \<in> set g \<Longrightarrow> picks (g # gs) (i # Q)"

inductive_cases picks_NilE: "picks [] Q"
inductive_cases picks_ConsE: "picks (g # gs) Q"

definition weight_sum :: "(knapsack_item \<Rightarrow> int) \<Rightarrow> knapsack_item list \<Rightarrow> int" where
  "weight_sum W Q = sum_list (map W Q)"

text \<open>The value the table holds: the items are added in the order of the keys.\<close>

fun pick_value :: "knapsack_item list \<Rightarrow> pyfloat" where
  "pick_value [] = 0"
| "pick_value (i # Q) = fadd (pick_value Q) (it_value i)"

lemma picks_subset: "picks gs Q \<Longrightarrow> set Q \<subseteq> (\<Union>g \<in> set gs. set g)"
  by (induction rule: picks.induct) auto

section \<open>Reading the arrays\<close>

lemma py_pos_ok: "0 \<le> i \<Longrightarrow> i < int (length xs) \<Longrightarrow> py_pos xs i = Inr (nat i)"
  by (simp add: py_pos_def)

lemma py_at_ok: "0 \<le> i \<Longrightarrow> i < int (length xs) \<Longrightarrow> py_at xs i = Inr (xs ! nat i)"
  by (simp add: py_at_def py_pos_ok)

lemma py_put_ok: "0 \<le> i \<Longrightarrow> i < int (length xs) \<Longrightarrow> py_put xs i x = Inr (xs[nat i := x])"
  by (simp add: py_put_def py_pos_ok)

definition better :: "pyfloat list \<Rightarrow> pyfloat \<Rightarrow> int \<Rightarrow> pyfloat list \<Rightarrow> nat \<Rightarrow> bool" where
  "better best v w nxt c \<longleftrightarrow> fadd (nxt ! c) tolerance < fadd (best ! (c - nat w)) v"

lemma relax_ok:
  "distinct cs \<Longrightarrow> set cs \<subseteq> {w..int n} \<Longrightarrow> 0 \<le> w \<Longrightarrow> length best = Suc n \<Longrightarrow>
   length nxt = Suc n \<Longrightarrow> length choice = Suc n \<Longrightarrow>
   \<exists>nxt' choice'. relax best v w idx cs nxt choice = Inr (nxt', choice')
     \<and> length nxt' = Suc n \<and> length choice' = Suc n
     \<and> (\<forall>c\<le>n. nxt' ! c = (if int c \<in> set cs \<and> better best v w nxt c
                              then fadd (best ! (c - nat w)) v else nxt ! c)
              \<and> choice' ! c = (if int c \<in> set cs \<and> better best v w nxt c then idx else choice ! c))"
proof (induction cs arbitrary: nxt choice)
  case Nil
  then show ?case by simp
next
  case (Cons c cs)
  have c: "0 \<le> c" "c \<le> int n" "w \<le> c" using Cons.prems by auto
  have at: "py_at best (c - w) = Inr (best ! (nat c - nat w))" "py_at nxt c = Inr (nxt ! nat c)"
    using c Cons.prems by (simp_all add: py_at_ok nat_diff_distrib)
  have cs: "distinct cs" "set cs \<subseteq> {w..int n}" "c \<notin> set cs" using Cons.prems by auto
  show ?case
  proof (cases "better best v w nxt (nat c)")
    case True
    let ?x = "fadd (best ! (nat c - nat w)) v"
    have step: "relax best v w idx (c # cs) nxt choice
        = relax best v w idx cs (nxt[nat c := ?x]) (choice[nat c := idx])"
      using at c Cons.prems True by (simp add: better_def py_put_ok)
    obtain nxt' choice' where IH: "relax best v w idx cs (nxt[nat c := ?x]) (choice[nat c := idx]) = Inr (nxt', choice')"
      "length nxt' = Suc n" "length choice' = Suc n"
      "\<forall>d\<le>n. nxt' ! d = (if int d \<in> set cs \<and> better best v w (nxt[nat c := ?x]) d
                              then fadd (best ! (d - nat w)) v else nxt[nat c := ?x] ! d)
            \<and> choice' ! d = (if int d \<in> set cs \<and> better best v w (nxt[nat c := ?x]) d then idx
                               else choice[nat c := idx] ! d)"
      using Cons.IH [of "nxt[nat c := ?x]" "choice[nat c := idx]"] Cons.prems cs by auto
    have same: "better best v w (nxt[nat c := ?x]) d = better best v w nxt d" if "int d \<in> set cs" for d
      using that cs(3) c(1) by (cases "nat c = d") (auto simp: better_def)
    show ?thesis
      using IH step c Cons.prems True same cs(3)
      by (auto simp: nth_list_update)
  next
    case False
    then have step: "relax best v w idx (c # cs) nxt choice = relax best v w idx cs nxt choice"
      using at by (simp add: better_def)
    show ?thesis
      using Cons.IH [of nxt choice] Cons.prems cs False step by auto
  qed
qed

section \<open>One group\<close>

text \<open>An entry of the new table: the old value, or an item of the group on top of the old value.\<close>

definition entry ::
  "(knapsack_item \<Rightarrow> int) \<Rightarrow> pyfloat list \<Rightarrow> knapsack_item list \<Rightarrow> nat \<Rightarrow> pyfloat \<Rightarrow> int \<Rightarrow> bool" where
  "entry W best g c x k \<longleftrightarrow> (k = -1 \<and> x = best ! c) \<or>
     (\<exists>j<length g. k = int j \<and> W (g ! j) \<le> int c
        \<and> x = fadd (best ! (c - nat (W (g ! j)))) (it_value (g ! j)))"

lemma entry_append: "entry W best g c x k \<Longrightarrow> entry W best (g @ h) c x k"
  by (auto simp: entry_def nth_append)

lemma group_loop_entries:
  "length best = Suc n \<Longrightarrow> length nxt = Suc n \<Longrightarrow> length choice = Suc n \<Longrightarrow>
   \<forall>i \<in> set is. weight_of ws i = Inr (W i) \<and> 0 \<le> W i \<Longrightarrow>
   \<forall>c\<le>n. entry W best front c (nxt ! c) (choice ! c) \<Longrightarrow>
   \<exists>nxt' choice'. group_loop ws (int n) best (int (length front)) is nxt choice = Inr (nxt', choice')
     \<and> length nxt' = Suc n \<and> length choice' = Suc n
     \<and> (\<forall>c\<le>n. entry W best (front @ is) c (nxt' ! c) (choice' ! c))"
proof (induction "is" arbitrary: front nxt choice)
  case Nil
  then show ?case by simp
next
  case (Cons i "is")
  have w: "weight_of ws i = Inr (W i)" "0 \<le> W i" using Cons.prems(4) by auto
  obtain nxt1 choice1 where r: "relax best (it_value i) (W i) (int (length front)) [W i..int n] nxt choice = Inr (nxt1, choice1)"
    "length nxt1 = Suc n" "length choice1 = Suc n"
    "\<forall>c\<le>n. nxt1 ! c = (if int c \<in> set [W i..int n] \<and> better best (it_value i) (W i) nxt c
                              then fadd (best ! (c - nat (W i))) (it_value i) else nxt ! c)
              \<and> choice1 ! c = (if int c \<in> set [W i..int n] \<and> better best (it_value i) (W i) nxt c
                              then int (length front) else choice ! c)"
    using relax_ok [of "[W i..int n]" "W i" n best nxt choice "it_value i" "int (length front)"]
      w(2) Cons.prems by auto
  have e: "\<forall>c\<le>n. entry W best (front @ [i]) c (nxt1 ! c) (choice1 ! c)"
  proof (intro allI impI)
    fix c assume c: "c \<le> n"
    show "entry W best (front @ [i]) c (nxt1 ! c) (choice1 ! c)"
    proof (cases "int c \<in> set [W i..int n] \<and> better best (it_value i) (W i) nxt c")
      case True
      then show ?thesis using r(4) c by (auto simp: entry_def intro!: exI [of _ "length front"])
    next
      case False
      then have "nxt1 ! c = nxt ! c" "choice1 ! c = choice ! c" using r(4) c by auto
      then show ?thesis using Cons.prems(5) c entry_append by metis
    qed
  qed
  have "\<forall>i \<in> set is. weight_of ws i = Inr (W i) \<and> 0 \<le> W i" using Cons.prems(4) by simp
  from Cons.IH [OF Cons.prems(1) r(2,3) this e] w r(1) show ?case
    by (simp add: algebra_simps)
qed

text \<open>
  On a set of values where the tolerance does not blur the comparison, the new entry is at
  least the old one and at least every option of the group.
\<close>

definition sharp :: "rat set \<Rightarrow> bool" where
  "sharp K \<longleftrightarrow> (\<forall>x \<in> K. \<forall>y \<in> K. fadd x tolerance < y \<longleftrightarrow> x < y)"

lemma group_loop_upper:
  "group_loop ws (int n) best idx is nxt choice = Inr (nxt', choice') \<Longrightarrow>
   length best = Suc n \<Longrightarrow> length nxt = Suc n \<Longrightarrow> length choice = Suc n \<Longrightarrow>
   \<forall>i \<in> set is. weight_of ws i = Inr (W i) \<and> 0 \<le> W i \<Longrightarrow> sharp K \<Longrightarrow>
   \<forall>c\<le>n. nxt ! c \<in> K \<Longrightarrow> \<forall>i \<in> set is. \<forall>c\<le>n. fadd (best ! c) (it_value i) \<in> K \<Longrightarrow>
   \<forall>c\<le>n. nxt ! c \<le> nxt' ! c
      \<and> (\<forall>i \<in> set is. W i \<le> int c \<longrightarrow> fadd (best ! (c - nat (W i))) (it_value i) \<le> nxt' ! c)"
proof (induction "is" arbitrary: idx nxt choice)
  case Nil
  then show ?case by simp
next
  case (Cons i "is")
  have w: "weight_of ws i = Inr (W i)" "0 \<le> W i" using Cons.prems(5) by auto
  obtain nxt1 choice1 where r: "relax best (it_value i) (W i) idx [W i..int n] nxt choice = Inr (nxt1, choice1)"
    "length nxt1 = Suc n" "length choice1 = Suc n"
    "\<forall>c\<le>n. nxt1 ! c = (if int c \<in> set [W i..int n] \<and> better best (it_value i) (W i) nxt c
                              then fadd (best ! (c - nat (W i))) (it_value i) else nxt ! c)"
    using relax_ok [of "[W i..int n]" "W i" n best nxt choice "it_value i" idx]
      w(2) Cons.prems(2-4) by auto
  have run: "group_loop ws (int n) best (idx + 1) is nxt1 choice1 = Inr (nxt', choice')"
    using Cons.prems(1) w r(1) by simp
  have cand: "fadd (best ! (c - nat (W i))) (it_value i) \<in> K" if "c \<le> n" for c
    using Cons.prems(8) that by simp
  have K1: "\<forall>c\<le>n. nxt1 ! c \<in> K" using r(4) Cons.prems(7) cand by simp
  have up: "nxt ! c \<le> nxt1 ! c \<and> (W i \<le> int c \<longrightarrow> fadd (best ! (c - nat (W i))) (it_value i) \<le> nxt1 ! c)"
    if c: "c \<le> n" for c
  proof -
    have "better best (it_value i) (W i) nxt c \<longleftrightarrow> nxt ! c < fadd (best ! (c - nat (W i))) (it_value i)"
      using Cons.prems(6,7) cand [OF c] c by (auto simp: better_def sharp_def)
    then show ?thesis using r(4) c by auto
  qed
  have "\<forall>c\<le>n. nxt1 ! c \<le> nxt' ! c
      \<and> (\<forall>i \<in> set is. W i \<le> int c \<longrightarrow> fadd (best ! (c - nat (W i))) (it_value i) \<le> nxt' ! c)"
    using Cons.IH [OF run Cons.prems(2) r(2,3) _ Cons.prems(6) K1] Cons.prems(5,8) by simp
  with up show ?case by (fastforce intro: order_trans)
qed

section \<open>The whole table\<close>

text \<open>
  \<open>good\<close>: the walk back from every capacity finds a selection that fits and whose value is the
  table's entry.
\<close>

definition good ::
  "weights \<Rightarrow> (knapsack_item \<Rightarrow> int) \<Rightarrow> nat \<Rightarrow> (knapsack_item list \<times> int list) list \<Rightarrow> pyfloat list \<Rightarrow> bool" where
  "good ws W n rows best \<longleftrightarrow> length best = Suc n \<and>
     (\<forall>c\<le>n. \<exists>Q. trace_back ws rows (int c) = Inr (map it_id Q) \<and> picks (map fst rows) Q
        \<and> weight_sum W Q \<le> int c \<and> best ! c = pick_value Q)"

text \<open>\<open>upper\<close>: every selection that fits is worth at most the entry.\<close>

definition upper :: "(knapsack_item \<Rightarrow> int) \<Rightarrow> nat \<Rightarrow> knapsack_item list list \<Rightarrow> pyfloat list \<Rightarrow> bool" where
  "upper W n gs best \<longleftrightarrow>
     (\<forall>c\<le>n. \<forall>Q. picks gs Q \<longrightarrow> weight_sum W Q \<le> int c \<longrightarrow> pick_value Q \<le> best ! c)"

lemma good_step:
  assumes good: "good ws W n rows best"
    and ws: "\<forall>i \<in> set g. weight_of ws i = Inr (W i) \<and> 0 \<le> W i"
  obtains nxt choice where
    "group_loop ws (int n) best 0 g best (replicate (nat (int n + 1)) (-1)) = Inr (nxt, choice)"
    and "length nxt = Suc n" "length choice = Suc n"
    and "good ws W n ((g, choice) # rows) nxt"
proof -
  have len: "length best = Suc n" using good by (simp add: good_def)
  let ?init = "replicate (nat (int n + 1)) (-1 :: int)"
  have init: "length ?init = Suc n" by simp
  have "\<forall>c\<le>n. entry W best [] c (best ! c) (?init ! c)" by (auto simp: entry_def)
  from group_loop_entries [OF len len init ws this] obtain nxt choice where
    run: "group_loop ws (int n) best 0 g best ?init = Inr (nxt, choice)"
    and lens: "length nxt = Suc n" "length choice = Suc n"
    and entries: "\<forall>c\<le>n. entry W best g c (nxt ! c) (choice ! c)" by auto
  have "\<exists>Q. trace_back ws ((g, choice) # rows) (int c) = Inr (map it_id Q) \<and> picks (map fst ((g, choice) # rows)) Q
        \<and> weight_sum W Q \<le> int c \<and> nxt ! c = pick_value Q" if c: "c \<le> n" for c
  proof -
    have at: "py_at choice (int c) = Inr (choice ! c)" using c lens by (simp add: py_at_ok)
    from entries c consider "choice ! c = -1" "nxt ! c = best ! c"
      | j where "j < length g" "choice ! c = int j" "W (g ! j) \<le> int c"
          "nxt ! c = fadd (best ! (c - nat (W (g ! j)))) (it_value (g ! j))"
      unfolding entry_def by blast
    then show ?thesis
    proof cases
      case 1
      then show ?thesis using good c at unfolding good_def by (fastforce intro: picks_skip)
    next
      case (2 j)
      let ?i = "g ! j"
      have i: "weight_of ws ?i = Inr (W ?i)" "0 \<le> W ?i" "?i \<in> set g" using ws 2(1) by auto
      have d: "int (c - nat (W ?i)) = int c - W ?i" "c - nat (W ?i) \<le> n" using 2(3) i(2) c by auto
      obtain Q where Q: "trace_back ws rows (int c - W ?i) = Inr (map it_id Q)" "picks (map fst rows) Q"
        "weight_sum W Q \<le> int c - W ?i" "best ! (c - nat (W ?i)) = pick_value Q"
        using good d unfolding good_def by metis
      show ?thesis
        using 2 i Q at by (intro exI [of _ "?i # Q"]) (auto simp: py_at_ok weight_sum_def intro: picks_take)
    qed
  qed
  then have "good ws W n ((g, choice) # rows) nxt" using lens by (simp add: good_def)
  with run lens show ?thesis by (rule that)
qed

lemma dp_loop_good:
  "good ws W n rows best \<Longrightarrow> \<forall>g \<in> set gs. \<forall>i \<in> set g. weight_of ws i = Inr (W i) \<and> 0 \<le> W i \<Longrightarrow>
   \<exists>best' rows'. dp_loop ws (int n) gs best rows = Inr (best', rows') \<and> good ws W n rows' best'
     \<and> map fst rows' = rev gs @ map fst rows"
proof (induction gs arbitrary: best rows)
  case Nil
  then show ?case by simp
next
  case (Cons g gs)
  from Cons.prems(2) have "\<forall>i \<in> set g. weight_of ws i = Inr (W i) \<and> 0 \<le> W i" by simp
  from good_step [OF Cons.prems(1) this] obtain nxt choice where
    "group_loop ws (int n) best 0 g best (replicate (nat (int n + 1)) (-1)) = Inr (nxt, choice)"
    "good ws W n ((g, choice) # rows) nxt" by metis
  with Cons.IH [of "(g, choice) # rows" nxt] Cons.prems(2) show ?case by auto
qed

lemma picks_weaken: "picks gs Q \<Longrightarrow> picks (hs @ gs) Q"
  by (induction hs) (auto intro: picks_skip)

lemma upper_step:
  assumes run: "group_loop ws (int n) best 0 g best (replicate (nat (int n + 1)) (-1)) = Inr (nxt, choice)"
    and len: "length best = Suc n" and up: "upper W n gs best"
    and ws: "\<forall>i \<in> set g. weight_of ws i = Inr (W i) \<and> 0 \<le> W i"
    and K: "sharp K" "\<forall>c\<le>n. best ! c \<in> K" "\<forall>i \<in> set g. \<forall>c\<le>n. fadd (best ! c) (it_value i) \<in> K"
    and pos: "\<forall>Q. picks gs Q \<longrightarrow> 0 \<le> weight_sum W Q"
  shows "upper W n (g # gs) nxt"
proof -
  have ge: "best ! c \<le> nxt ! c"
    "i \<in> set g \<Longrightarrow> W i \<le> int c \<Longrightarrow> fadd (best ! (c - nat (W i))) (it_value i) \<le> nxt ! c"
    if "c \<le> n" for c i
    using group_loop_upper [OF run len len _ ws K] that by auto
  have "pick_value Q \<le> nxt ! c" if c: "c \<le> n" and Q: "picks (g # gs) Q" "weight_sum W Q \<le> int c" for c Q
    using Q(1)
  proof (rule picks_ConsE)
    assume "picks gs Q"
    then show ?thesis using up c Q(2) ge(1) [OF c] unfolding upper_def by (meson order_trans)
  next
    fix Q' i assume q: "Q = i # Q'" "picks gs Q'" "i \<in> set g"
    have w: "W i + weight_sum W Q' \<le> int c" using Q(2) q(1) by (simp add: weight_sum_def)
    then have "W i \<le> int c" using pos q(2) by fastforce
    moreover have "weight_sum W Q' \<le> int (c - nat (W i))" using w ws q(3) calculation by auto
    ultimately have "pick_value Q' \<le> best ! (c - nat (W i))"
      using up q(2) c unfolding upper_def by (metis diff_le_self order_trans)
    then have "fadd (pick_value Q') (it_value i) \<le> fadd (best ! (c - nat (W i))) (it_value i)"
      by (simp add: fadd_def fl_mono)
    also have "\<dots> \<le> nxt ! c" using ge(2) [OF c q(3) \<open>W i \<le> int c\<close>] .
    finally show ?thesis using q(1) by simp
  qed
  then show ?thesis by (simp add: upper_def)
qed

section \<open>Values on a grid\<close>

text \<open>Multiples of \<open>2^-20\<close> up to \<open>2^32\<close>: rupiah to a millionth, up to four billion.\<close>

definition grid :: "rat \<Rightarrow> bool" where
  "grid x \<longleftrightarrow> (\<exists>m. 0 \<le> m \<and> m < 2 ^ 52 \<and> x = of_int m / 2 ^ 20)"

lemma powi_minus: "(2::rat) powi (- int k) = 1 / 2 ^ k"
  by (simp add: power_int_minus_divide)

lemma grid_float: "\<bar>m\<bar> \<le> 2 ^ 53 \<Longrightarrow> fl (of_int m / 2 ^ 20) = of_int m / 2 ^ 20"
  by (rule fl_exact, unfold is_float_def, rule exI [of _ m], rule exI [of _ "- int 20"])
    (simp only: powi_minus, simp)

lemma tolerance_bounds: "0 < tolerance \<and> tolerance < 1 / 2 ^ 21"
  by code_simp

lemma grid_sharp: "sharp {x. grid x}"
proof -
  have "fadd x tolerance < y \<longleftrightarrow> x < y" if "grid x" "grid y" for x y
  proof -
    obtain m where m: "0 \<le> m" "m < 2 ^ 52" "x = of_int m / 2 ^ 20" using \<open>grid x\<close> by (auto simp: grid_def)
    obtain k where k: "y = of_int k / 2 ^ 20" using \<open>grid y\<close> by (auto simp: grid_def)
    have "fl x = x" unfolding m(3) using m(1,2) by (intro grid_float) auto
    then have lo: "x \<le> fadd x tolerance"
      using fl_mono [of x "x + tolerance"] tolerance_bounds by (simp add: fadd_def)
    have half: "is_float (x + 1 / 2 ^ 21)"
      unfolding is_float_def
    proof (intro exI conjI)
      show "x + 1 / 2 ^ 21 = of_int (2 * m + 1) * 2 powi (- int 21)"
        unfolding powi_minus m(3) by (simp add: field_simps)
    qed (use m in auto)
    have "fadd x tolerance \<le> x + 1 / 2 ^ 21"
      using fl_mono [of "x + tolerance" "x + 1 / 2 ^ 21"] tolerance_bounds fl_exact [OF half]
      by (simp add: fadd_def)
    moreover have "x + 1 / 2 ^ 21 < y" if "x < y"
    proof -
      have "m + 1 \<le> k" using that m k by (simp add: divide_less_cancel)
      then have "(of_int m + 1 :: rat) \<le> of_int k" by (metis of_int_1 of_int_add of_int_le_iff)
      then have "x + 1 / 2 ^ 20 \<le> y" using m k by (simp add: field_simps)
      then show ?thesis by simp
    qed
    ultimately show ?thesis using lo by fastforce
  qed
  then show ?thesis by (simp add: sharp_def)
qed

definition exact_pick :: "(knapsack_item \<Rightarrow> int) \<Rightarrow> knapsack_item list \<Rightarrow> bool" where
  "exact_pick m Q \<longleftrightarrow> (\<forall>i \<in> set Q. 0 \<le> m i \<and> it_value i = of_int (m i) / 2 ^ 20)
     \<and> sum_list (map m Q) < 2 ^ 52"

lemma pick_value_exact:
  "exact_pick m Q \<Longrightarrow> pick_value Q = of_int (sum_list (map m Q)) / 2 ^ 20
     \<and> 0 \<le> sum_list (map m Q) \<and> pick_value Q = sum_list (map it_value Q)"
proof (induction Q)
  case (Cons i Q)
  have "exact_pick m Q" using Cons.prems by (auto simp: exact_pick_def)
  note IH = Cons.IH [OF this]
  have i: "0 \<le> m i" "it_value i = of_int (m i) / 2 ^ 20" "m i + sum_list (map m Q) < 2 ^ 52"
    using Cons.prems by (auto simp: exact_pick_def)
  have sum: "pick_value Q + it_value i = of_int (m i + sum_list (map m Q)) / 2 ^ 20"
    using IH i by (simp add: add_divide_distrib)
  have "\<bar>m i + sum_list (map m Q)\<bar> \<le> 2 ^ 53" using i IH by simp
  then have exact: "fadd (pick_value Q) (it_value i) = pick_value Q + it_value i"
    unfolding fadd_def sum by (rule grid_float)
  have "pick_value (i # Q) = of_int (sum_list (map m (i # Q))) / 2 ^ 20"
    using exact sum by (simp only: pick_value.simps list.map sum_list.Cons)
  moreover have "pick_value (i # Q) = sum_list (map it_value (i # Q))"
    using exact IH by (metis pick_value.simps(2) list.simps(9) sum_list.Cons add.commute)
  moreover have "0 \<le> sum_list (map m (i # Q))" using IH i(1) by simp
  ultimately show ?case by blast
qed simp

lemma exact_pick_grid: "exact_pick m Q \<Longrightarrow> grid (pick_value Q)"
  using pick_value_exact [of m Q] by (auto simp: grid_def exact_pick_def)

lemma dp_loop_upper:
  "dp_loop ws (int n) gs best rows = Inr (best', rows') \<Longrightarrow> good ws W n rows best \<Longrightarrow>
   upper W n (map fst rows) best \<Longrightarrow>
   \<forall>g \<in> set gs \<union> set (map fst rows). \<forall>i \<in> set g. weight_of ws i = Inr (W i) \<and> 0 \<le> W i \<Longrightarrow>
   \<forall>Q. picks (rev gs @ map fst rows) Q \<longrightarrow> exact_pick m Q \<Longrightarrow>
   upper W n (rev gs @ map fst rows) best'"
proof (induction gs arbitrary: best rows)
  case Nil
  then show ?case by simp
next
  case (Cons g gs)
  have ws: "\<forall>i \<in> set g. weight_of ws i = Inr (W i) \<and> 0 \<le> W i" using Cons.prems(4) by simp
  obtain nxt choice where
    run: "group_loop ws (int n) best 0 g best (replicate (nat (int n + 1)) (-1)) = Inr (nxt, choice)"
    and good: "good ws W n ((g, choice) # rows) nxt"
    using good_step [OF Cons.prems(2) ws] by metis
  have exact: "exact_pick m Q" if "picks (g # map fst rows) Q" for Q
    using Cons.prems(5) picks_weaken [OF that, of "rev gs"] by simp
  have len: "length best = Suc n" using Cons.prems(2) by (simp add: good_def)
  have K: "\<forall>c\<le>n. best ! c \<in> {x. grid x}" "\<forall>i \<in> set g. \<forall>c\<le>n. fadd (best ! c) (it_value i) \<in> {x. grid x}"
  proof -
    have Q: "\<exists>Q. picks (map fst rows) Q \<and> best ! c = pick_value Q" if "c \<le> n" for c
      using Cons.prems(2) that unfolding good_def by blast
    show "\<forall>c\<le>n. best ! c \<in> {x. grid x}"
      using Q exact exact_pick_grid picks_skip by (metis mem_Collect_eq)
    show "\<forall>i \<in> set g. \<forall>c\<le>n. fadd (best ! c) (it_value i) \<in> {x. grid x}"
      using Q exact exact_pick_grid picks_take by (metis mem_Collect_eq pick_value.simps(2))
  qed
  have pos: "0 \<le> weight_sum W Q" if "picks (map fst rows) Q" for Q
    unfolding weight_sum_def using picks_subset [OF that] Cons.prems(4)
    by (intro sum_list_nonneg) fastforce
  have "upper W n (map fst ((g, choice) # rows)) nxt"
    using upper_step [OF run len Cons.prems(3) ws grid_sharp K] pos by simp
  from Cons.IH [OF _ good this] run Cons.prems(1,4,5) show ?case by simp
qed

section \<open>Dictionaries keyed by item id\<close>

lemma foldl_update_notin:
  "k \<notin> f ` set xs \<Longrightarrow> map_of (foldl (\<lambda>d i. AList.update (f i) (g i) d) d xs) k = map_of d k"
  by (induction xs arbitrary: d) (auto simp: AList.update_conv')

lemma foldl_update_in:
  "distinct (map f xs) \<Longrightarrow> i \<in> set xs \<Longrightarrow>
   map_of (foldl (\<lambda>d i. AList.update (f i) (g i) d) d xs) (f i) = Some (g i)"
proof (induction xs arbitrary: d)
  case (Cons x xs)
  then show ?case by (cases "i = x") (auto simp: foldl_update_notin AList.update_conv')
qed simp

lemma weight_of_usable:
  assumes "distinct (map it_id items)" and "i \<in> set (usable_items items budget)"
  shows "weight_of (item_weights (usable_items items budget) scale) i = Inr (scaled_cost (it_cost i) scale)"
proof -
  have "distinct (map it_id (usable_items items budget))"
    using assms(1) by (simp add: usable_items_def distinct_map_filter)
  from foldl_update_in [OF this assms(2)]
  have "map_of (item_weights (usable_items items budget) scale) (it_id i) = Some (scaled_cost (it_cost i) scale)"
    unfolding item_weights_def .
  then show ?thesis by (simp add: weight_of_def)
qed

lemma by_id_in: "distinct (map it_id items) \<Longrightarrow> i \<in> set items \<Longrightarrow> map_of (by_id items) (it_id i) = Some i"
  unfolding by_id_def by (rule foldl_update_in)

lemma max_by_max: "max_by f m xs \<in> set (m # xs) \<and> (\<forall>x \<in> set (m # xs). f x \<le> f (max_by f m xs))"
proof (induction xs arbitrary: m)
  case (Cons x xs)
  show ?case using Cons [of m] Cons [of x] by (auto intro: order_trans less_imp_le)
qed simp

section \<open>Scaled costs never undercount\<close>

lemma scaled_cost_bound:
  assumes "0 \<le> a" "a < 2 ^ 52" "0 < b" "b \<le> 2 ^ 52"
  shows "a \<le> scaled_cost a b * b" and "0 \<le> scaled_cost a b"
proof -
  have c: "scaled_cost a b = \<lceil>(of_int a :: rat) / of_int b\<rceil>"
    using assms by (simp add: scaled_cost_def ceiling_int_truediv)
  have "(of_int a :: rat) / of_int b \<le> of_int \<lceil>(of_int a :: rat) / of_int b\<rceil>" by simp
  then have "(of_int a :: rat) / of_int b * of_int b \<le> of_int \<lceil>(of_int a :: rat) / of_int b\<rceil> * of_int b"
    using assms(3) by (intro mult_right_mono) auto
  then have "(of_int a :: rat) \<le> of_int (\<lceil>(of_int a :: rat) / of_int b\<rceil> * b)"
    using assms(3) by simp
  then show "a \<le> scaled_cost a b * b" unfolding c by (simp only: of_int_le_iff)
  have "(0 :: rat) \<le> of_int a / of_int b" using assms by simp
  then show "0 \<le> scaled_cost a b" unfolding c by (simp add: zero_le_ceiling less_le_trans)
qed

lemma scaled_cost_multiple:
  assumes "0 \<le> a" "a < 2 ^ 52" "0 < b" "b \<le> 2 ^ 52" "b dvd a"
  shows "scaled_cost a b * b = a"
proof -
  obtain k where k: "a = b * k" using assms(5) by (rule dvdE)
  then have "(of_int a :: rat) / of_int b = of_int k" using assms(3) by simp
  then show ?thesis using assms k by (simp add: scaled_cost_def ceiling_int_truediv)
qed

section \<open>The groups of the solver\<close>

lemma picks_keys:
  "picks (map G ks) Q \<Longrightarrow> distinct ks \<Longrightarrow> (\<And>k i. i \<in> set (G k) \<Longrightarrow> it_key i = k) \<Longrightarrow>
   it_key ` set Q \<subseteq> set ks \<and> distinct (map it_key Q)"
proof (induction ks arbitrary: Q)
  case Nil
  then show ?case by (auto elim: picks_NilE)
next
  case (Cons k ks)
  have IH: "it_key ` set R \<subseteq> set ks \<and> distinct (map it_key R)" if "picks (map G ks) R" for R
    using Cons.IH [OF that] Cons.prems(2,3) by simp
  have "picks (G k # map G ks) Q" using Cons.prems(1) by simp
  then show ?case
  proof (rule picks_ConsE)
    assume "picks (map G ks) Q"
    then show ?thesis using IH by auto
  next
    fix R i assume "Q = i # R" "picks (map G ks) R" "i \<in> set (G k)"
    then show ?thesis using IH [of R] Cons.prems(2,3) by auto
  qed
qed

lemma picks_exists:
  "distinct ks \<Longrightarrow> it_key ` set P \<subseteq> set ks \<Longrightarrow> distinct (map it_key P) \<Longrightarrow>
   (\<And>i. i \<in> set P \<Longrightarrow> i \<in> set (G (it_key i))) \<Longrightarrow> \<exists>Q. picks (map G ks) Q \<and> mset Q = mset P"
proof (induction ks arbitrary: P)
  case Nil
  then show ?case by (auto intro: picks_Nil)
next
  case (Cons k ks)
  show ?case
  proof (cases "k \<in> it_key ` set P")
    case True
    then obtain i where i: "i \<in> set P" "it_key i = k" by blast
    then obtain xs ys where P: "P = xs @ i # ys" by (meson split_list)
    have "k \<notin> it_key ` set (xs @ ys)" using Cons.prems(3) i(2) unfolding P by auto
    moreover have "it_key ` set (xs @ ys) \<subseteq> insert k (set ks)" using Cons.prems(2) unfolding P by auto
    ultimately have "it_key ` set (xs @ ys) \<subseteq> set ks" by blast
    then obtain Q where "picks (map G ks) Q" "mset Q = mset (xs @ ys)"
      using Cons.IH [of "xs @ ys"] Cons.prems unfolding P by auto
    moreover have "i \<in> set (G k)" using Cons.prems(4) [OF i(1)] i(2) by simp
    ultimately show ?thesis by (intro exI [of _ "i # Q"]) (auto simp: P intro: picks_take)
  next
    case False
    then have "it_key ` set P \<subseteq> set ks" using Cons.prems(2) by auto
    then obtain Q where "picks (map G ks) Q" "mset Q = mset P"
      using Cons.IH [of P] Cons.prems by auto
    then show ?thesis by (auto intro: picks_skip)
  qed
qed

definition key_group :: "knapsack_item list \<Rightarrow> int \<Rightarrow> string \<Rightarrow> knapsack_item list" where
  "key_group items budget k =
     filter (\<lambda>i. it_key i = k) (sort_key (\<lambda>i. (it_key i, it_id i)) (usable_items items budget))"

definition solver_keys :: "knapsack_item list \<Rightarrow> int \<Rightarrow> string list" where
  "solver_keys items budget = sort (map fst (choice_groups (usable_items items budget)))"

lemma solver_keys: "distinct (solver_keys items budget)"
  "set (solver_keys items budget) = it_key ` set (usable_items items budget)"
  using group_by_keys [of it_key "sort_key (\<lambda>i. (it_key i, it_id i)) (usable_items items budget)"]
  by (simp_all add: solver_keys_def choice_groups_def group_by_distinct)

lemma solver_keys_length:
  "length (choice_groups (usable_items items budget)) = length (solver_keys items budget)"
  by (simp add: solver_keys_def)

lemma solver_rows:
  "map (\<lambda>k. dict_get (choice_groups (usable_items items budget)) k []) (solver_keys items budget)
     = map (key_group items budget) (solver_keys items budget)"
  by (simp add: choice_groups_def dict_get_def group_by_map_of key_group_def solver_keys)

lemma key_group_in: "i \<in> set (key_group items budget k) \<longleftrightarrow> i \<in> set (usable_items items budget) \<and> it_key i = k"
  by (auto simp: key_group_def)

text \<open>What the solver returns, as a selection: it fits, and it is the best of the last table.\<close>

definition solver_domain :: "int \<Rightarrow> knapsack_item list \<Rightarrow> int \<Rightarrow> bool" where
  "solver_domain scale items budget \<longleftrightarrow> distinct (map it_id items) \<and> 0 \<le> budget
     \<and> (\<forall>i \<in> set items. 0 \<le> it_cost i \<and> it_cost i < 2 ^ 52) \<and> 0 < scale \<and> scale \<le> 2 ^ 52"

lemma knapsack_run:
  assumes dom: "solver_domain scale items budget" and ne: "usable_items items budget \<noteq> []"
    and size: "\<not> int (length (solver_keys items budget)) * (budget div scale + 1) > cells"
  defines "W \<equiv> \<lambda>i. scaled_cost (it_cost i) scale"
    and "gs \<equiv> map (key_group items budget) (rev (solver_keys items budget))"
    and "n \<equiv> nat (budget div scale)"
  obtains Q best where "knapsack_solve items budget scale cells = Inr (sort (map it_id Q))"
    and "picks gs Q" and "weight_sum W Q \<le> budget div scale"
    and "pick_value Q = best ! n \<or> best ! n < pick_value Q"
    and "\<And>m. \<forall>Q. picks gs Q \<longrightarrow> exact_pick m Q \<Longrightarrow> upper W n gs best"
proof -
  let ?u = "usable_items items budget"
  let ?ws = "item_weights ?u scale"
  let ?rows = "map (key_group items budget) (solver_keys items budget)"
  have n: "budget div scale = int n" using dom by (simp add: n_def solver_domain_def pos_imp_zdiv_nonneg_iff)
  have ws: "\<forall>g \<in> set ?rows. \<forall>i \<in> set g. weight_of ?ws i = Inr (W i) \<and> 0 \<le> W i"
    using dom scaled_cost_bound(2)
    by (auto simp: key_group_in W_def weight_of_usable solver_domain_def) (auto simp: usable_items_def)
  have init: "good ?ws W n [] (replicate (nat (budget div scale + 1)) 0)"
    unfolding n good_def by (auto simp: weight_sum_def intro!: exI [of _ "[]"] picks_Nil)
  have up0: "upper W n [] (replicate (nat (budget div scale + 1)) 0)"
    unfolding n upper_def by (auto elim: picks_NilE)
  obtain best rows where run: "dp_loop ?ws (int n) ?rows (replicate (nat (budget div scale + 1)) 0) [] = Inr (best, rows)"
    and good: "good ?ws W n rows best" and rows: "map fst rows = gs"
    using dp_loop_good [OF init ws] by (auto simp: gs_def rev_map)
  let ?c = "max_by (\<lambda>k. (best ! nat k, - k)) 0 [1..int n]"
  have c: "?c \<in> {0..int n}" "best ! n \<le> best ! nat ?c"
  proof -
    have "?c \<in> {0..int n}" and mx: "\<forall>x \<in> {0..int n}. (best ! nat x, - x) \<le> (best ! nat ?c, - ?c)"
      using max_by_max [of "\<lambda>k. (best ! nat k, - k)" 0 "[1..int n]"] by auto
    then show "?c \<in> {0..int n}" by blast
    have "(best ! nat (int n), - int n) \<le> (best ! nat ?c, - ?c)" using mx by (rule bspec) simp
    then show "best ! n \<le> best ! nat ?c" by auto
  qed
  obtain Q where Q: "trace_back ?ws rows ?c = Inr (map it_id Q)" "picks gs Q" "weight_sum W Q \<le> ?c"
    "best ! nat ?c = pick_value Q"
  proof -
    have d: "nat ?c \<le> n" "int (nat ?c) = ?c" using c(1) by auto
    have "\<forall>d\<le>n. \<exists>Q. trace_back ?ws rows (int d) = Inr (map it_id Q) \<and> picks gs Q
        \<and> weight_sum W Q \<le> int d \<and> best ! d = pick_value Q"
      using good rows unfolding good_def by simp
    from this [rule_format, OF d(1)] show ?thesis using that unfolding d(2) by blast
  qed
  have "knapsack_solve items budget scale cells = Inr (sort (map it_id Q))"
    using ne size dom run Q(1)
    by (simp add: knapsack_solve_def Let_def solver_rows solver_keys_length
        solver_keys_def [symmetric] solver_domain_def n best_capacity_def)
  then show ?thesis
  proof (rule that)
    show "picks gs Q" by (rule Q(2))
    show "weight_sum W Q \<le> budget div scale" using Q(3) c(1) n by simp
    show "pick_value Q = best ! n \<or> best ! n < pick_value Q" using Q(4) c(2) by auto
    show "upper W n gs best" if "\<forall>Q. picks gs Q \<longrightarrow> exact_pick m Q" for m
      using dp_loop_upper [OF run init, of m] up0 ws that by (simp add: gs_def rev_map)
  qed
qed

section \<open>The contract of a solver\<close>

text \<open>Items of positive value, at most one per choice key, within the budget.\<close>

definition admissible :: "knapsack_item list \<Rightarrow> int \<Rightarrow> knapsack_item list \<Rightarrow> bool" where
  "admissible items budget P \<longleftrightarrow> set P \<subseteq> set items \<and> distinct (map it_key P)
     \<and> (\<forall>i \<in> set P. 0 < it_value i) \<and> sum_list (map it_cost P) \<le> budget"

text \<open>What \<open>decide\<close> returns for the chosen items in descending value.\<close>

definition outcome :: "knapsack_item list \<Rightarrow> int \<Rightarrow> string \<Rightarrow> knapsack_item list \<Rightarrow> allocation_result" where
  "outcome items budget strategy C =
     (let ranks = rank_of 1 C [];
          runner_ups = runner_up_loop (map it_key C) ranks (sort_key value_key items) []
      in \<lparr>ar_strategy = strategy, ar_budget_idr = budget, ar_spent_idr = sum_list (map it_cost C),
          ar_objective_value_idr = py_fsum (map it_value C),
          ar_decisions = concat (map (item_decisions (map it_key C) ranks runner_ups)
                           (sort_key (\<lambda>i. (it_key i, it_id i)) items))\<rparr>)"

lemma decide_outcome:
  assumes ids: "distinct (map it_id items)" and P: "admissible items budget P"
  shows "decide items budget st (sort (map it_id P)) = Inr (outcome items budget st (sort_key value_key P))"
proof -
  let ?f = "\<lambda>k. the (map_of (by_id items) k)"
  let ?P = "map ?f (sort (map it_id P))"
  have f: "map_of (by_id items) (it_id i) = Some i" if "i \<in> set P" for i
    using P that ids by (auto simp: admissible_def by_id_in)
  have look: "map_result (\<lambda>i. case map_of (by_id items) i of
      None \<Rightarrow> Inl (KeyError i) | Some it \<Rightarrow> Inr it) (sort (map it_id P)) = Inr ?P"
    using f by (intro map_result_total) auto
  have m: "mset ?P = mset P"
  proof -
    have "mset ?P = mset (map (?f \<circ> it_id) P)" by (simp add: image_mset.compositionality)
    also have "map (?f \<circ> it_id) P = P" using f by (intro map_idI) auto
    finally show ?thesis .
  qed
  have "distinct P" using P by (simp add: admissible_def distinct_map)
  moreover have "inj_on it_id (set P)" using P ids by (auto simp: admissible_def distinct_map inj_on_subset)
  ultimately have "distinct (map value_key P)"
    by (auto simp: distinct_map inj_on_def value_key_def)
  then have "sort_key value_key ?P = sort_key value_key P" using m by (metis mset_map mset_eq_imp_distinct_iff sort_key_unique)
  then show ?thesis unfolding decide_def look outcome_def Let_def bind_result_simps by (simp only:)
qed

locale allocation_solver =
  fixes solve :: "knapsack_item list \<Rightarrow> int \<Rightarrow> string list result"
    and dom :: "knapsack_item list \<Rightarrow> int \<Rightarrow> bool"
  assumes distinct_ids: "dom items budget \<Longrightarrow> distinct (map it_id items)"
    and solution: "dom items budget \<Longrightarrow> solve items budget = Inr ids \<Longrightarrow>
        \<exists>P. ids = sort (map it_id P) \<and> admissible items budget P"
begin

lemma decided:
  assumes "dom items budget" and "solve items budget = Inr ids"
  shows "\<exists>P. admissible items budget P
           \<and> decide items budget st ids = Inr (outcome items budget st (sort_key value_key P))"
  using solution [OF assms] decide_outcome [OF distinct_ids [OF assms(1)]] by blast

lemma within_budget:
  assumes "dom items budget" and "solve items budget = Inr ids" and "decide items budget st ids = Inr res"
  shows "ar_spent_idr res \<le> budget \<and> ar_budget_idr res = budget"
  using decided [OF assms(1,2), of st] assms(3) by (auto simp: admissible_def outcome_def Let_def)

end

definition maximal :: "knapsack_item list \<Rightarrow> string set \<Rightarrow> int \<Rightarrow> knapsack_item list \<Rightarrow> bool" where
  "maximal is taken remaining P \<longleftrightarrow>
     (\<forall>i \<in> set is. i \<in> set P \<or> it_key i \<in> taken \<union> it_key ` set P
        \<or> remaining - sum_list (map it_cost P) < it_cost i)"

lemma greedy_loop_picks:
  "0 \<le> remaining \<Longrightarrow> \<exists>P. greedy_loop is remaining taken sel = sel @ map it_id P \<and> set P \<subseteq> set is
     \<and> distinct (map it_key P) \<and> it_key ` set P \<inter> set taken = {} \<and> sum_list (map it_cost P) \<le> remaining
     \<and> ((\<forall>i \<in> set is. 0 \<le> it_cost i) \<longrightarrow> maximal is (set taken) remaining P)"
proof (induction "is" arbitrary: remaining taken sel)
  case Nil
  then show ?case by (auto simp: maximal_def)
next
  case (Cons i "is")
  show ?case
  proof (cases "it_key i \<in> set taken \<or> it_cost i > remaining")
    case True
    obtain P where P: "greedy_loop is remaining taken sel = sel @ map it_id P" "set P \<subseteq> set is"
      "distinct (map it_key P)" "it_key ` set P \<inter> set taken = {}" "sum_list (map it_cost P) \<le> remaining"
      "(\<forall>i \<in> set is. 0 \<le> it_cost i) \<longrightarrow> maximal is (set taken) remaining P"
      using Cons.IH [OF Cons.prems, of taken sel] by blast
    have "0 \<le> sum_list (map it_cost P)" if "\<forall>i \<in> set is. 0 \<le> it_cost i"
      using that P(2) by (intro sum_list_nonneg) auto
    then show ?thesis using P True
      by (intro exI [of _ P]) (force simp: maximal_def)
  next
    case False
    obtain P where P: "greedy_loop is (remaining - it_cost i) (it_key i # taken) (sel @ [it_id i])
        = (sel @ [it_id i]) @ map it_id P" "set P \<subseteq> set is" "distinct (map it_key P)"
      "it_key ` set P \<inter> set (it_key i # taken) = {}" "sum_list (map it_cost P) \<le> remaining - it_cost i"
      "(\<forall>i \<in> set is. 0 \<le> it_cost i) \<longrightarrow> maximal is (set (it_key i # taken)) (remaining - it_cost i) P"
      using Cons.IH [of "remaining - it_cost i" "it_key i # taken" "sel @ [it_id i]"] False by auto
    then show ?thesis using False
      by (intro exI [of _ "i # P"]) (auto simp: maximal_def algebra_simps)
  qed
qed

lemma greedy_picks:
  assumes "0 \<le> budget"
  obtains P where "greedy_solve items budget = sort (map it_id P)" and "admissible items budget P"
    and "(\<forall>i \<in> set items. 0 \<le> it_cost i) \<Longrightarrow>
           maximal (filter (\<lambda>i. it_value i > 0) items) {} budget P"
proof -
  let ?u = "sort_key density_key (filter (\<lambda>i. it_value i > 0) items)"
  obtain P where "greedy_loop ?u budget [] [] = map it_id P" "set P \<subseteq> set ?u" "distinct (map it_key P)"
    "sum_list (map it_cost P) \<le> budget" "(\<forall>i \<in> set ?u. 0 \<le> it_cost i) \<longrightarrow> maximal ?u {} budget P"
    using greedy_loop_picks [OF assms, of ?u "[]" "[]"] by auto
  then show ?thesis by (intro that [of P]) (auto simp: greedy_solve_def admissible_def maximal_def)
qed

interpretation greedy: allocation_solver
  "\<lambda>items budget. Inr (greedy_solve items budget)"
  "\<lambda>items budget. distinct (map it_id items) \<and> 0 \<le> budget"
proof unfold_locales
  fix items :: "knapsack_item list" and budget :: int and ids :: "string list"
  assume dom: "distinct (map it_id items) \<and> 0 \<le> budget"
  then show "distinct (map it_id items)" by simp
  assume "Inr (greedy_solve items budget) = (Inr ids :: string list result)"
  then show "\<exists>P. ids = sort (map it_id P) \<and> admissible items budget P"
    using greedy_picks [of budget items] dom by (metis sum.inject(2))
qed

lemma weight_sum_cost:
  assumes "solver_domain scale items budget" and "set Q \<subseteq> set items"
  shows "sum_list (map it_cost Q) \<le> weight_sum (\<lambda>i. scaled_cost (it_cost i) scale) Q * scale"
  using assms(2)
proof (induction Q)
  case (Cons i Q)
  have "it_cost i \<le> scaled_cost (it_cost i) scale * scale"
    using Cons.prems assms(1) by (intro scaled_cost_bound) (auto simp: solver_domain_def)
  then show ?case using Cons by (simp add: weight_sum_def algebra_simps)
qed (simp add: weight_sum_def)

lemma solver_picks:
  assumes "picks (map (key_group items budget) (rev (solver_keys items budget))) Q"
  shows "set Q \<subseteq> set (usable_items items budget) \<and> distinct (map it_key Q)"
proof
  show "set Q \<subseteq> set (usable_items items budget)"
    using picks_subset [OF assms] by (auto simp: key_group_in)
  show "distinct (map it_key Q)"
    using picks_keys [OF assms] by (simp add: solver_keys key_group_in)
qed

lemma solver_admissible:
  assumes "solver_domain scale items budget"
    and "picks (map (key_group items budget) (rev (solver_keys items budget))) Q"
    and "weight_sum (\<lambda>i. scaled_cost (it_cost i) scale) Q \<le> budget div scale"
  shows "admissible items budget Q"
proof -
  have Q: "set Q \<subseteq> set (usable_items items budget)" "distinct (map it_key Q)"
    using solver_picks [OF assms(2)] by auto
  then have sub: "set Q \<subseteq> set items" by (auto simp: usable_items_def)
  have "0 < scale" using assms(1) by (simp add: solver_domain_def)
  have "sum_list (map it_cost Q) \<le> weight_sum (\<lambda>i. scaled_cost (it_cost i) scale) Q * scale"
    by (rule weight_sum_cost [OF assms(1) sub])
  also have "\<dots> \<le> budget div scale * scale" using assms(3) \<open>0 < scale\<close> by (simp add: mult_right_mono)
  also have "\<dots> \<le> budget" using \<open>0 < scale\<close> by (metis minus_mod_eq_div_mult pos_mod_sign diff_le_eq le_add_same_cancel1)
  finally show ?thesis using Q sub by (auto simp: admissible_def usable_items_def)
qed

lemma knapsack_cases:
  assumes "solver_domain scale items budget"
  shows "(\<exists>P. knapsack_solve items budget scale cells = Inr (sort (map it_id P)) \<and> admissible items budget P)
       \<or> (\<exists>msg. knapsack_solve items budget scale cells = Inl (DPTooLarge msg))"
proof (cases "usable_items items budget = []")
  case True
  then show ?thesis using assms
    by (intro disjI1 exI [of _ "[]"]) (simp add: knapsack_solve_def admissible_def solver_domain_def)
next
  case ne: False
  show ?thesis
  proof (cases "int (length (solver_keys items budget)) * (budget div scale + 1) > cells")
    case True
    then show ?thesis using ne assms
      by (simp add: knapsack_solve_def Let_def solver_keys_length solver_domain_def)
  next
    case False
    show ?thesis
      by (rule knapsack_run [OF assms ne False]) (use solver_admissible [OF assms] in blast)
  qed
qed

interpretation knapsack: allocation_solver
  "\<lambda>items budget. knapsack_solve items budget scale cells" "solver_domain scale" for scale cells
proof unfold_locales
  show "distinct (map it_id items)" if "solver_domain scale items budget" for items budget
    using that by (simp add: solver_domain_def)
  show "\<exists>P. ids = sort (map it_id P) \<and> admissible items budget P"
    if "solver_domain scale items budget" "knapsack_solve items budget scale cells = Inr ids" for items budget ids
    using knapsack_cases [OF that(1), of cells] that(2) by auto
qed

text \<open>The items the returned ids stand for.\<close>

definition chosen_of :: "knapsack_item list \<Rightarrow> string list \<Rightarrow> knapsack_item list" where
  "chosen_of items ids = filter (\<lambda>i. it_id i \<in> set ids) items"

lemma chosen_of_mset:
  assumes "distinct (map it_id items)" and "set P \<subseteq> set items" and "distinct (map it_key P)"
  shows "mset (chosen_of items (sort (map it_id P))) = mset P"
proof (rule set_eq_iff_mset_eq_distinct [THEN iffD1])
  show "distinct (chosen_of items (sort (map it_id P)))" using assms(1) by (simp add: chosen_of_def distinct_map)
  show "distinct P" using assms(3) by (simp add: distinct_map)
  show "set (chosen_of items (sort (map it_id P))) = set P"
  proof (intro equalityI subsetI)
    fix i assume "i \<in> set (chosen_of items (sort (map it_id P)))"
    then obtain j where "i \<in> set items" "j \<in> set P" "it_id i = it_id j"
      by (auto simp: chosen_of_def)
    moreover from this have "j \<in> set items" using assms(2) by blast
    ultimately have "i = j" using assms(1) by (blast intro: distinct_map_filter_inj)
    then show "i \<in> set P" using \<open>j \<in> set P\<close> by simp
  qed (use assms(2) in \<open>auto simp: chosen_of_def\<close>)
qed

lemma sum_list_mset_map: "mset xs = mset ys \<Longrightarrow> sum_list (map (f :: 'a \<Rightarrow> 'b :: comm_monoid_add) xs) = sum_list (map f ys)"
  by (metis mset_map sum_mset_sum_list)

lemma sum_list_subset:
  assumes "set xs \<subseteq> set ys" "distinct xs" "distinct ys" "\<And>x. x \<in> set ys \<Longrightarrow> (0 :: 'b :: ordered_comm_monoid_add) \<le> f x"
  shows "sum_list (map f xs) \<le> sum_list (map f ys)"
  using assms by (auto simp: sum_list_distinct_conv_sum_set intro!: sum_mono2)

definition grid_values :: "knapsack_item list \<Rightarrow> bool" where
  "grid_values items \<longleftrightarrow> (\<forall>i \<in> set items. \<exists>m :: int. it_value i = of_int m / 2 ^ 20)
     \<and> sum_list (map it_value (filter (\<lambda>i. 0 < it_value i) items)) < 2 ^ 32"

definition grid_index :: "knapsack_item \<Rightarrow> int" where
  "grid_index i = \<lfloor>it_value i * 2 ^ 20\<rfloor>"

lemma grid_picks_exact:
  assumes "grid_values items" and "distinct (map it_id items)"
    and "set Q \<subseteq> set (usable_items items budget)" and "distinct Q"
  shows "exact_pick grid_index Q"
proof -
  let ?pos = "filter (\<lambda>i. 0 < it_value i) items"
  have val: "it_value i = of_int (grid_index i) / 2 ^ 20 \<and> (0 < it_value i \<longrightarrow> 0 \<le> grid_index i)"
    if "i \<in> set items" for i
    using assms(1) that by (auto simp: grid_values_def grid_index_def)
  have Q: "set Q \<subseteq> set ?pos" using assms(3) by (auto simp: usable_items_def)
  have "sum_list (map grid_index Q) \<le> sum_list (map grid_index ?pos)"
    using Q assms(2,4) val by (intro sum_list_subset) (auto simp: distinct_map)
  moreover have "(of_int (sum_list (map grid_index ?pos)) :: rat) = sum_list (map it_value ?pos) * 2 ^ 20"
  proof -
    have "of_int (grid_index i) = it_value i * 2 ^ 20" if "i \<in> set ?pos" for i using val that by simp
    then have "map (\<lambda>i. of_int (grid_index i)) ?pos = map (\<lambda>i. it_value i * 2 ^ 20) ?pos" by simp
    then have "sum_list (map (\<lambda>i. of_int (grid_index i)) ?pos) = sum_list (map it_value ?pos) * 2 ^ 20"
      by (simp only: sum_list_mult_const)
    moreover have "(of_int (sum_list (map grid_index xs)) :: rat) = sum_list (map (\<lambda>i. of_int (grid_index i)) xs)" for xs
      by (induction xs) simp_all
    ultimately show ?thesis by simp
  qed
  ultimately have "sum_list (map grid_index Q) < 2 ^ 52"
  proof -
    have "(of_int (sum_list (map grid_index ?pos)) :: rat) < of_int (2 ^ 52)"
      using assms(1) \<open>of_int (sum_list (map grid_index ?pos)) = sum_list (map it_value ?pos) * 2 ^ 20\<close>
      by (simp add: grid_values_def)
    then have "sum_list (map grid_index ?pos) < 2 ^ 52" by (simp only: of_int_less_iff)
    with \<open>sum_list (map grid_index Q) \<le> sum_list (map grid_index ?pos)\<close> show ?thesis by simp
  qed
  then show ?thesis using Q val by (auto simp: exact_pick_def)
qed

text \<open>Any selection is, up to order, a selection of the solver's groups.\<close>

lemma selection_picks:
  assumes dom: "solver_domain scale items budget"
    and P: "set P \<subseteq> set items" "distinct (map it_key P)" "sum_list (map it_cost P) \<le> budget"
  obtains Q where "picks (map (key_group items budget) (rev (solver_keys items budget))) Q"
    and "mset Q = mset (filter (\<lambda>i. 0 < it_value i) P)"
proof -
  let ?P = "filter (\<lambda>i. 0 < it_value i) P"
  have nn: "0 \<le> it_cost i" if "i \<in> set P" for i using that P(1) dom by (auto simp: solver_domain_def)
  have cost: "it_cost i \<le> budget" if "i \<in> set P" for i
  proof -
    have "it_cost i \<le> sum_list (map it_cost P)"
      using that nn by (intro member_le_sum_list) auto
    with P(3) show ?thesis by simp
  qed
  have u: "i \<in> set (usable_items items budget)" if "i \<in> set ?P" for i
    using that cost P(1) by (auto simp: usable_items_def)
  have "distinct (rev (solver_keys items budget))" "it_key ` set ?P \<subseteq> set (rev (solver_keys items budget))"
    using u by (auto simp: solver_keys)
  moreover have "distinct (map it_key ?P)" using P(2) by (simp add: distinct_map_filter)
  moreover have "i \<in> set (key_group items budget (it_key i))" if "i \<in> set ?P" for i
    using u [OF that] by (simp add: key_group_in)
  ultimately show ?thesis using picks_exists [of "rev (solver_keys items budget)" ?P "key_group items budget"] that
    by blast
qed

lemma weight_sum_multiple:
  assumes "solver_domain scale items budget" and "set Q \<subseteq> set items" and "\<forall>i \<in> set items. scale dvd it_cost i"
  shows "weight_sum (\<lambda>i. scaled_cost (it_cost i) scale) Q * scale = sum_list (map it_cost Q)"
  using assms(2)
proof (induction Q)
  case (Cons i Q)
  have "scaled_cost (it_cost i) scale * scale = it_cost i"
    using Cons.prems assms(1,3) by (intro scaled_cost_multiple) (auto simp: solver_domain_def)
  then show ?case using Cons by (simp add: weight_sum_def algebra_simps)
qed (simp add: weight_sum_def)

lemma fitting_value:
  assumes dom: "solver_domain scale items budget" and grid: "grid_values items"
    and dvd: "\<forall>i \<in> set items. scale dvd it_cost i"
    and P: "set P \<subseteq> set items" "distinct (map it_key P)" "sum_list (map it_cost P) \<le> budget"
    and up: "upper (\<lambda>i. scaled_cost (it_cost i) scale) (nat (budget div scale))
               (map (key_group items budget) (rev (solver_keys items budget))) best"
  shows "sum_list (map it_value P) \<le> best ! nat (budget div scale)"
proof -
  let ?P = "filter (\<lambda>i. 0 < it_value i) P"
  let ?W = "\<lambda>i. scaled_cost (it_cost i) scale"
  have ids: "distinct (map it_id items)" and sc: "0 < scale" "0 \<le> budget" using dom by (auto simp: solver_domain_def)
  obtain Q where Q: "picks (map (key_group items budget) (rev (solver_keys items budget))) Q" "mset Q = mset ?P"
    by (rule selection_picks [OF dom P])
  have u: "set Q \<subseteq> set (usable_items items budget)" "distinct (map it_key Q)"
    using solver_picks [OF Q(1)] by auto
  then have sub: "set Q \<subseteq> set items" by (auto simp: usable_items_def)
  have "weight_sum ?W Q * scale = sum_list (map it_cost Q)" by (rule weight_sum_multiple [OF dom sub dvd])
  also have "\<dots> = sum_list (map it_cost ?P)" by (rule sum_list_mset_map [OF Q(2)])
  also have "\<dots> \<le> sum_list (map it_cost P)"
    using P(1) dom by (intro sum_list_filter_le) (auto simp: solver_domain_def)
  also have "\<dots> \<le> budget" by (rule P(3))
  finally have "weight_sum ?W Q \<le> budget div scale"
    using sc by (simp add: zdiv_mono1 [of "weight_sum ?W Q * scale" budget scale, simplified])
  then have "pick_value Q \<le> best ! nat (budget div scale)"
    using up Q(1) sc unfolding upper_def by (simp add: pos_imp_zdiv_nonneg_iff)
  moreover have "pick_value Q = sum_list (map it_value Q)"
    using pick_value_exact [OF grid_picks_exact [OF grid ids u(1)]] u(2) by (simp add: distinct_map)
  moreover have "sum_list (map it_value Q) = sum_list (map it_value ?P)" by (rule sum_list_mset_map [OF Q(2)])
  moreover have "sum_list (map it_value P) \<le> sum_list (map it_value ?P)" by (induction P) auto
  ultimately show ?thesis by simp
qed

lemma knapsack_value_ge:
  assumes dom: "solver_domain scale items budget" and grid: "grid_values items"
    and dvd: "\<forall>i \<in> set items. scale dvd it_cost i"
    and run: "knapsack_solve items budget scale cells = Inr ids"
    and P: "set P \<subseteq> set items" "distinct (map it_key P)" "sum_list (map it_cost P) \<le> budget"
  shows "sum_list (map it_value P) \<le> sum_list (map it_value (chosen_of items ids))"
proof (cases "usable_items items budget = []")
  case True
  have "filter (\<lambda>i. 0 < it_value i) P = []"
    by (rule selection_picks [OF dom P]) (use solver_picks True in fastforce)
  then have "sum_list (map it_value P) \<le> 0"
    by (intro sum_list_nonpos) (auto simp: filter_empty_conv not_less)
  moreover have "ids = []" using run True by (simp add: knapsack_solve_def)
  ultimately show ?thesis by (simp add: chosen_of_def)
next
  case ne: False
  have items: "distinct (map it_id items)" using dom by (simp add: solver_domain_def)
  have size: "\<not> int (length (solver_keys items budget)) * (budget div scale + 1) > cells"
    using run ne dom by (auto simp: knapsack_solve_def Let_def solver_keys_length solver_domain_def)
  obtain Q best where Q: "knapsack_solve items budget scale cells = Inr (sort (map it_id Q))"
    "picks (map (key_group items budget) (rev (solver_keys items budget))) Q"
    "pick_value Q = best ! nat (budget div scale) \<or> best ! nat (budget div scale) < pick_value Q"
    "\<And>m. \<forall>Q. picks (map (key_group items budget) (rev (solver_keys items budget))) Q \<longrightarrow> exact_pick m Q \<Longrightarrow>
       upper (\<lambda>i. scaled_cost (it_cost i) scale) (nat (budget div scale))
         (map (key_group items budget) (rev (solver_keys items budget))) best"
    by (rule knapsack_run [OF dom ne size]) blast
  have exact: "exact_pick grid_index R"
    if "picks (map (key_group items budget) (rev (solver_keys items budget))) R" for R
    using solver_picks [OF that] by (intro grid_picks_exact [OF grid items]) (auto simp: distinct_map)
  have "sum_list (map it_value P) \<le> best ! nat (budget div scale)"
    by (rule fitting_value [OF dom grid dvd P Q(4)]) (use exact in blast)
  also have "\<dots> \<le> pick_value Q" using Q(3) by auto
  also have "\<dots> = sum_list (map it_value Q)" using pick_value_exact [OF exact [OF Q(2)]] by simp
  also have "\<dots> = sum_list (map it_value (chosen_of items ids))"
  proof -
    have "ids = sort (map it_id Q)" using run Q(1) by simp
    moreover have "set Q \<subseteq> set items" "distinct (map it_key Q)"
      using solver_picks [OF Q(2)] by (auto simp: usable_items_def)
    ultimately show ?thesis using chosen_of_mset [OF items] by (metis sum_list_mset_map)
  qed
  finally show ?thesis .
qed

end
