(* ===== verification/Selection.thy ===== *)
theory Selection
  imports Allocation
begin

text \<open>
  The decisions of \<open>selection.allocate\<close>: from the contract of the solvers to statements about
  the candidates that went in and the decisions that come out.
\<close>

section \<open>Items of the candidates\<close>

definition bundle_item :: "string \<Rightarrow> ranked_candidate list \<Rightarrow> knapsack_item" where
  "bundle_item group_id ms =
     (let members = sort_key (\<lambda>r. c_candidate_id (r_candidate r)) ms in
      \<lparr>it_id = ''bundle:'' @ group_id,
       it_key = ''group:'' @ (case c_group_id (r_candidate (hd members)) of None \<Rightarrow> ''None'' | Some g \<Rightarrow> g),
       it_cost = sum_list (map (\<lambda>r. c_cost_idr (r_candidate r)) members),
       it_value = py_fsum (map r_priority members),
       it_candidates = map (\<lambda>r. c_candidate_id (r_candidate r)) members\<rparr>)"

lemma bundle_group_item: "ms \<noteq> [] \<Longrightarrow> bundle_group g ms = Inr (bundle_item g ms)"
proof -
  assume "ms \<noteq> []"
  then obtain m rest where "sort_key (\<lambda>r. c_candidate_id (r_candidate r)) ms = m # rest"
    by (metis length_0_conv length_sort neq_Nil_conv)
  then show ?thesis by (simp add: bundle_group_def bundle_item_def)
qed

definition singles :: "ranked_candidate list \<Rightarrow> ranked_candidate list" where
  "singles candidates = filter (\<lambda>r. c_group_id (r_candidate r) = None) candidates"

definition bundled :: "ranked_candidate list \<Rightarrow> knapsack_item list" where
  "bundled candidates = map (\<lambda>((g, inc), ms). bundle_item (g @ '':'' @ inc) ms)
     (sort_key fst (bundles_of candidates))"

lemma allocation_items_eq:
  "allocation_items candidates = Inr (map single_item (singles candidates) @ bundled candidates)"
proof -
  have "ms \<noteq> []" if "((g, inc), ms) \<in> set (sort_key fst (bundles_of candidates))" for g inc ms
    using that by (auto simp: bundles_of_def group_by_in filter_empty_conv)
  then have "map_result (\<lambda>((g, inc), ms). bundle_group (g @ '':'' @ inc) ms) (sort_key fst (bundles_of candidates))
      = Inr (bundled candidates)"
    unfolding bundled_def by (intro map_result_total) (auto simp: bundle_group_item)
  then show ?thesis by (simp add: allocation_items_def singles_def)
qed

definition cid :: "ranked_candidate \<Rightarrow> string" where "cid r = c_candidate_id (r_candidate r)"
definition ccost :: "ranked_candidate \<Rightarrow> int" where "ccost r = c_cost_idr (r_candidate r)"

text \<open>The members of an item, as ranked candidates.\<close>

definition members :: "ranked_candidate list \<Rightarrow> knapsack_item list \<Rightarrow> ranked_candidate list list \<Rightarrow> bool" where
  "members candidates items Ms \<longleftrightarrow> mset (concat Ms) = mset candidates
     \<and> list_all2 (\<lambda>i M. it_candidates i = map cid M \<and> it_cost i = sum_list (map ccost M)) items Ms"

lemma items_members:
  assumes "allocation_items candidates = Inr items"
  shows "\<exists>Ms. members candidates items Ms"
proof -
  let ?b = "sort_key fst (bundles_of candidates)"
  let ?s = "sort_key (\<lambda>r. c_candidate_id (r_candidate r))"
  let ?Ms = "map (\<lambda>r. [r]) (singles candidates) @ map (\<lambda>b. ?s (snd b)) ?b"
  have items: "items = map single_item (singles candidates) @ bundled candidates"
    using assms by (simp add: allocation_items_eq)
  have "mset (concat (map (\<lambda>b. ?s (snd b)) ?b)) = mset (concat (map snd (bundles_of candidates)))"
  proof -
    have "mset (concat (map (\<lambda>b. ?s (snd b)) xs)) = mset (concat (map snd xs))"
      for xs :: "((string \<times> string) \<times> ranked_candidate list) list"
      by (induction xs) simp_all
    also have "mset (concat (map snd ?b)) = mset (concat (map snd (bundles_of candidates)))"
      by (rule mset_concat_eq) simp
    finally show ?thesis .
  qed
  also have "\<dots> = mset (filter (\<lambda>r. c_group_id (r_candidate r) \<noteq> None) candidates)"
    by (simp add: bundles_of_def group_by_concat)
  finally have "mset (concat ?Ms) = mset candidates"
    by (simp add: singles_def concat_map_singleton flip: multiset_partition)
  moreover have "list_all2 (\<lambda>i M. it_candidates i = map cid M \<and> it_cost i = sum_list (map ccost M)) items ?Ms"
    unfolding items bundled_def
    by (intro list_all2_appendI)
      (auto simp: list_all2_map1 list_all2_map2 single_item_def bundle_item_def cid_def [abs_def] ccost_def [abs_def]
        Let_def intro!: list_all2_refl)
  ultimately show ?thesis unfolding members_def by blast
qed

section \<open>Ranks, runner-ups and decisions\<close>

lemma rank_of_notin: "k \<notin> it_id ` set C \<Longrightarrow> map_of (rank_of n C d) k = map_of d k"
  by (induction C arbitrary: n d) (auto simp: AList.update_conv')

lemma rank_of_nth:
  "distinct (map it_id C) \<Longrightarrow> j < length C \<Longrightarrow> map_of (rank_of n C d) (it_id (C ! j)) = Some (n + j)"
proof (induction C arbitrary: n d j)
  case (Cons i C)
  then show ?case by (cases j) (auto simp: rank_of_notin AList.update_conv')
qed simp

lemma runner_up_loop_eq:
  "map_of (runner_up_loop picked ranks is d) k =
     (case map_of d k of
        Some x \<Rightarrow> Some x
      | None \<Rightarrow> map_option it_id (find (\<lambda>i. it_key i = k \<and> k \<in> set picked \<and> map_of ranks (it_id i) = None
                                         \<and> it_value i > 0) is))"
  by (induction "is" arbitrary: d) (auto simp: AList.update_conv' split: option.splits)

lemma find_sorted_least:
  "sorted (map f xs) \<Longrightarrow> find Q xs = Some x \<Longrightarrow> y \<in> set xs \<Longrightarrow> Q y \<Longrightarrow> f x \<le> f y"
  by (induction xs) (auto split: if_splits)

text \<open>\<open>C\<close> is the chosen list of a solver: a set of items, each with its own id.\<close>

definition chosen_items :: "knapsack_item list \<Rightarrow> knapsack_item list \<Rightarrow> bool" where
  "chosen_items items C \<longleftrightarrow> distinct (map it_id items) \<and> set C \<subseteq> set items \<and> distinct C"

lemma ranks_selected:
  assumes "chosen_items items C" and "i \<in> set items"
  shows "map_of (rank_of 1 C []) (it_id i) \<noteq> None \<longleftrightarrow> i \<in> set C"
proof
  assume "i \<in> set C"
  then obtain j where "j < length C" "C ! j = i" by (auto simp: in_set_conv_nth)
  moreover have "distinct (map it_id C)"
    using assms(1) by (auto simp: chosen_items_def distinct_map inj_on_subset)
  ultimately show "map_of (rank_of 1 C []) (it_id i) \<noteq> None" using rank_of_nth by fastforce
next
  assume "map_of (rank_of 1 C []) (it_id i) \<noteq> None"
  then have "it_id i \<in> it_id ` set C"
    by (rule contrapos_np) (simp add: rank_of_notin)
  then obtain j where "j \<in> set C" "it_id j = it_id i" by (metis imageE)
  moreover have "j \<in> set items" using calculation(1) assms(1) by (auto simp: chosen_items_def)
  ultimately show "i \<in> set C" using assms distinct_map_filter_inj by (metis chosen_items_def)
qed

definition decision_of :: "knapsack_item list \<Rightarrow> knapsack_item list \<Rightarrow> knapsack_item \<Rightarrow> string \<Rightarrow> allocation_decision" where
  "decision_of items C i c =
     \<lparr>ad_candidate_id = c, ad_choice_key = it_key i, ad_selected = (i \<in> set C),
      ad_priority = it_value i, ad_cost_idr = it_cost i, ad_rank = map_of (rank_of 1 C []) (it_id i),
      ad_is_runner_up =
        (map_of (runner_up_loop (map it_key C) (rank_of 1 C []) (sort_key value_key items) []) (it_key i)
           = Some (it_id i)),
      ad_exclusion_reason =
        (if i \<in> set C then None else if it_value i \<le> 0 then Some NO_EXPECTED_GAIN
         else if it_key i \<in> it_key ` set C then Some RUNNER_UP else Some BUDGET_EXHAUSTED)\<rparr>"

lemma outcome_decisions:
  assumes "chosen_items items C"
  shows "ar_decisions (outcome items budget st C)
    = concat (map (\<lambda>i. map (decision_of items C i) (it_candidates i)) (sort_key (\<lambda>i. (it_key i, it_id i)) items))"
proof -
  have "item_decisions (map it_key C) (rank_of 1 C [])
      (runner_up_loop (map it_key C) (rank_of 1 C []) (sort_key value_key items) []) i
      = map (decision_of items C i) (it_candidates i)" if "i \<in> set items" for i
    using ranks_selected [OF assms that]
    by (auto simp: item_decisions_def decision_of_def exclusion_of_def)
  then have "map (item_decisions (map it_key C) (rank_of 1 C [])
      (runner_up_loop (map it_key C) (rank_of 1 C []) (sort_key value_key items) []))
      (sort_key (\<lambda>i. (it_key i, it_id i)) items)
      = map (\<lambda>i. map (decision_of items C i) (it_candidates i)) (sort_key (\<lambda>i. (it_key i, it_id i)) items)"
    by (intro map_cong) (simp_all only: set_sort)
  then show ?thesis by (simp only: outcome_def Let_def allocation_result.simps)
qed

lemma decision_in:
  assumes "chosen_items items C" and "d \<in> set (ar_decisions (outcome items budget st C))"
  obtains i c where "i \<in> set items" "c \<in> set (it_candidates i)" "d = decision_of items C i c"
  using assms by (auto simp: outcome_decisions)

lemma decided_ids:
  assumes "chosen_items items C"
  shows "mset (map ad_candidate_id (ar_decisions (outcome items budget st C)))
    = mset (concat (map it_candidates items))"
proof -
  have "map ad_candidate_id (concat (map (\<lambda>i. map (decision_of items C i) (it_candidates i)) xs))
      = concat (map it_candidates xs)" for xs
    by (induction xs) (simp_all add: decision_of_def comp_def)
  moreover have "mset (concat (map it_candidates (sort_key (\<lambda>i. (it_key i, it_id i)) items)))
      = mset (concat (map it_candidates items))"
    by (rule mset_concat_eq) simp
  ultimately show ?thesis by (simp only: outcome_decisions [OF assms])
qed

lemma selected_ids:
  assumes "chosen_items items C"
  shows "ad_candidate_id ` set (ar_selected (outcome items budget st C)) = set (concat (map it_candidates C))"
proof -
  have "set (ar_selected (outcome items budget st C))
      = {decision_of items C i c |i c. i \<in> set C \<and> c \<in> set (it_candidates i)}"
    using assms by (auto simp: ar_selected_def outcome_decisions decision_of_def chosen_items_def)
  moreover have "ad_candidate_id (decision_of items C i c) = c" for i c by (simp add: decision_of_def)
  ultimately show ?thesis by (auto simp: image_iff) metis
qed

section \<open>From candidates to decisions\<close>

text \<open>The run of \<open>allocate\<close>: whatever the strategy, the outcome of an admissible selection.\<close>

lemma allocate_outcome:
  assumes "allocation_items candidates = Inr items"
    and "solver_domain (al_cost_scale_idr config) items budget"
  obtains P st where "allocate candidates budget config = Inr (outcome items budget st (sort_key value_key P))"
    and "admissible items budget P" and "chosen_items items (sort_key value_key P)"
    and "st \<in> {STRATEGY_DP, STRATEGY_GREEDY}"
proof -
  let ?solve = "\<lambda>items budget. knapsack_solve items budget (al_cost_scale_idr config) (al_max_dp_cells config)"
  have ids: "distinct (map it_id items)" "0 \<le> budget" using assms(2) by (auto simp: solver_domain_def)
  have C: "chosen_items items (sort_key value_key P)" if "admissible items budget P" for P
    using that ids by (auto simp: chosen_items_def admissible_def distinct_map)
  obtain G where G: "admissible items budget G"
    "decide items budget STRATEGY_GREEDY (greedy_solve items budget)
       = Inr (outcome items budget STRATEGY_GREEDY (sort_key value_key G))"
    using greedy.decided [of items budget "greedy_solve items budget" STRATEGY_GREEDY] ids by auto
  consider (greedy) "py_lower (al_strategy config) \<notin> {''auto'', ''exact_dp''}"
    | (dp) ids where "py_lower (al_strategy config) \<in> {''auto'', ''exact_dp''}" "?solve items budget = Inr ids"
    | (large) msg where "py_lower (al_strategy config) \<in> {''auto'', ''exact_dp''}"
        "?solve items budget = Inl (DPTooLarge msg)"
    using knapsack_cases [OF assms(2), of "al_max_dp_cells config"] by blast
  then show ?thesis
  proof cases
    case greedy
    then show ?thesis using that [OF _ G(1) C [OF G(1)], of STRATEGY_GREEDY] G(2) assms(1)
      by (auto simp: allocate_def)
  next
    case (dp ids)
    obtain P where "admissible items budget P"
      "decide items budget STRATEGY_DP ids = Inr (outcome items budget STRATEGY_DP (sort_key value_key P))"
      using knapsack.decided [OF assms(2) dp(2)] by blast
    then show ?thesis using that [of STRATEGY_DP P] C dp assms(1) by (auto simp: allocate_def)
  next
    case (large msg)
    then show ?thesis using that [OF _ G(1) C [OF G(1)], of STRATEGY_GREEDY] G(2) assms(1)
      by (auto simp: allocate_def)
  qed
qed

text \<open>The cost of a set of items is the cost of the candidates in them.\<close>

definition cost_of :: "ranked_candidate list \<Rightarrow> string \<Rightarrow> int" where
  "cost_of candidates k = (case find (\<lambda>r. cid r = k) candidates of None \<Rightarrow> 0 | Some r \<Rightarrow> ccost r)"

lemma cost_of_cid: "distinct (map cid candidates) \<Longrightarrow> r \<in> set candidates \<Longrightarrow> cost_of candidates (cid r) = ccost r"
  by (auto simp: cost_of_def find_None_iff split: option.splits
      dest!: find_SomeD dest: distinct_map_filter_inj)

lemma item_cost_candidates:
  assumes "members candidates items Ms" and "distinct (map cid candidates)" and "i \<in> set items"
  shows "it_cost i = sum_list (map (cost_of candidates) (it_candidates i))"
proof -
  obtain j where j: "j < length items" "items ! j = i" using assms(3) by (auto simp: in_set_conv_nth)
  have M: "it_candidates i = map cid (Ms ! j)" "it_cost i = sum_list (map ccost (Ms ! j))" "j < length Ms"
    using assms(1) j by (auto simp: members_def list_all2_conv_all_nth)
  have "set (concat Ms) = set candidates" using assms(1) by (metis members_def set_mset_mset)
  then have "set (Ms ! j) \<subseteq> set candidates" using M(3) by fastforce
  then have "map (cost_of candidates) (it_candidates i) = map ccost (Ms ! j)"
    unfolding M(1) using assms(2) by (auto simp: cost_of_cid)
  then show ?thesis using M(2) by simp
qed

lemma items_ids:
  assumes "members candidates items Ms"
  shows "mset (concat (map it_candidates items)) = mset (map cid candidates)"
proof -
  have "map it_candidates items = map (map cid) Ms"
    using assms by (simp add: members_def list_all2_conv_all_nth list_eq_iff_nth_eq)
  then have "concat (map it_candidates items) = map cid (concat Ms)" by (simp add: map_concat)
  then show ?thesis using assms by (simp add: members_def)
qed

lemma chosen_ids_distinct:
  assumes "distinct (concat (map it_candidates items))" "set C \<subseteq> set items" "distinct C"
  shows "distinct (concat (map it_candidates C))"
  using assms(2,3)
proof (induction C)
  case (Cons i C)
  have "set (it_candidates i) \<inter> set (it_candidates j) = {}" if "j \<in> set C" for j
  proof -
    have ij: "i \<noteq> j" "i \<in> set items" "j \<in> set items" using Cons.prems that by auto
    then obtain xs ys where items: "items = xs @ i # ys" by (meson split_list)
    then have "j \<in> set xs \<or> j \<in> set ys" using ij by auto
    then show ?thesis using assms(1) unfolding items by fastforce
  qed
  moreover have "distinct (it_candidates i)"
    using Cons.prems(1) assms(1) by (auto simp: distinct_concat_iff)
  ultimately show ?case using Cons by auto
qed simp

lemma selected_cost:
  assumes mem: "members candidates items Ms" and ids: "distinct (map cid candidates)"
    and C: "chosen_items items C"
  shows "sum_list (map ccost (filter (\<lambda>r. cid r \<in> set (concat (map it_candidates C))) candidates))
    = sum_list (map it_cost C)"
proof -
  let ?ks = "concat (map it_candidates C)"
  let ?rs = "filter (\<lambda>r. cid r \<in> set ?ks) candidates"
  have sub: "set C \<subseteq> set items" "distinct C" using C by (auto simp: chosen_items_def)
  have all: "distinct (concat (map it_candidates items))"
    using items_ids [OF mem] ids by (metis mset_eq_imp_distinct_iff)
  have ks: "distinct ?ks" by (rule chosen_ids_distinct [OF all sub])
  have "set (concat (map it_candidates items)) = cid ` set candidates"
    using items_ids [OF mem] by (metis list.set_map set_mset_mset)
  moreover have "set ?ks \<subseteq> set (concat (map it_candidates items))" using sub(1) by fastforce
  ultimately have "set ?ks \<subseteq> cid ` set candidates" by simp
  moreover have "set (map cid (filter (\<lambda>r. cid r \<in> K) candidates)) = K" if "K \<subseteq> cid ` set candidates" for K
    using that by auto
  ultimately have "set (map cid ?rs) = set ?ks" by blast
  moreover have "distinct (map cid ?rs)" using ids by (simp add: distinct_map_filter)
  ultimately have ks_sum: "sum_list (map (cost_of candidates) (map cid ?rs)) = sum_list (map (cost_of candidates) ?ks)"
    using ks by (metis sum_list_distinct_conv_sum_set)
  have costs: "map (cost_of candidates) (map cid ?rs) = map ccost ?rs"
    using ids by (auto simp: cost_of_cid)
  have "sum_list (map (cost_of candidates) (concat (map it_candidates D)))
      = sum_list (map it_cost D)" if "set D \<subseteq> set items" for D
    using that by (induction D) (simp_all add: item_cost_candidates [OF mem ids])
  from this [OF sub(1)] show ?thesis unfolding costs [symmetric] ks_sum .
qed

lemma items_nonempty:
  assumes "allocation_items candidates = Inr items" and "i \<in> set items"
  shows "it_candidates i \<noteq> []"
proof -
  have "ms \<noteq> []" if "((g, inc), ms) \<in> set (bundles_of candidates)" for g inc ms
    using that by (auto simp: bundles_of_def group_by_in filter_empty_conv)
  then have "it_candidates (bundle_item (g @ '':'' @ inc) ms) \<noteq> []"
    if "((g, inc), ms) \<in> set (bundles_of candidates)" for g inc ms
    using that by (auto simp: bundle_item_def Let_def)
  then have "it_candidates i \<noteq> []" if "i \<in> set (bundled candidates)"
    using that by (fastforce simp: bundled_def)
  moreover have "it_candidates i \<noteq> []" if "i \<in> set (map single_item (singles candidates))"
    using that by (auto simp: single_item_def)
  moreover have "i \<in> set (map single_item (singles candidates)) \<or> i \<in> set (bundled candidates)"
    using assms by (auto simp: allocation_items_eq)
  ultimately show ?thesis by blast
qed

section \<open>Properties\<close>

text \<open>
  C5.  Allocation never overspends: it always returns a result, whatever the strategy and the
  size of the problem, the costs of the selected candidates add up to the reported spending,
  the spending is within the budget, and two selected decisions with the same choice key (a
  user, or a group) belong to the same pick.
\<close>

theorem allocate_within_budget:
  assumes "allocation_items candidates = Inr items"
    and "solver_domain (al_cost_scale_idr config) items budget"
    and "distinct (map (c_candidate_id \<circ> r_candidate) candidates)"
  shows "\<exists>res. allocate candidates budget config = Inr res
    \<and> ar_spent_idr res \<le> budget
    \<and> sum_list (map (c_cost_idr \<circ> r_candidate)
        (filter (\<lambda>r. c_candidate_id (r_candidate r) \<in> ad_candidate_id ` set (ar_selected res)) candidates))
        = ar_spent_idr res
    \<and> (\<forall>d \<in> set (ar_selected res). \<forall>d' \<in> set (ar_selected res).
         ad_choice_key d = ad_choice_key d' \<longrightarrow> ad_rank d = ad_rank d')"
proof -
  obtain P st where res: "allocate candidates budget config = Inr (outcome items budget st (sort_key value_key P))"
    and P: "admissible items budget P" and C: "chosen_items items (sort_key value_key P)"
    by (rule allocate_outcome [OF assms(1,2)])
  let ?C = "sort_key value_key P"
  let ?res = "outcome items budget st ?C"
  obtain Ms where mem: "members candidates items Ms" using items_members [OF assms(1)] by blast
  have cid: "cid = c_candidate_id \<circ> r_candidate" "ccost = c_cost_idr \<circ> r_candidate"
    by (simp_all add: fun_eq_iff cid_def ccost_def)
  have spent: "ar_spent_idr ?res = sum_list (map it_cost ?C)" by (simp add: outcome_def Let_def)
  have "sum_list (map ccost (filter (\<lambda>r. cid r \<in> ad_candidate_id ` set (ar_selected ?res)) candidates))
      = ar_spent_idr ?res"
    using selected_cost [OF mem _ C] assms(3) by (simp only: selected_ids [OF C] spent cid)
  then have "sum_list (map (c_cost_idr \<circ> r_candidate)
        (filter (\<lambda>r. c_candidate_id (r_candidate r) \<in> ad_candidate_id ` set (ar_selected ?res)) candidates))
        = ar_spent_idr ?res"
    by (simp only: cid comp_def)
  moreover have "ar_spent_idr ?res \<le> budget" using P by (simp add: spent admissible_def)
  moreover have "ad_rank d = ad_rank d'"
    if sel: "d \<in> set (ar_selected ?res)" "d' \<in> set (ar_selected ?res)"
      and key: "ad_choice_key d = ad_choice_key d'" for d d'
  proof -
    obtain i c j c' where d: "d = decision_of items ?C i c" "i \<in> set ?C"
      "d' = decision_of items ?C j c'" "j \<in> set ?C"
      using sel by (auto simp: ar_selected_def decision_of_def elim!: decision_in [OF C])
    then have "it_key i = it_key j" using key by (simp add: decision_of_def)
    moreover have "distinct (map it_key ?C)" using P by (simp add: admissible_def)
    ultimately have "i = j" using d by (metis distinct_map_filter_inj)
    then show ?thesis using d by (simp add: decision_of_def)
  qed
  ultimately show ?thesis using res by blast
qed

text \<open>
  C33.  Every candidate is decided exactly once, and the decision explains itself: selected,
  ranked and without an exclusion reason go together; NO_EXPECTED_GAIN means a priority that
  is not positive, RUNNER_UP means another pick of the same key was taken, BUDGET_EXHAUSTED
  means none was; and all members of a group bundle get the same decision.
\<close>

theorem allocate_decides_all:
  assumes "allocation_items candidates = Inr items"
    and "solver_domain (al_cost_scale_idr config) items budget"
    and "allocate candidates budget config = Inr res"
  shows "mset (map ad_candidate_id (ar_decisions res)) = mset (map (c_candidate_id \<circ> r_candidate) candidates)
    \<and> (\<forall>d \<in> set (ar_decisions res).
         (ad_selected d \<longleftrightarrow> ad_exclusion_reason d = None) \<and> (ad_selected d \<longleftrightarrow> ad_rank d \<noteq> None)
         \<and> (ad_selected d \<longrightarrow> 0 < ad_priority d)
         \<and> (ad_exclusion_reason d = Some NO_EXPECTED_GAIN \<longrightarrow> ad_priority d \<le> 0)
         \<and> (ad_exclusion_reason d = Some RUNNER_UP \<longleftrightarrow> \<not> ad_selected d \<and> 0 < ad_priority d
              \<and> ad_choice_key d \<in> ad_choice_key ` set (ar_selected res))
         \<and> (ad_exclusion_reason d = Some BUDGET_EXHAUSTED \<longleftrightarrow> \<not> ad_selected d \<and> 0 < ad_priority d
              \<and> ad_choice_key d \<notin> ad_choice_key ` set (ar_selected res)))"
proof -
  obtain P st where run: "allocate candidates budget config = Inr (outcome items budget st (sort_key value_key P))"
    and P: "admissible items budget P" and C: "chosen_items items (sort_key value_key P)"
    by (rule allocate_outcome [OF assms(1,2)])
  let ?C = "sort_key value_key P"
  have res: "res = outcome items budget st ?C" using run assms(3) by simp
  obtain Ms where mem: "members candidates items Ms" using items_members [OF assms(1)] by blast
  have ids: "mset (map ad_candidate_id (ar_decisions res)) = mset (map cid candidates)"
    using decided_ids [OF C] items_ids [OF mem] by (simp only: res)
  have keys: "ad_choice_key ` set (ar_selected res) = it_key ` set ?C"
  proof -
    have "set (ar_selected res) = {decision_of items ?C i c |i c. i \<in> set ?C \<and> c \<in> set (it_candidates i)}"
      using C by (auto simp: res ar_selected_def outcome_decisions decision_of_def chosen_items_def)
    moreover have "\<exists>c. c \<in> set (it_candidates i)" if "i \<in> set ?C" for i
    proof -
      have "it_candidates i \<noteq> []"
        using items_nonempty [OF assms(1), of i] that C by (auto simp: chosen_items_def)
      then show ?thesis by (meson list.set_sel(1))
    qed
    moreover have "ad_choice_key (decision_of items ?C i c) = it_key i" for i c by (simp add: decision_of_def)
    ultimately show ?thesis by (auto simp: image_iff) metis
  qed
  have pos: "0 < it_value i" if "i \<in> set ?C" for i using P that by (simp add: admissible_def)
  have one: "(ad_selected d \<longleftrightarrow> ad_exclusion_reason d = None) \<and> (ad_selected d \<longleftrightarrow> ad_rank d \<noteq> None)
         \<and> (ad_selected d \<longrightarrow> 0 < ad_priority d)
         \<and> (ad_exclusion_reason d = Some NO_EXPECTED_GAIN \<longrightarrow> ad_priority d \<le> 0)
         \<and> (ad_exclusion_reason d = Some RUNNER_UP \<longleftrightarrow> \<not> ad_selected d \<and> 0 < ad_priority d
              \<and> ad_choice_key d \<in> it_key ` set ?C)
         \<and> (ad_exclusion_reason d = Some BUDGET_EXHAUSTED \<longleftrightarrow> \<not> ad_selected d \<and> 0 < ad_priority d
              \<and> ad_choice_key d \<notin> it_key ` set ?C)"
    if d: "d \<in> set (ar_decisions res)" for d
  proof -
    obtain i c where i: "i \<in> set items" "d = decision_of items ?C i c"
      using d by (auto simp: res elim!: decision_in [OF C])
    then show ?thesis using ranks_selected [OF C i(1)] pos by (auto simp: decision_of_def)
  qed
  have "mset (map (c_candidate_id \<circ> r_candidate) candidates) = mset (map cid candidates)"
    by (simp add: cid_def [abs_def] comp_def)
  with ids have "mset (map ad_candidate_id (ar_decisions res)) = mset (map (c_candidate_id \<circ> r_candidate) candidates)"
    by (simp only:)
  with one show ?thesis unfolding keys by blast
qed

text \<open>The runner-up of a key is its best option that was not taken.\<close>

lemma runner_up_best:
  assumes C: "chosen_items items C" and i: "i \<in> set items"
    and up: "map_of (runner_up_loop (map it_key C) (rank_of 1 C []) (sort_key value_key items) []) (it_key i)
               = Some (it_id i)"
  shows "i \<notin> set C \<and> 0 < it_value i \<and> it_key i \<in> it_key ` set C
    \<and> (\<forall>j \<in> set items. it_key j = it_key i \<and> j \<notin> set C \<longrightarrow> it_value j \<le> it_value i)"
proof -
  let ?Q = "\<lambda>j. it_key j = it_key i \<and> it_key i \<in> set (map it_key C)
      \<and> map_of (rank_of 1 C []) (it_id j) = None \<and> it_value j > 0"
  obtain x where x: "find ?Q (sort_key value_key items) = Some x" "it_id x = it_id i"
    using up by (auto simp: runner_up_loop_eq)
  have "x \<in> set items" "?Q x" using find_SomeD [OF x(1)] by auto
  then have xi: "x = i" using C i x(2) by (metis chosen_items_def distinct_map_filter_inj)
  have out: "map_of (rank_of 1 C []) (it_id j) = None \<longleftrightarrow> j \<notin> set C" if "j \<in> set items" for j
    using ranks_selected [OF C that] by blast
  have "it_value j \<le> it_value i" if j: "j \<in> set items" "it_key j = it_key i" "j \<notin> set C" for j
  proof (cases "0 < it_value j")
    case True
    then have "?Q j" using j out \<open>?Q x\<close> xi by auto
    then have "value_key i \<le> value_key j"
      using find_sorted_least [OF sorted_sort_key x(1), of j] j(1) xi by simp
    then show ?thesis by (auto simp: value_key_def less_eq_prod_def)
  next
    case False
    then show ?thesis using \<open>?Q x\<close> xi by simp
  qed
  then show ?thesis using \<open>?Q x\<close> xi out [OF i] by auto
qed

lemma runner_up_exists:
  assumes C: "chosen_items items C" and i: "i \<in> set items" "i \<notin> set C" "0 < it_value i"
    and key: "it_key i \<in> it_key ` set C"
  shows "\<exists>j \<in> set items. it_key j = it_key i \<and>
    map_of (runner_up_loop (map it_key C) (rank_of 1 C []) (sort_key value_key items) []) (it_key i) = Some (it_id j)"
proof -
  let ?Q = "\<lambda>j. it_key j = it_key i \<and> it_key i \<in> set (map it_key C)
      \<and> map_of (rank_of 1 C []) (it_id j) = None \<and> it_value j > 0"
  have "?Q i" using ranks_selected [OF C i(1)] i key by auto
  then have "find ?Q (sort_key value_key items) \<noteq> None" using i(1) by (auto simp: find_None_iff)
  then obtain x where x: "find ?Q (sort_key value_key items) = Some x" by blast
  have "x \<in> set items" "it_key x = it_key i" using find_SomeD [OF x] by auto
  then show ?thesis using x by (intro bexI [of _ x]) (simp_all add: runner_up_loop_eq)
qed

text \<open>
  The visible runner-up is the best alternative: a decision marked as runner-up was not
  selected but its key was, every other option of that key that was not selected has at most
  its priority, and whenever an option is excluded as RUNNER_UP its key has a marked runner-up.
\<close>

theorem runner_up_is_best:
  assumes "allocation_items candidates = Inr items"
    and "solver_domain (al_cost_scale_idr config) items budget"
    and "allocate candidates budget config = Inr res" and "d \<in> set (ar_decisions res)"
  shows "(ad_is_runner_up d \<longrightarrow> ad_exclusion_reason d = Some RUNNER_UP
            \<and> (\<forall>e \<in> set (ar_decisions res). ad_choice_key e = ad_choice_key d \<and> \<not> ad_selected e
                 \<longrightarrow> ad_priority e \<le> ad_priority d))
       \<and> (ad_exclusion_reason d = Some RUNNER_UP \<longrightarrow>
            (\<exists>e \<in> set (ar_decisions res). ad_is_runner_up e \<and> ad_choice_key e = ad_choice_key d))"
proof -
  obtain P st where run: "allocate candidates budget config = Inr (outcome items budget st (sort_key value_key P))"
    and P: "admissible items budget P" and C: "chosen_items items (sort_key value_key P)"
    by (rule allocate_outcome [OF assms(1,2)])
  let ?C = "sort_key value_key P"
  have res: "res = outcome items budget st ?C" using run assms(3) by simp
  obtain i c where i: "i \<in> set items" "d = decision_of items ?C i c"
    using assms(4) by (auto simp: res elim!: decision_in [OF C])
  have best: "it_value j \<le> it_value i"
    if "ad_is_runner_up d" "j \<in> set items" "it_key j = it_key i" "j \<notin> set ?C" for j
    using runner_up_best [OF C i(1)] that i(2) by (auto simp: decision_of_def)
  have first: "ad_exclusion_reason d = Some RUNNER_UP" if "ad_is_runner_up d"
    using runner_up_best [OF C i(1)] that i(2) by (auto simp: decision_of_def)
  have "ad_priority e \<le> ad_priority d"
    if d: "ad_is_runner_up d" and e: "e \<in> set (ar_decisions res)"
      and key: "ad_choice_key e = ad_choice_key d" and sel: "\<not> ad_selected e" for e
  proof -
    obtain j c' where "j \<in> set items" "e = decision_of items ?C j c'"
      using e by (auto simp: res elim!: decision_in [OF C])
    then show ?thesis using best [of j] d key sel i(2) by (auto simp: decision_of_def)
  qed
  moreover have "\<exists>e \<in> set (ar_decisions res). ad_is_runner_up e \<and> ad_choice_key e = ad_choice_key d"
    if "ad_exclusion_reason d = Some RUNNER_UP"
  proof -
    have "i \<notin> set ?C" "0 < it_value i" "it_key i \<in> it_key ` set ?C"
      using that i(2) by (auto simp: decision_of_def split: if_splits)
    from runner_up_exists [OF C i(1) this] obtain j where j: "j \<in> set items" "it_key j = it_key i"
      "map_of (runner_up_loop (map it_key ?C) (rank_of 1 ?C []) (sort_key value_key items) []) (it_key i)
         = Some (it_id j)" by blast
    obtain k where k: "k \<in> set (it_candidates j)"
      using items_nonempty [OF assms(1) j(1)] by (meson list.set_sel(1))
    have "decision_of items ?C j k \<in> set (ar_decisions res)"
      using j(1) k by (auto simp: res outcome_decisions [OF C])
    then show ?thesis using j i(2) by (intro bexI [of _ "decision_of items ?C j k"]) (simp_all add: decision_of_def)
  qed
  ultimately show ?thesis using first by blast
qed

text \<open>
  C6.  The dynamic program is optimal: for costs that are multiples of the cost scale and values
  given to a millionth of a rupiah, no selection of items with at most one per key and within
  the budget is worth more than the one returned; the 1e-9 tolerance does not matter.
\<close>

theorem knapsack_optimal:
  assumes "solver_domain scale items budget" and "grid_values items"
    and "\<forall>i \<in> set items. scale dvd it_cost i"
    and "knapsack_solve items budget scale cells = Inr ids"
  shows "\<exists>Q. ids = sort (map it_id Q) \<and> admissible items budget Q
    \<and> (\<forall>P. set P \<subseteq> set items \<and> distinct (map it_key P) \<and> sum_list (map it_cost P) \<le> budget
          \<longrightarrow> sum_list (map it_value P) \<le> sum_list (map it_value Q))"
proof -
  obtain Q where Q: "ids = sort (map it_id Q)" "admissible items budget Q"
    using knapsack.solution [OF assms(1,4)] by blast
  have "distinct (map it_id items)" using assms(1) by (simp add: solver_domain_def)
  then have "sum_list (map it_value (chosen_of items ids)) = sum_list (map it_value Q)"
    unfolding Q(1) using Q(2) by (intro sum_list_mset_map chosen_of_mset) (auto simp: admissible_def)
  with Q knapsack_value_ge [OF assms] show ?thesis by auto
qed

text \<open>
  The greedy fallback leaves nothing on the table: every item of positive value it does not
  choose either shares its key with a chosen item or does not fit in what is left of the budget.
\<close>

theorem greedy_maximal:
  assumes "distinct (map it_id items)" and "0 \<le> budget" and "\<forall>i \<in> set items. 0 \<le> it_cost i"
    and "i \<in> set items" and "0 < it_value i" and "it_id i \<notin> set (greedy_solve items budget)"
  shows "it_key i \<in> it_key ` set (chosen_of items (greedy_solve items budget))
       \<or> budget - sum_list (map it_cost (chosen_of items (greedy_solve items budget))) < it_cost i"
proof -
  obtain P where P: "greedy_solve items budget = sort (map it_id P)" "admissible items budget P"
    "maximal (filter (\<lambda>i. it_value i > 0) items) {} budget P"
    using greedy_picks [OF assms(2), of items] assms(3) by metis
  have "mset (chosen_of items (greedy_solve items budget)) = mset P"
    unfolding P(1) using P(2) assms(1) by (intro chosen_of_mset) (auto simp: admissible_def)
  then have "set (chosen_of items (greedy_solve items budget)) = set P"
    "sum_list (map it_cost (chosen_of items (greedy_solve items budget))) = sum_list (map it_cost P)"
    by (metis set_mset_mset, rule sum_list_mset_map)
  moreover have "i \<notin> set P" using assms(6) P(1) by auto
  ultimately show ?thesis using P(3) assms(4,5) by (auto simp: maximal_def)
qed

section \<open>Witnesses\<close>

definition ranked :: "string \<Rightarrow> string \<Rightarrow> string \<Rightarrow> int \<Rightarrow> pyfloat \<Rightarrow> string option \<Rightarrow> ranked_candidate" where
  "ranked k user code cost priority grp =
     \<lparr>r_candidate = \<lparr>c_candidate_id = k, c_tenant_id = ''t1'', c_user_pseudonym = user,
        c_incentive_code = code, c_cost_idr = cost, c_business_value_idr = 900000,
        c_encourages_borrowing = False, c_changes_credit_terms = False, c_group_id = grp,
        c_churn_risk = 1/2, c_impact_score = 1/4, c_segment = PERSUADABLE, c_pattern_type = STABLE\<rparr>,
      r_priority = priority, r_ranking_strategy = FALLBACK\<rparr>"

definition sample_ranked :: "ranked_candidate list" where
  "sample_ranked = [ranked ''c1'' ''u1'' ''A'' 1 50 None, ranked ''c2'' ''u1'' ''B'' 1 40 None]"

definition sample_items :: "knapsack_item list" where
  "sample_items = [single_item (ranked ''c1'' ''u1'' ''A'' 1 50 None),
     single_item (ranked ''c2'' ''u1'' ''B'' 1 40 None)]"

definition sample_allocator :: allocator_config where
  "sample_allocator = \<lparr>al_strategy = ''greedy_density'', al_cost_scale_idr = 1, al_max_dp_cells = 20000000\<rparr>"

lemma sample_items_of: "allocation_items sample_ranked = Inr sample_items"
  by code_simp

lemma sample_domain: "solver_domain 1 sample_items 1"
  by code_simp

theorem allocate_within_budget_witness:
  "\<exists>res. allocate sample_ranked 1 sample_allocator = Inr res \<and> ar_spent_idr res \<le> 1"
proof -
  have "solver_domain (al_cost_scale_idr sample_allocator) sample_items 1"
    using sample_domain by (simp add: sample_allocator_def)
  moreover have "distinct (map (c_candidate_id \<circ> r_candidate) sample_ranked)" by code_simp
  ultimately show ?thesis using allocate_within_budget [OF sample_items_of] by blast
qed

lemma sample_run:
  "\<exists>res d. allocate sample_ranked 1 sample_allocator = Inr res \<and> d \<in> set (ar_decisions res)
     \<and> ad_is_runner_up d \<and> ad_candidate_id d = ''c2''"
proof -
  have "case allocate sample_ranked 1 sample_allocator of Inl _ \<Rightarrow> False
      | Inr res \<Rightarrow> list_ex (\<lambda>d. ad_is_runner_up d \<and> ad_candidate_id d = ''c2'') (ar_decisions res)"
    by code_simp
  then show ?thesis by (auto simp: list_ex_iff split: sum.splits)
qed

theorem allocate_decides_all_witness:
  "\<exists>res. allocate sample_ranked 1 sample_allocator = Inr res
     \<and> mset (map ad_candidate_id (ar_decisions res)) = mset (map (c_candidate_id \<circ> r_candidate) sample_ranked)"
proof -
  obtain res where "allocate sample_ranked 1 sample_allocator = Inr res" using sample_run by blast
  moreover have "solver_domain (al_cost_scale_idr sample_allocator) sample_items 1"
    using sample_domain by (simp add: sample_allocator_def)
  ultimately show ?thesis using allocate_decides_all [OF sample_items_of] by blast
qed

theorem runner_up_is_best_witness:
  "\<exists>res d. allocate sample_ranked 1 sample_allocator = Inr res \<and> d \<in> set (ar_decisions res)
     \<and> ad_exclusion_reason d = Some RUNNER_UP"
proof -
  obtain res d where r: "allocate sample_ranked 1 sample_allocator = Inr res" "d \<in> set (ar_decisions res)"
    "ad_is_runner_up d" using sample_run by blast
  have "solver_domain (al_cost_scale_idr sample_allocator) sample_items 1"
    using sample_domain by (simp add: sample_allocator_def)
  from runner_up_is_best [OF sample_items_of this r(1,2)] r show ?thesis by blast
qed

definition two_items :: "knapsack_item list" where
  "two_items = [single_item (ranked ''c1'' ''u1'' ''A'' 1000 50 None),
     single_item (ranked ''c2'' ''u1'' ''B'' 1000 40 None)]"

theorem knapsack_optimal_witness:
  "\<exists>Q. [''c1''] = sort (map it_id Q) \<and> admissible two_items 1000 Q"
proof -
  have dom: "solver_domain 1000 two_items 1000" by code_simp
  have "knapsack_solve two_items 1000 1000 100 = Inr [''c1'']" by code_simp
  moreover have "\<forall>i \<in> set two_items. 1000 dvd it_cost i" by code_simp
  moreover have "grid_values two_items"
  proof -
    have "\<forall>i \<in> set two_items. it_value i = of_int \<lfloor>it_value i * 2 ^ 20\<rfloor> / 2 ^ 20" by code_simp
    moreover have "sum_list (map it_value (filter (\<lambda>i. 0 < it_value i) two_items)) < 2 ^ 32" by code_simp
    ultimately show ?thesis unfolding grid_values_def by blast
  qed
  ultimately show ?thesis using knapsack_optimal [OF dom] by blast
qed

theorem greedy_maximal_witness:
  "it_key (sample_items ! 1) \<in> it_key ` set (chosen_of sample_items (greedy_solve sample_items 1))
   \<or> 1 - sum_list (map it_cost (chosen_of sample_items (greedy_solve sample_items 1)))
       < it_cost (sample_items ! 1)"
proof (rule greedy_maximal)
  show "distinct (map it_id sample_items)" by code_simp
  show "\<forall>i \<in> set sample_items. 0 \<le> it_cost i" by code_simp
  show "sample_items ! 1 \<in> set sample_items" by (simp add: sample_items_def)
  show "0 < it_value (sample_items ! 1)" by code_simp
  show "it_id (sample_items ! 1) \<notin> set (greedy_solve sample_items 1)" by code_simp
qed simp

end
