(* ===== verification/Graph.thy ===== *)
theory Graph
  imports Contracts "HOL-Library.Monad_Syntax"
begin

text \<open>
  \<open>packages/graph-signal\<close>: recency-decayed edges (\<open>build.py\<close>), the activity ratio and its change
  (\<open>stability.py\<close>), pattern tags (\<open>pattern.py\<close>), circles by union-find with path halving
  (\<open>circles.py\<close>) and the per-user snapshots (\<open>snapshot.py\<close>).  The power function and SHA-256
  are parameters.  The loop of \<open>find\<close> is a \<open>partial_function\<close>: not returning is \<open>None\<close>,
  and that it returns is proved.
\<close>

section \<open>build.py\<close>

type_synonym pair = "string \<times> string"

definition counts_as_edge :: "canonical_event \<Rightarrow> instant \<Rightarrow> instant \<Rightarrow> string option" where
  "counts_as_edge e start now =
     (case e_counterparty_pseudonym e of
        None \<Rightarrow> None
      | Some cp \<Rightarrow>
          if e_event_type e \<notin> set COUNTERPARTY_EVENT_TYPES \<or> cp = [] then None
          else if \<not> (start \<le> e_occurred_at e \<and> e_occurred_at e \<le> now) \<or> cp = e_user_pseudonym e then None
          else Some cp)"

fun edge_loop ::
  "(pyfloat \<Rightarrow> pyfloat) \<Rightarrow> instant \<Rightarrow> instant \<Rightarrow> pyfloat \<Rightarrow> canonical_event list \<Rightarrow>
   (pair \<times> pyfloat) list \<Rightarrow> (pair \<times> int) list \<Rightarrow> ((pair \<times> pyfloat) list \<times> (pair \<times> int) list) result" where
  "edge_loop half_pow start now half_life [] weights counts = Inr (weights, counts)"
| "edge_loop half_pow start now half_life (e # es) weights counts =
     (case counts_as_edge e start now of
        None \<Rightarrow> edge_loop half_pow start now half_life es weights counts
      | Some cp \<Rightarrow>
          let ab = (min (e_user_pseudonym e) cp, max (e_user_pseudonym e) cp);
              age_days = days_of (now - e_occurred_at e)
          in if half_life = 0 then Inl ZeroDivisionError
             else edge_loop half_pow start now half_life es
                    (AList.update ab (fadd (dict_get weights ab 0) (half_pow (fdiv age_days half_life))) weights)
                    (dict_incr ab 1 counts))"

definition build_edges ::
  "(pyfloat \<Rightarrow> pyfloat) \<Rightarrow> canonical_event list \<Rightarrow> instant \<Rightarrow> int \<Rightarrow> pyfloat \<Rightarrow> int \<Rightarrow> edge list result" where
  "build_edges half_pow events now window_days half_life min_interactions =
     bind_result (edge_loop half_pow (now - timedelta_days window_days) now half_life events [] [])
       (\<lambda>(weights, counts). Inr
         (map (\<lambda>ab. \<lparr>ed_user = fst ab, ed_counterparty = snd ab, ed_weight = dict_get weights ab 0,
                     ed_count = dict_get counts ab 0\<rparr>)
            (filter (\<lambda>ab. dict_get counts ab 0 \<ge> min_interactions) (sort (map fst weights)))))"

definition neighbors :: "string \<Rightarrow> edge list \<Rightarrow> (string \<times> pyfloat) list" where
  "neighbors user edges = foldl (\<lambda>d e.
     if ed_user e = user then AList.update (ed_counterparty e) (ed_weight e) d
     else if ed_counterparty e = user then AList.update (ed_user e) (ed_weight e) d
     else d) [] edges"

section \<open>stability.py and pattern.py\<close>

definition neighbor_activity_ratio :: "string \<Rightarrow> edge list \<Rightarrow> string list \<Rightarrow> pyfloat" where
  "neighbor_activity_ratio user edges active =
     (let nbrs = neighbors user edges;
          total = py_fsum (map snd nbrs)
      in if total \<le> 0 then 0
         else fdiv (py_fsum (map snd (filter (\<lambda>(n, w). n \<in> set active) nbrs))) total)"

definition delta_stability :: "pyfloat \<Rightarrow> pyfloat \<Rightarrow> pyfloat" where
  "delta_stability ratio_now ratio_30d_ago = fsub ratio_now ratio_30d_ago"

definition tag_pattern ::
  "pyfloat \<Rightarrow> pyfloat \<Rightarrow> pyfloat option \<Rightarrow> pyfloat \<Rightarrow> pyfloat \<Rightarrow> pattern_type" where
  "tag_pattern delta cohort_median_delta external dip_threshold cohort_dip_threshold =
     (if delta > - dip_threshold then STABLE
      else if cohort_median_delta < - cohort_dip_threshold \<and>
              (case external of None \<Rightarrow> False | Some v \<Rightarrow> v < 0)
      then MARKET_DRIVEN
      else CIRCLE_SPECIFIC)"

section \<open>circles.py\<close>

type_synonym 'a forest = "('a \<times> 'a) list"

text \<open>\<open>parent[x]\<close>; every value of the dict is one of its keys (\<open>uf_inv\<close>), so it never raises.\<close>

definition parent_of :: "'a forest \<Rightarrow> 'a \<Rightarrow> 'a" where
  "parent_of p x = dict_get p x x"

partial_function (option) find_loop :: "'a forest \<Rightarrow> 'a \<Rightarrow> ('a forest \<times> 'a) option" where
  "find_loop p x =
     (if parent_of p x = x then Some (p, x)
      else let p' = AList.update x (parent_of p (parent_of p x)) p
           in find_loop p' (parent_of p' x))"

definition find_root :: "'a forest \<Rightarrow> 'a \<Rightarrow> ('a forest \<times> 'a) option" where
  "find_root p x = find_loop (dict_setdefault x x p) x"

definition link :: "('a::linorder) forest \<Rightarrow> 'a \<Rightarrow> 'a \<Rightarrow> 'a forest" where
  "link p ra rb = (if ra \<noteq> rb then AList.update (max ra rb) (min ra rb) p else p)"

fun union_loop :: "('a::linorder \<times> 'a) list \<Rightarrow> 'a forest \<Rightarrow> 'a forest option" where
  "union_loop [] p = Some p"
| "union_loop ((a, b) # es) p =
     do { (p1, ra) \<leftarrow> find_root p a; (p2, rb) \<leftarrow> find_root p1 b; union_loop es (link p2 ra rb) }"

fun collect_loop :: "'a list \<Rightarrow> 'a forest \<Rightarrow> ('a \<times> 'a list) list \<Rightarrow> ('a \<times> 'a list) list option" where
  "collect_loop [] p groups = Some groups"
| "collect_loop (node # ns) p groups =
     do { (p', r) \<leftarrow> find_root p node; collect_loop ns p' (group_add r node groups) }"

definition find_circles :: "(string \<Rightarrow> string) \<Rightarrow> edge list \<Rightarrow> nat \<Rightarrow> circle list option" where
  "find_circles sha256_hex edges min_size =
     do { parent \<leftarrow> union_loop (map (\<lambda>e. (ed_user e, ed_counterparty e)) edges) [];
          groups \<leftarrow> collect_loop (map fst parent) parent [];
          Some (sort_key ci_circle_id
            (map (\<lambda>members. let ordered = sort members in
                    \<lparr>ci_circle_id = ''circle-'' @ take 12 (sha256_hex (join ''|'' ordered)),
                     ci_members = ordered\<rparr>)
              (filter (\<lambda>members. \<not> length members < min_size) (map snd groups)))) }"

section \<open>snapshot.py\<close>

text \<open>The set as the list of its elements (only membership is read).\<close>

definition active_users :: "canonical_event list \<Rightarrow> instant \<Rightarrow> instant \<Rightarrow> string list" where
  "active_users events start end_t =
     map e_user_pseudonym (filter (\<lambda>e. start \<le> e_occurred_at e \<and> e_occurred_at e < end_t) events)"

definition empty_snapshot :: "string \<Rightarrow> circle_snapshot" where
  "empty_snapshot user = \<lparr>cs_user_pseudonym = user, cs_circle_size = 0, cs_ratio_now = 0,
     cs_ratio_30d_ago = 0, cs_delta_stability = 0, cs_pattern_type = STABLE\<rparr>"

definition raw_of ::
  "edge list \<Rightarrow> edge list \<Rightarrow> string list \<Rightarrow> string list \<Rightarrow> string \<Rightarrow> int \<times> pyfloat \<times> pyfloat \<times> pyfloat" where
  "raw_of edges_now edges_past active_now active_past user =
     (let sz = int (length (neighbors user edges_now));
          r_now = neighbor_activity_ratio user edges_now active_now;
          r_past = neighbor_activity_ratio user edges_past active_past;
          has_past = (neighbors user edges_past \<noteq> [])
      in (sz, r_now, r_past, if sz \<noteq> 0 \<and> has_past then delta_stability r_now r_past else 0))"

definition snapshot_of ::
  "(string option \<times> pyfloat list) list \<Rightarrow> (string \<times> string) list \<Rightarrow> (string \<times> pyfloat) list \<Rightarrow>
   pyfloat \<Rightarrow> pyfloat \<Rightarrow> string \<Rightarrow> int \<times> pyfloat \<times> pyfloat \<times> pyfloat \<Rightarrow> circle_snapshot" where
  "snapshot_of by_cohort cohort_of external_value_of dip_threshold cohort_dip_threshold user raw =
     (case raw of (sz, r_now, r_past, delta) \<Rightarrow>
        if sz = 0 then empty_snapshot user
        else
          let cohort_deltas = (case dict_get by_cohort (map_of cohort_of user) [] of [] \<Rightarrow> [0] | ds \<Rightarrow> ds);
              pattern = tag_pattern delta (py_median cohort_deltas) (map_of external_value_of user)
                          dip_threshold cohort_dip_threshold
          in \<lparr>cs_user_pseudonym = user, cs_circle_size = sz, cs_ratio_now = r_now,
              cs_ratio_30d_ago = r_past, cs_delta_stability = delta, cs_pattern_type = pattern\<rparr>)"

definition snapshot_users ::
  "(pyfloat \<Rightarrow> pyfloat) \<Rightarrow> canonical_event list \<Rightarrow> string list \<Rightarrow> instant \<Rightarrow> int \<Rightarrow> int \<Rightarrow> pyfloat \<Rightarrow> int \<Rightarrow>
   (string \<times> string) list \<Rightarrow> (string \<times> pyfloat) list \<Rightarrow> pyfloat \<Rightarrow> pyfloat \<Rightarrow>
   (edge list \<times> (string \<times> circle_snapshot) list) result" where
  "snapshot_users half_pow events users now lookback_days activity_window_days half_life
      min_interactions cohort_of external_value_of dip_threshold cohort_dip_threshold =
     (let past = now - timedelta_days activity_window_days in
      bind_result (build_edges half_pow events now lookback_days half_life min_interactions) (\<lambda>edges_now.
      bind_result (build_edges half_pow events past lookback_days half_life min_interactions) (\<lambda>edges_past.
      let active_now = active_users events (now - timedelta_days activity_window_days) now;
          active_past = active_users events (past - timedelta_days activity_window_days) past;
          raw = foldl (\<lambda>d u. AList.update u (raw_of edges_now edges_past active_now active_past u) d) [] users;
          by_cohort = foldl (\<lambda>d (u, r). if fst r \<noteq> 0 then group_add (map_of cohort_of u) (snd (snd (snd r))) d else d)
                        [] raw;
          snapshots = map (\<lambda>(u, r). (u, snapshot_of by_cohort cohort_of external_value_of dip_threshold
                                            cohort_dip_threshold u r)) raw
      in Inr (edges_now, snapshots))))"

section \<open>Disjoint sets\<close>

text \<open>
  What the loop over the edges relies on: a forest has a representative function, \<open>find\<close>
  returns it without changing it, and linking two representatives merges their classes.
\<close>

locale disjoint_sets =
  fixes ok :: "'p \<Rightarrow> bool"
    and nodes :: "'p \<Rightarrow> 'k set"
    and rep :: "'p \<Rightarrow> 'k \<Rightarrow> 'k"
    and find_rep :: "'p \<Rightarrow> 'k \<Rightarrow> ('p \<times> 'k) option"
    and merge :: "'p \<Rightarrow> 'k \<Rightarrow> 'k \<Rightarrow> 'p"
  assumes find_ok: "ok p \<Longrightarrow> \<exists>p'. find_rep p x = Some (p', rep p x) \<and> ok p' \<and> rep p' = rep p
                      \<and> nodes p' = insert x (nodes p)"
    and rep_rep: "ok p \<Longrightarrow> rep p (rep p x) = rep p x"
    and merge_ok: "ok p \<Longrightarrow> a \<in> nodes p \<Longrightarrow> b \<in> nodes p \<Longrightarrow> rep p a = a \<Longrightarrow> rep p b = b \<Longrightarrow>
                      ok (merge p a b) \<and> nodes (merge p a b) = nodes p
                      \<and> (\<exists>c \<in> {a, b}. \<forall>x. rep (merge p a b) x = (if rep p x \<in> {a, b} then c else rep p x))"
    and rep_nodes: "ok p \<Longrightarrow> x \<in> nodes p \<Longrightarrow> rep p x \<in> nodes p"
begin

definition join_edge :: "'p \<Rightarrow> 'k \<Rightarrow> 'k \<Rightarrow> 'p option" where
  "join_edge p a b =
     (case find_rep p a of None \<Rightarrow> None
      | Some (p1, ra) \<Rightarrow> (case find_rep p1 b of None \<Rightarrow> None | Some (p2, rb) \<Rightarrow> Some (merge p2 ra rb)))"

text \<open>Two nodes have one representative exactly when the edges connect them.\<close>

definition represents :: "'p \<Rightarrow> ('k \<times> 'k) set \<Rightarrow> bool" where
  "represents p E \<longleftrightarrow> ok p \<and> (\<forall>x y. rep p x = rep p y \<longleftrightarrow> (x, y) \<in> (E \<union> E\<inverse>)\<^sup>*)
     \<and> nodes p = fst ` E \<union> snd ` E"

lemma rtrancl_insert_sym:
  "(x, y) \<in> (insert (a, b) E \<union> (insert (a, b) E)\<inverse>)\<^sup>* \<longleftrightarrow>
     (x, y) \<in> (E \<union> E\<inverse>)\<^sup>*
     \<or> ((x, a) \<in> (E \<union> E\<inverse>)\<^sup>* \<or> (x, b) \<in> (E \<union> E\<inverse>)\<^sup>*)
        \<and> ((y, a) \<in> (E \<union> E\<inverse>)\<^sup>* \<or> (y, b) \<in> (E \<union> E\<inverse>)\<^sup>*)"
proof -
  let ?S = "(E \<union> E\<inverse>)\<^sup>*"
  let ?T = "(insert (a, b) E \<union> (insert (a, b) E)\<inverse>)\<^sup>*"
  have S: "?S \<subseteq> ?T" by (rule rtrancl_mono) auto
  have symS: "(u, v) \<in> ?S \<Longrightarrow> (v, u) \<in> ?S" for u v
    using sym_rtrancl [of "E \<union> E\<inverse>"] by (auto simp: sym_def)
  have symT: "(u, v) \<in> ?T \<Longrightarrow> (v, u) \<in> ?T" for u v
    using sym_rtrancl [of "insert (a, b) E \<union> (insert (a, b) E)\<inverse>"] by (auto simp: sym_def)
  have ab: "(a, b) \<in> ?T" by auto
  have "(x, y) \<in> ?S \<or> ((x, a) \<in> ?S \<or> (x, b) \<in> ?S) \<and> ((y, a) \<in> ?S \<or> (y, b) \<in> ?S)" if "(x, y) \<in> ?T"
    using that
  proof (induction rule: rtrancl_induct)
    case base
    then show ?case by simp
  next
    case (step y z)
    then consider "(y, z) \<in> E \<union> E\<inverse>" | "y = a" "z = b" | "y = b" "z = a" by auto
    then show ?case
    proof cases
      case 1
      then have "(y, z) \<in> ?S" by blast
      with step.IH show ?thesis using symS by (meson rtrancl_trans)
    next
      case 2
      then show ?thesis using step.IH by auto
    next
      case 3
      then show ?thesis using step.IH by auto
    qed
  qed
  moreover have "(x, y) \<in> ?T" if "((x, a) \<in> ?S \<or> (x, b) \<in> ?S) \<and> ((y, a) \<in> ?S \<or> (y, b) \<in> ?S)"
    using that S ab symT by (meson rtrancl_trans subsetD)
  ultimately show ?thesis using S by blast
qed

lemma join_edge_represents:
  assumes "represents p E"
  shows "\<exists>p'. join_edge p a b = Some p' \<and> represents p' (insert (a, b) E)"
proof -
  have ok: "ok p" and conn: "\<And>x y. rep p x = rep p y \<longleftrightarrow> (x, y) \<in> (E \<union> E\<inverse>)\<^sup>*"
    and nodes: "nodes p = fst ` E \<union> snd ` E"
    using assms by (auto simp: represents_def)
  obtain p1 where p1: "find_rep p a = Some (p1, rep p a)" "ok p1" "rep p1 = rep p" "nodes p1 = insert a (nodes p)"
    using find_ok [OF ok] by blast
  obtain p2 where p2: "find_rep p1 b = Some (p2, rep p b)" "ok p2" "rep p2 = rep p"
    "nodes p2 = insert b (insert a (nodes p))"
    using find_ok [OF p1(2), of b] p1(3,4) by auto
  have m: "rep p a \<in> nodes p2" "rep p b \<in> nodes p2"
    using rep_nodes [OF p2(2), of a] rep_nodes [OF p2(2), of b] p2(3,4) by simp_all
  obtain c where c: "c \<in> {rep p a, rep p b}" "ok (merge p2 (rep p a) (rep p b))"
    "nodes (merge p2 (rep p a) (rep p b)) = nodes p2"
    "\<And>x. rep (merge p2 (rep p a) (rep p b)) x = (if rep p x \<in> {rep p a, rep p b} then c else rep p x)"
    using merge_ok [OF p2(2) m, unfolded p2(3)] rep_rep [OF ok] by blast
  let ?q = "merge p2 (rep p a) (rep p b)"
  have "rep ?q x = rep ?q y \<longleftrightarrow> (x, y) \<in> (insert (a, b) E \<union> (insert (a, b) E)\<inverse>)\<^sup>*" for x y
    unfolding c(4) rtrancl_insert_sym conn [symmetric] using c(1) by auto
  then have "represents ?q (insert (a, b) E)"
    using c(2,3) p2(4) nodes by (auto simp: represents_def)
  then show ?thesis using p1(1) p2(1) by (simp add: join_edge_def)
qed

end

section \<open>The forest of \<open>find_circles\<close>\<close>

definition keys :: "'a forest \<Rightarrow> 'a set" where "keys p = fst ` set p"

text \<open>Parents are keys and never greater than their child, so a chain of parents ends at a root.\<close>

definition uf_inv :: "('a::linorder) forest \<Rightarrow> bool" where
  "uf_inv p \<longleftrightarrow> distinct (map fst p) \<and> (\<forall>x. parent_of p x \<le> x) \<and> (\<forall>x \<in> keys p. parent_of p x \<in> keys p)"

inductive root_of :: "'a forest \<Rightarrow> 'a \<Rightarrow> 'a \<Rightarrow> bool" for p where
  root_here: "parent_of p x = x \<Longrightarrow> root_of p x x"
| root_up: "parent_of p x \<noteq> x \<Longrightarrow> root_of p (parent_of p x) r \<Longrightarrow> root_of p x r"

inductive_cases root_ofE: "root_of p x r"
inductive_simps root_of_at: "root_of p x r"

lemma root_fixed: "root_of p x r \<Longrightarrow> parent_of p r = r"
  by (induction rule: root_of.induct)

lemma root_unique: "root_of p x r \<Longrightarrow> root_of p x s \<Longrightarrow> r = s"
  by (induction rule: root_of.induct) (auto elim: root_ofE)

lemma parent_outside: "x \<notin> keys p \<Longrightarrow> parent_of p x = x"
  by (simp add: parent_of_def dict_get_def keys_def map_of_eq_None_keys [THEN iffD2])

lemma chain_measure:
  assumes "uf_inv p" and "parent_of p x \<noteq> x"
  shows "card {y \<in> keys p. y < parent_of p x} < card {y \<in> keys p. y < x}"
proof (rule psubset_card_mono)
  have x: "x \<in> keys p" using assms(2) parent_outside [of x p] by metis
  have less: "parent_of p x < x" using assms by (auto simp: uf_inv_def order_le_neq_trans)
  moreover have "parent_of p x \<in> keys p" using assms(1) x by (simp add: uf_inv_def)
  ultimately show "{y \<in> keys p. y < parent_of p x} \<subset> {y \<in> keys p. y < x}" by auto
qed (simp add: keys_def)

lemma root_exists:
  assumes "uf_inv p" shows "\<exists>r. root_of p x r"
proof (induction "card {y \<in> keys p. y < x}" arbitrary: x rule: less_induct)
  case less
  show ?case
  proof (cases "parent_of p x = x")
    case True then show ?thesis by (blast intro: root_here)
  next
    case False
    with less chain_measure [OF assms False] show ?thesis by (blast intro: root_up)
  qed
qed

lemma parent_update: "parent_of (AList.update x v p) y = (if y = x then v else parent_of p y)"
  by (simp add: parent_of_def dict_get_def AList.update_conv')

lemma keys_update: "keys (AList.update x v p) = insert x (keys p)"
  by (simp add: keys_def AList.dom_update)

text \<open>Path halving: pointing a node at its grandparent keeps the invariant and every root.\<close>

lemma halve_inv:
  assumes "uf_inv p" and "x \<in> keys p"
  shows "uf_inv (AList.update x (parent_of p (parent_of p x)) p)"
  using assms
  by (auto simp: uf_inv_def AList.distinct_update parent_update keys_update insert_absorb
      intro: order_trans)

lemma halve_root:
  assumes inv: "uf_inv p" and "parent_of p x \<noteq> x"
  shows "root_of p y r \<Longrightarrow> root_of (AList.update x (parent_of p (parent_of p x)) p) y r"
proof (induction rule: root_of.induct)
  case (root_here y)
  then have "y \<noteq> x" using assms(2) by auto
  then show ?case using root_here by (intro root_of.root_here) (simp add: parent_update)
next
  case (root_up y r)
  let ?p = "AList.update x (parent_of p (parent_of p x)) p"
  show ?case
  proof (cases "y = x")
    case False
    then show ?thesis using root_up by (simp add: root_of.root_up parent_update)
  next
    case True
    let ?z = "parent_of p x"
    have z: "?z \<noteq> x" "?z < x" using assms by (auto simp: uf_inv_def order_le_neq_trans)
    have pz: "parent_of ?p ?z = parent_of p ?z" "parent_of ?p x = parent_of p ?z"
      using z by (simp_all add: parent_update)
    have "parent_of p ?z \<le> ?z" using inv by (simp add: uf_inv_def)
    then have ne: "parent_of p ?z \<noteq> x" using z by auto
    have IH: "root_of ?p ?z r" using root_up.IH True by simp
    have "root_of ?p (parent_of p ?z) r"
    proof (cases "parent_of p ?z = ?z")
      case True then show ?thesis using IH by simp
    next
      case False
      then show ?thesis using IH pz by (auto elim: root_ofE)
    qed
    then show ?thesis using True ne pz by (auto intro: root_of.root_up)
  qed
qed

lemma find_loop_root:
  assumes "uf_inv p" and "x \<in> keys p"
  shows "\<exists>p' r. find_loop p x = Some (p', r) \<and> root_of p x r \<and> uf_inv p' \<and> keys p' = keys p
           \<and> (\<forall>y s. root_of p y s \<longrightarrow> root_of p' y s)"
  using assms
proof (induction "card {y \<in> keys p. y < x}" arbitrary: p x rule: less_induct)
  case less
  show ?case
  proof (cases "parent_of p x = x")
    case True
    then show ?thesis using less.prems by (subst find_loop.simps) (auto intro: root_here)
  next
    case False
    let ?z = "parent_of p x"
    let ?p = "AList.update x (parent_of p ?z) p"
    have keys: "keys ?p = keys p" using less.prems(2) by (simp add: keys_update insert_absorb)
    have zk: "?z \<in> keys p" "parent_of p ?z \<in> keys p" using less.prems by (auto simp: uf_inv_def)
    have le: "parent_of p ?z \<le> ?z" using less.prems(1) by (simp add: uf_inv_def)
    have "{y \<in> keys p. y < parent_of p ?z} \<subseteq> {y \<in> keys p. y < ?z}" using le by auto
    then have "card {y \<in> keys p. y < parent_of p ?z} \<le> card {y \<in> keys p. y < ?z}"
      by (intro card_mono) (simp_all add: keys_def)
    then have "card {y \<in> keys ?p. y < parent_of p ?z} < card {y \<in> keys p. y < x}"
      using chain_measure [OF less.prems(1) False] keys by simp
    from less.hyps [OF this halve_inv [OF less.prems] zk(2) [folded keys]] obtain p' r where
      p': "find_loop ?p (parent_of p ?z) = Some (p', r)" "root_of ?p (parent_of p ?z) r" "uf_inv p'"
      "keys p' = keys ?p" "\<forall>y s. root_of ?p y s \<longrightarrow> root_of p' y s" by blast
    have run: "find_loop p x = Some (p', r)"
      using p'(1) False by (subst find_loop.simps) (simp add: parent_update Let_def)
    obtain s where s: "root_of p x s" using root_exists [OF less.prems(1)] by blast
    have "root_of ?p x s" by (rule halve_root [OF less.prems(1) False s])
    moreover have "root_of ?p x r"
    proof -
      have "parent_of p ?z < x" using le False less.prems(1)
        by (auto simp: uf_inv_def order_le_neq_trans intro: order_le_less_trans)
      then show ?thesis using p'(2) by (simp add: root_up parent_update)
    qed
    ultimately have "s = r" by (rule root_unique)
    then have "root_of p x r" using s by simp
    moreover have "root_of p' y t" if "root_of p y t" for y t
      using p'(5) halve_root [OF less.prems(1) False that] by blast
    ultimately show ?thesis using run p'(3) p'(4) keys by (intro exI [of _ p'] exI [of _ r]) simp
  qed
qed

text \<open>The representative, computed by the code's own \<open>find\<close>.\<close>

definition uf_rep :: "('a::linorder) forest \<Rightarrow> 'a \<Rightarrow> 'a" where
  "uf_rep p x = (case find_root p x of Some (_, r) \<Rightarrow> r | None \<Rightarrow> x)"

lemma setdefault_parent: "parent_of (dict_setdefault x x p) y = parent_of p y"
  by (auto simp: parent_of_def dict_get_def map_of_setdefault split: option.splits)

lemma setdefault_root: "root_of (dict_setdefault x x p) y r \<longleftrightarrow> root_of p y r"
proof -
  have "root_of q y r \<Longrightarrow> (\<And>y. parent_of q' y = parent_of q y) \<Longrightarrow> root_of q' y r" for q q'
    by (induction rule: root_of.induct) (auto intro: root_of.intros)
  then show ?thesis using setdefault_parent [of x p] by metis
qed

lemma setdefault_inv: "uf_inv p \<Longrightarrow> uf_inv (dict_setdefault x x p) \<and> keys (dict_setdefault x x p) = insert x (keys p)"
  using parent_outside [of x p]
  by (auto simp: uf_inv_def setdefault_parent keys_def dict_setdefault_keys distinct_setdefault)

lemma find_root_ok:
  assumes "uf_inv p"
  shows "\<exists>p'. find_root p x = Some (p', uf_rep p x) \<and> root_of p x (uf_rep p x) \<and> uf_inv p'
           \<and> keys p' = insert x (keys p) \<and> (\<forall>y s. root_of p y s \<longrightarrow> root_of p' y s)"
proof -
  have q: "uf_inv (dict_setdefault x x p)" "keys (dict_setdefault x x p) = insert x (keys p)"
    using setdefault_inv [OF assms, of x] by auto
  then have "x \<in> keys (dict_setdefault x x p)" by simp
  from find_loop_root [OF q(1) this] obtain p' r where
    p': "find_loop (dict_setdefault x x p) x = Some (p', r)" "root_of p x r" "uf_inv p'"
      "keys p' = insert x (keys p)" "\<forall>y s. root_of p y s \<longrightarrow> root_of p' y s"
    unfolding setdefault_root q(2) by blast
  then have "uf_rep p x = r" by (simp add: uf_rep_def find_root_def)
  with p' show ?thesis by (intro exI [of _ p']) (simp add: find_root_def)
qed

lemma rep_root: "uf_inv p \<Longrightarrow> uf_rep p x = r \<longleftrightarrow> root_of p x r"
  using find_root_ok [of p x] root_unique by metis

text \<open>Linking two roots moves the class of the greater one below the smaller one.\<close>

lemma link_root:
  assumes "hi \<noteq> lo" "parent_of p hi = hi" "parent_of p lo = lo"
  shows "root_of p x r \<Longrightarrow> root_of (AList.update hi lo p) x (if r = hi then lo else r)"
proof (induction rule: root_of.induct)
  case (root_here x)
  have lo: "root_of (AList.update hi lo p) lo lo"
    using assms by (intro root_of.root_here) (simp add: parent_update)
  show ?case
  proof (cases "x = hi")
    case True
    then show ?thesis using lo assms by (simp add: root_of.root_up parent_update)
  next
    case False
    then show ?thesis using root_here by (simp add: root_of.root_here parent_update)
  qed
next
  case (root_up x r)
  then have "x \<noteq> hi" using assms by auto
  then show ?case using root_up by (simp add: root_of.root_up parent_update)
qed

lemma link_inv:
  assumes "uf_inv p" "lo \<in> keys p" "hi \<in> keys p" "lo \<le> hi"
  shows "uf_inv (AList.update hi lo p)" and "keys (AList.update hi lo p) = keys p"
  using assms by (auto simp: uf_inv_def AList.distinct_update parent_update keys_update insert_absorb)

interpretation forest: disjoint_sets uf_inv keys uf_rep find_root link
proof unfold_locales
  fix p :: "'a forest" and x
  assume inv: "uf_inv p"
  obtain p' where p': "find_root p x = Some (p', uf_rep p x)" "uf_inv p'" "keys p' = insert x (keys p)"
    "\<forall>y s. root_of p y s \<longrightarrow> root_of p' y s"
    using find_root_ok [OF inv, of x] by blast
  have "uf_rep p' y = uf_rep p y" for y
    using p'(4) rep_root [OF p'(2), of y] rep_root [OF inv, of y] by metis
  then show "\<exists>p'. find_root p x = Some (p', uf_rep p x) \<and> uf_inv p' \<and> uf_rep p' = uf_rep p
      \<and> keys p' = insert x (keys p)"
    using p' by blast
  have "parent_of p (uf_rep p x) = uf_rep p x" using rep_root [OF inv] root_fixed by metis
  then have "root_of p (uf_rep p x) (uf_rep p x)" by (rule root_here)
  then show "uf_rep p (uf_rep p x) = uf_rep p x" using rep_root [OF inv] by blast
next
  fix p :: "'a forest" and x
  assume inv: "uf_inv p" and x: "x \<in> keys p"
  have "root_of p x r \<Longrightarrow> x \<in> keys p \<Longrightarrow> r \<in> keys p" for x r
    by (induction rule: root_of.induct) (use inv in \<open>auto simp: uf_inv_def\<close>)
  then show "uf_rep p x \<in> keys p" using x rep_root [OF inv] by blast
next
  fix p :: "'a forest" and a b
  assume inv: "uf_inv p" and ab: "a \<in> keys p" "b \<in> keys p" "uf_rep p a = a" "uf_rep p b = b"
  show "uf_inv (link p a b) \<and> keys (link p a b) = keys p
      \<and> (\<exists>c \<in> {a, b}. \<forall>x. uf_rep (link p a b) x = (if uf_rep p x \<in> {a, b} then c else uf_rep p x))"
  proof (cases "a = b")
    case True
    then show ?thesis using inv by (auto simp: link_def)
  next
    case False
    let ?hi = "max a b" and ?lo = "min a b"
    have hl: "?hi \<noteq> ?lo" "{a, b} = {?hi, ?lo}" "?lo \<le> ?hi" using False by (auto simp: max_def min_def)
    have "parent_of p a = a" "parent_of p b = b"
      using ab(3,4) rep_root [OF inv] root_fixed by metis+
    then have fixed: "parent_of p ?hi = ?hi" "parent_of p ?lo = ?lo" by (auto simp: max_def min_def)
    have "?lo \<in> keys p" "?hi \<in> keys p" using ab(1,2) by (simp_all add: max_def min_def)
    note inv' = link_inv [OF inv this hl(3)]
    have "uf_rep (AList.update ?hi ?lo p) x = (if uf_rep p x \<in> {?hi, ?lo} then ?lo else uf_rep p x)" for x
    proof -
      have "root_of p x (uf_rep p x)" using rep_root [OF inv] by blast
      from link_root [OF hl(1) fixed this] show ?thesis
        unfolding rep_root [OF inv'(1)] using hl(1) by (cases "uf_rep p x = ?hi") auto
    qed
    then show ?thesis using inv' False hl(2) by (auto simp: link_def)
  qed
qed

section \<open>Circles are connected components\<close>

lemma union_loop_represents:
  "forest.represents p E \<Longrightarrow> \<exists>p'. union_loop es p = Some p' \<and> forest.represents p' (E \<union> set es)"
proof (induction es arbitrary: p E)
  case (Cons e es)
  obtain a b where e: "e = (a, b)" by (cases e)
  obtain p1 where p1: "forest.join_edge p a b = Some p1" "forest.represents p1 (insert (a, b) E)"
    using forest.join_edge_represents [OF Cons.prems] by blast
  have "union_loop (e # es) p = Option.bind (forest.join_edge p a b) (union_loop es)"
    by (simp add: e forest.join_edge_def split: option.splits)
  with p1 Cons.IH [OF p1(2)] show ?case by (simp add: e)
qed simp

lemma empty_represents: "forest.represents [] {}"
  by (simp add: forest.represents_def uf_inv_def keys_def parent_of_def dict_get_def
      uf_rep_def find_root_def dict_setdefault_def find_loop.simps)

lemma collect_loop_eq:
  "uf_inv p \<Longrightarrow> collect_loop ns p groups = Some (group_into (uf_rep p) ns groups)"
proof (induction ns arbitrary: p groups)
  case (Cons n ns)
  obtain p' where "find_root p n = Some (p', uf_rep p n)" "uf_inv p'" "uf_rep p' = uf_rep p"
    using forest.find_ok [OF Cons.prems, of n] by blast
  then show ?case using Cons.IH [of p' "group_add (uf_rep p n) n groups"] by simp
qed simp

definition edge_pairs :: "edge list \<Rightarrow> (string \<times> string) set" where
  "edge_pairs edges = (\<lambda>e. (ed_user e, ed_counterparty e)) ` set edges"

definition component :: "('a \<times> 'a) set \<Rightarrow> 'a \<Rightarrow> 'a set" where
  "component E x = {y. (x, y) \<in> (E \<union> E\<inverse>)\<^sup>*}"

definition components :: "('a \<times> 'a) set \<Rightarrow> 'a set set" where
  "components E = component E ` (fst ` E \<union> snd ` E)"

definition circle_of :: "(string \<Rightarrow> string) \<Rightarrow> string set \<Rightarrow> circle" where
  "circle_of sha256_hex C = \<lparr>ci_circle_id = ''circle-'' @ take 12 (sha256_hex (join ''|'' (sorted_list_of_set C))),
     ci_members = sorted_list_of_set C\<rparr>"

lemma component_nodes: "x \<in> fst ` E \<union> snd ` E \<Longrightarrow> component E x \<subseteq> fst ` E \<union> snd ` E"
proof
  fix y assume x: "x \<in> fst ` E \<union> snd ` E" and "y \<in> component E x"
  then have "(x, y) \<in> (E \<union> E\<inverse>)\<^sup>*" by (simp add: component_def)
  then show "y \<in> fst ` E \<union> snd ` E" using x by (induction rule: rtrancl_induct) force+
qed

lemma find_circles_groups:
  obtains p where "forest.represents p (edge_pairs edges)"
    and "find_circles sha edges m = Some (sort_key ci_circle_id (map (\<lambda>ms. circle_of sha (set ms))
           (filter (\<lambda>ms. m \<le> length ms) (map snd (group_by (uf_rep p) (map fst p))))))"
proof -
  obtain p where p: "union_loop (map (\<lambda>e. (ed_user e, ed_counterparty e)) edges) [] = Some p"
    "forest.represents p (edge_pairs edges)"
    using union_loop_represents [OF empty_represents, of "map (\<lambda>e. (ed_user e, ed_counterparty e)) edges"]
    by (auto simp: edge_pairs_def)
  have inv: "uf_inv p" using p(2) by (simp add: forest.represents_def)
  then have d: "distinct (map fst p)" by (simp add: uf_inv_def)
  have "sort ms = sorted_list_of_set (set ms)" if "ms \<in> set (map snd (group_by (uf_rep p) (map fst p)))" for ms
  proof -
    have "distinct ms" using that d by (auto simp: group_by_in)
    then show ?thesis by (simp add: sorted_list_of_set_sort_remdups distinct_remdups_id)
  qed
  then have "map (\<lambda>members. let ordered = sort members in
        \<lparr>ci_circle_id = ''circle-'' @ take 12 (sha (join ''|'' ordered)), ci_members = ordered\<rparr>)
      (filter (\<lambda>members. \<not> length members < m) (map snd (group_by (uf_rep p) (map fst p))))
    = map (\<lambda>ms. circle_of sha (set ms)) (filter (\<lambda>ms. m \<le> length ms) (map snd (group_by (uf_rep p) (map fst p))))"
    by (intro map_cong filter_cong) (auto simp: circle_of_def Let_def not_less)
  then have "find_circles sha edges m = Some (sort_key ci_circle_id (map (\<lambda>ms. circle_of sha (set ms))
           (filter (\<lambda>ms. m \<le> length ms) (map snd (group_by (uf_rep p) (map fst p))))))"
    by (simp add: find_circles_def p(1) collect_loop_eq [OF inv] group_by_def)
  with p(2) show ?thesis by (rule that)
qed

lemma group_members:
  assumes "forest.represents p E"
  shows "set ` set (map snd (group_by (uf_rep p) (map fst p))) = components E"
    and "ms \<in> set (map snd (group_by (uf_rep p) (map fst p))) \<Longrightarrow> length ms = card (set ms)"
proof -
  have nodes: "fst ` set p = fst ` E \<union> snd ` E" and inv: "uf_inv p"
    and conn: "\<And>x y. uf_rep p x = uf_rep p y \<longleftrightarrow> (x, y) \<in> (E \<union> E\<inverse>)\<^sup>*"
    using assms by (auto simp: forest.represents_def keys_def)
  have comp: "set (filter (\<lambda>y. uf_rep p y = uf_rep p x) (map fst p)) = component E x"
    if "x \<in> fst ` set p" for x
  proof -
    have "component E x \<subseteq> fst ` set p" using component_nodes that by (simp only: nodes)
    moreover have "uf_rep p y = uf_rep p x \<longleftrightarrow> y \<in> component E x" for y
      using conn [of x y] by (auto simp: component_def)
    ultimately show ?thesis by auto
  qed
  have "set (map snd (group_by (uf_rep p) (map fst p)))
      = (\<lambda>x. filter (\<lambda>y. uf_rep p y = uf_rep p x) (map fst p)) ` (fst ` set p)"
  proof (rule set_eqI)
    fix ms
    show "ms \<in> set (map snd (group_by (uf_rep p) (map fst p)))
      \<longleftrightarrow> ms \<in> (\<lambda>x. filter (\<lambda>y. uf_rep p y = uf_rep p x) (map fst p)) ` (fst ` set p)"
      using group_by_in [of _ ms "uf_rep p" "map fst p"] by (force simp del: filter_map)
  qed
  then have "set ` set (map snd (group_by (uf_rep p) (map fst p)))
      = (\<lambda>x. set (filter (\<lambda>y. uf_rep p y = uf_rep p x) (map fst p))) ` (fst ` set p)"
    by (simp only: image_image)
  also have "\<dots> = component E ` (fst ` set p)" using comp by (intro image_cong refl)
  finally show "set ` set (map snd (group_by (uf_rep p) (map fst p))) = components E"
    by (simp only: components_def nodes)
  show "length ms = card (set ms)" if ms: "ms \<in> set (map snd (group_by (uf_rep p) (map fst p)))"
  proof -
    obtain k where "(k, ms) \<in> set (group_by (uf_rep p) (map fst p))" using ms by auto
    then have "ms = filter (\<lambda>x. uf_rep p x = k) (map fst p)" unfolding group_by_in by blast
    then have "distinct ms" using inv by (simp only: uf_inv_def distinct_filter)
    then show ?thesis by (simp add: distinct_card)
  qed
qed

section \<open>Edges count interactions\<close>

text \<open>The pairs the loop counts, one per qualifying event.\<close>

definition edge_pair :: "instant \<Rightarrow> instant \<Rightarrow> canonical_event \<Rightarrow> pair option" where
  "edge_pair start now e = map_option (\<lambda>cp. (min (e_user_pseudonym e) cp, max (e_user_pseudonym e) cp))
     (counts_as_edge e start now)"

definition qualifying :: "instant \<Rightarrow> instant \<Rightarrow> canonical_event list \<Rightarrow> pair \<Rightarrow> int" where
  "qualifying start now events ab = int (length (filter (\<lambda>e. edge_pair start now e = Some ab) events))"

lemma edge_loop_counts:
  "edge_loop hp start now hl es ws cs = Inr (ws', cs') \<Longrightarrow>
   dict_get cs' ab 0 = dict_get cs ab 0 + qualifying start now es ab"
  by (induction es arbitrary: ws cs)
    (auto simp: qualifying_def edge_pair_def dict_incr_get Let_def split: option.splits if_splits)

lemma edge_loop_weights:
  "edge_loop hp start now hl es ws cs = Inr (ws', cs') \<Longrightarrow> distinct (map fst ws) \<Longrightarrow>
   (\<And>x. 0 \<le> hp x) \<Longrightarrow> \<forall>ab. 0 \<le> dict_get ws ab 0 \<Longrightarrow>
   distinct (map fst ws') \<and> (\<forall>ab. 0 \<le> dict_get ws' ab 0)
   \<and> fst ` set ws' = fst ` set ws \<union> {ab. \<exists>e \<in> set es. edge_pair start now e = Some ab}"
proof (induction es arbitrary: ws cs)
  case (Cons e es)
  show ?case
  proof (cases "counts_as_edge e start now")
    case None
    then show ?thesis using Cons by (auto simp: edge_pair_def)
  next
    case (Some cp)
    let ?ab = "(min (e_user_pseudonym e) cp, max (e_user_pseudonym e) cp)"
    let ?w = "fadd (dict_get ws ?ab 0) (hp (fdiv (days_of (now - e_occurred_at e)) hl))"
    have run: "edge_loop hp start now hl es (AList.update ?ab ?w ws) (dict_incr ?ab 1 cs) = Inr (ws', cs')"
      using Cons.prems(1) Some by (simp add: Let_def split: if_splits)
    have w: "0 \<le> ?w" using Cons.prems(3,4) by (simp add: fadd_def fl_nonneg)
    then have "\<forall>ab. 0 \<le> dict_get (AList.update ?ab ?w ws) ab 0"
      using Cons.prems(4) by (auto simp: dict_get_def AList.update_conv' split: option.splits)
    from Cons.IH [OF run AList.distinct_update [OF Cons.prems(2)] Cons.prems(3) this] show ?thesis
      using Some by (auto simp: AList.dom_update edge_pair_def)
  qed
qed simp

lemma edge_pair_less: "edge_pair start now e = Some (a, b) \<Longrightarrow> a < b"
  by (auto simp: edge_pair_def counts_as_edge_def min_def max_def split: option.splits if_splits)

lemma qualifying_pos: "0 < qualifying start now es ab \<longleftrightarrow> (\<exists>e \<in> set es. edge_pair start now e = Some ab)"
  by (auto simp: qualifying_def filter_empty_conv)

lemma build_edges_eq:
  assumes "build_edges hp events now window hl m = Inr es"
  obtains ws cs where "edge_loop hp (now - timedelta_days window) now hl events [] [] = Inr (ws, cs)"
    and "es = map (\<lambda>ab. \<lparr>ed_user = fst ab, ed_counterparty = snd ab, ed_weight = dict_get ws ab 0,
                     ed_count = dict_get cs ab 0\<rparr>)
            (filter (\<lambda>ab. dict_get cs ab 0 \<ge> m) (sort (map fst ws)))"
  using assms by (auto simp: build_edges_def res_simps)

lemma edge_keys:
  assumes "edge_loop hp start now hl es [] [] = Inr (ws, cs)" and "\<And>x. 0 \<le> hp x"
  shows "distinct (map fst ws)" and "0 \<le> dict_get ws ab 0"
    and "ab \<in> fst ` set ws \<longleftrightarrow> 0 < qualifying start now es ab"
    and "dict_get cs ab 0 = qualifying start now es ab"
proof -
  have "\<forall>ab. (0 :: rat) \<le> dict_get [] (ab :: pair) 0" by (simp add: dict_get_def)
  note w = edge_loop_weights [OF assms(1) _ assms(2) this, simplified]
  show "distinct (map fst ws)" "0 \<le> dict_get ws ab 0" using w by (cases ab, simp)+
  show "ab \<in> fst ` set ws \<longleftrightarrow> 0 < qualifying start now es ab" using w by (simp add: qualifying_pos)
  show "dict_get cs ab 0 = qualifying start now es ab"
    using edge_loop_counts [OF assms(1), of ab] by (simp add: dict_get_def)
qed

section \<open>Neighbours and the ratio\<close>

lemma neighbors_weights:
  assumes "\<forall>e \<in> set edges. 0 \<le> ed_weight e"
  shows "\<forall>w \<in> set (neighbors user edges). 0 \<le> snd w"
proof -
  have "\<forall>w \<in> set (foldl (\<lambda>d e.
     if ed_user e = user then AList.update (ed_counterparty e) (ed_weight e) d
     else if ed_counterparty e = user then AList.update (ed_user e) (ed_weight e) d
     else d) d edges). 0 \<le> snd w" if "\<forall>w \<in> set d. 0 \<le> snd w" for d
    using assms that
  proof (induction edges arbitrary: d)
    case (Cons e edges)
    have upd: "\<forall>w \<in> set (AList.update k (ed_weight e) d). 0 \<le> snd w" for k
      using Cons.prems by (induction d) (auto split: if_splits)
    show ?case using Cons.prems upd by (simp only: foldl_Cons) (intro Cons.IH; simp)
  qed simp
  from this [of "[]"] show ?thesis by (simp add: neighbors_def)
qed

lemma ratio_mono:
  assumes w: "\<forall>e \<in> set edges. 0 \<le> ed_weight e" and sub: "set A \<subseteq> set B"
  shows "neighbor_activity_ratio user edges A \<le> neighbor_activity_ratio user edges B"
proof (cases "py_fsum (map snd (neighbors user edges)) \<le> 0")
  case True
  then show ?thesis by (simp add: neighbor_activity_ratio_def)
next
  case False
  have "py_fsum (map snd (filter (\<lambda>(n, w). n \<in> set A) (neighbors user edges)))
      \<le> py_fsum (map snd (filter (\<lambda>(n, w). n \<in> set B) (neighbors user edges)))"
    using neighbors_weights [OF w] sub by (intro fsum_filter_mono) auto
  with False show ?thesis
    by (simp add: neighbor_activity_ratio_def Let_def fdiv_def fl_mono divide_right_mono)
qed

lemma ratio_unit:
  assumes w: "\<forall>e \<in> set edges. 0 \<le> ed_weight e"
  shows "0 \<le> neighbor_activity_ratio user edges A \<and> neighbor_activity_ratio user edges A \<le> 1"
proof (cases "py_fsum (map snd (neighbors user edges)) \<le> 0")
  case True
  then show ?thesis by (simp add: neighbor_activity_ratio_def)
next
  case False
  let ?ns = "neighbors user edges"
  let ?s = "py_fsum (map snd (filter (\<lambda>(n, w). n \<in> set A) ?ns))" and ?t = "py_fsum (map snd ?ns)"
  have "?s \<le> py_fsum (map snd (filter (\<lambda>w. True) ?ns))"
    using neighbors_weights [OF w] by (intro fsum_filter_mono) auto
  then have st: "?s \<le> ?t" by simp
  have "\<forall>x \<in> set (map snd (filter (\<lambda>(n, w). n \<in> set A) ?ns)). 0 \<le> x"
    using neighbors_weights [OF w, of user] by fastforce
  then have s0: "0 \<le> ?s" by (rule fsum_nonneg)
  have "0 \<le> ?s / ?t" "?s / ?t \<le> 1" using st s0 False by (simp_all add: divide_le_eq)
  from fl_unit [OF this] False show ?thesis
    unfolding neighbor_activity_ratio_def Let_def fdiv_def by (simp only: if_False)
qed

section \<open>Snapshots\<close>

lemma edges_nonneg:
  assumes "build_edges hp events now window hl m = Inr es" and "\<And>x. 0 \<le> hp x"
  shows "\<forall>e \<in> set es. 0 \<le> ed_weight e"
proof -
  obtain ws cs where "edge_loop hp (now - timedelta_days window) now hl events [] [] = Inr (ws, cs)"
    and es: "es = map (\<lambda>ab. \<lparr>ed_user = fst ab, ed_counterparty = snd ab, ed_weight = dict_get ws ab 0,
                     ed_count = dict_get cs ab 0\<rparr>)
            (filter (\<lambda>ab. dict_get cs ab 0 \<ge> m) (sort (map fst ws)))"
    by (rule build_edges_eq [OF assms(1)])
  then have "0 \<le> dict_get ws ab 0" for ab using edge_keys(2) assms(2) by blast
  then show ?thesis by (auto simp: es)
qed

lemma table_of_users:
  "distinct (map fst d) \<Longrightarrow> \<forall>(u, r) \<in> set d. r = R u \<Longrightarrow>
   distinct (map fst (foldl (\<lambda>d u. AList.update u (R u) d) d users))
   \<and> fst ` set (foldl (\<lambda>d u. AList.update u (R u) d) d users) = fst ` set d \<union> set users
   \<and> (\<forall>(u, r) \<in> set (foldl (\<lambda>d u. AList.update u (R u) d) d users). r = R u)"
proof (induction users arbitrary: d)
  case (Cons u users)
  have "\<forall>(v, r) \<in> set (AList.update u (R u) d). r = R v"
    using Cons.prems(2) by (induction d) (auto split: if_splits)
  from Cons.IH [OF AList.distinct_update [OF Cons.prems(1)] this] show ?case
    by (simp add: AList.dom_update)
qed simp

definition snapshot_ok :: "(string \<times> pyfloat) list \<Rightarrow> pyfloat \<Rightarrow> string \<Rightarrow> circle_snapshot \<Rightarrow> bool" where
  "snapshot_ok external dip u s \<longleftrightarrow> cs_user_pseudonym s = u
     \<and> 0 \<le> cs_ratio_now s \<and> cs_ratio_now s \<le> 1 \<and> 0 \<le> cs_ratio_30d_ago s \<and> cs_ratio_30d_ago s \<le> 1
     \<and> (cs_pattern_type s \<noteq> STABLE \<longrightarrow> 0 < cs_circle_size s \<and> cs_ratio_30d_ago s \<noteq> 0
          \<and> cs_delta_stability s = fsub (cs_ratio_now s) (cs_ratio_30d_ago s)
          \<and> cs_delta_stability s \<le> - dip)
     \<and> (cs_pattern_type s = MARKET_DRIVEN \<longrightarrow> (\<exists>v. map_of external u = Some v \<and> v < 0))"

lemma snapshot_of_ok:
  assumes wn: "\<forall>e \<in> set en. 0 \<le> ed_weight e" and wp: "\<forall>e \<in> set ep. 0 \<le> ed_weight e" and dip: "0 < dip"
  shows "snapshot_ok external dip u (snapshot_of by_cohort cohort_of external dip cohort_dip u (raw_of en ep an ap u))"
proof -
  let ?n = "neighbor_activity_ratio u en an" and ?p = "neighbor_activity_ratio u ep ap"
  have n: "0 \<le> ?n" "?n \<le> 1" and p: "0 \<le> ?p" "?p \<le> 1"
    using ratio_unit [OF wn, of u an] ratio_unit [OF wp, of u ap] by auto
  have "?p \<noteq> 0" if "fsub ?n ?p \<le> - dip"
    using that n dip fl_nonneg [of ?n] by (auto simp: fsub_def)
  moreover have "tag_pattern d md ext dip cd \<noteq> STABLE \<Longrightarrow> d \<le> - dip" for d md ext cd
    by (auto simp: tag_pattern_def split: if_splits)
  moreover have "tag_pattern d md ext dip cd = MARKET_DRIVEN \<Longrightarrow> \<exists>v. ext = Some v \<and> v < 0" for d md ext cd
    by (auto simp: tag_pattern_def split: if_splits option.splits)
  ultimately show ?thesis using n p dip
    by (fastforce simp: snapshot_ok_def snapshot_of_def raw_of_def empty_snapshot_def Let_def delta_stability_def
        split: if_splits)
qed

section \<open>Properties\<close>

text \<open>
  C30.  The union-find with path halving always returns, and the circles are exactly the connected
  components of the edges with at least min_size members: one circle per component, its
  members sorted, ordered by circle id; so the result depends only on the set of edges.
\<close>

theorem find_circles_components:
  "\<exists>cs. find_circles sha edges m = Some cs
     \<and> set cs = circle_of sha ` {C \<in> components (edge_pairs edges). m \<le> card C}
     \<and> sorted (map ci_circle_id cs) \<and> distinct (map ci_members cs)"
proof -
  obtain p where rep: "forest.represents p (edge_pairs edges)"
    and run: "find_circles sha edges m = Some (sort_key ci_circle_id (map (\<lambda>ms. circle_of sha (set ms))
           (filter (\<lambda>ms. m \<le> length ms) (map snd (group_by (uf_rep p) (map fst p))))))"
    by (rule find_circles_groups)
  let ?g = "map snd (group_by (uf_rep p) (map fst p))"
  let ?cs = "map (\<lambda>ms. circle_of sha (set ms)) (filter (\<lambda>ms. m \<le> length ms) ?g)"
  have "(\<lambda>ms. circle_of sha (set ms)) ` set (filter (\<lambda>ms. m \<le> length ms) G)
      = circle_of sha ` {C \<in> set ` set G. m \<le> card C}"
    if "\<And>ms. ms \<in> set G \<Longrightarrow> length ms = card (set ms)" for G
    using that by force
  from this [of ?g, OF group_members(2) [OF rep]]
  have "set ?cs = circle_of sha ` {C \<in> set ` set ?g. m \<le> card C}" by (simp only: list.set_map)
  moreover have "distinct (map ci_members ?cs)"
  proof -
    have disj: "distinct (map set ?g)"
    proof -
      have "inj_on (set \<circ> snd) (set (group_by (uf_rep p) (map fst p)))"
      proof (rule inj_onI)
        fix a b assume a: "a \<in> set (group_by (uf_rep p) (map fst p))" and b: "b \<in> set (group_by (uf_rep p) (map fst p))"
          and eq: "(set \<circ> snd) a = (set \<circ> snd) b"
        obtain k xs l ys where ab: "a = (k, xs)" "b = (l, ys)" by (cases a, cases b)
        have "k \<in> uf_rep p ` set xs" "\<forall>y \<in> set ys. uf_rep p y = l"
          using a b by (auto simp: ab group_by_in)
        then have "k = l" using eq by (auto simp: ab)
        then show "a = b" using a b by (auto simp: ab group_by_in)
      qed
      moreover have "distinct (group_by (uf_rep p) (map fst p))"
        using group_by_distinct [of "uf_rep p" "map fst p"] by (simp add: distinct_map)
      ultimately have "distinct (map (set \<circ> snd) (group_by (uf_rep p) (map fst p)))" by (simp add: distinct_map)
      then show ?thesis by (simp add: comp_def)
    qed
    have "map ci_members ?cs = map sorted_list_of_set (map set (filter (\<lambda>ms. m \<le> length ms) ?g))"
      by (simp add: circle_of_def comp_def)
    moreover have "distinct (map set (filter (\<lambda>ms. m \<le> length ms) ?g))" using disj by (rule distinct_map_filter)
    moreover have "inj_on sorted_list_of_set (set (map set (filter (\<lambda>ms. m \<le> length ms) ?g)))"
      by (intro inj_onI) (auto dest: sorted_list_of_set_inject)
    ultimately show ?thesis by (simp only: distinct_map)
  qed
  ultimately show ?thesis using run group_members(1) [OF rep] by simp
qed

text \<open>
  Edges are exact: endpoints are in order, no pair appears twice, the count of an edge is the
  number of qualifying events between the two users (counterparty-bearing, in the window,
  not with oneself), and a pair has an edge exactly when it has one qualifying event and at
  least min_interactions of them.
\<close>

theorem build_edges_exact:
  assumes "build_edges half_pow events now window half_life m = Inr edges" and "\<And>x. 0 \<le> half_pow x"
  shows "distinct (map (\<lambda>e. (ed_user e, ed_counterparty e)) edges)
    \<and> (\<forall>e \<in> set edges. ed_user e < ed_counterparty e \<and> 0 \<le> ed_weight e
         \<and> ed_count e = qualifying (now - timedelta_days window) now events (ed_user e, ed_counterparty e))
    \<and> ((a, b) \<in> edge_pairs edges \<longleftrightarrow>
         max m 1 \<le> qualifying (now - timedelta_days window) now events (a, b))"
proof -
  obtain ws cs where run: "edge_loop half_pow (now - timedelta_days window) now half_life events [] [] = Inr (ws, cs)"
    and es: "edges = map (\<lambda>ab. \<lparr>ed_user = fst ab, ed_counterparty = snd ab, ed_weight = dict_get ws ab 0,
                     ed_count = dict_get cs ab 0\<rparr>)
            (filter (\<lambda>ab. dict_get cs ab 0 \<ge> m) (sort (map fst ws)))"
    by (rule build_edges_eq [OF assms(1)])
  note k = edge_keys [OF run assms(2)]
  let ?q = "qualifying (now - timedelta_days window) now events"
  have pairs: "map (\<lambda>e. (ed_user e, ed_counterparty e)) edges
      = filter (\<lambda>ab. dict_get cs ab 0 \<ge> m) (sort (map fst ws))"
    by (simp add: es comp_def)
  then have d: "distinct (map (\<lambda>e. (ed_user e, ed_counterparty e)) edges)" using k(1) by simp
  have less: "x < y" if "0 < ?q (x, y)" for x y
    using that edge_pair_less by (auto simp: qualifying_pos)
  have all: "ed_user e < ed_counterparty e \<and> 0 \<le> ed_weight e
      \<and> ed_count e = ?q (ed_user e, ed_counterparty e)" if "e \<in> set edges" for e
  proof -
    let ?f = "\<lambda>ab. \<lparr>ed_user = fst ab, ed_counterparty = snd ab, ed_weight = dict_get ws ab 0,
                     ed_count = dict_get cs ab 0\<rparr>"
    have "e \<in> ?f ` {ab \<in> fst ` set ws. m \<le> dict_get cs ab 0}"
      using that unfolding es by (simp only: list.set_map set_filter set_sort)
    then obtain ab where "ab \<in> fst ` set ws" "e = ?f ab" by blast
    then show ?thesis using k less by (cases ab) simp
  qed
  have "edge_pairs edges = {ab \<in> fst ` set ws. m \<le> ?q ab}"
    unfolding edge_pairs_def list.set_map [symmetric] pairs by (simp only: set_filter set_sort k(4))
  then have "(a, b) \<in> edge_pairs edges \<longleftrightarrow> max m 1 \<le> ?q (a, b)" using k(3) by auto
  with d all show ?thesis by blast
qed

text \<open>
  The neighbour activity ratio is a share: for edges of non-negative weight it lies in [0, 1]
  although sums and quotient are rounded, and it never falls when more users are active.
\<close>

theorem neighbor_ratio_share:
  assumes "\<forall>e \<in> set edges. 0 \<le> ed_weight e" and "set active \<subseteq> set wider"
  shows "0 \<le> neighbor_activity_ratio user edges active
       \<and> neighbor_activity_ratio user edges active \<le> neighbor_activity_ratio user edges wider
       \<and> neighbor_activity_ratio user edges wider \<le> 1"
  using ratio_mono [OF assms] ratio_unit [OF assms(1)] by blast

text \<open>
  A dip is only reported with evidence: every user asked for gets one snapshot under its own
  name with ratios in [0, 1]; a pattern other than STABLE needs neighbours now and in the past
  and a fall of at least the threshold; and MARKET_DRIVEN also needs a negative external signal.
\<close>

theorem snapshot_users_patterns:
  assumes "snapshot_users half_pow events users now lookback activity half_life m cohort_of external
             dip cohort_dip = Inr (edges, snaps)"
    and "\<And>x. 0 \<le> half_pow x" and "0 < dip"
  shows "distinct (map fst snaps) \<and> fst ` set snaps = set users
    \<and> (\<forall>(u, s) \<in> set snaps. cs_user_pseudonym s = u
         \<and> 0 \<le> cs_ratio_now s \<and> cs_ratio_now s \<le> 1 \<and> 0 \<le> cs_ratio_30d_ago s \<and> cs_ratio_30d_ago s \<le> 1
         \<and> (cs_pattern_type s \<noteq> STABLE \<longrightarrow> 0 < cs_circle_size s \<and> cs_ratio_30d_ago s \<noteq> 0
              \<and> cs_delta_stability s = fsub (cs_ratio_now s) (cs_ratio_30d_ago s)
              \<and> cs_delta_stability s \<le> - dip)
         \<and> (cs_pattern_type s = MARKET_DRIVEN \<longrightarrow> (\<exists>v. map_of external u = Some v \<and> v < 0)))"
proof -
  let ?past = "now - timedelta_days activity"
  obtain now_edges where en: "build_edges half_pow events now lookback half_life m = Inr now_edges"
    using assms(1) by (auto simp: snapshot_users_def res_simps Let_def)
  obtain past_edges where ep: "build_edges half_pow events ?past lookback half_life m = Inr past_edges"
    using assms(1) by (auto simp: snapshot_users_def res_simps Let_def)
  let ?an = "active_users events (now - timedelta_days activity) now"
  let ?ap = "active_users events (?past - timedelta_days activity) ?past"
  let ?R = "raw_of now_edges past_edges ?an ?ap"
  let ?raw = "foldl (\<lambda>d u. AList.update u (?R u) d) [] users"
  obtain by_cohort where snaps: "snaps = map (\<lambda>(u, r). (u, snapshot_of by_cohort cohort_of external dip cohort_dip u r)) ?raw"
    using assms(1) by (auto simp: snapshot_users_def Let_def en ep)
  have wn: "\<forall>e \<in> set now_edges. 0 \<le> ed_weight e" and wp: "\<forall>e \<in> set past_edges. 0 \<le> ed_weight e"
    using edges_nonneg [OF en assms(2)] edges_nonneg [OF ep assms(2)] by auto
  have raw: "distinct (map fst ?raw)" "fst ` set ?raw = set users" "\<forall>(u, r) \<in> set ?raw. r = ?R u"
    using table_of_users [of "[]" ?R users] by auto
  have "snapshot_ok external dip u (snapshot_of by_cohort cohort_of external dip cohort_dip u (?R u))" for u
    by (rule snapshot_of_ok [OF wn wp assms(3)])
  then have "\<forall>(u, s) \<in> set snaps. snapshot_ok external dip u s" using raw(3) by (auto simp: snaps)
  moreover have "map fst snaps = map fst ?raw" by (simp add: snaps comp_def case_prod_unfold)
  moreover from this have "fst ` set snaps = set users" using raw(2) by (metis list.set_map)
  ultimately show ?thesis using raw(1) by (simp add: snapshot_ok_def)
qed

section \<open>Witnesses\<close>

definition transfer :: "string \<Rightarrow> string \<Rightarrow> instant \<Rightarrow> canonical_event" where
  "transfer a b t = \<lparr>e_tenant_id = ''t1'', e_client_event_id = a @ b, e_event_type = P2P_TRANSFER,
     e_occurred_at = t, e_utcoffset = 0, e_user_pseudonym = a, e_amount_idr = Some 1000,
     e_counterparty_pseudonym = Some b, e_attributes = []\<rparr>"

definition link_edge :: "string \<Rightarrow> string \<Rightarrow> edge" where
  "link_edge a b = \<lparr>ed_user = a, ed_counterparty = b, ed_weight = 1, ed_count = 1\<rparr>"

theorem find_circles_components_witness:
  "\<exists>cs. find_circles (\<lambda>s. s) [link_edge ''a'' ''b'', link_edge ''c'' ''d'', link_edge ''b'' ''e''] 3 = Some cs
     \<and> distinct (map ci_members cs)"
  using find_circles_components [of "\<lambda>s. s" "[link_edge ''a'' ''b'', link_edge ''c'' ''d'', link_edge ''b'' ''e'']" 3]
  by blast

theorem build_edges_exact_witness:
  "(''a'', ''b'') \<in> edge_pairs [\<lparr>ed_user = ''a'', ed_counterparty = ''b'', ed_weight = 2, ed_count = 2\<rparr>]"
proof -
  have "build_edges (\<lambda>x. 1) [transfer ''b'' ''a'' 0, transfer ''a'' ''b'' 5, transfer ''a'' ''c'' 7] 10 30 14 2
      = Inr [\<lparr>ed_user = ''a'', ed_counterparty = ''b'', ed_weight = 2, ed_count = 2\<rparr>]"
    by code_simp
  moreover have "max 2 1 \<le> qualifying (10 - timedelta_days 30) 10
      [transfer ''b'' ''a'' 0, transfer ''a'' ''b'' 5, transfer ''a'' ''c'' 7] (''a'', ''b'')"
    by code_simp
  ultimately show ?thesis
    using build_edges_exact [of "\<lambda>x. 1" "[transfer ''b'' ''a'' 0, transfer ''a'' ''b'' 5, transfer ''a'' ''c'' 7]"
        10 30 14 2 "[\<lparr>ed_user = ''a'', ed_counterparty = ''b'', ed_weight = 2, ed_count = 2\<rparr>]" "''a''" "''b''"]
    by simp
qed

theorem neighbor_ratio_share_witness:
  "neighbor_activity_ratio ''b'' [link_edge ''a'' ''b'', link_edge ''b'' ''e''] [''a''] \<le> 1"
  using neighbor_ratio_share [of "[link_edge ''a'' ''b'', link_edge ''b'' ''e'']" "[''a'']" "[''a'', ''e'']" "''b''"]
  by (auto simp: link_edge_def)

theorem snapshot_users_patterns_witness:
  "\<exists>edges snaps. snapshot_users (\<lambda>x. 1) [transfer ''a'' ''b'' 5] [''a''] 10 30 30 14 1 [] [] (1/4) (1/8)
     = Inr (edges, snaps) \<and> fst ` set snaps = {''a''}"
proof -
  have "case snapshot_users (\<lambda>x. 1) [transfer ''a'' ''b'' 5] [''a''] 10 30 30 14 1 [] [] (1/4) (1/8) of
      Inl _ \<Rightarrow> False | Inr _ \<Rightarrow> True"
    by code_simp
  then obtain edges snaps where
    run: "snapshot_users (\<lambda>x. 1) [transfer ''a'' ''b'' 5] [''a''] 10 30 30 14 1 [] [] (1/4) (1/8) = Inr (edges, snaps)"
    by (auto split: sum.splits)
  from snapshot_users_patterns [OF run] show ?thesis using run by simp
qed

end
