(* ===== verification/Lifecycle.thy ===== *)
theory Lifecycle
  imports Contracts
begin

text \<open>
  The life of a recommendation.  \<open>core_contracts/recommendation.py\<close> is the state machine;
  \<open>persistence/repositories/recommendations.py\<close> and \<open>audit.py\<close> are the operations on the table,
  run in a session of a database role and a tenant; the table's CHECK constraints (migration
  0004), its BEFORE UPDATE trigger, its column grants and row-level security (migrations 0006,
  0007, 0011) are what a flush goes through.  Time and fresh identifiers are arguments.
\<close>

section \<open>The state machine\<close>

datatype recommendation_status = DRAFT | PENDING_APPROVAL | APPROVED | REJECTED | EXPIRED | DELIVERED

fun status_value :: "recommendation_status \<Rightarrow> string" where
  "status_value DRAFT = ''DRAFT''"
| "status_value PENDING_APPROVAL = ''PENDING_APPROVAL''"
| "status_value APPROVED = ''APPROVED''"
| "status_value REJECTED = ''REJECTED''"
| "status_value EXPIRED = ''EXPIRED''"
| "status_value DELIVERED = ''DELIVERED''"

fun ALLOWED_TRANSITIONS :: "recommendation_status \<Rightarrow> recommendation_status list" where
  "ALLOWED_TRANSITIONS DRAFT = [PENDING_APPROVAL]"
| "ALLOWED_TRANSITIONS PENDING_APPROVAL = [APPROVED, REJECTED, EXPIRED]"
| "ALLOWED_TRANSITIONS APPROVED = [DELIVERED]"
| "ALLOWED_TRANSITIONS REJECTED = []"
| "ALLOWED_TRANSITIONS EXPIRED = []"
| "ALLOWED_TRANSITIONS DELIVERED = []"

definition REVIEWER_REQUIRED :: "recommendation_status list" where
  "REVIEWER_REQUIRED = [APPROVED, REJECTED, DELIVERED]"

text \<open>\<open>reviewer_id and reviewer_id.strip()\<close>\<close>

definition is_reviewer :: "string option \<Rightarrow> bool" where
  "is_reviewer reviewer_id \<longleftrightarrow> (case reviewer_id of None \<Rightarrow> False | Some r \<Rightarrow> r \<noteq> [] \<and> py_strip r \<noteq> [])"

definition assert_transition ::
  "recommendation_status \<Rightarrow> recommendation_status \<Rightarrow> string option \<Rightarrow> unit result" where
  "assert_transition src dst reviewer_id =
     (if dst \<notin> set (ALLOWED_TRANSITIONS src)
      then Inl (IllegalTransition (status_value src @ '' -> '' @ status_value dst @ '' is not allowed''))
      else if dst \<in> set REVIEWER_REQUIRED \<and> \<not> is_reviewer reviewer_id
      then Inl (IllegalTransition (status_value src @ '' -> '' @ status_value dst
                  @ '' requires a human reviewer id''))
      else Inr ())"

section \<open>The tables\<close>

record recommendation =
  rec_id :: string
  rec_tenant_id :: string
  rec_allocation_run_id :: string
  rec_allocation_candidate_id :: "string option"
  rec_subject_type :: string
  rec_user_pseudonym :: "string option"
  rec_circle_id :: "string option"
  rec_incentive_code :: string
  rec_cost_idr :: int
  rec_priority_idr :: int
  rec_user_rank :: int
  rec_is_runner_up :: bool
  rec_status :: recommendation_status
  rec_reason_text :: "string option"
  rec_reason_factors :: "json list"
  rec_reason_source :: "string option"
  rec_fact_sheet_hash :: "string option"
  rec_created_at :: instant
  rec_submitted_at :: "instant option"
  rec_reviewed_by :: "string option"
  rec_reviewed_at :: "instant option"
  rec_review_note :: "string option"
  rec_delivered_at :: "instant option"
  rec_delivery_ref :: "string option"

record audit_row =
  au_id :: string
  au_tenant_id :: string
  au_actor :: string
  au_action :: string
  au_entity_type :: string
  au_entity_id :: string
  au_detail :: "(string \<times> json) list"
  au_at :: instant

record database =
  db_recommendations :: "recommendation list"
  db_audit_log :: "audit_row list"

datatype db_role = APP_WORKER | APP_CONSOLE

record db_session =
  ss_role :: db_role
  ss_tenant_id :: string

section \<open>What the database enforces on a write\<close>

text \<open>Migration 0004, the CHECK constraints of \<open>recommendations\<close>.\<close>

definition checks_ok :: "recommendation \<Rightarrow> bool" where
  "checks_ok r \<longleftrightarrow>
     rec_subject_type r \<in> {''USER'', ''GROUP''}
     \<and> (rec_subject_type r = ''USER'' \<and> rec_user_pseudonym r \<noteq> None \<and> rec_circle_id r = None
        \<or> rec_subject_type r = ''GROUP'' \<and> rec_circle_id r \<noteq> None \<and> rec_user_pseudonym r = None)
     \<and> (rec_status r \<noteq> APPROVED \<or> rec_reviewed_by r \<noteq> None \<and> rec_reviewed_at r \<noteq> None)
     \<and> (rec_status r \<noteq> REJECTED \<or> rec_reviewed_by r \<noteq> None \<and> rec_reviewed_at r \<noteq> None)
     \<and> (rec_status r \<noteq> DELIVERED \<or> rec_reviewed_by r \<noteq> None \<and> rec_delivered_at r \<noteq> None)"

text \<open>Migration 0006, \<open>check_recommendation_transition\<close>.\<close>

definition trigger_ok :: "recommendation \<Rightarrow> recommendation \<Rightarrow> bool" where
  "trigger_ok old_row new_row \<longleftrightarrow>
     rec_status new_row = rec_status old_row
     \<or> rec_status old_row = DRAFT \<and> rec_status new_row = PENDING_APPROVAL
     \<or> rec_status old_row = PENDING_APPROVAL \<and> rec_status new_row \<in> {APPROVED, REJECTED, EXPIRED}
     \<or> rec_status old_row = APPROVED \<and> rec_status new_row = DELIVERED"

text \<open>The columns each role may update; \<open>OTHER_COLUMN\<close> is every column granted to neither.\<close>

datatype rec_column = STATUS | REVIEWED_BY | REVIEWED_AT | REVIEW_NOTE | DELIVERED_AT | DELIVERY_REF
  | OTHER_COLUMN

fun update_grants :: "db_role \<Rightarrow> rec_column list" where
  "update_grants APP_WORKER = [STATUS, DELIVERED_AT, DELIVERY_REF]"
| "update_grants APP_CONSOLE = [STATUS, REVIEWED_BY, REVIEWED_AT, REVIEW_NOTE]"

text \<open>The columns an UPDATE of \<open>old\<close> to \<open>new\<close> names: those whose value changes.\<close>

definition changed_columns :: "recommendation \<Rightarrow> recommendation \<Rightarrow> rec_column list" where
  "changed_columns old_row new_row =
     (if rec_status old_row = rec_status new_row then [] else [STATUS])
     @ (if rec_reviewed_by old_row = rec_reviewed_by new_row then [] else [REVIEWED_BY])
     @ (if rec_reviewed_at old_row = rec_reviewed_at new_row then [] else [REVIEWED_AT])
     @ (if rec_review_note old_row = rec_review_note new_row then [] else [REVIEW_NOTE])
     @ (if rec_delivered_at old_row = rec_delivered_at new_row then [] else [DELIVERED_AT])
     @ (if rec_delivery_ref old_row = rec_delivery_ref new_row then [] else [DELIVERY_REF])
     @ (if old_row\<lparr>rec_status := rec_status new_row, rec_reviewed_by := rec_reviewed_by new_row,
                   rec_reviewed_at := rec_reviewed_at new_row, rec_review_note := rec_review_note new_row,
                   rec_delivered_at := rec_delivered_at new_row,
                   rec_delivery_ref := rec_delivery_ref new_row\<rparr> = new_row then [] else [OTHER_COLUMN])"

definition visible :: "db_session \<Rightarrow> database \<Rightarrow> recommendation list" where
  "visible s db = filter (\<lambda>r. rec_tenant_id r = ss_tenant_id s) (db_recommendations db)"

definition flush_insert :: "db_session \<Rightarrow> database \<Rightarrow> recommendation \<Rightarrow> database result" where
  "flush_insert s db row =
     (if ss_role s \<noteq> APP_WORKER then Inl (PermissionError ''permission denied for table recommendations'')
      else if rec_tenant_id row \<noteq> ss_tenant_id s
      then Inl (PermissionError ''new row violates row-level security policy'')
      else if \<not> checks_ok row then Inl (RuntimeError ''check constraint violated'')
      else if list_ex (\<lambda>r. rec_id r = rec_id row) (db_recommendations db)
      then Inl (RuntimeError ''duplicate key value violates unique constraint'')
      else Inr (db\<lparr>db_recommendations := db_recommendations db @ [row]\<rparr>))"

definition flush_update :: "db_session \<Rightarrow> database \<Rightarrow> recommendation \<Rightarrow> recommendation \<Rightarrow> database result" where
  "flush_update s db old_row new_row =
     (if \<not> set (changed_columns old_row new_row) \<subseteq> set (update_grants (ss_role s))
      then Inl (PermissionError ''permission denied for table recommendations'')
      else if rec_tenant_id new_row \<noteq> ss_tenant_id s
      then Inl (PermissionError ''new row violates row-level security policy'')
      else if \<not> trigger_ok old_row new_row
      then Inl (RuntimeError ''illegal recommendation status transition'')
      else if \<not> checks_ok new_row then Inl (RuntimeError ''check constraint violated'')
      else Inr (db\<lparr>db_recommendations :=
             map (\<lambda>r. if rec_id r = rec_id old_row then new_row else r) (db_recommendations db)\<rparr>))"

section \<open>audit.py\<close>

definition audit_append ::
  "db_session \<Rightarrow> database \<Rightarrow> string \<Rightarrow> string \<Rightarrow> string \<Rightarrow> string \<Rightarrow> string \<Rightarrow>
   (string \<times> json) list \<Rightarrow> string \<Rightarrow> instant \<Rightarrow> database result" where
  "audit_append s db tid actor action entity_type entity_id detail fresh_id now =
     (if tid \<noteq> ss_tenant_id s then Inl (PermissionError ''new row violates row-level security policy'')
      else Inr (db\<lparr>db_audit_log := db_audit_log db @
             [\<lparr>au_id = fresh_id, au_tenant_id = tid, au_actor = actor, au_action = action,
               au_entity_type = entity_type, au_entity_id = entity_id, au_detail = detail, au_at = now\<rparr>]\<rparr>))"

definition audit_list_recent :: "db_session \<Rightarrow> database \<Rightarrow> string \<Rightarrow> nat \<Rightarrow> nat \<Rightarrow> audit_row list" where
  "audit_list_recent s db tid limit offset =
     take limit (drop offset (sort_key (\<lambda>a. - au_at a)
       (filter (\<lambda>a. au_tenant_id a = ss_tenant_id s \<and> au_tenant_id a = tid) (db_audit_log db))))"

section \<open>recommendations.py\<close>

definition LIVE_STATUSES :: "recommendation_status list" where
  "LIVE_STATUSES = [APPROVED, DELIVERED]"

definition json_str :: "string option \<Rightarrow> json" where
  "json_str v = (case v of None \<Rightarrow> JNull | Some x \<Rightarrow> JStr x)"

definition audit_change ::
  "db_session \<Rightarrow> database \<Rightarrow> recommendation \<Rightarrow> string \<Rightarrow> string \<Rightarrow> string option \<Rightarrow> string \<Rightarrow> instant \<Rightarrow>
   database result" where
  "audit_change s db row actor action note fresh_id now =
     audit_append s db (rec_tenant_id row) actor action ''recommendation'' (rec_id row)
       [(''status'', JStr (status_value (rec_status row))), (''note'', json_str note)] fresh_id now"

definition create_pending ::
  "db_session \<Rightarrow> database \<Rightarrow> string \<Rightarrow> recommendation \<Rightarrow> string \<Rightarrow> instant \<Rightarrow>
   (database \<times> recommendation) result" where
  "create_pending s db tid columns fresh_id now =
     bind_result (assert_transition DRAFT PENDING_APPROVAL None) (\<lambda>_.
       let row = columns\<lparr>rec_id := fresh_id, rec_tenant_id := tid, rec_status := PENDING_APPROVAL,
                        rec_submitted_at := Some now\<rparr>
       in bind_result (flush_insert s db row) (\<lambda>db'. Inr (db', row)))"

definition load_for_update :: "db_session \<Rightarrow> database \<Rightarrow> string \<Rightarrow> string \<Rightarrow> recommendation result" where
  "load_for_update s db tid rid =
     (case find (\<lambda>r. rec_tenant_id r = tid \<and> rec_id r = rid) (visible s db) of
        None \<Rightarrow> Inl (LookupError (''recommendation '' @ rid @ '' not found for tenant '' @ tid))
      | Some row \<Rightarrow> Inr row)"

text \<open>The subject that may hold one live recommendation per allocation run.\<close>

definition same_subject :: "recommendation \<Rightarrow> recommendation \<Rightarrow> bool" where
  "same_subject row other \<longleftrightarrow>
     rec_tenant_id other = rec_tenant_id row \<and> rec_allocation_run_id other = rec_allocation_run_id row
     \<and> (case rec_circle_id row of
          Some c \<Rightarrow> rec_circle_id other = Some c
        | None \<Rightarrow> rec_user_pseudonym other = rec_user_pseudonym row)"

definition assert_no_live_sibling :: "db_session \<Rightarrow> database \<Rightarrow> recommendation \<Rightarrow> unit result" where
  "assert_no_live_sibling s db row =
     (if list_ex (\<lambda>r. same_subject row r \<and> rec_id r \<noteq> rec_id row \<and> rec_status r \<in> set LIVE_STATUSES)
           (visible s db)
      then Inl (IllegalTransition (''recommendation '' @ rec_id row
                  @ '' has a sibling already approved in this allocation run''))
      else Inr ())"

definition get_recommendation :: "db_session \<Rightarrow> database \<Rightarrow> string \<Rightarrow> string \<Rightarrow> recommendation option" where
  "get_recommendation s db tid rid = find (\<lambda>r. rec_tenant_id r = tid \<and> rec_id r = rid) (visible s db)"

definition list_by_statuses ::
  "db_session \<Rightarrow> database \<Rightarrow> string \<Rightarrow> recommendation_status list \<Rightarrow> nat \<Rightarrow> nat \<Rightarrow> recommendation list" where
  "list_by_statuses s db tid statuses limit offset =
     take limit (drop offset (sort_key rec_created_at
       (filter (\<lambda>r. rec_tenant_id r = tid \<and> rec_status r \<in> set statuses) (visible s db))))"

definition list_pending :: "db_session \<Rightarrow> database \<Rightarrow> string \<Rightarrow> nat \<Rightarrow> nat \<Rightarrow> recommendation list" where
  "list_pending s db tid limit offset =
     take limit (drop offset (sort_key rec_created_at
       (filter (\<lambda>r. rec_tenant_id r = tid \<and> rec_status r = PENDING_APPROVAL) (visible s db))))"

text \<open>\<open>ORDER BY reviewed_at\<close> puts NULL last.\<close>

definition list_approved :: "db_session \<Rightarrow> database \<Rightarrow> string \<Rightarrow> nat \<Rightarrow> nat \<Rightarrow> recommendation list" where
  "list_approved s db tid limit offset =
     take limit (drop offset (sort_key (\<lambda>r. case rec_reviewed_at r of None \<Rightarrow> (True, 0) | Some t \<Rightarrow> (False, t))
       (filter (\<lambda>r. rec_tenant_id r = tid \<and> rec_status r = APPROVED) (visible s db))))"

text \<open>
  \<open>approve\<close> in its two halves: reading and checking under the lock of its own row, and writing.
  Alone they run one after the other; two transactions may interleave between them.
\<close>

definition approve_check ::
  "db_session \<Rightarrow> database \<Rightarrow> string \<Rightarrow> string \<Rightarrow> string \<Rightarrow> recommendation result" where
  "approve_check s db tid rid reviewer_id =
     bind_result (load_for_update s db tid rid) (\<lambda>row.
     bind_result (assert_transition (rec_status row) APPROVED (Some reviewer_id)) (\<lambda>_.
     bind_result (assert_no_live_sibling s db row) (\<lambda>_. Inr row)))"

definition approve_write ::
  "db_session \<Rightarrow> database \<Rightarrow> recommendation \<Rightarrow> string \<Rightarrow> string option \<Rightarrow> string \<Rightarrow> instant \<Rightarrow>
   (database \<times> recommendation) result" where
  "approve_write s db row reviewer_id note fresh_id now =
     (let row' = row\<lparr>rec_status := APPROVED, rec_reviewed_by := Some reviewer_id,
                     rec_reviewed_at := Some now, rec_review_note := note\<rparr>
      in bind_result (flush_update s db row row') (\<lambda>db1.
         bind_result (audit_change s db1 row' reviewer_id ''RECOMMENDATION_APPROVED'' note fresh_id now) (\<lambda>db2.
         Inr (db2, row'))))"

definition approve ::
  "db_session \<Rightarrow> database \<Rightarrow> string \<Rightarrow> string \<Rightarrow> string \<Rightarrow> string option \<Rightarrow> string \<Rightarrow> instant \<Rightarrow>
   (database \<times> recommendation) result" where
  "approve s db tid rid reviewer_id note fresh_id now =
     bind_result (approve_check s db tid rid reviewer_id) (\<lambda>row.
       approve_write s db row reviewer_id note fresh_id now)"

definition reject ::
  "db_session \<Rightarrow> database \<Rightarrow> string \<Rightarrow> string \<Rightarrow> string \<Rightarrow> string option \<Rightarrow> string \<Rightarrow> instant \<Rightarrow>
   (database \<times> recommendation) result" where
  "reject s db tid rid reviewer_id note fresh_id now =
     bind_result (load_for_update s db tid rid) (\<lambda>row.
     bind_result (assert_transition (rec_status row) REJECTED (Some reviewer_id)) (\<lambda>_.
     let row' = row\<lparr>rec_status := REJECTED, rec_reviewed_by := Some reviewer_id,
                    rec_reviewed_at := Some now, rec_review_note := note\<rparr>
     in bind_result (flush_update s db row row') (\<lambda>db1.
        bind_result (audit_change s db1 row' reviewer_id ''RECOMMENDATION_REJECTED'' note fresh_id now) (\<lambda>db2.
        Inr (db2, row')))))"

definition mark_delivered ::
  "db_session \<Rightarrow> database \<Rightarrow> string \<Rightarrow> string \<Rightarrow> string option \<Rightarrow> string \<Rightarrow> string \<Rightarrow> instant \<Rightarrow>
   (database \<times> recommendation) result" where
  "mark_delivered s db tid rid delivery_ref actor fresh_id now =
     bind_result (load_for_update s db tid rid) (\<lambda>row.
     bind_result (assert_transition (rec_status row) DELIVERED (rec_reviewed_by row)) (\<lambda>_.
     let row' = row\<lparr>rec_status := DELIVERED, rec_delivered_at := Some now, rec_delivery_ref := delivery_ref\<rparr>
     in bind_result (flush_update s db row row') (\<lambda>db1.
        bind_result (audit_change s db1 row' actor ''RECOMMENDATION_DELIVERED'' delivery_ref fresh_id now) (\<lambda>db2.
        Inr (db2, row')))))"

section \<open>Sessions and the steps of the system\<close>

text \<open>\<open>api/deps.py\<close>: console routes run as the console role, ingestion routes and the worker as the
  worker role; \<open>tenant_session\<close> sets the tenant of the transaction.\<close>

definition db_for_tenant :: "string \<Rightarrow> db_session" where
  "db_for_tenant tid = \<lparr>ss_role = APP_CONSOLE, ss_tenant_id = tid\<rparr>"

definition db_for_ingest :: "string \<Rightarrow> db_session" where
  "db_for_ingest tid = \<lparr>ss_role = APP_WORKER, ss_tenant_id = tid\<rparr>"

definition STATUS_ACTIONS :: "string list" where
  "STATUS_ACTIONS = [''RECOMMENDATION_APPROVED'', ''RECOMMENDATION_REJECTED'', ''RECOMMENDATION_DELIVERED'']"

text \<open>One committed transaction of the API or the worker on the two tables; a transaction that raises
  is rolled back and is no step.  \<open>create_recommendations\<close> of the worker's store, the only caller of
  \<open>create_pending\<close>, passes no reviewer column.\<close>

inductive step :: "database \<Rightarrow> database \<Rightarrow> bool" where
  step_create: "create_pending (db_for_ingest tid) db tid columns fresh_id now = Inr (db', row)
    \<Longrightarrow> rec_reviewed_by columns = None \<Longrightarrow> step db db'"
| step_approve: "approve (db_for_tenant tid) db tid rid reviewer_id note fresh_id now = Inr (db', row)
    \<Longrightarrow> step db db'"
| step_reject: "reject (db_for_tenant tid) db tid rid reviewer_id note fresh_id now = Inr (db', row)
    \<Longrightarrow> step db db'"
| step_deliver: "mark_delivered (db_for_ingest tid) db tid rid delivery_ref actor fresh_id now = Inr (db', row)
    \<Longrightarrow> step db db'"
| step_audit: "audit_append (db_for_ingest tid) db tid actor action entity_type entity_id detail fresh_id now
    = Inr db' \<Longrightarrow> action \<notin> set STATUS_ACTIONS \<Longrightarrow> step db db'"

inductive reachable :: "database \<Rightarrow> bool" where
  reachable_init: "reachable \<lparr>db_recommendations = [], db_audit_log = []\<rparr>"
| reachable_step: "reachable db \<Longrightarrow> step db db' \<Longrightarrow> reachable db'"

section \<open>What the operations do\<close>

named_theorems life_defs \<open>definitions of the sessions and the table writes\<close>

declare db_for_tenant_def [life_defs] db_for_ingest_def [life_defs] flush_insert_def [life_defs]
  flush_update_def [life_defs] audit_append_def [life_defs] audit_change_def [life_defs]

text \<open>The trigger of migration 0006 accepts exactly what the state machine in the code does.\<close>

lemma trigger_iff:
  "trigger_ok r r' \<longleftrightarrow> rec_status r' = rec_status r
     \<or> rec_status r' \<in> set (ALLOWED_TRANSITIONS (rec_status r))"
  unfolding trigger_ok_def by (cases "rec_status r"; cases "rec_status r'") simp_all

lemma assert_transition_Inr [simp]:
  "assert_transition src dst rv = Inr u \<longleftrightarrow>
     dst \<in> set (ALLOWED_TRANSITIONS src) \<and> (dst \<in> set REVIEWER_REQUIRED \<longrightarrow> is_reviewer rv)"
  by (auto simp: assert_transition_def)

lemma find_rows:
  "find P (db_recommendations db) = Some r \<Longrightarrow> r \<in> set (db_recommendations db) \<and> P r"
  by (rule find_SomeD)

lemma load_for_update_Inr:
  "load_for_update s db tid rid = Inr row \<Longrightarrow>
     row \<in> set (db_recommendations db) \<and> rec_tenant_id row = tid \<and> ss_tenant_id s = tid \<and> rec_id row = rid"
  unfolding load_for_update_def visible_def
  by (auto split: option.splits dest!: find_SomeD)

lemma no_live_sibling_Inr:
  "assert_no_live_sibling s db row = Inr u \<longleftrightarrow>
     (\<forall>r \<in> set (db_recommendations db). rec_tenant_id r = ss_tenant_id s \<longrightarrow> same_subject row r \<longrightarrow>
        rec_id r \<noteq> rec_id row \<longrightarrow> rec_status r \<notin> set LIVE_STATUSES)"
  by (auto simp: assert_no_live_sibling_def visible_def list_ex_iff)

text \<open>What a successful status change leaves: its row replaced, one audit entry added.\<close>

definition changed_to ::
  "database \<Rightarrow> recommendation \<Rightarrow> recommendation \<Rightarrow> audit_row \<Rightarrow> database" where
  "changed_to db row row' entry =
     db\<lparr>db_recommendations := map (\<lambda>r. if rec_id r = rec_id row then row' else r) (db_recommendations db),
        db_audit_log := db_audit_log db @ [entry]\<rparr>"

definition status_entry :: "recommendation \<Rightarrow> string \<Rightarrow> string \<Rightarrow> string option \<Rightarrow> string \<Rightarrow> instant \<Rightarrow> audit_row" where
  "status_entry row actor action note fresh_id now =
     \<lparr>au_id = fresh_id, au_tenant_id = rec_tenant_id row, au_actor = actor, au_action = action,
      au_entity_type = ''recommendation'', au_entity_id = rec_id row,
      au_detail = [(''status'', JStr (status_value (rec_status row))), (''note'', json_str note)], au_at = now\<rparr>"

lemma approve_Inr:
  assumes "approve s db tid rid rv note fid now = Inr (db', row')"
  obtains row where "row \<in> set (db_recommendations db)" "rec_tenant_id row = tid" "ss_tenant_id s = tid"
    "rec_id row = rid" "rec_status row = PENDING_APPROVAL" "is_reviewer (Some rv)" "checks_ok row'"
    "\<forall>r \<in> set (db_recommendations db). rec_tenant_id r = tid \<longrightarrow> same_subject row r \<longrightarrow>
        rec_id r \<noteq> rid \<longrightarrow> rec_status r \<notin> set LIVE_STATUSES"
    "row' = row\<lparr>rec_status := APPROVED, rec_reviewed_by := Some rv, rec_reviewed_at := Some now,
              rec_review_note := note\<rparr>"
    "db' = changed_to db row row' (status_entry row' rv ''RECOMMENDATION_APPROVED'' note fid now)"
proof -
  from assms obtain row where row: "approve_check s db tid rid rv = Inr row"
    and w: "approve_write s db row rv note fid now = Inr (db', row')"
    by (auto simp: approve_def res_simps)
  from row have load: "load_for_update s db tid rid = Inr row"
    and tr: "APPROVED \<in> set (ALLOWED_TRANSITIONS (rec_status row))" and rv: "is_reviewer (Some rv)"
    and sib: "assert_no_live_sibling s db row = Inr ()"
    by (auto simp: approve_check_def res_simps REVIEWER_REQUIRED_def)
  note l = load_for_update_Inr [OF load]
  have st: "rec_status row = PENDING_APPROVAL" using tr by (cases "rec_status row") auto
  from w have "row' = row\<lparr>rec_status := APPROVED, rec_reviewed_by := Some rv, rec_reviewed_at := Some now,
              rec_review_note := note\<rparr>" "checks_ok row'"
    "db' = changed_to db row row' (status_entry row' rv ''RECOMMENDATION_APPROVED'' note fid now)"
    by (auto simp: approve_write_def res_simps life_defs Let_def changed_to_def status_entry_def
        split: if_splits)
  with l st rv sib show thesis by (intro that) (auto simp: no_live_sibling_Inr)
qed

lemma reject_Inr:
  assumes "reject s db tid rid rv note fid now = Inr (db', row')"
  obtains row where "row \<in> set (db_recommendations db)" "rec_tenant_id row = tid" "ss_tenant_id s = tid"
    "rec_id row = rid" "rec_status row = PENDING_APPROVAL" "is_reviewer (Some rv)" "checks_ok row'"
    "row' = row\<lparr>rec_status := REJECTED, rec_reviewed_by := Some rv, rec_reviewed_at := Some now,
              rec_review_note := note\<rparr>"
    "db' = changed_to db row row' (status_entry row' rv ''RECOMMENDATION_REJECTED'' note fid now)"
proof -
  from assms obtain row where load: "load_for_update s db tid rid = Inr row"
    and tr: "REJECTED \<in> set (ALLOWED_TRANSITIONS (rec_status row))" and rv: "is_reviewer (Some rv)"
    by (auto simp: reject_def res_simps REVIEWER_REQUIRED_def)
  have st: "rec_status row = PENDING_APPROVAL" using tr by (cases "rec_status row") auto
  from assms load have "row' = row\<lparr>rec_status := REJECTED, rec_reviewed_by := Some rv,
      rec_reviewed_at := Some now, rec_review_note := note\<rparr>" "checks_ok row'"
    "db' = changed_to db row row' (status_entry row' rv ''RECOMMENDATION_REJECTED'' note fid now)"
    by (auto simp: reject_def res_simps life_defs Let_def changed_to_def status_entry_def
        split: if_splits)
  with load_for_update_Inr [OF load] st rv show thesis by (intro that) auto
qed

lemma mark_delivered_Inr:
  assumes "mark_delivered s db tid rid ref actor fid now = Inr (db', row')"
  obtains row where "row \<in> set (db_recommendations db)" "rec_tenant_id row = tid" "ss_tenant_id s = tid"
    "rec_id row = rid" "rec_status row = APPROVED" "is_reviewer (rec_reviewed_by row)" "checks_ok row'"
    "row' = row\<lparr>rec_status := DELIVERED, rec_delivered_at := Some now, rec_delivery_ref := ref\<rparr>"
    "db' = changed_to db row row' (status_entry row' actor ''RECOMMENDATION_DELIVERED'' ref fid now)"
proof -
  from assms obtain row where load: "load_for_update s db tid rid = Inr row"
    and tr: "DELIVERED \<in> set (ALLOWED_TRANSITIONS (rec_status row))" and rv: "is_reviewer (rec_reviewed_by row)"
    by (auto simp: mark_delivered_def res_simps REVIEWER_REQUIRED_def)
  have st: "rec_status row = APPROVED" using tr by (cases "rec_status row") auto
  from assms load have "row' = row\<lparr>rec_status := DELIVERED, rec_delivered_at := Some now, rec_delivery_ref := ref\<rparr>"
    "checks_ok row'"
    "db' = changed_to db row row' (status_entry row' actor ''RECOMMENDATION_DELIVERED'' ref fid now)"
    by (auto simp: mark_delivered_def res_simps life_defs Let_def changed_to_def status_entry_def
        split: if_splits)
  with load_for_update_Inr [OF load] st rv show thesis by (intro that) auto
qed

lemma create_pending_Inr:
  assumes "create_pending s db tid columns fid now = Inr (db', row)"
  shows "rec_id row = fid \<and> rec_tenant_id row = tid \<and> rec_status row = PENDING_APPROVAL
    \<and> rec_reviewed_by row = rec_reviewed_by columns \<and> checks_ok row \<and> fid \<notin> rec_id ` set (db_recommendations db)
    \<and> db' = db\<lparr>db_recommendations := db_recommendations db @ [row]\<rparr>"
  using assms by (auto simp: create_pending_def res_simps life_defs Let_def list_ex_iff split: if_splits)

section \<open>The invariant\<close>

definition is_live :: "recommendation \<Rightarrow> bool" where
  "is_live r \<longleftrightarrow> rec_status r \<in> set LIVE_STATUSES"

text \<open>What a live recommendation is unique for: the tenant, the allocation run and its subject.\<close>

definition live_key :: "recommendation \<Rightarrow> string \<times> string \<times> string option \<times> string option" where
  "live_key r = (rec_tenant_id r, rec_allocation_run_id r, rec_circle_id r, rec_user_pseudonym r)"

text \<open>The status entries of the audit log for a recommendation, oldest first, and those its status
  calls for.\<close>

definition trail :: "database \<Rightarrow> string \<Rightarrow> string list" where
  "trail db rid = map au_action (filter (\<lambda>a. au_entity_id a = rid \<and> au_action a \<in> set STATUS_ACTIONS)
                                  (db_audit_log db))"

fun trail_of :: "recommendation_status \<Rightarrow> string list" where
  "trail_of APPROVED = [''RECOMMENDATION_APPROVED'']"
| "trail_of REJECTED = [''RECOMMENDATION_REJECTED'']"
| "trail_of DELIVERED = [''RECOMMENDATION_APPROVED'', ''RECOMMENDATION_DELIVERED'']"
| "trail_of _ = []"

definition row_ok :: "recommendation \<Rightarrow> bool" where
  "row_ok r \<longleftrightarrow> checks_ok r \<and> rec_status r \<noteq> DRAFT \<and> rec_status r \<noteq> EXPIRED
     \<and> (rec_status r = PENDING_APPROVAL \<longrightarrow> rec_reviewed_by r = None)
     \<and> (rec_status r \<in> set REVIEWER_REQUIRED \<longrightarrow> is_reviewer (rec_reviewed_by r))"

definition lifecycle_ok :: "database \<Rightarrow> bool" where
  "lifecycle_ok db \<longleftrightarrow>
     distinct (map rec_id (db_recommendations db))
     \<and> (\<forall>r \<in> set (db_recommendations db). row_ok r \<and> trail db (rec_id r) = trail_of (rec_status r))
     \<and> (\<forall>r \<in> set (db_recommendations db). \<forall>r' \<in> set (db_recommendations db).
          is_live r \<longrightarrow> is_live r' \<longrightarrow> live_key r = live_key r' \<longrightarrow> r = r')
     \<and> (\<forall>rid. rid \<notin> rec_id ` set (db_recommendations db) \<longrightarrow> trail db rid = [])"

lemma checks_subject: "checks_ok r \<Longrightarrow> (rec_circle_id r = None) = (rec_user_pseudonym r \<noteq> None)"
  unfolding checks_ok_def by (elim conjE disjE) simp_all

lemma same_subject_key:
  assumes "checks_ok r" and "checks_ok r'"
  shows "same_subject r r' \<longleftrightarrow> live_key r = live_key r'"
proof (cases "rec_circle_id r")
  case None
  then obtain u where "rec_user_pseudonym r = Some u" using checks_subject [OF assms(1)] by auto
  then show ?thesis using None checks_subject [OF assms(2)] by (auto simp: same_subject_def live_key_def)
next
  case (Some c)
  then have "rec_user_pseudonym r = None" using checks_subject [OF assms(1)] by auto
  then show ?thesis using Some checks_subject [OF assms(2)] by (auto simp: same_subject_def live_key_def)
qed

lemma trail_append:
  "trail (db\<lparr>db_recommendations := rs, db_audit_log := db_audit_log db @ [e]\<rparr>) rid =
     trail db rid @ (if au_entity_id e = rid \<and> au_action e \<in> set STATUS_ACTIONS then [au_action e] else [])"
  "trail (db\<lparr>db_audit_log := db_audit_log db @ [e]\<rparr>) rid =
     trail db rid @ (if au_entity_id e = rid \<and> au_action e \<in> set STATUS_ACTIONS then [au_action e] else [])"
  "trail (db\<lparr>db_recommendations := rs\<rparr>) rid = trail db rid"
  by (simp_all add: trail_def)

lemma lifecycle_ok_change:
  assumes ok: "lifecycle_ok db" and row: "row \<in> set (db_recommendations db)"
    and same: "rec_id row' = rec_id row" and new: "row_ok row'"
    and e: "au_entity_id e = rec_id row" "au_action e \<in> set STATUS_ACTIONS"
           "trail_of (rec_status row') = trail_of (rec_status row) @ [au_action e]"
    and live: "\<And>r. is_live row' \<Longrightarrow> r \<in> set (db_recommendations db) \<Longrightarrow> is_live r \<Longrightarrow> live_key row' = live_key r
      \<Longrightarrow> rec_id r = rec_id row"
  shows "lifecycle_ok (changed_to db row row' e)"
proof -
  let ?f = "\<lambda>r. if rec_id r = rec_id row then row' else r"
  have d: "distinct (map rec_id (db_recommendations db))" using ok by (simp add: lifecycle_ok_def)
  have ids: "map rec_id (map ?f xs) = map rec_id xs" for xs
    by (simp add: same)
  have recs: "db_recommendations (db\<lparr>db_recommendations := xs, db_audit_log := es\<rparr>) = xs" for xs es
    by simp
  have only: "r = row" if "r \<in> set (db_recommendations db)" "rec_id r = rec_id row" for r
    using d row that by (blast intro: distinct_map_filter_inj)
  have mem: "r \<in> set (map ?f (db_recommendations db)) \<Longrightarrow>
      r = row' \<or> r \<in> set (db_recommendations db) \<and> rec_id r \<noteq> rec_id row" for r
    by (auto split: if_splits)
  have old: "row_ok r \<and> trail db (rec_id r) = trail_of (rec_status r)" if "r \<in> set (db_recommendations db)" for r
    using ok that by (simp add: lifecycle_ok_def)
  have uniq: "r = r'" if "r \<in> set (db_recommendations db)" "r' \<in> set (db_recommendations db)"
    "is_live r" "is_live r'" "live_key r = live_key r'" for r r'
    using ok that unfolding lifecycle_ok_def by blast
  have none: "trail db rid = []" if "rid \<notin> rec_id ` set (db_recommendations db)" for rid
    using ok that unfolding lifecycle_ok_def by blast
  have rids: "rec_id ` set (map ?f (db_recommendations db)) = rec_id ` set (db_recommendations db)"
    using ids [of "db_recommendations db"] by (metis set_map)
  show ?thesis
    unfolding lifecycle_ok_def changed_to_def
  proof (intro conjI ballI allI impI, goal_cases)
    case 1
    show ?case using d by (simp only: recs ids)
  next
    case (2 r)
    then show ?case using mem [of r] old [of r] new by (simp only: recs) blast
  next
    case (3 r)
    then have "r = row' \<or> r \<in> set (db_recommendations db) \<and> rec_id r \<noteq> rec_id row"
      using mem [of r] by (simp only: recs)
    then show ?case using old [of r] old [OF row] e same by (elim disjE) (auto simp: trail_append)
  next
    case (4 r r')
    then have "r = row' \<or> r \<in> set (db_recommendations db) \<and> rec_id r \<noteq> rec_id row"
      and "r' = row' \<or> r' \<in> set (db_recommendations db) \<and> rec_id r' \<noteq> rec_id row"
      using mem [of r] mem [of r'] by (simp_all only: recs)
    with 4(3-) uniq [of r r'] live [of r] live [of r'] show ?case by metis
  next
    case (5 rid)
    then have "rid \<notin> rec_id ` set (db_recommendations db)" by (simp only: recs rids not_False_eq_True)
    then show ?case using none [of rid] e(1) row by (auto simp: trail_append)
  qed
qed

lemma lifecycle_ok_rows:
  assumes "lifecycle_ok db" and "r \<in> set (db_recommendations db)"
  shows "row_ok r" "checks_ok r" "trail db (rec_id r) = trail_of (rec_status r)"
  using assms by (auto simp: lifecycle_ok_def row_ok_def)

lemma lifecycle_ok_unique:
  "lifecycle_ok db \<Longrightarrow> r \<in> set (db_recommendations db) \<Longrightarrow> r' \<in> set (db_recommendations db) \<Longrightarrow>
   is_live r \<Longrightarrow> is_live r' \<Longrightarrow> live_key r = live_key r' \<Longrightarrow> r = r'"
  unfolding lifecycle_ok_def by blast

lemma step_create_ok:
  assumes ok: "lifecycle_ok db" and c: "create_pending s db tid columns fid now = Inr (db', row)"
    and none: "rec_reviewed_by columns = None"
  shows "lifecycle_ok db'"
proof -
  note c' = create_pending_Inr [OF c]
  have recs: "db_recommendations db' = db_recommendations db @ [row]" and tr: "trail db' = trail db"
    using c' by (auto simp: trail_def)
  have fresh: "trail db rid = []" if "rid \<notin> rec_id ` set (db_recommendations db)" for rid
    using ok that unfolding lifecycle_ok_def by blast
  have "row_ok row" and "\<not> is_live row" and "trail db (rec_id row) = trail_of (rec_status row)"
    using c' none fresh [of fid] by (simp_all add: row_ok_def is_live_def LIVE_STATUSES_def REVIEWER_REQUIRED_def)
  then show ?thesis using ok c' unfolding lifecycle_ok_def recs tr by auto
qed

lemma step_approve_ok:
  assumes ok: "lifecycle_ok db" and a: "approve s db tid rid rv note fid now = Inr (db', row')"
  shows "lifecycle_ok db'"
  using a
proof (rule approve_Inr)
  fix row
  assume row: "row \<in> set (db_recommendations db)" "rec_tenant_id row = tid" "rec_id row = rid"
      "rec_status row = PENDING_APPROVAL" "is_reviewer (Some rv)" "checks_ok row'"
    and sib: "\<forall>r \<in> set (db_recommendations db). rec_tenant_id r = tid \<longrightarrow> same_subject row r \<longrightarrow>
        rec_id r \<noteq> rid \<longrightarrow> rec_status r \<notin> set LIVE_STATUSES"
    and row': "row' = row\<lparr>rec_status := APPROVED, rec_reviewed_by := Some rv, rec_reviewed_at := Some now,
              rec_review_note := note\<rparr>"
    and db': "db' = changed_to db row row' (status_entry row' rv ''RECOMMENDATION_APPROVED'' note fid now)"
  show ?thesis
    unfolding db'
  proof (rule lifecycle_ok_change [OF ok row(1)])
    show "row_ok row'" using row row' by (auto simp: row_ok_def)
    show "rec_id r = rec_id row"
      if "is_live row'" "r \<in> set (db_recommendations db)" "is_live r" "live_key row' = live_key r" for r
    proof (rule ccontr)
      assume ne: "rec_id r \<noteq> rec_id row"
      have k: "live_key row = live_key r" using that(4) row' by (simp add: live_key_def)
      then have "same_subject row r"
        using same_subject_key lifecycle_ok_rows(2) [OF ok] row(1) that(2) by blast
      moreover have "rec_tenant_id r = tid" using k row(2) by (simp add: live_key_def)
      ultimately show False using sib that(2,3) ne row(3) by (auto simp: is_live_def)
    qed
  qed (simp_all add: row' row status_entry_def STATUS_ACTIONS_def)
qed

lemma step_reject_ok:
  assumes ok: "lifecycle_ok db" and a: "reject s db tid rid rv note fid now = Inr (db', row')"
  shows "lifecycle_ok db'"
  using a
proof (rule reject_Inr)
  fix row
  assume row: "row \<in> set (db_recommendations db)" "rec_id row = rid"
      "rec_status row = PENDING_APPROVAL" "is_reviewer (Some rv)" "checks_ok row'"
    and row': "row' = row\<lparr>rec_status := REJECTED, rec_reviewed_by := Some rv, rec_reviewed_at := Some now,
              rec_review_note := note\<rparr>"
    and db': "db' = changed_to db row row' (status_entry row' rv ''RECOMMENDATION_REJECTED'' note fid now)"
  show ?thesis
    unfolding db'
    by (rule lifecycle_ok_change [OF ok row(1)])
       (use row row' in \<open>auto simp: row_ok_def status_entry_def STATUS_ACTIONS_def is_live_def LIVE_STATUSES_def\<close>)
qed

lemma step_deliver_ok:
  assumes ok: "lifecycle_ok db" and a: "mark_delivered s db tid rid ref actor fid now = Inr (db', row')"
  shows "lifecycle_ok db'"
  using a
proof (rule mark_delivered_Inr)
  fix row
  assume row: "row \<in> set (db_recommendations db)" "rec_id row = rid"
      "rec_status row = APPROVED" "is_reviewer (rec_reviewed_by row)" "checks_ok row'"
    and row': "row' = row\<lparr>rec_status := DELIVERED, rec_delivered_at := Some now, rec_delivery_ref := ref\<rparr>"
    and db': "db' = changed_to db row row' (status_entry row' actor ''RECOMMENDATION_DELIVERED'' ref fid now)"
  show ?thesis
    unfolding db'
  proof (rule lifecycle_ok_change [OF ok row(1)])
    show "row_ok row'" using row row' by (auto simp: row_ok_def)
    show "rec_id r = rec_id row"
      if "is_live row'" "r \<in> set (db_recommendations db)" "is_live r" "live_key row' = live_key r" for r
    proof -
      have "live_key row = live_key r" using that(4) row' by (simp add: live_key_def)
      moreover have "is_live row" using row(3) by (simp add: is_live_def LIVE_STATUSES_def)
      ultimately show ?thesis using lifecycle_ok_unique [OF ok row(1) that(2)] that(3) by simp
    qed
  qed (simp_all add: row' row status_entry_def STATUS_ACTIONS_def)
qed

lemma step_ok: "step db db' \<Longrightarrow> lifecycle_ok db \<Longrightarrow> lifecycle_ok db'"
proof (induction rule: step.induct)
  case (step_audit tid db actor action entity_type entity_id detail fresh_id now db')
  then have "db_recommendations db' = db_recommendations db" and "trail db' rid = trail db rid" for rid
    by (auto simp: life_defs trail_append)
  with step_audit.prems show ?case by (simp add: lifecycle_ok_def)
qed (blast intro: step_create_ok step_approve_ok step_reject_ok step_deliver_ok)+

lemma empty_ok: "lifecycle_ok \<lparr>db_recommendations = [], db_audit_log = []\<rparr>"
  by (simp add: lifecycle_ok_def trail_def)

lemma reachable_ok: "reachable db \<Longrightarrow> lifecycle_ok db"
  by (induction rule: reachable.induct) (blast intro: empty_ok step_ok)+

section \<open>Rows of other tenants and other recommendations\<close>

definition rows_of :: "string \<Rightarrow> database \<Rightarrow> recommendation list" where
  "rows_of t db = filter (\<lambda>r. rec_tenant_id r = t) (db_recommendations db)"

text \<open>The columns a reviewer or a delivery may write, reset: what is left is the decision itself.\<close>

definition decision_of :: "recommendation \<Rightarrow> recommendation" where
  "decision_of r = r\<lparr>rec_status := PENDING_APPROVAL, rec_reviewed_by := None, rec_reviewed_at := None,
     rec_review_note := None, rec_delivered_at := None, rec_delivery_ref := None\<rparr>"

lemma changed_rows_of:
  assumes "distinct (map rec_id (db_recommendations db))" and "row \<in> set (db_recommendations db)"
    and "rec_id row' = rec_id row" "rec_tenant_id row' = rec_tenant_id row" and "rec_tenant_id row \<noteq> t"
  shows "rows_of t (changed_to db row row' e) = rows_of t db"
proof -
  have only: "r = row" if "r \<in> set (db_recommendations db)" "rec_id r = rec_id row" for r
    using assms(1,2) that by (blast intro: distinct_map_filter_inj)
  have "filter (\<lambda>r. rec_tenant_id r = t) (map (\<lambda>r. if rec_id r = rec_id row then row' else r) xs)
      = filter (\<lambda>r. rec_tenant_id r = t) xs" if "set xs \<subseteq> set (db_recommendations db)" for xs
    using that by (induction xs) (use only assms in auto)
  then show ?thesis by (simp add: rows_of_def changed_to_def)
qed

lemma changed_audit:
  "db_audit_log (changed_to db row row' e) = db_audit_log db @ [e]"
  by (simp add: changed_to_def)

text \<open>What one successful call of a repository operation does to the tables.\<close>

inductive one_change :: "string \<Rightarrow> database \<Rightarrow> database \<Rightarrow> bool" for t where
  added: "rec_tenant_id row = t \<Longrightarrow> rec_status row = PENDING_APPROVAL \<Longrightarrow>
    rec_id row \<notin> rec_id ` set (db_recommendations db) \<Longrightarrow>
    one_change t db (db\<lparr>db_recommendations := db_recommendations db @ [row]\<rparr>)"
| moved: "row \<in> set (db_recommendations db) \<Longrightarrow> rec_tenant_id row = t \<Longrightarrow>
    rec_status row' \<in> set (ALLOWED_TRANSITIONS (rec_status row)) \<Longrightarrow> decision_of row' = decision_of row \<Longrightarrow>
    au_tenant_id e = t \<Longrightarrow> au_entity_id e = rec_id row \<Longrightarrow>
    au_detail e = [(''status'', JStr (status_value (rec_status row'))), (''note'', n)] \<Longrightarrow>
    one_change t db (changed_to db row row' e)"
| noted: "au_tenant_id e = t \<Longrightarrow> one_change t db (db\<lparr>db_audit_log := db_audit_log db @ [e]\<rparr>)"

lemma step_one_change: "step db db' \<Longrightarrow> \<exists>t. one_change t db db'"
proof (induction rule: step.induct)
  case (step_create tid db columns fresh_id now db' row)
  then show ?case using create_pending_Inr [OF step_create(1)] by (auto intro: one_change.added)
next
  case (step_approve tid db rid rv nt fid now db' row)
  then show ?case
    by (rule approve_Inr) (auto intro!: exI [of _ tid] one_change.moved simp: decision_of_def status_entry_def)
next
  case (step_reject tid db rid rv nt fid now db' row)
  then show ?case
    by (rule reject_Inr) (auto intro!: exI [of _ tid] one_change.moved simp: decision_of_def status_entry_def)
next
  case (step_deliver tid db rid ref actor fid now db' row)
  then show ?case
    by (rule mark_delivered_Inr) (auto intro!: exI [of _ tid] one_change.moved simp: decision_of_def status_entry_def)
next
  case (step_audit tid db actor action entity_type entity_id detail fresh_id now db')
  then show ?case by (auto simp: life_defs intro!: exI [of _ tid] one_change.noted)
qed

section \<open>The properties\<close>

text \<open>Two rows of a run for the witnesses: the user's recommendation and a second one for the same user.\<close>

definition sample_columns :: "recommendation" where
  "sample_columns = \<lparr>rec_id = ''r'', rec_tenant_id = ''t'', rec_allocation_run_id = ''a'',
     rec_allocation_candidate_id = None, rec_subject_type = ''USER'', rec_user_pseudonym = Some ''u'',
     rec_circle_id = None, rec_incentive_code = ''i'', rec_cost_idr = 5, rec_priority_idr = 9, rec_user_rank = 1,
     rec_is_runner_up = False, rec_status = DRAFT, rec_reason_text = None, rec_reason_factors = [],
     rec_reason_source = None, rec_fact_sheet_hash = None, rec_created_at = 0, rec_submitted_at = None,
     rec_reviewed_by = None, rec_reviewed_at = None, rec_review_note = None, rec_delivered_at = None,
     rec_delivery_ref = None\<rparr>"

definition sample_pending :: "string \<Rightarrow> recommendation" where
  "sample_pending rid = sample_columns\<lparr>rec_id := rid, rec_status := PENDING_APPROVAL, rec_submitted_at := Some 1\<rparr>"

definition sample_db :: "database" where
  "sample_db = \<lparr>db_recommendations = [sample_pending ''p'', sample_pending ''q''], db_audit_log = []\<rparr>"

lemma sample_reachable: "reachable sample_db"
proof -
  have "step \<lparr>db_recommendations = [], db_audit_log = []\<rparr>
          \<lparr>db_recommendations = [sample_pending ''p''], db_audit_log = []\<rparr>"
    by (rule step_create [of "''t''" _ sample_columns "''p''" 1 _ "sample_pending ''p''"])
       (simp_all add: create_pending_def assert_transition_def REVIEWER_REQUIRED_def life_defs sample_pending_def sample_columns_def checks_ok_def Let_def)
  moreover have "step \<lparr>db_recommendations = [sample_pending ''p''], db_audit_log = []\<rparr> sample_db"
    by (rule step_create [of "''t''" _ sample_columns "''q''" 1 _ "sample_pending ''q''"])
       (simp_all add: create_pending_def assert_transition_def REVIEWER_REQUIRED_def life_defs sample_pending_def sample_columns_def checks_ok_def sample_db_def Let_def)
  ultimately show ?thesis by (blast intro: reachable_init reachable_step)
qed



text \<open>
  C2. A committed transaction only adds a pending row, moves one row along the state machine or
  appends to the audit log: every recommendation is still there, unchanged, or in a status that its
  old one allows, with the decision itself unchanged and one new audit entry that names it and its
  new status; and the audit log keeps all its entries.
\<close>

theorem step_moves_along:
  assumes "reachable db" and "step db db'" and "r \<in> set (db_recommendations db)"
  shows "(\<exists>es. db_audit_log db' = db_audit_log db @ es) \<and>
     (\<exists>r' \<in> set (db_recommendations db'). rec_id r' = rec_id r \<and> decision_of r' = decision_of r \<and>
       (r' = r \<or> rec_status r' \<in> set (ALLOWED_TRANSITIONS (rec_status r)) \<and>
          (\<exists>e. db_audit_log db' = db_audit_log db @ [e] \<and> au_entity_id e = rec_id r
             \<and> au_tenant_id e = rec_tenant_id r
             \<and> map_of (au_detail e) ''status'' = Some (JStr (status_value (rec_status r'))))))"
proof -
  have d: "distinct (map rec_id (db_recommendations db))"
    using reachable_ok [OF assms(1)] by (simp add: lifecycle_ok_def)
  obtain t where "one_change t db db'" using step_one_change [OF assms(2)] by blast
  then show ?thesis
  proof cases
    case (moved row row' e n)
    have "rec_id (decision_of row') = rec_id (decision_of row)" using moved by simp
    then have id: "rec_id row' = rec_id row" by (simp add: decision_of_def)
    have log: "db_audit_log db' = db_audit_log db @ [e]" using moved by (simp add: changed_audit)
    show ?thesis
    proof (cases "rec_id r = rec_id row")
      case True
      then have "r = row" using d assms(3) moved(2) by (blast intro: distinct_map_filter_inj)
      moreover have "row' \<in> set (db_recommendations db')" using moved(1,2) by (auto simp: changed_to_def)
      ultimately show ?thesis using moved id log by auto
    next
      case False
      then have "r \<in> set (db_recommendations db')" using moved(1) assms(3) by (auto simp: changed_to_def)
      then show ?thesis using log by blast
    qed
  qed (use assms(3) in auto)
qed

lemma sample_approve:
  "approve (db_for_tenant ''t'') sample_db ''t'' ''p'' ''ana'' None ''e'' 7 =
     Inr (let row' = (sample_pending ''p'')\<lparr>rec_status := APPROVED, rec_reviewed_by := Some ''ana'',
                        rec_reviewed_at := Some 7\<rparr>
          in (changed_to sample_db (sample_pending ''p'') row'
                (status_entry row' ''ana'' ''RECOMMENDATION_APPROVED'' None ''e'' 7), row'))"
  by code_simp

theorem step_moves_along_witness:
  "\<exists>db' es. step sample_db db' \<and> db_audit_log db' = db_audit_log sample_db @ es \<and> es \<noteq> []"
proof -
  obtain db' row' where a: "approve (db_for_tenant ''t'') sample_db ''t'' ''p'' ''ana'' None ''e'' 7 = Inr (db', row')"
    and e: "db_audit_log db' \<noteq> db_audit_log sample_db"
    unfolding sample_approve by (auto simp: Let_def changed_to_def)
  have "step sample_db db'" using a by (rule step_approve)
  with step_moves_along [OF sample_reachable, of db' "sample_pending ''p''"] e show ?thesis
    by (auto simp: sample_db_def)
qed

lemma operations_isolated:
  assumes "lifecycle_ok db" and "ss_tenant_id s \<noteq> t"
    and op: "(\<exists>rid rv nt i now. approve s db tid rid rv nt i now = Inr (db', row))
           \<or> (\<exists>rid rv nt i now. reject s db tid rid rv nt i now = Inr (db', row))
           \<or> (\<exists>rid ref ac i now. mark_delivered s db tid rid ref ac i now = Inr (db', row))
           \<or> (\<exists>cols i now. create_pending s db tid cols i now = Inr (db', row))"
  shows "rows_of t db' = rows_of t db
    \<and> filter (\<lambda>a. au_tenant_id a = t) (db_audit_log db') = filter (\<lambda>a. au_tenant_id a = t) (db_audit_log db)"
proof -
  have d: "distinct (map rec_id (db_recommendations db))" using assms(1) by (simp add: lifecycle_ok_def)
  show ?thesis
    using op
  proof (elim disjE exE)
    fix cols i now
    assume c: "create_pending s db tid cols i now = Inr (db', row)"
    then have "tid = ss_tenant_id s" by (auto simp: create_pending_def res_simps life_defs Let_def split: if_splits)
    with create_pending_Inr [OF c] assms(2) show ?thesis by (auto simp: rows_of_def)
  qed (use d assms(2) in \<open>auto elim!: approve_Inr reject_Inr mark_delivered_Inr
         simp: changed_rows_of changed_audit status_entry_def\<close>)
qed

text \<open>
  C9. Isolation: an operation run in the session of a tenant, whatever tenant and recommendation it is
  asked for, changes no recommendation and no audit entry of another tenant, and the reads of a
  session return no row of another tenant.
\<close>

theorem tenant_isolation:
  assumes "reachable db" and "ss_tenant_id s \<noteq> t"
  shows "(\<forall>db' row. (\<exists>rid rv nt i now. approve s db tid rid rv nt i now = Inr (db', row))
             \<or> (\<exists>rid rv nt i now. reject s db tid rid rv nt i now = Inr (db', row))
             \<or> (\<exists>rid ref ac i now. mark_delivered s db tid rid ref ac i now = Inr (db', row))
             \<or> (\<exists>cols i now. create_pending s db tid cols i now = Inr (db', row))
           \<longrightarrow> rows_of t db' = rows_of t db
             \<and> filter (\<lambda>a. au_tenant_id a = t) (db_audit_log db') = filter (\<lambda>a. au_tenant_id a = t) (db_audit_log db))
     \<and> (\<forall>r \<in> set (list_pending s db tid n k) \<union> set (list_approved s db tid n k)
              \<union> set (list_by_statuses s db tid sts n k) \<union> set_option (get_recommendation s db tid rid).
           rec_tenant_id r = ss_tenant_id s)"
proof (rule conjI)
  show "\<forall>r \<in> set (list_pending s db tid n k) \<union> set (list_approved s db tid n k)
              \<union> set (list_by_statuses s db tid sts n k) \<union> set_option (get_recommendation s db tid rid).
           rec_tenant_id r = ss_tenant_id s"
    by (auto simp: list_pending_def list_approved_def list_by_statuses_def get_recommendation_def visible_def
        dest!: in_set_takeD in_set_dropD find_SomeD)
qed (intro allI impI operations_isolated [OF reachable_ok [OF assms(1)] assms(2)])

theorem tenant_isolation_witness:
  "\<forall>rid rv nt i now. case approve (db_for_tenant ''t'') sample_db ''t'' rid rv nt i now of
     Inl e \<Rightarrow> True | Inr (db', row) \<Rightarrow> rows_of ''other'' db' = []"
proof -
  have "rows_of ''other'' sample_db = []" by code_simp
  moreover have "ss_tenant_id (db_for_tenant ''t'') \<noteq> ''other''" by (simp add: db_for_tenant_def)
  ultimately show ?thesis
    using tenant_isolation [OF sample_reachable, of "db_for_tenant ''t''" "''other''" "''t''"]
    by (fastforce split: sum.split prod.split)
qed

lemma find_visible:
  "ss_tenant_id s = tid \<Longrightarrow> find (\<lambda>r. rec_tenant_id r = tid \<and> rec_id r = rid) (visible s db)
     = find (\<lambda>r. rec_tenant_id r = tid \<and> rec_id r = rid) (db_recommendations db)"
proof -
  assume t: "ss_tenant_id s = tid"
  have "find (\<lambda>r. rec_tenant_id r = tid \<and> rec_id r = rid) (filter (\<lambda>r. rec_tenant_id r = tid) xs)
      = find (\<lambda>r. rec_tenant_id r = tid \<and> rec_id r = rid) xs" for xs
    by (induction xs) auto
  then show ?thesis using t by (simp add: visible_def)
qed

lemma no_live_sibling_iff:
  assumes ok: "lifecycle_ok db" and row: "row \<in> set (db_recommendations db)" "rec_status row = PENDING_APPROVAL"
    and s: "ss_tenant_id s = rec_tenant_id row"
  shows "assert_no_live_sibling s db row = Inr u
    \<longleftrightarrow> \<not> (\<exists>r \<in> set (db_recommendations db). is_live r \<and> live_key r = live_key row)"
proof -
  have "same_subject row r \<longleftrightarrow> live_key r = live_key row" if "r \<in> set (db_recommendations db)" for r
    using same_subject_key [OF lifecycle_ok_rows(2) [OF ok row(1)] lifecycle_ok_rows(2) [OF ok that]] by auto
  moreover have "r = row" if "r \<in> set (db_recommendations db)" "rec_id r = rec_id row" for r
    using ok row(1) that unfolding lifecycle_ok_def by (blast intro: distinct_map_filter_inj)
  moreover have "\<not> is_live row" using row(2) by (simp add: is_live_def LIVE_STATUSES_def)
  ultimately show ?thesis unfolding no_live_sibling_Inr is_live_def s by (metis live_key_def prod.inject)
qed

lemma flush_approved:
  assumes ok: "lifecycle_ok db" and row: "row \<in> set (db_recommendations db)" "rec_status row = PENDING_APPROVAL"
    and st: "st = APPROVED \<or> st = REJECTED" and s: "s = db_for_tenant (rec_tenant_id row)"
    and row': "row' = row\<lparr>rec_status := st, rec_reviewed_by := Some rv, rec_reviewed_at := Some now,
                          rec_review_note := nt\<rparr>"
  shows "flush_update s db row row' = Inr (db\<lparr>db_recommendations :=
             map (\<lambda>r. if rec_id r = rec_id row then row' else r) (db_recommendations db)\<rparr>)"
proof -
  have "checks_ok row" using lifecycle_ok_rows(2) [OF ok row(1)] .
  then have "checks_ok row'" using st row' by (auto simp: checks_ok_def)
  moreover have "trigger_ok row row'" using st row' row(2) by (auto simp: trigger_ok_def)
  moreover have "set (changed_columns row row') \<subseteq> set (update_grants (ss_role s))"
    unfolding row' s by (simp add: changed_columns_def db_for_tenant_def)
  ultimately show ?thesis using s row' by (simp add: flush_update_def db_for_tenant_def)
qed

lemma approved_reviewed:
  assumes "reachable db" "r \<in> set (db_recommendations db)" "rec_status r = APPROVED"
  shows "is_reviewer (rec_reviewed_by r)"
  using lifecycle_ok_rows(1) [OF reachable_ok [OF assms(1)] assms(2)] assms(3)
  by (simp add: row_ok_def REVIEWER_REQUIRED_def is_reviewer_def)

lemma approve_returns:
  assumes "reachable db"
  shows "approve (db_for_tenant tid) db tid rid rv nt i now =
     (case find (\<lambda>r. rec_tenant_id r = tid \<and> rec_id r = rid) (db_recommendations db) of
        None \<Rightarrow> Inl (LookupError (''recommendation '' @ rid @ '' not found for tenant '' @ tid))
      | Some row \<Rightarrow>
          if rec_status row \<noteq> PENDING_APPROVAL
          then Inl (IllegalTransition (status_value (rec_status row) @ '' -> APPROVED is not allowed''))
          else if \<not> is_reviewer (Some rv)
          then Inl (IllegalTransition ''PENDING_APPROVAL -> APPROVED requires a human reviewer id'')
          else if \<exists>r \<in> set (db_recommendations db). is_live r \<and> live_key r = live_key row
          then Inl (IllegalTransition (''recommendation '' @ rid @ '' has a sibling already approved in this allocation run''))
          else let row' = row\<lparr>rec_status := APPROVED, rec_reviewed_by := Some rv, rec_reviewed_at := Some now,
                              rec_review_note := nt\<rparr>
               in Inr (changed_to db row row' (status_entry row' rv ''RECOMMENDATION_APPROVED'' nt i now), row'))"
proof -
  let ?s = "db_for_tenant tid"
  have ok: "lifecycle_ok db" using assms by (rule reachable_ok)
  have s: "ss_tenant_id ?s = tid" by (simp add: db_for_tenant_def)
  show ?thesis
  proof (cases "find (\<lambda>r. rec_tenant_id r = tid \<and> rec_id r = rid) (db_recommendations db)")
    case None
    then show ?thesis by (simp add: approve_def approve_check_def load_for_update_def find_visible [OF s])
  next
    case (Some row)
    note row = find_SomeD [OF Some]
    have load: "load_for_update ?s db tid rid = Inr row"
      using Some by (simp add: load_for_update_def find_visible [OF s])
    have st: "APPROVED \<in> set (ALLOWED_TRANSITIONS (rec_status row)) \<longleftrightarrow> rec_status row = PENDING_APPROVAL"
      by (cases "rec_status row") simp_all
    have sib: "assert_no_live_sibling ?s db row = (if \<exists>r \<in> set (db_recommendations db). is_live r \<and> live_key r = live_key row
        then Inl (IllegalTransition (''recommendation '' @ rid @ '' has a sibling already approved in this allocation run''))
        else Inr ())" if "rec_status row = PENDING_APPROVAL"
      using no_live_sibling_iff [OF ok, of row ?s "()"] row that s
      unfolding assert_no_live_sibling_def by (auto split: if_splits)
    show ?thesis
      using load st sib row flush_approved [OF ok, of row APPROVED ?s _ nt now rv]
      by (simp add: Some approve_def approve_check_def approve_write_def assert_transition_def
          REVIEWER_REQUIRED_def Let_def audit_change_def audit_append_def s changed_to_def status_entry_def) blast
  qed
qed

text \<open>
  C28. What \<open>approve\<close> returns, on every branch: a missing recommendation is a \<open>LookupError\<close>, one that is
  not pending, a blank reviewer and a live sibling are an \<open>IllegalTransition\<close>, and otherwise the row is
  approved with its reviewer, time and audit entry.  So the console's role, the constraints and the
  trigger of the database never refuse what the code has checked.
\<close>

theorem approve_outcome:
  assumes "reachable db"
  shows "approve (db_for_tenant tid) db tid rid rv nt i now =
     (case find (\<lambda>r. rec_tenant_id r = tid \<and> rec_id r = rid) (db_recommendations db) of
        None \<Rightarrow> Inl (LookupError (''recommendation '' @ rid @ '' not found for tenant '' @ tid))
      | Some row \<Rightarrow>
          if rec_status row \<noteq> PENDING_APPROVAL
          then Inl (IllegalTransition (status_value (rec_status row) @ '' -> APPROVED is not allowed''))
          else if \<not> is_reviewer (Some rv)
          then Inl (IllegalTransition ''PENDING_APPROVAL -> APPROVED requires a human reviewer id'')
          else if \<exists>r \<in> set (db_recommendations db). is_live r \<and> live_key r = live_key row
          then Inl (IllegalTransition (''recommendation '' @ rid @ '' has a sibling already approved in this allocation run''))
          else let row' = row\<lparr>rec_status := APPROVED, rec_reviewed_by := Some rv, rec_reviewed_at := Some now,
                              rec_review_note := nt\<rparr>
               in Inr (changed_to db row row' (status_entry row' rv ''RECOMMENDATION_APPROVED'' nt i now), row'))"
  using assms by (rule approve_returns)

theorem approve_outcome_witness:
  "(\<exists>db' row'. approve (db_for_tenant ''t'') sample_db ''t'' ''p'' ''ana'' None ''e'' 7 = Inr (db', row'))
   \<and> approve (db_for_tenant ''t'') sample_db ''t'' ''x'' ''ana'' None ''e'' 7
     = Inl (LookupError ''recommendation x not found for tenant t'')"
  using approve_outcome [OF sample_reachable, of "''t''" "''p''" "''ana''" None "''e''" 7]
    approve_outcome [OF sample_reachable, of "''t''" "''x''" "''ana''" None "''e''" 7]
  by (simp_all add: sample_db_def sample_pending_def sample_columns_def is_reviewer_def py_strip_eq_Nil
      is_space_def is_live_def LIVE_STATUSES_def Let_def)

lemma write_succeeds:
  assumes "lifecycle_ok db" and "row \<in> set (db_recommendations db)" "rec_status row = PENDING_APPROVAL"
    and "rec_tenant_id row = tid"
  shows "approve_write (db_for_tenant tid) db row rv nt i now =
     (let row' = row\<lparr>rec_status := APPROVED, rec_reviewed_by := Some rv, rec_reviewed_at := Some now,
                     rec_review_note := nt\<rparr>
      in Inr (changed_to db row row' (status_entry row' rv ''RECOMMENDATION_APPROVED'' nt i now), row'))"
  using flush_approved [OF assms(1-3), of APPROVED "db_for_tenant tid" _ nt now rv] assms(4)
  by (simp add: approve_write_def Let_def audit_change_def audit_append_def changed_to_def status_entry_def
      db_for_tenant_def)

text \<open>
  C39. What the sibling check does not rule out: it locks only the row it is about, so two reviewers
  who approve two pending recommendations of one subject at the same time both pass it, both writes
  succeed, and the subject has two live recommendations in the run.  The transaction that comes
  second alone is what \<open>approve\<close> guards against.
\<close>

theorem approve_race:
  assumes "reachable db" and "p \<in> set (db_recommendations db)" "q \<in> set (db_recommendations db)" and "p \<noteq> q"
    and pend: "rec_status p = PENDING_APPROVAL" "rec_status q = PENDING_APPROVAL"
    and key: "live_key q = live_key p" and t: "rec_tenant_id p = tid"
    and free: "\<forall>r \<in> set (db_recommendations db). is_live r \<longrightarrow> live_key r \<noteq> live_key p"
    and rv: "is_reviewer (Some rv)" "is_reviewer (Some rv')"
  shows "\<exists>db1 db2 p' q'. approve_check (db_for_tenant tid) db tid (rec_id p) rv = Inr p
     \<and> approve_check (db_for_tenant tid) db tid (rec_id q) rv' = Inr q
     \<and> approve_write (db_for_tenant tid) db p rv nt i now = Inr (db1, p')
     \<and> approve_write (db_for_tenant tid) db1 q rv' nt' i' now' = Inr (db2, q')
     \<and> {p', q'} \<subseteq> set (db_recommendations db2) \<and> is_live p' \<and> is_live q' \<and> p' \<noteq> q'
     \<and> live_key p' = live_key q'"
proof -
  let ?s = "db_for_tenant tid"
  have ok: "lifecycle_ok db" using assms(1) by (rule reachable_ok)
  then have d: "distinct (map rec_id (db_recommendations db))" by (simp add: lifecycle_ok_def)
  have s: "ss_tenant_id ?s = tid" by (simp add: db_for_tenant_def)
  have tq: "rec_tenant_id q = tid" using key t by (simp add: live_key_def)
  have ids: "rec_id p \<noteq> rec_id q" using d assms(2-4) by (blast dest: distinct_map_filter_inj)
  have found: "find (\<lambda>x. rec_tenant_id x = tid \<and> rec_id x = rec_id r) (db_recommendations db) = Some r"
    if r: "r \<in> set (db_recommendations db)" "rec_tenant_id r = tid" for r
  proof -
    obtain x where x: "find (\<lambda>x. rec_tenant_id x = tid \<and> rec_id x = rec_id r) (db_recommendations db) = Some x"
      using r by (cases "find (\<lambda>x. rec_tenant_id x = tid \<and> rec_id x = rec_id r) (db_recommendations db)")
        (auto simp: find_None_iff)
    then have "x = r" using find_SomeD [OF x] that(1) d by (blast dest: distinct_map_filter_inj)
    then show ?thesis using x by simp
  qed
  have check: "approve_check ?s db tid (rec_id r) v = Inr r"
    if "r \<in> set (db_recommendations db)" "rec_tenant_id r = tid" "rec_status r = PENDING_APPROVAL"
      "live_key r = live_key p" "is_reviewer (Some v)" for r v
    using that found [OF that(1,2)] no_live_sibling_iff [OF ok that(1,3), of ?s "()"] free s
    by (auto simp: approve_check_def load_for_update_def find_visible [OF s] assert_transition_def)
  let ?p = "p\<lparr>rec_status := APPROVED, rec_reviewed_by := Some rv, rec_reviewed_at := Some now, rec_review_note := nt\<rparr>"
  let ?q = "q\<lparr>rec_status := APPROVED, rec_reviewed_by := Some rv', rec_reviewed_at := Some now', rec_review_note := nt'\<rparr>"
  let ?db1 = "changed_to db p ?p (status_entry ?p rv ''RECOMMENDATION_APPROVED'' nt i now)"
  let ?db2 = "changed_to ?db1 q ?q (status_entry ?q rv' ''RECOMMENDATION_APPROVED'' nt' i' now')"
  have w1: "approve_write ?s db p rv nt i now = Inr (?db1, ?p)"
    using write_succeeds [OF ok assms(2) pend(1) t] by (simp add: Let_def)
  have "approve ?s db tid (rec_id p) rv nt i now = Inr (?db1, ?p)"
    unfolding approve_def using check [OF assms(2) t pend(1) _ rv(1)] w1 by simp
  then have ok1: "lifecycle_ok ?db1" by (rule step_approve_ok [OF ok])
  have q1: "q \<in> set (db_recommendations ?db1)" "?p \<in> set (db_recommendations ?db1)"
    using assms(2,3) ids by (auto simp: changed_to_def)
  have w2: "approve_write ?s ?db1 q rv' nt' i' now' = Inr (?db2, ?q)"
    using write_succeeds [OF ok1 q1(1) pend(2) tq] by (simp add: Let_def)
  have "{?p, ?q} \<subseteq> set (db_recommendations ?db2)"
    using q1 ids unfolding changed_to_def [of ?db1] by auto
  moreover have "?p \<noteq> ?q"
  proof
    assume "?p = ?q"
    then have "rec_id ?p = rec_id ?q" by (rule arg_cong)
    then show False using ids by simp
  qed
  moreover have "is_live ?p" "is_live ?q" "live_key ?p = live_key ?q"
    using key by (simp_all add: is_live_def LIVE_STATUSES_def live_key_def)
  ultimately show ?thesis
    using check [OF assms(2) t pend(1) _ rv(1)] check [OF assms(3) tq pend(2) key rv(2)] w1 w2 by blast
qed

theorem approve_race_witness:
  "\<exists>db1 db2 p' q'. approve_write (db_for_tenant ''t'') sample_db (sample_pending ''p'') ''ana'' None ''e'' 7 = Inr (db1, p')
     \<and> approve_write (db_for_tenant ''t'') db1 (sample_pending ''q'') ''budi'' None ''f'' 8 = Inr (db2, q')
     \<and> is_live p' \<and> is_live q' \<and> p' \<noteq> q'"
proof -
  have "sample_pending ''p'' \<in> set (db_recommendations sample_db)" "sample_pending ''q'' \<in> set (db_recommendations sample_db)"
    "sample_pending ''p'' \<noteq> sample_pending ''q''" "rec_status (sample_pending ''p'') = PENDING_APPROVAL"
    "rec_status (sample_pending ''q'') = PENDING_APPROVAL" "live_key (sample_pending ''q'') = live_key (sample_pending ''p'')"
    "rec_tenant_id (sample_pending ''p'') = ''t''"
    "\<forall>r \<in> set (db_recommendations sample_db). is_live r \<longrightarrow> live_key r \<noteq> live_key (sample_pending ''p'')"
    "is_reviewer (Some ''ana'')" "is_reviewer (Some ''budi'')"
    by code_simp+
  from approve_race [OF sample_reachable this] show ?thesis by blast
qed

text \<open>
  The worker's role cannot approve by updating: an UPDATE in a worker session that the database
  accepts leaves the reviewer columns and the decision as they are, and makes no recommendation
  approved or rejected that was not.
\<close>

theorem worker_update_cannot_approve:
  assumes "reachable db" and "row \<in> set (db_recommendations db)"
    and "flush_update (db_for_ingest tid) db row row' = Inr db'"
  shows "rec_reviewed_by row' = rec_reviewed_by row \<and> rec_reviewed_at row' = rec_reviewed_at row
     \<and> decision_of row' = decision_of row
     \<and> (rec_status row' \<in> {APPROVED, REJECTED} \<longrightarrow> rec_status row' = rec_status row)"
proof -
  have granted: "set (changed_columns row row') \<subseteq> {STATUS, DELIVERED_AT, DELIVERY_REF}"
    and tr: "trigger_ok row row'" and ck: "checks_ok row'"
    using assms(3) by (auto simp: flush_update_def db_for_ingest_def split: if_splits)
  have rby: "rec_reviewed_by row' = rec_reviewed_by row" and at: "rec_reviewed_at row' = rec_reviewed_at row"
    and other: "OTHER_COLUMN \<notin> set (changed_columns row row')"
    using granted by (auto simp: changed_columns_def split: if_splits)
  let ?r = "row\<lparr>rec_status := rec_status row', rec_reviewed_by := rec_reviewed_by row',
      rec_reviewed_at := rec_reviewed_at row', rec_review_note := rec_review_note row',
      rec_delivered_at := rec_delivered_at row', rec_delivery_ref := rec_delivery_ref row'\<rparr>"
  have "?r = row'" using other by (rule contrapos_np) (simp add: changed_columns_def)
  then have "decision_of row' = decision_of ?r" by simp
  also have "\<dots> = decision_of row" by (simp add: decision_of_def)
  finally have "decision_of row' = decision_of row" .
  moreover have "rec_reviewed_by row = None" if "rec_status row = PENDING_APPROVAL"
    using lifecycle_ok_rows(1) [OF reachable_ok [OF assms(1)] assms(2)] that by (simp add: row_ok_def)
  then have "rec_status row' = rec_status row" if "rec_status row' \<in> {APPROVED, REJECTED}"
    using tr ck rby that by (auto simp: trigger_ok_def checks_ok_def)
  ultimately show ?thesis using rby at by blast
qed

text \<open>
  By inserting it can: nothing in the database refuses a worker session that inserts a row that is
  already approved, since INSERT is granted on every column and the trigger is on UPDATE only.  The
  code does not do it, for \<open>create_pending\<close> sets the status itself.
\<close>

theorem worker_insert_may_approve:
  assumes "rec_tenant_id row = tid" and "checks_ok row" and "rec_id row \<notin> rec_id ` set (db_recommendations db)"
  shows "flush_insert (db_for_ingest tid) db row
           = Inr (db\<lparr>db_recommendations := db_recommendations db @ [row]\<rparr>)
     \<and> (create_pending (db_for_ingest tid) db tid row i now = Inr (db', row') \<longrightarrow> rec_status row' = PENDING_APPROVAL)"
  using assms create_pending_Inr [of "db_for_ingest tid" db tid row i now db' row']
  by (auto simp: flush_insert_def db_for_ingest_def list_ex_iff image_iff)

theorem worker_insert_may_approve_witness:
  "\<exists>row. rec_status row = APPROVED \<and> flush_insert (db_for_ingest ''t'') sample_db row
           = Inr (sample_db\<lparr>db_recommendations := db_recommendations sample_db @ [row]\<rparr>)"
proof -
  let ?row = "(sample_pending ''r'')\<lparr>rec_status := APPROVED, rec_reviewed_by := Some ''x'', rec_reviewed_at := Some 1\<rparr>"
  have "rec_tenant_id ?row = ''t''" "checks_ok ?row" "rec_id ?row \<notin> rec_id ` set (db_recommendations sample_db)"
    by code_simp+
  from worker_insert_may_approve [OF this, of "''i''" 0] show ?thesis by (intro exI [of _ ?row]) simp
qed

theorem worker_update_cannot_approve_witness:
  "\<exists>db' row'. flush_update (db_for_ingest ''t'') sample_db (sample_pending ''p'') row' = Inr db'
     \<and> rec_status row' = EXPIRED \<and> rec_reviewed_by row' = None"
proof -
  let ?row = "(sample_pending ''p'')\<lparr>rec_status := EXPIRED\<rparr>"
  have "sample_pending ''p'' \<in> set (db_recommendations sample_db)" by code_simp
  moreover have "flush_update (db_for_ingest ''t'') sample_db (sample_pending ''p'') ?row =
      Inr (sample_db\<lparr>db_recommendations := [?row, sample_pending ''q'']\<rparr>)" by code_simp
  ultimately show ?thesis
    using worker_update_cannot_approve [OF sample_reachable, of "sample_pending ''p''" "''t''" ?row]
    by (intro exI [of _ "sample_db\<lparr>db_recommendations := [?row, sample_pending ''q'']\<rparr>"] exI [of _ ?row])
       (simp add: sample_pending_def sample_columns_def)
qed

end
