(* ===== verification/Web.thy ===== *)
theory Web
  imports Lifecycle
begin

text \<open>
  The recommendation surface of the HTTP API: the error envelope (\<open>api/errors.py\<close>), the tenant's
  transaction (\<open>persistence/session.py\<close>, \<open>api/deps.py\<close>), the console's approval gate
  (\<open>api/routers/console/recommendations.py\<close>) and the client's pull and delivery acknowledgement
  (\<open>api/routers/ingest.py\<close>).  A handler takes the database and returns its response or the
  exception it raises, with the database its transaction leaves.  \<open>uuid.UUID\<close> of the standard
  library is written out; the text form of a time is a parameter.
\<close>

section \<open>errors.py\<close>

record api_error =
  ae_code :: string
  ae_http_status :: int
  ae_message :: string
  ae_details :: "(string \<times> json) list"

definition validation_failed :: "string \<Rightarrow> (string \<times> json) list \<Rightarrow> api_error" where
  "validation_failed message details =
     \<lparr>ae_code = ''VALIDATION_FAILED'', ae_http_status = 400, ae_message = message, ae_details = details\<rparr>"

definition unauthenticated :: "string \<Rightarrow> api_error" where
  "unauthenticated message =
     \<lparr>ae_code = ''UNAUTHENTICATED'', ae_http_status = 401, ae_message = message, ae_details = []\<rparr>"

definition forbidden :: "string \<Rightarrow> api_error" where
  "forbidden message = \<lparr>ae_code = ''FORBIDDEN'', ae_http_status = 403, ae_message = message, ae_details = []\<rparr>"

definition not_found :: "string \<Rightarrow> api_error" where
  "not_found message = \<lparr>ae_code = ''NOT_FOUND'', ae_http_status = 404, ae_message = message, ae_details = []\<rparr>"

definition conflict :: "string \<Rightarrow> api_error" where
  "conflict message = \<lparr>ae_code = ''CONFLICT'', ae_http_status = 409, ae_message = message, ae_details = []\<rparr>"

definition payload_too_large :: "string \<Rightarrow> api_error" where
  "payload_too_large message =
     \<lparr>ae_code = ''PAYLOAD_TOO_LARGE'', ae_http_status = 413, ae_message = message, ae_details = []\<rparr>"

definition rate_limited :: "int \<Rightarrow> api_error" where
  "rate_limited retry_after_seconds =
     \<lparr>ae_code = ''RATE_LIMITED'', ae_http_status = 429, ae_message = ''Too many requests'',
      ae_details = [(''retry_after_seconds'', JInt retry_after_seconds)]\<rparr>"

definition internal_error :: "string \<Rightarrow> api_error" where
  "internal_error message = \<lparr>ae_code = ''INTERNAL'', ae_http_status = 500, ae_message = message, ae_details = []\<rparr>"

text \<open>What a handler may raise: an \<open>ApiError\<close>, or any other exception.\<close>

datatype api_exn = ApiError api_error | Raised exn

type_synonym 'a handled = "api_exn + 'a"

definition bind_handled :: "'a handled \<Rightarrow> ('a \<Rightarrow> 'b handled) \<Rightarrow> 'b handled" where
  "bind_handled m f = (case m of Inl e \<Rightarrow> Inl e | Inr x \<Rightarrow> f x)"

lemma bind_handled_simps [simp]:
  "bind_handled (Inl e) f = Inl e"
  "bind_handled (Inr x) f = f x"
  by (simp_all add: bind_handled_def)

record envelope =
  en_status_code :: int
  en_headers :: "(string \<times> string) list"
  en_error :: api_error
  en_request_id :: string

definition render_envelope :: "string option \<Rightarrow> api_error \<Rightarrow> envelope" where
  "render_envelope request_id err =
     \<lparr>en_status_code = ae_http_status err,
      en_headers = (case map_of (ae_details err) ''retry_after_seconds'' of
                      Some (JInt n) \<Rightarrow> if ae_code err = ''RATE_LIMITED'' then [(''Retry-After'', show_int n)] else []
                    | _ \<Rightarrow> []),
      en_error = err,
      en_request_id = (case request_id of Some i \<Rightarrow> if i = [] then ''unknown'' else i | None \<Rightarrow> ''unknown'')\<rparr>"

definition respond :: "string option \<Rightarrow> 'a handled \<Rightarrow> envelope + 'a" where
  "respond request_id out = (case out of
      Inr body \<Rightarrow> Inr body
    | Inl (ApiError err) \<Rightarrow> Inl (render_envelope request_id err)
    | Inl (Raised _) \<Rightarrow> Inl (render_envelope request_id (internal_error ''Internal error'')))"

section \<open>\<open>uuid.UUID\<close>\<close>

fun starts_with :: "string \<Rightarrow> string \<Rightarrow> bool" where
  "starts_with [] s = True"
| "starts_with (c # p) [] = False"
| "starts_with (c # p) (d # s) = (c = d \<and> starts_with p s)"

text \<open>\<open>s.replace(p, '')\<close> for a non-empty \<open>p\<close>.\<close>

function remove_sub :: "string \<Rightarrow> string \<Rightarrow> string" where
  "remove_sub p [] = []"
| "remove_sub p (c # s) =
     (if p \<noteq> [] \<and> starts_with p (c # s) then remove_sub p (drop (length p) (c # s)) else c # remove_sub p s)"
  by pat_completeness auto
termination by (relation "measure (\<lambda>(p, s). length s)") auto

definition hex_value :: "char \<Rightarrow> int option" where
  "hex_value c = (let n = of_char c :: int in
     if 48 \<le> n \<and> n \<le> 57 then Some (n - 48)
     else if 97 \<le> n \<and> n \<le> 102 then Some (n - 87)
     else if 65 \<le> n \<and> n \<le> 70 then Some (n - 55) else None)"

text \<open>\<open>int(s, 16)\<close>: blanks around, a sign, the prefix \<open>0x\<close>, and single underscores between digits.\<close>

fun digits16 :: "int \<Rightarrow> bool \<Rightarrow> string \<Rightarrow> int option" where
  "digits16 acc after_digit [] = (if after_digit then Some acc else None)"
| "digits16 acc after_digit (c # cs) =
     (if c = CHR ''_'' then (if after_digit then digits16 acc False cs else None)
      else case hex_value c of None \<Rightarrow> None | Some d \<Rightarrow> digits16 (acc * 16 + d) True cs)"

definition unprefixed16 :: "string \<Rightarrow> int option" where
  "unprefixed16 s =
     (if starts_with ''0x'' s \<or> starts_with ''0X'' s
      then digits16 0 False (if starts_with ''_'' (drop 2 s) then drop 3 s else drop 2 s)
      else digits16 0 False s)"

definition int16 :: "string \<Rightarrow> int option" where
  "int16 s = (case py_strip s of
      [] \<Rightarrow> None
    | c # cs \<Rightarrow> if c = CHR ''-'' then map_option uminus (unprefixed16 cs)
                else if c = CHR ''+'' then unprefixed16 cs else unprefixed16 (c # cs))"

definition is_brace :: "char \<Rightarrow> bool" where
  "is_brace c \<longleftrightarrow> c = CHR ''{'' \<or> c = CHR ''}''"

definition uuid_hex :: "string \<Rightarrow> string" where
  "uuid_hex s = filter (\<lambda>c. c \<noteq> CHR ''-'')
     (rev (dropWhile is_brace (rev (dropWhile is_brace (remove_sub ''uuid:'' (remove_sub ''urn:'' s))))))"

definition hex_digit :: "int \<Rightarrow> char" where
  "hex_digit n = char_of (nat (if n < 10 then 48 + n else 87 + n))"

fun hex_text :: "nat \<Rightarrow> int \<Rightarrow> string" where
  "hex_text 0 n = []"
| "hex_text (Suc k) n = hex_text k (n div 16) @ [hex_digit (n mod 16)]"

text \<open>The value as \<open>str\<close> prints it, or \<open>None\<close> for a \<open>ValueError\<close>.\<close>

definition parse_uuid :: "string \<Rightarrow> string option" where
  "parse_uuid s = (let h = uuid_hex s in
     if length h \<noteq> 32 then None
     else case int16 h of
         None \<Rightarrow> None
       | Some n \<Rightarrow> if 0 \<le> n \<and> n < 2 ^ 128
                   then let t = hex_text 32 n in
                        Some (take 8 t @ ''-'' @ take 4 (drop 8 t) @ ''-'' @ take 4 (drop 12 t) @ ''-''
                              @ take 4 (drop 16 t) @ ''-'' @ drop 20 t)
                   else None)"

section \<open>Sessions\<close>

text \<open>
  \<open>tenant_session\<close>: the tenant id is checked to be a UUID before it is put into the text of
  \<open>SET LOCAL\<close>; the body's changes are committed when it returns and rolled back when it raises.
\<close>

definition assert_safe_identifier :: "string \<Rightarrow> unit result" where
  "assert_safe_identifier v =
     (case parse_uuid v of None \<Rightarrow> Inl (ValueError ''badly formed hexadecimal UUID string'') | Some _ \<Rightarrow> Inr ())"

definition tenant_session ::
  "db_session \<Rightarrow> (db_session \<Rightarrow> 'db \<Rightarrow> ('db \<times> 'a) handled) \<Rightarrow> 'db \<Rightarrow> 'a handled \<times> 'db" where
  "tenant_session s body db =
     (case assert_safe_identifier (ss_tenant_id s) of
        Inl e \<Rightarrow> (Inl (Raised e), db)
      | Inr _ \<Rightarrow> (case body s db of Inl e \<Rightarrow> (Inl e, db) | Inr (db', x) \<Rightarrow> (Inr x, db')))"

section \<open>console/recommendations.py\<close>

record recommendation_out =
  ro_id :: string
  ro_allocation_run_id :: string
  ro_subject_type :: string
  ro_user_pseudonym :: "string option"
  ro_circle_id :: "string option"
  ro_incentive_code :: string
  ro_cost_idr :: int
  ro_priority_idr :: int
  ro_user_rank :: int
  ro_is_runner_up :: bool
  ro_status :: string
  ro_reason_text :: "string option"
  ro_reason_source :: "string option"
  ro_created_at :: string
  ro_submitted_at :: "string option"
  ro_reviewed_by :: "string option"
  ro_reviewed_at :: "string option"
  ro_review_note :: "string option"
  ro_delivered_at :: "string option"

definition to_out :: "(instant \<Rightarrow> string) \<Rightarrow> recommendation \<Rightarrow> recommendation_out" where
  "to_out isoformat row =
     \<lparr>ro_id = rec_id row, ro_allocation_run_id = rec_allocation_run_id row, ro_subject_type = rec_subject_type row,
      ro_user_pseudonym = rec_user_pseudonym row, ro_circle_id = rec_circle_id row,
      ro_incentive_code = rec_incentive_code row, ro_cost_idr = rec_cost_idr row,
      ro_priority_idr = rec_priority_idr row, ro_user_rank = rec_user_rank row,
      ro_is_runner_up = rec_is_runner_up row, ro_status = status_value (rec_status row),
      ro_reason_text = rec_reason_text row, ro_reason_source = rec_reason_source row,
      ro_created_at = isoformat (rec_created_at row),
      ro_submitted_at = map_option isoformat (rec_submitted_at row),
      ro_reviewed_by = rec_reviewed_by row,
      ro_reviewed_at = map_option isoformat (rec_reviewed_at row),
      ro_review_note = rec_review_note row,
      ro_delivered_at = map_option isoformat (rec_delivered_at row)\<rparr>"

record 'a page =
  pg_items :: "'a list"
  pg_next_cursor :: "string option"

definition VALID_STATUSES :: "recommendation_status list" where
  "VALID_STATUSES = [DRAFT, PENDING_APPROVAL, APPROVED, REJECTED, EXPIRED, DELIVERED]"

text \<open>The statuses of the enum a list of strings names; the others are dropped.\<close>

definition valid_statuses :: "string list \<Rightarrow> recommendation_status list" where
  "valid_statuses ss = List.map_filter (\<lambda>s. find (\<lambda>st. status_value st = s) VALID_STATUSES) ss"

text \<open>The bounds of a \<open>Query\<close> parameter: outside them request validation answers before the handler.\<close>

definition check_query :: "bool \<Rightarrow> 'a handled \<times> 'db \<Rightarrow> 'db \<Rightarrow> 'a handled \<times> 'db" where
  "check_query ok run db =
     (if ok then run
      else (Inl (ApiError (validation_failed ''Request body or parameters failed validation'' [])), db))"

text \<open>\<open>OFFSET\<close> must not be negative: the database raises.\<close>

definition select_page :: "int \<Rightarrow> (nat \<Rightarrow> 'a list) \<Rightarrow> 'a list handled" where
  "select_page offset rows =
     (if offset < 0 then Inl (Raised (RuntimeError ''OFFSET must not be negative'')) else Inr (rows (nat offset)))"

definition next_cursor :: "int \<Rightarrow> int \<Rightarrow> nat \<Rightarrow> string option" where
  "next_cursor cursor limit n = (if int n = limit then Some (show_int (cursor + limit)) else None)"

record console_session =
  cs_reviewer_id :: string
  cs_tenant_id :: string

definition list_recommendations ::
  "(instant \<Rightarrow> string) \<Rightarrow> string list option \<Rightarrow> int \<Rightarrow> int \<Rightarrow> console_session \<Rightarrow> database \<Rightarrow>
   recommendation_out page handled \<times> database" where
  "list_recommendations isoformat statuses limit cursor console db =
     check_query (1 \<le> limit \<and> limit \<le> 500 \<and> 0 \<le> cursor)
       (tenant_session (db_for_tenant (cs_tenant_id console))
          (\<lambda>s db. bind_handled
             (select_page cursor (\<lambda>off. case statuses of
                 Some (x # xs) \<Rightarrow> list_by_statuses s db (cs_tenant_id console) (valid_statuses (x # xs)) (nat limit) off
               | _ \<Rightarrow> list_pending s db (cs_tenant_id console) (nat limit) off))
             (\<lambda>rows. Inr (db, \<lparr>pg_items = map (to_out isoformat) rows,
                               pg_next_cursor = next_cursor cursor limit (length rows)\<rparr>))) db) db"

text \<open>The repository's exceptions as the handlers translate them.\<close>

definition translated :: "'a result \<Rightarrow> 'a handled" where
  "translated r = (case r of
      Inr x \<Rightarrow> Inr x
    | Inl (LookupError m) \<Rightarrow> Inl (ApiError (not_found m))
    | Inl (IllegalTransition m) \<Rightarrow> Inl (ApiError (conflict m))
    | Inl e \<Rightarrow> Inl (Raised e))"

definition console_get ::
  "(instant \<Rightarrow> string) \<Rightarrow> string \<Rightarrow> console_session \<Rightarrow> database \<Rightarrow> recommendation_out handled \<times> database" where
  "console_get isoformat rid console db =
     (case parse_uuid rid of
        None \<Rightarrow> (Inl (ApiError (not_found ''recommendation not found'')), db)
      | Some u \<Rightarrow> tenant_session (db_for_tenant (cs_tenant_id console))
          (\<lambda>s db. case get_recommendation s db (cs_tenant_id console) u of
             None \<Rightarrow> Inl (ApiError (not_found (''recommendation '' @ rid @ '' not found'')))
           | Some row \<Rightarrow> Inr (db, to_out isoformat row)) db)"

definition approve_recommendation ::
  "(instant \<Rightarrow> string) \<Rightarrow> string \<Rightarrow> string option \<Rightarrow> console_session \<Rightarrow> string \<Rightarrow> instant \<Rightarrow> database \<Rightarrow>
   recommendation_out handled \<times> database" where
  "approve_recommendation isoformat rid note console fresh_id now db =
     (case parse_uuid rid of
        None \<Rightarrow> (Inl (ApiError (not_found ''recommendation not found'')), db)
      | Some u \<Rightarrow> tenant_session (db_for_tenant (cs_tenant_id console))
          (\<lambda>s db. bind_handled
             (translated (approve s db (cs_tenant_id console) u (cs_reviewer_id console) note fresh_id now))
             (\<lambda>(db', row). Inr (db', to_out isoformat row))) db)"

definition reject_recommendation ::
  "(instant \<Rightarrow> string) \<Rightarrow> string \<Rightarrow> string option \<Rightarrow> console_session \<Rightarrow> string \<Rightarrow> instant \<Rightarrow> database \<Rightarrow>
   recommendation_out handled \<times> database" where
  "reject_recommendation isoformat rid note console fresh_id now db =
     (case parse_uuid rid of
        None \<Rightarrow> (Inl (ApiError (not_found ''recommendation not found'')), db)
      | Some u \<Rightarrow> tenant_session (db_for_tenant (cs_tenant_id console))
          (\<lambda>s db. bind_handled
             (translated (reject s db (cs_tenant_id console) u (cs_reviewer_id console) note fresh_id now))
             (\<lambda>(db', row). Inr (db', to_out isoformat row))) db)"

definition console_delivery_ack ::
  "(instant \<Rightarrow> string) \<Rightarrow> string \<Rightarrow> string option \<Rightarrow> console_session \<Rightarrow> string \<Rightarrow> instant \<Rightarrow> database \<Rightarrow>
   recommendation_out handled \<times> database" where
  "console_delivery_ack isoformat rid delivery_ref console fresh_id now db =
     (case parse_uuid rid of
        None \<Rightarrow> (Inl (ApiError (not_found ''recommendation not found'')), db)
      | Some u \<Rightarrow> tenant_session (db_for_ingest (cs_tenant_id console))
          (\<lambda>s db. bind_handled
             (translated (mark_delivered s db (cs_tenant_id console) u delivery_ref (cs_reviewer_id console) fresh_id now))
             (\<lambda>(db', row). Inr (db', to_out isoformat row))) db)"

section \<open>ingest.py, the pull surface\<close>

record pulled_out =
  po_recommendation_id :: string
  po_subject_type :: string
  po_user_pseudonym :: "string option"
  po_circle_id :: "string option"
  po_incentive_code :: string
  po_cost_idr :: int
  po_reason_text :: "string option"
  po_approved_at :: "string option"
  po_expires_at :: "string option"

definition to_pulled :: "(instant \<Rightarrow> string) \<Rightarrow> recommendation \<Rightarrow> pulled_out" where
  "to_pulled isoformat r =
     \<lparr>po_recommendation_id = rec_id r, po_subject_type = rec_subject_type r,
      po_user_pseudonym = rec_user_pseudonym r, po_circle_id = rec_circle_id r,
      po_incentive_code = rec_incentive_code r, po_cost_idr = rec_cost_idr r, po_reason_text = rec_reason_text r,
      po_approved_at = map_option isoformat (rec_reviewed_at r), po_expires_at = None\<rparr>"

text \<open>Here \<open>cursor\<close> has no lower bound.\<close>

definition list_approved_recommendations ::
  "(instant \<Rightarrow> string) \<Rightarrow> string \<Rightarrow> int \<Rightarrow> int \<Rightarrow> string \<Rightarrow> database \<Rightarrow> pulled_out page handled \<times> database" where
  "list_approved_recommendations isoformat status limit cursor tid db =
     check_query (1 \<le> limit \<and> limit \<le> 500)
       (if status \<noteq> ''APPROVED''
        then (Inl (ApiError (forbidden ''status must be APPROVED; no other value is ever returned on this surface'')), db)
        else tenant_session (db_for_ingest tid)
          (\<lambda>s db. bind_handled (select_page cursor (list_approved s db tid (nat limit)))
             (\<lambda>rows. Inr (db, \<lparr>pg_items = map (to_pulled isoformat) rows,
                               pg_next_cursor = next_cursor cursor limit (length rows)\<rparr>))) db) db"

definition delivery_ack ::
  "string \<Rightarrow> string option \<Rightarrow> string \<Rightarrow> string \<Rightarrow> instant \<Rightarrow> database \<Rightarrow> (string \<times> string) handled \<times> database" where
  "delivery_ack rid delivery_ref tid fresh_id now db =
     (case parse_uuid rid of
        None \<Rightarrow> (Inl (ApiError (not_found ''recommendation not found'')), db)
      | Some u \<Rightarrow> tenant_session (db_for_ingest tid)
          (\<lambda>s db. bind_handled (translated (mark_delivered s db tid u delivery_ref ''api_delivery_ack'' fresh_id now))
             (\<lambda>(db', row). Inr (db', (rec_id row, status_value (rec_status row))))) db)"

section \<open>UUIDs\<close>

lemma starts_with_iff: "starts_with p s \<longleftrightarrow> take (length p) s = p"
  by (induction p s rule: starts_with.induct) auto

lemma remove_sub_chars: "set s \<subseteq> set (remove_sub p s) \<union> set p"
proof (induction p s rule: remove_sub.induct)
  case (2 p c s)
  show ?case
  proof (cases "p \<noteq> [] \<and> starts_with p (c # s)")
    case True
    then have "take (length p) (c # s) = p" by (simp add: starts_with_iff)
    then have "c # s = p @ drop (length p) (c # s)" by (metis append_take_drop_id)
    then have "set (c # s) = set p \<union> set (drop (length p) (c # s))" by (metis set_append)
    then show ?thesis using 2(1) [OF True] True by auto
  next
    case False
    then show ?thesis using 2(2) [OF False] by auto
  qed
qed simp

lemma remove_sub_id: "hd p \<notin> set s \<Longrightarrow> remove_sub p s = s"
proof (induction p s rule: remove_sub.induct)
  case (2 p c s)
  then have no: "\<not> (p \<noteq> [] \<and> starts_with p (c # s))" by (cases p) auto
  have "remove_sub p s = s" using 2(2) [OF no] 2(3) by simp
  with no show ?case by (simp only: remove_sub.simps if_False)
qed simp

lemma digits16_chars: "digits16 acc b s = Some n \<Longrightarrow> c \<in> set s \<Longrightarrow> c = CHR ''_'' \<or> hex_value c \<noteq> None"
  by (induction acc b s rule: digits16.induct) (auto split: if_splits option.splits)

lemma dropWhile_keeps: "c \<in> set s \<Longrightarrow> c \<in> set (dropWhile P s) \<or> P c"
  by (induction s) auto

lemma py_strip_chars: "c \<in> set s \<Longrightarrow> c \<in> set (py_strip s) \<or> is_space c"
  using dropWhile_keeps [of c s is_space] dropWhile_keeps [of c "rev (dropWhile is_space s)" is_space]
  by (auto simp: py_strip_def)

lemma starts_with_drop:
  "starts_with p s \<Longrightarrow> c \<in> set s \<Longrightarrow> c \<in> set p \<or> c \<in> set (drop (length p) s)"
  by (metis Un_iff append_take_drop_id set_append starts_with_iff)

lemma unprefixed16_chars:
  assumes "unprefixed16 s = Some n" and "c \<in> set s"
  shows "c \<in> set ''0xX_'' \<or> hex_value c \<noteq> None"
proof (cases "starts_with ''0x'' s \<or> starts_with ''0X'' s")
  case True
  let ?t = "drop 2 s"
  have c: "c \<in> set ''0xX'' \<or> c \<in> set ?t"
    using True assms(2) starts_with_drop [of "''0x''" s c] starts_with_drop [of "''0X''" s c] by (auto simp: numeral_2_eq_2)
  show ?thesis
  proof (cases "starts_with ''_'' ?t")
    case True': True
    have "c \<in> set ?t \<Longrightarrow> c \<in> set ''_'' \<or> c \<in> set (drop 3 s)"
      using starts_with_drop [OF True', of c] by (simp add: eval_nat_numeral)
    then show ?thesis using c True True' assms(1) digits16_chars [of 0 False "drop 3 s" n c]
      by (auto simp: unprefixed16_def)
  next
    case False
    then show ?thesis using c True assms(1) digits16_chars [of 0 False ?t n c]
      by (auto simp: unprefixed16_def)
  qed
next
  case False
  then show ?thesis using assms digits16_chars [of 0 False s n c] by (auto simp: unprefixed16_def)
qed

lemma int16_chars:
  assumes "int16 s = Some n" and "c \<in> set s"
  shows "is_space c \<or> c \<in> set ''0xX_+-'' \<or> hex_value c \<noteq> None"
proof (cases "py_strip s")
  case Nil
  then show ?thesis using py_strip_chars [OF assms(2)] by simp
next
  case (Cons d ds)
  then have "c = d \<or> c \<in> set ds \<or> is_space c" using py_strip_chars [OF assms(2)] by auto
  then show ?thesis
    using assms(1) Cons unprefixed16_chars [of ds _ c] unprefixed16_chars [of "d # ds" n c]
    by (auto simp: int16_def split: if_splits)
qed

lemma uuid_hex_chars:
  assumes "c \<in> set s"
  shows "c \<in> set (uuid_hex s) \<or> c \<in> set ''urn:uuid:-{}''"
proof -
  let ?a = "remove_sub ''urn:'' s"
  let ?b = "remove_sub ''uuid:'' ?a"
  have b: "c \<in> set ?b \<or> c \<in> set ''urn:'' \<or> c \<in> set ''uuid:''"
    using assms remove_sub_chars [of s "''urn:''"] remove_sub_chars [of ?a "''uuid:''"] by blast
  let ?t = "dropWhile is_brace (rev (dropWhile is_brace ?b))"
  have "c \<in> set ?b \<Longrightarrow> c \<in> set ?t \<or> is_brace c"
    using dropWhile_keeps [of c ?b is_brace] dropWhile_keeps [of c "rev (dropWhile is_brace ?b)" is_brace]
    unfolding set_rev by blast
  moreover have "c \<in> set (uuid_hex s) \<longleftrightarrow> c \<in> set ?t \<and> c \<noteq> CHR ''-''" by (simp add: uuid_hex_def)
  moreover have "is_brace c \<Longrightarrow> c \<in> set ''urn:uuid:-{}''" by (auto simp: is_brace_def)
  moreover have "c \<in> set ''urn:'' \<or> c \<in> set ''uuid:'' \<Longrightarrow> c \<in> set ''urn:uuid:-{}''" by auto
  moreover have "CHR ''-'' \<in> set ''urn:uuid:-{}''" by simp
  ultimately show ?thesis using b by blast
qed

text \<open>
  The text that \<open>tenant_session\<close> lets into \<open>SET LOCAL app.tenant_id = '...'\<close> cannot leave its
  quotes: whatever \<open>uuid.UUID\<close> accepts, blanks, underscores and prefixes included, has no quote,
  backslash, semicolon or dollar sign in it; and when the body of a session raises, the database is
  the one it started from.
\<close>

theorem session_text_is_safe:
  assumes "tenant_session s body db = (out, db')"
  shows "(db' \<noteq> db \<longrightarrow> (\<exists>x. out = Inr x))
     \<and> (out \<noteq> Inl (Raised (ValueError ''badly formed hexadecimal UUID string'')) \<longrightarrow>
          set (ss_tenant_id s) \<inter> {CHR 0x27, CHR 0x5C, CHR '';'', CHR ''$''} = {})"
proof -
  have safe: "c \<notin> {CHR 0x27, CHR 0x5C, CHR '';'', CHR ''$''}" if p: "parse_uuid v = Some u" "c \<in> set v" for u v c
  proof -
    obtain n where "int16 (uuid_hex v) = Some n"
      using p(1) by (auto simp: parse_uuid_def Let_def split: if_splits option.splits)
    then have "is_space c \<or> c \<in> set ''0xX_+-'' \<or> hex_value c \<noteq> None \<or> c \<in> set ''urn:uuid:-{}''"
      using int16_chars uuid_hex_chars [OF p(2)] by blast
    then show ?thesis by (auto simp: is_space_def hex_value_def Let_def split: if_splits)
  qed
  show ?thesis
    using assms safe [of "ss_tenant_id s"]
    by (auto simp: tenant_session_def assert_safe_identifier_def split: option.splits sum.splits)
qed

theorem session_text_is_safe_witness:
  "set ''12345678-1234-5678-1234-56789abcdef0'' \<inter> {CHR 0x27, CHR 0x5C, CHR '';'', CHR ''$''} = {}"
proof -
  have "tenant_session (db_for_tenant ''12345678-1234-5678-1234-56789abcdef0'') (\<lambda>s db. Inr (db, ())) (0 :: nat)
      = (Inr (), 0)" by code_simp
  from session_text_is_safe [OF this] show ?thesis by (simp add: db_for_tenant_def)
qed

lemma hex_text_length [simp]: "length (hex_text k n) = k"
  by (induction k arbitrary: n) auto

lemma hex_digit_cases:
  assumes "0 \<le> d" "d < (16 :: int)"
  shows "hex_value (hex_digit d) = Some d \<and> \<not> is_space (hex_digit d)
    \<and> hex_digit d \<notin> set ''_-+xX{}ur'' \<and> hex_digit d \<in> set ''0123456789abcdef''"
proof -
  have "d = 0 \<or> d = 1 \<or> d = 2 \<or> d = 3 \<or> d = 4 \<or> d = 5 \<or> d = 6 \<or> d = 7 \<or> d = 8 \<or> d = 9
     \<or> d = 10 \<or> d = 11 \<or> d = 12 \<or> d = 13 \<or> d = 14 \<or> d = 15" using assms by presburger
  then show ?thesis
    by (elim disjE) (simp_all add: hex_digit_def hex_value_def is_space_def char_of_def of_char_def Let_def bit_Suc_0_iff)
qed

lemma hex_text_chars: "c \<in> set (hex_text k n) \<Longrightarrow> \<exists>d. 0 \<le> d \<and> d < 16 \<and> c = hex_digit d"
  by (induction k arbitrary: n) (auto intro: pos_mod_bound pos_mod_sign exI [of _ "_ mod 16"])

lemma digits16_hex_text:
  "digits16 acc b (hex_text k n @ rest) = digits16 (acc * 16 ^ k + n mod 16 ^ k) (b \<or> 0 < k) rest"
proof (induction k arbitrary: n rest)
  case (Suc k)
  have "n mod 16 ^ Suc k = 16 * ((n div 16) mod 16 ^ k) + n mod 16"
    using zmod_zmult2_eq [of "16 ^ k" n 16] by (simp add: mult.commute)
  then show ?case
    using Suc [of "n div 16" "hex_digit (n mod 16) # rest"] hex_digit_cases [of "n mod 16"]
    by (auto simp: algebra_simps)
qed simp

lemma int16_hex_text:
  assumes "0 \<le> n" "n < 16 ^ k" "0 < k"
  shows "int16 (hex_text k n) = Some n"
proof -
  let ?t = "hex_text k n"
  have plain: "\<not> is_space c \<and> c \<notin> set ''_-+xX{}ur''" if "c \<in> set ?t" for c
    using hex_text_chars [OF that] hex_digit_cases by blast
  have strip: "py_strip ?t = ?t"
    unfolding py_strip_def using plain by (metis dropWhile_eq_self_iff hd_in_set rev_rev_ident set_rev)
  have no_x: "\<not> starts_with ''0x'' ?t" "\<not> starts_with ''0X'' ?t"
    using plain by (auto simp: starts_with_iff dest: in_set_takeD) (metis in_set_takeD list.set_intros(1,2))+
  obtain c cs where t: "?t = c # cs" using assms(3) hex_text_length [of k n] by (cases ?t) auto
  have "c \<noteq> CHR ''-''" "c \<noteq> CHR ''+''" using plain [of c] t by auto
  then have "int16 ?t = unprefixed16 ?t" by (simp add: int16_def strip) (simp add: t)
  also have "\<dots> = digits16 0 False (?t @ [])" using no_x by (simp add: unprefixed16_def)
  also have "\<dots> = Some n" unfolding digits16_hex_text using assms by simp
  finally show ?thesis .
qed

text \<open>
  A UUID is read back from its printed form: whatever text is accepted, its value prints as a
  text of 36 characters that is accepted again and prints the same, so a recommendation id compared
  after parsing is compared by value.
\<close>

theorem parse_uuid_canonical:
  assumes "parse_uuid s = Some u"
  shows "parse_uuid u = Some u \<and> length u = 36"
proof -
  let ?dash = "\<lambda>t. take 8 t @ ''-'' @ take 4 (drop 8 t) @ ''-'' @ take 4 (drop 12 t) @ ''-''
     @ take 4 (drop 16 t) @ ''-'' @ drop 20 t"
  obtain n where n: "0 \<le> n" "n < 2 ^ 128" and u: "u = ?dash (hex_text 32 n)"
    using assms by (auto simp: parse_uuid_def Let_def split: if_splits option.splits)
  let ?t = "hex_text 32 n"
  have plain: "c \<notin> set ''_-+xX{}ur''" if "c \<in> set ?t" for c
    using hex_text_chars [OF that] hex_digit_cases by blast
  have u_chars: "c \<notin> set ''{}ur''" if "c \<in> set u" for c
    using that plain [of c] unfolding u by (auto dest: in_set_takeD in_set_dropD)
  have "remove_sub ''urn:'' u = u" "remove_sub ''uuid:'' u = u"
    by (rule remove_sub_id; use u_chars in force)+
  moreover have "dropWhile is_brace v = v" if "set v \<subseteq> set u" for v
  proof -
    have "\<not> is_brace c" if "c \<in> set u" for c using u_chars [OF that] by (auto simp: is_brace_def)
    then show ?thesis using that by (metis dropWhile_eq_self_iff hd_in_set subsetD)
  qed
  then have "dropWhile is_brace u = u" "dropWhile is_brace (rev u) = rev u" by simp_all
  moreover have "filter (\<lambda>c. c \<noteq> CHR ''-'') u = ?t"
  proof -
    have f: "filter (\<lambda>c. c \<noteq> CHR ''-'') v = v" if "set v \<subseteq> set ?t" for v
      using that plain by (auto simp: filter_id_conv)
    have "?t = take 8 ?t @ take 4 (drop 8 ?t) @ take 4 (drop 12 ?t) @ take 4 (drop 16 ?t) @ drop 20 ?t"
      using append_take_drop_id [of 8 ?t] append_take_drop_id [of 4 "drop 8 ?t"]
        append_take_drop_id [of 4 "drop 12 ?t"] append_take_drop_id [of 4 "drop 16 ?t"]
      by (simp only: drop_drop) simp
    then show ?thesis unfolding u
      by (simp add: f set_take_subset set_drop_subset subset_trans [OF set_take_subset set_drop_subset])
  qed
  ultimately have hex: "uuid_hex u = ?t" by (simp add: uuid_hex_def)
  have "int16 ?t = Some n" using n by (intro int16_hex_text) simp_all
  then have "parse_uuid u = Some (?dash ?t)" using n by (simp add: parse_uuid_def hex Let_def)
  then show ?thesis unfolding u by simp
qed

theorem parse_uuid_canonical_witness:
  "parse_uuid ''{12345678123456781234567812345678}'' = Some ''12345678-1234-5678-1234-567812345678''
   \<and> parse_uuid ''12345678-1234-5678-1234-567812345678'' = Some ''12345678-1234-5678-1234-567812345678''"
proof -
  have "parse_uuid ''{12345678123456781234567812345678}'' = Some ''12345678-1234-5678-1234-567812345678''"
    by code_simp
  with parse_uuid_canonical [OF this] show ?thesis by simp
qed

section \<open>The approval gate\<close>

lemma tenant_session_valid:
  "parse_uuid (ss_tenant_id s) = Some u \<Longrightarrow>
   tenant_session s body db = (case body s db of Inl e \<Rightarrow> (Inl e, db) | Inr (db', x) \<Rightarrow> (Inr x, db'))"
  by (simp add: tenant_session_def assert_safe_identifier_def)

lemma session_tenants [simp]:
  "ss_tenant_id (db_for_tenant t) = t" "ss_tenant_id (db_for_ingest t) = t"
  by (simp_all add: db_for_tenant_def db_for_ingest_def)

text \<open>
  C29. The console's approve endpoint answers 200, 404 or 409 and nothing else.  200 means that the row
  was pending and is approved, with the session's reviewer, in the database that is left and in the
  body; 404 that the tenant has no such recommendation; 409 that it has one, but it is not pending, the
  reviewer is blank, or its subject has a live recommendation in the run.  With an error the database
  is unchanged.
\<close>

theorem approve_endpoint:
  assumes "reachable db" and "parse_uuid (cs_tenant_id console) = Some t"
    and run: "approve_recommendation fmt rid nt console i now db = (out, db')"
  shows "case out of
      Inr body \<Rightarrow> (\<exists>row row' u. parse_uuid rid = Some u \<and> row \<in> set (db_recommendations db) \<and> rec_id row = u
          \<and> rec_tenant_id row = cs_tenant_id console \<and> rec_status row = PENDING_APPROVAL
          \<and> row' \<in> set (db_recommendations db') \<and> rec_id row' = u \<and> rec_status row' = APPROVED
          \<and> rec_reviewed_by row' = Some (cs_reviewer_id console) \<and> decision_of row' = decision_of row
          \<and> body = to_out fmt row')
    | Inl (Raised e) \<Rightarrow> False
    | Inl (ApiError err) \<Rightarrow> db' = db \<and>
        (let rows = filter (\<lambda>r. rec_tenant_id r = cs_tenant_id console \<and> parse_uuid rid = Some (rec_id r))
                      (db_recommendations db)
         in if rows = [] then ae_http_status err = 404
            else ae_http_status err = 409 \<and>
              (\<exists>row \<in> set rows. rec_status row \<noteq> PENDING_APPROVAL \<or> \<not> is_reviewer (Some (cs_reviewer_id console))
                 \<or> (\<exists>r \<in> set (db_recommendations db). is_live r \<and> live_key r = live_key row)))"
proof (cases "parse_uuid rid")
  case None
  then show ?thesis using run by (auto simp: approve_recommendation_def not_found_def)
next
  case (Some u)
  let ?s = "db_for_tenant (cs_tenant_id console)"
  let ?P = "\<lambda>r. rec_tenant_id r = cs_tenant_id console \<and> rec_id r = u"
  have out: "(case bind_handled (translated (approve ?s db (cs_tenant_id console) u (cs_reviewer_id console) nt i now))
      (\<lambda>(db', row). Inr (db', to_out fmt row)) of Inl e \<Rightarrow> (Inl e, db) | Inr (db', x) \<Rightarrow> (Inr x, db')) = (out, db')"
    using run Some assms(2) by (simp add: approve_recommendation_def tenant_session_valid)
  note o = approve_returns [OF assms(1), of "cs_tenant_id console" u "cs_reviewer_id console" nt i now]
  show ?thesis
  proof (cases "find ?P (db_recommendations db)")
    case None
    then have "filter (\<lambda>r. rec_tenant_id r = cs_tenant_id console \<and> parse_uuid rid = Some (rec_id r))
                 (db_recommendations db) = []"
      using Some by (auto simp: find_None_iff filter_empty_conv)
    then show ?thesis using out None unfolding o by (auto simp: translated_def not_found_def)
  next
    case row: (Some row)
    note r = find_SomeD [OF row]
    have mem: "row \<in> set (filter (\<lambda>r. rec_tenant_id r = cs_tenant_id console \<and> parse_uuid rid = Some (rec_id r))
                 (db_recommendations db))"
      using r Some by simp
    then have ne: "filter (\<lambda>r. rec_tenant_id r = cs_tenant_id console \<and> parse_uuid rid = Some (rec_id r))
                 (db_recommendations db) \<noteq> []" by force
    consider (no) m where "rec_status row \<noteq> PENDING_APPROVAL \<or> \<not> is_reviewer (Some (cs_reviewer_id console))
        \<or> (\<exists>r \<in> set (db_recommendations db). is_live r \<and> live_key r = live_key row)"
        "approve ?s db (cs_tenant_id console) u (cs_reviewer_id console) nt i now = Inl (IllegalTransition m)"
      | (yes) "rec_status row = PENDING_APPROVAL"
        "\<exists>row' e. approve ?s db (cs_tenant_id console) u (cs_reviewer_id console) nt i now = Inr (changed_to db row row' e, row')
           \<and> row' = row\<lparr>rec_status := APPROVED, rec_reviewed_by := Some (cs_reviewer_id console),
                rec_reviewed_at := Some now, rec_review_note := nt\<rparr>"
      using o row by (auto simp: Let_def split: if_splits)
    then show ?thesis
    proof cases
      case no
      then have "out = Inl (ApiError (conflict m))" "db' = db" using out by (auto simp: translated_def)
      then show ?thesis using ne mem no(1) by (auto simp: Let_def conflict_def)
    next
      case yes
      then obtain row' e where a: "approve ?s db (cs_tenant_id console) u (cs_reviewer_id console) nt i now
            = Inr (changed_to db row row' e, row')"
        and row': "row' = row\<lparr>rec_status := APPROVED, rec_reviewed_by := Some (cs_reviewer_id console),
                rec_reviewed_at := Some now, rec_review_note := nt\<rparr>" by blast
      have "out = Inr (to_out fmt row')" "db' = changed_to db row row' e" using out a by (auto simp: translated_def)
      moreover have "row' \<in> set (db_recommendations (changed_to db row row' e))" using r by (auto simp: changed_to_def)
      ultimately show ?thesis using r yes(1) Some row'
        by (simp, intro exI [of _ row] conjI exI [of _ row']) (simp_all add: decision_of_def)
    qed
  qed
qed

lemma sample_tenant: "parse_uuid ''12345678-1234-5678-1234-56789abcdef0'' \<noteq> None"
  by code_simp

text \<open>A database of a tenant whose id is a UUID: one pending recommendation.\<close>

definition sample_id :: "string" where
  "sample_id = ''12345678-1234-5678-1234-56789abcdef0''"

definition sample_web_db :: "database" where
  "sample_web_db = \<lparr>db_recommendations =
     [(sample_pending sample_id)\<lparr>rec_tenant_id := sample_id\<rparr>], db_audit_log = []\<rparr>"

lemma sample_web_reachable: "reachable sample_web_db"
proof -
  have "step \<lparr>db_recommendations = [], db_audit_log = []\<rparr> sample_web_db"
    by (rule step_create [of sample_id _ sample_columns sample_id 1 _ "(sample_pending sample_id)\<lparr>rec_tenant_id := sample_id\<rparr>"])
       (simp_all add: create_pending_def assert_transition_def REVIEWER_REQUIRED_def life_defs sample_pending_def
          sample_columns_def checks_ok_def sample_web_db_def Let_def)
  then show ?thesis by (blast intro: reachable_init reachable_step)
qed

theorem approve_endpoint_witness:
  "\<exists>body db'. approve_recommendation (\<lambda>t. ''t'') sample_id None \<lparr>cs_reviewer_id = ''ana'', cs_tenant_id = sample_id\<rparr>
      ''e'' 7 sample_web_db = (Inr body, db') \<and> ro_status body = ''APPROVED''"
proof -
  let ?console = "\<lparr>cs_reviewer_id = ''ana'', cs_tenant_id = sample_id\<rparr>"
  obtain t where t: "parse_uuid (cs_tenant_id ?console) = Some t" using sample_tenant by (auto simp: sample_id_def)
  have "case fst (approve_recommendation (\<lambda>t. ''t'') sample_id None ?console ''e'' 7 sample_web_db) of Inl _ \<Rightarrow> False | Inr _ \<Rightarrow> True"
    by code_simp
  then obtain body db' where r: "approve_recommendation (\<lambda>t. ''t'') sample_id None ?console ''e'' 7 sample_web_db = (Inr body, db')"
    by (cases "approve_recommendation (\<lambda>t. ''t'') sample_id None ?console ''e'' 7 sample_web_db") (auto split: sum.splits)
  show ?thesis using approve_endpoint [OF sample_web_reachable t r] r by (auto simp: to_out_def)
qed

section \<open>The pull surface\<close>

text \<open>The tenant's approved recommendations in the order in which they were approved.\<close>

definition approved_queue :: "string \<Rightarrow> database \<Rightarrow> recommendation list" where
  "approved_queue tid db = sort_key (\<lambda>r. case rec_reviewed_at r of None \<Rightarrow> (True, 0) | Some t \<Rightarrow> (False, t))
     (filter (\<lambda>r. rec_tenant_id r = tid \<and> rec_status r = APPROVED) (db_recommendations db))"

lemma list_approved_queue:
  "list_approved (db_for_ingest tid) db tid n k = take n (drop k (approved_queue tid db))"
proof -
  have "filter (\<lambda>r. rec_tenant_id r = tid \<and> rec_status r = APPROVED) (visible (db_for_ingest tid) db)
      = filter (\<lambda>r. rec_tenant_id r = tid \<and> rec_status r = APPROVED) (db_recommendations db)"
    by (simp add: visible_def conj_commute cong: conj_cong)
  then show ?thesis by (simp add: list_approved_def approved_queue_def)
qed

text \<open>
  The client's pull surface.  Any status but APPROVED is refused with 403.  With a cursor that is not
  negative a page holds the next \<open>limit\<close> rows of the tenant's approved queue, every one approved by a
  named reviewer; it names the cursor behind it when it is full, and when it names none nothing of the
  queue is left; so following the cursors yields the queue, each row once.  A negative cursor,
  which this surface does not bound, is answered with 500.
\<close>

theorem pull_pages:
  assumes "reachable db" and "parse_uuid tid = Some t" and "1 \<le> limit" "limit \<le> 500"
  shows "(status \<noteq> ''APPROVED'' \<longrightarrow>
            (\<exists>e. list_approved_recommendations fmt status limit cursor tid db = (Inl (ApiError e), db) \<and> ae_http_status e = 403))
    \<and> (0 \<le> cursor \<longrightarrow> (\<exists>pg. list_approved_recommendations fmt ''APPROVED'' limit cursor tid db = (Inr pg, db)
          \<and> pg_items pg = map (to_pulled fmt) (take (nat limit) (drop (nat cursor) (approved_queue tid db)))
          \<and> (case pg_next_cursor pg of
               None \<Rightarrow> drop (nat (cursor + limit)) (approved_queue tid db) = []
             | Some c \<Rightarrow> c = show_int (cursor + limit) \<and> length (pg_items pg) = nat limit)))
    \<and> (\<forall>r \<in> set (approved_queue tid db). rec_tenant_id r = tid \<and> rec_status r = APPROVED \<and> is_reviewer (rec_reviewed_by r))
    \<and> (cursor < 0 \<longrightarrow> (case respond rq (fst (list_approved_recommendations fmt ''APPROVED'' limit cursor tid db)) of
                          Inl env \<Rightarrow> en_status_code env = 500 | Inr _ \<Rightarrow> False))"
proof (intro conjI impI)
  let ?q = "approved_queue tid db"
  have run: "list_approved_recommendations fmt status limit cursor tid db =
      (if status \<noteq> ''APPROVED''
       then (Inl (ApiError (forbidden ''status must be APPROVED; no other value is ever returned on this surface'')), db)
       else case select_page cursor (\<lambda>k. take (nat limit) (drop k ?q)) of
           Inl e \<Rightarrow> (Inl e, db)
         | Inr rows \<Rightarrow> (Inr \<lparr>pg_items = map (to_pulled fmt) rows, pg_next_cursor = next_cursor cursor limit (length rows)\<rparr>, db))"
    for status
    using assms(2-4)
    by (simp add: list_approved_recommendations_def check_query_def tenant_session_valid list_approved_queue
        select_page_def bind_handled_def)
  show "\<exists>e. list_approved_recommendations fmt status limit cursor tid db = (Inl (ApiError e), db) \<and> ae_http_status e = 403"
    if "status \<noteq> ''APPROVED''" using that by (simp add: run forbidden_def)
  show "\<forall>r \<in> set ?q. rec_tenant_id r = tid \<and> rec_status r = APPROVED \<and> is_reviewer (rec_reviewed_by r)"
    using approved_reviewed [OF assms(1)] by (auto simp: approved_queue_def)
  show "case respond rq (fst (list_approved_recommendations fmt ''APPROVED'' limit cursor tid db)) of
          Inl env \<Rightarrow> en_status_code env = 500 | Inr _ \<Rightarrow> False" if "cursor < 0"
    using that by (simp add: run select_page_def respond_def render_envelope_def internal_error_def)
  assume c: "0 \<le> cursor"
  let ?rows = "take (nat limit) (drop (nat cursor) ?q)"
  have "length ?rows = nat limit \<or> drop (nat (cursor + limit)) ?q = []"
    using c assms(3) by (auto simp: nat_add_distrib min_def)
  then show "\<exists>pg. list_approved_recommendations fmt ''APPROVED'' limit cursor tid db = (Inr pg, db)
          \<and> pg_items pg = map (to_pulled fmt) ?rows
          \<and> (case pg_next_cursor pg of
               None \<Rightarrow> drop (nat (cursor + limit)) ?q = []
             | Some c \<Rightarrow> c = show_int (cursor + limit) \<and> length (pg_items pg) = nat limit)"
    using c assms(3) by (auto simp: run select_page_def next_cursor_def)
qed

theorem pull_pages_witness:
  "fst (list_approved_recommendations (\<lambda>t. ''t'') ''APPROVED'' 5 0 sample_id sample_web_db)
     = Inr \<lparr>pg_items = [], pg_next_cursor = None\<rparr>"
proof -
  obtain t where t: "parse_uuid sample_id = Some t" using sample_tenant by (auto simp: sample_id_def)
  have q: "approved_queue sample_id sample_web_db = []" by code_simp
  show ?thesis
    using pull_pages [OF sample_web_reachable t, of 5 "''APPROVED''" "\<lambda>t. ''t''" 0 None]
    by (auto simp: q split: option.splits)
qed

end
