(* ===== verification/Runs.thy ===== *)
theory Runs
  imports Contracts
begin

text \<open>
  Pipeline runs and the worker's poll loop: \<open>persistence/repositories/pipeline.py\<close> on the table
  \<open>pipeline_runs\<close> and \<open>worker/main.py\<close>.  The table is the list of its rows; each operation is one
  transaction, so row locks with SKIP LOCKED show as the operations not overlapping.  What the
  pipeline itself does in an execution is a parameter here, with the stage records it writes.
\<close>

section \<open>The table\<close>

datatype run_status = QUEUED | RUNNING | SUCCEEDED | FAILED

definition PIPELINE_STAGES :: "string list" where
  "PIPELINE_STAGES = [''INGEST'', ''FEEDBACK'', ''EXTERNAL'', ''GRAPH'', ''RISK'', ''IMPACT'', ''POLICY'',
     ''RANK'', ''ALLOCATE'', ''EXPLAIN'', ''PERSIST'']"

record pipeline_run =
  pr_id :: string
  pr_tenant_id :: string
  pr_status :: run_status
  pr_attempts :: int
  pr_stages :: "(string \<times> string) list"
  pr_external_source :: "string option"
  pr_ranking_strategy :: "string option"
  pr_context_row_count :: "int option"
  pr_reason_source_counts :: "(string \<times> int) list"
  pr_error :: "string option"
  pr_created_at :: instant
  pr_started_at :: "instant option"
  pr_finished_at :: "instant option"

definition of_tenant :: "string \<Rightarrow> pipeline_run list \<Rightarrow> pipeline_run list" where
  "of_tenant tid rows = filter (\<lambda>r. pr_tenant_id r = tid) rows"

text \<open>Writing back the rows with the given ids.\<close>

definition write_rows :: "string list \<Rightarrow> (pipeline_run \<Rightarrow> pipeline_run) \<Rightarrow> pipeline_run list \<Rightarrow> pipeline_run list" where
  "write_rows ids f rows = map (\<lambda>r. if pr_id r \<in> set ids then f r else r) rows"

section \<open>repositories/pipeline.py\<close>

definition create_run :: "string \<Rightarrow> string \<Rightarrow> instant \<Rightarrow> pipeline_run list \<Rightarrow> pipeline_run list \<times> pipeline_run" where
  "create_run tid fresh_id now rows =
     (let row = \<lparr>pr_id = fresh_id, pr_tenant_id = tid, pr_status = QUEUED, pr_attempts = 0,
                 pr_stages = map (\<lambda>s. (s, ''PENDING'')) PIPELINE_STAGES, pr_external_source = None,
                 pr_ranking_strategy = None, pr_context_row_count = None,
                 pr_reason_source_counts = [(''llm'', 0), (''template'', 0)], pr_error = None,
                 pr_created_at = now, pr_started_at = None, pr_finished_at = None\<rparr>
      in (rows @ [row], row))"

definition get_run :: "string \<Rightarrow> string \<Rightarrow> pipeline_run list \<Rightarrow> pipeline_run option" where
  "get_run tid run_id rows = find (\<lambda>r. pr_tenant_id r = tid \<and> pr_id r = run_id) rows"

definition set_stage :: "string \<Rightarrow> string \<Rightarrow> instant \<Rightarrow> pipeline_run \<Rightarrow> pipeline_run" where
  "set_stage stage status now row =
     (let row1 = row\<lparr>pr_stages := AList.update stage status (pr_stages row)\<rparr>
      in if pr_status row1 = QUEUED then row1\<lparr>pr_status := RUNNING, pr_started_at := Some now\<rparr> else row1)"

definition update_stage ::
  "string \<Rightarrow> string \<Rightarrow> string \<Rightarrow> string \<Rightarrow> instant \<Rightarrow> pipeline_run list \<Rightarrow> pipeline_run list \<times> pipeline_run option" where
  "update_stage tid run_id stage status now rows =
     (case get_run tid run_id rows of
        None \<Rightarrow> (rows, None)
      | Some row \<Rightarrow> (write_rows [pr_id row] (set_stage stage status now) rows, Some (set_stage stage status now row)))"

definition claimed :: "instant \<Rightarrow> pipeline_run \<Rightarrow> pipeline_run" where
  "claimed now row = row\<lparr>pr_status := RUNNING, pr_started_at := Some now, pr_attempts := pr_attempts row + 1\<rparr>"

definition claim_queued ::
  "string \<Rightarrow> nat \<Rightarrow> instant \<Rightarrow> pipeline_run list \<Rightarrow> pipeline_run list \<times> pipeline_run list" where
  "claim_queued tid limit now rows =
     (let picked = take limit (sort_key pr_created_at
                     (filter (\<lambda>r. pr_tenant_id r = tid \<and> pr_status r = QUEUED) rows))
      in (write_rows (map pr_id picked) (claimed now) rows, map (claimed now) picked))"

definition is_stale :: "string \<Rightarrow> instant \<Rightarrow> pipeline_run \<Rightarrow> bool" where
  "is_stale tid cutoff r \<longleftrightarrow> pr_tenant_id r = tid \<and> pr_status r = RUNNING
     \<and> (case pr_started_at r of None \<Rightarrow> False | Some t \<Rightarrow> t < cutoff)"

definition reclaimed :: "int \<Rightarrow> instant \<Rightarrow> pipeline_run \<Rightarrow> pipeline_run" where
  "reclaimed max_retries now row =
     (if max_retries \<le> pr_attempts row
      then row\<lparr>pr_status := FAILED,
               pr_error := Some (''abandoned after '' @ show_int (pr_attempts row) @ '' attempt(s); no worker finished the run''),
               pr_finished_at := Some now\<rparr>
      else row\<lparr>pr_status := QUEUED\<rparr>)"

text \<open>\<open>stale_seconds\<close> against instants in microseconds.\<close>

definition reclaim_stale ::
  "string \<Rightarrow> int \<Rightarrow> int \<Rightarrow> instant \<Rightarrow> pipeline_run list \<Rightarrow> pipeline_run list \<times> pipeline_run list" where
  "reclaim_stale tid stale_seconds max_retries now rows =
     (let picked = filter (is_stale tid (now - stale_seconds * 1000000)) rows
      in (write_rows (map pr_id picked) (reclaimed max_retries now) rows, map (reclaimed max_retries now) picked))"

definition requeued :: "int \<Rightarrow> string option \<Rightarrow> instant \<Rightarrow> pipeline_run \<Rightarrow> pipeline_run" where
  "requeued max_retries error now row =
     (if max_retries \<le> pr_attempts row
      then row\<lparr>pr_status := FAILED, pr_error := error, pr_finished_at := Some now\<rparr>
      else row\<lparr>pr_status := QUEUED, pr_error := error\<rparr>)"

definition requeue_or_fail ::
  "string \<Rightarrow> string \<Rightarrow> int \<Rightarrow> string option \<Rightarrow> instant \<Rightarrow> pipeline_run list \<Rightarrow> pipeline_run list \<times> pipeline_run option" where
  "requeue_or_fail tid run_id max_retries error now rows =
     (case get_run tid run_id rows of
        None \<Rightarrow> (rows, None)
      | Some row \<Rightarrow> (write_rows [pr_id row] (requeued max_retries error now) rows, Some (requeued max_retries error now row)))"

definition finished :: "bool \<Rightarrow> string option \<Rightarrow> instant \<Rightarrow> pipeline_run \<Rightarrow> pipeline_run" where
  "finished succeeded error now row =
     row\<lparr>pr_status := (if succeeded then SUCCEEDED else FAILED), pr_error := error, pr_finished_at := Some now\<rparr>"

definition finish_run ::
  "string \<Rightarrow> string \<Rightarrow> bool \<Rightarrow> string option \<Rightarrow> instant \<Rightarrow> pipeline_run list \<Rightarrow> pipeline_run list \<times> pipeline_run option" where
  "finish_run tid run_id succeeded error now rows =
     (case get_run tid run_id rows of
        None \<Rightarrow> (rows, None)
      | Some row \<Rightarrow> (write_rows [pr_id row] (finished succeeded error now) rows, Some (finished succeeded error now row)))"

section \<open>worker/main.py\<close>

record stage_outcome =
  so_stage :: string
  so_status :: string
  so_detail :: "(string \<times> json) list"

record pipeline_run_result =
  res_run_id :: string
  res_tenant_id :: string
  res_status :: string
  res_stages :: "stage_outcome list"
  res_recommendation_ids :: "string list"

text \<open>One execution of the pipeline as \<open>execute_run\<close> sees it: the stage records written on the way and
  the result, or the text of the exception that escaped it.\<close>

record execution =
  ex_recorded :: "(string \<times> string) list"
  ex_result :: "string + pipeline_run_result"

record worker_settings =
  ws_worker_max_retries :: int
  ws_worker_stale_claim_seconds :: int

text \<open>Under \<open>error\<close> the pipeline only stores text.\<close>

fun stage_error :: "stage_outcome list \<Rightarrow> string option" where
  "stage_error [] = None"
| "stage_error (s # ss) =
     (if so_status s = ''FAILED''
      then Some (so_stage s @ '': '' @ (case map_of (so_detail s) ''error'' of Some (JStr t) \<Rightarrow> t | _ \<Rightarrow> ''failed''))
      else stage_error ss)"

definition record_stages ::
  "string \<Rightarrow> string \<Rightarrow> instant \<Rightarrow> (string \<times> string) list \<Rightarrow> pipeline_run list \<Rightarrow> pipeline_run list" where
  "record_stages tid run_id now recs rows =
     foldl (\<lambda>rows (stage, status). fst (update_stage tid run_id stage status now rows)) rows recs"

definition execute_run ::
  "(string \<Rightarrow> execution) \<Rightarrow> worker_settings \<Rightarrow> string \<Rightarrow> instant \<Rightarrow> string \<Rightarrow> pipeline_run list \<Rightarrow> pipeline_run list \<times> bool" where
  "execute_run pipeline settings tid now run_id rows =
     (let ex = pipeline run_id;
          rows1 = record_stages tid run_id now (ex_recorded ex) rows;
          (succeeded, error) = (case ex_result ex of
             Inr result \<Rightarrow> (let ok = res_status result = ''DONE''
                            in (ok, if ok then None else stage_error (res_stages result)))
           | Inl exc \<Rightarrow> (False, Some exc))
      in if succeeded then (fst (finish_run tid run_id True None now rows1), True)
         else (fst (requeue_or_fail tid run_id (ws_worker_max_retries settings) error now rows1), False))"

text \<open>The loop over the claimed runs of a tenant, and one tenant's share of a cycle: the rows it
  leaves and how many runs it executed.\<close>

fun execute_runs ::
  "(string \<Rightarrow> execution) \<Rightarrow> worker_settings \<Rightarrow> string \<Rightarrow> instant \<Rightarrow> string list \<Rightarrow> pipeline_run list \<Rightarrow> pipeline_run list" where
  "execute_runs pipeline settings tid now [] rows = rows"
| "execute_runs pipeline settings tid now (i # ids) rows =
     execute_runs pipeline settings tid now ids (fst (execute_run pipeline settings tid now i rows))"

definition poll_tenant ::
  "(string \<Rightarrow> execution) \<Rightarrow> worker_settings \<Rightarrow> string \<Rightarrow> instant \<Rightarrow> pipeline_run list \<Rightarrow> pipeline_run list \<times> nat" where
  "poll_tenant pipeline settings tid now rows =
     (let rows1 = fst (reclaim_stale tid (ws_worker_stale_claim_seconds settings) (ws_worker_max_retries settings) now rows);
          (rows2, runs) = claim_queued tid 1 now rows1;
          claimed = map pr_id runs
      in (execute_runs pipeline settings tid now claimed rows2, length claimed))"

text \<open>The sum over the tenants of one cycle, and the loop with its shutdown flag and \<open>max_cycles\<close>;
  cycle \<open>k\<close> sees the pipeline and the clock of its time.  \<open>blip k = Some n\<close> is a cycle that the database
  ends with an exception in the first transaction of its tenant number \<open>n\<close>: the tenants before it are done,
  and the cycle counts as no work.  (The wait of an idle cycle changes nothing here.)\<close>

fun poll_tenants ::
  "(string \<Rightarrow> execution) \<Rightarrow> worker_settings \<Rightarrow> instant \<Rightarrow> string list \<Rightarrow> pipeline_run list \<Rightarrow> pipeline_run list \<times> nat" where
  "poll_tenants pipeline settings now [] rows = (rows, 0)"
| "poll_tenants pipeline settings now (t # ts) rows =
     (let (rows1, n) = poll_tenant pipeline settings t now rows;
          (rows2, m) = poll_tenants pipeline settings now ts rows1
      in (rows2, n + m))"

function poll_forever ::
  "(nat \<Rightarrow> bool) \<Rightarrow> nat \<Rightarrow> (nat \<Rightarrow> nat option) \<Rightarrow> (nat \<Rightarrow> string \<Rightarrow> execution) \<Rightarrow> worker_settings \<Rightarrow> (nat \<Rightarrow> instant) \<Rightarrow>
   string list \<Rightarrow> nat \<Rightarrow> nat \<Rightarrow> pipeline_run list \<Rightarrow> pipeline_run list \<times> nat" where
  "poll_forever shutdown max_cycles blip pipeline settings clock tenants cycles executed rows =
     (if shutdown cycles then (rows, executed)
      else let poll = (\<lambda>ts. poll_tenants (pipeline cycles) settings (clock cycles) ts rows);
               (rows', worked) = (case blip cycles of None \<Rightarrow> poll tenants | Some n \<Rightarrow> (fst (poll (take n tenants)), 0))
           in if max_cycles \<le> cycles + 1 then (rows', executed + worked)
              else poll_forever shutdown max_cycles blip pipeline settings clock tenants (cycles + 1)
                     (executed + worked) rows')"
  by pat_completeness auto
termination by (relation "measure (\<lambda>(_, m, _, _, _, _, _, c, _, _). m - c)") auto

declare poll_forever.simps [simp del]

section \<open>Invariants of the rows under any interleaving\<close>

text \<open>
  One transaction of a worker or of the console, by whomever and whenever: nothing ties an
  \<open>update_stage\<close>, \<open>requeue_or_fail\<close> or \<open>finish_run\<close> to the worker that holds the claim.
\<close>

inductive run_step :: "int \<Rightarrow> pipeline_run list \<Rightarrow> pipeline_run list \<Rightarrow> bool" for mr where
  run_create: "fresh_id \<notin> pr_id ` set rows \<Longrightarrow> run_step mr rows (fst (create_run tid fresh_id now rows))"
| run_update: "run_step mr rows (fst (update_stage tid i stage status now rows))"
| run_claim: "run_step mr rows (fst (claim_queued tid limit now rows))"
| run_reclaim: "run_step mr rows (fst (reclaim_stale tid secs mr now rows))"
| run_requeue: "run_step mr rows (fst (requeue_or_fail tid i mr error now rows))"
| run_finish: "run_step mr rows (fst (finish_run tid i ok error now rows))"

text \<open>What holds of every row when each operation keeps it on the rows it writes.\<close>

locale row_invariant =
  fixes mr :: int and ok :: "pipeline_run \<Rightarrow> bool"
  assumes created: "ok (snd (create_run tid i now rows))"
    and stage_kept: "ok r \<Longrightarrow> ok (set_stage st v now r)"
    and claim_kept: "ok r \<Longrightarrow> pr_status r = QUEUED \<Longrightarrow> ok (claimed now r)"
    and reclaim_kept: "ok r \<Longrightarrow> pr_status r = RUNNING \<Longrightarrow> ok (reclaimed mr now r)"
    and requeue_kept: "ok r \<Longrightarrow> ok (requeued mr err now r)"
    and finish_kept: "ok r \<Longrightarrow> ok (finished succ err now r)"
begin

lemma write_kept:
  "\<forall>r \<in> set rows. ok r \<Longrightarrow> (\<And>r. r \<in> set rows \<Longrightarrow> pr_id r \<in> set ids \<Longrightarrow> ok (f r)) \<Longrightarrow>
   \<forall>r \<in> set (write_rows ids f rows). ok r"
  by (auto simp: write_rows_def)

lemma picked_are_picked:
  "distinct (map pr_id rows) \<Longrightarrow> r \<in> set rows \<Longrightarrow> pr_id r \<in> pr_id ` set picked \<Longrightarrow> set picked \<subseteq> set rows \<Longrightarrow>
   r \<in> set picked"
  by (auto dest: distinct_map_filter_inj)

lemma step_kept:
  assumes "run_step mr rows rows'" and "distinct (map pr_id rows)" and "\<forall>r \<in> set rows. ok r"
  shows "\<forall>r \<in> set rows'. ok r"
  using assms(1)
proof cases
  case (run_create i tid now)
  then show ?thesis using assms(3) created [of tid i now rows] by (auto simp: create_run_def Let_def)
next
  case (run_update tid i stage status now)
  then show ?thesis
    using assms(3) by (auto simp: update_stage_def write_rows_def split: option.splits intro: stage_kept)
next
  case (run_claim tid limit now)
  let ?picked = "take limit (sort_key pr_created_at (filter (\<lambda>r. pr_tenant_id r = tid \<and> pr_status r = QUEUED) rows))"
  have sub: "set ?picked \<subseteq> set rows" and q: "r \<in> set ?picked \<Longrightarrow> pr_status r = QUEUED" for r
    by (auto dest: in_set_takeD)
  have rows': "rows' = write_rows (map pr_id ?picked) (claimed now) rows"
    using run_claim by (simp add: claim_queued_def Let_def)
  show ?thesis
    unfolding rows'
  proof (rule write_kept [OF assms(3)])
    fix r assume r: "r \<in> set rows" "pr_id r \<in> set (map pr_id ?picked)"
    have "pr_id r \<in> pr_id ` set ?picked" using r(2) by (simp only: set_map)
    then have "pr_status r = QUEUED" by (rule q [OF picked_are_picked [OF assms(2) r(1) _ sub]])
    then show "ok (claimed now r)" using r(1) assms(3) claim_kept by blast
  qed
next
  case (run_reclaim tid secs now)
  let ?picked = "filter (is_stale tid (now - secs * 1000000)) rows"
  have rows': "rows' = write_rows (map pr_id ?picked) (reclaimed mr now) rows"
    using run_reclaim by (simp add: reclaim_stale_def Let_def)
  show ?thesis
    unfolding rows'
  proof (rule write_kept [OF assms(3)])
    fix r assume r: "r \<in> set rows" "pr_id r \<in> set (map pr_id ?picked)"
    then have "pr_status r = RUNNING"
      using picked_are_picked [OF assms(2) r(1), of ?picked] by (simp add: is_stale_def)
    then show "ok (reclaimed mr now r)" using r(1) assms(3) reclaim_kept by blast
  qed
next
  case (run_requeue tid i error now)
  then show ?thesis
    using assms(3) by (auto simp: requeue_or_fail_def write_rows_def split: option.splits intro: requeue_kept)
next
  case (run_finish tid i s error now)
  then show ?thesis
    using assms(3) by (auto simp: finish_run_def write_rows_def split: option.splits intro: finish_kept)
qed

end

lemma write_ids: "(\<And>r. pr_id (f r) = pr_id r) \<Longrightarrow> map pr_id (write_rows ids f rows) = map pr_id rows"
  by (simp add: write_rows_def)

lemma same_ids [simp]:
  "pr_id (set_stage st v now r) = pr_id r" "pr_id (claimed now r) = pr_id r" "pr_id (reclaimed mr now r) = pr_id r"
  "pr_id (requeued mr err now r) = pr_id r" "pr_id (finished s err now r) = pr_id r"
  by (simp_all add: set_stage_def claimed_def reclaimed_def requeued_def finished_def Let_def)

lemma step_ids:
  "run_step mr rows rows' \<Longrightarrow> distinct (map pr_id rows) \<Longrightarrow> distinct (map pr_id rows')"
  by (induction rule: run_step.induct)
     (auto simp: create_run_def update_stage_def claim_queued_def reclaim_stale_def requeue_or_fail_def finish_run_def
        Let_def write_ids split: option.splits)


definition times_set :: "pipeline_run \<Rightarrow> bool" where
  "times_set r \<longleftrightarrow> (pr_status r = RUNNING \<longrightarrow> pr_started_at r \<noteq> None)
     \<and> (pr_status r \<in> {SUCCEEDED, FAILED} \<longrightarrow> pr_finished_at r \<noteq> None)
     \<and> (0 < pr_attempts r \<longrightarrow> pr_started_at r \<noteq> None) \<and> 0 \<le> pr_attempts r"


interpretation times: row_invariant mr times_set for mr
  by unfold_locales
     (auto simp: times_set_def create_run_def set_stage_def claimed_def reclaimed_def requeued_def finished_def Let_def)



text \<open>A table for the witnesses: one run, created and claimed.\<close>

definition sample_runs :: "pipeline_run list" where
  "sample_runs = fst (claim_queued ''t'' 1 5 (fst (create_run ''t'' ''r'' 1 [])))"



section \<open>A worker drains its queue\<close>

text \<open>Only row \<open>i\<close> changes, as \<open>R\<close> says.\<close>

definition frame :: "string \<Rightarrow> (pipeline_run \<Rightarrow> pipeline_run \<Rightarrow> bool) \<Rightarrow> pipeline_run list \<Rightarrow> pipeline_run list \<Rightarrow> bool" where
  "frame i R rows rows' \<longleftrightarrow> list_all2 (\<lambda>x y. if pr_id x = i then R x y else y = x) rows rows'"

definition same_run :: "pipeline_run \<Rightarrow> pipeline_run \<Rightarrow> bool" where
  "same_run x y \<longleftrightarrow> pr_id y = pr_id x \<and> pr_tenant_id y = pr_tenant_id x \<and> pr_attempts y = pr_attempts x"

lemma frame_refl: "(\<And>x. R x x) \<Longrightarrow> frame i R rows rows"
  by (simp add: frame_def list_all2_same)

lemma frame_trans:
  assumes "frame i R xs ys" and "frame i S ys zs" and "\<And>x y. R x y \<Longrightarrow> pr_id y = pr_id x"
    and "\<And>x y z. R x y \<Longrightarrow> S y z \<Longrightarrow> T x z"
  shows "frame i T xs zs"
  unfolding frame_def
  by (rule list_all2_trans [OF _ assms(1,2) [unfolded frame_def]]) (use assms(3,4) in \<open>auto split: if_splits\<close>)

lemma frame_write: "(\<And>x. x \<in> set rows \<Longrightarrow> pr_id x = i \<Longrightarrow> R x (f x)) \<Longrightarrow> frame i R rows (write_rows [i] f rows)"
  by (auto simp: frame_def write_rows_def list_all2_conv_all_nth)

lemma frame_ids: "frame i R rows rows' \<Longrightarrow> (\<And>x y. R x y \<Longrightarrow> pr_id y = pr_id x) \<Longrightarrow> map pr_id rows' = map pr_id rows"
  unfolding frame_def by (induction rule: list_all2_induct) (auto split: if_splits)

lemma frame_in:
  assumes "frame i R rows rows'" and "y \<in> set rows'"
  shows "\<exists>x \<in> set rows. if pr_id x = i then R x y else y = x"
proof -
  obtain n where n: "n < length rows'" "rows' ! n = y" using assms(2) by (auto simp: in_set_conv_nth)
  then have "if pr_id (rows ! n) = i then R (rows ! n) y else y = rows ! n"
    using list_all2_nthD2 [OF assms(1) [unfolded frame_def] n(1)] n(2) by (simp split: if_splits)
  moreover have "rows ! n \<in> set rows" using n(1) assms(1) by (auto simp: frame_def dest: list_all2_lengthD)
  ultimately show ?thesis by blast
qed

lemma frame_in':
  assumes "frame i R rows rows'" and "x \<in> set rows"
  shows "\<exists>y \<in> set rows'. if pr_id x = i then R x y else y = x"
proof -
  obtain n where n: "n < length rows" "rows ! n = x" using assms(2) by (auto simp: in_set_conv_nth)
  then have "if pr_id x = i then R x (rows' ! n) else rows' ! n = x"
    using list_all2_nthD [OF assms(1) [unfolded frame_def] n(1)] n(2) by (simp split: if_splits)
  moreover have "rows' ! n \<in> set rows'" using n(1) assms(1) by (auto simp: frame_def dest: list_all2_lengthD)
  ultimately show ?thesis by blast
qed

lemma get_run_Some: "get_run tid i rows = Some r \<Longrightarrow> r \<in> set rows \<and> pr_id r = i \<and> pr_tenant_id r = tid"
  unfolding get_run_def by (auto dest: find_SomeD)

lemma get_run_ex: "r \<in> set rows \<Longrightarrow> pr_id r = i \<Longrightarrow> pr_tenant_id r = tid \<Longrightarrow> \<exists>x. get_run tid i rows = Some x"
  unfolding get_run_def by (cases "find (\<lambda>r. pr_tenant_id r = tid \<and> pr_id r = i) rows") (auto simp: find_None_iff)

lemma record_stages_frame:
  "frame i (\<lambda>x y. same_run x y \<and> (pr_status x = RUNNING \<longrightarrow> pr_status y = RUNNING)) rows
     (record_stages tid i now recs rows)"
proof (induction recs arbitrary: rows)
  case Nil
  then show ?case by (simp add: record_stages_def frame_refl same_run_def)
next
  case (Cons p recs)
  obtain st v where p: "p = (st, v)" by (cases p)
  have one: "frame i (\<lambda>x y. same_run x y \<and> (pr_status x = RUNNING \<longrightarrow> pr_status y = RUNNING)) rows
      (fst (update_stage tid i st v now rows))"
    by (auto simp: update_stage_def same_run_def set_stage_def Let_def dest!: get_run_Some
        intro!: frame_refl frame_write split: option.splits)
  have "record_stages tid i now (p # recs) rows = record_stages tid i now recs (fst (update_stage tid i st v now rows))"
    by (simp add: record_stages_def p)
  then show ?case
    using frame_trans [OF one Cons [of "fst (update_stage tid i st v now rows)"]] by (simp add: same_run_def)
qed

lemma settled_rows [simp]:
  "same_run x (requeued mr err now x)" "same_run x (finished s err now x)"
  "pr_status (requeued mr err now x) = (if mr \<le> pr_attempts x then FAILED else QUEUED)"
  "pr_attempts (requeued mr err now x) = pr_attempts x"
  "pr_status (finished s err now x) = (if s then SUCCEEDED else FAILED)"
  by (simp_all add: same_run_def requeued_def finished_def)

text \<open>An execution leaves its run succeeded, failed, or queued with an attempt left.\<close>

lemma execute_run_frame:
  assumes "r \<in> set rows" "pr_id r = i" "pr_tenant_id r = tid"
  shows "frame i (\<lambda>x y. same_run x y \<and> pr_status y \<in> {SUCCEEDED, FAILED, QUEUED}
            \<and> (pr_status y = QUEUED \<longrightarrow> pr_attempts y < ws_worker_max_retries settings)) rows
          (fst (execute_run pipeline settings tid now i rows))"
proof -
  let ?rows1 = "record_stages tid i now (ex_recorded (pipeline i)) rows"
  note f1 = record_stages_frame [of i rows tid now "ex_recorded (pipeline i)"]
  obtain r1 where r1: "r1 \<in> set ?rows1" "pr_id r1 = i" "pr_tenant_id r1 = tid"
    using frame_in' [OF f1 assms(1)] assms(2,3) by (auto simp: same_run_def)
  obtain x where x: "get_run tid i ?rows1 = Some x" using get_run_ex [OF r1] by blast
  then have id: "pr_id x = i" by (blast dest: get_run_Some)
  have f2: "frame i (\<lambda>x y. same_run x y \<and> pr_status y \<in> {SUCCEEDED, FAILED, QUEUED}
            \<and> (pr_status y = QUEUED \<longrightarrow> pr_attempts y < ws_worker_max_retries settings)) ?rows1
          (fst (execute_run pipeline settings tid now i rows))"
    unfolding execute_run_def Let_def
    by (auto simp: finish_run_def requeue_or_fail_def x id
        intro!: frame_write split: prod.splits sum.splits if_splits)
  show ?thesis by (rule frame_trans [OF f1 f2]) (auto simp: same_run_def)
qed

text \<open>Between polls of a single worker: distinct ids, no run in flight, attempts left for the queued.\<close>

definition quiet :: "int \<Rightarrow> pipeline_run list \<Rightarrow> bool" where
  "quiet mr rows \<longleftrightarrow> distinct (map pr_id rows)
     \<and> (\<forall>r \<in> set rows. pr_status r \<noteq> RUNNING \<and> (pr_status r = QUEUED \<longrightarrow> pr_attempts r < max 1 mr))"

text \<open>The attempts the queued runs have left.\<close>

definition left_of :: "int \<Rightarrow> pipeline_run \<Rightarrow> nat" where
  "left_of mr r = (if pr_status r = QUEUED then nat (max 1 mr - pr_attempts r) else 0)"

definition attempts_left :: "int \<Rightarrow> pipeline_run list \<Rightarrow> nat" where
  "attempts_left mr rows = sum_list (map (left_of mr) rows)"

lemma frame_sum:
  assumes "frame i R rows rows'" and "distinct (map pr_id rows)" and "r \<in> set rows" "pr_id r = i"
    and "\<And>y. R r y \<Longrightarrow> w y < (w r :: nat)"
  shows "sum_list (map w rows') < sum_list (map w rows)"
  using assms(1-4)
proof (induction rows arbitrary: rows')
  case (Cons x xs)
  obtain y ys where ys: "rows' = y # ys" "if pr_id x = i then R x y else y = x" "frame i R xs ys"
    using Cons.prems(1) by (auto simp: frame_def list_all2_Cons1)
  show ?case
  proof (cases "pr_id x = i")
    case True
    then have "r = x" using Cons.prems by (auto simp: image_iff)
    moreover have "ys = xs"
    proof -
      have "\<forall>z \<in> set xs. pr_id z \<noteq> i" using Cons.prems(2) True by (force simp: image_iff)
      with ys(3) show ?thesis
        unfolding frame_def
        by (induction rule: list_all2_induct) auto
    qed
    ultimately show ?thesis using ys True assms(5) by simp
  next
    case False
    then have "r \<in> set xs" "y = x" using Cons.prems ys(2) by auto
    then show ?thesis using Cons.IH [OF ys(3)] Cons.prems ys(1) by simp
  qed
qed simp

lemma left_positive: "quiet mr rows \<Longrightarrow> r \<in> set rows \<Longrightarrow> pr_status r = QUEUED \<Longrightarrow> 0 < attempts_left mr rows"
proof -
  assume q: "quiet mr rows" "r \<in> set rows" "pr_status r = QUEUED"
  then have "0 < left_of mr r" by (auto simp: quiet_def left_of_def)
  moreover have "left_of mr r \<le> attempts_left mr rows"
    unfolding attempts_left_def using q(2) by (intro member_le_sum_list) auto
  ultimately show ?thesis by linarith
qed

lemma poll_tenant_quiet:
  assumes q: "quiet (ws_worker_max_retries st) rows"
  shows "quiet (ws_worker_max_retries st) (fst (poll_tenant pl st tid now rows))
    \<and> attempts_left (ws_worker_max_retries st) (fst (poll_tenant pl st tid now rows)) + snd (poll_tenant pl st tid now rows)
        \<le> attempts_left (ws_worker_max_retries st) rows
    \<and> (snd (poll_tenant pl st tid now rows) = 0 \<longrightarrow> fst (poll_tenant pl st tid now rows) = rows
         \<and> (\<forall>r \<in> set rows. pr_tenant_id r = tid \<longrightarrow> pr_status r \<noteq> QUEUED))
    \<and> map (\<lambda>r. (pr_id r, pr_tenant_id r)) (fst (poll_tenant pl st tid now rows)) = map (\<lambda>r. (pr_id r, pr_tenant_id r)) rows"
proof -
  let ?mr = "ws_worker_max_retries st"
  let ?Q = "filter (\<lambda>r. pr_tenant_id r = tid \<and> pr_status r = QUEUED) rows"
  have d: "distinct (map pr_id rows)" using q by (simp add: quiet_def)
  have "filter (is_stale tid c) rows = []" for c
    using q by (auto simp: quiet_def is_stale_def filter_empty_conv)
  then have rec: "fst (reclaim_stale tid secs ?mr now rows) = rows" for secs
    by (simp add: reclaim_stale_def write_rows_def Let_def)
  show ?thesis
  proof (cases "sort_key pr_created_at ?Q")
    case Nil
    then have "?Q = []" by simp
    then show ?thesis
      using q rec by (auto simp: poll_tenant_def claim_queued_def Let_def write_rows_def filter_empty_conv)
  next
    case (Cons r rest)
    then have "r \<in> set (sort_key pr_created_at ?Q)" by simp
    then have r: "r \<in> set rows" "pr_tenant_id r = tid" "pr_status r = QUEUED" by simp_all
    let ?rows2 = "write_rows [pr_id r] (claimed now) rows"
    have p: "poll_tenant pl st tid now rows = (fst (execute_run pl st tid now (pr_id r) ?rows2), 1)"
    proof -
      have "take 1 (sort_key pr_created_at ?Q) = [r]" by (simp only: Cons) simp
      then show ?thesis unfolding poll_tenant_def claim_queued_def rec Let_def by simp
    qed
    have f1: "frame (pr_id r) (\<lambda>x y. pr_id y = pr_id x \<and> pr_tenant_id y = pr_tenant_id x
          \<and> pr_attempts y = pr_attempts x + 1) rows ?rows2"
      by (rule frame_write) (simp add: claimed_def)
    have "claimed now r \<in> set ?rows2" using r(1) by (auto simp: write_rows_def)
    then have f2: "frame (pr_id r) (\<lambda>x y. same_run x y \<and> pr_status y \<in> {SUCCEEDED, FAILED, QUEUED}
            \<and> (pr_status y = QUEUED \<longrightarrow> pr_attempts y < ?mr)) ?rows2 (fst (poll_tenant pl st tid now rows))"
      unfolding p fst_conv by (rule execute_run_frame) (simp_all add: claimed_def r)
    have f: "frame (pr_id r) (\<lambda>x y. pr_id y = pr_id x \<and> pr_tenant_id y = pr_tenant_id x \<and> pr_attempts y = pr_attempts x + 1
        \<and> pr_status y \<in> {SUCCEEDED, FAILED, QUEUED} \<and> (pr_status y = QUEUED \<longrightarrow> pr_attempts y < ?mr)) rows
        (fst (poll_tenant pl st tid now rows))" (is "frame _ ?R _ ?rows'")
      by (rule frame_trans [OF f1 f2]) (auto simp: same_run_def)
    have ids: "map (\<lambda>r. (pr_id r, pr_tenant_id r)) ?rows' = map (\<lambda>r. (pr_id r, pr_tenant_id r)) rows"
      using f unfolding frame_def by (induction rule: list_all2_induct) (auto split: if_splits)
    then have "map pr_id ?rows' = map pr_id rows" by (metis (no_types, lifting) fst_conv map_eq_conv map_map o_apply)
    then have "quiet ?mr ?rows'"
      using q d f by (auto simp: quiet_def dest!: frame_in [OF f] split: if_splits)
    moreover have "attempts_left ?mr ?rows' < attempts_left ?mr rows"
      unfolding attempts_left_def
      using q r by (intro frame_sum [OF f d r(1) refl]) (auto simp: left_of_def quiet_def)
    ultimately show ?thesis using ids by (simp add: p)
  qed
qed

lemma poll_tenants_quiet:
  assumes "quiet (ws_worker_max_retries st) rows"
  shows "quiet (ws_worker_max_retries st) (fst (poll_tenants pl st now ts rows))
    \<and> attempts_left (ws_worker_max_retries st) (fst (poll_tenants pl st now ts rows)) + snd (poll_tenants pl st now ts rows)
        \<le> attempts_left (ws_worker_max_retries st) rows
    \<and> (snd (poll_tenants pl st now ts rows) = 0 \<longrightarrow> fst (poll_tenants pl st now ts rows) = rows
         \<and> (\<forall>r \<in> set rows. pr_tenant_id r \<in> set ts \<longrightarrow> pr_status r \<noteq> QUEUED))
    \<and> map (\<lambda>r. (pr_id r, pr_tenant_id r)) (fst (poll_tenants pl st now ts rows)) = map (\<lambda>r. (pr_id r, pr_tenant_id r)) rows"
  using assms
proof (induction ts arbitrary: rows)
  case (Cons t ts)
  obtain rows1 n where p: "poll_tenant pl st t now rows = (rows1, n)" by (cases "poll_tenant pl st t now rows")
  obtain rows2 m where ps: "poll_tenants pl st now ts rows1 = (rows2, m)" by (cases "poll_tenants pl st now ts rows1")
  note one = poll_tenant_quiet [OF Cons.prems, of pl t now, unfolded p fst_conv snd_conv]
  have rest: "quiet (ws_worker_max_retries st) rows1" using one by blast
  note two = Cons.IH [OF rest, unfolded ps fst_conv snd_conv]
  have both: "poll_tenants pl st now (t # ts) rows = (rows2, n + m)" by (simp add: p ps)
  show ?case unfolding both fst_conv snd_conv using one two by auto
qed simp

text \<open>
  C22. A single worker drains its queue.  Started with no run in flight, never shut down and with the
  database up, whatever
  the pipeline does in each execution, after as many cycles as the queued runs have attempts left
  every run of its tenants has succeeded or failed; and no more executions than that took place.
\<close>

theorem poll_drains:
  assumes "quiet (ws_worker_max_retries st) rows" and "\<forall>r \<in> set rows. pr_tenant_id r \<in> set tenants"
    and "cycles < max_cycles" and "attempts_left (ws_worker_max_retries st) rows \<le> max_cycles - cycles"
  shows "(\<forall>r \<in> set (fst (poll_forever (\<lambda>_. False) max_cycles (\<lambda>_. None) pl st clock tenants cycles executed rows)).
            pr_status r \<in> {SUCCEEDED, FAILED})
     \<and> snd (poll_forever (\<lambda>_. False) max_cycles (\<lambda>_. None) pl st clock tenants cycles executed rows)
         \<le> executed + attempts_left (ws_worker_max_retries st) rows"
  using assms
proof (induction "max_cycles - cycles" arbitrary: cycles executed rows)
  case (Suc k)
  let ?mr = "ws_worker_max_retries st"
  obtain rows' n where p: "poll_tenants (pl cycles) st (clock cycles) tenants rows = (rows', n)"
    by (cases "poll_tenants (pl cycles) st (clock cycles) tenants rows")
  note one = poll_tenants_quiet [OF Suc.prems(1), of "pl cycles" "clock cycles" tenants, unfolded p fst_conv snd_conv]
  have q: "quiet ?mr rows'" and le: "attempts_left ?mr rows' + n \<le> attempts_left ?mr rows" using one by blast+
  have ten: "\<forall>r \<in> set rows'. pr_tenant_id r \<in> set tenants"
  proof
    fix r assume r: "r \<in> set rows'"
    have "map (\<lambda>r. (pr_id r, pr_tenant_id r)) rows' = map (\<lambda>r. (pr_id r, pr_tenant_id r)) rows" using one by blast
    then have "map snd (map (\<lambda>r. (pr_id r, pr_tenant_id r)) rows') = map snd (map (\<lambda>r. (pr_id r, pr_tenant_id r)) rows)"
      by (rule arg_cong)
    then have "map pr_tenant_id rows' = map pr_tenant_id rows" by (simp add: comp_def)
    then have "pr_tenant_id ` set rows' = pr_tenant_id ` set rows" by (metis set_map)
    then have "pr_tenant_id r \<in> pr_tenant_id ` set rows" using r by blast
    then show "pr_tenant_id r \<in> set tenants" using Suc.prems(2) by (auto simp del: set_map)
  qed
  have none: "attempts_left ?mr rows' = 0" if "n = 0"
  proof -
    have "rows' = rows" "\<forall>r \<in> set rows. pr_status r \<noteq> QUEUED" using one that Suc.prems(2) by blast+
    then show ?thesis by (simp add: attempts_left_def left_of_def)
  qed
  have left: "attempts_left ?mr rows' \<le> max_cycles - (cycles + 1)"
    using none le Suc.prems(4) by (cases "n = 0") auto
  show ?case
  proof (cases "max_cycles \<le> cycles + 1")
    case True
    then have "attempts_left ?mr rows' = 0" using left by simp
    then have "pr_status r \<noteq> QUEUED" if "r \<in> set rows'" for r using left_positive [OF q that] by auto
    moreover have "pr_status r \<noteq> RUNNING" if "r \<in> set rows'" for r using q that by (simp add: quiet_def)
    ultimately have "pr_status r \<in> {SUCCEEDED, FAILED}" if "r \<in> set rows'" for r
      using that by (cases "pr_status r") auto
    then show ?thesis
      using le True by (subst (1 2) poll_forever.simps) (simp add: p)
  next
    case False
    have "k = max_cycles - (cycles + 1)" using Suc.hyps(2) by simp
    note ih = Suc.hyps(1) [OF this q ten _ left, of "executed + n"]
    have "poll_forever (\<lambda>_. False) max_cycles (\<lambda>_. None) pl st clock tenants cycles executed rows
      = poll_forever (\<lambda>_. False) max_cycles (\<lambda>_. None) pl st clock tenants (cycles + 1) (executed + n) rows'"
      using False by (subst poll_forever.simps) (simp add: p)
    then show ?thesis using ih False le by auto
  qed
qed simp

theorem poll_drains_witness:
  "map pr_status (fst (poll_forever (\<lambda>_. False) 3 (\<lambda>_. None)
       (\<lambda>k i. \<lparr>ex_recorded = [(''INGEST'', ''RUNNING'')], ex_result = Inl ''OSError: down''\<rparr>)
       \<lparr>ws_worker_max_retries = 3, ws_worker_stale_claim_seconds = 120\<rparr> (\<lambda>_. 9) [''t''] 0 0
       (fst (create_run ''t'' ''r'' 1 [])))) = [FAILED]"
proof -
  let ?st = "\<lparr>ws_worker_max_retries = 3, ws_worker_stale_claim_seconds = 120\<rparr>"
  let ?pl = "\<lambda>(k :: nat) (i :: string). \<lparr>ex_recorded = [(''INGEST'', ''RUNNING'')], ex_result = Inl ''OSError: down''\<rparr>"
  let ?rows = "fst (create_run ''t'' ''r'' 1 [])"
  let ?out = "poll_forever (\<lambda>_. False) 3 (\<lambda>_. None) ?pl ?st (\<lambda>_. 9) [''t''] 0 0 ?rows"
  have "quiet (ws_worker_max_retries ?st) ?rows" "\<forall>r \<in> set ?rows. pr_tenant_id r \<in> set [''t'']"
    "attempts_left (ws_worker_max_retries ?st) ?rows \<le> 3 - 0"
    by code_simp+
  from poll_drains [OF this(1,2) _ this(3), of ?pl "\<lambda>_. 9" 0]
  have "\<forall>r \<in> set (fst ?out). pr_status r \<in> {SUCCEEDED, FAILED}" by simp
  moreover have "map pr_status (fst ?out) = [FAILED]" by code_simp
  ultimately show ?thesis by simp
qed

section \<open>Two workers\<close>

text \<open>
  Claims are exclusive: two claims in a row hand out different runs, each oldest first, and a
  run that was claimed is RUNNING with one attempt more.
\<close>

theorem claims_exclusive:
  assumes "distinct (map pr_id rows)" and "claim_queued tid n now rows = (rows1, first)"
    and "claim_queued tid m now' rows1 = (rows2, second)"
  shows "pr_id ` set first \<inter> pr_id ` set second = {}
     \<and> length first = min n (length (filter (\<lambda>r. pr_tenant_id r = tid \<and> pr_status r = QUEUED) rows))
     \<and> sorted (map pr_created_at first)
     \<and> (\<forall>r \<in> set first. r \<in> set rows1 \<and> pr_status r = RUNNING
          \<and> (\<exists>r0 \<in> set rows. pr_status r0 = QUEUED \<and> r = claimed now r0))"
proof -
  let ?Q = "filter (\<lambda>r. pr_tenant_id r = tid \<and> pr_status r = QUEUED) rows"
  let ?p = "take n (sort_key pr_created_at ?Q)"
  have rows1: "rows1 = write_rows (map pr_id ?p) (claimed now) rows" and first: "first = map (claimed now) ?p"
    using assms(2) by (simp_all add: claim_queued_def Let_def)
  have in_p: "r \<in> set rows \<and> pr_status r = QUEUED" if "r \<in> set ?p" for r
    using in_set_takeD [OF that] by simp
  have second: "pr_id s \<notin> pr_id ` set ?p" if s: "s \<in> set second" for s
  proof -
    obtain r where r: "r \<in> set rows1" "pr_status r = QUEUED" "s = claimed now' r"
      using s assms(3) by (auto simp: claim_queued_def Let_def dest!: in_set_takeD)
    then show ?thesis unfolding rows1 by (auto simp: write_rows_def claimed_def split: if_splits)
  qed
  have "sorted (map pr_created_at ?p)" by (simp flip: take_map add: sorted_wrt_take)
  moreover have "map pr_created_at first = map pr_created_at ?p" by (simp add: first claimed_def comp_def)
  moreover have "r \<in> set rows1 \<and> pr_status r = RUNNING \<and> (\<exists>r0 \<in> set rows. pr_status r0 = QUEUED \<and> r = claimed now r0)"
    if r: "r \<in> set first" for r
  proof -
    obtain r0 where r0: "r0 \<in> set ?p" "r = claimed now r0" using r first by auto
    have "pr_id r0 \<in> set (map pr_id ?p)" using r0(1) by (simp only: set_map image_eqI)
    then have "claimed now r0 \<in> set rows1"
      unfolding rows1 write_rows_def set_map using in_p [OF r0(1)] by (intro image_eqI [of _ _ r0]) simp_all
    moreover have "pr_status r = RUNNING" using r0(2) by (simp add: claimed_def)
    ultimately show ?thesis using r0(2) in_p [OF r0(1)] by blast
  qed
  moreover have "pr_id ` set first = pr_id ` set ?p" by (auto simp: first image_image)
  moreover have disjoint: "A \<inter> pr_id ` S = {}" if "\<And>s. s \<in> S \<Longrightarrow> pr_id s \<notin> A" for A and S :: "pipeline_run set"
    using that by auto
  have "pr_id ` set ?p \<inter> pr_id ` set second = {}" by (rule disjoint, rule second)
  moreover have "length first = min n (length ?Q)" by (simp add: first min.commute)
  ultimately show ?thesis by simp
qed

theorem claims_exclusive_witness:
  "\<exists>rows1 first rows2 second. claim_queued ''t'' 1 5 (fst (create_run ''t'' ''r'' 1 [])) = (rows1, first)
     \<and> claim_queued ''t'' 1 6 rows1 = (rows2, second) \<and> length first = 1 \<and> pr_id ` set first \<inter> pr_id ` set second = {}"
proof -
  let ?rows = "fst (create_run ''t'' ''r'' 1 [])"
  obtain rows1 first where a: "claim_queued ''t'' 1 5 ?rows = (rows1, first)" by (cases "claim_queued ''t'' 1 5 ?rows")
  obtain rows2 second where b: "claim_queued ''t'' 1 6 rows1 = (rows2, second)" by (cases "claim_queued ''t'' 1 6 rows1")
  have d: "distinct (map pr_id ?rows)" by code_simp
  have l: "length (filter (\<lambda>r. pr_tenant_id r = ''t'' \<and> pr_status r = QUEUED) ?rows) = 1" by code_simp
  from claims_exclusive [OF d a b] show ?thesis using a b unfolding l by auto
qed

lemma get_run_self:
  assumes "distinct (map pr_id rows)" "r \<in> set rows" "pr_tenant_id r = tid"
  shows "get_run tid (pr_id r) rows = Some r"
proof -
  obtain x where x: "get_run tid (pr_id r) rows = Some x" using get_run_ex [OF assms(2) refl assms(3)] by blast
  then have "x = r" using get_run_Some [OF x] assms(1,2) by (blast dest: distinct_map_filter_inj)
  with x show ?thesis by simp
qed

lemma write_at: "r \<in> set rows \<Longrightarrow> pr_id r \<in> set ids \<Longrightarrow> f r \<in> set (write_rows ids f rows)"
  by (auto simp: write_rows_def)

lemma operations_at:
  assumes "distinct (map pr_id rows)" "r \<in> set rows" "pr_tenant_id r = tid"
  shows "set_stage st v now r \<in> set (fst (update_stage tid (pr_id r) st v now rows))"
    and "finished ok err now r \<in> set (fst (finish_run tid (pr_id r) ok err now rows))"
    and "requeued mr err now r \<in> set (fst (requeue_or_fail tid (pr_id r) mr err now rows))"
    and "is_stale tid (now - secs * 1000000) r \<Longrightarrow> reclaimed mr now r \<in> set (fst (reclaim_stale tid secs mr now rows))"
  using get_run_self [OF assms] assms(2)
  by (simp_all add: update_stage_def finish_run_def requeue_or_fail_def reclaim_stale_def Let_def write_at)

text \<open>
  What a worker that is slow, not dead, does to a run that was taken from it: \<open>reclaim_stale\<close> looks
  at the time of the claim, which no stage record renews, and puts the run back into the queue;
  the next stage record of the first worker makes it RUNNING again without an attempt being
  counted, so no other worker claims it; and its failure report reopens the run after another
  worker has finished it, as long as attempts are left.
\<close>

theorem late_worker_interferes:
  assumes "distinct (map pr_id rows)" and r: "r \<in> set rows" "pr_tenant_id r = tid" "pr_status r = RUNNING"
    and stale: "pr_started_at r = Some t" "t < now - secs * 1000000" and "pr_attempts r < mr"
  shows "let rows1 = fst (reclaim_stale tid secs mr now rows);
             rows2 = fst (update_stage tid (pr_id r) stage v now' rows1);
             rows3 = fst (finish_run tid (pr_id r) True None now' rows1);
             rows4 = fst (requeue_or_fail tid (pr_id r) mr err now' rows3)
         in (\<exists>r1. get_run tid (pr_id r) rows1 = Some r1 \<and> pr_status r1 = QUEUED)
          \<and> (\<exists>r2. get_run tid (pr_id r) rows2 = Some r2 \<and> pr_status r2 = RUNNING \<and> pr_attempts r2 = pr_attempts r)
          \<and> (\<exists>r3. get_run tid (pr_id r) rows3 = Some r3 \<and> pr_status r3 = SUCCEEDED)
          \<and> (\<exists>r4. get_run tid (pr_id r) rows4 = Some r4 \<and> pr_status r4 = QUEUED)"
proof -
  define rows1 where "rows1 = fst (reclaim_stale tid secs mr now rows)"
  define rows2 where "rows2 = fst (update_stage tid (pr_id r) stage v now' rows1)"
  define rows3 where "rows3 = fst (finish_run tid (pr_id r) True None now' rows1)"
  define rows4 where "rows4 = fst (requeue_or_fail tid (pr_id r) mr err now' rows3)"
  have d: "distinct (map pr_id rows1)" "distinct (map pr_id rows2)" "distinct (map pr_id rows3)" "distinct (map pr_id rows4)"
  proof -
    show 1: "distinct (map pr_id rows1)" unfolding rows1_def by (rule step_ids [OF run_reclaim assms(1)])
    show "distinct (map pr_id rows2)" unfolding rows2_def by (rule step_ids [OF run_update 1])
    show 3: "distinct (map pr_id rows3)" unfolding rows3_def by (rule step_ids [OF run_finish 1])
    show "distinct (map pr_id rows4)" unfolding rows4_def by (rule step_ids [OF run_requeue 3])
  qed
  let ?r1 = "reclaimed mr now r"
  let ?r2 = "set_stage stage v now' ?r1"
  let ?r3 = "finished True None now' ?r1"
  let ?r4 = "requeued mr err now' ?r3"
  have st: "is_stale tid (now - secs * 1000000) r" using r stale by (simp add: is_stale_def)
  have vals: "pr_status ?r1 = QUEUED" "pr_tenant_id ?r1 = tid" "pr_attempts ?r1 = pr_attempts r"
    using assms(7) r(2) by (simp_all add: reclaimed_def)
  have vals': "pr_status ?r2 = RUNNING" "pr_attempts ?r2 = pr_attempts r" "pr_tenant_id ?r2 = tid"
    "pr_tenant_id ?r3 = tid" "pr_attempts ?r3 = pr_attempts r" "pr_tenant_id ?r4 = tid"
    using vals by (simp_all add: set_stage_def finished_def requeued_def Let_def)
  have in1: "?r1 \<in> set rows1" unfolding rows1_def by (rule operations_at(4) [OF assms(1) r(1,2) st])
  note at1 = operations_at [OF d(1) in1 vals(2), unfolded same_ids]
  have in2: "?r2 \<in> set rows2" and in3: "?r3 \<in> set rows3" unfolding rows2_def rows3_def by (rule at1(1), rule at1(2))
  have in4: "?r4 \<in> set rows4"
    unfolding rows4_def using operations_at(3) [OF d(3) in3 vals'(4), unfolded same_ids] .
  note gets = get_run_self [OF d(1) in1 vals(2), unfolded same_ids] get_run_self [OF d(2) in2 vals'(3), unfolded same_ids]
    get_run_self [OF d(3) in3 vals'(4), unfolded same_ids] get_run_self [OF d(4) in4 vals'(6), unfolded same_ids]
  have "pr_status ?r3 = SUCCEEDED" "pr_status ?r4 = QUEUED" using vals'(5) assms(7) by simp_all
  then show ?thesis
    unfolding Let_def
    unfolding rows1_def [symmetric] rows2_def [symmetric] rows3_def [symmetric] rows4_def [symmetric]
    using gets vals(1) vals'(1,2) by blast
qed

theorem late_worker_interferes_witness:
  "\<exists>r2. get_run ''t'' ''r'' (fst (update_stage ''t'' ''r'' ''RANK'' ''RUNNING'' 130000000
        (fst (reclaim_stale ''t'' 120 3 121000005 sample_runs)))) = Some r2
     \<and> pr_status r2 = RUNNING \<and> pr_attempts r2 = 1"
proof -
  have "distinct (map pr_id sample_runs)" by code_simp
  moreover have "hd sample_runs \<in> set sample_runs" "pr_tenant_id (hd sample_runs) = ''t''" "pr_status (hd sample_runs) = RUNNING"
    "pr_started_at (hd sample_runs) = Some 5" "5 < 121000005 - 120 * (1000000 :: int)" "pr_attempts (hd sample_runs) < 3"
    by code_simp+
  moreover have "pr_id (hd sample_runs) = ''r''" "pr_attempts (hd sample_runs) = 1" by code_simp+
  ultimately show ?thesis
    using late_worker_interferes [of sample_runs "hd sample_runs" "''t''" 5 121000005 120 3 "''RANK''" "''RUNNING''" 130000000 None]
    by (simp add: Let_def)
qed

end
