(* ===== verification/Signals.thy ===== *)
theory Signals
  imports Contracts
begin

text \<open>
  External signals: the feed with its fallbacks (\<open>worker/feed_adapter.py\<close>), a feed item as a signal
  (\<open>external_signals/normalize.py\<close>, \<open>feed_models.py\<close>) and the signal of a user
  (\<open>attach.py\<close>).  The HTTP client, the file system, pydantic's validation of a raw item and SHA-256
  are parameters; what they deliver, or the exception they raise, is an argument.
\<close>

section \<open>feed_models.py and normalize.py\<close>

record feed_item =
  fi_source :: string
  fi_scope_type :: string
  fi_scope_key :: string
  fi_signal_type :: string
  fi_value :: pyfloat
  fi_observed_at :: py_datetime
  fi_headline :: "string option"

definition scope_of :: "string \<Rightarrow> scope_type option" where
  "scope_of s = find (\<lambda>t. scope_value t = s) [CLIENT, REGION, COHORT]"

definition signal_type_of :: "string \<Rightarrow> signal_type option" where
  "signal_type_of s = find (\<lambda>t. signal_type_value t = s) [NEWS_SENTIMENT, SOCIAL_SENTIMENT, SECTOR_TREND]"

definition to_signal :: "(string \<Rightarrow> string) \<Rightarrow> (py_datetime \<Rightarrow> string) \<Rightarrow> feed_item \<Rightarrow> external_signal result" where
  "to_signal sha256_hex isoformat item =
     (let scope = py_upper (fi_scope_type item) in
      case scope_of scope of
        None \<Rightarrow> Inl (ValueError (''scope '' @ fi_scope_type item @ '' is not allowed; signals never attach to a user''))
      | Some sc \<Rightarrow>
          case signal_type_of (py_upper (fi_signal_type item)) of
            None \<Rightarrow> Inl (ValueError (py_upper (fi_signal_type item) @ '' is not a valid SignalType''))
          | Some ty \<Rightarrow>
              if dt_offset (fi_observed_at item) = None then Inl (ValueError ''observed_at must be timezone-aware'')
              else
                let key = fi_source item @ ''|'' @ scope @ ''|'' @ fi_scope_key item @ ''|''
                            @ signal_type_value ty @ ''|'' @ isoformat (fi_observed_at item)
                in Inr \<lparr>s_signal_id = take 16 (sha256_hex key), s_source = fi_source item, s_scope_type = sc,
                        s_scope_key = fi_scope_key item, s_signal_type = ty,
                        s_value = max (- 1) (min 1 (fi_value item)),
                        s_observed_at = dt_instant (fi_observed_at item)\<rparr>)"

section \<open>attach.py\<close>

text \<open>\<open>max(xs, key=k)\<close> of a non-empty list: the first of the largest.\<close>

fun py_max_by :: "('a \<Rightarrow> 'b :: linorder) \<Rightarrow> 'a \<Rightarrow> 'a list \<Rightarrow> 'a" where
  "py_max_by k best [] = best"
| "py_max_by k best (x # xs) = py_max_by k (if k best < k x then x else best) xs"

definition fresh_match :: "external_signal list \<Rightarrow> scope_type \<Rightarrow> string \<Rightarrow> instant \<Rightarrow> int \<Rightarrow> external_signal list" where
  "fresh_match signals scope key now max_age_days =
     filter (\<lambda>s. s_scope_type s = scope \<and> s_scope_key s = key
               \<and> now - timedelta_days max_age_days \<le> s_observed_at s \<and> s_observed_at s \<le> now) signals"

fun first_scope ::
  "external_signal list \<Rightarrow> instant \<Rightarrow> int \<Rightarrow> (scope_type \<times> string option) list \<Rightarrow> external_signal option" where
  "first_scope signals now max_age_days [] = None"
| "first_scope signals now max_age_days ((scope, None) # wanted) = first_scope signals now max_age_days wanted"
| "first_scope signals now max_age_days ((scope, Some key) # wanted) =
     (case fresh_match signals scope key now max_age_days of
        [] \<Rightarrow> first_scope signals now max_age_days wanted
      | m # ms \<Rightarrow> Some (py_max_by (\<lambda>s. (s_observed_at s, s_signal_id s)) m ms))"

definition resolve_for_user ::
  "external_signal list \<Rightarrow> string \<Rightarrow> string option \<Rightarrow> string option \<Rightarrow> instant \<Rightarrow> int \<Rightarrow> external_signal option" where
  "resolve_for_user signals tenant_slug region_code cohort_key now max_age_days =
     first_scope signals now max_age_days
       [(COHORT, cohort_key), (REGION, region_code), (CLIENT, Some tenant_slug)]"

section \<open>feed_adapter.py\<close>

text \<open>Iterating over a JSON value, as \<open>list.extend\<close> and \<open>list()\<close> do.\<close>

fun iter_json :: "json \<Rightarrow> json list result" where
  "iter_json (JList xs) = Inr xs"
| "iter_json (JStr s) = Inr (map (\<lambda>c. JStr [c]) s)"
| "iter_json (JDict d) = Inr (map (\<lambda>(k, v). JStr k) d)"
| "iter_json _ = Inl (RuntimeError ''TypeError: object is not iterable'')"

text \<open>\<open>data.get("items", []) if isinstance(data, dict) else data\<close>\<close>

fun items_of :: "json \<Rightarrow> json" where
  "items_of (JDict d) = (case map_of d ''items'' of None \<Rightarrow> JList [] | Some v \<Rightarrow> v)"
| "items_of v = v"

text \<open>The canned files in name order, \<open>None\<close> for a missing directory; a file that cannot be read or
  parsed is \<open>None\<close> and skipped.\<close>

fun load_files :: "json option list \<Rightarrow> json list \<Rightarrow> json list result" where
  "load_files [] items = Inr items"
| "load_files (None # fs) items = load_files fs items"
| "load_files (Some data # fs) items =
     bind_result (iter_json (items_of data)) (\<lambda>xs. load_files fs (items @ xs))"

definition load_canned :: "json option list option \<Rightarrow> json list result" where
  "load_canned files = (case files of None \<Rightarrow> Inr [] | Some fs \<Rightarrow> load_files fs [])"

text \<open>The response of the live source, already parsed, or the exception of the request.  A list of
  items is returned as it is, as is whatever a dict holds under \<open>items\<close>.\<close>

definition load_live :: "json result \<Rightarrow> json result" where
  "load_live response = bind_result response (\<lambda>data. case data of
      JDict d \<Rightarrow> Inr (items_of data)
    | _ \<Rightarrow> bind_result (iter_json data) (\<lambda>xs. Inr (JList xs)))"

record feed_settings =
  fe_external_signal_source :: string
  fe_external_signal_live_base_url :: string

text \<open>The items, the source used, and the snapshot kept in the module.\<close>

definition load_feed ::
  "feed_settings \<Rightarrow> json result \<Rightarrow> json option list option \<Rightarrow> json option \<Rightarrow>
   (json \<times> string) result \<times> json option" where
  "load_feed settings response files last_live_snapshot =
     (let canned = (\<lambda>snap. (bind_result (load_canned files) (\<lambda>xs. Inr (JList xs, ''canned'')), snap)) in
      if py_lower (fe_external_signal_source settings) = ''live'' \<and> fe_external_signal_live_base_url settings \<noteq> []
      then (case load_live response of
              Inr items \<Rightarrow> (Inr (items, ''live''), Some items)
            | Inl _ \<Rightarrow> (case last_live_snapshot of
                 Some items \<Rightarrow> (Inr (items, ''live_snapshot''), Some items)
               | None \<Rightarrow> canned None))
      else canned last_live_snapshot)"

section \<open>Which signal a user gets\<close>

lemma py_max_by_in: "py_max_by k b xs \<in> set (b # xs)"
  by (induction xs arbitrary: b) auto

lemma py_max_by_base: "k b \<le> k (py_max_by k b xs)"
proof (induction xs arbitrary: b)
  case (Cons y xs)
  have "k b \<le> k (if k b < k y then y else b)" by (simp add: less_imp_le)
  also have "\<dots> \<le> k (py_max_by k b (y # xs))" using Cons [of "if k b < k y then y else b"] by simp
  finally show ?case .
qed simp

lemma py_max_by_ge: "x \<in> set (b # xs) \<Longrightarrow> k x \<le> k (py_max_by k b xs)"
proof (induction xs arbitrary: b)
  case (Cons y xs)
  let ?b = "if k b < k y then y else b"
  have b: "k ?b \<le> k (py_max_by k b (y # xs))" using py_max_by_base [of k ?b xs] by simp
  consider "x = b" | "x = y" | "x \<in> set (?b # xs)" using Cons.prems by auto
  then show ?case
  proof cases
    case 3
    then show ?thesis using Cons.IH [of ?b] by simp
  qed (use b in \<open>auto split: if_splits\<close>)
qed simp

lemma first_scope_Some:
  "first_scope signals now d wanted = Some s \<Longrightarrow>
     \<exists>pre scope key post. wanted = pre @ (scope, Some key) # post
       \<and> (\<forall>(sc, k) \<in> set pre. \<forall>k'. k = Some k' \<longrightarrow> fresh_match signals sc k' now d = [])
       \<and> s \<in> set (fresh_match signals scope key now d)
       \<and> (\<forall>s' \<in> set (fresh_match signals scope key now d).
             (s_observed_at s', s_signal_id s') \<le> (s_observed_at s, s_signal_id s))"
proof (induction signals now d wanted rule: first_scope.induct)
  case (2 signals now d scope wanted)
  then obtain pre sc key post where "wanted = pre @ (sc, Some key) # post"
    "\<forall>(sc, k) \<in> set pre. \<forall>k'. k = Some k' \<longrightarrow> fresh_match signals sc k' now d = []"
    "s \<in> set (fresh_match signals sc key now d)"
    "\<forall>s' \<in> set (fresh_match signals sc key now d). (s_observed_at s', s_signal_id s') \<le> (s_observed_at s, s_signal_id s)"
    by auto
  then show ?case by (intro exI [of _ "(scope, None) # pre"]) auto
next
  case (3 signals now d scope key wanted)
  show ?case
  proof (cases "fresh_match signals scope key now d")
    case Nil
    then obtain pre sc key' post where "wanted = pre @ (sc, Some key') # post"
      "\<forall>(sc, k) \<in> set pre. \<forall>k'. k = Some k' \<longrightarrow> fresh_match signals sc k' now d = []"
      "s \<in> set (fresh_match signals sc key' now d)"
      "\<forall>s' \<in> set (fresh_match signals sc key' now d). (s_observed_at s', s_signal_id s') \<le> (s_observed_at s, s_signal_id s)"
      using 3 by auto
    with Nil show ?thesis by (intro exI [of _ "(scope, Some key) # pre"]) auto
  next
    case (Cons m ms)
    then have s: "s = py_max_by (\<lambda>s. (s_observed_at s, s_signal_id s)) m ms" using 3 by simp
    have "s \<in> set (m # ms)" unfolding s by (rule py_max_by_in)
    moreover have "(s_observed_at x, s_signal_id x) \<le> (s_observed_at s, s_signal_id s)" if "x \<in> set (m # ms)" for x
      unfolding s using that by (rule py_max_by_ge [where k = "\<lambda>s. (s_observed_at s, s_signal_id s)"])
    ultimately show ?thesis using Cons by (intro exI [of _ "[]"] exI [of _ scope] exI [of _ key] exI [of _ wanted]) auto
  qed
qed simp

lemma first_scope_None:
  "first_scope signals now d wanted = None \<longleftrightarrow>
     (\<forall>(sc, k) \<in> set wanted. \<forall>k'. k = Some k' \<longrightarrow> fresh_match signals sc k' now d = [])"
  by (induction signals now d wanted rule: first_scope.induct) (auto split: list.splits)

text \<open>
  The signal a user gets is never stale, never from the future and never of another cohort, region
  or client; it is of the most specific scope that has a fresh signal, the newest there; and
  a user gets none only when no scope of theirs has one.  Its value is between -1 and 1 when the
  signals come from \<open>to_signal\<close>, whose scopes are these three.
\<close>

theorem resolve_for_user_sound:
  shows "(case resolve_for_user signals slug region cohort now d of
      Some s \<Rightarrow> s \<in> set signals \<and> now - timedelta_days d \<le> s_observed_at s \<and> s_observed_at s \<le> now
        \<and> (s_scope_type s, Some (s_scope_key s)) \<in> {(COHORT, cohort), (REGION, region), (CLIENT, Some slug)}
        \<and> (s_scope_type s \<noteq> COHORT \<longrightarrow> (\<forall>k. cohort = Some k \<longrightarrow> fresh_match signals COHORT k now d = []))
        \<and> (s_scope_type s = CLIENT \<longrightarrow> (\<forall>k. region = Some k \<longrightarrow> fresh_match signals REGION k now d = []))
        \<and> (\<forall>s' \<in> set (fresh_match signals (s_scope_type s) (s_scope_key s) now d). s_observed_at s' \<le> s_observed_at s)
    | None \<Rightarrow> (\<forall>k. cohort = Some k \<longrightarrow> fresh_match signals COHORT k now d = [])
        \<and> (\<forall>k. region = Some k \<longrightarrow> fresh_match signals REGION k now d = [])
        \<and> fresh_match signals CLIENT slug now d = [])
    \<and> (\<forall>item s. to_signal sha iso_text item = Inr s \<longrightarrow> - 1 \<le> s_value s \<and> s_value s \<le> 1)"
proof (rule conjI)
  show "\<forall>item s. to_signal sha iso_text item = Inr s \<longrightarrow> - 1 \<le> s_value s \<and> s_value s \<le> 1"
    by (auto simp: to_signal_def Let_def split: option.splits if_splits)
  let ?wanted = "[(COHORT, cohort), (REGION, region), (CLIENT, Some slug)]"
  show "case resolve_for_user signals slug region cohort now d of
      Some s \<Rightarrow> s \<in> set signals \<and> now - timedelta_days d \<le> s_observed_at s \<and> s_observed_at s \<le> now
        \<and> (s_scope_type s, Some (s_scope_key s)) \<in> {(COHORT, cohort), (REGION, region), (CLIENT, Some slug)}
        \<and> (s_scope_type s \<noteq> COHORT \<longrightarrow> (\<forall>k. cohort = Some k \<longrightarrow> fresh_match signals COHORT k now d = []))
        \<and> (s_scope_type s = CLIENT \<longrightarrow> (\<forall>k. region = Some k \<longrightarrow> fresh_match signals REGION k now d = []))
        \<and> (\<forall>s' \<in> set (fresh_match signals (s_scope_type s) (s_scope_key s) now d). s_observed_at s' \<le> s_observed_at s)
    | None \<Rightarrow> (\<forall>k. cohort = Some k \<longrightarrow> fresh_match signals COHORT k now d = [])
        \<and> (\<forall>k. region = Some k \<longrightarrow> fresh_match signals REGION k now d = [])
        \<and> fresh_match signals CLIENT slug now d = []"
  proof (cases "resolve_for_user signals slug region cohort now d")
    case None
    then show ?thesis using first_scope_None [of signals now d ?wanted] by (simp add: resolve_for_user_def)
  next
    case (Some s)
    obtain pre scope key post where w: "?wanted = pre @ (scope, Some key) # post"
      and pre: "\<forall>(sc, k) \<in> set pre. \<forall>k'. k = Some k' \<longrightarrow> fresh_match signals sc k' now d = []"
      and s: "s \<in> set (fresh_match signals scope key now d)"
      and newest: "\<forall>s' \<in> set (fresh_match signals scope key now d). (s_observed_at s', s_signal_id s') \<le> (s_observed_at s, s_signal_id s)"
      using first_scope_Some [OF Some [unfolded resolve_for_user_def]] by blast
    have sc: "s_scope_type s = scope" "s_scope_key s = key" "s \<in> set signals"
      "now - timedelta_days d \<le> s_observed_at s" "s_observed_at s \<le> now"
      using s by (auto simp: fresh_match_def)
    have new: "\<forall>s' \<in> set (fresh_match signals scope key now d). s_observed_at s' \<le> s_observed_at s"
      using newest by (auto simp: less_eq_prod_def)
    have "pre = [] \<and> scope = COHORT \<and> cohort = Some key
        \<or> pre = [(COHORT, cohort)] \<and> scope = REGION \<and> region = Some key
        \<or> pre = [(COHORT, cohort), (REGION, region)] \<and> scope = CLIENT \<and> slug = key"
      using w by (auto simp: Cons_eq_append_conv)
    then show ?thesis using pre sc new Some by (elim disjE) auto
  qed
qed

definition sample_signal :: "external_signal" where
  "sample_signal = \<lparr>s_signal_id = ''i'', s_source = ''n'', s_scope_type = REGION, s_scope_key = ''ID'',
     s_signal_type = NEWS_SENTIMENT, s_value = 1 / 2, s_observed_at = 5\<rparr>"

theorem resolve_for_user_sound_witness:
  "resolve_for_user [sample_signal] ''slug'' (Some ''ID'') None 7 1 = Some sample_signal
   \<and> sample_signal \<in> set [sample_signal] \<and> s_observed_at sample_signal \<le> 7"
proof -
  have "resolve_for_user [sample_signal] ''slug'' (Some ''ID'') None 7 1 = Some sample_signal" by code_simp
  with resolve_for_user_sound [where signals = "[sample_signal]" and slug = "''slug''" and region = "Some ''ID''"
      and cohort = None and now = 7 and d = 1]
  show ?thesis by auto
qed

text \<open>
  The feed adapter falls back from the live source to its last good answer to the canned files.
  A live source that fails never makes it raise, and never loses the snapshot; what it can still
  raise on is a canned file that is neither a list nor an object.
\<close>

theorem load_feed_falls_back:
  shows "(case load_feed settings response files snap of
      (Inr (items, source), snap') \<Rightarrow>
         (source = ''live'' \<and> load_live response = Inr items \<and> snap' = Some items)
       \<or> (source = ''live_snapshot'' \<and> (\<exists>e. load_live response = Inl e) \<and> snap = Some items \<and> snap' = snap)
       \<or> (source = ''canned'' \<and> (\<exists>xs. load_canned files = Inr xs \<and> items = JList xs) \<and> snap' = snap)
    | (Inl e, snap') \<Rightarrow> load_canned files = Inl e \<and> snap' = snap)
    \<and> (snap \<noteq> None \<longrightarrow> snd (load_feed settings response files snap) \<noteq> None)"
  by (auto simp: load_feed_def Let_def bind_result_def split: sum.splits option.splits)

theorem load_feed_falls_back_witness:
  "snd (load_feed \<lparr>fe_external_signal_source = ''live'', fe_external_signal_live_base_url = ''u''\<rparr>
      (Inl (RuntimeError ''timeout'')) None (Some (JList []))) \<noteq> None"
  using load_feed_falls_back [where settings = "\<lparr>fe_external_signal_source = ''live'', fe_external_signal_live_base_url = ''u''\<rparr>"
      and response = "Inl (RuntimeError ''timeout'')" and files = None and snap = "Some (JList [])"]
  by simp

end
