(* ===== verification/Churn.thy ===== *)
theory Churn
  imports Impact
begin

text \<open>
  \<open>packages/churn-risk\<close>: the feature rows of the in-context classifier (\<open>features.py\<close>) and of the
  trained scorer (\<open>snapshot_features.py\<close>), the choice of context rows (\<open>context.py\<close>), the classifier
  with its stand-in (\<open>classifier.py\<close>) and the attribution of the external signal
  (\<open>attribution.py\<close>).  The classifier libraries and \<open>random.Random.sample\<close> are parameters.
\<close>

section \<open>features.py\<close>

definition ACTIVITY_WINDOW_DAYS :: int where "ACTIVITY_WINDOW_DAYS = 30"
definition MAX_DAYS :: pyfloat where "MAX_DAYS = 365"

definition FEATURE_COLUMNS :: "string list" where
  "FEATURE_COLUMNS = [''recency_days'', ''frequency_30d'', ''monetary_30d_idr'', ''tenure_days'',
     ''session_gap_days'', ''delta_stability'', ''circle_size'', ''pattern_circle_specific'',
     ''pattern_market_driven'', ''pattern_stable'', ''external_signal_value'']"

definition amount_or_0 :: "canonical_event \<Rightarrow> int" where
  "amount_or_0 e = (case e_amount_idr e of None \<Rightarrow> 0 | Some a \<Rightarrow> a)"

definition build_features ::
  "canonical_event list \<Rightarrow> circle_snapshot option \<Rightarrow> external_signal option \<Rightarrow> instant \<Rightarrow> features" where
  "build_features events0 circle_snapshot external_signal now =
     (let events = sort_key e_occurred_at (filter (\<lambda>e. e_occurred_at e \<le> now) events0);
          window_start = now - timedelta_days ACTIVITY_WINDOW_DAYS;
          recent = filter (\<lambda>e. window_start \<le> e_occurred_at e) events;
          recency = (if events \<noteq> [] then days_of (now - e_occurred_at (last events)) else MAX_DAYS);
          tenure = (if events \<noteq> [] then days_of (now - e_occurred_at (hd events)) else 0);
          session_gap = (if length recent \<ge> 2
                         then fdiv (days_of (e_occurred_at (last recent) - e_occurred_at (hd recent)))
                                (float_of_int (int (length recent) - 1))
                         else float_of_int ACTIVITY_WINDOW_DAYS);
          pattern = (case circle_snapshot of Some s \<Rightarrow> cs_pattern_type s | None \<Rightarrow> STABLE)
      in [(''recency_days'', min recency MAX_DAYS),
          (''frequency_30d'', float_of_int (int (length recent))),
          (''monetary_30d_idr'', float_of_int (sum_list (map amount_or_0 recent))),
          (''tenure_days'', min tenure MAX_DAYS),
          (''session_gap_days'', session_gap),
          (''delta_stability'', case circle_snapshot of Some s \<Rightarrow> cs_delta_stability s | None \<Rightarrow> 0),
          (''circle_size'', case circle_snapshot of Some s \<Rightarrow> float_of_int (cs_circle_size s) | None \<Rightarrow> 0),
          (''pattern_circle_specific'', if pattern = CIRCLE_SPECIFIC then 1 else 0),
          (''pattern_market_driven'', if pattern = MARKET_DRIVEN then 1 else 0),
          (''pattern_stable'', if pattern = STABLE then 1 else 0),
          (''external_signal_value'', case external_signal of Some s \<Rightarrow> s_value s | None \<Rightarrow> 0)])"

definition to_row :: "features \<Rightarrow> pyfloat list" where
  "to_row fs = map (\<lambda>c. dict_get fs c 0) FEATURE_COLUMNS"

section \<open>snapshot_features.py\<close>

definition SNAPSHOT_FEATURE_COLUMNS :: "string list" where
  "SNAPSHOT_FEATURE_COLUMNS = [''client_profile'', ''region'', ''txn_count_30d'', ''active_days_30d'',
     ''days_since_last_txn'', ''avg_amount_30d'', ''total_amount_30d'', ''amount_trend_90d'',
     ''activity_trend_90d'', ''external_sentiment'', ''external_signal_name'', ''base_business_value'']"

datatype scorer_value = SStr string | SInt int | SFloat pyfloat

definition NEUTRAL_SIGNAL :: "(string \<times> scorer_value) list" where
  "NEUTRAL_SIGNAL = [(''external_sentiment'', SFloat 0), (''external_signal_name'', SStr ''stable'')]"

definition TRANSACTION_EVENT_TYPES :: "canonical_event_type list" where
  "TRANSACTION_EVENT_TYPES = [PAYMENT, P2P_TRANSFER, TOPUP, WITHDRAWAL, SPLIT_BILL_CREATED,
     SPLIT_BILL_SETTLED, RECURRING_PAYMENT, LOAN_REPAYMENT]"

definition WINDOW_DAYS :: int where "WINDOW_DAYS = 30"
definition MAX_RECENCY_DAYS :: int where "MAX_RECENCY_DAYS = 60"

text \<open>The mapping file, with the keys the code reads.\<close>

record scorer_mapping =
  sm_support_friction_min_contacts :: int
  sm_positive_threshold :: pyfloat
  sm_negative_threshold :: pyfloat
  sm_amount_scale_idr :: pyfloat
  sm_base_business_value_low :: pyfloat
  sm_base_business_value_high :: pyfloat
  sm_profile_by_type :: "(string \<times> string) list"
  sm_default_profile :: string
  sm_region_by_code :: "(string \<times> string) list"
  sm_default_region :: string
  sm_business_value_scale_idr :: pyfloat

definition trend :: "pyfloat \<Rightarrow> pyfloat \<Rightarrow> pyfloat \<Rightarrow> pyfloat" where
  "trend recent prior_a prior_b =
     (let baseline = fdiv (fadd prior_a prior_b) 2; scale = max recent baseline
      in if scale \<le> 0 then 0 else max (- 1) (min 1 (fdiv (fsub recent baseline) scale)))"

definition signal_name :: "external_signal option \<Rightarrow> int \<Rightarrow> scorer_mapping \<Rightarrow> string" where
  "signal_name external_signal support_contacts mapping =
     (if sm_support_friction_min_contacts mapping \<le> support_contacts then ''support_friction''
      else case external_signal of
          None \<Rightarrow> ''stable''
        | Some s \<Rightarrow>
            if sm_positive_threshold mapping \<le> s_value s then ''positive_momentum''
            else if s_value s \<le> - sm_negative_threshold mapping
            then (if s_scope_type s = COHORT \<or> s_signal_type s = SECTOR_TREND then ''income_pressure''
                  else ''competitor_pull'')
            else ''stable'')"

text \<open>\<open>e.occurred_at.date()\<close> in the offset the event was written with, as a day number.\<close>

definition date_of :: "canonical_event \<Rightarrow> int" where
  "date_of e = (e_occurred_at e + e_utcoffset e) div timedelta_days 1"

definition window_of :: "canonical_event list \<Rightarrow> instant \<Rightarrow> int \<Rightarrow> canonical_event list" where
  "window_of txns now k =
     filter (\<lambda>e. now - timedelta_days (WINDOW_DAYS * (k + 1)) < e_occurred_at e
               \<and> e_occurred_at e \<le> now - timedelta_days (WINDOW_DAYS * k)) txns"

definition build_snapshot_features ::
  "canonical_event list \<Rightarrow> instant \<Rightarrow> (string \<times> json) list option \<Rightarrow> external_signal option \<Rightarrow> string \<Rightarrow> int \<Rightarrow>
   scorer_mapping \<Rightarrow> (string \<times> scorer_value) list" where
  "build_snapshot_features events now attributes external_signal profile_type business_value_idr mapping =
     (let past = filter (\<lambda>e. e_occurred_at e \<le> now) events;
          txns = sort_key e_occurred_at (filter (\<lambda>e. e_event_type e \<in> set TRANSACTION_EVENT_TYPES) past);
          support_contacts = int (length (filter (\<lambda>e. e_event_type e = SUPPORT_CONTACT
                                    \<and> now - timedelta_days WINDOW_DAYS < e_occurred_at e) past));
          windows = map (window_of txns now) [0, 1, 2];
          scale = sm_amount_scale_idr mapping;
          amounts = map (\<lambda>w. fdiv (float_of_int (sum_list (map amount_or_0 w))) scale) windows;
          counts = map (\<lambda>w. float_of_int (int (length w))) windows;
          recent = windows ! 0;
          recency = (if txns \<noteq> [] then min (days_of (now - e_occurred_at (last txns))) (of_int MAX_RECENCY_DAYS)
                     else of_int MAX_RECENCY_DAYS);
          region_code = (case attributes of None \<Rightarrow> None | Some a \<Rightarrow> map_of a ''region_code'')
      in [(''client_profile'', SStr (dict_get (sm_profile_by_type mapping) (py_upper profile_type) (sm_default_profile mapping))),
          (''region'', SStr (case region_code of
               Some (JStr r) \<Rightarrow> dict_get (sm_region_by_code mapping) r (sm_default_region mapping)
             | _ \<Rightarrow> sm_default_region mapping)),
          (''txn_count_30d'', SInt (int (length recent))),
          (''active_days_30d'', SInt (int (length (remdups (map date_of recent))))),
          (''days_since_last_txn'', SInt (py_int recency)),
          (''avg_amount_30d'', SFloat (if recent \<noteq> [] then fdiv (amounts ! 0) (float_of_int (int (length recent))) else 0)),
          (''total_amount_30d'', SFloat (amounts ! 0)),
          (''amount_trend_90d'', SFloat (trend (amounts ! 0) (amounts ! 1) (amounts ! 2))),
          (''activity_trend_90d'', SFloat (trend (counts ! 0) (counts ! 1) (counts ! 2))),
          (''external_sentiment'', SFloat (case external_signal of Some s \<Rightarrow> s_value s | None \<Rightarrow> 0)),
          (''external_signal_name'', SStr (signal_name external_signal support_contacts mapping)),
          (''base_business_value'', SFloat (min (max (fdiv (float_of_int business_value_idr) (sm_business_value_scale_idr mapping))
                                                   (sm_base_business_value_low mapping)) (sm_base_business_value_high mapping)))])"

section \<open>context.py\<close>

definition assert_single_tenant :: "labeled_example list \<Rightarrow> unit result" where
  "assert_single_tenant rows =
     (let n = length (remdups (map le_tenant_id rows)) in
      if n > 1 then Inl (CrossTenantContext (''context rows span '' @ show_nat n @ '' tenants'')) else Inr ())"

text \<open>\<open>rng\<close> is the generator after \<open>Random(seed)\<close>; \<open>sample\<close> draws and returns the generator that is left.\<close>

definition take_of :: "int \<Rightarrow> nat \<Rightarrow> nat \<Rightarrow> nat" where
  "take_of max_rows group_len row_count =
     min (nat (round_half_even (int_truediv (max_rows * int group_len) (int row_count)))) group_len"

definition select_rows ::
  "('g \<Rightarrow> labeled_example list \<Rightarrow> nat \<Rightarrow> labeled_example list \<times> 'g) \<Rightarrow> (int \<Rightarrow> 'g) \<Rightarrow> labeled_example list \<Rightarrow>
   int \<Rightarrow> int \<Rightarrow> labeled_example list" where
  "select_rows sample rng rows0 max_rows seed =
     (let rows = sort_key le_source_outcome_id rows0 in
      if int (length rows) > max_rows
      then
        let kept = filter le_retained rows;
            churned = filter (\<lambda>r. \<not> le_retained r) rows;
            (a, g) = sample (rng seed) kept (take_of max_rows (length kept) (length rows));
            (b, _) = sample g churned (take_of max_rows (length churned) (length rows))
        in take (nat max_rows) (sort_key le_source_outcome_id (a @ b))
      else rows)"

definition select_context ::
  "('g \<Rightarrow> labeled_example list \<Rightarrow> nat \<Rightarrow> labeled_example list \<times> 'g) \<Rightarrow> (int \<Rightarrow> 'g) \<Rightarrow> labeled_example list \<Rightarrow>
   int \<Rightarrow> int \<Rightarrow> int \<Rightarrow> (pyfloat list list \<times> int list) result" where
  "select_context sample rng labeled_rows max_rows min_rows seed =
     bind_result (assert_single_tenant labeled_rows) (\<lambda>_.
       if int (length labeled_rows) < min_rows
       then Inl (ContextTooSmall (show_nat (length labeled_rows) @ '' context rows, need '' @ show_int min_rows))
       else
         let rows = select_rows sample rng labeled_rows max_rows seed
         in Inr (map (\<lambda>r. to_row (le_features r)) rows, map (\<lambda>r. if le_retained r then 0 else 1) rows))"

section \<open>classifier.py\<close>

definition CHURN_MODEL_TABPFN :: string where "CHURN_MODEL_TABPFN = ''TABPFN_CLASSIFIER''"
definition CHURN_MODEL_STAND_IN :: string where "CHURN_MODEL_STAND_IN = ''SKLEARN_RANDOM_FOREST''"
definition MODEL_CONSTANT :: string where "MODEL_CONSTANT = ''CONSTANT_SINGLE_CLASS''"

definition predict_positive ::
  "classifier \<Rightarrow> classifier \<Rightarrow> pyfloat list list \<Rightarrow> int list \<Rightarrow> pyfloat list list \<Rightarrow> int \<Rightarrow> bool \<Rightarrow>
   (pyfloat list \<times> string) result" where
  "predict_positive tabpfn forest context_X context_y query_X seed use_tabpfn =
     (if query_X = [] then Inr ([], MODEL_CONSTANT)
      else if length (remdups context_y) < 2
      then Inr (replicate (length query_X) (case context_y of [] \<Rightarrow> 0 | y # _ \<Rightarrow> of_int y), MODEL_CONSTANT)
      else
        let stand_in = bind_result (predict_retained forest seed context_X context_y query_X)
                         (\<lambda>ps. Inr (ps, CHURN_MODEL_STAND_IN))
        in if use_tabpfn
           then (case predict_retained tabpfn seed context_X context_y query_X of
                   Inr ps \<Rightarrow> Inr (ps, CHURN_MODEL_TABPFN)
                 | Inl _ \<Rightarrow> stand_in)
           else stand_in)"

definition score ::
  "classifier \<Rightarrow> classifier \<Rightarrow> pyfloat list list \<Rightarrow> int list \<Rightarrow> pyfloat list list \<Rightarrow> int \<Rightarrow> string list option \<Rightarrow> bool \<Rightarrow>
   risk_score list result" where
  "score tabpfn forest context_X context_y query_X seed query_ids use_tabpfn =
     bind_result (predict_positive tabpfn forest context_X context_y query_X seed use_tabpfn) (\<lambda>(probs, model_name).
       let ids = (case query_ids of Some (i # is) \<Rightarrow> i # is | _ \<Rightarrow> map (\<lambda>i. show_nat i) [0..<length query_X])
       in Inr (map (\<lambda>(uid, p). \<lparr>rs_user_pseudonym = uid, rs_churn_risk = p, rs_model = model_name,
                    rs_context_row_count = int (length context_X), rs_external_signal_id = None,
                    rs_external_signal_contribution = 0\<rparr>) (zip ids probs)))"

section \<open>attribution.py\<close>

text \<open>A column name the code does not know is a \<open>ValueError\<close>; a model that returns too few
  probabilities an \<open>IndexError\<close>.\<close>

definition contributions ::
  "(pyfloat list list \<Rightarrow> int list \<Rightarrow> pyfloat list list \<Rightarrow> pyfloat list result) \<Rightarrow> pyfloat list list \<Rightarrow> int list \<Rightarrow>
   pyfloat list list \<Rightarrow> string \<Rightarrow> pyfloat list result" where
  "contributions score_fn context_X context_y query_rows signal_column =
     (if query_rows = [] then Inr []
      else bind_result (py_index FEATURE_COLUMNS signal_column) (\<lambda>col.
        let neutral = map (\<lambda>row. row[col := 0]) query_rows;
            n = length query_rows
        in bind_result (score_fn context_X context_y (query_rows @ neutral)) (\<lambda>probs.
             map_result (\<lambda>i. if query_rows ! i ! col = 0 then Inr 0
                             else bind_result (py_nth probs i) (\<lambda>p.
                                  bind_result (py_nth probs (n + i)) (\<lambda>q. Inr (fsub p q))))
               [0..<n])))"

section \<open>The features depend on the past only\<close>

lemma map_sort_key: "map f (sort_key f xs) = sort (map f xs)"
  by (rule properties_for_sort [symmetric]) simp_all

lemma sort_mset_cong: "mset xs = mset ys \<Longrightarrow> sort (map f xs) = sort (map f ys)"
  by (metis mset_map properties_for_sort mset_sort sorted_sort)

text \<open>What the features read of the sorted events: their times, and order-free sums over windows.\<close>

lemma sorted_view:
  assumes "mset xs = mset ys"
  shows "(sort_key e_occurred_at xs = [] \<longleftrightarrow> sort_key e_occurred_at ys = [])"
    and "map e_occurred_at (filter (\<lambda>e. P (e_occurred_at e)) (sort_key e_occurred_at xs))
       = map e_occurred_at (filter (\<lambda>e. P (e_occurred_at e)) (sort_key e_occurred_at ys))"
    and "mset (filter Q (sort_key e_occurred_at xs)) = mset (filter Q (sort_key e_occurred_at ys))"
proof -
  show "(sort_key e_occurred_at xs = [] \<longleftrightarrow> sort_key e_occurred_at ys = [])"
    using assms by (metis mset.simps(1) mset_zero_iff sort_key_Nil_iff)
  have "map e_occurred_at (filter (\<lambda>e. P (e_occurred_at e)) (sort_key e_occurred_at zs))
      = filter P (sort (map e_occurred_at zs))" for zs
    by (simp flip: map_sort_key add: filter_map comp_def)
  then show "map e_occurred_at (filter (\<lambda>e. P (e_occurred_at e)) (sort_key e_occurred_at xs))
       = map e_occurred_at (filter (\<lambda>e. P (e_occurred_at e)) (sort_key e_occurred_at ys))"
    using sort_mset_cong [OF assms] by metis
  show "mset (filter Q (sort_key e_occurred_at xs)) = mset (filter Q (sort_key e_occurred_at ys))"
    using assms by (metis mset_filter mset_sort)
qed

lemma hd_last_map: "map f xs = map f ys \<Longrightarrow> xs \<noteq> [] \<Longrightarrow> f (hd xs) = f (hd ys) \<and> f (last xs) = f (last ys)"
  by (metis hd_map last_map map_is_Nil_conv)

lemma sum_list_map_mset: "mset xs = mset ys \<Longrightarrow> sum_list (map f xs) = sum_list (map (f :: 'a \<Rightarrow> int) ys)"
  by (metis mset_map sum_mset_sum_list)

lemma build_features_cong:
  assumes m: "mset (filter (\<lambda>e. e_occurred_at e \<le> now) xs) = mset (filter (\<lambda>e. e_occurred_at e \<le> now) ys)"
  shows "build_features xs snap sig now = build_features ys snap sig now"
proof -
  let ?X = "sort_key e_occurred_at (filter (\<lambda>e. e_occurred_at e \<le> now) xs)"
  let ?Y = "sort_key e_occurred_at (filter (\<lambda>e. e_occurred_at e \<le> now) ys)"
  let ?w = "now - timedelta_days ACTIVITY_WINDOW_DAYS"
  let ?RX = "filter (\<lambda>e. ?w \<le> e_occurred_at e) ?X" and ?RY = "filter (\<lambda>e. ?w \<le> e_occurred_at e) ?Y"
  have t: "map e_occurred_at ?X = map e_occurred_at ?Y" and r: "map e_occurred_at ?RX = map e_occurred_at ?RY"
    using sorted_view(2) [OF m, of "\<lambda>_. True"] sorted_view(2) [OF m, of "\<lambda>t. ?w \<le> t"] by simp_all
  have len: "length ?RX = length ?RY" using r by (metis length_map)
  have s: "sum_list (map amount_or_0 ?RX) = sum_list (map amount_or_0 ?RY)"
    by (rule sum_list_map_mset) (rule sorted_view(3) [OF m])
  have nil: "?X = [] \<longleftrightarrow> ?Y = []" by (rule sorted_view(1) [OF m])
  have ends: "?X \<noteq> [] \<Longrightarrow> e_occurred_at (hd ?X) = e_occurred_at (hd ?Y) \<and> e_occurred_at (last ?X) = e_occurred_at (last ?Y)"
    and ends_r: "?RX \<noteq> [] \<Longrightarrow> e_occurred_at (hd ?RX) = e_occurred_at (hd ?RY) \<and> e_occurred_at (last ?RX) = e_occurred_at (last ?RY)"
    using hd_last_map [OF t] hd_last_map [OF r] by blast+
  have gap: "2 \<le> length ?RX \<Longrightarrow> ?RX \<noteq> []" by auto
  show ?thesis
    unfolding build_features_def Let_def
    using len s nil ends ends_r gap by (cases "?X = []"; cases "2 \<le> length ?RX") simp_all
qed

lemma build_features_keys: "map fst (build_features xs snap sig now) = FEATURE_COLUMNS"
  by (simp add: build_features_def FEATURE_COLUMNS_def Let_def)

lemma dates_cong: "mset xs = mset ys \<Longrightarrow> length (remdups (map f xs)) = length (remdups (map f ys))"
  by (metis length_remdups_card_conv mset_map set_mset_mset)

lemma build_snapshot_cong:
  assumes m: "mset (filter (\<lambda>e. e_occurred_at e \<le> now) xs) = mset (filter (\<lambda>e. e_occurred_at e \<le> now) ys)"
  shows "build_snapshot_features xs now attrs sig prof bv mp = build_snapshot_features ys now attrs sig prof bv mp"
proof -
  let ?tx = "\<lambda>zs. filter (\<lambda>e. e_event_type e \<in> set TRANSACTION_EVENT_TYPES) (filter (\<lambda>e. e_occurred_at e \<le> now) zs)"
  let ?X = "sort_key e_occurred_at (?tx xs)" and ?Y = "sort_key e_occurred_at (?tx ys)"
  have mt: "mset (?tx xs) = mset (?tx ys)" using m by (metis mset_filter)
  have t: "map e_occurred_at ?X = map e_occurred_at ?Y" using sorted_view(2) [OF mt, of "\<lambda>_. True"] by simp
  have w: "mset (window_of ?X now k) = mset (window_of ?Y now k)" for k
    unfolding window_of_def by (rule sorted_view(3) [OF mt])
  have len: "length (window_of ?X now k) = length (window_of ?Y now k)" for k
    using w by (metis size_mset)
  have sums: "sum_list (map amount_or_0 (window_of ?X now k)) = sum_list (map amount_or_0 (window_of ?Y now k))" for k
    by (rule sum_list_map_mset [OF w])
  have dates: "length (remdups (map date_of (window_of ?X now 0))) = length (remdups (map date_of (window_of ?Y now 0)))"
    by (rule dates_cong [OF w])
  have nil: "?X = [] \<longleftrightarrow> ?Y = []" by (rule sorted_view(1) [OF mt])
  have last: "?X \<noteq> [] \<Longrightarrow> e_occurred_at (last ?X) = e_occurred_at (last ?Y)" using hd_last_map [OF t] by blast
  have nil_w: "window_of ?X now 0 = [] \<longleftrightarrow> window_of ?Y now 0 = []" using len [of 0] by (metis length_0_conv)
  have sup: "length (filter Q (filter (\<lambda>e. e_occurred_at e \<le> now) xs)) = length (filter Q (filter (\<lambda>e. e_occurred_at e \<le> now) ys))" for Q
    using m by (metis mset_filter size_mset)
  show ?thesis
    unfolding build_snapshot_features_def Let_def list.map nth_Cons_0
    using len sums dates nil last nil_w sup by (cases "?X = []") simp_all
qed

lemma trend_range: "- 1 \<le> trend a b c \<and> trend a b c \<le> 1"
  by (auto simp: trend_def Let_def)

lemma days_of_nonneg: "0 \<le> d \<Longrightarrow> 0 \<le> days_of d"
  by (simp add: days_of_def int_truediv_def fdiv_def fl_nonneg)

lemma sorted_last_in: "xs \<noteq> [] \<Longrightarrow> last (sort_key f xs) \<in> set xs \<and> hd (sort_key f xs) \<in> set xs"
  by (metis hd_in_set last_in_set set_sort sort_key_Nil_iff)

lemma build_features_ranges:
  "0 \<le> dict_get (build_features xs snap sig now) ''recency_days'' 0
   \<and> dict_get (build_features xs snap sig now) ''recency_days'' 0 \<le> 365
   \<and> 0 \<le> dict_get (build_features xs snap sig now) ''tenure_days'' 0
   \<and> dict_get (build_features xs snap sig now) ''tenure_days'' 0 \<le> 365
   \<and> dict_get (build_features xs snap sig now) ''pattern_circle_specific'' 0
     + dict_get (build_features xs snap sig now) ''pattern_market_driven'' 0
     + dict_get (build_features xs snap sig now) ''pattern_stable'' 0 = 1"
proof -
  let ?past = "filter (\<lambda>e. e_occurred_at e \<le> now) xs"
  have "?past \<noteq> [] \<Longrightarrow> 0 \<le> days_of (now - e_occurred_at (last (sort_key e_occurred_at ?past)))
      \<and> 0 \<le> days_of (now - e_occurred_at (hd (sort_key e_occurred_at ?past)))"
    using sorted_last_in [of ?past e_occurred_at] by (auto intro!: days_of_nonneg)
  then show ?thesis
    by (cases "case snap of Some s \<Rightarrow> cs_pattern_type s | None \<Rightarrow> STABLE")
       (auto simp: build_features_def Let_def dict_get_def MAX_DAYS_def)
qed

text \<open>
  C36. Nothing from after the snapshot leaks into a feature, and the order in which the events arrive
  does not matter: two histories with the same events up to \<open>now\<close> give the same classifier row
  and the same scorer row.  The classifier row has the fixed columns in their order, recency and
  tenure lie between 0 and 365 days, exactly one pattern is marked, and trends lie between -1 and 1.
\<close>

theorem features_no_leak:
  assumes "mset (filter (\<lambda>e. e_occurred_at e \<le> now) xs) = mset (filter (\<lambda>e. e_occurred_at e \<le> now) ys)"
  shows "let f = build_features xs snap sig now in
       f = build_features ys snap sig now
     \<and> build_snapshot_features xs now attrs sig prof bv mp = build_snapshot_features ys now attrs sig prof bv mp
     \<and> map fst f = FEATURE_COLUMNS \<and> length (to_row f) = length FEATURE_COLUMNS
     \<and> 0 \<le> dict_get f ''recency_days'' 0 \<and> dict_get f ''recency_days'' 0 \<le> 365
     \<and> 0 \<le> dict_get f ''tenure_days'' 0 \<and> dict_get f ''tenure_days'' 0 \<le> 365
     \<and> dict_get f ''pattern_circle_specific'' 0 + dict_get f ''pattern_market_driven'' 0
         + dict_get f ''pattern_stable'' 0 = 1
     \<and> map fst (build_snapshot_features xs now attrs sig prof bv mp) = SNAPSHOT_FEATURE_COLUMNS
     \<and> (\<forall>a b c. - 1 \<le> trend a b c \<and> trend a b c \<le> 1)"
  unfolding Let_def
  using build_features_cong [OF assms] build_snapshot_cong [OF assms] build_features_ranges [of xs snap sig now]
    trend_range build_features_keys
  by (simp add: to_row_def) (simp add: build_snapshot_features_def SNAPSHOT_FEATURE_COLUMNS_def Let_def)

definition sample_event :: "string \<Rightarrow> instant \<Rightarrow> canonical_event" where
  "sample_event i t = \<lparr>e_tenant_id = ''t'', e_client_event_id = i, e_event_type = PAYMENT, e_occurred_at = t,
     e_utcoffset = 0, e_user_pseudonym = ''u'', e_amount_idr = Some 5, e_counterparty_pseudonym = None,
     e_attributes = []\<rparr>"

theorem features_no_leak_witness:
  "build_features [sample_event ''a'' 1, sample_event ''later'' 9] None None 5
     = build_features [sample_event ''a'' 1] None None 5"
proof -
  have "mset (filter (\<lambda>e. e_occurred_at e \<le> 5) [sample_event ''a'' 1, sample_event ''later'' 9])
      = mset (filter (\<lambda>e. e_occurred_at e \<le> 5) [sample_event ''a'' 1])"
    by (simp add: sample_event_def)
  from features_no_leak [OF this, of None None] show ?thesis by (simp add: Let_def)
qed

section \<open>The context rows\<close>

text \<open>What \<open>random.Random.sample\<close> documents: \<open>k\<close> distinct positions of the population.\<close>

definition samples :: "('g \<Rightarrow> labeled_example list \<Rightarrow> nat \<Rightarrow> labeled_example list \<times> 'g) \<Rightarrow> bool" where
  "samples sample \<longleftrightarrow> (\<forall>g xs k. k \<le> length xs \<longrightarrow>
     mset (fst (sample g xs k)) \<subseteq># mset xs \<and> length (fst (sample g xs k)) = k)"

lemma samplesD:
  "samples sample \<Longrightarrow> sample g xs k = (ys, g') \<Longrightarrow> k \<le> length xs \<Longrightarrow> mset ys \<subseteq># mset xs \<and> length ys = k"
  unfolding samples_def by (metis fst_conv)

lemma mset_take_subset: "mset (take n xs) \<subseteq># mset xs"
  by (metis append_take_drop_id mset_append mset_subset_eq_add_left)

lemma select_rows_sound:
  assumes "samples sample"
  shows "mset (select_rows sample rng rows max_rows seed) \<subseteq># mset rows
    \<and> (int (length rows) \<le> max_rows \<longrightarrow> mset (select_rows sample rng rows max_rows seed) = mset rows)
    \<and> (0 \<le> max_rows \<longrightarrow> int (length (select_rows sample rng rows max_rows seed)) \<le> max_rows)
    \<and> sorted (map le_source_outcome_id (select_rows sample rng rows max_rows seed))"
proof (cases "int (length rows) > max_rows")
  case False
  then show ?thesis by (simp add: select_rows_def Let_def)
next
  case True
  let ?rows = "sort_key le_source_outcome_id rows"
  let ?kept = "filter le_retained ?rows" and ?churned = "filter (\<lambda>r. \<not> le_retained r) ?rows"
  obtain a g where a: "sample (rng seed) ?kept (take_of max_rows (length ?kept) (length ?rows)) = (a, g)"
    by (cases "sample (rng seed) ?kept (take_of max_rows (length ?kept) (length ?rows))")
  obtain b g' where b: "sample g ?churned (take_of max_rows (length ?churned) (length ?rows)) = (b, g')"
    by (cases "sample g ?churned (take_of max_rows (length ?churned) (length ?rows))")
  have sel: "select_rows sample rng rows max_rows seed = take (nat max_rows) (sort_key le_source_outcome_id (a @ b))"
    using True a b by (simp add: select_rows_def Let_def)
  have "mset a \<subseteq># mset ?kept" "mset b \<subseteq># mset ?churned"
    using samplesD [OF assms a] samplesD [OF assms b] by (simp_all add: take_of_def)
  then have "mset a + mset b \<subseteq># mset ?kept + mset ?churned" by (rule subset_mset.add_mono)
  then have "mset (a @ b) \<subseteq># filter_mset le_retained (mset rows) + filter_mset (\<lambda>r. \<not> le_retained r) (mset rows)"
    by simp
  also have "\<dots> = mset rows" by (rule multiset_partition [symmetric])
  finally have "mset (take (nat max_rows) (sort_key le_source_outcome_id (a @ b))) \<subseteq># mset rows"
    using mset_take_subset [of "nat max_rows" "sort_key le_source_outcome_id (a @ b)"]
    by (metis mset_sort subset_mset.order_trans)
  moreover have "sorted (map le_source_outcome_id (take (nat max_rows) (sort_key le_source_outcome_id (a @ b))))"
    by (simp flip: take_map add: sorted_wrt_take)
  moreover have "0 \<le> max_rows \<longrightarrow> int (length (take (nat max_rows) (sort_key le_source_outcome_id (a @ b)))) \<le> max_rows"
    by (auto simp: min_def)
  moreover have "\<not> int (length rows) \<le> max_rows" using True by simp
  ultimately show ?thesis unfolding sel by blast
qed

text \<open>
  The context of the churn classifier: rows of two tenants are refused, then too few rows; otherwise
  the context is a part of the labeled rows, all of them when they fit and at most \<open>max_rows\<close> when they
  do not, in the order of their outcome ids, with each feature row in the fixed columns and the
  label 1 for a row that was not retained.
\<close>

theorem select_context_sound:
  assumes "samples sample" and "0 \<le> max_rows"
  shows "case select_context sample rng labeled max_rows min_rows seed of
      Inl (CrossTenantContext m) \<Rightarrow> \<exists>r \<in> set labeled. \<exists>r' \<in> set labeled. le_tenant_id r \<noteq> le_tenant_id r'
    | Inl (ContextTooSmall m) \<Rightarrow> int (length labeled) < min_rows
    | Inl _ \<Rightarrow> False
    | Inr (X, y) \<Rightarrow> min_rows \<le> int (length labeled)
        \<and> (\<forall>r \<in> set labeled. \<forall>r' \<in> set labeled. le_tenant_id r = le_tenant_id r')
        \<and> (\<exists>rows. mset rows \<subseteq># mset labeled \<and> int (length rows) \<le> max_rows
             \<and> (int (length labeled) \<le> max_rows \<longrightarrow> mset rows = mset labeled)
             \<and> sorted (map le_source_outcome_id rows)
             \<and> X = map (\<lambda>r. to_row (le_features r)) rows \<and> y = map (\<lambda>r. if le_retained r then 0 else 1) rows)"
proof -
  let ?n = "length (remdups (map le_tenant_id labeled))"
  have n: "?n = card (le_tenant_id ` set labeled)" by (simp add: length_remdups_card_conv)
  have single: "?n > 1 \<longleftrightarrow> (\<exists>r \<in> set labeled. \<exists>r' \<in> set labeled. le_tenant_id r \<noteq> le_tenant_id r')"
  proof -
    have "?n \<le> Suc 0 \<longleftrightarrow> (\<forall>a \<in> le_tenant_id ` set labeled. \<forall>b \<in> le_tenant_id ` set labeled. a = b)"
      unfolding n by (rule card_le_Suc0_iff_eq) simp
    then show ?thesis by (simp add: not_less [symmetric] flip: One_nat_def) blast
  qed
  show ?thesis
  proof (cases "?n > 1")
    case True
    then show ?thesis using single by (simp add: select_context_def assert_single_tenant_def Let_def)
  next
    case False
    then have one: "\<forall>r \<in> set labeled. \<forall>r' \<in> set labeled. le_tenant_id r = le_tenant_id r'" using single by blast
    show ?thesis
    proof (cases "int (length labeled) < min_rows")
      case True
      then show ?thesis using False by (simp add: select_context_def assert_single_tenant_def Let_def)
    next
      case few: False
      let ?rows = "select_rows sample rng labeled max_rows seed"
      have ok: "select_context sample rng labeled max_rows min_rows seed
          = Inr (map (\<lambda>r. to_row (le_features r)) ?rows, map (\<lambda>r. if le_retained r then 0 else 1) ?rows)"
        using False few by (simp add: select_context_def assert_single_tenant_def Let_def)
      note rows = select_rows_sound [OF assms(1), of rng labeled max_rows seed]
      show ?thesis
        unfolding ok sum.case prod.case
        by (intro conjI exI [of _ ?rows]) (use few one rows assms(2) in \<open>blast | linarith | rule refl\<close>)+
    qed
  qed
qed

definition sample_example :: "string \<Rightarrow> bool \<Rightarrow> labeled_example" where
  "sample_example i kept = \<lparr>le_tenant_id = ''t'', le_source_outcome_id = i, le_user_pseudonym = ''u'', le_features = [],
     le_arm = ENGINE, le_treated = True, le_retained = kept, le_churn_risk = None, le_impact_score = None,
     le_pattern_type = None, le_incentive_code = None, le_cost_idr = 0, le_business_value_idr = 0,
     le_realized_value_idr = 0\<rparr>"

theorem select_context_sound_witness:
  "\<exists>X y. select_context (\<lambda>g xs k. (take k xs, g)) (\<lambda>seed. ()) [sample_example ''b'' True, sample_example ''a'' False] 5 2 42
     = Inr (X, y) \<and> length X = 2"
proof -
  let ?sample = "\<lambda>(g :: unit) (xs :: labeled_example list) k. (take k xs, g)"
  let ?rows = "[sample_example ''b'' True, sample_example ''a'' False]"
  have s: "samples ?sample" by (simp add: samples_def mset_take_subset)
  have "case select_context ?sample (\<lambda>seed. ()) ?rows 5 2 42 of Inl _ \<Rightarrow> False | Inr _ \<Rightarrow> True" by code_simp
  then obtain X y where r: "select_context ?sample (\<lambda>seed. ()) ?rows 5 2 42 = Inr (X, y)"
    by (cases "select_context ?sample (\<lambda>seed. ()) ?rows 5 2 42") auto
  note t = select_context_sound [OF s, where max_rows = 5 and rng = "\<lambda>seed. ()" and labeled = ?rows
      and min_rows = 2 and seed = 42, unfolded r sum.case prod.case]
  obtain rows where m: "int (length ?rows) \<le> 5 \<longrightarrow> mset rows = mset ?rows"
    and X: "X = map (\<lambda>r. to_row (le_features r)) rows"
    using t by auto
  have "int (length ?rows) \<le> 5" by simp
  then have "size (mset rows) = size (mset ?rows)" using m by metis
  then have "length X = 2" using X by simp
  with r show ?thesis by (intro exI [of _ X] exI [of _ y]) simp
qed

end
