(* ===== verification/Normalize.thy ===== *)
theory Normalize
  imports Contracts
begin

text \<open>
  \<open>packages/ingest-mapping\<close>: the tenant's mapping configuration (\<open>mapping_config.py\<close>), a raw client
  event as a canonical event (\<open>normalize.py\<close>) and the pseudonymization boundary
  (\<open>pseudonymize.py\<close>).  A raw event is a JSON object.  HMAC-SHA256, \<open>datetime.fromisoformat\<close> and
  Python's text of a float, list or object are parameters.
\<close>

section \<open>mapping_config.py\<close>

record event_type_mapping =
  em_client_event_type :: string
  em_canonical_event_type :: canonical_event_type
  em_amount_field_path :: "string option"
  em_counterparty_field_path :: "string option"
  em_occurred_at_field_path :: string
  em_active :: bool

record tenant_mapping_config =
  tm_tenant_slug :: string
  tm_profile_type :: string
  tm_mappings :: "event_type_mapping list"
  tm_attribute_whitelist :: "string list"

fun no_duplicates :: "string list \<Rightarrow> event_type_mapping list \<Rightarrow> unit result" where
  "no_duplicates seen [] = Inr ()"
| "no_duplicates seen (m # ms) =
     (if em_client_event_type m \<in> set seen
      then Inl (ValidationError (''duplicate client_event_type '' @ em_client_event_type m))
      else no_duplicates (em_client_event_type m # seen) ms)"

definition make_config :: "tenant_mapping_config \<Rightarrow> tenant_mapping_config result" where
  "make_config c = bind_result (no_duplicates [] (tm_mappings c)) (\<lambda>_. Inr c)"

fun lookup_mapping :: "event_type_mapping list \<Rightarrow> string \<Rightarrow> event_type_mapping result" where
  "lookup_mapping [] t = Inl (MappingError (''unknown event type '' @ t))"
| "lookup_mapping (m # ms) t =
     (if em_client_event_type m = t
      then (if em_active m then Inr m else Inl (MappingError (''event type '' @ t @ '' is inactive'')))
      else lookup_mapping ms t)"

section \<open>pseudonymize.py\<close>

definition pseudonymize :: "(string \<Rightarrow> string \<Rightarrow> string) \<Rightarrow> string \<Rightarrow> string \<Rightarrow> string \<Rightarrow> string result" where
  "pseudonymize hmac_hex tid raw_ref secret =
     (if secret = [] then Inl (ValueError ''pseudonymization secret must not be empty'')
      else Inr (hmac_hex secret (tid @ '':'' @ raw_ref)))"

section \<open>normalize.py\<close>

text \<open>\<open>path.split(".")\<close>\<close>

fun split_dots :: "string \<Rightarrow> string list" where
  "split_dots [] = [[]]"
| "split_dots (c # cs) =
     (if c = CHR ''.'' then [] # split_dots cs
      else case split_dots cs of [] \<Rightarrow> [[c]] | p # ps \<Rightarrow> (c # p) # ps)"

fun follow :: "json \<Rightarrow> string list \<Rightarrow> json option" where
  "follow current [] = Some current"
| "follow current (part # parts) =
     (case current of
        JDict d \<Rightarrow> (case map_of d part of None \<Rightarrow> None | Some v \<Rightarrow> follow v parts)
      | _ \<Rightarrow> None)"

definition resolve_path :: "(string \<times> json) list \<Rightarrow> string \<Rightarrow> json option" where
  "resolve_path data path = follow (JDict data) (split_dots path)"

text \<open>\<open>bool(v)\<close> and \<open>str(v)\<close> of a JSON value.\<close>

fun truthy :: "json \<Rightarrow> bool" where
  "truthy JNull = False"
| "truthy (JBool b) = b"
| "truthy (JInt n) = (n \<noteq> 0)"
| "truthy (JFloat x) = (x \<noteq> 0)"
| "truthy (JStr s) = (s \<noteq> [])"
| "truthy (JList xs) = (xs \<noteq> [])"
| "truthy (JDict d) = (d \<noteq> [])"

fun py_str :: "(json \<Rightarrow> string) \<Rightarrow> json \<Rightarrow> string" where
  "py_str other JNull = ''None''"
| "py_str other (JBool b) = (if b then ''True'' else ''False'')"
| "py_str other (JInt n) = show_int n"
| "py_str other (JStr s) = s"
| "py_str other v = other v"

text \<open>\<open>Decimal(text)\<close>: blanks around and underscores are dropped; then a sign, digits with a point and an
  exponent, or a special value in any case.  \<open>None\<close> is \<open>InvalidOperation\<close>.\<close>

datatype decimal = Finite rat | Infinite | Nan

definition digit_value :: "char \<Rightarrow> int option" where
  "digit_value c = (let n = of_char c :: int in if 48 \<le> n \<and> n \<le> 57 then Some (n - 48) else None)"

text \<open>A run of digits: its value, its length and what follows.\<close>

fun take_digits :: "int \<Rightarrow> nat \<Rightarrow> string \<Rightarrow> int \<times> nat \<times> string" where
  "take_digits acc n [] = (acc, n, [])"
| "take_digits acc n (c # cs) =
     (case digit_value c of Some d \<Rightarrow> take_digits (acc * 10 + d) (Suc n) cs | None \<Rightarrow> (acc, n, c # cs))"

definition exponent_of :: "string \<Rightarrow> int option" where
  "exponent_of s = (case s of
      [] \<Rightarrow> Some 0
    | c # cs \<Rightarrow>
        if py_lower [c] \<noteq> ''e'' then None
        else
          let (neg, ds) = (case cs of d # r \<Rightarrow> if d = CHR ''-'' then (True, r) else if d = CHR ''+'' then (False, r) else (False, cs)
                                    | [] \<Rightarrow> (False, []));
              (e, n, rest) = take_digits 0 0 ds
          in if n = 0 \<or> rest \<noteq> [] then None else Some (if neg then - e else e))"

definition decimal_number :: "string \<Rightarrow> rat option" where
  "decimal_number s =
     (let (whole, n, rest) = take_digits 0 0 s;
          (frac, m, rest') = (case rest of c # r \<Rightarrow> if c = CHR ''.'' then take_digits 0 0 r else (0, 0, rest) | [] \<Rightarrow> (0, 0, []))
      in if n + m = 0 then None
         else case exponent_of rest' of
             None \<Rightarrow> None
           | Some e \<Rightarrow> Some ((of_int whole + of_int frac / 10 ^ m) * 10 powi e))"

definition parse_decimal :: "string \<Rightarrow> decimal option" where
  "parse_decimal text =
     (let t = filter (\<lambda>c. c \<noteq> CHR ''_'') (py_strip text);
          (neg, s) = (case t of c # r \<Rightarrow> if c = CHR ''-'' then (True, r) else if c = CHR ''+'' then (False, r) else (False, t)
                              | [] \<Rightarrow> (False, []));
          low = py_lower s
      in if low = ''inf'' \<or> low = ''infinity'' then Some Infinite
         else if low = ''nan'' \<or> low = ''snan'' then Some Nan
         else map_option (\<lambda>x. Finite (if neg then - x else x)) (decimal_number s))"

text \<open>\<open>int(Decimal(str(value)).to_integral_value())\<close>: an infinite decimal is an \<open>OverflowError\<close>, which
  is neither of the two exceptions that are caught.\<close>

definition to_idr :: "(json \<Rightarrow> string) \<Rightarrow> json \<Rightarrow> int result" where
  "to_idr repr value =
     (case value of
        JBool _ \<Rightarrow> Inl (MappingError ''amount must be numeric'')
      | _ \<Rightarrow> (case parse_decimal (py_str repr value) of
                 None \<Rightarrow> Inl (MappingError ''amount is not numeric'')
               | Some Nan \<Rightarrow> Inl (MappingError ''amount is not numeric'')
               | Some Infinite \<Rightarrow> Inl (RuntimeError ''OverflowError: cannot convert Infinity to integer'')
               | Some (Finite x) \<Rightarrow> Inr (round_half_even x)))"

definition to_datetime :: "(string \<Rightarrow> py_datetime option) \<Rightarrow> json option \<Rightarrow> py_datetime result" where
  "to_datetime fromisoformat value =
     (case value of
        Some (JStr s) \<Rightarrow>
          (case fromisoformat s of
             None \<Rightarrow> Inl (MappingError ''occurred_at is not RFC 3339'')
           | Some t \<Rightarrow> if dt_offset t = None then Inl (MappingError ''occurred_at must carry a timezone offset'')
                       else Inr t)
      | _ \<Rightarrow> Inl (MappingError ''occurred_at missing''))"

definition amount_of :: "(json \<Rightarrow> string) \<Rightarrow> (string \<times> json) list \<Rightarrow> string option \<Rightarrow> int option result" where
  "amount_of repr raw_event path =
     (case path of
        Some (c # cs) \<Rightarrow>
          (case resolve_path raw_event (c # cs) of
             None \<Rightarrow> Inl (MappingError (''amount field '' @ (c # cs) @ '' missing''))
           | Some v \<Rightarrow> bind_result (to_idr repr v) (\<lambda>n. Inr (Some n)))
      | _ \<Rightarrow> Inr None)"

definition counterparty_of ::
  "(string \<Rightarrow> string \<Rightarrow> string) \<Rightarrow> (json \<Rightarrow> string) \<Rightarrow> string \<Rightarrow> string \<Rightarrow> (string \<times> json) list \<Rightarrow> string option \<Rightarrow>
   string option result" where
  "counterparty_of hmac_hex repr tid secret raw_event path =
     (case path of
        Some (c # cs) \<Rightarrow>
          (case resolve_path raw_event (c # cs) of
             Some v \<Rightarrow> if truthy v then bind_result (pseudonymize hmac_hex tid (py_str repr v) secret) (\<lambda>p. Inr (Some p))
                       else Inl (MappingError (''counterparty field '' @ (c # cs) @ '' missing''))
           | None \<Rightarrow> Inl (MappingError (''counterparty field '' @ (c # cs) @ '' missing'')))
      | _ \<Rightarrow> Inr None)"

fun is_scalar :: "json \<Rightarrow> bool" where
  "is_scalar (JStr _) = True"
| "is_scalar (JInt _) = True"
| "is_scalar (JBool _) = True"
| "is_scalar (JFloat _) = True"
| "is_scalar _ = False"

fun substring :: "string \<Rightarrow> string \<Rightarrow> bool" where
  "substring p [] = (p = [])"
| "substring p (c # s) = (take (length p) (c # s) = p \<or> substring p s)"

text \<open>\<open>k in user_attributes\<close> and \<open>user_attributes[k]\<close> for a value that is not an object.\<close>

fun attributes_of :: "string list \<Rightarrow> json \<Rightarrow> (string \<times> json) list result" where
  "attributes_of whitelist (JDict d) =
     Inr (fold (\<lambda>k acc. case map_of d k of Some v \<Rightarrow> if is_scalar v then AList.update k v acc else acc | None \<Rightarrow> acc) whitelist [])"
| "attributes_of whitelist (JStr s) =
     (if s \<noteq> [] \<and> list_ex (\<lambda>k. substring k s) whitelist then Inl (RuntimeError ''TypeError: string indices must be integers'') else Inr [])"
| "attributes_of whitelist (JList xs) =
     (if list_ex (\<lambda>k. JStr k \<in> set xs) whitelist then Inl (RuntimeError ''TypeError: list indices must be integers'') else Inr [])"
| "attributes_of whitelist v =
     (if truthy v \<and> whitelist \<noteq> [] then Inl (RuntimeError ''TypeError: argument is not iterable'') else Inr [])"

definition get_or_null :: "(string \<times> json) list \<Rightarrow> string \<Rightarrow> json" where
  "get_or_null d k = dict_get d k JNull"

text \<open>\<open>except ValidationError as exc: raise MappingError(...) from exc\<close>\<close>

definition as_mapping_error :: "'a result \<Rightarrow> 'a result" where
  "as_mapping_error r = (case r of
       Inl (ValidationError m) \<Rightarrow> Inl (MappingError ''event failed canonical validation'')
     | Inl e \<Rightarrow> Inl e
     | Inr e \<Rightarrow> Inr e)"

definition normalize ::
  "(string \<Rightarrow> string \<Rightarrow> string) \<Rightarrow> (json \<Rightarrow> string) \<Rightarrow> (string \<Rightarrow> py_datetime option) \<Rightarrow>
   string \<Rightarrow> (string \<times> json) list \<Rightarrow> tenant_mapping_config \<Rightarrow> string \<Rightarrow> canonical_event result" where
  "normalize hmac_hex repr fromisoformat tid raw_event config secret =
     bind_result (lookup_mapping (tm_mappings config) (py_str repr (get_or_null raw_event ''event_type''))) (\<lambda>mapping.
     if \<not> truthy (get_or_null raw_event ''user_ref'') then Inl (MappingError ''user_ref missing'')
     else if \<not> truthy (get_or_null raw_event ''client_event_id'') then Inl (MappingError ''client_event_id missing'')
     else
     bind_result (to_datetime fromisoformat (resolve_path raw_event (em_occurred_at_field_path mapping))) (\<lambda>occurred_at.
     bind_result (amount_of repr raw_event (em_amount_field_path mapping)) (\<lambda>amount_idr.
     bind_result (counterparty_of hmac_hex repr tid secret raw_event (em_counterparty_field_path mapping)) (\<lambda>counterparty.
     bind_result (attributes_of (tm_attribute_whitelist config) (get_or_null raw_event ''user_attributes'')) (\<lambda>attributes.
     bind_result (pseudonymize hmac_hex tid (py_str repr (get_or_null raw_event ''user_ref'')) secret) (\<lambda>user.
     as_mapping_error (make_canonical_event tid (py_str repr (get_or_null raw_event ''client_event_id''))
       (em_canonical_event_type mapping) occurred_at user amount_idr counterparty attributes)))))))"

section \<open>What a normalized event is made of\<close>

lemma no_duplicates_iff:
  "no_duplicates seen ms = Inr () \<longleftrightarrow>
   distinct (map em_client_event_type ms) \<and> set (map em_client_event_type ms) \<inter> set seen = {}"
  by (induction ms arbitrary: seen) auto

lemma lookup_mapping_Inr:
  "lookup_mapping ms t = Inr m \<Longrightarrow> m \<in> set ms \<and> em_client_event_type m = t \<and> em_active m"
  by (induction ms) (auto split: if_splits)

lemma lookup_mapping_Inl: "lookup_mapping ms t = Inl e \<Longrightarrow> \<exists>m. e = MappingError m"
  by (induction ms) (auto split: if_splits)

lemma fold_attributes_keys:
  "fst ` set (fold (\<lambda>k acc. case map_of d k of Some v \<Rightarrow> if is_scalar v then AList.update k v acc else acc | None \<Rightarrow> acc) ks acc)
   \<subseteq> set ks \<union> fst ` set acc"
proof (induction ks arbitrary: acc)
  case (Cons k ks)
  have "fst ` set (AList.update k v acc) = insert k (fst ` set acc)" for v
    by (simp add: AList.dom_update)
  then show ?case
    using Cons.IH [of acc] Cons.IH [of "AList.update k v acc" for v]
    by (cases "map_of d k") auto
qed simp

lemma attributes_of_keys: "attributes_of ks v = Inr attrs \<Longrightarrow> fst ` set attrs \<subseteq> set ks"
proof (cases v)
  case (JDict d)
  assume "attributes_of ks v = Inr attrs"
  with JDict fold_attributes_keys [of d ks "[]"] show ?thesis by auto
qed (auto split: if_splits)

lemma attributes_of_Inl: "attributes_of ks v = Inl e \<Longrightarrow> v \<noteq> JNull \<and> (\<forall>d. v \<noteq> JDict d)"
  by (cases v) auto

lemma make_canonical_event_Inr:
  assumes "make_canonical_event tid ceid ty ts user amount cp attrs = Inr e"
  shows "e_tenant_id e = tid \<and> e_client_event_id e = ceid \<and> e_event_type e = ty \<and> e_occurred_at e = dt_instant ts
    \<and> e_user_pseudonym e = user \<and> e_amount_idr e = amount \<and> e_counterparty_pseudonym e = cp \<and> e_attributes e = attrs
    \<and> fst ` set attrs \<subseteq> set ALLOWED_ATTRIBUTE_KEYS"
  using assms
  by (auto simp: make_canonical_event_def whitelist_attributes_def bind_result_Inr list_all_iff
      split: option.splits if_splits)

lemma make_canonical_event_Inl:
  "make_canonical_event tid ceid ty ts user amount cp attrs = Inl e \<Longrightarrow> \<exists>m. e = ValidationError m"
  by (auto simp: make_canonical_event_def whitelist_attributes_def bind_result_Inl split: option.splits if_splits)

lemma counterparty_of_Inr:
  assumes "counterparty_of h r tid secret raw path = Inr (Some p)"
  shows "\<exists>v. p = h secret (tid @ '':'' @ v)"
  using assms by (auto simp: counterparty_of_def pseudonymize_def bind_result_Inr split: option.splits list.splits if_splits)

lemma counterparty_of_Inl:
  assumes "counterparty_of h r tid secret raw path = Inl e"
  shows "(\<exists>m. e = MappingError m) \<or> secret = []"
  using assms by (auto simp: counterparty_of_def pseudonymize_def bind_result_Inl split: option.splits list.splits if_splits)

lemma to_idr_Inl:
  "to_idr r v = Inl e \<Longrightarrow> (\<exists>m. e = MappingError m) \<or> parse_decimal (py_str r v) = Some Infinite"
  by (auto simp: to_idr_def split: json.splits option.splits decimal.splits)

lemma amount_of_Inl:
  assumes "amount_of r raw path = Inl e"
  shows "(\<exists>m. e = MappingError m)
    \<or> (\<exists>p v. path = Some p \<and> resolve_path raw p = Some v \<and> parse_decimal (py_str r v) = Some Infinite)"
  using assms to_idr_Inl
  by (fastforce simp: amount_of_def bind_result_Inl split: option.splits list.splits)

lemma to_datetime_Inl: "to_datetime f v = Inl e \<Longrightarrow> \<exists>m. e = MappingError m"
  by (auto simp: to_datetime_def split: option.splits json.splits if_splits)

lemma pseudonymize_Inl: "pseudonymize h tid r secret = Inl e \<Longrightarrow> secret = []"
  by (auto simp: pseudonymize_def split: if_splits)

lemma pseudonymize_Inr: "pseudonymize h tid r secret = Inr p \<Longrightarrow> p = h secret (tid @ '':'' @ r) \<and> secret \<noteq> []"
  by (auto simp: pseudonymize_def split: if_splits)

lemma as_mapping_error_Inr [simp]: "as_mapping_error r = Inr e \<longleftrightarrow> r = Inr e"
  by (auto simp: as_mapping_error_def split: sum.splits exn.splits)

lemma canonical_Inl:
  assumes "as_mapping_error (make_canonical_event tid ceid ty ts user amount cp attrs) = Inl e"
  shows "\<exists>m. e = MappingError m"
proof -
  from assms obtain e' where e': "make_canonical_event tid ceid ty ts user amount cp attrs = Inl e'"
    by (cases "make_canonical_event tid ceid ty ts user amount cp attrs") (auto simp: as_mapping_error_def)
  with assms make_canonical_event_Inl [OF e'] show ?thesis by (auto simp: as_mapping_error_def)
qed

lemma normalize_Inr:
  assumes "normalize hmac_hex repr fromiso tid raw_event config secret = Inr e"
  shows "secret \<noteq> [] \<and> e_tenant_id e = tid
    \<and> e_user_pseudonym e = hmac_hex secret (tid @ '':'' @ py_str repr (get_or_null raw_event ''user_ref''))
    \<and> e_client_event_id e = py_str repr (get_or_null raw_event ''client_event_id'')
    \<and> (\<forall>p. e_counterparty_pseudonym e = Some p \<longrightarrow> (\<exists>v. p = hmac_hex secret (tid @ '':'' @ v)))
    \<and> (\<exists>m\<in>set (tm_mappings config). em_active m \<and> em_canonical_event_type m = e_event_type e
         \<and> em_client_event_type m = py_str repr (get_or_null raw_event ''event_type''))
    \<and> fst ` set (e_attributes e) \<subseteq> set (tm_attribute_whitelist config) \<inter> set ALLOWED_ATTRIBUTE_KEYS"
proof -
  let ?g = "get_or_null raw_event"
  from assms obtain m ts amt cp attrs u where
    m: "lookup_mapping (tm_mappings config) (py_str repr (?g ''event_type'')) = Inr m"
    and ts: "to_datetime fromiso (resolve_path raw_event (em_occurred_at_field_path m)) = Inr ts"
    and cp: "counterparty_of hmac_hex repr tid secret raw_event (em_counterparty_field_path m) = Inr cp"
    and at: "attributes_of (tm_attribute_whitelist config) (?g ''user_attributes'') = Inr attrs"
    and u: "pseudonymize hmac_hex tid (py_str repr (?g ''user_ref'')) secret = Inr u"
    and ev: "make_canonical_event tid (py_str repr (?g ''client_event_id''))
               (em_canonical_event_type m) ts u amt cp attrs = Inr e"
    unfolding normalize_def bind_result_Inr by (auto split: if_splits simp: bind_result_Inr)
  from make_canonical_event_Inr [OF ev]
    lookup_mapping_Inr [OF m] attributes_of_keys [OF at] pseudonymize_Inr [OF u] cp counterparty_of_Inr
  show ?thesis by (auto intro!: bexI [of _ m])
qed

lemma normalize_Inl:
  assumes "normalize hmac_hex repr fromiso tid raw_event config secret = Inl e"
  shows "(\<exists>m. e = MappingError m) \<or> secret = []
    \<or> (get_or_null raw_event ''user_attributes'' \<noteq> JNull \<and> (\<forall>d. get_or_null raw_event ''user_attributes'' \<noteq> JDict d))
    \<or> (\<exists>m\<in>set (tm_mappings config). \<exists>p v. em_amount_field_path m = Some p \<and> resolve_path raw_event p = Some v
         \<and> parse_decimal (py_str repr v) = Some Infinite)"
proof -
  let ?g = "get_or_null raw_event"
  let ?m = "lookup_mapping (tm_mappings config) (py_str repr (?g ''event_type''))"
  show ?thesis
  proof (cases ?m)
    case Inl
    with assms lookup_mapping_Inl show ?thesis by (force simp: normalize_def)
  next
    case (Inr m)
    then have m: "m \<in> set (tm_mappings config)" by (blast dest: lookup_mapping_Inr)
    from assms Inr consider
        "\<exists>t. e = MappingError t"
      | "to_datetime fromiso (resolve_path raw_event (em_occurred_at_field_path m)) = Inl e"
      | "amount_of repr raw_event (em_amount_field_path m) = Inl e"
      | "counterparty_of hmac_hex repr tid secret raw_event (em_counterparty_field_path m) = Inl e"
      | "attributes_of (tm_attribute_whitelist config) (?g ''user_attributes'') = Inl e"
      | "pseudonymize hmac_hex tid (py_str repr (?g ''user_ref'')) secret = Inl e"
      unfolding normalize_def
      by (auto simp: bind_result_def split: sum.splits if_splits dest: canonical_Inl)
    then show ?thesis
      using m by cases (blast dest: to_datetime_Inl amount_of_Inl counterparty_of_Inl pseudonymize_Inl attributes_of_Inl)+
  qed
qed

text \<open>
  C37. A raw event that normalizes belongs to the caller's tenant, has an active mapping of its type,
  names the user and the counterparty only by keyed hashes of \<open>tenant:reference\<close>, and carries only
  attributes that both the tenant's whitelist and the contract allow.  One that does not normalize is a
  mapping error, except without a secret, with user attributes that are no object, or with an
  infinite amount.
\<close>

theorem normalize_sound:
  shows "(case normalize hmac_hex repr fromiso tid raw_event config secret of
      Inr e \<Rightarrow>
        secret \<noteq> [] \<and> e_tenant_id e = tid
        \<and> e_user_pseudonym e = hmac_hex secret (tid @ '':'' @ py_str repr (get_or_null raw_event ''user_ref''))
        \<and> e_client_event_id e = py_str repr (get_or_null raw_event ''client_event_id'')
        \<and> (\<forall>p. e_counterparty_pseudonym e = Some p \<longrightarrow> (\<exists>v. p = hmac_hex secret (tid @ '':'' @ v)))
        \<and> (\<exists>m\<in>set (tm_mappings config). em_active m \<and> em_canonical_event_type m = e_event_type e
             \<and> em_client_event_type m = py_str repr (get_or_null raw_event ''event_type''))
        \<and> fst ` set (e_attributes e) \<subseteq> set (tm_attribute_whitelist config) \<inter> set ALLOWED_ATTRIBUTE_KEYS
    | Inl e \<Rightarrow>
        (\<exists>m. e = MappingError m) \<or> secret = []
        \<or> (get_or_null raw_event ''user_attributes'' \<noteq> JNull \<and> (\<forall>d. get_or_null raw_event ''user_attributes'' \<noteq> JDict d))
        \<or> (\<exists>m\<in>set (tm_mappings config). \<exists>p v. em_amount_field_path m = Some p \<and> resolve_path raw_event p = Some v
             \<and> parse_decimal (py_str repr v) = Some Infinite))"
proof (cases "normalize hmac_hex repr fromiso tid raw_event config secret")
  case (Inl e)
  from normalize_Inl [OF Inl] show ?thesis unfolding Inl by simp
next
  case (Inr e)
  from normalize_Inr [OF Inr] show ?thesis unfolding Inr by simp
qed

definition sample_config :: tenant_mapping_config where
  "sample_config = \<lparr>tm_tenant_slug = ''t'', tm_profile_type = ''RETAIL'',
     tm_mappings = [\<lparr>em_client_event_type = ''TOPUP'', em_canonical_event_type = TOPUP,
       em_amount_field_path = Some ''payload.amount'', em_counterparty_field_path = None,
       em_occurred_at_field_path = ''occurred_at'', em_active = True\<rparr>],
     tm_attribute_whitelist = [''region_code'', ''cohort_key'']\<rparr>"

definition sample_raw :: "string \<Rightarrow> (string \<times> json) list" where
  "sample_raw amount = [(''event_type'', JStr ''TOPUP''), (''user_ref'', JStr ''u''), (''client_event_id'', JInt 7),
     (''occurred_at'', JStr ''now''), (''payload'', JDict [(''amount'', JStr amount)]),
     (''user_attributes'', JDict [(''region_code'', JStr ''ID''), (''name'', JStr ''A'')])]"

definition sample_iso :: "string \<Rightarrow> py_datetime option" where
  "sample_iso s = (if s = ''now'' then Some \<lparr>dt_instant = 5, dt_offset = Some 0\<rparr> else None)"

theorem normalize_sound_witness:
  "\<exists>e. normalize (\<lambda>k m. k @ m) (\<lambda>v. ''?'') sample_iso ''t1'' (sample_raw ''2500.5'') sample_config ''s'' = Inr e
     \<and> e_amount_idr e = Some 2500 \<and> e_user_pseudonym e = ''st1:u''
     \<and> fst ` set (e_attributes e) \<subseteq> {''region_code'', ''cohort_key''}"
proof -
  have run: "normalize (\<lambda>k m. k @ m) (\<lambda>v. ''?'') sample_iso ''t1'' (sample_raw ''2500.5'') sample_config ''s''
    = Inr \<lparr>e_tenant_id = ''t1'', e_client_event_id = ''7'', e_event_type = TOPUP, e_occurred_at = 5, e_utcoffset = 0,
        e_user_pseudonym = ''st1:u'', e_amount_idr = Some 2500, e_counterparty_pseudonym = None,
        e_attributes = [(''region_code'', JStr ''ID'')]\<rparr>"
    by code_simp
  from normalize_sound [where hmac_hex = "\<lambda>k m. k @ m" and repr = "\<lambda>v. ''?''" and fromiso = sample_iso
      and tid = "''t1''" and raw_event = "sample_raw ''2500.5''" and config = sample_config and secret = "''s''"]
  show ?thesis unfolding run by (simp add: sample_config_def)
qed

lemma before_colon:
  assumes "t @ '':'' @ r = t' @ '':'' @ r'" "CHR '':'' \<notin> set t" "CHR '':'' \<notin> set t'"
  shows "t = t' \<and> r = r'"
  using assms by (induction t arbitrary: t') (auto simp: Cons_eq_append_conv append_eq_Cons_conv)

text \<open>
  With an injective keyed hash, and tenant identifiers without a colon (they are UUIDs), two
  pseudonyms are equal exactly when tenant and raw reference are: the same person in two tenants gets
  two different pseudonyms.
\<close>

theorem pseudonyms_separate:
  assumes "inj (hmac_hex secret)" and "CHR '':'' \<notin> set tid" and "CHR '':'' \<notin> set tid'"
    and "pseudonymize hmac_hex tid raw_ref secret = Inr p" and "pseudonymize hmac_hex tid' raw_ref' secret = Inr p'"
  shows "p = p' \<longleftrightarrow> tid = tid' \<and> raw_ref = raw_ref'"
proof -
  have "p = p' \<longleftrightarrow> tid @ '':'' @ raw_ref = tid' @ '':'' @ raw_ref'"
    using pseudonymize_Inr [OF assms(4)] pseudonymize_Inr [OF assms(5)] inj_eq [OF assms(1)] by simp
  also have "\<dots> \<longleftrightarrow> tid = tid' \<and> raw_ref = raw_ref'" using before_colon assms(2,3) by blast
  finally show ?thesis .
qed

theorem pseudonyms_separate_witness:
  "pseudonymize (\<lambda>k m. k @ m) ''a'' ''u'' ''s'' \<noteq> pseudonymize (\<lambda>k m. k @ m) ''b'' ''u'' ''s''"
  using pseudonyms_separate [where hmac_hex = "\<lambda>k m. k @ m" and secret = "''s''" and tid = "''a''" and tid' = "''b''"
      and raw_ref = "''u''" and raw_ref' = "''u''" and p = "''sa:u''" and p' = "''sb:u''"]
  by (simp add: pseudonymize_def inj_def)

text \<open>
  The amount \<open>"Infinity"\<close> reaches \<open>int(Decimal("Infinity"))\<close>, whose \<open>OverflowError\<close> is not one of the
  exceptions that are caught: it leaves \<open>normalize\<close>, and so ends the caller's loop over raw events.
\<close>

lemma infinite_amount_escapes:
  "normalize (\<lambda>k m. k @ m) (\<lambda>v. ''?'') sample_iso ''t1'' (sample_raw ''Infinity'') sample_config ''s''
   = Inl (RuntimeError ''OverflowError: cannot convert Infinity to integer'')"
  by code_simp

end
