(* ===== verification/Explain.thy ===== *)
theory Explain
  imports Normalize
begin

text \<open>
  \<open>packages/explain\<close>: the fact sheet (\<open>fact_sheet.py\<close>), the prompt, the template narration
  (\<open>template.py\<close>), the validator of generated narrations (\<open>validator.py\<close>), and the worker's narrator with
  its fallback (\<open>worker/llm_narrator.py\<close>).  The regular expressions are scanners over the characters, with
  the ASCII reading of \<open>\w\<close>, \<open>\d\<close> and \<open>\s\<close>.  SHA-256, the shortest decimal text of a float and the language
  model are parameters.
\<close>

section \<open>fact_sheet.py\<close>

record fact_sheet =
  sh_subject_type :: string
  sh_subject_ref :: string
  sh_member_count :: int
  sh_arm :: arm
  sh_top_pick :: "(string \<times> json) list"
  sh_runner_up :: "(string \<times> json) list option"
  sh_risk :: "(string \<times> json) list"
  sh_circle :: "(string \<times> json) list option"
  sh_impact :: "(string \<times> json) list option"
  sh_external_signal :: "(string \<times> json) list option"
  sh_policy :: "(string \<times> json) list"
  sh_allocation :: "(string \<times> json) list"
  sh_reason_factors :: "(string \<times> json) list list"
  sh_synthetic_data :: bool

definition PROB_DECIMALS :: nat where "PROB_DECIMALS = 4"
definition VALUE_DECIMALS :: nat where "VALUE_DECIMALS = 2"

definition r_of :: "nat \<Rightarrow> pyfloat \<Rightarrow> json" where
  "r_of digits value = JFloat (py_round value digits)"

definition pick_facts :: "ranked_candidate \<Rightarrow> string \<Rightarrow> (string \<times> json) list" where
  "pick_facts ranked display_name =
     (let c = r_candidate ranked in
      [(''candidate_id'', JStr (c_candidate_id c)),
       (''incentive_code'', JStr (c_incentive_code c)),
       (''display_name'', JStr display_name),
       (''cost_idr'', JInt (c_cost_idr c)),
       (''priority'', r_of VALUE_DECIMALS (r_priority ranked)),
       (''ranking_strategy'', JStr (strategy_value (r_ranking_strategy ranked)))])"

definition factor_json :: "reason_factor \<Rightarrow> (string \<times> json) list" where
  "factor_json f = [(''code'', JStr (rf_code f)), (''direction'', JStr (rf_direction f)),
     (''weight'', JFloat (rf_weight f)), (''evidence'', JDict (rf_evidence f))]"

text \<open>What the caller says about subject and context beside the positional arguments.\<close>

record sheet_context =
  sc_runner_up :: "ranked_candidate option"
  sc_display_names :: "(string \<times> string) list"
  sc_external_signal :: "external_signal option"
  sc_arm :: arm
  sc_subject_type :: string
  sc_subject_ref :: "string option"
  sc_member_count :: int
  sc_activity_window_days :: int
  sc_reason_factors :: "reason_factor list"

definition circle_facts_of :: "circle_snapshot option \<Rightarrow> int \<Rightarrow> (string \<times> json) list option" where
  "circle_facts_of circle activity_window_days =
     (case circle of
        None \<Rightarrow> None
      | Some s \<Rightarrow>
          if cs_circle_size s > 0
          then Some [(''circle_size'', JInt (cs_circle_size s)),
                     (''neighbor_activity_ratio_now'', r_of PROB_DECIMALS (cs_ratio_now s)),
                     (''neighbor_activity_ratio_30d_ago'', r_of PROB_DECIMALS (cs_ratio_30d_ago s)),
                     (''delta_stability'', r_of PROB_DECIMALS (cs_delta_stability s)),
                     (''activity_window_days'', JInt activity_window_days),
                     (''pattern_type'', JStr (pattern_value (cs_pattern_type s)))]
          else None)"

definition impact_facts_of :: "impact_score_rec option \<Rightarrow> impact_segment \<Rightarrow> (string \<times> json) list option" where
  "impact_facts_of impact segment =
     map_option (\<lambda>i. [(''p_incentivized'', r_of PROB_DECIMALS (is_p_incentivized i)),
                      (''p_not_incentivized'', r_of PROB_DECIMALS (is_p_not_incentivized i)),
                      (''impact_score'', r_of PROB_DECIMALS (impact_score i)),
                      (''segment'', JStr (segment_value segment)),
                      (''model'', JStr (is_model i))]) impact"

definition signal_facts_of :: "external_signal option \<Rightarrow> (string \<times> json) list option" where
  "signal_facts_of external_signal =
     map_option (\<lambda>s. [(''scope_type'', JStr (scope_value (s_scope_type s))),
                      (''scope_key'', JStr (s_scope_key s)),
                      (''signal_type'', JStr (signal_type_value (s_signal_type s))),
                      (''value'', r_of PROB_DECIMALS (s_value s))]) external_signal"

definition build_fact_sheet ::
  "ranked_candidate \<Rightarrow> risk_score \<Rightarrow> impact_score_rec option \<Rightarrow> circle_snapshot option \<Rightarrow> policy_decision \<Rightarrow>
   (string \<times> json) list \<Rightarrow> sheet_context \<Rightarrow> fact_sheet" where
  "build_fact_sheet candidate risk impact circle policy allocation ctx =
     (let c = r_candidate candidate;
          name = (\<lambda>code. dict_get (sc_display_names ctx) code code)
      in \<lparr>sh_subject_type = sc_subject_type ctx,
          sh_subject_ref = (case sc_subject_ref ctx of Some (a # s) \<Rightarrow> a # s | _ \<Rightarrow> c_user_pseudonym c),
          sh_member_count = sc_member_count ctx,
          sh_arm = sc_arm ctx,
          sh_top_pick = pick_facts candidate (name (c_incentive_code c)),
          sh_runner_up = map_option (\<lambda>r. pick_facts r (name (c_incentive_code (r_candidate r)))) (sc_runner_up ctx),
          sh_risk = [(''churn_risk'', r_of PROB_DECIMALS (rs_churn_risk risk)),
                     (''model'', JStr (rs_model risk)),
                     (''external_signal_contribution'', r_of PROB_DECIMALS (rs_external_signal_contribution risk))],
          sh_circle = circle_facts_of circle (sc_activity_window_days ctx),
          sh_impact = impact_facts_of impact (c_segment c),
          sh_external_signal = signal_facts_of (sc_external_signal ctx),
          sh_policy = [(''outcome'', JStr (pd_outcome policy)),
                       (''rules_checked'', JList (map JStr (sort (map (\<lambda>r. rule_value (rr_rule_code r)) (pd_results policy)))))],
          sh_allocation = sort_key fst allocation,
          sh_reason_factors = map factor_json (sc_reason_factors ctx),
          sh_synthetic_data = True\<rparr>)"

text \<open>\<open>fact_sheet.model_dump(mode="json")\<close>\<close>

fun json_option :: "(string \<times> json) list option \<Rightarrow> json" where
  "json_option None = JNull"
| "json_option (Some d) = JDict d"

definition model_dump :: "fact_sheet \<Rightarrow> json" where
  "model_dump fs = JDict
     [(''subject_type'', JStr (sh_subject_type fs)), (''subject_ref'', JStr (sh_subject_ref fs)),
      (''member_count'', JInt (sh_member_count fs)), (''arm'', JStr (arm_value (sh_arm fs))),
      (''top_pick'', JDict (sh_top_pick fs)), (''runner_up'', json_option (sh_runner_up fs)),
      (''risk'', JDict (sh_risk fs)), (''circle'', json_option (sh_circle fs)),
      (''impact'', json_option (sh_impact fs)), (''external_signal'', json_option (sh_external_signal fs)),
      (''policy'', JDict (sh_policy fs)), (''allocation'', JDict (sh_allocation fs)),
      (''reason_factors'', JList (map JDict (sh_reason_factors fs))),
      (''synthetic_data'', JBool (sh_synthetic_data fs))]"

text \<open>\<open>json.dumps(..., sort_keys=True, separators=(",", ":"), ensure_ascii=False)\<close>; \<open>float_repr\<close> is
  \<open>float.__repr__\<close>.\<close>

definition hex_digit :: "nat \<Rightarrow> char" where
  "hex_digit n = (if n < 10 then char_of (48 + n) else char_of (87 + n))"

definition escape_char :: "char \<Rightarrow> string" where
  "escape_char c = (let n = of_char c :: nat in
     if n = 34 then [CHR 0x5C, CHR 0x22] else if n = 92 then [CHR 0x5C, CHR 0x5C]
     else if n = 10 then CHR 0x5C # ''n'' else if n = 13 then CHR 0x5C # ''r''
     else if n = 9 then CHR 0x5C # ''t'' else if n = 12 then CHR 0x5C # ''f''
     else if n = 8 then CHR 0x5C # ''b''
     else if n < 32 then CHR 0x5C # ''u00'' @ [hex_digit (n div 16), hex_digit (n mod 16)]
     else [c])"

definition json_string :: "string \<Rightarrow> string" where
  "json_string s = CHR 0x22 # concat (map escape_char s) @ [CHR 0x22]"

fun dumps :: "(pyfloat \<Rightarrow> string) \<Rightarrow> json \<Rightarrow> string"
and dumps_items :: "(pyfloat \<Rightarrow> string) \<Rightarrow> json list \<Rightarrow> string list"
and dumps_pairs :: "(pyfloat \<Rightarrow> string) \<Rightarrow> (string \<times> json) list \<Rightarrow> (string \<times> string) list" where
  "dumps float_repr JNull = ''null''"
| "dumps float_repr (JBool b) = (if b then ''true'' else ''false'')"
| "dumps float_repr (JInt n) = show_int n"
| "dumps float_repr (JFloat x) = float_repr x"
| "dumps float_repr (JStr s) = json_string s"
| "dumps float_repr (JList xs) = ''['' @ join '','' (dumps_items float_repr xs) @ '']''"
| "dumps float_repr (JDict d) =
     ''{'' @ join '','' (map (\<lambda>(k, t). json_string k @ '':'' @ t) (sort_key fst (dumps_pairs float_repr d))) @ ''}''"
| "dumps_items float_repr [] = []"
| "dumps_items float_repr (x # xs) = dumps float_repr x # dumps_items float_repr xs"
| "dumps_pairs float_repr [] = []"
| "dumps_pairs float_repr ((k, v) # d) = (k, dumps float_repr v) # dumps_pairs float_repr d"

definition canonical_json :: "(pyfloat \<Rightarrow> string) \<Rightarrow> fact_sheet \<Rightarrow> string" where
  "canonical_json float_repr fs = dumps float_repr (model_dump fs)"

definition fact_sheet_hash :: "(string \<Rightarrow> string) \<Rightarrow> (pyfloat \<Rightarrow> string) \<Rightarrow> fact_sheet \<Rightarrow> string" where
  "fact_sheet_hash sha256_hex float_repr fs = sha256_hex (canonical_json float_repr fs)"

section \<open>prompt.py\<close>

definition SYSTEM_PROMPT :: string where
  "SYSTEM_PROMPT =
     ''You explain a retention recommendation to a non-technical fintech operations reviewer. ''
   @ ''Use ONLY the JSON fact sheet you are given. ''
   @ ''Do not add any number, percentage, amount, date, reason, prediction, or advice that is not ''
   @ ''in the fact sheet. Do not mention user identifiers. ''
   @ ''Say which incentive is the top pick and, if present, the runner-up. ''
   @ ''Mention that the data is synthetic. ''
   @ ''Write at most 4 short sentences in plain English. ''
   @ ''Numbers may be written as they appear, as percentages of a probability, or as ''
   @ [CHR 0x27] @ ''Rp'' @ [CHR 0x27] @ '' amounts.''"

definition build_prompt :: "(pyfloat \<Rightarrow> string) \<Rightarrow> fact_sheet \<Rightarrow> string \<times> string" where
  "build_prompt float_repr fs =
     (SYSTEM_PROMPT, ''Fact sheet:'' @ [CHR 0x0A] @ canonical_json float_repr fs)"

section \<open>template.py\<close>

text \<open>\<open>f"{amount:,}".replace(",", ".")\<close>: the digits in groups of three from the right.\<close>

fun group_digits :: "string \<Rightarrow> string" where
  "group_digits [] = []"
| "group_digits (c # cs) =
     (if length cs mod 3 = 0 \<and> cs \<noteq> [] then c # CHR ''.'' # group_digits cs else c # group_digits cs)"

definition idr :: "int \<Rightarrow> string" where
  "idr amount = ''Rp '' @ (if amount < 0 then ''-'' else []) @ group_digits (show_nat (nat \<bar>amount\<bar>))"

text \<open>\<open>f"{round(p * 100)}%"\<close> and \<open>f"{x:.2f}"\<close> of a float.\<close>

definition pct :: "pyfloat \<Rightarrow> string" where
  "pct p = show_int (round_half_even (fmul p 100)) @ ''%''"

definition two_digits :: "nat \<Rightarrow> string" where
  "two_digits n = [char_of (48 + n div 10), char_of (48 + n mod 10)]"

definition format_2f :: "pyfloat \<Rightarrow> string" where
  "format_2f x = (let n = nat (round_half_even (\<bar>x\<bar> * 100)) in
     (if x < 0 then ''-'' else []) @ show_nat (n div 100) @ ''.'' @ two_digits (n mod 100))"

text \<open>Reading a fact; what is not there is a \<open>KeyError\<close>, what has another type a \<open>TypeError\<close>.\<close>

definition fact :: "(string \<times> json) list \<Rightarrow> string \<Rightarrow> json result" where
  "fact d k = (case map_of d k of None \<Rightarrow> Inl (KeyError k) | Some v \<Rightarrow> Inr v)"

definition type_error :: exn where
  "type_error = RuntimeError ''TypeError: unsupported operand or format''"

fun float_of_json :: "json \<Rightarrow> pyfloat result" where
  "float_of_json (JFloat x) = Inr x"
| "float_of_json (JInt n) = Inr (float_of_int n)"
| "float_of_json (JBool b) = Inr (if b then 1 else 0)"
| "float_of_json _ = Inl type_error"

fun int_of_json :: "json \<Rightarrow> int result" where
  "int_of_json (JInt n) = Inr n"
| "int_of_json _ = Inl type_error"

definition float_fact :: "(string \<times> json) list \<Rightarrow> string \<Rightarrow> pyfloat result" where
  "float_fact d k = bind_result (fact d k) float_of_json"

definition int_fact :: "(string \<times> json) list \<Rightarrow> string \<Rightarrow> int result" where
  "int_fact d k = bind_result (fact d k) int_of_json"

definition text_fact :: "(json \<Rightarrow> string) \<Rightarrow> (string \<times> json) list \<Rightarrow> string \<Rightarrow> string result" where
  "text_fact other d k = bind_result (fact d k) (\<lambda>v. Inr (py_str other v))"

definition top_part :: "(json \<Rightarrow> string) \<Rightarrow> string \<Rightarrow> (string \<times> json) list \<Rightarrow> string result" where
  "top_part other subject pick =
     bind_result (text_fact other pick ''display_name'') (\<lambda>name.
     bind_result (int_fact pick ''cost_idr'') (\<lambda>cost.
     bind_result (float_fact pick ''priority'') (\<lambda>priority.
     bind_result (text_fact other pick ''ranking_strategy'') (\<lambda>strategy.
     Inr (''Recommended for '' @ subject @ '': '' @ name @ '' (cost '' @ idr cost @ '', priority ''
          @ format_2f priority @ '' via '' @ strategy @ '').'')))))"

definition risk_part :: "(json \<Rightarrow> string) \<Rightarrow> (string \<times> json) list \<Rightarrow> string result" where
  "risk_part other risk =
     bind_result (float_fact risk ''churn_risk'') (\<lambda>r.
     bind_result (text_fact other risk ''model'') (\<lambda>model.
     Inr (''Churn risk is '' @ pct r @ '' ('' @ model @ '').'')))"

definition circle_part :: "(json \<Rightarrow> string) \<Rightarrow> (string \<times> json) list \<Rightarrow> string result" where
  "circle_part other c =
     bind_result (float_fact c ''neighbor_activity_ratio_30d_ago'') (\<lambda>prior.
     bind_result (float_fact c ''neighbor_activity_ratio_now'') (\<lambda>now.
     bind_result (text_fact other c ''activity_window_days'') (\<lambda>days.
     bind_result (text_fact other c ''circle_size'') (\<lambda>n.
     bind_result (text_fact other c ''pattern_type'') (\<lambda>pattern.
     Inr (''Active share of the circle moved from '' @ pct prior @ '' to '' @ pct now @ '' over '' @ days
          @ '' days across '' @ n @ '' counterparties, tagged '' @ pattern @ ''.''))))))"

definition impact_part :: "(json \<Rightarrow> string) \<Rightarrow> (string \<times> json) list \<Rightarrow> string result" where
  "impact_part other i =
     bind_result (float_fact i ''p_incentivized'') (\<lambda>p.
     bind_result (float_fact i ''p_not_incentivized'') (\<lambda>q.
     bind_result (text_fact other i ''segment'') (\<lambda>segment.
     Inr (''Estimated chance to stay is '' @ pct p @ '' with the incentive and '' @ pct q
          @ '' without it, so the segment is '' @ segment @ ''.''))))"

definition signal_part :: "(json \<Rightarrow> string) \<Rightarrow> (string \<times> json) list \<Rightarrow> string result" where
  "signal_part other s =
     bind_result (float_fact s ''value'') (\<lambda>value.
     bind_result (text_fact other s ''signal_type'') (\<lambda>ty.
     bind_result (text_fact other s ''scope_type'') (\<lambda>scope.
     bind_result (text_fact other s ''scope_key'') (\<lambda>key.
     Inr (''Market context: '' @ ty @ '' for '' @ scope @ '' '' @ key @ '' is ''
          @ (if value < 0 then ''negative'' else ''non-negative'') @ '' ('' @ format_2f value @ '').'')))))"

definition runner_up_part :: "(json \<Rightarrow> string) \<Rightarrow> (string \<times> json) list \<Rightarrow> string result" where
  "runner_up_part other r =
     bind_result (text_fact other r ''display_name'') (\<lambda>name.
     bind_result (int_fact r ''cost_idr'') (\<lambda>cost.
     bind_result (float_fact r ''priority'') (\<lambda>priority.
     Inr (''Runner-up: '' @ name @ '' (cost '' @ idr cost @ '', priority '' @ format_2f priority @ '').''))))"

text \<open>\<open>if fs.circle: parts.append(...)\<close>: an absent or empty dict adds nothing.\<close>

definition optional_part ::
  "((string \<times> json) list \<Rightarrow> string result) \<Rightarrow> (string \<times> json) list option \<Rightarrow> string list result" where
  "optional_part part d = (case d of
       Some (x # xs) \<Rightarrow> bind_result (part (x # xs)) (\<lambda>t. Inr [t])
     | _ \<Rightarrow> Inr [])"

definition CLOSING :: string where
  "CLOSING = ''Based on synthetic demo data; a human reviewer must approve before any action.''"

definition render_template :: "(json \<Rightarrow> string) \<Rightarrow> fact_sheet \<Rightarrow> string result" where
  "render_template other fs =
     (let subject = (if sh_subject_type fs = ''GROUP'' then ''this transaction circle'' else ''this user'') in
     bind_result (top_part other subject (sh_top_pick fs)) (\<lambda>pick.
     bind_result (risk_part other (sh_risk fs)) (\<lambda>risk.
     bind_result (optional_part (circle_part other) (sh_circle fs)) (\<lambda>circle.
     bind_result (optional_part (impact_part other) (sh_impact fs)) (\<lambda>impact.
     bind_result (optional_part (signal_part other) (sh_external_signal fs)) (\<lambda>signal.
     bind_result (optional_part (runner_up_part other) (sh_runner_up fs)) (\<lambda>runner.
     Inr (join '' '' ([pick, risk] @ circle @ impact @ signal @ runner @ [CLOSING])))))))))"

section \<open>validator.py\<close>

definition MAX_CHARS :: nat where "MAX_CHARS = 1200"
definition TOL :: pyfloat where "TOL = fl (1 / 10 ^ 6)"

definition is_digit :: "char \<Rightarrow> bool" where
  "is_digit c \<longleftrightarrow> (let n = of_char c :: nat in 48 \<le> n \<and> n \<le> 57)"

definition is_word :: "char \<Rightarrow> bool" where
  "is_word c \<longleftrightarrow> (let n = of_char c :: nat in
     is_digit c \<or> (65 \<le> n \<and> n \<le> 90) \<or> (97 \<le> n \<and> n \<le> 122) \<or> n = 95)"

definition is_hex :: "char \<Rightarrow> bool" where
  "is_hex c \<longleftrightarrow> is_digit c \<or> (let n = of_char c :: nat in (65 \<le> n \<and> n \<le> 70) \<or> (97 \<le> n \<and> n \<le> 102))"

text \<open>\<open>_HEX_ID\<close>: a maximal run of word characters is an identifier when it is long and all hexadecimal.\<close>

definition is_hex_id :: "string \<Rightarrow> bool" where
  "is_hex_id w \<longleftrightarrow> 12 \<le> length w \<and> list_all is_hex w"

function words_of :: "string \<Rightarrow> (string + char) list" where
  "words_of [] = []"
| "words_of (c # cs) =
     (if is_word c then Inl (takeWhile is_word (c # cs)) # words_of (dropWhile is_word (c # cs))
      else Inr c # words_of cs)"
  by pat_completeness auto
termination
  by (relation "measure length") (auto simp: le_imp_less_Suc length_dropWhile_le)

definition hex_ids :: "string \<Rightarrow> string list" where
  "hex_ids text = concat (map (\<lambda>t. case t of Inl w \<Rightarrow> if is_hex_id w then [w] else [] | Inr _ \<Rightarrow> []) (words_of text))"

definition hex_sub :: "string \<Rightarrow> string" where
  "hex_sub text = concat (map (\<lambda>t. case t of Inl w \<Rightarrow> if is_hex_id w then '' '' else w | Inr c \<Rightarrow> [c]) (words_of text))"

text \<open>\<open>_RP_GLUED.sub("Rp ", text)\<close>\<close>

definition rp_match :: "string \<Rightarrow> string option" where
  "rp_match text =
     (if take 2 text = ''Rp''
      then (case drop 2 text of
              [] \<Rightarrow> None
            | d # r \<Rightarrow> if is_digit d then Some (d # r)
                       else if d = CHR ''.'' \<and> r \<noteq> [] \<and> is_digit (hd r) then Some r else None)
      else None)"

lemma rp_match_shorter: "rp_match s = Some rest \<Longrightarrow> length rest < length s"
proof -
  assume r: "rp_match s = Some rest"
  then obtain d r' where d: "drop 2 s = d # r'" "rest = d # r' \<or> rest = r'"
    by (cases "drop 2 s") (auto simp: rp_match_def split: if_splits)
  moreover from d(1) have "length s = length (d # r') + 2"
    by (metis Nil_is_append_conv diff_diff_cancel drop_all length_drop less_eq_nat.simps(1) linorder_not_le
        nat_less_le list.distinct(1) ordered_cancel_comm_monoid_diff_class.diff_add)
  ultimately show ?thesis by auto
qed

function rp_split :: "string \<Rightarrow> string" where
  "rp_split [] = []"
| "rp_split (c # s) = (case rp_match (c # s) of
       Some rest \<Rightarrow> ''Rp '' @ rp_split rest
     | None \<Rightarrow> c # rp_split s)"
  by pat_completeness auto
termination
  by (relation "measure length") (auto dest: rp_match_shorter)

definition is_number_char :: "char \<Rightarrow> bool" where
  "is_number_char c \<longleftrightarrow> is_digit c \<or> c = CHR ''.'' \<or> c = CHR '',''"

text \<open>The look-behind \<open>(?<![\w.,])\<close>, and \<open>Rp\.?\s*$\<close> in the four characters before; \<open>prior\<close> is reversed.\<close>

definition starts_number :: "string \<Rightarrow> bool" where
  "starts_number prior = (case prior of [] \<Rightarrow> True | p # _ \<Rightarrow> \<not> is_word p \<and> p \<noteq> CHR ''.'' \<and> p \<noteq> CHR '','')"

definition rupiah_before :: "string \<Rightarrow> bool" where
  "rupiah_before prior =
     (let b = dropWhile is_space (take 4 prior)
      in take 2 b = ''pR'' \<or> take 3 b = ''.pR'')"

function number_tokens :: "string \<Rightarrow> string \<Rightarrow> (string \<times> bool) list" where
  "number_tokens prior [] = []"
| "number_tokens prior (c # cs) =
     (if is_digit c \<and> starts_number prior
      then let token = takeWhile is_number_char (c # cs)
           in (token, rupiah_before prior) # number_tokens (rev token @ prior) (dropWhile is_number_char (c # cs))
      else number_tokens (c # prior) cs)"
  by pat_completeness auto
termination
  by (relation "measure (\<lambda>(_, s). length s)")
     (auto simp: is_number_char_def le_imp_less_Suc length_dropWhile_le)

text \<open>\<open>_THOUSANDS\<close>: one to three digits, the first not 0, then groups of a separator and three digits.\<close>

fun thousands_groups :: "string \<Rightarrow> bool" where
  "thousands_groups [] = True"
| "thousands_groups (s # a # b # c # r) =
     ((s = CHR ''.'' \<or> s = CHR '','') \<and> is_digit a \<and> is_digit b \<and> is_digit c \<and> thousands_groups r)"
| "thousands_groups _ = False"

definition thousands :: "string \<Rightarrow> bool" where
  "thousands token =
     (let d = takeWhile is_digit token; r = dropWhile is_digit token
      in d \<noteq> [] \<and> hd d \<noteq> CHR ''0'' \<and> length d \<le> 3 \<and> r \<noteq> [] \<and> thousands_groups r)"

definition float_of_token :: "string \<Rightarrow> pyfloat" where
  "float_of_token token = (case decimal_number token of None \<Rightarrow> 0 | Some x \<Rightarrow> fl x)"

definition count_of :: "char \<Rightarrow> string \<Rightarrow> nat" where
  "count_of c s = length (filter (\<lambda>x. x = c) s)"

definition is_separator :: "char \<Rightarrow> bool" where
  "is_separator c \<longleftrightarrow> c = CHR ''.'' \<or> c = CHR '',''"

definition interpretations :: "string \<Rightarrow> bool \<Rightarrow> pyfloat list" where
  "interpretations token0 rupiah =
     (let token = rev (dropWhile is_separator (rev token0));
          grouped = (if thousands token then [float_of_token (filter (\<lambda>c. \<not> is_separator c) token)] else [])
      in if thousands token \<and> rupiah then grouped
         else if count_of (CHR ''.'') token \<le> 1 \<and> CHR '','' \<notin> set token then grouped @ [float_of_token token]
         else if count_of (CHR '','') token = 1 \<and> CHR ''.'' \<notin> set token
         then grouped @ [float_of_token (map (\<lambda>c. if c = CHR '','' then CHR ''.'' else c) token)]
         else grouped)"

definition extract_numbers :: "string \<Rightarrow> pyfloat list list" where
  "extract_numbers text =
     filter (\<lambda>options. options \<noteq> [])
       (map (\<lambda>(token, rupiah). interpretations token rupiah) (number_tokens [] (rp_split (hex_sub text))))"

text \<open>\<open>_walk\<close>: the numbers and the strings of a JSON value.\<close>

fun walk :: "json \<Rightarrow> pyfloat list \<times> string list"
and walk_items :: "json list \<Rightarrow> pyfloat list \<times> string list"
and walk_values :: "(string \<times> json) list \<Rightarrow> pyfloat list \<times> string list" where
  "walk JNull = ([], [])"
| "walk (JBool b) = ([], [])"
| "walk (JInt n) = ([\<bar>float_of_int n\<bar>], [])"
| "walk (JFloat x) = ([\<bar>x\<bar>], [])"
| "walk (JStr s) = (concat (extract_numbers s), [s])"
| "walk (JList xs) = walk_items xs"
| "walk (JDict d) = walk_values d"
| "walk_items [] = ([], [])"
| "walk_items (x # xs) = (case (walk x, walk_items xs) of ((n, s), (ns, ss)) \<Rightarrow> (n @ ns, s @ ss))"
| "walk_values [] = ([], [])"
| "walk_values ((k, v) # d) = (case (walk v, walk_values d) of ((n, s), (ns, ss)) \<Rightarrow> (n @ ns, s @ ss))"

definition allowed_numbers :: "fact_sheet \<Rightarrow> pyfloat list" where
  "allowed_numbers fs =
     (let raw = fst (walk (model_dump fs))
      in raw @ concat (map (\<lambda>v. map (py_round v) [1, 2, 3] @ map (py_round (fmul v 100)) [0, 1]) raw))"

definition number_ok :: "pyfloat list \<Rightarrow> pyfloat list \<Rightarrow> bool" where
  "number_ok allowed options = list_ex (\<lambda>o'. list_ex (\<lambda>a. \<bar>fsub o' a\<bar> \<le> TOL) allowed) options"

text \<open>\<open>validate_narration\<close>; the text of the last error leaves out the number that \<open>:g\<close> would print.\<close>

definition validate_narration :: "string \<Rightarrow> fact_sheet \<Rightarrow> unit result" where
  "validate_narration text fs =
     (if text = [] \<or> py_strip text = [] then Inl (NarrationRejected ''narration is empty'')
      else if length text > MAX_CHARS
      then Inl (NarrationRejected (''narration longer than '' @ show_nat MAX_CHARS @ '' characters''))
      else
        let known_text = py_lower (join '' '' (snd (walk (model_dump fs))))
        in case find (\<lambda>ident. \<not> substring (py_lower ident) known_text) (hex_ids text) of
             Some ident \<Rightarrow> Inl (NarrationRejected (''unknown identifier '' @ take 6 ident @ ''...''))
           | None \<Rightarrow>
               (case find (\<lambda>options. \<not> number_ok (allowed_numbers fs) options) (extract_numbers text) of
                  Some options \<Rightarrow> Inl (NarrationRejected ''number is not in the fact sheet'')
                | None \<Rightarrow> Inr ()))"

section \<open>llm_narrator.py\<close>

definition SOURCE_LLM :: string where "SOURCE_LLM = ''LLM''"
definition SOURCE_TEMPLATE :: string where "SOURCE_TEMPLATE = ''TEMPLATE''"

text \<open>The text and its source with the cache afterwards.  The template is rendered first, outside the
  \<open>try\<close>; any exception of the narrator or of the validator keeps it.\<close>

definition narrate_or_fallback ::
  "(string \<Rightarrow> string) \<Rightarrow> (pyfloat \<Rightarrow> string) \<Rightarrow> (json \<Rightarrow> string) \<Rightarrow> fact_sheet \<Rightarrow>
   (string \<Rightarrow> string \<Rightarrow> string result) option \<Rightarrow> (string \<times> (string \<times> string)) list option \<Rightarrow>
   ((string \<times> string) \<times> (string \<times> (string \<times> string)) list option) result" where
  "narrate_or_fallback sha256_hex float_repr other fs narrator cache =
     (let key = fact_sheet_hash sha256_hex float_repr fs in
      case (case cache of None \<Rightarrow> None | Some c \<Rightarrow> map_of c key) of
        Some hit \<Rightarrow> Inr (hit, cache)
      | None \<Rightarrow>
          bind_result (render_template other fs) (\<lambda>template.
            let generated = (case narrator of
                  None \<Rightarrow> Inl (RuntimeError ''no narrator'')
                | Some narrate \<Rightarrow>
                    (let (system, user) = build_prompt float_repr fs in
                     bind_result (narrate system user) (\<lambda>text.
                     bind_result (validate_narration text fs) (\<lambda>_. Inr text))));
                result = (case generated of Inr text \<Rightarrow> (text, SOURCE_LLM) | Inl _ \<Rightarrow> (template, SOURCE_TEMPLATE))
            in Inr (result, map_option (AList.update key result) cache)))"

end
