(* ===== verification/Store.thy ===== *)
theory Store
  imports Feedback Lifecycle Normalize Runs
begin

text \<open>
  The worker's storage: the records of \<open>worker/store.py\<close>, the in-memory implementation of its protocol
  (\<open>worker/memory_store.py\<close>) as a state record with one function per method, and the ingestion of
  outcomes (\<open>worker/outcomes.py\<close>).  A dict of dicts keyed by tenant is an association list of
  association lists; reading a \<open>defaultdict\<close> bucket that is not there gives the empty one.
\<close>

section \<open>store.py and the pydantic recommendation\<close>

record tenant_record =
  tr_tenant_id :: string
  tr_slug :: string
  tr_profile_type :: string
  tr_mapping :: tenant_mapping_config

record raw_event_record =
  re_raw_event_id :: string
  re_tenant_id :: string
  re_body :: "(string \<times> json) list"
  re_status :: string
  re_error :: "string option"

record stage_record =
  sr_run_id :: string
  sr_tenant_id :: string
  sr_stage :: string
  sr_status :: string
  sr_detail :: "(string \<times> json) list"

text \<open>\<open>core_contracts.Recommendation\<close>, which the worker creates (the table's row is in \<open>Lifecycle\<close>).\<close>

record new_recommendation =
  nr_recommendation_id :: string
  nr_tenant_id :: string
  nr_run_id :: string
  nr_candidate_id :: string
  nr_arm :: arm
  nr_status :: recommendation_status
  nr_incentive_code :: string
  nr_cost_idr :: int
  nr_priority :: pyfloat
  nr_user_pseudonym :: "string option"
  nr_group_id :: "string option"
  nr_member_pseudonyms :: "string list"
  nr_runner_up_candidate_id :: "string option"
  nr_reason_text :: string
  nr_reason_source :: string
  nr_fact_sheet_hash :: string
  nr_created_at :: instant
  nr_reviewed_by :: "string option"
  nr_reviewed_at :: "instant option"

record narration_row =
  na_run_id :: string
  na_fact_sheet_hash :: string
  na_text :: string
  na_source :: string

record audit_entry =
  au_actor :: string
  au_action :: string
  au_entity_type :: string
  au_entity_id :: string
  au_detail :: "(string \<times> json) list"

section \<open>memory_store.py\<close>

type_synonym 'a by_tenant = "(string \<times> 'a) list"

record memory_store =
  ms_tenants :: "tenant_record by_tenant"
  ms_raw_events :: "raw_event_record list by_tenant"
  ms_canonical_events :: "(string \<times> canonical_event) list by_tenant"
  ms_user_attributes :: "(string \<times> (string \<times> json) list) list by_tenant"
  ms_incentives :: "incentive list by_tenant"
  ms_external_signals :: "(string \<times> external_signal) list"
  ms_labeled_examples :: "(string \<times> labeled_example) list by_tenant"
  ms_contacts :: "(string \<times> instant list) list by_tenant"
  ms_stages :: "stage_record list"
  ms_circle_snapshots :: "circle_snapshot list by_tenant"
  ms_circles :: "circle list by_tenant"
  ms_risk_scores :: "risk_score list by_tenant"
  ms_impact_scores :: "(string \<times> impact_score_rec) list by_tenant"
  ms_policy_decisions :: "policy_decision list by_tenant"
  ms_experiments :: "string by_tenant"
  ms_arm_assignments :: "(string \<times> arm) list by_tenant"
  ms_allocations :: "(allocation_result \<times> allocation_decision list) list by_tenant"
  ms_narrations :: "narration_row list by_tenant"
  ms_feature_snapshots :: "((string \<times> string) \<times> feature_snapshot) list by_tenant"
  ms_recommendations :: "(string \<times> new_recommendation) list by_tenant"
  ms_audit_log :: "audit_entry list by_tenant"
  ms_outcomes :: "outcome_event list by_tenant"

text \<open>A bucket of a \<open>defaultdict(list)\<close> or \<open>defaultdict(dict)\<close>, and writing it back.\<close>

definition bucket_of :: "'a list by_tenant \<Rightarrow> string \<Rightarrow> 'a list" where
  "bucket_of d tid = dict_get d tid []"

definition set_bucket :: "string \<Rightarrow> 'a list \<Rightarrow> 'a list by_tenant \<Rightarrow> 'a list by_tenant" where
  "set_bucket tid b d = AList.update tid b d"

definition extend_bucket :: "string \<Rightarrow> 'a list \<Rightarrow> 'a list by_tenant \<Rightarrow> 'a list by_tenant" where
  "extend_bucket tid xs d = set_bucket tid (bucket_of d tid @ xs) d"

text \<open>\<open>bucket.update(d)\<close> and \<open>bucket.setdefault(k, v)\<close>.\<close>

definition update_bucket :: "string \<Rightarrow> (string \<times> 'a) list \<Rightarrow> (string \<times> 'a) list by_tenant \<Rightarrow> (string \<times> 'a) list by_tenant" where
  "update_bucket tid kvs d = set_bucket tid (foldl (\<lambda>b (k, v). AList.update k v b) (bucket_of d tid) kvs) d"

definition add_tenant :: "tenant_record \<Rightarrow> memory_store \<Rightarrow> memory_store" where
  "add_tenant tenant s = s\<lparr>ms_tenants := AList.update (tr_tenant_id tenant) tenant (ms_tenants s)\<rparr>"

text \<open>The loop of \<open>add_raw_events\<close>: bodies whose client event id is known already are dropped.\<close>

fun raw_event_loop ::
  "string \<Rightarrow> (string \<times> json) list list \<Rightarrow> json list \<Rightarrow> raw_event_record list \<Rightarrow> raw_event_record list" where
  "raw_event_loop tid [] known bucket = bucket"
| "raw_event_loop tid (body # bodies) known bucket =
     (let ceid = get_or_null body ''client_event_id'' in
      if ceid \<in> set known then raw_event_loop tid bodies known bucket
      else raw_event_loop tid bodies (ceid # known)
             (bucket @ [\<lparr>re_raw_event_id = ''raw-'' @ show_nat (length bucket + 1), re_tenant_id = tid,
                         re_body = body, re_status = ''NEW'', re_error = None\<rparr>]))"

definition add_raw_events :: "string \<Rightarrow> (string \<times> json) list list \<Rightarrow> memory_store \<Rightarrow> memory_store" where
  "add_raw_events tid bodies s =
     (let bucket = bucket_of (ms_raw_events s) tid;
          known = map (\<lambda>r. get_or_null (re_body r) ''client_event_id'') bucket
      in s\<lparr>ms_raw_events := set_bucket tid (raw_event_loop tid bodies known bucket) (ms_raw_events s)\<rparr>)"

definition set_incentives :: "string \<Rightarrow> incentive list \<Rightarrow> memory_store \<Rightarrow> memory_store" where
  "set_incentives tid incentives s = s\<lparr>ms_incentives := set_bucket tid incentives (ms_incentives s)\<rparr>"

definition add_contacts :: "string \<Rightarrow> string \<Rightarrow> instant list \<Rightarrow> memory_store \<Rightarrow> memory_store" where
  "add_contacts tid user ts s =
     (let b = bucket_of (ms_contacts s) tid
      in s\<lparr>ms_contacts := set_bucket tid (AList.update user (dict_get b user [] @ ts) b) (ms_contacts s)\<rparr>)"

definition add_outcomes :: "outcome_event list \<Rightarrow> memory_store \<Rightarrow> memory_store" where
  "add_outcomes outcomes s =
     foldl (\<lambda>s o1. s\<lparr>ms_outcomes := extend_bucket (o_tenant_id o1) [o1] (ms_outcomes s)\<rparr>) s outcomes"

definition get_tenant :: "string \<Rightarrow> memory_store \<Rightarrow> tenant_record result" where
  "get_tenant tid s = (case map_of (ms_tenants s) tid of None \<Rightarrow> Inl (KeyError tid) | Some t \<Rightarrow> Inr t)"

text \<open>\<open>xs[:limit]\<close>, where a negative limit counts from the end.\<close>

definition py_take :: "int \<Rightarrow> 'a list \<Rightarrow> 'a list" where
  "py_take limit xs = take (nat (if limit < 0 then limit + int (length xs) else limit)) xs"

definition claim_raw_events :: "string \<Rightarrow> int \<Rightarrow> memory_store \<Rightarrow> raw_event_record list" where
  "claim_raw_events tid limit s = py_take limit (filter (\<lambda>r. re_status r = ''NEW'') (bucket_of (ms_raw_events s) tid))"

definition mark_raw_event :: "string \<Rightarrow> string \<Rightarrow> string \<Rightarrow> string option \<Rightarrow> memory_store \<Rightarrow> memory_store" where
  "mark_raw_event tid raw_event_id status error s =
     s\<lparr>ms_raw_events := set_bucket tid
         (map (\<lambda>r. if re_raw_event_id r = raw_event_id then r\<lparr>re_status := status, re_error := error\<rparr> else r)
            (bucket_of (ms_raw_events s) tid)) (ms_raw_events s)\<rparr>"

fun save_events_loop ::
  "string \<Rightarrow> canonical_event list \<Rightarrow> (string \<times> canonical_event) list \<Rightarrow> nat \<Rightarrow> (string \<times> canonical_event) list \<times> nat result" where
  "save_events_loop tid [] bucket added = (bucket, Inr added)"
| "save_events_loop tid (e # es) bucket added =
     (if e_tenant_id e \<noteq> tid then (bucket, Inl (ValueError ''canonical event written to the wrong tenant''))
      else if map_of bucket (e_client_event_id e) = None
      then save_events_loop tid es (bucket @ [(e_client_event_id e, e)]) (added + 1)
      else save_events_loop tid es bucket added)"

definition save_canonical_events :: "string \<Rightarrow> canonical_event list \<Rightarrow> memory_store \<Rightarrow> nat result \<times> memory_store" where
  "save_canonical_events tid events s =
     (let (bucket, added) = save_events_loop tid events (bucket_of (ms_canonical_events s) tid) 0
      in (added, s\<lparr>ms_canonical_events := set_bucket tid bucket (ms_canonical_events s)\<rparr>))"

definition load_canonical_events :: "string \<Rightarrow> instant \<Rightarrow> memory_store \<Rightarrow> canonical_event list" where
  "load_canonical_events tid since s =
     sort_key (\<lambda>e. (e_occurred_at e, e_client_event_id e))
       (filter (\<lambda>e. since \<le> e_occurred_at e) (map snd (bucket_of (ms_canonical_events s) tid)))"

definition upsert_user_attributes :: "string \<Rightarrow> string \<Rightarrow> (string \<times> json) list \<Rightarrow> memory_store \<Rightarrow> memory_store" where
  "upsert_user_attributes tid user attributes s =
     (let b = bucket_of (ms_user_attributes s) tid;
          a = foldl (\<lambda>d (k, v). AList.update k v d) (dict_get b user []) attributes
      in s\<lparr>ms_user_attributes := set_bucket tid (AList.update user a b) (ms_user_attributes s)\<rparr>)"

definition load_user_attributes :: "string \<Rightarrow> memory_store \<Rightarrow> (string \<times> (string \<times> json) list) list" where
  "load_user_attributes tid s = bucket_of (ms_user_attributes s) tid"

definition load_incentives :: "string \<Rightarrow> memory_store \<Rightarrow> incentive list" where
  "load_incentives tid s = bucket_of (ms_incentives s) tid"

definition save_external_signals :: "external_signal list \<Rightarrow> memory_store \<Rightarrow> memory_store" where
  "save_external_signals signals s =
     s\<lparr>ms_external_signals := foldl (\<lambda>d x. AList.update (s_signal_id x) x d) (ms_external_signals s) signals\<rparr>"

definition load_labeled_examples :: "string \<Rightarrow> memory_store \<Rightarrow> labeled_example list" where
  "load_labeled_examples tid s = map snd (bucket_of (ms_labeled_examples s) tid)"

definition load_contact_times :: "string \<Rightarrow> memory_store \<Rightarrow> (string \<times> instant list) list" where
  "load_contact_times tid s = bucket_of (ms_contacts s) tid"

definition record_stage :: "stage_record \<Rightarrow> memory_store \<Rightarrow> memory_store" where
  "record_stage r s = s\<lparr>ms_stages := ms_stages s @ [r]\<rparr>"

definition save_circles :: "string \<Rightarrow> circle_snapshot list \<Rightarrow> circle list \<Rightarrow> memory_store \<Rightarrow> memory_store" where
  "save_circles tid snapshots circles s =
     s\<lparr>ms_circle_snapshots := extend_bucket tid snapshots (ms_circle_snapshots s),
       ms_circles := extend_bucket tid circles (ms_circles s)\<rparr>"

definition save_risk_scores :: "string \<Rightarrow> risk_score list \<Rightarrow> memory_store \<Rightarrow> memory_store" where
  "save_risk_scores tid scores s = s\<lparr>ms_risk_scores := extend_bucket tid scores (ms_risk_scores s)\<rparr>"

definition save_impact_scores :: "string \<Rightarrow> (string \<times> impact_score_rec) list \<Rightarrow> memory_store \<Rightarrow> memory_store" where
  "save_impact_scores tid scores s = s\<lparr>ms_impact_scores := update_bucket tid scores (ms_impact_scores s)\<rparr>"

definition save_policy_decisions :: "string \<Rightarrow> policy_decision list \<Rightarrow> memory_store \<Rightarrow> memory_store" where
  "save_policy_decisions tid decisions s =
     s\<lparr>ms_policy_decisions := extend_bucket tid decisions (ms_policy_decisions s)\<rparr>"

definition get_or_create_experiment :: "string \<Rightarrow> memory_store \<Rightarrow> string result \<times> memory_store" where
  "get_or_create_experiment tid s =
     (let d = dict_setdefault tid (''exp-'' @ tid @ ''-1'') (ms_experiments s)
      in (Inr (dict_get d tid []), s\<lparr>ms_experiments := d\<rparr>))"

text \<open>\<open>setdefault\<close> per unit, and the check that an assignment never changes.\<close>

fun save_arms_loop ::
  "(string \<times> arm) list \<Rightarrow> (string \<times> arm) list \<Rightarrow> (string \<times> arm) list \<times> unit result" where
  "save_arms_loop [] b = (b, Inr ())"
| "save_arms_loop ((unit_id, arm) # arms) b =
     (let b' = dict_setdefault unit_id arm b in
      if dict_get b' unit_id arm \<noteq> arm
      then (b', Inl (ValueError ''arm assignment changed within an experiment''))
      else save_arms_loop arms b')"

definition save_arm_assignments :: "string \<Rightarrow> (string \<times> arm) list \<Rightarrow> memory_store \<Rightarrow> unit result \<times> memory_store" where
  "save_arm_assignments tid arms s =
     (let (b, r) = save_arms_loop arms (bucket_of (ms_arm_assignments s) tid)
      in (r, s\<lparr>ms_arm_assignments := set_bucket tid b (ms_arm_assignments s)\<rparr>))"

definition save_allocation :: "string \<Rightarrow> allocation_result \<Rightarrow> allocation_decision list \<Rightarrow> memory_store \<Rightarrow> memory_store" where
  "save_allocation tid result extra s = s\<lparr>ms_allocations := extend_bucket tid [(result, extra)] (ms_allocations s)\<rparr>"

definition save_narration :: "string \<Rightarrow> narration_row \<Rightarrow> memory_store \<Rightarrow> memory_store" where
  "save_narration tid row s = s\<lparr>ms_narrations := extend_bucket tid [row] (ms_narrations s)\<rparr>"

definition save_feature_snapshot :: "memory_store \<Rightarrow> feature_snapshot \<Rightarrow> memory_store" where
  "save_feature_snapshot s f =
     (let b = bucket_of (ms_feature_snapshots s) (fs_tenant_id f)
      in s\<lparr>ms_feature_snapshots := set_bucket (fs_tenant_id f)
              (AList.update (fs_run_id f, fs_user_pseudonym f) f b) (ms_feature_snapshots s)\<rparr>)"

definition save_feature_snapshots :: "feature_snapshot list \<Rightarrow> memory_store \<Rightarrow> memory_store" where
  "save_feature_snapshots snapshots s = foldl save_feature_snapshot s snapshots"

text \<open>\<open>r.reviewed_by or r.reviewed_at\<close>: an empty reviewer id is falsy, a time never is.\<close>

definition is_reviewed :: "new_recommendation \<Rightarrow> bool" where
  "is_reviewed r \<longleftrightarrow> (case nr_reviewed_by r of Some (c # cs) \<Rightarrow> True | _ \<Rightarrow> False) \<or> nr_reviewed_at r \<noteq> None"

fun create_recommendations :: "new_recommendation list \<Rightarrow> memory_store \<Rightarrow> unit result \<times> memory_store" where
  "create_recommendations [] s = (Inr (), s)"
| "create_recommendations (r # rs) s =
     (if nr_status r \<noteq> PENDING_APPROVAL \<or> is_reviewed r
      then (Inl (PermissionError ''worker may only create PENDING_APPROVAL recommendations''), s)
      else create_recommendations rs
             (s\<lparr>ms_recommendations := update_bucket (nr_tenant_id r) [(nr_recommendation_id r, r)] (ms_recommendations s)\<rparr>))"

definition append_audit :: "string \<Rightarrow> audit_entry \<Rightarrow> memory_store \<Rightarrow> memory_store" where
  "append_audit tid entry s = s\<lparr>ms_audit_log := extend_bucket tid [entry] (ms_audit_log s)\<rparr>"

definition load_outcomes :: "string \<Rightarrow> memory_store \<Rightarrow> outcome_event list" where
  "load_outcomes tid s = bucket_of (ms_outcomes s) tid"

definition load_feature_snapshots :: "string \<Rightarrow> memory_store \<Rightarrow> ((string \<times> string) \<times> feature_snapshot) list" where
  "load_feature_snapshots tid s = bucket_of (ms_feature_snapshots s) tid"

definition save_labeled_example :: "memory_store \<Rightarrow> labeled_example \<Rightarrow> memory_store" where
  "save_labeled_example s e =
     (let b = bucket_of (ms_labeled_examples s) (le_tenant_id e)
      in s\<lparr>ms_labeled_examples := set_bucket (le_tenant_id e)
              (dict_setdefault (le_source_outcome_id e) e b) (ms_labeled_examples s)\<rparr>)"

definition save_labeled_examples :: "labeled_example list \<Rightarrow> memory_store \<Rightarrow> memory_store" where
  "save_labeled_examples examples s = foldl save_labeled_example s examples"

section \<open>Buckets\<close>

lemma bucket_set [simp]: "bucket_of (set_bucket tid b d) t = (if t = tid then b else bucket_of d t)"
  by (simp add: bucket_of_def set_bucket_def dict_get_def AList.update_conv')

lemma bucket_extend [simp]:
  "bucket_of (extend_bucket tid xs d) t = (if t = tid then bucket_of d tid @ xs else bucket_of d t)"
  by (simp add: extend_bucket_def)

lemma bucket_update [simp]:
  "bucket_of (update_bucket tid kvs d) t =
     (if t = tid then foldl (\<lambda>b (k, v). AList.update k v b) (bucket_of d tid) kvs else bucket_of d t)"
  by (simp add: update_bucket_def)

section \<open>Saves where the first write wins\<close>

text \<open>
  Canonical events, labeled examples and arm assignments are written with a key that is taken at most
  once.  What follows for a list of saves holds for each of them.
\<close>

locale first_write_wins =
  fixes find_value :: "'s \<Rightarrow> 'k \<Rightarrow> 'v option" and save :: "'s \<Rightarrow> 'v \<Rightarrow> 's" and key :: "'v \<Rightarrow> 'k"
  assumes find_save: "find_value (save s v) k =
      (case find_value s k of Some w \<Rightarrow> Some w | None \<Rightarrow> if k = key v then Some v else None)"
begin

lemma find_saves:
  "find_value (foldl save s vs) k = (case find_value s k of Some w \<Rightarrow> Some w | None \<Rightarrow> find (\<lambda>v. key v = k) vs)"
  by (induction vs arbitrary: s) (auto simp: find_save split: option.splits)

lemma saved_stays: "find_value s k = Some w \<Longrightarrow> find_value (foldl save s vs) k = Some w"
  by (simp add: find_saves)

lemma saves_again: "find_value (foldl save (foldl save s vs) vs) k = find_value (foldl save s vs) k"
  by (auto simp: find_saves split: option.splits)

lemma all_saved: "v \<in> set vs \<Longrightarrow> find_value (foldl save s vs) (key v) \<noteq> None"
proof
  assume v: "v \<in> set vs" and none: "find_value (foldl save s vs) (key v) = None"
  then have "find (\<lambda>w. key w = key v) vs = None" by (auto simp: find_saves split: option.splits)
  with v show False by (auto simp: find_None_iff)
qed

end

text \<open>The labeled example of a tenant and an outcome.\<close>

definition find_example :: "memory_store \<Rightarrow> string \<times> string \<Rightarrow> labeled_example option" where
  "find_example s k = map_of (bucket_of (ms_labeled_examples s) (fst k)) (snd k)"

interpretation labels: first_write_wins find_example save_labeled_example example_key
proof
  show "find_example (save_labeled_example s v) k =
      (case find_example s k of Some w \<Rightarrow> Some w | None \<Rightarrow> if k = example_key v then Some v else None)" for s v k
    by (cases k) (auto simp: find_example_def save_labeled_example_def Let_def example_key_def dict_simps split: option.splits)
qed

definition add_event :: "(string \<times> canonical_event) list \<Rightarrow> canonical_event \<Rightarrow> (string \<times> canonical_event) list" where
  "add_event b e = (if map_of b (e_client_event_id e) = None then b @ [(e_client_event_id e, e)] else b)"

interpretation events: first_write_wins map_of add_event e_client_event_id
proof
  show "map_of (add_event b e) k = (case map_of b k of Some w \<Rightarrow> Some w | None \<Rightarrow> if k = e_client_event_id e then Some e else None)" for b e k
    by (auto simp: add_event_def map_add_def split: option.splits)
qed

interpretation arms: first_write_wins "\<lambda>b k. map_option (Pair k) (map_of b k)" "\<lambda>b (k, v). dict_setdefault k v b" fst
proof
  show "map_option (Pair k) (map_of (case v of (k, v) \<Rightarrow> dict_setdefault k v b) k) =
      (case map_option (Pair k) (map_of b k) of Some w \<Rightarrow> Some w | None \<Rightarrow> if k = fst v then Some v else None)" for b v k
    by (cases v) (auto simp: dict_simps split: option.splits)
qed

text \<open>The two loops with an error in them are these saves as long as they raise nothing.\<close>

lemma save_events_loop_Inr:
  "save_events_loop tid es b n = (b', Inr m) \<Longrightarrow> b' = foldl add_event b es \<and> (\<forall>e \<in> set es. e_tenant_id e = tid)"
  by (induction es arbitrary: b n) (auto simp: add_event_def split: if_splits)

lemma save_events_loop_ok:
  "\<forall>e \<in> set es. e_tenant_id e = tid \<Longrightarrow> \<exists>m. save_events_loop tid es b n = (foldl add_event b es, Inr m)"
  by (induction es arbitrary: b n) (auto simp: add_event_def)

lemma save_arms_loop_Inr:
  "save_arms_loop as b = (b', Inr ()) \<Longrightarrow>
   b' = foldl (\<lambda>b (k, v). dict_setdefault k v b) b as \<and> (\<forall>(u, a) \<in> set as. map_of b' u = Some a)"
proof (induction as arbitrary: b)
  case (Cons p as)
  obtain u a where p: "p = (u, a)" by fastforce
  let ?b = "dict_setdefault u a b"
  from Cons.prems p have loop: "save_arms_loop as ?b = (b', Inr ())" and a: "dict_get ?b u a = a"
    by (auto simp: Let_def split: if_splits)
  note ih = Cons.IH [OF loop]
  have "map_of ?b u = Some a" using a by (auto simp: dict_simps dict_get_def split: option.splits)
  then have "map_of b' u = Some a"
    using ih arms.saved_stays [where s = ?b and k = u and w = "(u, a)" and vs = as] by auto
  then have "\<forall>(u, a) \<in> set (p # as). map_of b' u = Some a" using conjunct2 [OF ih] by (simp add: p)
  moreover have "b' = foldl (\<lambda>b (k, v). dict_setdefault k v b) b (p # as)" using conjunct1 [OF ih] by (simp add: p)
  ultimately show ?case by blast
qed simp

section \<open>What a run may do to the store\<close>

text \<open>
  A worker writes through these operations only, each for the tenant of its run, and creates
  recommendations only as fresh rows waiting for approval.  A property of the store that every one of
  them keeps is kept by every stage (\<open>stage_invariant\<close>); with the stage log itself, which \<open>run_pipeline\<close>
  writes between the stages, it is kept by a run (\<open>store_invariant\<close>).
\<close>

definition fresh_row :: "string \<Rightarrow> new_recommendation \<Rightarrow> bool" where
  "fresh_row tid r \<longleftrightarrow> nr_tenant_id r = tid \<and> nr_status r = PENDING_APPROVAL \<and> nr_reviewed_by r = None \<and> nr_reviewed_at r = None"

locale stage_invariant =
  fixes tid :: string and inv :: "memory_store \<Rightarrow> bool"
  assumes own_outcomes: "inv s \<Longrightarrow> o1 \<in> set (load_outcomes tid s) \<Longrightarrow> o_tenant_id o1 = tid"
    and keeps_mark: "inv s \<Longrightarrow> inv (mark_raw_event tid i st err s)"
    and keeps_attributes: "inv s \<Longrightarrow> inv (upsert_user_attributes tid u a s)"
    and keeps_events: "inv s \<Longrightarrow> inv (snd (save_canonical_events tid es s))"
    and keeps_signals: "inv s \<Longrightarrow> inv (save_external_signals sigs s)"
    and keeps_label: "inv s \<Longrightarrow> le_tenant_id e = tid \<Longrightarrow> inv (save_labeled_example s e)"
    and keeps_circles: "inv s \<Longrightarrow> inv (save_circles tid snaps cs s)"
    and keeps_risk: "inv s \<Longrightarrow> inv (save_risk_scores tid scores s)"
    and keeps_impact: "inv s \<Longrightarrow> inv (save_impact_scores tid imps s)"
    and keeps_policy: "inv s \<Longrightarrow> inv (save_policy_decisions tid ds s)"
    and keeps_experiment: "inv s \<Longrightarrow> inv (snd (get_or_create_experiment tid s))"
    and keeps_arms: "inv s \<Longrightarrow> inv (snd (save_arm_assignments tid as s))"
    and keeps_allocation: "inv s \<Longrightarrow> inv (save_allocation tid res extra s)"
    and keeps_narration: "inv s \<Longrightarrow> inv (save_narration tid row s)"
    and keeps_snapshot: "inv s \<Longrightarrow> fs_tenant_id f = tid \<Longrightarrow> inv (save_feature_snapshot s f)"
    and keeps_recommendation: "inv s \<Longrightarrow> fresh_row tid r \<Longrightarrow> inv (snd (create_recommendations [r] s))"
    and keeps_audit: "inv s \<Longrightarrow> inv (append_audit tid entry s)"
begin

lemma keeps_labels: "inv s \<Longrightarrow> \<forall>e \<in> set es. le_tenant_id e = tid \<Longrightarrow> inv (save_labeled_examples es s)"
  unfolding save_labeled_examples_def by (induction es arbitrary: s) (simp_all add: keeps_label)

lemma keeps_snapshots: "inv s \<Longrightarrow> \<forall>f \<in> set fs. fs_tenant_id f = tid \<Longrightarrow> inv (save_feature_snapshots fs s)"
  unfolding save_feature_snapshots_def by (induction fs arbitrary: s) (simp_all add: keeps_snapshot)

lemma keeps_recommendations: "inv s \<Longrightarrow> \<forall>r \<in> set rs. fresh_row tid r \<Longrightarrow> inv (snd (create_recommendations rs s))"
proof (induction rs arbitrary: s)
  case (Cons r rs)
  have "snd (create_recommendations (r # rs) s) = snd (create_recommendations rs (snd (create_recommendations [r] s)))"
    using Cons.prems(2) by (simp add: fresh_row_def is_reviewed_def)
  moreover have "inv (snd (create_recommendations [r] s))"
    by (rule keeps_recommendation) (use Cons.prems in auto)
  ultimately show ?case using Cons.IH Cons.prems(2) by (simp del: create_recommendations.simps)
qed simp

lemma keeps_entries: "inv s \<Longrightarrow> inv (foldl (\<lambda>s r. append_audit tid (f r) s) s rs)"
  by (induction rs arbitrary: s) (simp_all add: keeps_audit)

end

locale store_invariant = stage_invariant +
  assumes keeps_stage: "inv s \<Longrightarrow> sr_tenant_id sr = tid \<Longrightarrow> inv (record_stage sr s)"

text \<open>Everything the store holds for a tenant; the external signals belong to none.\<close>

definition tenant_rows ::
  "memory_store \<Rightarrow> string \<Rightarrow>
   (raw_event_record list \<times> (string \<times> canonical_event) list \<times> (string \<times> (string \<times> json) list) list) \<times>
   (incentive list \<times> (string \<times> labeled_example) list \<times> (string \<times> instant list) list \<times> stage_record list) \<times>
   (circle_snapshot list \<times> circle list \<times> risk_score list \<times> (string \<times> impact_score_rec) list \<times> policy_decision list) \<times>
   (string option \<times> (string \<times> arm) list \<times> (allocation_result \<times> allocation_decision list) list \<times> narration_row list) \<times>
   (((string \<times> string) \<times> feature_snapshot) list \<times> (string \<times> new_recommendation) list \<times> audit_entry list) \<times>
   outcome_event list \<times> tenant_record option" where
  "tenant_rows s t =
     ((bucket_of (ms_raw_events s) t, bucket_of (ms_canonical_events s) t, bucket_of (ms_user_attributes s) t),
      (bucket_of (ms_incentives s) t, bucket_of (ms_labeled_examples s) t, bucket_of (ms_contacts s) t,
       filter (\<lambda>r. sr_tenant_id r = t) (ms_stages s)),
      (bucket_of (ms_circle_snapshots s) t, bucket_of (ms_circles s) t, bucket_of (ms_risk_scores s) t,
       bucket_of (ms_impact_scores s) t, bucket_of (ms_policy_decisions s) t),
      (map_of (ms_experiments s) t, bucket_of (ms_arm_assignments s) t, bucket_of (ms_allocations s) t,
       bucket_of (ms_narrations s) t),
      (bucket_of (ms_feature_snapshots s) t, bucket_of (ms_recommendations s) t, bucket_of (ms_audit_log s) t),
      bucket_of (ms_outcomes s) t, map_of (ms_tenants s) t)"

lemmas store_ops =
  mark_raw_event_def upsert_user_attributes_def save_canonical_events_def save_external_signals_def
  save_labeled_example_def record_stage_def save_circles_def save_risk_scores_def save_impact_scores_def
  save_policy_decisions_def get_or_create_experiment_def save_arm_assignments_def save_allocation_def
  save_narration_def save_feature_snapshot_def append_audit_def Let_def

lemma rows_of_others:
  assumes "t' \<noteq> t"
  shows "tenant_rows (mark_raw_event t i st err s) t' = tenant_rows s t'"
    and "tenant_rows (upsert_user_attributes t u a s) t' = tenant_rows s t'"
    and "tenant_rows (snd (save_canonical_events t es s)) t' = tenant_rows s t'"
    and "tenant_rows (save_external_signals sigs s) t' = tenant_rows s t'"
    and "tenant_rows (save_circles t snaps cs s) t' = tenant_rows s t'"
    and "tenant_rows (save_risk_scores t scores s) t' = tenant_rows s t'"
    and "tenant_rows (save_impact_scores t imps s) t' = tenant_rows s t'"
    and "tenant_rows (save_policy_decisions t ds s) t' = tenant_rows s t'"
    and "tenant_rows (snd (get_or_create_experiment t s)) t' = tenant_rows s t'"
    and "tenant_rows (snd (save_arm_assignments t as s)) t' = tenant_rows s t'"
    and "tenant_rows (save_allocation t res extra s) t' = tenant_rows s t'"
    and "tenant_rows (save_narration t row s) t' = tenant_rows s t'"
    and "tenant_rows (append_audit t entry s) t' = tenant_rows s t'"
    and "le_tenant_id e = t \<Longrightarrow> tenant_rows (save_labeled_example s e) t' = tenant_rows s t'"
    and "sr_tenant_id sr = t \<Longrightarrow> tenant_rows (record_stage sr s) t' = tenant_rows s t'"
    and "fs_tenant_id f = t \<Longrightarrow> tenant_rows (save_feature_snapshot s f) t' = tenant_rows s t'"
    and "fresh_row t r \<Longrightarrow> tenant_rows (snd (create_recommendations [r] s)) t' = tenant_rows s t'"
  using assms
  by (simp_all add: tenant_rows_def store_ops dict_simps fresh_row_def is_reviewed_def split: prod.splits option.splits)

lemma rows_kept:
  shows "ms_outcomes (mark_raw_event t i st err s) = ms_outcomes s"
    and "ms_outcomes (upsert_user_attributes t u a s) = ms_outcomes s"
    and "ms_outcomes (snd (save_canonical_events t es s)) = ms_outcomes s"
    and "ms_outcomes (save_external_signals sigs s) = ms_outcomes s"
    and "ms_outcomes (save_circles t snaps cs s) = ms_outcomes s"
    and "ms_outcomes (save_risk_scores t scores s) = ms_outcomes s"
    and "ms_outcomes (save_impact_scores t imps s) = ms_outcomes s"
    and "ms_outcomes (save_policy_decisions t ds s) = ms_outcomes s"
    and "ms_outcomes (snd (get_or_create_experiment t s)) = ms_outcomes s"
    and "ms_outcomes (snd (save_arm_assignments t as s)) = ms_outcomes s"
    and "ms_outcomes (save_allocation t res extra s) = ms_outcomes s"
    and "ms_outcomes (save_narration t row s) = ms_outcomes s"
    and "ms_outcomes (append_audit t entry s) = ms_outcomes s"
    and "ms_outcomes (save_labeled_example s e) = ms_outcomes s"
    and "ms_outcomes (record_stage sr s) = ms_outcomes s"
    and "ms_outcomes (save_feature_snapshot s f) = ms_outcomes s"
    and "ms_outcomes (snd (create_recommendations [r] s)) = ms_outcomes s"
  by (simp_all add: store_ops is_reviewed_def split: prod.splits option.splits)

lemma recommendations_kept:
  shows "ms_recommendations (mark_raw_event t i st err s) = ms_recommendations s"
    and "ms_recommendations (upsert_user_attributes t u a s) = ms_recommendations s"
    and "ms_recommendations (snd (save_canonical_events t es s)) = ms_recommendations s"
    and "ms_recommendations (save_external_signals sigs s) = ms_recommendations s"
    and "ms_recommendations (save_circles t snaps cs s) = ms_recommendations s"
    and "ms_recommendations (save_risk_scores t scores s) = ms_recommendations s"
    and "ms_recommendations (save_impact_scores t imps s) = ms_recommendations s"
    and "ms_recommendations (save_policy_decisions t ds s) = ms_recommendations s"
    and "ms_recommendations (snd (get_or_create_experiment t s)) = ms_recommendations s"
    and "ms_recommendations (snd (save_arm_assignments t as s)) = ms_recommendations s"
    and "ms_recommendations (save_allocation t res extra s) = ms_recommendations s"
    and "ms_recommendations (save_narration t row s) = ms_recommendations s"
    and "ms_recommendations (append_audit t entry s) = ms_recommendations s"
    and "ms_recommendations (save_labeled_example s e) = ms_recommendations s"
    and "ms_recommendations (record_stage sr s) = ms_recommendations s"
    and "ms_recommendations (save_feature_snapshot s f) = ms_recommendations s"
  by (simp_all add: store_ops split: prod.splits option.splits)

definition owns_outcomes :: "string \<Rightarrow> memory_store \<Rightarrow> bool" where
  "owns_outcomes tid s \<longleftrightarrow> (\<forall>o1 \<in> set (load_outcomes tid s). o_tenant_id o1 = tid)"

text \<open>No stage touches the log of stages.\<close>

lemma stages_kept:
  shows "ms_stages (mark_raw_event t i st err s) = ms_stages s"
    and "ms_stages (upsert_user_attributes t u a s) = ms_stages s"
    and "ms_stages (snd (save_canonical_events t es s)) = ms_stages s"
    and "ms_stages (save_external_signals sigs s) = ms_stages s"
    and "ms_stages (save_circles t snaps cs s) = ms_stages s"
    and "ms_stages (save_risk_scores t scores s) = ms_stages s"
    and "ms_stages (save_impact_scores t imps s) = ms_stages s"
    and "ms_stages (save_policy_decisions t ds s) = ms_stages s"
    and "ms_stages (snd (get_or_create_experiment t s)) = ms_stages s"
    and "ms_stages (snd (save_arm_assignments t as s)) = ms_stages s"
    and "ms_stages (save_allocation t res extra s) = ms_stages s"
    and "ms_stages (save_narration t row s) = ms_stages s"
    and "ms_stages (append_audit t entry s) = ms_stages s"
    and "ms_stages (save_labeled_example s e) = ms_stages s"
    and "ms_stages (save_feature_snapshot s f) = ms_stages s"
    and "ms_stages (snd (create_recommendations [r] s)) = ms_stages s"
  by (simp_all add: store_ops is_reviewed_def split: prod.splits option.splits)

definition logged :: "stage_record list \<Rightarrow> string \<Rightarrow> memory_store \<Rightarrow> bool" where
  "logged rows tid s \<longleftrightarrow> owns_outcomes tid s \<and> ms_stages s = rows"

interpretation stage_log: stage_invariant tid "logged rows tid" for tid rows
  by unfold_locales
    (simp_all add: logged_def owns_outcomes_def load_outcomes_def rows_kept stages_kept del: create_recommendations.simps)

text \<open>The rows of the other tenants are those of \<open>s0\<close>.\<close>

definition isolated :: "memory_store \<Rightarrow> string \<Rightarrow> memory_store \<Rightarrow> bool" where
  "isolated s0 tid s \<longleftrightarrow> owns_outcomes tid s \<and> (\<forall>t. t \<noteq> tid \<longrightarrow> tenant_rows s t = tenant_rows s0 t)"

interpretation isolation: store_invariant tid "isolated s0 tid" for tid s0
  by unfold_locales (simp_all add: isolated_def owns_outcomes_def load_outcomes_def rows_of_others rows_kept del: create_recommendations.simps)

text \<open>Every recommendation that was not in \<open>s0\<close> waits for approval, unreviewed.\<close>

definition only_pending :: "memory_store \<Rightarrow> string \<Rightarrow> memory_store \<Rightarrow> bool" where
  "only_pending s0 tid s \<longleftrightarrow> owns_outcomes tid s
     \<and> (\<forall>t. \<forall>x \<in> set (bucket_of (ms_recommendations s) t). x \<in> set (bucket_of (ms_recommendations s0) t) \<or> fresh_row t (snd x))"

lemma set_update_sub: "set (AList.update k v d) \<subseteq> insert (k, v) (set d)"
  by (induction d) auto

interpretation pending: store_invariant tid "only_pending s0 tid" for tid s0
proof
  fix s r assume s: "only_pending s0 tid s" and r: "fresh_row tid r"
  have "snd (create_recommendations [r] s)
    = s\<lparr>ms_recommendations := update_bucket (nr_tenant_id r) [(nr_recommendation_id r, r)] (ms_recommendations s)\<rparr>"
    using r by (simp add: fresh_row_def is_reviewed_def)
  moreover have "nr_tenant_id r = tid" using r by (simp add: fresh_row_def)
  ultimately have bucket: "bucket_of (ms_recommendations (snd (create_recommendations [r] s))) t =
      (if t = tid then AList.update (nr_recommendation_id r) r (bucket_of (ms_recommendations s) tid)
       else bucket_of (ms_recommendations s) t)" for t
    by simp
  have "x \<in> set (bucket_of (ms_recommendations s0) t) \<or> fresh_row t (snd x)"
    if "x \<in> set (bucket_of (ms_recommendations (snd (create_recommendations [r] s))) t)" for t x
  proof -
    have "x = (nr_recommendation_id r, r) \<and> t = tid \<or> x \<in> set (bucket_of (ms_recommendations s) t)"
      using that set_update_sub [of "nr_recommendation_id r" r "bucket_of (ms_recommendations s) tid"]
      unfolding bucket by (auto split: if_splits)
    then show ?thesis using s r by (auto simp: only_pending_def)
  qed
  moreover have "owns_outcomes tid (snd (create_recommendations [r] s))"
    using s by (simp add: only_pending_def owns_outcomes_def load_outcomes_def rows_kept del: create_recommendations.simps)
  ultimately show "only_pending s0 tid (snd (create_recommendations [r] s))" unfolding only_pending_def by blast
qed (simp_all add: only_pending_def owns_outcomes_def load_outcomes_def rows_kept recommendations_kept)

end
