(* ===== verification/Stages.thy ===== *)
theory Stages
  imports Store Explain Signals Churn Graph Impact Policy Ranker Allocator Measurement
begin

text \<open>
  The stages of \<open>worker/pipeline.py\<close> up to RANK: INGEST, FEEDBACK (\<open>worker/outcomes.py\<close>), EXTERNAL, GRAPH,
  RISK, IMPACT, POLICY and RANK, as functions on the run's state and the store.  What is not under \<open>src/\<close> or
  is not deterministic (hashes, models, the feed, the narrator) comes in the record \<open>externals\<close>.
  A stage that raises leaves the store as it was when it raised; the fields of the run it would have
  assigned are not read afterwards, so the run is returned only on success.
\<close>

section \<open>Settings, externals and the state of a run\<close>

record settings =
  st_pseudonym_hmac_secret :: string
  st_measurement_hmac_secret :: string
  st_worker_batch_size :: int
  st_feed :: feed_settings
  st_external_signal_max_age_days :: int
  st_graph_lookback_days :: int
  st_activity_window_days :: int
  st_min_edge_interactions :: int
  st_circle_min_size :: nat
  st_edge_decay_halflife_days :: pyfloat
  st_pattern_dip_threshold :: pyfloat
  st_pattern_cohort_dip_threshold :: pyfloat
  st_graph_profiles :: "string list"
  st_business_value_months :: int
  st_tabpfn_enabled :: bool
  st_tabpfn_seed :: int
  st_tabpfn_max_context_rows :: int
  st_risk_min_context_rows :: int
  st_churn_scorer_enabled :: bool
  st_churn_scorer_mapping_path :: string
  st_impact_seed :: int
  st_impact_min_train_rows :: nat
  st_impact_threshold :: pyfloat
  st_impact_sure_thing_p :: pyfloat
  st_ranker_min_context_rows :: nat
  st_allocator_strategy :: string
  st_allocator_cost_scale_idr :: int
  st_allocator_max_dp_cells :: int
  st_default_budget_idr :: int
  st_frequency_cap_max_contacts :: "int option"
  st_frequency_cap_window_days :: "int option"
  st_responsible_lending_lookback_days :: int
  st_responsible_lending_min_late_events :: int
  st_measurement_control_pct :: int
  st_measurement_naive_pct :: int
  st_measurement_naive_risk_threshold :: pyfloat
  st_measurement_min_arm_size :: int
  st_feedback_use_in_context :: bool
  st_feedback_min_rows_per_cycle :: nat

text \<open>The resident churn scorer as the stage sees it: rows in, the risks and the neutralized risks out.\<close>

record scorer =
  sco_model_name :: string
  sco_device :: string
  sco_context_row_count :: int
  sco_predict_with_neutral ::
    "(string \<times> string \<times> (string \<times> scorer_value) list) list \<Rightarrow> (string \<times> scorer_value) list \<Rightarrow>
     (pyfloat list \<times> pyfloat list) result"

record externals =
  x_sha256_hex :: "string \<Rightarrow> string"
  x_hmac_hex :: "string \<Rightarrow> string \<Rightarrow> string"
  x_hmac :: hmac
  x_repr :: "json \<Rightarrow> string"
  x_float_repr :: "pyfloat \<Rightarrow> string"
  x_fromisoformat :: "string \<Rightarrow> py_datetime option"
  x_isoformat :: "py_datetime \<Rightarrow> string"
  x_date :: "instant \<Rightarrow> string"
  x_half_pow :: "pyfloat \<Rightarrow> pyfloat"
  x_tabpfn_classifier :: classifier
  x_forest_classifier :: classifier
  x_tabpfn_regressor :: regressor
  x_forest_regressor :: regressor
  x_rng :: "int \<Rightarrow> int"
  x_sample :: "int \<Rightarrow> labeled_example list \<Rightarrow> nat \<Rightarrow> labeled_example list \<times> int"
  x_feed_loader :: "feed_settings \<Rightarrow> (json \<times> string) result"
  x_validate_item :: "(string \<times> json) list \<Rightarrow> feed_item result"
  x_load_mapping :: "string \<Rightarrow> scorer_mapping result"
  x_scorer :: "scorer option"
  x_narrator :: "(string \<Rightarrow> string \<Rightarrow> string result) option"

record pick =
  pk_arm :: arm
  pk_top :: ranked_candidate
  pk_runner_up :: "ranked_candidate option"
  pk_candidate_ids :: "string list"
  pk_rank :: "nat option"
  pk_policy :: policy_decision
  pk_group_id :: "string option"
  pk_members :: "string list"

record run =
  ru_tenant_id :: string
  ru_run_id :: string
  ru_now :: instant
  ru_tenant :: tenant_record
  ru_events :: "canonical_event list"
  ru_events_by_user :: "(string \<times> canonical_event list) list"
  ru_users :: "string list"
  ru_attributes :: "(string \<times> (string \<times> json) list) list"
  ru_signal_of :: "(string \<times> external_signal option) list"
  ru_snapshots :: "(string \<times> circle_snapshot) list"
  ru_circles :: "circle list"
  ru_features :: "(string \<times> features) list"
  ru_risk :: "(string \<times> risk_score) list"
  ru_impact :: "(string \<times> impact_score_rec) list"
  ru_segments :: "(string \<times> impact_segment) list"
  ru_business_value :: "(string \<times> int) list"
  ru_labeled :: "labeled_example list"
  ru_incentives :: "(string \<times> incentive) list"
  ru_candidates :: "candidate list"
  ru_decisions :: "(string \<times> policy_decision) list"
  ru_user_facts :: "(string \<times> user_facts) list"
  ru_exclusions :: "(string \<times> exclusion_reason) list"
  ru_ranked :: "ranked_candidate list"
  ru_rank_context_rows :: nat
  ru_allocation :: "allocation_result option"
  ru_arms :: "(string \<times> arm) list"
  ru_picks :: "pick list"
  ru_narrations :: "(string \<times> string \<times> string) list"
  ru_recommendation_ids :: "string list"

type_synonym detail = "(string \<times> json) list"
type_synonym 'a effect = "memory_store \<Rightarrow> 'a result \<times> memory_store"
type_synonym stage = "externals \<Rightarrow> settings \<Rightarrow> run \<Rightarrow> (run \<times> detail) effect"

text \<open>Sequencing, and the pure computations and store updates in it.\<close>

definition bind_effect :: "'a effect \<Rightarrow> ('a \<Rightarrow> 'b effect) \<Rightarrow> 'b effect" where
  "bind_effect m f s = (case m s of (Inl e, s') \<Rightarrow> (Inl e, s') | (Inr x, s') \<Rightarrow> f x s')"

definition pure :: "'a result \<Rightarrow> 'a effect" where "pure r s = (r, s)"

definition modify :: "(memory_store \<Rightarrow> memory_store) \<Rightarrow> unit effect" where "modify f s = (Inr (), f s)"

definition read :: "(memory_store \<Rightarrow> 'a) \<Rightarrow> 'a effect" where "read f s = (Inr (f s), s)"

text \<open>\<open>d[k]\<close>, and \<open>f"{prefix}-" + sha256("|".join(parts))[:16]\<close>.\<close>

definition look :: "(string \<times> 'a) list \<Rightarrow> string \<Rightarrow> 'a result" where
  "look d k = (case map_of d k of None \<Rightarrow> Inl (KeyError k) | Some v \<Rightarrow> Inr v)"

definition id_of :: "externals \<Rightarrow> string \<Rightarrow> string list \<Rightarrow> string" where
  "id_of x pre parts = pre @ ''-'' @ take 16 (x_sha256_hex x (join ''|'' parts))"

definition nat_json :: "nat \<Rightarrow> json" where "nat_json n = JInt (int n)"

text \<open>\<open>counts[key] += 1\<close> over the keys.\<close>

definition count_json :: "string list \<Rightarrow> json" where
  "count_json ks = JDict (map (\<lambda>(k, n). (k, JInt n)) (tally [] (map (\<lambda>k. (k, 1)) ks)))"

section \<open>INGEST\<close>

text \<open>The loop over one claimed batch: the events in order, and the two counters.\<close>

fun ingest_batch ::
  "externals \<Rightarrow> string \<Rightarrow> tenant_mapping_config \<Rightarrow> string \<Rightarrow> raw_event_record list \<Rightarrow> canonical_event list \<Rightarrow>
   int \<Rightarrow> int \<Rightarrow> (canonical_event list \<times> int \<times> int) effect" where
  "ingest_batch x tid config secret [] canonical processed unmapped s = (Inr (canonical, processed, unmapped), s)"
| "ingest_batch x tid config secret (raw # batch) canonical processed unmapped s =
     (case normalize (x_hmac_hex x) (x_repr x) (x_fromisoformat x) tid (re_body raw) config secret of
        Inl (MappingError m) \<Rightarrow>
          ingest_batch x tid config secret batch canonical processed (unmapped + 1)
            (mark_raw_event tid (re_raw_event_id raw) ''UNMAPPED'' (Some m) s)
      | Inl e \<Rightarrow> (Inl e, s)
      | Inr event \<Rightarrow>
          let s1 = (if e_attributes event \<noteq> []
                    then upsert_user_attributes tid (e_user_pseudonym event) (e_attributes event) s else s);
              s2 = mark_raw_event tid (re_raw_event_id raw) ''PROCESSED'' None s1
          in ingest_batch x tid config secret batch (canonical @ [event]) (processed + 1) unmapped s2)"

text \<open>The NEW events of a tenant, which every round of the loop makes fewer.\<close>

definition new_events :: "string \<Rightarrow> memory_store \<Rightarrow> raw_event_record list" where
  "new_events tid s = filter (\<lambda>r. re_status r = ''NEW'') (bucket_of (ms_raw_events s) tid)"

lemma new_events_mark:
  assumes "status \<noteq> ''NEW''"
  shows "new_events tid (mark_raw_event tid i status err s) = filter (\<lambda>r. re_raw_event_id r \<noteq> i) (new_events tid s)"
proof -
  have "filter (\<lambda>r. re_status r = ''NEW'') (map (\<lambda>r. if re_raw_event_id r = i then r\<lparr>re_status := status, re_error := err\<rparr> else r) rs)
    = filter (\<lambda>r. re_raw_event_id r \<noteq> i) (filter (\<lambda>r. re_status r = ''NEW'') rs)" for rs
    using assms by (induction rs) auto
  then show ?thesis by (simp add: new_events_def mark_raw_event_def)
qed

lemma new_events_upsert [simp]: "new_events tid (upsert_user_attributes t u a s) = new_events tid s"
  by (simp add: new_events_def upsert_user_attributes_def Let_def)

lemma new_events_save [simp]: "new_events tid (snd (save_canonical_events t es s)) = new_events tid s"
  by (simp add: new_events_def save_canonical_events_def Let_def split: prod.splits)

lemma saved_same_new: "(r, s') = save_canonical_events t es s \<Longrightarrow> \<forall>tid. new_events tid s' = new_events tid s"
  by (metis new_events_save snd_conv)

lemma ingest_batch_new:
  assumes "ingest_batch x tid config secret batch can p u s = (Inr r, s')"
  shows "new_events tid s' = filter (\<lambda>r. re_raw_event_id r \<notin> re_raw_event_id ` set batch) (new_events tid s)"
  using assms
proof (induction batch arbitrary: can p u s)
  case (Cons raw batch)
  then show ?case
    by (auto simp: new_events_mark Let_def split: sum.splits exn.splits intro: filter_cong)
qed simp

lemma claim_sub: "set (claim_raw_events tid n s) \<subseteq> set (new_events tid s)"
  by (auto simp: claim_raw_events_def py_take_def new_events_def dest: in_set_takeD)

lemma ingest_round_less:
  assumes "claim_raw_events tid n s \<noteq> []"
    and "ingest_batch x tid config secret (claim_raw_events tid n s) can p u s = (Inr r, s')"
  shows "length (new_events tid s') < length (new_events tid s)"
proof -
  let ?c = "claim_raw_events tid n s"
  obtain raw where raw: "raw \<in> set ?c" using assms(1) by (cases ?c) auto
  then have "raw \<in> set (new_events tid s)" using claim_sub by blast
  moreover have "\<not> re_raw_event_id raw \<notin> re_raw_event_id ` set ?c" using raw by blast
  ultimately show ?thesis
    unfolding ingest_batch_new [OF assms(2)] by (intro length_filter_less)
qed

text \<open>\<open>while True\<close>: claim a batch, normalize it, save what was normalized; until nothing is claimed.\<close>

function ingest_loop ::
  "externals \<Rightarrow> settings \<Rightarrow> string \<Rightarrow> tenant_mapping_config \<Rightarrow> int \<Rightarrow> int \<Rightarrow> (int \<times> int) effect" where
  "ingest_loop x st tid config processed unmapped s =
     (let batch = claim_raw_events tid (st_worker_batch_size st) s in
      if batch = [] then (Inr (processed, unmapped), s)
      else case ingest_batch x tid config (st_pseudonym_hmac_secret st) batch [] processed unmapped s of
          (Inl e, s1) \<Rightarrow> (Inl e, s1)
        | (Inr (canonical, p, u), s1) \<Rightarrow>
            (case save_canonical_events tid canonical s1 of
               (Inl e, s2) \<Rightarrow> (Inl e, s2)
             | (Inr n, s2) \<Rightarrow> ingest_loop x st tid config p u s2))"
  by pat_completeness auto
termination
  by (relation "measure (\<lambda>(x, st, tid, config, p, u, s). length (new_events tid s))")
     (auto dest!: ingest_round_less [OF _ sym] saved_same_new)

declare ingest_loop.simps [simp del]

definition ingest_stage :: stage where
  "ingest_stage x st run =
     bind_effect (pure (make_config (tr_mapping (ru_tenant run)))) (\<lambda>config.
     bind_effect (ingest_loop x st (ru_tenant_id run) config 0 0) (\<lambda>(processed, unmapped).
     bind_effect (read (\<lambda>s. (load_canonical_events (ru_tenant_id run)
         (ru_now run - timedelta_days (st_graph_lookback_days st + st_activity_window_days st)) s,
         load_user_attributes (ru_tenant_id run) s))) (\<lambda>(loaded, attributes).
     let events = filter (\<lambda>e. e_occurred_at e \<le> ru_now run) loaded;
         by_user = group_by e_user_pseudonym events;
         users = sort (map fst by_user)
     in pure (Inr (run\<lparr>ru_events := events, ru_events_by_user := by_user, ru_users := users, ru_attributes := attributes\<rparr>,
               [(''processed'', JInt processed), (''unmapped'', JInt unmapped), (''users_in_window'', nat_json (length users))])))))"

section \<open>FEEDBACK\<close>

definition float_json :: "pyfloat option \<Rightarrow> json" where
  "float_json v = (case v of None \<Rightarrow> JNull | Some x \<Rightarrow> JFloat x)"

definition summary_json :: "feedback_summary \<Rightarrow> json" where
  "summary_json b = JDict
     [(''new_labeled_examples'', nat_json (fb_new_labeled_examples b)),
      (''total_labeled_examples'', nat_json (fb_total_labeled_examples b)),
      (''meets_min_rows_per_cycle'', JBool (fb_meets_min_rows_per_cycle b)),
      (''used_in_next_context'', JBool (fb_used_in_next_context b)),
      (''synthetic_data'', JBool (fb_synthetic_data b))]"

definition block_json :: "(pyfloat \<times> pyfloat option) option \<Rightarrow> json" where
  "block_json b = (case b of None \<Rightarrow> JNull
     | Some (absolute, relative) \<Rightarrow> JDict [(''absolute'', JFloat absolute), (''relative'', float_json relative)])"

definition lift_json :: "lift_report \<Rightarrow> json" where
  "lift_json r = JDict
     [(''arms'', JDict (map (\<lambda>(a, b). (arm_value a, JDict
          [(''n'', JInt (as_n b)), (''retained'', JInt (as_retained b)),
           (''retention_rate'', float_json (as_retention_rate b)), (''spend_idr'', JInt (as_spend_idr b))])) (lr_arms r))),
      (''lift_vs_control'', float_json (lr_vs_control r)),
      (''lift_vs_naive'', float_json (lr_vs_naive r)),
      (''naive_lift_vs_control'', float_json (lr_naive_vs_control r)),
      (''incremental_retained_users_per_idr'', float_json (lr_incremental_per_idr r)),
      (''lift'', JDict [(''engine_vs_control'', block_json (lr_engine_vs_control r)),
                        (''engine_vs_naive'', block_json (lr_engine_vs_naive r)),
                        (''incremental_value_per_idr'', JDict
                           [(''NAIVE'', float_json (lr_value_per_idr_naive r)),
                            (''ENGINE'', float_json (lr_value_per_idr_engine r))])]),
      (''min_arm_size'', JInt (lr_min_arm_size r)),
      (''synthetic_data'', JBool (lr_synthetic_data r))]"

definition ingest_outcomes :: "settings \<Rightarrow> string \<Rightarrow> detail effect" where
  "ingest_outcomes st tid s =
     (let outcomes = load_outcomes tid s;
          existing = map example_key (load_labeled_examples tid s);
          new = to_labeled_examples outcomes (load_feature_snapshots tid s) existing;
          s1 = (if st_feedback_use_in_context st then save_labeled_examples new s else s);
          total_rows = length (load_labeled_examples tid s1);
          summary = summarize new total_rows (st_feedback_min_rows_per_cycle st) (st_feedback_use_in_context st)
      in case compute_lift (map EventRow outcomes) (st_measurement_min_arm_size st) of
           Inl e \<Rightarrow> (Inl e, s1)
         | Inr lift \<Rightarrow> (Inr [(''feedback'', summary_json summary), (''lift'', lift_json lift)], s1))"

definition feedback_stage :: stage where
  "feedback_stage x st run =
     bind_effect (ingest_outcomes st (ru_tenant_id run)) (\<lambda>d. pure (Inr (run, d)))"

section \<open>EXTERNAL\<close>

text \<open>A feed item is a dict that pydantic validates; anything else has no \<open>scope_type\<close>.\<close>

definition item_signal :: "externals \<Rightarrow> json \<Rightarrow> external_signal result" where
  "item_signal x item = (case item of
       JDict d \<Rightarrow> bind_result (x_validate_item x d) (to_signal (x_sha256_hex x) (x_isoformat x))
     | _ \<Rightarrow> Inl (RuntimeError ''AttributeError: no attribute scope_type''))"

fun signals_of :: "externals \<Rightarrow> json list \<Rightarrow> external_signal list \<Rightarrow> int \<Rightarrow> (external_signal list \<times> int) result" where
  "signals_of x [] signals rejected = Inr (signals, rejected)"
| "signals_of x (item # items) signals rejected =
     (case item_signal x item of
        Inr sig \<Rightarrow> signals_of x items (signals @ [sig]) rejected
      | Inl (ValueError m) \<Rightarrow> signals_of x items signals (rejected + 1)
      | Inl (ValidationError m) \<Rightarrow> signals_of x items signals (rejected + 1)
      | Inl e \<Rightarrow> Inl e)"

text \<open>An attribute used as a scope key: one that is no string equals no scope key.\<close>

definition text_attr :: "(string \<times> (string \<times> json) list) list \<Rightarrow> string \<Rightarrow> string \<Rightarrow> string option" where
  "text_attr attributes user k = (case map_of (dict_get attributes user []) k of Some (JStr v) \<Rightarrow> Some v | _ \<Rightarrow> None)"

definition external_stage :: stage where
  "external_stage x st run =
     bind_effect (pure (x_feed_loader x (st_feed st))) (\<lambda>(items, source).
     bind_effect (pure (bind_result (iter_json items) (\<lambda>xs. signals_of x xs [] 0))) (\<lambda>(signals, rejected).
     bind_effect (modify (save_external_signals signals)) (\<lambda>_.
     let signal_of = map (\<lambda>u. (u, resolve_for_user signals (tr_slug (ru_tenant run))
             (text_attr (ru_attributes run) u ''region_code'') (text_attr (ru_attributes run) u ''cohort_key'')
             (ru_now run) (st_external_signal_max_age_days st))) (ru_users run);
         attached = length (filter (\<lambda>(u, v). v \<noteq> None) signal_of)
     in pure (Inr (run\<lparr>ru_signal_of := signal_of\<rparr>,
          [(''source'', JStr source), (''signals'', nat_json (length signals)), (''rejected'', JInt rejected),
           (''users_with_signal'', nat_json attached)])))))"

section \<open>GRAPH\<close>

text \<open>A cohort key as the text that stands for it: equal scalars (also \<open>1\<close>, \<open>1.0\<close> and \<open>True\<close>) have equal text.\<close>

fun group_key :: "json \<Rightarrow> string" where
  "group_key (JStr v) = ''s:'' @ v"
| "group_key (JInt n) = ''n:'' @ show_int n @ ''/1''"
| "group_key (JBool b) = ''n:'' @ (if b then ''1'' else ''0'') @ ''/1''"
| "group_key (JFloat v) = ''n:'' @ show_int (fst (quotient_of v)) @ ''/'' @ show_int (snd (quotient_of v))"
| "group_key _ = ''other''"

definition opt_get :: "(string \<times> 'a option) list \<Rightarrow> string \<Rightarrow> 'a option" where
  "opt_get d k = (case map_of d k of None \<Rightarrow> None | Some v \<Rightarrow> v)"

definition cohorts_of :: "run \<Rightarrow> (string \<times> string) list" where
  "cohorts_of run = concat (map (\<lambda>u. case map_of (dict_get (ru_attributes run) u []) ''cohort_key'' of
       None \<Rightarrow> [] | Some v \<Rightarrow> [(u, group_key v)]) (ru_users run))"

definition signal_values :: "run \<Rightarrow> (string \<times> pyfloat) list" where
  "signal_values run = concat (map (\<lambda>(u, v). case v of None \<Rightarrow> [] | Some sig \<Rightarrow> [(u, s_value sig)]) (ru_signal_of run))"

definition graph_stage :: stage where
  "graph_stage x st run =
     (if py_upper (tr_profile_type (ru_tenant run)) \<notin> set (st_graph_profiles st)
      then pure (Inr (run\<lparr>ru_snapshots := map (\<lambda>u. (u, empty_snapshot u)) (ru_users run)\<rparr>,
             [(''skipped'', JBool True),
              (''reason'', JStr (''profile '' @ tr_profile_type (ru_tenant run) @ '' not in graph profiles''))]))
      else
        bind_effect (pure (snapshot_users (x_half_pow x) (ru_events run) (ru_users run) (ru_now run)
            (st_graph_lookback_days st) (st_activity_window_days st) (st_edge_decay_halflife_days st)
            (st_min_edge_interactions st) (cohorts_of run) (signal_values run)
            (st_pattern_dip_threshold st) (st_pattern_cohort_dip_threshold st))) (\<lambda>(edges, snapshots).
        bind_effect (pure (case find_circles (x_sha256_hex x) edges (st_circle_min_size st) of
            None \<Rightarrow> Inl (RuntimeError ''find does not return'') | Some cs \<Rightarrow> Inr cs)) (\<lambda>circles.
        bind_effect (modify (save_circles (ru_tenant_id run) (map snd snapshots) circles)) (\<lambda>_.
        pure (Inr (run\<lparr>ru_snapshots := snapshots, ru_circles := circles\<rparr>,
          [(''edges'', nat_json (length edges)), (''circles'', nat_json (length circles)),
           (''patterns'', count_json (map (\<lambda>(u, c). pattern_value (cs_pattern_type c)) snapshots))]))))))"

section \<open>RISK\<close>

definition MODEL_HEURISTIC :: string where "MODEL_HEURISTIC = ''HEURISTIC_NO_CONTEXT''"

definition heuristic_risk :: "features \<Rightarrow> pyfloat" where
  "heuristic_risk f =
     (let recency = min (fdiv (dict_get f ''recency_days'' 0) 30) 1;
          dip = min (max (- dict_get f ''delta_stability'' 0) 0) 1;
          quiet = fsub 1 (min (fdiv (dict_get f ''frequency_30d'' 0) 10) 1)
      in py_round (fadd (fadd (fmul (1 / 2) recency) (fmul (fl (3 / 10)) dip)) (fmul (fl (1 / 5)) quiet)) 4)"

definition plain_risk :: "string \<Rightarrow> pyfloat \<Rightarrow> string \<Rightarrow> int \<Rightarrow> risk_score" where
  "plain_risk user risk model n = \<lparr>rs_user_pseudonym = user, rs_churn_risk = risk, rs_model = model,
     rs_context_row_count = n, rs_external_signal_id = None, rs_external_signal_contribution = 0\<rparr>"

text \<open>The features and the business value of every user, before anything is scored.\<close>

definition user_features :: "run \<Rightarrow> string \<Rightarrow> (string \<times> features) result" where
  "user_features run user =
     bind_result (look (ru_events_by_user run) user) (\<lambda>events.
     Inr (user, build_features events (map_of (ru_snapshots run) user) (opt_get (ru_signal_of run) user) (ru_now run)))"

definition value_of :: "settings \<Rightarrow> features \<Rightarrow> int" where
  "value_of st f = py_int (fmul (dict_get f ''monetary_30d_idr'' 0) (float_of_int (st_business_value_months st)))"

definition scorer_features_of :: "scorer_mapping \<Rightarrow> run \<Rightarrow> string \<Rightarrow> (string \<times> (string \<times> scorer_value) list) result" where
  "scorer_features_of mapping run user =
     bind_result (look (ru_events_by_user run) user) (\<lambda>events.
     bind_result (look (ru_business_value run) user) (\<lambda>v.
     Inr (user, build_snapshot_features events (ru_now run) (map_of (ru_attributes run) user)
            (opt_get (ru_signal_of run) user) (tr_profile_type (ru_tenant run)) v mapping)))"

text \<open>The score of user number \<open>i\<close>: the share of the external signal is the difference to the neutral row.\<close>

definition trained_risk :: "scorer \<Rightarrow> run \<Rightarrow> pyfloat list \<Rightarrow> pyfloat list \<Rightarrow> nat \<times> string \<Rightarrow> (string \<times> risk_score) result" where
  "trained_risk scorer run risk neutral iu = (case iu of (i, user) \<Rightarrow>
     bind_result (case opt_get (ru_signal_of run) user of
         None \<Rightarrow> Inr (None, 0)
       | Some sig \<Rightarrow> bind_result (py_nth risk i) (\<lambda>r. bind_result (py_nth neutral i) (\<lambda>n.
             Inr (Some (s_signal_id sig), fsub r n)))) (\<lambda>(sid, share).
     bind_result (py_nth risk i) (\<lambda>r.
     Inr (user, \<lparr>rs_user_pseudonym = user, rs_churn_risk = r, rs_model = sco_model_name scorer,
        rs_context_row_count = sco_context_row_count scorer, rs_external_signal_id = sid,
        rs_external_signal_contribution = share\<rparr>))))"

definition risk_trained :: stage where
  "risk_trained x st run =
     (case x_scorer x of
        None \<Rightarrow> pure (Inl (ChurnScorerUnavailable ''CHURN_SCORER_ENABLED=true but no trained scorer was loaded''))
      | Some scorer \<Rightarrow>
          bind_effect (pure (x_load_mapping x (st_churn_scorer_mapping_path st))) (\<lambda>mapping.
          bind_effect (pure (map_result (scorer_features_of mapping run) (ru_users run))) (\<lambda>feats.
          if ru_users run = []
          then pure (Inr (run, [(''model'', JStr (sco_model_name scorer)), (''device'', JStr (sco_device scorer)), (''scored'', JInt 0)]))
          else
            bind_effect (pure (sco_predict_with_neutral scorer (map (\<lambda>(u, f). (u, x_date x (ru_now run), f)) feats)
                NEUTRAL_SIGNAL)) (\<lambda>(risk, neutral).
            bind_effect (pure (map_result (trained_risk scorer run risk neutral) (enumerate 0 (ru_users run)))) (\<lambda>scores.
            bind_effect (modify (save_risk_scores (ru_tenant_id run) (map snd scores))) (\<lambda>_.
            pure (Inr (run\<lparr>ru_risk := scores\<rparr>,
              [(''model'', JStr (sco_model_name scorer)), (''device'', JStr (sco_device scorer)),
               (''context_rows'', JInt (sco_context_row_count scorer)), (''scored'', nat_json (length scores)),
               (''users_with_signal_attribution'',
                  nat_json (length (filter (\<lambda>u. opt_get (ru_signal_of run) u \<noteq> None) (ru_users run))))]))))))))"

text \<open>The attribution of the in-context path: one model call over the rows with a signal and their neutral copies.\<close>

definition with_contribution ::
  "run \<Rightarrow> (string \<times> risk_score) list \<Rightarrow> string \<times> pyfloat \<Rightarrow> (string \<times> risk_score) list result" where
  "with_contribution run risk uc = (case uc of (user, share) \<Rightarrow>
     bind_result (look risk user) (\<lambda>r.
     Inr (AList.update user (r\<lparr>rs_external_signal_id := map_option s_signal_id (opt_get (ru_signal_of run) user),
                               rs_external_signal_contribution := share\<rparr>) risk)))"

fun fold_result :: "('a \<Rightarrow> 'b \<Rightarrow> 'a result) \<Rightarrow> 'a \<Rightarrow> 'b list \<Rightarrow> 'a result" where
  "fold_result f a [] = Inr a"
| "fold_result f a (b # bs) = bind_result (f a b) (\<lambda>a'. fold_result f a' bs)"

definition attributed_risk ::
  "externals \<Rightarrow> settings \<Rightarrow> run \<Rightarrow> pyfloat list list \<Rightarrow> int list \<Rightarrow> (string \<times> risk_score) list \<Rightarrow>
   (string \<times> risk_score) list result" where
  "attributed_risk x st run context_X context_y risk =
     (let with_signal = filter (\<lambda>u. opt_get (ru_signal_of run) u \<noteq> None) (ru_users run);
          score_fn = (\<lambda>cX cy q. bind_result (predict_positive (x_tabpfn_classifier x) (x_forest_classifier x) cX cy q
                        (st_tabpfn_seed st) (st_tabpfn_enabled st)) (\<lambda>(ps, model). Inr ps))
      in if with_signal = [] then Inr risk
         else
           bind_result (map_result (\<lambda>u. bind_result (look (ru_features run) u) (\<lambda>f. Inr (to_row f))) with_signal) (\<lambda>rows.
           bind_result (contributions score_fn context_X context_y rows ''external_signal_value'') (\<lambda>contribs.
           fold_result (with_contribution run) risk (zip with_signal contribs))))"

definition risk_in_context :: stage where
  "risk_in_context x st run =
     (case select_context (x_sample x) (x_rng x) (ru_labeled run) (st_tabpfn_max_context_rows st)
             (st_risk_min_context_rows st) (st_tabpfn_seed st) of
        Inl (ContextTooSmall reason) \<Rightarrow>
          bind_effect (pure (map_result (\<lambda>u. bind_result (look (ru_features run) u) (\<lambda>f.
              Inr (u, plain_risk u (heuristic_risk f) MODEL_HEURISTIC (int (length (ru_labeled run)))))) (ru_users run))) (\<lambda>risk.
          bind_effect (modify (save_risk_scores (ru_tenant_id run) (map snd risk))) (\<lambda>_.
          pure (Inr (run\<lparr>ru_risk := risk\<rparr>,
            [(''model'', JStr MODEL_HEURISTIC), (''reason'', JStr reason), (''scored'', nat_json (length risk))]))))
      | Inl e \<Rightarrow> pure (Inl e)
      | Inr (context_X, context_y) \<Rightarrow>
          bind_effect (pure (map_result (\<lambda>u. bind_result (look (ru_features run) u) (\<lambda>f. Inr (to_row f))) (ru_users run))) (\<lambda>rows.
          bind_effect (pure (score (x_tabpfn_classifier x) (x_forest_classifier x) context_X context_y rows (st_tabpfn_seed st)
              (Some (ru_users run)) (st_tabpfn_enabled st))) (\<lambda>scores.
          let risk0 = foldl (\<lambda>d r. AList.update (rs_user_pseudonym r) r d) [] scores in
          bind_effect (pure (attributed_risk x st run context_X context_y risk0)) (\<lambda>risk.
          bind_effect (modify (save_risk_scores (ru_tenant_id run) (map snd risk))) (\<lambda>_.
          pure (Inr (run\<lparr>ru_risk := risk\<rparr>,
            [(''model'', case scores of [] \<Rightarrow> JNull | r # _ \<Rightarrow> JStr (rs_model r)),
             (''context_rows'', nat_json (length context_X)), (''scored'', nat_json (length risk))])))))))"

definition risk_stage :: stage where
  "risk_stage x st run =
     bind_effect (read (load_labeled_examples (ru_tenant_id run))) (\<lambda>labeled.
     bind_effect (pure (map_result (user_features run) (ru_users run))) (\<lambda>feats.
     let run1 = run\<lparr>ru_labeled := labeled, ru_features := feats,
                    ru_business_value := map (\<lambda>(u, f). (u, value_of st f)) feats\<rparr>
     in if st_churn_scorer_enabled st then risk_trained x st run1 else risk_in_context x st run1))"

section \<open>IMPACT\<close>

definition impact_stage :: stage where
  "impact_stage x st run =
     (let treated = filter le_treated (ru_labeled run);
          control = filter (\<lambda>e. \<not> le_treated e) (ru_labeled run)
      in bind_effect (pure (map_result (look (ru_features run)) (ru_users run))) (\<lambda>feats.
         case estimate_batch (x_tabpfn_classifier x) (x_forest_classifier x) treated control feats
                (st_impact_seed st) (st_impact_min_train_rows st) (st_tabpfn_enabled st) of
           Inl (ContextTooSmall reason) \<Rightarrow> pure (Inr (run, [(''available'', JBool False), (''reason'', JStr reason)]))
         | Inl e \<Rightarrow> pure (Inl e)
         | Inr scores \<Rightarrow>
             let impact = zip (ru_users run) scores;
                 segments = map (\<lambda>(u, i). (u, segment i (st_impact_threshold st) (st_impact_sure_thing_p st))) impact
             in bind_effect (modify (save_impact_scores (ru_tenant_id run) impact)) (\<lambda>_.
                pure (Inr (run\<lparr>ru_impact := impact, ru_segments := segments\<rparr>,
                  [(''available'', JBool True),
                   (''model'', case scores of [] \<Rightarrow> JNull | i # _ \<Rightarrow> JStr (is_model i)),
                   (''treated_rows'', nat_json (length treated)), (''control_rows'', nat_json (length control)),
                   (''segments'', count_json (map (\<lambda>(u, g). segment_value g) segments))])))))"

section \<open>POLICY\<close>

definition policy_config_of :: "settings \<Rightarrow> bool \<Rightarrow> policy_config" where
  "policy_config_of st apply_segment_rule =
     \<lparr>pc_lookback_days = st_responsible_lending_lookback_days st,
      pc_min_late_events = st_responsible_lending_min_late_events st,
      pc_max_contacts = st_frequency_cap_max_contacts st,
      pc_window_days = st_frequency_cap_window_days st,
      pc_apply_segment_rule = apply_segment_rule\<rparr>"

text \<open>\<open>ExclusionReason(f"POLICY_{...}")\<close> and \<open>ExclusionReason(f"SEGMENT_{...}")\<close>; a text that is no member
  is a \<open>ValueError\<close>.\<close>

fun policy_reason :: "rule_code \<Rightarrow> exclusion_reason result" where
  "policy_reason RESPONSIBLE_LENDING = Inr POLICY_RESPONSIBLE_LENDING"
| "policy_reason FREQUENCY_CAP = Inr POLICY_FREQUENCY_CAP"
| "policy_reason NO_CREDIT_DECISION = Inr POLICY_NO_CREDIT_DECISION"
| "policy_reason SEGMENT_EXCLUDED = Inl (ValueError ''POLICY_SEGMENT_EXCLUDED is not a valid ExclusionReason'')"

fun segment_reason :: "impact_segment \<Rightarrow> exclusion_reason result" where
  "segment_reason SURE_THING = Inr SEGMENT_SURE_THING"
| "segment_reason LOST_CAUSE = Inr SEGMENT_LOST_CAUSE"
| "segment_reason SLEEPING_DOG = Inr SEGMENT_SLEEPING_DOG"
| "segment_reason PERSUADABLE = Inl (ValueError ''SEGMENT_PERSUADABLE is not a valid ExclusionReason'')"

definition exclusion_for :: "policy_decision \<Rightarrow> impact_segment \<Rightarrow> exclusion_reason result" where
  "exclusion_for decision seg =
     (case filter (\<lambda>d. rr_rule_code d \<noteq> SEGMENT_EXCLUDED) (denials decision) of
        d # _ \<Rightarrow> policy_reason (rr_rule_code d)
      | [] \<Rightarrow> segment_reason seg)"

definition group_text :: "string option \<Rightarrow> string" where
  "group_text g = (case g of None \<Rightarrow> [] | Some t \<Rightarrow> t)"

definition candidate_of :: "externals \<Rightarrow> run \<Rightarrow> string \<Rightarrow> incentive \<Rightarrow> string option \<Rightarrow> candidate result" where
  "candidate_of x run user inc group_id =
     bind_result (look (ru_business_value run) user) (\<lambda>value.
     bind_result (look (ru_risk run) user) (\<lambda>risk.
     bind_result (look (ru_impact run) user) (\<lambda>impact.
     bind_result (look (ru_segments run) user) (\<lambda>seg.
     bind_result (look (ru_snapshots run) user) (\<lambda>snap.
     Inr \<lparr>c_candidate_id = id_of x ''cand'' [ru_run_id run, user, in_code inc, group_text group_id],
          c_tenant_id = ru_tenant_id run, c_user_pseudonym = user, c_incentive_code = in_code inc,
          c_cost_idr = in_cost_idr inc, c_business_value_idr = value,
          c_encourages_borrowing = in_encourages_borrowing inc, c_changes_credit_terms = in_changes_credit_terms inc,
          c_group_id = group_id, c_churn_risk = rs_churn_risk risk, c_impact_score = impact_score impact,
          c_segment = seg, c_pattern_type = cs_pattern_type snap\<rparr>)))))"

definition applicable :: "run \<Rightarrow> incentive \<Rightarrow> bool" where
  "applicable run i \<longleftrightarrow> in_applicable_profile_types i = []
     \<or> py_upper (tr_profile_type (ru_tenant run)) \<in> set (map py_upper (in_applicable_profile_types i))"

definition scored_users :: "run \<Rightarrow> string list" where
  "scored_users run = filter (\<lambda>u. map_of (ru_impact run) u \<noteq> None) (ru_users run)"

text \<open>The candidates (the run starts with none): each scored user with each individual incentive, then each large enough circle of
  scored members with each group incentive.\<close>

definition circle_members :: "run \<Rightarrow> circle \<Rightarrow> string list" where
  "circle_members run c = filter (\<lambda>m. map_of (ru_impact run) m \<noteq> None) (ci_members c)"

definition candidate_keys :: "settings \<Rightarrow> run \<Rightarrow> incentive list \<Rightarrow> (string \<times> incentive \<times> string option) list" where
  "candidate_keys st run incentives =
     concat (map (\<lambda>u. map (\<lambda>i. (u, i, None)) (filter (\<lambda>i. \<not> in_is_group i) incentives)) (scored_users run))
   @ concat (map (\<lambda>c. if length (circle_members run c) < st_circle_min_size st then []
         else concat (map (\<lambda>i. map (\<lambda>m. (m, i, Some (ci_circle_id c))) (circle_members run c))
                        (filter in_is_group incentives))) (ru_circles run))"

definition facts_of :: "run \<Rightarrow> (string \<times> instant list) list \<Rightarrow> string \<Rightarrow> user_facts" where
  "facts_of run contacts user =
     \<lparr>uf_user_pseudonym = user, uf_now = ru_now run,
      uf_late_repayment_at = map e_occurred_at
        (filter (\<lambda>e. e_event_type e = LOAN_REPAYMENT_LATE \<and> e_user_pseudonym e = user) (ru_events run)),
      uf_contacted_at = dict_get contacts user []\<rparr>"

text \<open>The loop that decides every candidate.\<close>

fun decide_loop ::
  "policy_config \<Rightarrow> (string \<times> user_facts) list \<Rightarrow> candidate list \<Rightarrow> (string \<times> policy_decision) list \<Rightarrow>
   (string \<times> exclusion_reason) list \<Rightarrow> ((string \<times> policy_decision) list \<times> (string \<times> exclusion_reason) list) result" where
  "decide_loop config facts [] decisions exclusions = Inr (decisions, exclusions)"
| "decide_loop config facts (c # cs) decisions exclusions =
     bind_result (look facts (c_user_pseudonym c)) (\<lambda>f.
       let decision = evaluate c f config;
           decisions' = AList.update (c_candidate_id c) decision decisions
       in if decision_allowed decision then decide_loop config facts cs decisions' exclusions
          else bind_result (exclusion_for decision (c_segment c)) (\<lambda>r.
                 decide_loop config facts cs decisions' (AList.update (c_candidate_id c) r exclusions)))"

text \<open>A bundle with a denied member is denied as a whole.\<close>

definition is_group_candidate :: "candidate \<Rightarrow> bool" where
  "is_group_candidate c \<longleftrightarrow> group_text (c_group_id c) \<noteq> []"

definition policy_bundles :: "candidate list \<Rightarrow> ((string \<times> string) \<times> candidate list) list" where
  "policy_bundles cands =
     group_by (\<lambda>c. (group_text (c_group_id c), c_incentive_code c)) (filter is_group_candidate cands)"

definition deny_bundle :: "(string \<times> exclusion_reason) list \<Rightarrow> candidate list \<Rightarrow> (string \<times> exclusion_reason) list" where
  "deny_bundle exclusions members =
     (if list_ex (\<lambda>m. map_of exclusions (c_candidate_id m) \<noteq> None) members
      then foldl (\<lambda>ex m. dict_setdefault (c_candidate_id m) GROUP_MEMBER_DENIED ex) exclusions members
      else exclusions)"

definition policy_stage :: stage where
  "policy_stage x st run =
     bind_effect (read (load_incentives (ru_tenant_id run))) (\<lambda>catalog.
     bind_effect (read (load_contact_times (ru_tenant_id run))) (\<lambda>contacts.
     let incentives = filter (applicable run) catalog;
         by_code = foldl (\<lambda>d i. AList.update (in_code i) i d) [] incentives
     in bind_effect (pure (map_result (\<lambda>(u, i, g). candidate_of x run u i g) (candidate_keys st run incentives))) (\<lambda>cands.
     let facts = map (\<lambda>u. (u, facts_of run contacts u)) (scored_users run)
     in bind_effect (pure (decide_loop (policy_config_of st True) facts cands [] [])) (\<lambda>(decisions, denied).
     let exclusions = foldl deny_bundle denied (map snd (policy_bundles cands))
     in bind_effect (modify (save_policy_decisions (ru_tenant_id run) (map snd decisions))) (\<lambda>_.
        pure (Inr (run\<lparr>ru_incentives := by_code, ru_candidates := cands, ru_user_facts := facts,
                       ru_decisions := decisions, ru_exclusions := exclusions\<rparr>,
          [(''candidates'', nat_json (length cands)),
           (''allowed'', JInt (int (length cands) - int (length exclusions))),
           (''denials_by_rule'', count_json (concat (map (\<lambda>(i, d). map (\<lambda>r. rule_value (rr_rule_code r)) (denials d)) decisions))),
           (''users_without_impact'', nat_json (length (ru_users run) - length (scored_users run))),
           (''frequency_cap_configured'', JBool (st_frequency_cap_max_contacts st \<noteq> None \<and> st_frequency_cap_window_days st \<noteq> None))])))))))"

section \<open>RANK\<close>

definition allowed_candidates :: "run \<Rightarrow> candidate list" where
  "allowed_candidates run = filter (\<lambda>c. map_of (ru_exclusions run) (c_candidate_id c) = None) (ru_candidates run)"

definition rank_stage :: stage where
  "rank_stage x st run =
     bind_effect (pure (build_context (ru_labeled run))) (\<lambda>context.
     bind_effect (pure (rank (x_tabpfn_regressor x) (x_forest_regressor x) (Some context) (allowed_candidates run)
         (st_ranker_min_context_rows st) (st_tabpfn_seed st) (st_tabpfn_enabled st))) (\<lambda>ranked.
     let n = length (rc_X context)
     in pure (Inr (run\<lparr>ru_rank_context_rows := n, ru_ranked := ranked\<rparr>,
          [(''ranked'', nat_json (length ranked)),
           (''ranking_strategy'', case ranked of [] \<Rightarrow> JNull | r # _ \<Rightarrow> JStr (strategy_value (r_ranking_strategy r))),
           (''context_rows'', nat_json n)]))))"

end
