(* ===== verification/Arms.thy ===== *)
theory Arms
  imports Stages Selection
begin

text \<open>
  The ALLOCATE stage of \<open>worker/pipeline.py\<close>: experiment arms, the exclusions before the allocator, the
  picks of the ENGINE arm from the allocation, and the NAIVE baseline.  A pick and an exclusion are
  appended to lists that the functions pass along.
\<close>

section \<open>Units, bundles and exclusions\<close>

definition unit_of :: "candidate \<Rightarrow> string" where
  "unit_of c = (if is_group_candidate c then ''group:'' @ group_text (c_group_id c) else c_user_pseudonym c)"

definition bundle_rep :: "externals \<Rightarrow> ranked_candidate list \<Rightarrow> pyfloat \<Rightarrow> ranked_candidate result" where
  "bundle_rep x ms priority =
     (case ms of
        [] \<Rightarrow> Inl IndexError
      | m # _ \<Rightarrow>
          let cs = map r_candidate ms;
              rep = (r_candidate m)\<lparr>
                c_candidate_id := id_of x ''bundle'' (sort (map c_candidate_id cs)),
                c_cost_idr := sum_list (map c_cost_idr cs),
                c_business_value_idr := sum_list (map c_business_value_idr cs),
                c_churn_risk := py_fmean (map c_churn_risk cs),
                c_impact_score := py_fmean (map c_impact_score cs)\<rparr>
          in Inr \<lparr>r_candidate = rep, r_priority = priority, r_ranking_strategy = r_ranking_strategy m\<rparr>)"

text \<open>\<open>exclude(c, reason, priority)\<close>\<close>

definition excluded :: "candidate \<Rightarrow> exclusion_reason \<Rightarrow> pyfloat \<Rightarrow> allocation_decision" where
  "excluded c reason priority =
     \<lparr>ad_candidate_id = c_candidate_id c, ad_choice_key = unit_of c, ad_selected = False, ad_priority = priority,
      ad_cost_idr = c_cost_idr c, ad_rank = None, ad_is_runner_up = False, ad_exclusion_reason = Some reason\<rparr>"

text \<open>Everything that can be a unit of the experiment, and its arm.\<close>

definition units_of :: "run \<Rightarrow> string list" where
  "units_of run = sort (remdups (ru_users run @ map unit_of (ru_candidates run)))"

definition arms_of :: "externals \<Rightarrow> settings \<Rightarrow> run \<Rightarrow> string \<Rightarrow> (string \<times> arm) list result" where
  "arms_of x st run experiment_id =
     map_result (\<lambda>u. bind_result (assign_arm (x_hmac x) (ru_tenant_id run) experiment_id u (st_measurement_hmac_secret st)
         (st_measurement_control_pct st) (st_measurement_naive_pct st)) (\<lambda>a. Inr (u, a))) (units_of run)"

section \<open>Before the allocator\<close>

text \<open>Candidates the policy excluded, outside the NAIVE arm (which applies the rules itself).\<close>

definition policy_exclusions :: "run \<Rightarrow> (string \<times> arm) list \<Rightarrow> allocation_decision list" where
  "policy_exclusions run arms =
     concat (map (\<lambda>c. case map_of (ru_exclusions run) (c_candidate_id c) of
         Some reason \<Rightarrow> if map_of arms (unit_of c) = Some NAIVE then [] else [excluded c reason 0]
       | None \<Rightarrow> []) (ru_candidates run))"

definition in_arm :: "(string \<times> arm) list \<Rightarrow> arm \<Rightarrow> ranked_candidate \<Rightarrow> bool" where
  "in_arm arms a r \<longleftrightarrow> map_of arms (unit_of (r_candidate r)) = Some a"

definition control_exclusions :: "run \<Rightarrow> (string \<times> arm) list \<Rightarrow> allocation_decision list" where
  "control_exclusions run arms =
     map (\<lambda>r. excluded (r_candidate r) CONTROL_HOLDOUT (r_priority r)) (filter (in_arm arms CONTROL) (ru_ranked run))"

section \<open>The picks of the ENGINE arm\<close>

definition is_group_key :: "string \<Rightarrow> bool" where
  "is_group_key key \<longleftrightarrow> take 6 key = ''group:''"

definition engine_pick ::
  "externals \<Rightarrow> (string \<times> policy_decision) list \<Rightarrow> (string \<times> ranked_candidate) list \<Rightarrow>
   string \<times> allocation_decision list \<Rightarrow> pick list result" where
  "engine_pick x decisions ranked_by_id kd = (case kd of (key, ds) \<Rightarrow>
     let chosen = filter ad_selected ds;
         runner = filter ad_is_runner_up ds
     in case chosen of
          [] \<Rightarrow> Inr []
        | d # _ \<Rightarrow>
            bind_result (map_result (look ranked_by_id) (map ad_candidate_id chosen)) (\<lambda>top_members.
            bind_result (map_result (look ranked_by_id) (map ad_candidate_id runner)) (\<lambda>runner_members.
            bind_result (look decisions (ad_candidate_id d)) (\<lambda>policy.
            if is_group_key key
            then
              bind_result (bundle_rep x top_members (ad_priority d)) (\<lambda>best.
              bind_result (case runner of [] \<Rightarrow> Inr None
                  | r # _ \<Rightarrow> bind_result (bundle_rep x runner_members (ad_priority r)) (\<lambda>b. Inr (Some b))) (\<lambda>runner_rep.
              Inr [\<lparr>pk_arm = ENGINE, pk_top = best, pk_runner_up = runner_rep,
                    pk_candidate_ids = map ad_candidate_id chosen, pk_rank = ad_rank d, pk_policy = policy,
                    pk_group_id = Some (drop 6 key),
                    pk_members = map (\<lambda>m. c_user_pseudonym (r_candidate m)) top_members\<rparr>]))
            else
              bind_result (py_nth top_members 0) (\<lambda>best.
              Inr [\<lparr>pk_arm = ENGINE, pk_top = best,
                    pk_runner_up = (case runner_members of [] \<Rightarrow> None | r # _ \<Rightarrow> Some r),
                    pk_candidate_ids = [ad_candidate_id d], pk_rank = ad_rank d, pk_policy = policy,
                    pk_group_id = None, pk_members = []\<rparr>])))))"

definition engine_picks ::
  "externals \<Rightarrow> run \<Rightarrow> ranked_candidate list \<Rightarrow> allocation_result \<Rightarrow> pick list result" where
  "engine_picks x run engine alloc =
     (let ranked_by_id = foldl (\<lambda>d r. AList.update (c_candidate_id (r_candidate r)) r d) [] engine;
          by_key = sort_key fst (group_by ad_choice_key (ar_decisions alloc))
      in bind_result (map_result (engine_pick x (ru_decisions run) ranked_by_id) by_key) (\<lambda>ps. Inr (concat ps)))"

section \<open>The NAIVE arm\<close>

text \<open>The loop over a user's candidates, cheapest first: those the hard rules allow with their decision,
  and the exclusions of the others.\<close>

fun naive_rules ::
  "policy_config \<Rightarrow> user_facts \<Rightarrow> candidate list \<Rightarrow> ((candidate \<times> policy_decision) list \<times> allocation_decision list) result" where
  "naive_rules config facts [] = Inr ([], [])"
| "naive_rules config facts (c # cs) =
     (let decision = evaluate c facts config in
      if decision_allowed decision
      then bind_result (naive_rules config facts cs) (\<lambda>(allowed, extra). Inr ((c, decision) # allowed, extra))
      else bind_result (exclusion_for decision (c_segment c)) (\<lambda>reason.
           bind_result (naive_rules config facts cs) (\<lambda>(allowed, extra). Inr (allowed, excluded c reason 0 # extra))))"

definition naive_ranked :: "candidate \<Rightarrow> ranked_candidate" where
  "naive_ranked c = \<lparr>r_candidate = c, r_priority = c_churn_risk c, r_ranking_strategy = NAIVE_RISK_ONLY\<rparr>"

definition naive_pick :: "(candidate \<times> policy_decision) list \<Rightarrow> pick list \<times> allocation_decision list" where
  "naive_pick allowed =
     (case allowed of
        [] \<Rightarrow> ([], [])
      | (c, decision) # others \<Rightarrow>
          ([\<lparr>pk_arm = NAIVE, pk_top = naive_ranked c,
             pk_runner_up = (case others of [] \<Rightarrow> None | (c', _) # _ \<Rightarrow> Some (naive_ranked c')),
             pk_candidate_ids = [c_candidate_id c], pk_rank = None, pk_policy = decision,
             pk_group_id = None, pk_members = []\<rparr>],
           map (\<lambda>(c', _). excluded c' NAIVE_NOT_CHOSEN (c_churn_risk c')) others))"

definition naive_user ::
  "settings \<Rightarrow> run \<Rightarrow> string \<times> candidate list \<Rightarrow> (pick list \<times> allocation_decision list) result" where
  "naive_user st run uc = (case uc of (user, cands) \<Rightarrow>
     bind_result (look (ru_risk run) user) (\<lambda>risk.
     if rs_churn_risk risk < st_measurement_naive_risk_threshold st
     then Inr ([], map (\<lambda>c. excluded c NAIVE_BELOW_THRESHOLD 0) cands)
     else
       bind_result (look (ru_user_facts run) user) (\<lambda>facts.
       bind_result (naive_rules (policy_config_of st False) facts
           (sort_key (\<lambda>c. (c_cost_idr c, c_incentive_code c)) cands)) (\<lambda>(allowed, extra).
       let (picks, others) = naive_pick allowed in Inr (picks, extra @ others)))))"

definition naive_candidates :: "run \<Rightarrow> (string \<times> arm) list \<Rightarrow> candidate list" where
  "naive_candidates run arms = filter (\<lambda>c. map_of arms (unit_of c) = Some NAIVE) (ru_candidates run)"

definition naive_arm :: "settings \<Rightarrow> run \<Rightarrow> (string \<times> arm) list \<Rightarrow> (pick list \<times> allocation_decision list) result" where
  "naive_arm st run arms =
     (let cands = naive_candidates run arms;
          groups = map (\<lambda>c. excluded c NAIVE_NOT_CHOSEN 0) (filter is_group_candidate cands);
          by_user = sort_key fst (group_by c_user_pseudonym (filter (\<lambda>c. \<not> is_group_candidate c) cands))
      in bind_result (map_result (naive_user st run) by_user) (\<lambda>rs.
           Inr (concat (map fst rs), groups @ concat (map snd rs))))"

section \<open>The stage\<close>

definition allocator_config_of :: "settings \<Rightarrow> allocator_config" where
  "allocator_config_of st = \<lparr>al_strategy = st_allocator_strategy st,
     al_cost_scale_idr = st_allocator_cost_scale_idr st, al_max_dp_cells = st_allocator_max_dp_cells st\<rparr>"

text \<open>What the stage decides once the arms are known: the allocation, the picks and the extra decisions.\<close>

definition decide_arms ::
  "externals \<Rightarrow> settings \<Rightarrow> run \<Rightarrow> (string \<times> arm) list \<Rightarrow>
   (allocation_result \<times> pick list \<times> pick list \<times> allocation_decision list) result" where
  "decide_arms x st run arms =
     (let engine = filter (in_arm arms ENGINE) (ru_ranked run) in
      bind_result (allocate engine (st_default_budget_idr st) (allocator_config_of st)) (\<lambda>alloc.
      bind_result (engine_picks x run engine alloc) (\<lambda>engine_ps.
      bind_result (naive_arm st run arms) (\<lambda>(naive_ps, naive_extra).
      Inr (alloc, engine_ps, naive_ps, policy_exclusions run arms @ control_exclusions run arms @ naive_extra)))))"

definition arm_json :: "run \<Rightarrow> (string \<times> arm) list \<Rightarrow> json" where
  "arm_json run arms = JDict (map (\<lambda>a. (arm_value a,
     nat_json (length (filter (\<lambda>u. map_of arms u = Some a) (ru_users run))))) enum_class.enum)"

definition allocate_stage :: stage where
  "allocate_stage x st run =
     bind_effect (get_or_create_experiment (ru_tenant_id run)) (\<lambda>experiment_id.
     bind_effect (pure (arms_of x st run experiment_id)) (\<lambda>arms.
     bind_effect (save_arm_assignments (ru_tenant_id run) arms) (\<lambda>_.
     bind_effect (pure (decide_arms x st run arms)) (\<lambda>(alloc, engine_ps, naive_ps, extra).
     bind_effect (modify (save_allocation (ru_tenant_id run) alloc extra)) (\<lambda>_.
     pure (Inr (run\<lparr>ru_arms := arms, ru_allocation := Some alloc, ru_picks := engine_ps @ naive_ps\<rparr>,
       [(''experiment_id'', JStr experiment_id), (''strategy'', JStr (ar_strategy alloc)),
        (''budget_idr'', JInt (ar_budget_idr alloc)), (''spent_idr'', JInt (ar_spent_idr alloc)),
        (''engine_picks'', nat_json (length engine_ps)), (''naive_picks'', nat_json (length naive_ps)),
        (''arms'', arm_json run arms)])))))))"

end
