(* ===== verification/Orchestration.thy ===== *)
theory Orchestration
  imports Arms
begin

text \<open>
  The EXPLAIN and PERSIST stages of \<open>worker/pipeline.py\<close> and \<open>run_pipeline\<close>, which runs the stages in
  order, records each in the store and stops at the first that raises.
\<close>

section \<open>EXPLAIN\<close>

definition group_of :: "pick \<Rightarrow> string option" where
  "group_of p = (case pk_group_id p of Some (c # cs) \<Rightarrow> Some (c # cs) | _ \<Rightarrow> None)"

definition reason_factors :: "run \<Rightarrow> string \<Rightarrow> reason_factor list result" where
  "reason_factors run user =
     bind_result (look (ru_risk run) user) (\<lambda>risk.
     let base = [\<lparr>rf_code = ''CHURN_RISK'', rf_direction = ''INCREASES_RISK'',
                  rf_weight = py_round (rs_churn_risk risk) 4, rf_evidence = []\<rparr>];
         circle = (case map_of (ru_snapshots run) user of
             Some snap \<Rightarrow>
               if cs_circle_size snap \<noteq> 0 \<and> cs_delta_stability snap < 0
               then [\<lparr>rf_code = ''CIRCLE_DESTABILIZING'', rf_direction = ''INCREASES_RISK'',
                      rf_weight = py_round (- cs_delta_stability snap) 4,
                      rf_evidence = [(''pattern_type'', JStr (pattern_value (cs_pattern_type snap)))]\<rparr>]
               else []
           | None \<Rightarrow> []);
         share = rs_external_signal_contribution risk;
         external = (if share \<noteq> 0
             then [\<lparr>rf_code = ''EXTERNAL_SIGNAL'',
                    rf_direction = (if share > 0 then ''INCREASES_RISK'' else ''DECREASES_RISK''),
                    rf_weight = py_round \<bar>share\<bar> 4, rf_evidence = []\<rparr>]
             else []);
         impact = (case map_of (ru_impact run) user of
             Some i \<Rightarrow> [\<lparr>rf_code = ''IMPACT_SCORE'', rf_direction = ''SUPPORTS_PICK'',
                         rf_weight = py_round (impact_score i) 4, rf_evidence = []\<rparr>]
           | None \<Rightarrow> [])
     in Inr (base @ circle @ external @ impact))"

text \<open>Risk, impact, circle and signal a pick is explained with; for a group the means over its members.\<close>

definition pick_facts_of ::
  "run \<Rightarrow> pick \<Rightarrow>
   (risk_score \<times> impact_score_rec option \<times> circle_snapshot option \<times> external_signal option) result" where
  "pick_facts_of run p =
     (let user = c_user_pseudonym (r_candidate (pk_top p)) in
      case group_of p of
        Some g \<Rightarrow>
          bind_result (map_result (look (ru_risk run)) (pk_members p)) (\<lambda>rs.
          bind_result (py_nth rs 0) (\<lambda>r0.
          bind_result (map_result (look (ru_impact run)) (pk_members p)) (\<lambda>is.
          bind_result (py_nth is 0) (\<lambda>i0.
          Inr (r0\<lparr>rs_user_pseudonym := g,
                  rs_churn_risk := py_fmean (map rs_churn_risk rs),
                  rs_external_signal_contribution := py_fmean (map rs_external_signal_contribution rs)\<rparr>,
               Some \<lparr>is_p_incentivized = py_fmean (map is_p_incentivized is),
                     is_p_not_incentivized = py_fmean (map is_p_not_incentivized is),
                     is_model = is_model i0\<rparr>, None, None)))))
      | None \<Rightarrow>
          bind_result (look (ru_risk run) user) (\<lambda>r.
          Inr (r, map_of (ru_impact run) user, map_of (ru_snapshots run) user, opt_get (ru_signal_of run) user)))"

definition allocation_facts :: "settings \<Rightarrow> run \<Rightarrow> pick \<Rightarrow> (string \<times> json) list result" where
  "allocation_facts st run p =
     (if pk_arm p = ENGINE
      then (case ru_allocation run of
              None \<Rightarrow> Inl (RuntimeError ''AttributeError: no allocation'')
            | Some alloc \<Rightarrow> Inr
                [(''strategy'', JStr (ar_strategy alloc)), (''budget_idr'', JInt (ar_budget_idr alloc)),
                 (''spent_idr'', JInt (ar_spent_idr alloc)),
                 (''selected_count'', nat_json (length (remdups (map ad_choice_key (ar_selected alloc))))),
                 (''rank'', case pk_rank p of None \<Rightarrow> JNull | Some n \<Rightarrow> nat_json n)])
      else Inr [(''strategy'', JStr (strategy_value NAIVE_RISK_ONLY)),
                (''risk_threshold'', JFloat (st_measurement_naive_risk_threshold st))])"

definition sheet_of :: "settings \<Rightarrow> run \<Rightarrow> pick \<Rightarrow> fact_sheet result" where
  "sheet_of st run p =
     (let user = c_user_pseudonym (r_candidate (pk_top p));
          display = map (\<lambda>(code, i). (code, in_display_name i)) (ru_incentives run)
      in bind_result (pick_facts_of run p) (\<lambda>(risk, impact, circle, sig).
         bind_result (allocation_facts st run p) (\<lambda>alloc.
         bind_result (reason_factors run user) (\<lambda>factors.
         Inr (build_fact_sheet (pk_top p) risk impact circle (pk_policy p) alloc
           \<lparr>sc_runner_up = pk_runner_up p, sc_display_names = display, sc_external_signal = sig, sc_arm = pk_arm p,
            sc_subject_type = (if group_of p \<noteq> None then ''GROUP'' else ''USER''),
            sc_subject_ref = Some (case group_of p of Some g \<Rightarrow> g | None \<Rightarrow> user),
            sc_member_count = (if pk_members p = [] then 1 else int (length (pk_members p))),
            sc_activity_window_days = st_activity_window_days st, sc_reason_factors = factors\<rparr>)))))"

type_synonym narration_cache = "(string \<times> (string \<times> string)) list"

fun explain_loop ::
  "externals \<Rightarrow> settings \<Rightarrow> run \<Rightarrow> pick list \<Rightarrow> narration_cache \<Rightarrow> (string \<times> string \<times> string) list effect" where
  "explain_loop x st run [] cache s = (Inr [], s)"
| "explain_loop x st run (p # ps) cache s =
     (case bind_result (sheet_of st run p) (\<lambda>sheet.
             bind_result (narrate_or_fallback (x_sha256_hex x) (x_float_repr x) (x_repr x) sheet (x_narrator x) (Some cache)) (\<lambda>(n, c).
             Inr (n, fact_sheet_hash (x_sha256_hex x) (x_float_repr x) sheet, c))) of
        Inl e \<Rightarrow> (Inl e, s)
      | Inr ((t, source), digest, cache') \<Rightarrow>
          let s1 = save_narration (ru_tenant_id run)
                     \<lparr>na_run_id = ru_run_id run, na_fact_sheet_hash = digest, na_text = t, na_source = source\<rparr> s
          in bind_effect (explain_loop x st run ps (case cache' of None \<Rightarrow> cache | Some c \<Rightarrow> c)) (\<lambda>ns.
               pure (Inr ((t, source, digest) # ns))) s1)"

definition explain_stage :: stage where
  "explain_stage x st run =
     bind_effect (explain_loop x st run (ru_picks run) []) (\<lambda>ns.
     pure (Inr (run\<lparr>ru_narrations := ns\<rparr>,
       [(''narrated'', nat_json (length (ru_picks run))),
        (''reason_sources'', count_json (map (\<lambda>(t, source, digest). source) ns)),
        (''llm_enabled'', JBool (x_narrator x \<noteq> None))])))"

section \<open>PERSIST\<close>

definition recommendation_of ::
  "externals \<Rightarrow> run \<Rightarrow> pick \<times> (string \<times> string \<times> string) \<Rightarrow> new_recommendation result" where
  "recommendation_of x run pn = (case pn of (p, (t, source, digest)) \<Rightarrow>
     bind_result (assert_transition DRAFT PENDING_APPROVAL None) (\<lambda>_.
     let c = r_candidate (pk_top p) in
     Inr \<lparr>nr_recommendation_id = id_of x ''rec'' (ru_run_id run # pk_candidate_ids p),
          nr_tenant_id = ru_tenant_id run, nr_run_id = ru_run_id run, nr_candidate_id = c_candidate_id c,
          nr_arm = pk_arm p, nr_status = PENDING_APPROVAL, nr_incentive_code = c_incentive_code c,
          nr_cost_idr = c_cost_idr c, nr_priority = r_priority (pk_top p),
          nr_user_pseudonym = (if group_of p \<noteq> None then None else Some (c_user_pseudonym c)),
          nr_group_id = pk_group_id p, nr_member_pseudonyms = pk_members p,
          nr_runner_up_candidate_id = map_option (\<lambda>r. c_candidate_id (r_candidate r)) (pk_runner_up p),
          nr_reason_text = t, nr_reason_source = source, nr_fact_sheet_hash = digest,
          nr_created_at = ru_now run, nr_reviewed_by = None, nr_reviewed_at = None\<rparr>))"

text \<open>The last pick that names a user, as a member or as its own subject.\<close>

definition pick_of :: "pick list \<Rightarrow> (string \<times> pick) list" where
  "pick_of ps = foldl (\<lambda>d p. foldl (\<lambda>d u. AList.update u p d) d
     (if pk_members p = [] then [c_user_pseudonym (r_candidate (pk_top p))] else pk_members p)) [] ps"

definition snapshot_row :: "run \<Rightarrow> (string \<times> pick) list \<Rightarrow> string \<Rightarrow> feature_snapshot result" where
  "snapshot_row run chosen_by user =
     bind_result (look (ru_features run) user) (\<lambda>features.
     bind_result (look (ru_risk run) user) (\<lambda>risk.
     bind_result (look (ru_snapshots run) user) (\<lambda>snap.
     bind_result (case map_of chosen_by user of
         None \<Rightarrow> Inr (None, 0)
       | Some p \<Rightarrow> bind_result (look (ru_incentives run) (c_incentive_code (r_candidate (pk_top p)))) (\<lambda>i.
             Inr (Some (c_incentive_code (r_candidate (pk_top p))), in_cost_idr i))) (\<lambda>(code, cost).
     bind_result (look (ru_business_value run) user) (\<lambda>value.
     Inr \<lparr>fs_tenant_id = ru_tenant_id run, fs_run_id = ru_run_id run, fs_user_pseudonym = user,
          fs_features = features, fs_churn_risk = Some (rs_churn_risk risk),
          fs_impact_score = map_option impact_score (map_of (ru_impact run) user),
          fs_pattern_type = Some (pattern_value (cs_pattern_type snap)), fs_incentive_code = code,
          fs_cost_idr = cost, fs_business_value_idr = value\<rparr>)))))"

definition created_entry :: "new_recommendation \<Rightarrow> audit_entry" where
  "created_entry r = \<lparr>au_actor = ''app_worker'', au_action = ''RECOMMENDATION_CREATED'', au_entity_type = ''recommendation'',
     au_entity_id = nr_recommendation_id r,
     au_detail = [(''status'', JStr (status_value (nr_status r))), (''arm'', JStr (arm_value (nr_arm r)))]\<rparr>"

text \<open>
  What is created, then what is written about it.  The identifiers are assigned in between: when the
  second part raises, the run has them already, so this stage returns the run in any case.
\<close>

definition create_rows :: "externals \<Rightarrow> run \<Rightarrow> new_recommendation list effect" where
  "create_rows x run =
     bind_effect (pure (if length (ru_picks run) \<le> length (ru_narrations run)
         then map_result (recommendation_of x run) (zip (ru_picks run) (ru_narrations run))
         else Inl (KeyError (show_nat (length (ru_narrations run)))))) (\<lambda>recs.
     bind_effect (create_recommendations recs) (\<lambda>_. pure (Inr recs)))"

definition write_rows_of :: "run \<Rightarrow> new_recommendation list \<Rightarrow> detail effect" where
  "write_rows_of run recs =
     bind_effect (pure (map_result (snapshot_row run (pick_of (ru_picks run))) (ru_users run))) (\<lambda>rows.
     bind_effect (modify (save_feature_snapshots rows)) (\<lambda>_.
     bind_effect (modify (\<lambda>s. foldl (\<lambda>s r. append_audit (ru_tenant_id run) (created_entry r) s) s recs)) (\<lambda>_.
     pure (Inr [(''recommendations'', nat_json (length recs)), (''status'', JStr (status_value PENDING_APPROVAL))]))))"

type_synonym observed_stage =
  "externals \<Rightarrow> settings \<Rightarrow> run \<Rightarrow> memory_store \<Rightarrow> detail result \<times> run \<times> memory_store"

definition persist_stage :: observed_stage where
  "persist_stage x st run s =
     (case create_rows x run s of
        (Inl e, s1) \<Rightarrow> (Inl e, run, s1)
      | (Inr recs, s1) \<Rightarrow>
          let run' = run\<lparr>ru_recommendation_ids := map nr_recommendation_id recs\<rparr>;
              (d, s2) = write_rows_of run' recs s1
          in (d, run', s2))"

definition observed :: "stage \<Rightarrow> observed_stage" where
  "observed f x st run s =
     (case f x st run s of
        (Inl e, s1) \<Rightarrow> (Inl e, run, s1)
      | (Inr (run', d), s1) \<Rightarrow> (Inr d, run', s1))"

section \<open>run_pipeline\<close>

definition STAGES :: "string list" where
  "STAGES = [''INGEST'', ''FEEDBACK'', ''EXTERNAL'', ''GRAPH'', ''RISK'', ''IMPACT'', ''POLICY'', ''RANK'', ''ALLOCATE'',
     ''EXPLAIN'', ''PERSIST'']"

definition stage_funcs :: "(string \<times> observed_stage) list" where
  "stage_funcs =
     [(''INGEST'', observed ingest_stage), (''FEEDBACK'', observed feedback_stage), (''EXTERNAL'', observed external_stage), (''GRAPH'', observed graph_stage),
      (''RISK'', observed risk_stage), (''IMPACT'', observed impact_stage), (''POLICY'', observed policy_stage), (''RANK'', observed rank_stage),
      (''ALLOCATE'', observed allocate_stage), (''EXPLAIN'', observed explain_stage), (''PERSIST'', persist_stage)]"

definition stage_function :: "string \<Rightarrow> observed_stage" where
  "stage_function name = (case map_of stage_funcs name of
       Some f \<Rightarrow> f | None \<Rightarrow> (\<lambda>x st run s. (Inl (KeyError name), run, s)))"

text \<open>\<open>f"{type(exc).__name__}: {exc}"\<close>; a \<open>RuntimeError\<close> here carries the name of its Python type in its text.\<close>

fun exn_text :: "exn \<Rightarrow> string" where
  "exn_text (IllegalTransition m) = ''IllegalTransition: '' @ m"
| "exn_text (MappingError m) = ''MappingError: '' @ m"
| "exn_text (ContextTooSmall m) = ''ContextTooSmall: '' @ m"
| "exn_text (CrossTenantContext m) = ''CrossTenantContext: '' @ m"
| "exn_text (PolicyViolation m) = ''PolicyViolation: '' @ m"
| "exn_text (NarrationRejected m) = ''NarrationRejected: '' @ m"
| "exn_text (DPTooLarge m) = ''DPTooLarge: '' @ m"
| "exn_text (ValueError m) = ''ValueError: '' @ m"
| "exn_text (ValidationError m) = ''ValidationError: '' @ m"
| "exn_text (LookupError m) = ''LookupError: '' @ m"
| "exn_text (KeyError m) = ''KeyError: '' @ [CHR 0x27] @ m @ [CHR 0x27]"
| "exn_text IndexError = ''IndexError: list index out of range''"
| "exn_text ZeroDivisionError = ''ZeroDivisionError: division by zero''"
| "exn_text (PermissionError m) = ''PermissionError: '' @ m"
| "exn_text (RuntimeError m) = m"
| "exn_text (ChurnScorerUnavailable m) = ''ChurnScorerUnavailable: '' @ m"

definition fresh_run :: "string \<Rightarrow> string \<Rightarrow> instant \<Rightarrow> tenant_record \<Rightarrow> run" where
  "fresh_run tid run_id now tenant =
     \<lparr>ru_tenant_id = tid, ru_run_id = run_id, ru_now = now, ru_tenant = tenant, ru_events = [], ru_events_by_user = [],
      ru_users = [], ru_attributes = [], ru_signal_of = [], ru_snapshots = [], ru_circles = [], ru_features = [],
      ru_risk = [], ru_impact = [], ru_segments = [], ru_business_value = [], ru_labeled = [], ru_incentives = [],
      ru_candidates = [], ru_decisions = [], ru_user_facts = [], ru_exclusions = [], ru_ranked = [],
      ru_rank_context_rows = 0, ru_allocation = None, ru_arms = [], ru_picks = [], ru_narrations = [],
      ru_recommendation_ids = []\<rparr>"

definition stage_row :: "run \<Rightarrow> string \<Rightarrow> string \<Rightarrow> detail \<Rightarrow> stage_record" where
  "stage_row run stage status d =
     \<lparr>sr_run_id = ru_run_id run, sr_tenant_id = ru_tenant_id run, sr_stage = stage, sr_status = status, sr_detail = d\<rparr>"

definition outcome :: "string \<Rightarrow> string \<Rightarrow> detail \<Rightarrow> stage_outcome" where
  "outcome stage status d = \<lparr>so_stage = stage, so_status = status, so_detail = d\<rparr>"

text \<open>\<open>"SKIPPED" if detail.pop("skipped", False) else "DONE"\<close>, and the detail without that key.\<close>

definition done_status :: "detail \<Rightarrow> string" where
  "done_status d = (if truthy (dict_get d ''skipped'' (JBool False)) then ''SKIPPED'' else ''DONE'')"

definition popped :: "detail \<Rightarrow> detail" where
  "popped d = filter (\<lambda>(k, v). k \<noteq> ''skipped'') d"

text \<open>The loop over the stages: the run, the status, the outcomes and the store.\<close>

fun stage_loop ::
  "externals \<Rightarrow> settings \<Rightarrow> string list \<Rightarrow> run \<Rightarrow> memory_store \<Rightarrow> run \<times> string \<times> stage_outcome list \<times> memory_store" where
  "stage_loop x st [] run s = (run, ''DONE'', [], s)"
| "stage_loop x st (name # names) run s =
     (let s1 = record_stage (stage_row run name ''RUNNING'' []) s in
      case stage_function name x st run s1 of
        (Inl e, run', s2) \<Rightarrow>
          let d = [(''error'', JStr (exn_text e))]
          in (run', ''FAILED'', outcome name ''FAILED'' d # map (\<lambda>n. outcome n ''PENDING'' []) names,
              record_stage (stage_row run name ''FAILED'' d) s2)
      | (Inr d, run', s2) \<Rightarrow>
          let s3 = record_stage (stage_row run name (done_status d) (popped d)) s2;
              (run'', status, outcomes, s4) = stage_loop x st names run' s3
          in (run'', status, outcome name (done_status d) (popped d) # outcomes, s4))"

definition run_pipeline ::
  "externals \<Rightarrow> settings \<Rightarrow> string \<Rightarrow> string \<Rightarrow> instant \<Rightarrow> pipeline_run_result effect" where
  "run_pipeline x st tid run_id now s =
     (case get_tenant tid s of
        Inl e \<Rightarrow> (Inl e, s)
      | Inr tenant \<Rightarrow>
          let run = fresh_run tid run_id now tenant;
              s1 = foldl (\<lambda>s name. record_stage (stage_row run name ''PENDING'' []) s) s STAGES;
              (run', status, outcomes, s2) = stage_loop x st STAGES run s1
          in (Inr \<lparr>res_run_id = run_id, res_tenant_id = tid, res_status = status, res_stages = outcomes,
                   res_recommendation_ids = ru_recommendation_ids run'\<rparr>, s2))"

end
