(* ===== verification/Frame.thy ===== *)
theory Frame
  imports Orchestration
begin

text \<open>
  What a run of the pipeline leaves alone.  An invariant of the storage interface (\<open>stage_invariant\<close>, \<open>store_invariant\<close>) is kept
  by every stage and by \<open>run_pipeline\<close>; with the two interpretations of the interface on the in-memory store
  this gives tenant isolation and the guarantee that a run only adds recommendations that wait for approval.
\<close>

section \<open>Stages keep the invariants of the store\<close>

lemma bind_effect_cases:
  "bind_effect m f s = (case m s of (Inl e, s') \<Rightarrow> (Inl e, s') | (Inr x, s') \<Rightarrow> f x s')"
  by (simp add: bind_effect_def)

lemma bind_pure [simp]:
  "bind_effect (pure r) f s = (case r of Inl e \<Rightarrow> (Inl e, s) | Inr x \<Rightarrow> f x s)"
  by (cases r) (simp_all add: bind_effect_def pure_def)

lemma bind_read [simp]: "bind_effect (read g) f s = f (g s) s"
  by (simp add: bind_effect_def read_def)

lemma bind_modify [simp]: "bind_effect (modify g) f s = f () (g s)"
  by (simp add: bind_effect_def modify_def)

lemma pure_apply [simp]: "pure r s = (r, s)"
  by (simp add: pure_def)

lemma read_apply [simp]: "read g s = (Inr (g s), s)"
  by (simp add: read_def)

lemma modify_apply [simp]: "modify g s = (Inr (), g s)"
  by (simp add: modify_def)

text \<open>Labels of a tenant's outcomes are that tenant's.\<close>

lemma label_loop_tenant:
  "\<forall>o1 \<in> set os. o_tenant_id o1 = tid \<Longrightarrow> \<forall>e \<in> set acc. le_tenant_id e = tid \<Longrightarrow>
   \<forall>e \<in> set (label_loop snaps os seen acc). le_tenant_id e = tid"
proof (induction os arbitrary: seen acc)
  case (Cons o1 os)
  have os: "\<forall>o1 \<in> set os. o_tenant_id o1 = tid" and o1: "o_tenant_id o1 = tid" using Cons.prems(1) by simp_all
  have snoc: "\<forall>e \<in> set (label_loop snaps os seen' (acc @ [make_example o1 snap])). le_tenant_id e = tid" for seen' snap
    by (rule Cons.IH [OF os]) (use Cons.prems(2) o1 in \<open>auto simp: make_example_def Let_def\<close>)
  have skip: "\<forall>e \<in> set (label_loop snaps os seen' acc). le_tenant_id e = tid" for seen'
    by (rule Cons.IH [OF os Cons.prems(2)])
  show ?case
    unfolding label_loop.simps Let_def by (simp only: snoc skip split: option.split if_split) (simp add: snoc skip)
qed (simp add: label_loop.simps)

lemma labels_tenant:
  "\<forall>o1 \<in> set os. o_tenant_id o1 = tid \<Longrightarrow> \<forall>e \<in> set (to_labeled_examples os snaps existing). le_tenant_id e = tid"
  unfolding to_labeled_examples_def by (rule label_loop_tenant) simp_all

lemma recommendation_of_fresh:
  "recommendation_of x run pn = Inr r \<Longrightarrow> fresh_row (ru_tenant_id run) r"
  by (cases pn) (auto simp: recommendation_of_def fresh_row_def bind_result_Inr Let_def)

lemma snapshot_row_tenant: "snapshot_row run p u = Inr f \<Longrightarrow> fs_tenant_id f = ru_tenant_id run"
  by (auto simp: snapshot_row_def bind_result_Inr)

lemma map_result_all: "map_result f xs = Inr ys \<Longrightarrow> (\<And>x y. f x = Inr y \<Longrightarrow> P y) \<Longrightarrow> \<forall>y \<in> set ys. P y"
  by (induction xs arbitrary: ys) (auto simp: bind_result_Inr)

text \<open>A stage that returns leaves the run's identity as it was.\<close>

definition same_run :: "run \<Rightarrow> run \<Rightarrow> bool" where
  "same_run run run' \<longleftrightarrow> ru_tenant_id run' = ru_tenant_id run \<and> ru_run_id run' = ru_run_id run
     \<and> ru_tenant run' = ru_tenant run \<and> ru_now run' = ru_now run"

definition yields :: "('a \<Rightarrow> bool) \<Rightarrow> 'a effect \<Rightarrow> bool" where
  "yields P m \<longleftrightarrow> (\<forall>s y s'. m s = (Inr y, s') \<longrightarrow> P y)"

lemma yields_bind: "(\<And>y. yields P (f y)) \<Longrightarrow> yields P (bind_effect m f)"
  by (auto simp: yields_def bind_effect_def split: prod.splits sum.splits)

lemma yields_pure_Inr [simp]: "yields P (pure (Inr y)) \<longleftrightarrow> P y"
  by (simp add: yields_def pure_def)

lemma yields_pure_Inl [simp]: "yields P (pure (Inl e))"
  by (simp add: yields_def pure_def)

lemma same_run_refl [simp]: "same_run run run"
  by (simp add: same_run_def)

lemma same_run_trans: "same_run r1 r2 \<Longrightarrow> same_run r2 r3 \<Longrightarrow> same_run r1 r3"
  by (simp add: same_run_def)

definition keeps_run :: "stage \<Rightarrow> bool" where
  "keeps_run f \<longleftrightarrow> (\<forall>x st run. yields (\<lambda>(run', d). same_run run run') (f x st run))"

named_theorems stage_keeps_run

lemma ingest_keeps_run [stage_keeps_run]: "keeps_run ingest_stage"
  by (auto simp: keeps_run_def same_run_def ingest_stage_def Let_def intro!: yields_bind
      split: sum.split prod.split option.split exn.split)

lemma feedback_keeps_run [stage_keeps_run]: "keeps_run feedback_stage"
  by (auto simp: keeps_run_def same_run_def feedback_stage_def Let_def intro!: yields_bind
      split: sum.split prod.split option.split exn.split)

lemma external_keeps_run [stage_keeps_run]: "keeps_run external_stage"
  by (auto simp: keeps_run_def same_run_def external_stage_def Let_def intro!: yields_bind
      split: sum.split prod.split option.split exn.split)

lemma graph_keeps_run [stage_keeps_run]: "keeps_run graph_stage"
  by (auto simp: keeps_run_def same_run_def graph_stage_def Let_def intro!: yields_bind
      split: sum.split prod.split option.split exn.split)

lemma risk_keeps_run [stage_keeps_run]: "keeps_run risk_stage"
  by (auto simp: keeps_run_def same_run_def risk_stage_def risk_trained_def risk_in_context_def Let_def intro!: yields_bind
      split: sum.split prod.split option.split exn.split)

lemma impact_keeps_run [stage_keeps_run]: "keeps_run impact_stage"
  by (auto simp: keeps_run_def same_run_def impact_stage_def Let_def intro!: yields_bind
      split: sum.split prod.split option.split exn.split)

lemma policy_keeps_run [stage_keeps_run]: "keeps_run policy_stage"
  by (auto simp: keeps_run_def same_run_def policy_stage_def Let_def intro!: yields_bind
      split: sum.split prod.split option.split exn.split)

lemma rank_keeps_run [stage_keeps_run]: "keeps_run rank_stage"
  by (auto simp: keeps_run_def same_run_def rank_stage_def Let_def intro!: yields_bind
      split: sum.split prod.split option.split exn.split)

lemma allocate_keeps_run [stage_keeps_run]: "keeps_run allocate_stage"
  by (auto simp: keeps_run_def same_run_def allocate_stage_def Let_def intro!: yields_bind
      split: sum.split prod.split option.split exn.split)

lemma explain_keeps_run [stage_keeps_run]: "keeps_run explain_stage"
  by (auto simp: keeps_run_def same_run_def explain_stage_def Let_def intro!: yields_bind
      split: sum.split prod.split option.split exn.split)

lemma observed_same_run: "keeps_run f \<Longrightarrow> same_run run (fst (snd (observed f x st run s)))"
  by (force simp: observed_def keeps_run_def yields_def split: sum.splits prod.splits)

lemma persist_same_run: "same_run run (fst (snd (persist_stage x st run s)))"
  by (auto simp: persist_stage_def Let_def same_run_def split: sum.splits prod.splits)

lemma stage_function_same_run: "same_run run (fst (snd (stage_function name x st run s)))"
  by (auto simp: stage_function_def stage_funcs_def observed_same_run persist_same_run stage_keeps_run split: option.splits if_splits)

context stage_invariant
begin

lemmas keeps = keeps_mark keeps_attributes keeps_events keeps_signals keeps_labels keeps_circles keeps_risk
  keeps_impact keeps_policy keeps_experiment keeps_arms keeps_allocation keeps_narration keeps_snapshots
  keeps_recommendations keeps_entries

lemma keeps_bind:
  assumes "inv s" and "\<And>s. inv s \<Longrightarrow> inv (snd (m s))" and "\<And>y s. inv s \<Longrightarrow> inv (snd (f y s))"
  shows "inv (snd (bind_effect m f s))"
proof (cases "m s")
  case (Pair r s')
  with assms(1,2) have "inv s'" by (metis snd_conv)
  then show ?thesis using assms(3) Pair by (auto simp: bind_effect_def split: sum.splits)
qed

lemma keeps_pure_bind:
  "inv s \<Longrightarrow> (\<And>y. r = Inr y \<Longrightarrow> inv (snd (f y s))) \<Longrightarrow> inv (snd (bind_effect (pure r) f s))"
  by (cases r) simp_all

lemma keeps_batch: "inv s \<Longrightarrow> inv (snd (ingest_batch x tid config secret batch can p u s))"
proof (induction batch arbitrary: can p u s)
  case (Cons raw batch)
  show ?case
  proof (cases "normalize (x_hmac_hex x) (x_repr x) (x_fromisoformat x) tid (re_body raw) config secret")
    case (Inl e)
    then show ?thesis using Cons by (cases e) (simp_all add: keeps)
  next
    case (Inr event)
    then show ?thesis using Cons by (simp add: Let_def keeps)
  qed
qed simp

lemma keeps_loop: "inv s \<Longrightarrow> inv (snd (ingest_loop x st tid config p u s))"
proof (induction "length (new_events tid s)" arbitrary: p u s rule: less_induct)
  case less
  let ?c = "claim_raw_events tid (st_worker_batch_size st) s"
  obtain r s1 where b: "ingest_batch x tid config (st_pseudonym_hmac_secret st) ?c [] p u s = (r, s1)" by fastforce
  have s1: "inv s1" using keeps_batch [OF less.prems] b by (metis snd_conv)
  show ?case
  proof (cases "?c = [] \<or> (\<exists>e. r = Inl e)")
    case True
    then show ?thesis using b s1 less.prems by (subst ingest_loop.simps) (auto simp: Let_def)
  next
    case False
    then obtain can p' u' where r: "r = Inr (can, p', u')" by (cases r) auto
    obtain q s2 where c: "save_canonical_events tid can s1 = (q, s2)" by fastforce
    have s2: "inv s2" using keeps_events [OF s1, of can] c by simp
    have "length (new_events tid s2) < length (new_events tid s)"
      using ingest_round_less [of tid _ s] False b r saved_same_new [OF c [symmetric]] by auto
    from less.hyps [OF this s2] show ?thesis
      using False b r c s2 by (subst ingest_loop.simps) (auto simp: Let_def split: sum.splits)
  qed
qed

lemma keeps_ingest:
  assumes "inv s" and "ru_tenant_id run = tid"
  shows "inv (snd (ingest_stage x st run s))"
  unfolding ingest_stage_def assms(2)
  by (cases "make_config (tr_mapping (ru_tenant run))")
     (auto simp: assms(1) Let_def intro!: keeps_bind keeps_loop)

lemma keeps_feedback:
  assumes "inv s" and "ru_tenant_id run = tid"
  shows "inv (snd (feedback_stage x st run s))"
proof -
  have "\<forall>e \<in> set (to_labeled_examples (load_outcomes tid s) snaps existing). le_tenant_id e = tid" for snaps existing
    using own_outcomes [OF assms(1)] by (intro labels_tenant) blast
  then have "inv (snd (ingest_outcomes st tid s))"
    using assms(1) by (auto simp: ingest_outcomes_def Let_def keeps split: sum.splits)
  then show ?thesis
    unfolding feedback_stage_def assms(2)
    by (cases "ingest_outcomes st tid s") (auto simp: bind_effect_def split: sum.splits)
qed

lemma keeps_external: "inv s \<Longrightarrow> inv (snd (external_stage x st run s))"
  by (auto simp: external_stage_def Let_def keeps split: sum.splits)

lemma keeps_graph: "inv s \<Longrightarrow> ru_tenant_id run = tid \<Longrightarrow> inv (snd (graph_stage x st run s))"
  by (auto simp: graph_stage_def Let_def keeps split: sum.splits option.splits)

lemma keeps_risk_trained: "inv s \<Longrightarrow> ru_tenant_id run = tid \<Longrightarrow> inv (snd (risk_trained x st run s))"
  by (auto simp: risk_trained_def Let_def keeps split: sum.splits option.splits)

lemma keeps_risk_in_context: "inv s \<Longrightarrow> ru_tenant_id run = tid \<Longrightarrow> inv (snd (risk_in_context x st run s))"
  by (auto simp: risk_in_context_def Let_def keeps split: sum.splits exn.splits)

lemma keeps_risk_stage: "inv s \<Longrightarrow> ru_tenant_id run = tid \<Longrightarrow> inv (snd (risk_stage x st run s))"
  by (auto simp: risk_stage_def Let_def keeps_risk_trained keeps_risk_in_context split: sum.splits)

lemma keeps_impact_stage: "inv s \<Longrightarrow> ru_tenant_id run = tid \<Longrightarrow> inv (snd (impact_stage x st run s))"
  by (auto simp: impact_stage_def Let_def keeps split: sum.splits exn.splits)

lemma keeps_policy_stage: "inv s \<Longrightarrow> ru_tenant_id run = tid \<Longrightarrow> inv (snd (policy_stage x st run s))"
  by (auto simp: policy_stage_def Let_def keeps split: sum.splits)

lemma keeps_rank_stage: "inv s \<Longrightarrow> inv (snd (rank_stage x st run s))"
  by (auto simp: rank_stage_def Let_def split: sum.splits)

lemma keeps_allocate_stage:
  assumes "inv s" and "ru_tenant_id run = tid"
  shows "inv (snd (allocate_stage x st run s))"
  unfolding allocate_stage_def assms(2)
  by (rule keeps_bind keeps_pure_bind keeps_experiment keeps_arms assms(1) | assumption
      | simp add: keeps split: prod.splits)+

lemma keeps_explain_loop:
  assumes "ru_tenant_id run = tid"
  shows "inv s \<Longrightarrow> inv (snd (explain_loop x st run ps cache s))"
proof (induction ps arbitrary: cache s)
  case (Cons p ps)
  have loop: "inv (snd (bind_effect (explain_loop x st run ps c) f (save_narration tid row s)))"
    if "\<And>y s. inv s \<Longrightarrow> inv (snd (f y s))" for c f row
    by (rule keeps_bind) (use Cons that keeps_narration in auto)
  show ?case
    using Cons.prems by (simp add: Let_def assms loop split: sum.splits prod.splits)
qed simp

lemma keeps_explain_stage: "inv s \<Longrightarrow> ru_tenant_id run = tid \<Longrightarrow> inv (snd (explain_stage x st run s))"
  unfolding explain_stage_def by (rule keeps_bind) (simp_all add: keeps_explain_loop)

lemma keeps_create_rows:
  assumes "inv s" and "ru_tenant_id run = tid"
  shows "inv (snd (create_rows x run s))"
proof (cases "snd (create_rows x run s) = s")
  case False
  then obtain recs where recs: "map_result (recommendation_of x run) (zip (ru_picks run) (ru_narrations run)) = Inr recs"
    by (auto simp: create_rows_def split: sum.splits if_splits)
  have "\<forall>r \<in> set recs. fresh_row tid r"
    using map_result_all [OF recs, of "fresh_row tid"] recommendation_of_fresh assms(2) by blast
  from keeps_recommendations [OF assms(1) this] show ?thesis
    using assms(1) recs
    by (auto simp: create_rows_def bind_effect_def split: sum.splits prod.splits if_splits)
qed (simp add: assms)

lemma keeps_write_rows:
  assumes "inv s" and "ru_tenant_id run = tid"
  shows "inv (snd (write_rows_of run recs s))"
proof (cases "map_result (snapshot_row run (pick_of (ru_picks run))) (ru_users run)")
  case (Inr rows)
  have "\<forall>f \<in> set rows. fs_tenant_id f = tid"
    using map_result_all [OF Inr, of "\<lambda>f. fs_tenant_id f = tid"] snapshot_row_tenant assms(2) by blast
  then show ?thesis using assms by (simp add: write_rows_of_def Inr keeps)
qed (simp add: write_rows_of_def assms)

lemma keeps_persist_stage:
  assumes "inv s" and "ru_tenant_id run = tid"
  shows "inv (snd (snd (persist_stage x st run s)))"
proof -
  obtain r s1 where c: "create_rows x run s = (r, s1)" by fastforce
  have s1: "inv s1" using keeps_create_rows [OF assms, of x] c by simp
  show ?thesis
  proof (cases r)
    case (Inr recs)
    then show ?thesis
      using c keeps_write_rows [OF s1, of "run\<lparr>ru_recommendation_ids := map nr_recommendation_id recs\<rparr>" recs] assms(2)
      by (auto simp: persist_stage_def Let_def split: prod.splits)
  qed (use c s1 in \<open>simp add: persist_stage_def\<close>)
qed

lemma keeps_observed: "(\<And>s. inv s \<Longrightarrow> inv (snd (f x st run s))) \<Longrightarrow> inv s \<Longrightarrow> inv (snd (snd (observed f x st run s)))"
  by (cases "f x st run s") (force simp: observed_def split: sum.splits)

lemma keeps_stage_function:
  assumes "inv s" and "ru_tenant_id run = tid"
  shows "inv (snd (snd (stage_function name x st run s)))"
proof (cases "map_of stage_funcs name")
  case (Some f)
  then have "f \<in> set (map snd stage_funcs)" by (force dest: map_of_SomeD)
  then consider "f = persist_stage"
    | g where "f = observed g" "g \<in> {ingest_stage, feedback_stage, external_stage, graph_stage, risk_stage, impact_stage,
        policy_stage, rank_stage, allocate_stage, explain_stage}"
    unfolding stage_funcs_def by auto
  then have "inv (snd (snd (f x st run s)))"
  proof cases
    case 2
    have step: "inv (snd (g x st run s))" if "inv s" for s
      using 2(2) that assms(2)
      by (elim insertE emptyE) (simp_all add: keeps_ingest keeps_feedback keeps_external keeps_graph keeps_risk_stage
          keeps_impact_stage keeps_policy_stage keeps_rank_stage keeps_allocate_stage keeps_explain_stage)
    show ?thesis unfolding 2(1) by (rule keeps_observed [of g, OF step assms(1)])
  qed (use keeps_persist_stage [OF assms] in simp)
  then show ?thesis by (simp add: stage_function_def Some)
qed (simp add: stage_function_def assms(1))

end

context store_invariant
begin

lemma keeps_row: "inv s \<Longrightarrow> ru_tenant_id run = tid \<Longrightarrow> inv (record_stage (stage_row run name status d) s)"
  by (simp add: keeps_stage stage_row_def)

lemma keeps_stage_loop:
  "inv s \<Longrightarrow> ru_tenant_id run = tid \<Longrightarrow> inv (snd (snd (snd (stage_loop x st names run s))))"
proof (induction names arbitrary: run s)
  case (Cons name names)
  let ?s1 = "record_stage (stage_row run name ''RUNNING'' []) s"
  obtain r run' s2 where f: "stage_function name x st run ?s1 = (r, run', s2)" by (cases "stage_function name x st run ?s1")
  have s2: "inv s2"
    using keeps_stage_function [OF keeps_row [OF Cons.prems] Cons.prems(2), of name x st name "''RUNNING''" "[]"] f by simp
  have run': "ru_tenant_id run' = tid"
    using stage_function_same_run [of run name x st ?s1] f Cons.prems(2) by (simp add: same_run_def)
  show ?case
    using Cons.IH [OF keeps_row [OF s2 Cons.prems(2)] run'] keeps_row [OF s2 Cons.prems(2)]
    by (cases r) (simp_all add: f Let_def case_prod_beta)
qed simp

lemma keeps_rows: "inv s \<Longrightarrow> ru_tenant_id run = tid \<Longrightarrow>
    inv (foldl (\<lambda>s name. record_stage (stage_row run name status d) s) s names)"
  by (induction names arbitrary: s) (simp_all add: keeps_row)

theorem keeps_run_pipeline: "inv s \<Longrightarrow> inv (snd (run_pipeline x st tid run_id now s))"
proof (cases "get_tenant tid s")
  case (Inr tenant)
  let ?run = "fresh_run tid run_id now tenant"
  assume "inv s"
  then have "inv (snd (snd (snd (stage_loop x st STAGES ?run
      (foldl (\<lambda>s name. record_stage (stage_row ?run name ''PENDING'' []) s) s STAGES)))))"
    by (intro keeps_stage_loop keeps_rows) (simp_all add: fresh_run_def)
  then show ?thesis using Inr by (simp add: run_pipeline_def Let_def case_prod_beta)
qed (simp add: run_pipeline_def)

end

end
