(* ===== verification/Pipeline.thy ===== *)
theory Pipeline
  imports Frame
begin

text \<open>
  Properties of \<open>run_pipeline\<close> as a whole: what it returns and logs, the isolation of tenants and the status of
  the recommendations it creates.  They are instances of the frame lemmas of \<open>Frame\<close>; the sample run at the
  end of the first section goes through every stage and is used by the witnesses.
\<close>

section \<open>A sample run\<close>

declare find_loop.simps [code]

definition sample_settings :: settings where
  "sample_settings =
     \<lparr>st_pseudonym_hmac_secret = ''s'', st_measurement_hmac_secret = ''m'', st_worker_batch_size = 500,
      st_feed = \<lparr>fe_external_signal_source = ''canned'', fe_external_signal_live_base_url = []\<rparr>,
      st_external_signal_max_age_days = 14, st_graph_lookback_days = 90, st_activity_window_days = 30,
      st_min_edge_interactions = 3, st_circle_min_size = 3, st_edge_decay_halflife_days = 21,
      st_pattern_dip_threshold = 1 / 8, st_pattern_cohort_dip_threshold = 1 / 4, st_graph_profiles = [''WALLET''],
      st_business_value_months = 3, st_tabpfn_enabled = True, st_tabpfn_seed = 42, st_tabpfn_max_context_rows = 1000,
      st_risk_min_context_rows = 30, st_churn_scorer_enabled = True, st_churn_scorer_mapping_path = ''m.json'',
      st_impact_seed = 42, st_impact_min_train_rows = 1, st_impact_threshold = 1 / 16, st_impact_sure_thing_p = 3 / 4,
      st_ranker_min_context_rows = 100, st_allocator_strategy = ''auto'', st_allocator_cost_scale_idr = 1000,
      st_allocator_max_dp_cells = 20000000, st_default_budget_idr = 50000, st_frequency_cap_max_contacts = Some 2,
      st_frequency_cap_window_days = Some 7, st_responsible_lending_lookback_days = 60,
      st_responsible_lending_min_late_events = 1, st_measurement_control_pct = 20, st_measurement_naive_pct = 20,
      st_measurement_naive_risk_threshold = 1 / 2, st_measurement_min_arm_size = 30, st_feedback_use_in_context = True,
      st_feedback_min_rows_per_cycle = 10\<rparr>"

text \<open>Models that answer the share of ones in their context, texts for hashes, an empty feed and no narrator.\<close>

definition mean_classifier :: classifier where
  "mean_classifier seed cX cy q = Inr ([0, 1], map (\<lambda>_. let p = of_int (sum_list cy) / of_nat (length cy) in [1 - p, p]) q)"

definition sample_mapping :: scorer_mapping where
  "sample_mapping = \<lparr>sm_support_friction_min_contacts = 2, sm_positive_threshold = 1 / 4, sm_negative_threshold = 1 / 4,
     sm_amount_scale_idr = 1, sm_base_business_value_low = 0, sm_base_business_value_high = 1, sm_profile_by_type = [],
     sm_default_profile = ''retail'', sm_region_by_code = [], sm_default_region = ''jakarta'', sm_business_value_scale_idr = 1\<rparr>"

definition sample_scorer :: scorer where
  "sample_scorer = \<lparr>sco_model_name = ''TABPFN'', sco_device = ''cpu'', sco_context_row_count = 9000,
     sco_predict_with_neutral = (\<lambda>rows neutral. Inr (map (\<lambda>_. 1) rows, map (\<lambda>_. 1) rows))\<rparr>"

definition sample_externals :: externals where
  "sample_externals =
     \<lparr>x_sha256_hex = id, x_hmac_hex = (\<lambda>k m. k @ ''-'' @ m), x_hmac = (\<lambda>k m. [25]), x_repr = (\<lambda>v. ''?''),
      x_float_repr = (\<lambda>v. show_int \<lfloor>v\<rfloor>), x_fromisoformat = sample_iso, x_isoformat = (\<lambda>d. show_int (dt_instant d)),
      x_date = show_int, x_half_pow = (\<lambda>v. 1), x_tabpfn_classifier = mean_classifier, x_forest_classifier = mean_classifier,
      x_tabpfn_regressor = (\<lambda>seed X y q. Inr (map (\<lambda>_. 0) q)), x_forest_regressor = (\<lambda>seed X y q. Inr (map (\<lambda>_. 0) q)),
      x_rng = id, x_sample = (\<lambda>g es n. (take n es, g)), x_feed_loader = (\<lambda>st. Inr (JList [], ''canned'')),
      x_validate_item = (\<lambda>d. Inl (ValidationError ''item'')), x_load_mapping = (\<lambda>p. Inr sample_mapping),
      x_scorer = Some sample_scorer, x_narrator = None\<rparr>"

definition sample_label :: "bool \<Rightarrow> labeled_example" where
  "sample_label retained =
     \<lparr>le_tenant_id = ''t1'', le_source_outcome_id = (if retained then ''o1'' else ''o2''), le_user_pseudonym = ''u'',
      le_features = [], le_arm = ENGINE, le_treated = retained, le_retained = retained, le_churn_risk = None,
      le_impact_score = None, le_pattern_type = None, le_incentive_code = None, le_cost_idr = 0,
      le_business_value_idr = 0, le_realized_value_idr = 0\<rparr>"

definition sample_incentive :: incentive where
  "sample_incentive = \<lparr>in_code = ''CASH'', in_display_name = ''Cashback'', in_cost_idr = 2000, in_encourages_borrowing = False,
     in_changes_credit_terms = False, in_is_group = False, in_applicable_profile_types = [], in_active = True\<rparr>"

definition empty_store :: memory_store where
  "empty_store =
     \<lparr>ms_tenants = [], ms_raw_events = [], ms_canonical_events = [], ms_user_attributes = [], ms_incentives = [],
      ms_external_signals = [], ms_labeled_examples = [], ms_contacts = [], ms_stages = [], ms_circle_snapshots = [],
      ms_circles = [], ms_risk_scores = [], ms_impact_scores = [], ms_policy_decisions = [], ms_experiments = [],
      ms_arm_assignments = [], ms_allocations = [], ms_narrations = [], ms_feature_snapshots = [],
      ms_recommendations = [], ms_audit_log = [], ms_outcomes = []\<rparr>"

text \<open>A tenant with one raw event (of the given amount), one label of each class and one incentive; and another tenant.\<close>

definition sample_tenant :: "string \<Rightarrow> tenant_record" where
  "sample_tenant tid = \<lparr>tr_tenant_id = tid, tr_slug = ''t'', tr_profile_type = ''RETAIL'', tr_mapping = Normalize.sample_config\<rparr>"

definition sample_store :: "string \<Rightarrow> memory_store" where
  "sample_store amount =
     set_incentives ''t1'' [sample_incentive]
       (save_labeled_examples [sample_label True, sample_label False]
         (add_raw_events ''t2'' [sample_raw ''10'']
           (add_raw_events ''t1'' [sample_raw amount]
             (add_tenant (sample_tenant ''t2'') (add_tenant (sample_tenant ''t1'') empty_store)))))"

definition sample_run :: "string \<Rightarrow> pipeline_run_result result \<times> memory_store" where
  "sample_run amount = run_pipeline sample_externals sample_settings ''t1'' ''r1'' 5 (sample_store amount)"

section \<open>What a run returns and logs\<close>

definition settled :: "stage_outcome \<Rightarrow> bool" where
  "settled o1 \<longleftrightarrow> so_status o1 = ''DONE'' \<or> so_status o1 = ''SKIPPED''"

lemma stage_loop_shape:
  assumes "stage_loop x st names run s = (run', status, outcomes, s')"
  shows "map so_stage outcomes = names \<and>
    (status = ''DONE'' \<and> list_all settled outcomes
     \<or> status = ''FAILED'' \<and> (\<exists>before o1 after. outcomes = before @ o1 # after \<and> list_all settled before
         \<and> so_status o1 = ''FAILED'' \<and> list_all (\<lambda>o2. so_status o2 = ''PENDING'' \<and> so_detail o2 = []) after))"
  using assms
proof (induction names arbitrary: run s outcomes s')
  case (Cons name names)
  let ?s1 = "record_stage (stage_row run name ''RUNNING'' []) s"
  obtain r run1 s2 where f: "stage_function name x st run ?s1 = (r, run1, s2)" by (cases "stage_function name x st run ?s1")
  show ?case
  proof (cases r)
    case (Inl e)
    have pending: "list_all (\<lambda>o2. so_status o2 = ''PENDING'' \<and> so_detail o2 = []) (map (\<lambda>n. outcome n ''PENDING'' []) ns)" for ns
      by (induction ns) (simp_all add: outcome_def)
    have "outcomes = outcome name ''FAILED'' [(''error'', JStr (exn_text e))] # map (\<lambda>n. outcome n ''PENDING'' []) names"
      and "status = ''FAILED''"
      using Cons.prems by (auto simp: f Inl Let_def)
    then show ?thesis
      using pending [of names] by (intro conjI disjI2 exI [of _ "[]"] exI) (auto simp: outcome_def comp_def)
  next
    case (Inr d)
    let ?o = "outcome name (done_status d) (popped d)"
    obtain outs where rest: "stage_loop x st names run1 (record_stage (stage_row run name (done_status d) (popped d)) s2)
        = (run', status, outs, s')" and outs: "outcomes = ?o # outs"
      using Cons.prems by (auto simp: f Inr Let_def split: prod.splits)
    have o: "settled ?o" by (simp add: settled_def outcome_def done_status_def)
    have name: "so_stage ?o = name" by (simp add: outcome_def)
    from Cons.IH [OF rest] show ?thesis
    proof (elim conjE disjE exE)
      fix before o1 after assume "status = ''FAILED''" "outs = before @ o1 # after" "list_all settled before"
        "so_status o1 = ''FAILED''" "list_all (\<lambda>o2. so_status o2 = ''PENDING'' \<and> so_detail o2 = []) after" "map so_stage outs = names"
      then show ?thesis
        using o name by (intro conjI disjI2 exI [of _ "?o # before"] exI [of _ o1] exI [of _ after]) (simp_all add: outs)
    qed (simp add: outs o name)
  qed
qed simp

text \<open>What the loop appends to the log for its outcomes.\<close>

definition log_of :: "string \<Rightarrow> string \<Rightarrow> stage_outcome list \<Rightarrow> stage_record list" where
  "log_of tid run_id outcomes = concat (map (\<lambda>o1. if so_status o1 = ''PENDING'' then [] else
     map (\<lambda>(status, d). \<lparr>sr_run_id = run_id, sr_tenant_id = tid, sr_stage = so_stage o1, sr_status = status, sr_detail = d\<rparr>)
       [(''RUNNING'', []), (so_status o1, so_detail o1)]) outcomes)"

lemma log_of_pending [simp]: "log_of tid run_id (map (\<lambda>n. outcome n ''PENDING'' []) names) = []"
  by (simp add: log_of_def outcome_def)

lemma log_of_Cons:
  "log_of tid run_id (o1 # os) = log_of tid run_id [o1] @ log_of tid run_id os"
  by (simp add: log_of_def)

lemma stage_loop_log:
  assumes "stage_loop x st names run s = (run', status, outcomes, s')" and "owns_outcomes (ru_tenant_id run) s"
  shows "ms_stages s' = ms_stages s @ log_of (ru_tenant_id run) (ru_run_id run) outcomes"
  using assms
proof (induction names arbitrary: run s outcomes s')
  case (Cons name names)
  let ?row = "stage_row run name" and ?log = "log_of (ru_tenant_id run) (ru_run_id run)"
  let ?s1 = "record_stage (?row ''RUNNING'' []) s"
  obtain r run1 s2 where f: "stage_function name x st run ?s1 = (r, run1, s2)" by (cases "stage_function name x st run ?s1")
  have "logged (ms_stages s @ [?row ''RUNNING'' []]) (ru_tenant_id run) ?s1"
    using Cons.prems(2) by (simp add: logged_def record_stage_def owns_outcomes_def load_outcomes_def)
  from stage_log.keeps_stage_function [OF this refl, of name x st] f
  have s2: "logged (ms_stages s @ [?row ''RUNNING'' []]) (ru_tenant_id run) s2" by simp
  then have stages2: "ms_stages s2 = ms_stages s @ [?row ''RUNNING'' []]" by (simp add: logged_def)
  have same: "ru_tenant_id run1 = ru_tenant_id run" "ru_run_id run1 = ru_run_id run"
    using stage_function_same_run [of run name x st ?s1] f by (simp_all add: same_run_def)
  show ?case
  proof (cases r)
    case (Inl e)
    let ?o = "outcome name ''FAILED'' [(''error'', JStr (exn_text e))]"
    have "outcomes = ?o # map (\<lambda>n. outcome n ''PENDING'' []) names"
      and "s' = record_stage (?row ''FAILED'' [(''error'', JStr (exn_text e))]) s2"
      using Cons.prems(1) by (auto simp: f Inl Let_def)
    moreover have "?log [?o] = [?row ''RUNNING'' [], ?row ''FAILED'' [(''error'', JStr (exn_text e))]]"
      by (simp add: log_of_def outcome_def stage_row_def)
    ultimately show ?thesis
      using stages2 by (simp add: log_of_Cons [of _ _ ?o "map (\<lambda>n. outcome n ''PENDING'' []) names"] record_stage_def)
  next
    case (Inr d)
    let ?o = "outcome name (done_status d) (popped d)" and ?s3 = "record_stage (?row (done_status d) (popped d)) s2"
    obtain outs where rest: "stage_loop x st names run1 ?s3 = (run', status, outs, s')" and outs: "outcomes = ?o # outs"
      using Cons.prems(1) by (auto simp: f Inr Let_def split: prod.splits)
    have "owns_outcomes (ru_tenant_id run1) ?s3"
      using s2 same by (simp add: logged_def record_stage_def owns_outcomes_def load_outcomes_def)
    from Cons.IH [OF rest this] same stages2 have "ms_stages s' = ms_stages s @ [?row ''RUNNING'' [], ?row (done_status d) (popped d)] @ ?log outs"
      by (simp add: record_stage_def)
    moreover have "?log [?o] = [?row ''RUNNING'' [], ?row (done_status d) (popped d)]"
      by (simp add: log_of_def outcome_def stage_row_def done_status_def)
    ultimately show ?thesis by (simp add: outs log_of_Cons [of _ _ ?o outs])
  qed
qed (simp add: log_of_def)

text \<open>
  C19. A run of a known tenant always returns.  Its outcomes are the eleven stages in order: either the run is
  DONE and every stage is DONE or SKIPPED, or it is FAILED, exactly one stage failed, every stage before it
  is DONE or SKIPPED, and every stage after it is PENDING with no detail.  For an unknown tenant nothing is written.
\<close>

theorem run_pipeline_outcome:
  shows "(case run_pipeline x st tid run_id now s of
      (Inl e, s') \<Rightarrow> e = KeyError tid \<and> s' = s \<and> map_of (ms_tenants s) tid = None
    | (Inr res, s') \<Rightarrow>
        res_run_id res = run_id \<and> res_tenant_id res = tid \<and> map so_stage (res_stages res) = STAGES
        \<and> (res_status res = ''DONE'' \<and> list_all settled (res_stages res)
           \<or> res_status res = ''FAILED'' \<and> (\<exists>before o1 after. res_stages res = before @ o1 # after \<and> list_all settled before
               \<and> so_status o1 = ''FAILED'' \<and> list_all (\<lambda>o2. so_status o2 = ''PENDING'' \<and> so_detail o2 = []) after)))"
proof (cases "get_tenant tid s")
  case (Inl e)
  then show ?thesis by (auto simp: run_pipeline_def get_tenant_def split: option.splits)
next
  case (Inr tenant)
  let ?run = "fresh_run tid run_id now tenant"
  let ?s1 = "foldl (\<lambda>s name. record_stage (stage_row ?run name ''PENDING'' []) s) s STAGES"
  obtain run' status outs s' where loop: "stage_loop x st STAGES ?run ?s1 = (run', status, outs, s')"
    by (cases "stage_loop x st STAGES ?run ?s1")
  from stage_loop_shape [OF loop] show ?thesis by (simp add: run_pipeline_def Inr loop)
qed

text \<open>
  The log of stages refines what the run returns: the run appends a PENDING row for every stage, and then
  for each stage it executed a RUNNING row and the row with the status and the detail it reports.  (The
  outcomes of the tenant must be labelled with the tenant, as \<open>add_outcomes\<close> files them.)
\<close>

theorem run_pipeline_log:
  assumes "owns_outcomes tid s"
  shows "(case run_pipeline x st tid run_id now s of
      (Inl e, s') \<Rightarrow> ms_stages s' = ms_stages s
    | (Inr res, s') \<Rightarrow> ms_stages s' = ms_stages s
        @ map (\<lambda>n. \<lparr>sr_run_id = run_id, sr_tenant_id = tid, sr_stage = n, sr_status = ''PENDING'', sr_detail = []\<rparr>) STAGES
        @ log_of tid run_id (res_stages res))"
proof (cases "get_tenant tid s")
  case (Inl e)
  then show ?thesis by (simp add: run_pipeline_def)
next
  case (Inr tenant)
  let ?run = "fresh_run tid run_id now tenant" and ?row = "\<lambda>n. stage_row (fresh_run tid run_id now tenant) n ''PENDING'' []"
  have rows: "ms_stages (foldl (\<lambda>s n. record_stage (?row n) s) s names) = ms_stages s @ map ?row names
    \<and> ms_outcomes (foldl (\<lambda>s n. record_stage (?row n) s) s names) = ms_outcomes s" for names s
    by (induction names arbitrary: s) (simp_all add: record_stage_def)
  let ?s1 = "foldl (\<lambda>s n. record_stage (?row n) s) s STAGES"
  obtain run' status outs s' where loop: "stage_loop x st STAGES ?run ?s1 = (run', status, outs, s')"
    by (cases "stage_loop x st STAGES ?run ?s1")
  have "owns_outcomes (ru_tenant_id ?run) ?s1"
    using assms by (simp add: owns_outcomes_def load_outcomes_def rows) (simp add: fresh_run_def)
  from stage_loop_log [OF loop this] show ?thesis
    by (simp add: run_pipeline_def Inr loop rows) (simp add: stage_row_def fresh_run_def)
qed

lemma sample_owns: "owns_outcomes tid (sample_store amount)"
  by (simp add: owns_outcomes_def load_outcomes_def sample_store_def set_incentives_def save_labeled_examples_def
      save_labeled_example_def add_raw_events_def add_tenant_def empty_store_def bucket_of_def dict_get_def Let_def)

theorem run_pipeline_log_witness:
  "case sample_run ''Infinity'' of
     (Inl e, s') \<Rightarrow> False
   | (Inr res, s') \<Rightarrow> res_status res = ''FAILED'' \<and> map so_status (take 2 (res_stages res)) = [''FAILED'', ''PENDING'']
       \<and> ms_stages s' = ms_stages (sample_store ''Infinity'')
         @ map (\<lambda>n. \<lparr>sr_run_id = ''r1'', sr_tenant_id = ''t1'', sr_stage = n, sr_status = ''PENDING'', sr_detail = []\<rparr>) STAGES
         @ log_of ''t1'' ''r1'' (res_stages res)"
proof -
  have "case fst (sample_run ''Infinity'') of Inl e \<Rightarrow> False
    | Inr res \<Rightarrow> res_status res = ''FAILED'' \<and> map so_status (take 2 (res_stages res)) = [''FAILED'', ''PENDING'']"
    by code_simp
  then show ?thesis
    using run_pipeline_log [OF sample_owns [of "''t1''" "''Infinity''"], where x = sample_externals
        and st = sample_settings and run_id = "''r1''" and now = 5]
    by (auto simp: sample_run_def split: prod.splits sum.splits)
qed

section \<open>Tenants and approval\<close>

text \<open>
  C11. A run for one tenant leaves every row of every other tenant (events, attributes, labels, scores, arms,
  allocations, narrations, snapshots, recommendations, audit entries, outcomes and the log of stages) as it was.
\<close>

theorem run_pipeline_isolated:
  assumes "owns_outcomes tid s" and "t \<noteq> tid"
  shows "tenant_rows (snd (run_pipeline x st tid run_id now s)) t = tenant_rows s t"
  using isolation.keeps_run_pipeline [of s tid s x st run_id now] assms by (simp add: isolated_def)

theorem run_pipeline_isolated_witness:
  "tenant_rows (snd (sample_run ''2500.5'')) ''t2'' = tenant_rows (sample_store ''2500.5'') ''t2''"
  unfolding sample_run_def by (rule run_pipeline_isolated [OF sample_owns]) simp

text \<open>
  C3. A run approves nothing: every recommendation in the store after it was there before or belongs to the
  tenant, is PENDING_APPROVAL and has neither a reviewer nor a time of review.
\<close>

theorem run_pipeline_only_pending:
  assumes "owns_outcomes tid s"
  shows "list_all (\<lambda>(i, r). (i, r) \<in> set (bucket_of (ms_recommendations s) t)
      \<or> nr_tenant_id r = t \<and> nr_status r = PENDING_APPROVAL \<and> nr_reviewed_by r = None \<and> nr_reviewed_at r = None)
    (bucket_of (ms_recommendations (snd (run_pipeline x st tid run_id now s))) t)"
  using pending.keeps_run_pipeline [of s tid s x st run_id now] assms
  by (fastforce simp: only_pending_def fresh_row_def list_all_iff)

theorem run_pipeline_only_pending_witness:
  "list_all (\<lambda>(i, r). nr_status r = PENDING_APPROVAL \<and> nr_reviewed_by r = None)
    (bucket_of (ms_recommendations (snd (sample_run ''2500.5''))) ''t1'')"
proof -
  have "bucket_of (ms_recommendations (sample_store ''2500.5'')) ''t1'' = []" by code_simp
  then show ?thesis
    using run_pipeline_only_pending [OF sample_owns [of "''t1''" "''2500.5''"], where t = "''t1''"
        and x = sample_externals and st = sample_settings and run_id = "''r1''" and now = 5]
    by (auto simp: sample_run_def list_all_iff)
qed

end
