(* ===== verification/Ingest.thy ===== *)
theory Ingest
  imports Pipeline
begin

text \<open>
  Properties of the INGEST stage: claiming in batches is invisible when every event is settled, and one event
  that raises something other than a \<open>MappingError\<close> stops the tenant's runs for good.
\<close>

section \<open>What becomes of a raw event\<close>

text \<open>The status, the error and the canonical event a body is settled with; or the exception that escapes.\<close>

definition verdict ::
  "externals \<Rightarrow> string \<Rightarrow> tenant_mapping_config \<Rightarrow> string \<Rightarrow> (string \<times> json) list \<Rightarrow>
   (string \<times> string option \<times> canonical_event list) result" where
  "verdict x tid config secret body =
     (case normalize (x_hmac_hex x) (x_repr x) (x_fromisoformat x) tid body config secret of
        Inl (MappingError m) \<Rightarrow> Inr (''UNMAPPED'', Some m, [])
      | Inl e \<Rightarrow> Inl e
      | Inr event \<Rightarrow> Inr (''PROCESSED'', None, [event]))"

definition settle ::
  "externals \<Rightarrow> string \<Rightarrow> tenant_mapping_config \<Rightarrow> string \<Rightarrow> raw_event_record \<Rightarrow> raw_event_record" where
  "settle x tid config secret r = (case verdict x tid config secret (re_body r) of
       Inl e \<Rightarrow> r
     | Inr (status, err, events) \<Rightarrow> r\<lparr>re_status := status, re_error := err\<rparr>)"

definition events_of ::
  "externals \<Rightarrow> string \<Rightarrow> tenant_mapping_config \<Rightarrow> string \<Rightarrow> raw_event_record list \<Rightarrow> canonical_event list" where
  "events_of x tid config secret rs = concat (map (\<lambda>r. case verdict x tid config secret (re_body r) of
       Inl e \<Rightarrow> [] | Inr (status, err, events) \<Rightarrow> events) rs)"

lemma verdict_Inl: "verdict x tid config secret body = Inl e \<longleftrightarrow>
  normalize (x_hmac_hex x) (x_repr x) (x_fromisoformat x) tid body config secret = Inl e \<and> (\<forall>m. e \<noteq> MappingError m)"
  by (auto simp: verdict_def split: sum.splits exn.splits)

lemma settle_body [simp]: "re_body (settle x tid config secret r) = re_body r"
  by (auto simp: settle_def split: sum.splits)

lemma settle_id [simp]: "re_raw_event_id (settle x tid config secret r) = re_raw_event_id r"
  by (auto simp: settle_def split: sum.splits)

lemma settle_not_new:
  "verdict x tid config secret (re_body r) = Inr v \<Longrightarrow> re_status (settle x tid config secret r) \<noteq> ''NEW''"
  by (auto simp: settle_def verdict_def split: sum.splits exn.splits)

lemma settle_settle [simp]: "settle x tid config secret (settle x tid config secret r) = settle x tid config secret r"
  by (auto simp: settle_def split: sum.splits)

section \<open>One batch\<close>

abbreviation raw_of :: "memory_store \<Rightarrow> string \<Rightarrow> raw_event_record list" where
  "raw_of s tid \<equiv> bucket_of (ms_raw_events s) tid"

lemma raw_of_upsert [simp]: "raw_of (upsert_user_attributes t u a s) tid = raw_of s tid"
  by (simp add: upsert_user_attributes_def Let_def)

lemma raw_of_save [simp]: "raw_of (snd (save_canonical_events t es s)) tid = raw_of s tid"
  by (simp add: save_canonical_events_def Let_def split: prod.splits)

lemma raw_of_mark: "raw_of (mark_raw_event tid i status err s) tid =
  map (\<lambda>r. if re_raw_event_id r = i then r\<lparr>re_status := status, re_error := err\<rparr> else r) (raw_of s tid)"
  by (simp add: mark_raw_event_def)

lemma canonical_kept [simp]:
  "ms_canonical_events (mark_raw_event t i status err s) = ms_canonical_events s"
  "ms_canonical_events (upsert_user_attributes t u a s) = ms_canonical_events s"
  by (simp_all add: mark_raw_event_def upsert_user_attributes_def Let_def)

text \<open>The claimed copies agree with the stored rows: the same identifier has the same body.\<close>

definition agree :: "raw_event_record list \<Rightarrow> raw_event_record list \<Rightarrow> bool" where
  "agree batch rows \<longleftrightarrow> (\<forall>raw \<in> set batch. \<forall>r \<in> set rows. re_raw_event_id r = re_raw_event_id raw \<longrightarrow> re_body r = re_body raw)"

lemma mark_settles:
  assumes "agree [raw] rows" and "verdict x tid config secret (re_body raw) = Inr (status, err, evs)"
  shows "map (\<lambda>r. if re_raw_event_id r = re_raw_event_id raw then r\<lparr>re_status := status, re_error := err\<rparr> else r) rows
    = map (\<lambda>r. if re_raw_event_id r = re_raw_event_id raw then settle x tid config secret r else r) rows"
  using assms by (auto simp: agree_def settle_def)

lemma agree_settled:
  "agree (raw # batch) rows \<Longrightarrow>
   agree batch (map (\<lambda>r. if re_raw_event_id r = re_raw_event_id raw then settle x tid config secret r else r) rows)"
  by (auto simp: agree_def)

text \<open>A batch is a fold of verdicts; the step for an event that has one.\<close>

lemma ingest_batch_step:
  assumes "verdict x tid config secret (re_body raw) = Inr (status, err, evs)"
  obtains p' u' s1 where
    "\<And>batch can. ingest_batch x tid config secret (raw # batch) can p u s = ingest_batch x tid config secret batch (can @ evs) p' u' s1"
    and "p' + u' = p + u + 1"
    and "raw_of s1 tid = map (\<lambda>r. if re_raw_event_id r = re_raw_event_id raw
           then r\<lparr>re_status := status, re_error := err\<rparr> else r) (raw_of s tid)"
    and "ms_canonical_events s1 = ms_canonical_events s"
proof (cases "normalize (x_hmac_hex x) (x_repr x) (x_fromisoformat x) tid (re_body raw) config secret")
  case (Inl e)
  then obtain m where e: "e = MappingError m" using assms by (cases e) (auto simp: verdict_def)
  show ?thesis
    by (rule that [of p "u + 1" "mark_raw_event tid (re_raw_event_id raw) ''UNMAPPED'' (Some m) s"])
       (use assms Inl e in \<open>simp_all add: verdict_def raw_of_mark\<close>)
next
  case (Inr event)
  let ?s1 = "if e_attributes event \<noteq> [] then upsert_user_attributes tid (e_user_pseudonym event) (e_attributes event) s else s"
  show ?thesis
    by (rule that [of "p + 1" u "mark_raw_event tid (re_raw_event_id raw) ''PROCESSED'' None ?s1"])
       (use assms Inr in \<open>simp_all add: verdict_def raw_of_mark Let_def\<close>)
qed

lemma ingest_batch_escape:
  assumes "verdict x tid config secret (re_body raw) = Inl e"
  shows "ingest_batch x tid config secret (raw # batch) can p u s = (Inl e, s)"
  using assms by (cases e) (auto simp: verdict_Inl)

lemma ingest_batch_returns:
  assumes "ingest_batch x tid config secret batch can p u s = (Inr (can', p', u'), s')" and "agree batch (raw_of s tid)"
  shows "can' = can @ events_of x tid config secret batch \<and> p' + u' = p + u + int (length batch)
    \<and> ms_canonical_events s' = ms_canonical_events s
    \<and> list_all (\<lambda>raw. \<exists>v. verdict x tid config secret (re_body raw) = Inr v) batch
    \<and> raw_of s' tid = map (\<lambda>r. if re_raw_event_id r \<in> re_raw_event_id ` set batch then settle x tid config secret r else r) (raw_of s tid)"
  using assms
proof (induction batch arbitrary: can p u s)
  case (Cons raw batch)
  obtain status err evs where v: "verdict x tid config secret (re_body raw) = Inr (status, err, evs)"
    using Cons.prems(1) ingest_batch_escape by (cases "verdict x tid config secret (re_body raw)") fastforce+
  obtain p1 u1 s1 where
    step: "\<And>batch can. ingest_batch x tid config secret (raw # batch) can p u s = ingest_batch x tid config secret batch (can @ evs) p1 u1 s1"
    and count: "p1 + u1 = p + u + 1"
    and raw1: "raw_of s1 tid = map (\<lambda>r. if re_raw_event_id r = re_raw_event_id raw
           then r\<lparr>re_status := status, re_error := err\<rparr> else r) (raw_of s tid)"
    and canonical: "ms_canonical_events s1 = ms_canonical_events s"
    by (rule ingest_batch_step [OF v, where p = p and u = u and s = s]) (rule that)
  have rows: "raw_of s1 tid = map (\<lambda>r. if re_raw_event_id r = re_raw_event_id raw then settle x tid config secret r else r) (raw_of s tid)"
    unfolding raw1 using Cons.prems(2) v by (intro mark_settles) (simp_all add: agree_def)
  have "agree batch (raw_of s1 tid)" unfolding rows by (rule agree_settled) (rule Cons.prems(2))
  from Cons.IH [OF Cons.prems(1) [unfolded step] this] show ?case
    using count canonical v by (auto simp: rows events_of_def)
qed (simp add: events_of_def)

section \<open>The loop\<close>

lemma claim_take:
  "1 \<le> n \<Longrightarrow> claim_raw_events tid n s = take (nat n) (new_events tid s)"
  by (simp add: claim_raw_events_def py_take_def new_events_def)

lemma distinct_agree:
  assumes "distinct (map re_raw_event_id rows)" and "set batch \<subseteq> set rows"
  shows "agree batch rows"
  using assms by (auto simp: agree_def distinct_map dest: inj_onD)

lemma new_events_sub: "set (new_events tid s) \<subseteq> set (raw_of s tid)"
  by (auto simp: new_events_def)

lemma claim_agree:
  "distinct (map re_raw_event_id (raw_of s tid)) \<Longrightarrow> agree (claim_raw_events tid n s) (raw_of s tid)"
  using claim_sub new_events_sub by (intro distinct_agree) fastforce+

definition settled_row ::
  "externals \<Rightarrow> string \<Rightarrow> tenant_mapping_config \<Rightarrow> string \<Rightarrow> raw_event_record \<Rightarrow> raw_event_record" where
  "settled_row x tid config secret r = (if re_status r = ''NEW'' then settle x tid config secret r else r)"

lemma batch_rows:
  assumes "distinct (map re_raw_event_id rows)" and "set batch \<subseteq> set rows" and "\<forall>r \<in> set batch. re_status r = ''NEW''"
    and "list_all (\<lambda>raw. \<exists>v. verdict x tid config secret (re_body raw) = Inr v) batch"
  shows "map (settled_row x tid config secret)
      (map (\<lambda>r. if re_raw_event_id r \<in> re_raw_event_id ` set batch then settle x tid config secret r else r) rows)
    = map (settled_row x tid config secret) rows"
proof -
  have "settled_row x tid config secret (settle x tid config secret r) = settled_row x tid config secret r"
    if "r \<in> set rows" "re_raw_event_id r \<in> re_raw_event_id ` set batch" for r
  proof -
    have "r \<in> set batch" using that assms(1,2) by (auto simp: distinct_map dest: inj_onD)
    then show ?thesis using assms(3) by (simp add: settled_row_def)
  qed
  then show ?thesis by (simp add: comp_def)
qed

lemma foldl_add_event_save:
  "save_canonical_events tid es s = (Inr n, s') \<Longrightarrow>
   bucket_of (ms_canonical_events s') tid = foldl add_event (bucket_of (ms_canonical_events s) tid) es"
  by (auto simp: save_canonical_events_def split: prod.splits dest: save_events_loop_Inr)

lemma filter_drop:
  assumes "distinct (map f xs)"
  shows "filter (\<lambda>a. f a \<notin> f ` set (take n xs)) xs = drop n xs"
proof -
  have "distinct (map f (take n xs @ drop n xs))" using assms by simp
  then have "f a \<notin> f ` set (take n xs)" if "a \<in> set (drop n xs)" for a using that by (auto simp del: append_take_drop_id)
  then have "filter (\<lambda>a. f a \<notin> f ` set (take n xs)) (take n xs @ drop n xs) = drop n xs" by (simp del: append_take_drop_id)
  then show ?thesis by simp
qed

lemma distinct_marks:
  "map re_raw_event_id (map (\<lambda>r. if P r then settle x tid config secret r else r) rows) = map re_raw_event_id rows"
  by simp

lemma ingest_loop_returns:
  assumes "ingest_loop x st tid config p u s = (Inr (p', u'), s')" and "1 \<le> st_worker_batch_size st"
    and "distinct (map re_raw_event_id (raw_of s tid))"
  shows "raw_of s' tid = map (settled_row x tid config (st_pseudonym_hmac_secret st)) (raw_of s tid)
    \<and> new_events tid s' = []
    \<and> bucket_of (ms_canonical_events s') tid =
        foldl add_event (bucket_of (ms_canonical_events s) tid) (events_of x tid config (st_pseudonym_hmac_secret st) (new_events tid s))
    \<and> p' + u' = p + u + int (length (new_events tid s))"
  using assms
proof (induction "length (new_events tid s)" arbitrary: p u s rule: less_induct)
  case less
  let ?secret = "st_pseudonym_hmac_secret st" and ?batch = "claim_raw_events tid (st_worker_batch_size st) s"
  note claim = claim_take [OF less.prems(2), of tid s]
  show ?case
  proof (cases "?batch = []")
    case True
    then have none: "new_events tid s = []" using claim less.prems(2) by simp
    then have "\<forall>r \<in> set (raw_of s tid). re_status r \<noteq> ''NEW''" by (auto simp: new_events_def filter_empty_conv)
    then have rows: "map (settled_row x tid config ?secret) (raw_of s tid) = raw_of s tid"
      by (intro map_idI) (simp add: settled_row_def)
    have "p' = p \<and> u' = u \<and> s' = s" using less.prems(1) True by (subst (asm) ingest_loop.simps) (simp add: Let_def)
    then show ?thesis using none rows by (simp add: events_of_def)
  next
    case False
    then obtain can p1 u1 s1 n s2 where
      b: "ingest_batch x tid config ?secret ?batch [] p u s = (Inr (can, p1, u1), s1)" and
      c: "save_canonical_events tid can s1 = (Inr n, s2)" and
      rest: "ingest_loop x st tid config p1 u1 s2 = (Inr (p', u'), s')"
      using less.prems(1) by (subst (asm) ingest_loop.simps) (auto simp: Let_def split: prod.splits sum.splits)
    note eff = ingest_batch_returns [OF b claim_agree [OF less.prems(3)]]
    have raw2: "raw_of s2 tid = raw_of s1 tid" using raw_of_save [of tid can s1 tid] c by simp
    have ids: "distinct (map re_raw_event_id (raw_of s2 tid))"
      using less.prems(3) eff by (simp add: raw2 distinct_marks del: map_map)
    have ids_new: "distinct (map re_raw_event_id (new_events tid s))"
      using less.prems(3) by (simp add: new_events_def distinct_map_filter)
    have "new_events tid s2 = new_events tid s1" using new_events_save [of tid tid can s1] c by simp
    then have new2: "new_events tid s2 = drop (nat (st_worker_batch_size st)) (new_events tid s)"
      using ingest_batch_new [OF b] filter_drop [OF ids_new, of "nat (st_worker_batch_size st)"] by (simp add: claim)
    have fewer: "length (new_events tid s2) < length (new_events tid s)"
      using False claim less.prems(2) by (cases "new_events tid s") (simp_all add: new2)
    have all: "events_of x tid config ?secret ?batch @ events_of x tid config ?secret (new_events tid s2)
        = events_of x tid config ?secret (new_events tid s)"
      unfolding new2 claim by (metis append_take_drop_id concat_append events_of_def map_append)
    have sub: "set ?batch \<subseteq> set (raw_of s tid)" "\<forall>r \<in> set ?batch. re_status r = ''NEW''"
      using claim_sub [of tid "st_worker_batch_size st" s] by (auto simp: new_events_def)
    have rows: "map (settled_row x tid config ?secret) (raw_of s2 tid) = map (settled_row x tid config ?secret) (raw_of s tid)"
      unfolding raw2 using eff batch_rows [OF less.prems(3) sub] by (simp del: map_map)
    have events: "bucket_of (ms_canonical_events s2) tid = foldl add_event (bucket_of (ms_canonical_events s) tid) can"
      using foldl_add_event_save [OF c] eff by simp
    have count: "int (length ?batch) + int (length (new_events tid s2)) = int (length (new_events tid s))"
      unfolding new2 claim by simp
    from less.hyps [OF fewer rest less.prems(2) ids] show ?thesis
      using eff events all count rows by (simp flip: foldl_append)
  qed
qed

section \<open>An event that escapes\<close>

text \<open>Such an event stays NEW through a batch, and a batch that holds it raises.\<close>

lemma batch_keeps_poison:
  assumes "raw0 \<in> set (new_events tid s)" and "verdict x tid config secret (re_body raw0) = Inl e0"
    and "agree batch [raw0]"
  shows "raw0 \<in> set (new_events tid (snd (ingest_batch x tid config secret batch can p u s)))
    \<and> (raw0 \<in> set batch \<longrightarrow> (\<exists>e. fst (ingest_batch x tid config secret batch can p u s) = Inl e))"
  using assms
proof (induction batch arbitrary: can p u s)
  case (Cons raw batch)
  show ?case
  proof (cases "verdict x tid config secret (re_body raw)")
    case (Inl e)
    then show ?thesis using Cons.prems(1) by (simp add: ingest_batch_escape del: ingest_batch.simps)
  next
    case (Inr v)
    obtain status err evs where v: "v = (status, err, evs)" by (cases v)
    obtain p1 u1 s1 where
      step: "\<And>batch can. ingest_batch x tid config secret (raw # batch) can p u s = ingest_batch x tid config secret batch (can @ evs) p1 u1 s1"
      and raw1: "raw_of s1 tid = map (\<lambda>r. if re_raw_event_id r = re_raw_event_id raw
             then r\<lparr>re_status := status, re_error := err\<rparr> else r) (raw_of s tid)"
      by (rule ingest_batch_step [OF Inr [unfolded v], where p = p and u = u and s = s]) (rule that)
    have other: "re_raw_event_id raw0 \<noteq> re_raw_event_id raw"
      using Cons.prems(2,3) Inr by (auto simp: agree_def)
    then have "raw0 \<in> set (new_events tid s1)" using Cons.prems(1) by (auto simp: new_events_def raw1)
    moreover have "agree batch [raw0]" using Cons.prems(3) by (simp add: agree_def)
    ultimately show ?thesis using Cons.IH [OF _ Cons.prems(2)] other
      by (auto simp: step simp del: ingest_batch.simps)
  qed
qed simp

lemma loop_keeps_poison:
  assumes "1 \<le> st_worker_batch_size st" and "distinct (map re_raw_event_id (raw_of s tid))"
    and "raw0 \<in> set (new_events tid s)" and "verdict x tid config (st_pseudonym_hmac_secret st) (re_body raw0) = Inl e0"
  shows "\<exists>e s'. ingest_loop x st tid config p u s = (Inl e, s') \<and> raw0 \<in> set (new_events tid s')"
  using assms
proof (induction "length (new_events tid s)" arbitrary: p u s rule: less_induct)
  case less
  let ?secret = "st_pseudonym_hmac_secret st" and ?batch = "claim_raw_events tid (st_worker_batch_size st) s"
  have nonempty: "?batch \<noteq> []" using claim_take [OF less.prems(1), of tid s] less.prems(1,3) by (auto simp: take_eq_Nil)
  have "agree ?batch [raw0]"
    using claim_agree [OF less.prems(2)] new_events_sub less.prems(3) by (fastforce simp: agree_def)
  note batch = batch_keeps_poison [OF less.prems(3,4) this, of "[]" p u]
  show ?case
  proof (cases "ingest_batch x tid config ?secret ?batch [] p u s")
    case (Pair r s1)
    then have poison1: "raw0 \<in> set (new_events tid s1)" using batch by simp
    show ?thesis
    proof (cases r)
      case (Inl e)
      then show ?thesis using Pair nonempty poison1 by (subst ingest_loop.simps) (auto simp: Let_def)
    next
      case (Inr q)
      obtain can p1 u1 where q: "q = (can, p1, u1)" by (cases q)
      obtain n s2 where c: "save_canonical_events tid can s1 = (n, s2)" by fastforce
      have new2: "new_events tid s2 = new_events tid s1" using new_events_save [of tid tid can s1] c by simp
      have raw2: "raw_of s2 tid = raw_of s1 tid" using raw_of_save [of tid can s1 tid] c by simp
      have fewer: "length (new_events tid s2) < length (new_events tid s)"
        using ingest_round_less [OF nonempty Pair [unfolded Inr]] by (simp add: new2)
      have ids: "distinct (map re_raw_event_id (raw_of s2 tid))"
        using ingest_batch_returns [OF Pair [unfolded Inr q] claim_agree [OF less.prems(2)]] less.prems(2)
        by (simp add: raw2 distinct_marks del: map_map)
      have "raw0 \<in> set (new_events tid s2)" using poison1 by (simp add: new2)
      from less.hyps [OF fewer less.prems(1) ids this less.prems(4), of p1 u1] show ?thesis
        using Pair Inr q c nonempty poison1
        by (subst ingest_loop.simps) (auto simp: Let_def new2 split: sum.splits)
    qed
  qed
qed

text \<open>Without one the loop returns.\<close>

lemma ingest_batch_ok:
  assumes "\<forall>raw \<in> set batch. \<exists>v. verdict x tid config secret (re_body raw) = Inr v"
  shows "\<exists>r s'. ingest_batch x tid config secret batch can p u s = (Inr r, s')"
  using assms
proof (induction batch arbitrary: can p u s)
  case (Cons raw batch)
  obtain status err evs where v: "verdict x tid config secret (re_body raw) = Inr (status, err, evs)"
    using Cons.prems by (auto simp: split_paired_Ex)
  obtain p1 u1 s1 where
    "\<And>batch can. ingest_batch x tid config secret (raw # batch) can p u s = ingest_batch x tid config secret batch (can @ evs) p1 u1 s1"
    by (rule ingest_batch_step [OF v, where p = p and u = u and s = s]) (rule that)
  then show ?case using Cons by (simp del: ingest_batch.simps)
qed simp

lemma verdict_tenant:
  assumes "verdict x tid config secret body = Inr (status, err, evs)" and "e \<in> set evs"
  shows "e_tenant_id e = tid"
proof (cases "normalize (x_hmac_hex x) (x_repr x) (x_fromisoformat x) tid body config secret")
  case (Inl exn)
  then show ?thesis using assms by (cases exn) (auto simp: verdict_def)
next
  case (Inr event)
  then show ?thesis using assms conjunct2 [OF normalize_Inr [OF Inr]] by (auto simp: verdict_def)
qed

lemma events_of_tenant: "e \<in> set (events_of x tid config secret rs) \<Longrightarrow> e_tenant_id e = tid"
  by (auto simp: events_of_def split: sum.splits dest: verdict_tenant [OF sym])

lemma ingest_loop_ok:
  assumes "1 \<le> st_worker_batch_size st" and "distinct (map re_raw_event_id (raw_of s tid))"
    and "\<forall>raw \<in> set (new_events tid s). \<exists>v. verdict x tid config (st_pseudonym_hmac_secret st) (re_body raw) = Inr v"
  shows "\<exists>r s'. ingest_loop x st tid config p u s = (Inr r, s')"
  using assms
proof (induction "length (new_events tid s)" arbitrary: p u s rule: less_induct)
  case less
  let ?secret = "st_pseudonym_hmac_secret st" and ?batch = "claim_raw_events tid (st_worker_batch_size st) s"
  show ?case
  proof (cases "?batch = []")
    case True
    then show ?thesis by (subst ingest_loop.simps) (simp add: Let_def)
  next
    case False
    have "\<forall>raw \<in> set ?batch. \<exists>v. verdict x tid config ?secret (re_body raw) = Inr v"
      using less.prems(3) claim_sub by blast
    then obtain can p1 u1 s1 where b: "ingest_batch x tid config ?secret ?batch [] p u s = (Inr (can, p1, u1), s1)"
      using ingest_batch_ok by (metis prod_cases3)
    note eff = ingest_batch_returns [OF b claim_agree [OF less.prems(2)]]
    have "\<forall>e \<in> set can. e_tenant_id e = tid" using eff events_of_tenant by auto
    then obtain n where "save_events_loop tid can (bucket_of (ms_canonical_events s1) tid) 0
        = (foldl add_event (bucket_of (ms_canonical_events s1) tid) can, Inr n)"
      using save_events_loop_ok by blast
    then obtain s2 where c: "save_canonical_events tid can s1 = (Inr n, s2)" by (simp add: save_canonical_events_def)
    have new2: "new_events tid s2 = new_events tid s1" using new_events_save [of tid tid can s1] c by simp
    have raw2: "raw_of s2 tid = raw_of s1 tid" using raw_of_save [of tid can s1 tid] c by simp
    have fewer: "length (new_events tid s2) < length (new_events tid s)"
      using ingest_round_less [OF False b] by (simp add: new2)
    have ids: "distinct (map re_raw_event_id (raw_of s2 tid))"
      using eff less.prems(2) by (simp add: raw2 distinct_marks del: map_map)
    have "\<forall>raw \<in> set (new_events tid s2). \<exists>v. verdict x tid config ?secret (re_body raw) = Inr v"
      using less.prems(3) ingest_batch_new [OF b] by (simp add: new2)
    from less.hyps [OF fewer less.prems(1) ids this, of p1 u1] show ?thesis
      using b c False by (subst ingest_loop.simps) (simp add: Let_def)
  qed
qed

lemma stage_loop_fails:
  "stage_function name x st run (record_stage (stage_row run name ''RUNNING'' []) s) = (Inl e, run', s') \<Longrightarrow>
   stage_loop x st (name # names) run s
     = (run', ''FAILED'', outcome name ''FAILED'' [(''error'', JStr (exn_text e))] # map (\<lambda>n. outcome n ''PENDING'' []) names,
        record_stage (stage_row run name ''FAILED'' [(''error'', JStr (exn_text e))]) s')"
  by (simp add: Let_def)

section \<open>What INGEST does\<close>

text \<open>
  C20. INGEST drains the tenant's queue: with a positive batch size and distinct row identifiers, the loop returns
  exactly when no NEW event raises anything but a \<open>MappingError\<close>.  Then no NEW event is left, every NEW row was
  settled by its own body (PROCESSED, or UNMAPPED with the error), the other rows are untouched, the canonical
  events are the first-write-wins save of all normalized events in order - whatever the batch size - and the two
  counters count every NEW event once.
\<close>

theorem ingest_drains:
  assumes "1 \<le> st_worker_batch_size st" and "distinct (map re_raw_event_id (bucket_of (ms_raw_events s) tid))"
  shows "(case ingest_loop x st tid config 0 0 s of
      (Inl e, s') \<Rightarrow>
        list_ex (\<lambda>raw. \<exists>e. verdict x tid config (st_pseudonym_hmac_secret st) (re_body raw) = Inl e) (new_events tid s)
    | (Inr (p', u'), s') \<Rightarrow>
        list_all (\<lambda>raw. \<exists>v. verdict x tid config (st_pseudonym_hmac_secret st) (re_body raw) = Inr v) (new_events tid s)
        \<and> new_events tid s' = []
        \<and> bucket_of (ms_raw_events s') tid
            = map (settled_row x tid config (st_pseudonym_hmac_secret st)) (bucket_of (ms_raw_events s) tid)
        \<and> bucket_of (ms_canonical_events s') tid = foldl add_event (bucket_of (ms_canonical_events s) tid)
            (events_of x tid config (st_pseudonym_hmac_secret st) (new_events tid s))
        \<and> p' + u' = int (length (new_events tid s)))"
proof (cases "ingest_loop x st tid config 0 0 s")
  case (Pair r s')
  let ?v = "\<lambda>raw. verdict x tid config (st_pseudonym_hmac_secret st) (re_body raw)"
  show ?thesis
  proof (cases r)
    case (Inl e)
    have "\<not> (\<forall>raw \<in> set (new_events tid s). \<exists>v. ?v raw = Inr v)"
    proof
      assume "\<forall>raw \<in> set (new_events tid s). \<exists>v. ?v raw = Inr v"
      from ingest_loop_ok [OF assms this, of 0 0] show False using Pair Inl by simp
    qed
    then obtain raw where raw: "raw \<in> set (new_events tid s)" and no: "\<forall>v. ?v raw \<noteq> Inr v" by blast
    obtain e' where "?v raw = Inl e'" using no by (cases "?v raw") auto
    then have "list_ex (\<lambda>raw. \<exists>e. ?v raw = Inl e) (new_events tid s)" using raw by (auto simp: list_ex_iff)
    then show ?thesis unfolding Pair Inl by simp
  next
    case (Inr q)
    obtain p' u' where q: "q = (p', u')" by (cases q)
    have "\<exists>v. ?v raw = Inr v" if "raw \<in> set (new_events tid s)" for raw
      using loop_keeps_poison [OF assms that, of x config _ 0 0] Pair Inr by (cases "?v raw") auto
    then have "list_all (\<lambda>raw. \<exists>v. ?v raw = Inr v) (new_events tid s)" unfolding list_all_iff by blast
    then show ?thesis
      using ingest_loop_returns [OF Pair [unfolded Inr q] assms] unfolding Pair Inr q prod.case sum.case by simp
  qed
qed

theorem ingest_drains_witness:
  "new_events ''t1'' (snd (ingest_loop sample_externals sample_settings ''t1'' Normalize.sample_config 0 0 (sample_store ''2500.5''))) = []"
proof -
  have ids: "distinct (map re_raw_event_id (bucket_of (ms_raw_events (sample_store ''2500.5'')) ''t1''))" by code_simp
  have size: "1 \<le> st_worker_batch_size sample_settings" by (simp add: sample_settings_def)
  have "list_all (\<lambda>raw. isl (verdict sample_externals ''t1'' Normalize.sample_config (st_pseudonym_hmac_secret sample_settings)
      (re_body raw)) = False) (new_events ''t1'' (sample_store ''2500.5''))" by code_simp
  then have "\<not> list_ex (\<lambda>raw. \<exists>e. verdict sample_externals ''t1'' Normalize.sample_config (st_pseudonym_hmac_secret sample_settings)
      (re_body raw) = Inl e) (new_events ''t1'' (sample_store ''2500.5''))"
    by (auto simp: list_ex_iff list_all_iff)
  then show ?thesis
    using ingest_drains [OF size ids, where x = sample_externals and config = Normalize.sample_config]
    by (auto split: prod.splits sum.splits)
qed

text \<open>
  One raw event that raises anything but a \<open>MappingError\<close> (an amount of \<open>"Infinity"\<close> does) ends every run of its
  tenant: the run is FAILED, and the event is still NEW, so that the next run meets it again.
\<close>

theorem poison_event_stops_runs:
  assumes "1 \<le> st_worker_batch_size st" and "distinct (map re_raw_event_id (bucket_of (ms_raw_events s) tid))"
    and "get_tenant tid s = Inr tenant" and "raw0 \<in> set (new_events tid s)"
    and "normalize (x_hmac_hex x) (x_repr x) (x_fromisoformat x) tid (re_body raw0) (tr_mapping tenant)
           (st_pseudonym_hmac_secret st) = Inl e0"
    and "\<forall>m. e0 \<noteq> MappingError m"
  shows "\<exists>res s'. run_pipeline x st tid run_id now s = (Inr res, s') \<and> res_status res = ''FAILED''
    \<and> map so_status (res_stages res) = ''FAILED'' # replicate 10 ''PENDING'' \<and> raw0 \<in> set (new_events tid s')"
proof -
  let ?run = "fresh_run tid run_id now tenant"
  have rows: "ms_raw_events (foldl (\<lambda>s n. record_stage (stage_row ?run n ''PENDING'' []) s) s names) = ms_raw_events s" for names s
    by (induction names arbitrary: s) (simp_all add: record_stage_def)
  define s1 where "s1 = record_stage (stage_row ?run ''INGEST'' ''RUNNING'' [])
    (foldl (\<lambda>s n. record_stage (stage_row ?run n ''PENDING'' []) s) s STAGES)"
  have raw1: "ms_raw_events s1 = ms_raw_events s" unfolding s1_def by (subst record_stage_def) (simp add: rows)
  have v: "verdict x tid (tr_mapping tenant) (st_pseudonym_hmac_secret st) (re_body raw0) = Inl e0"
    using assms(5,6) by (simp add: verdict_Inl)
  have "\<exists>e s2. ingest_stage x st ?run s1 = (Inl e, s2) \<and> raw0 \<in> set (new_events tid s2)"
  proof (cases "make_config (tr_mapping tenant)")
    case (Inl e)
    then have "ingest_stage x st ?run s1 = (Inl e, s1)" by (simp add: ingest_stage_def fresh_run_def)
    then show ?thesis using assms(4) raw1 by (simp add: new_events_def)
  next
    case (Inr config)
    then have config: "config = tr_mapping tenant" by (simp add: make_config_def bind_result_Inr)
    obtain e s2 where "ingest_loop x st tid (tr_mapping tenant) 0 0 s1 = (Inl e, s2)" "raw0 \<in> set (new_events tid s2)"
      using loop_keeps_poison [OF assms(1), of s1 tid raw0 x "tr_mapping tenant" e0 0 0] assms(2,4) v raw1
      by (auto simp: new_events_def)
    then show ?thesis using Inr config by (simp add: ingest_stage_def fresh_run_def bind_effect_def)
  qed
  then obtain e s2 where e: "ingest_stage x st ?run s1 = (Inl e, s2)" and new: "raw0 \<in> set (new_events tid s2)" by blast
  have func: "stage_function ''INGEST'' = observed ingest_stage" by (simp add: stage_function_def stage_funcs_def)
  let ?s0 = "foldl (\<lambda>s n. record_stage (stage_row ?run n ''PENDING'' []) s) s STAGES"
  have "stage_function ''INGEST'' x st ?run (record_stage (stage_row ?run ''INGEST'' ''RUNNING'' []) ?s0) = (Inl e, ?run, s2)"
    using e by (simp add: func observed_def flip: s1_def)
  from stage_loop_fails [OF this, of "tl STAGES"]
  have loop: "stage_loop x st STAGES ?run ?s0
    = (?run, ''FAILED'', outcome ''INGEST'' ''FAILED'' [(''error'', JStr (exn_text e))] # map (\<lambda>n. outcome n ''PENDING'' []) (tl STAGES),
       record_stage (stage_row ?run ''INGEST'' ''FAILED'' [(''error'', JStr (exn_text e))]) s2)"
    by (simp add: STAGES_def)
  have "run_pipeline x st tid run_id now s
    = (Inr \<lparr>res_run_id = run_id, res_tenant_id = tid, res_status = ''FAILED'',
         res_stages = outcome ''INGEST'' ''FAILED'' [(''error'', JStr (exn_text e))] # map (\<lambda>n. outcome n ''PENDING'' []) (tl STAGES),
         res_recommendation_ids = ru_recommendation_ids ?run\<rparr>,
       record_stage (stage_row ?run ''INGEST'' ''FAILED'' [(''error'', JStr (exn_text e))]) s2)"
    by (simp add: run_pipeline_def assms(3) loop Let_def)
  moreover have "raw0 \<in> set (new_events tid (record_stage row s2))" for row
    using new by (simp add: new_events_def record_stage_def)
  moreover have "map so_status (map (\<lambda>n. outcome n ''PENDING'' []) (tl STAGES)) = replicate 10 ''PENDING''"
    by (simp add: outcome_def STAGES_def numeral_eq_Suc)
  ultimately show ?thesis by (simp add: outcome_def)
qed

theorem poison_event_stops_runs_witness:
  "\<exists>res s'. sample_run ''Infinity'' = (Inr res, s') \<and> res_status res = ''FAILED'' \<and> new_events ''t1'' s' \<noteq> []"
proof -
  let ?s = "sample_store ''Infinity''"
  let ?raw = "hd (new_events ''t1'' ?s)"
  have 1: "1 \<le> st_worker_batch_size sample_settings" by (simp add: sample_settings_def)
  have 2: "distinct (map re_raw_event_id (bucket_of (ms_raw_events ?s) ''t1''))" by code_simp
  have 3: "get_tenant ''t1'' ?s = Inr (sample_tenant ''t1'')" by code_simp
  have 4: "?raw \<in> set (new_events ''t1'' ?s)" by code_simp
  have 5: "normalize (x_hmac_hex sample_externals) (x_repr sample_externals) (x_fromisoformat sample_externals) ''t1''
      (re_body ?raw) (tr_mapping (sample_tenant ''t1'')) (st_pseudonym_hmac_secret sample_settings)
    = Inl (RuntimeError ''OverflowError: cannot convert Infinity to integer'')" by code_simp
  from poison_event_stops_runs [OF 1 2 3 4 5, of "''r1''" 5] show ?thesis by (auto simp: sample_run_def)
qed

text \<open>A batch whose first part has verdicts.\<close>

lemma ingest_batch_append:
  "ingest_batch x tid config secret pre can p u s = (Inr (can', p', u'), s') \<Longrightarrow>
   ingest_batch x tid config secret (pre @ batch) can p u s = ingest_batch x tid config secret batch can' p' u' s'"
proof (induction pre arbitrary: can p u s)
  case (Cons raw pre)
  obtain status err evs where v: "verdict x tid config secret (re_body raw) = Inr (status, err, evs)"
    using Cons.prems ingest_batch_escape by (cases "verdict x tid config secret (re_body raw)") fastforce+
  obtain p1 u1 s1 where
    "\<And>batch can. ingest_batch x tid config secret (raw # batch) can p u s = ingest_batch x tid config secret batch (can @ evs) p1 u1 s1"
    by (rule ingest_batch_step [OF v, where p = p and u = u and s = s]) (rule that)
  then show ?case using Cons by (simp del: ingest_batch.simps)
qed simp

text \<open>
  The events of the batch that come before the one that raises are lost: their rows leave the state NEW
  (PROCESSED or UNMAPPED), but the loop raises before it saves the canonical events, so none of them is ever stored.
\<close>

theorem escaped_batch_loses_events:
  assumes "distinct (map re_raw_event_id (bucket_of (ms_raw_events s) tid))"
    and "claim_raw_events tid (st_worker_batch_size st) s = before @ raw0 # after"
    and "list_all (\<lambda>raw. \<exists>v. verdict x tid config (st_pseudonym_hmac_secret st) (re_body raw) = Inr v) before"
    and "verdict x tid config (st_pseudonym_hmac_secret st) (re_body raw0) = Inl e0"
  shows "\<exists>s'. ingest_loop x st tid config p u s = (Inl e0, s') \<and> ms_canonical_events s' = ms_canonical_events s
    \<and> list_all (\<lambda>raw. settle x tid config (st_pseudonym_hmac_secret st) raw \<in> set (bucket_of (ms_raw_events s') tid)
          \<and> re_status (settle x tid config (st_pseudonym_hmac_secret st) raw) \<noteq> ''NEW'') before"
proof -
  let ?secret = "st_pseudonym_hmac_secret st"
  obtain can p1 u1 s1 where b: "ingest_batch x tid config ?secret before [] p u s = (Inr (can, p1, u1), s1)"
    using ingest_batch_ok [of before x tid config ?secret "[]" p u s] assms(3) by (auto simp: list_all_iff)
  have agree: "agree before (raw_of s tid)"
    using claim_agree [OF assms(1), of "st_worker_batch_size st"] unfolding assms(2) by (simp add: agree_def)
  note eff = ingest_batch_returns [OF b agree]
  have loop: "ingest_loop x st tid config p u s = (Inl e0, s1)"
    using ingest_batch_append [OF b, of "raw0 # after"] ingest_batch_escape [OF assms(4)]
    by (subst ingest_loop.simps) (simp add: Let_def assms(2) del: ingest_batch.simps)
  have "settle x tid config ?secret raw \<in> set (raw_of s1 tid) \<and> re_status (settle x tid config ?secret raw) \<noteq> ''NEW''"
    if "raw \<in> set before" for raw
  proof -
    have "raw \<in> set (claim_raw_events tid (st_worker_batch_size st) s)" unfolding assms(2) using that by simp
    then have "raw \<in> set (raw_of s tid)" using claim_sub new_events_sub by blast
    then show ?thesis using eff that assms(3) settle_not_new by (fastforce simp: list_all_iff)
  qed
  then show ?thesis using loop eff by (auto simp: list_all_iff)
qed

text \<open>A batch of a good event and one with an infinite amount.\<close>

definition lossy_store :: memory_store where
  "lossy_store = add_raw_events ''t1'' [sample_raw ''2500.5'', (''client_event_id'', JInt 8) # sample_raw ''Infinity''] empty_store"

theorem escaped_batch_loses_events_witness:
  "\<exists>e s'. ingest_loop sample_externals sample_settings ''t1'' Normalize.sample_config 0 0 lossy_store = (Inl e, s')
     \<and> ms_canonical_events s' = []"
proof -
  let ?claim = "claim_raw_events ''t1'' (st_worker_batch_size sample_settings) lossy_store"
  let ?v = "\<lambda>raw. verdict sample_externals ''t1'' Normalize.sample_config (st_pseudonym_hmac_secret sample_settings) (re_body raw)"
  have 1: "distinct (map re_raw_event_id (bucket_of (ms_raw_events lossy_store) ''t1''))" by code_simp
  have 2: "?claim = [hd ?claim] @ hd (tl ?claim) # []" by code_simp
  have "\<not> isl (?v (hd ?claim))" by code_simp
  then have 3: "list_all (\<lambda>raw. \<exists>v. ?v raw = Inr v) [hd ?claim]" by (cases "?v (hd ?claim)") auto
  have 4: "?v (hd (tl ?claim)) = Inl (RuntimeError ''OverflowError: cannot convert Infinity to integer'')" by code_simp
  have "ms_canonical_events lossy_store = []" by code_simp
  then show ?thesis using escaped_batch_loses_events [OF 1 2 3 4, of 0 0] by auto
qed

end
