(* ===== verification/Decisions.thy ===== *)
theory Decisions
  imports Pipeline
begin

text \<open>
  Properties of the POLICY and ALLOCATE stages: what the policy stage allows obeys every hard rule, a bundle is
  allowed or denied as a whole, every candidate is accounted for exactly once, and picks respect the arms.
\<close>

section \<open>The policy stage\<close>

text \<open>What the loop decides, for candidates with different identifiers.\<close>

lemma decide_loop_decides:
  assumes "decide_loop config facts cs decisions exclusions = Inr (decisions', exclusions')"
    and "distinct (map c_candidate_id cs)"
  shows "(\<forall>c \<in> set cs. \<exists>f. map_of facts (c_user_pseudonym c) = Some f
           \<and> map_of decisions' (c_candidate_id c) = Some (evaluate c f config)
           \<and> (decision_allowed (evaluate c f config) \<longrightarrow> map_of exclusions' (c_candidate_id c) = map_of exclusions (c_candidate_id c))
           \<and> (\<not> decision_allowed (evaluate c f config) \<longrightarrow> map_of exclusions' (c_candidate_id c) \<noteq> None))
    \<and> (\<forall>i. i \<notin> c_candidate_id ` set cs \<longrightarrow>
           map_of decisions' i = map_of decisions i \<and> map_of exclusions' i = map_of exclusions i)"
  using assms
proof (induction cs arbitrary: decisions exclusions)
  case (Cons c cs)
  obtain f where f: "map_of facts (c_user_pseudonym c) = Some f"
    using Cons.prems(1) by (auto simp: bind_result_Inr look_def split: option.splits)
  let ?d = "evaluate c f config"
  let ?decisions = "AList.update (c_candidate_id c) ?d decisions"
  obtain ex where rest: "decide_loop config facts cs ?decisions ex = Inr (decisions', exclusions')"
    and ex: "if decision_allowed ?d then ex = exclusions else \<exists>r. ex = AList.update (c_candidate_id c) r exclusions"
    using Cons.prems(1) f by (auto simp: bind_result_Inr look_def Let_def split: if_splits)
  have ids: "c_candidate_id c \<notin> c_candidate_id ` set cs" "distinct (map c_candidate_id cs)" using Cons.prems(2) by auto
  note ih = Cons.IH [OF rest ids(2)]
  have frame: "map_of ex i = map_of exclusions i" "map_of ?decisions i = map_of decisions i" if "i \<noteq> c_candidate_id c" for i
    using ex that by (auto simp: AList.update_conv' split: if_splits)
  have head: "map_of decisions' (c_candidate_id c) = Some ?d" "map_of exclusions' (c_candidate_id c) = map_of ex (c_candidate_id c)"
    using ih ids(1) by (auto simp: AList.update_conv')
  show ?case
  proof (intro conjI ballI allI impI)
    fix c' assume "c' \<in> set (c # cs)"
    then consider "c' = c" | "c' \<in> set cs" "c_candidate_id c' \<noteq> c_candidate_id c"
      using ids(1) by (metis image_eqI set_ConsD)
    then show "\<exists>f. map_of facts (c_user_pseudonym c') = Some f
           \<and> map_of decisions' (c_candidate_id c') = Some (evaluate c' f config)
           \<and> (decision_allowed (evaluate c' f config) \<longrightarrow> map_of exclusions' (c_candidate_id c') = map_of exclusions (c_candidate_id c'))
           \<and> (\<not> decision_allowed (evaluate c' f config) \<longrightarrow> map_of exclusions' (c_candidate_id c') \<noteq> None)"
    proof cases
      case 1
      then show ?thesis using f head ex by (auto simp: AList.update_conv')
    next
      case 2
      show ?thesis using bspec [OF conjunct1 [OF ih] 2(1)] unfolding frame(1) [OF 2(2)] .
    qed
  next
    fix i assume "i \<notin> c_candidate_id ` set (c # cs)"
    then have "i \<noteq> c_candidate_id c" "i \<notin> c_candidate_id ` set cs" by auto
    then show "map_of decisions' i = map_of decisions i" and "map_of exclusions' i = map_of exclusions i"
      using conjunct2 [OF ih] frame by auto
  qed
qed simp

text \<open>Denying bundles only adds exclusions, and only to members of bundles that have one.\<close>

lemma setdefault_loop:
  "map_of (foldl (\<lambda>ex m. dict_setdefault (c_candidate_id m) v ex) ex ms) i =
     (case map_of ex i of None \<Rightarrow> if i \<in> c_candidate_id ` set ms then Some v else None | Some w \<Rightarrow> Some w)"
  by (induction ms arbitrary: ex) (auto simp: map_of_setdefault split: option.splits)

lemma deny_bundle_map:
  "map_of (deny_bundle ex ms) i \<noteq> None \<longleftrightarrow> map_of ex i \<noteq> None
     \<or> (i \<in> c_candidate_id ` set ms \<and> (\<exists>m \<in> set ms. map_of ex (c_candidate_id m) \<noteq> None))"
  by (auto simp: deny_bundle_def setdefault_loop list_ex_iff split: option.splits)

lemma deny_bundles_map:
  assumes "\<forall>B \<in> set bs. \<forall>B' \<in> set bs. B \<noteq> B' \<longrightarrow> (c_candidate_id ` set B) \<inter> (c_candidate_id ` set B') = {}" and "distinct bs"
  shows "map_of (foldl deny_bundle ex bs) i \<noteq> None \<longleftrightarrow> map_of ex i \<noteq> None
     \<or> (\<exists>B \<in> set bs. i \<in> c_candidate_id ` set B \<and> (\<exists>m \<in> set B. map_of ex (c_candidate_id m) \<noteq> None))"
  using assms
proof (induction bs arbitrary: ex)
  case (Cons B bs)
  have other: "map_of (deny_bundle ex B) (c_candidate_id m) \<noteq> None \<longleftrightarrow> map_of ex (c_candidate_id m) \<noteq> None"
    if "B' \<in> set bs" "m \<in> set B'" for B' m
  proof -
    have "B' \<noteq> B" using Cons.prems(2) that(1) by auto
    then have "c_candidate_id m \<notin> c_candidate_id ` set B" using Cons.prems(1) that by fastforce
    then show ?thesis by (simp only: deny_bundle_map) blast
  qed
  have "map_of (foldl deny_bundle (deny_bundle ex B) bs) i \<noteq> None \<longleftrightarrow> map_of (deny_bundle ex B) i \<noteq> None
     \<or> (\<exists>B' \<in> set bs. i \<in> c_candidate_id ` set B' \<and> (\<exists>m \<in> set B'. map_of (deny_bundle ex B) (c_candidate_id m) \<noteq> None))"
    by (rule Cons.IH) (use Cons.prems in auto)
  also have "\<dots> \<longleftrightarrow> map_of (deny_bundle ex B) i \<noteq> None
     \<or> (\<exists>B' \<in> set bs. i \<in> c_candidate_id ` set B' \<and> (\<exists>m \<in> set B'. map_of ex (c_candidate_id m) \<noteq> None))"
    using other by blast
  finally show ?case unfolding deny_bundle_map by (simp add: disj_ac)
qed simp

text \<open>The members of a bundle: the group candidates of one group and one incentive.\<close>

definition same_bundle :: "candidate \<Rightarrow> candidate \<Rightarrow> bool" where
  "same_bundle c c' \<longleftrightarrow> is_group_candidate c \<and> is_group_candidate c'
     \<and> group_text (c_group_id c) = group_text (c_group_id c') \<and> c_incentive_code c = c_incentive_code c'"

lemma group_by_groups: "set (group_by f xs) = (\<lambda>k. (k, filter (\<lambda>x. f x = k) xs)) ` f ` set xs"
  by (auto simp: group_by_in)

lemma group_by_inj: "inj_on snd (set (group_by f xs))"
proof (rule inj_onI)
  fix a b assume a: "a \<in> set (group_by f xs)" and b: "b \<in> set (group_by f xs)" and ab: "snd a = snd b"
  obtain x where x: "x \<in> set xs" "a = (f x, filter (\<lambda>y. f y = f x) xs)" using a unfolding group_by_groups by auto
  then have "x \<in> set (snd a)" by simp
  then have "x \<in> set (snd b)" unfolding ab .
  then show "a = b" using x b unfolding group_by_groups by auto
qed

lemma policy_bundles_denied:
  assumes "distinct (map c_candidate_id cs)" and "c \<in> set cs"
  shows "map_of (foldl deny_bundle ex (map snd (policy_bundles cs))) (c_candidate_id c) \<noteq> None \<longleftrightarrow>
    map_of ex (c_candidate_id c) \<noteq> None \<or> (\<exists>c' \<in> set cs. same_bundle c c' \<and> map_of ex (c_candidate_id c') \<noteq> None)"
proof -
  define gs where "gs = filter is_group_candidate cs"
  let ?key = "\<lambda>c. (group_text (c_group_id c), c_incentive_code c)"
  let ?bs = "map snd (group_by ?key gs)"
  have in_bs: "set ?bs = (\<lambda>k. filter (\<lambda>c. ?key c = k) gs) ` ?key ` set gs" by (simp add: group_by_groups image_image)
  have inj: "m = m'" if "m \<in> set gs" "m' \<in> set cs" "c_candidate_id m = c_candidate_id m'" for m m'
    using assms(1) that by (auto simp: gs_def distinct_map dest: inj_onD)
  have same: "B = B'" if B: "B \<in> set ?bs" "B' \<in> set ?bs" and m: "m \<in> set B" "m' \<in> set B'" "c_candidate_id m = c_candidate_id m'"
    for B B' m m'
  proof -
    obtain k k' where k: "B = filter (\<lambda>c. ?key c = k) gs" "B' = filter (\<lambda>c. ?key c = k') gs" using B unfolding in_bs by auto
    then have "m \<in> set gs" "m' \<in> set cs" "?key m = k" "?key m' = k'" using m by (auto simp: gs_def)
    then show ?thesis using inj m(3) k by metis
  qed
  have disjoint: "\<forall>B \<in> set ?bs. \<forall>B' \<in> set ?bs. B \<noteq> B' \<longrightarrow> (c_candidate_id ` set B) \<inter> (c_candidate_id ` set B') = {}"
    using same by blast
  have "distinct ?bs"
    using group_by_inj [of ?key gs] group_by_distinct [of ?key gs] by (simp add: distinct_map)
  note denied = deny_bundles_map [OF disjoint this, of ex "c_candidate_id c"]
  have "(\<exists>B \<in> set ?bs. c_candidate_id c \<in> c_candidate_id ` set B \<and> (\<exists>m \<in> set B. map_of ex (c_candidate_id m) \<noteq> None))
    \<longleftrightarrow> (\<exists>c' \<in> set cs. same_bundle c c' \<and> map_of ex (c_candidate_id c') \<noteq> None)" (is "?l \<longleftrightarrow> ?r")
  proof
    assume ?l
    then obtain m m' where "m \<in> set gs" "m' \<in> set gs" "c_candidate_id c = c_candidate_id m" "?key m = ?key m'"
      "map_of ex (c_candidate_id m') \<noteq> None"
      unfolding in_bs by auto
    moreover from this have "m = c" using inj assms(2) by metis
    ultimately show ?r unfolding same_bundle_def by (auto simp: gs_def)
  next
    assume ?r
    then obtain c' where c': "c' \<in> set cs" "same_bundle c c'" "map_of ex (c_candidate_id c') \<noteq> None" by blast
    then have "c \<in> set gs" "c' \<in> set gs" "?key c' = ?key c" using assms(2) by (auto simp: same_bundle_def gs_def)
    then have "c \<in> set (filter (\<lambda>x. ?key x = ?key c) gs)" "c' \<in> set (filter (\<lambda>x. ?key x = ?key c) gs)" by simp_all
    moreover have "filter (\<lambda>x. ?key x = ?key c) gs \<in> set ?bs" unfolding in_bs using \<open>c \<in> set gs\<close> by blast
    ultimately show ?l using c'(3) by blast
  qed
  then show ?thesis using denied unfolding policy_bundles_def gs_def by simp
qed

text \<open>
  C4. What the policy stage lets through obeys every hard rule.  When candidate identifiers differ, the stage
  decides every candidate with \<open>evaluate\<close> under the full configuration; a candidate is excluded exactly when its own
  decision is a denial or a member of the same bundle (group and incentive) is denied; and a candidate that is not
  excluded satisfies all the rules, as do all members of its bundle.
\<close>

theorem policy_stage_sound:
  assumes "policy_stage x st run s = (Inr (run', d), s')"
    and "distinct (map c_candidate_id (ru_candidates run'))"
  shows "(\<forall>c \<in> set (ru_candidates run'). \<exists>f. map_of (ru_user_facts run') (c_user_pseudonym c) = Some f
      \<and> map_of (ru_decisions run') (c_candidate_id c) = Some (evaluate c f (policy_config_of st True))
      \<and> (map_of (ru_exclusions run') (c_candidate_id c) \<noteq> None \<longleftrightarrow>
           \<not> decision_allowed (evaluate c f (policy_config_of st True))
           \<or> (\<exists>c' \<in> set (ru_candidates run'). \<exists>f'. same_bundle c c' \<and> map_of (ru_user_facts run') (c_user_pseudonym c') = Some f'
                \<and> \<not> decision_allowed (evaluate c' f' (policy_config_of st True)))))
    \<and> (\<forall>c \<in> set (allowed_candidates run'). \<forall>c' \<in> set (ru_candidates run'). same_bundle c c' \<longrightarrow> c' \<in> set (allowed_candidates run'))"
proof -
  let ?cfg = "policy_config_of st True"
  obtain cands facts decisions denied where
    loop: "decide_loop ?cfg facts cands [] [] = Inr (decisions, denied)"
    and run': "ru_candidates run' = cands" "ru_user_facts run' = facts" "ru_decisions run' = decisions"
      "ru_exclusions run' = foldl deny_bundle denied (map snd (policy_bundles cands))"
    using assms(1) by (auto simp: policy_stage_def Let_def bind_effect_def pure_def read_def modify_def split: sum.splits prod.splits)
  have ids: "distinct (map c_candidate_id cands)" using assms(2) run'(1) by simp
  note decided = conjunct1 [OF decide_loop_decides [OF loop ids]]
  have denied: "map_of denied (c_candidate_id c) \<noteq> None \<longleftrightarrow> \<not> decision_allowed (evaluate c f ?cfg)"
    if "c \<in> set cands" "map_of facts (c_user_pseudonym c) = Some f" for c f
    using bspec [OF decided that(1)] that(2) by auto
  have excluded: "map_of (ru_exclusions run') (c_candidate_id c) \<noteq> None \<longleftrightarrow>
      map_of denied (c_candidate_id c) \<noteq> None \<or> (\<exists>c' \<in> set cands. same_bundle c c' \<and> map_of denied (c_candidate_id c') \<noteq> None)"
    if "c \<in> set cands" for c
    unfolding run'(4) by (rule policy_bundles_denied [OF ids that])
  show ?thesis
  proof (intro conjI ballI impI)
    fix c assume "c \<in> set (ru_candidates run')"
    then have c: "c \<in> set cands" by (simp add: run')
    obtain f where f: "map_of facts (c_user_pseudonym c) = Some f" "map_of decisions (c_candidate_id c) = Some (evaluate c f ?cfg)"
      using bspec [OF decided c] by blast
    have "(\<exists>c' \<in> set cands. same_bundle c c' \<and> map_of denied (c_candidate_id c') \<noteq> None) \<longleftrightarrow>
      (\<exists>c' \<in> set cands. \<exists>f'. same_bundle c c' \<and> map_of facts (c_user_pseudonym c') = Some f' \<and> \<not> decision_allowed (evaluate c' f' ?cfg))"
      using denied decided by meson
    then show "\<exists>f. map_of (ru_user_facts run') (c_user_pseudonym c) = Some f
      \<and> map_of (ru_decisions run') (c_candidate_id c) = Some (evaluate c f ?cfg)
      \<and> (map_of (ru_exclusions run') (c_candidate_id c) \<noteq> None \<longleftrightarrow> \<not> decision_allowed (evaluate c f ?cfg)
           \<or> (\<exists>c' \<in> set (ru_candidates run'). \<exists>f'. same_bundle c c' \<and> map_of (ru_user_facts run') (c_user_pseudonym c') = Some f'
                \<and> \<not> decision_allowed (evaluate c' f' ?cfg)))"
      using f excluded [OF c] denied [OF c f(1)] unfolding run'(1,2,3) by blast
  next
    fix c c' assume c: "c \<in> set (allowed_candidates run')" and c': "c' \<in> set (ru_candidates run')" and same: "same_bundle c c'"
    have "c \<in> set cands" "c' \<in> set cands" "map_of (ru_exclusions run') (c_candidate_id c) = None"
      using c c' by (auto simp: allowed_candidates_def run')
    moreover have "same_bundle c' c''" if "same_bundle c c''" for c'' using that same by (simp add: same_bundle_def)
    moreover have "same_bundle c c''" if "same_bundle c' c''" for c'' using that same by (simp add: same_bundle_def)
    ultimately have "map_of (ru_exclusions run') (c_candidate_id c') = None" using excluded same by metis
    then show "c' \<in> set (allowed_candidates run')" using c' by (simp add: allowed_candidates_def)
  qed
qed

definition sample_policy_run :: run where
  "sample_policy_run = (fresh_run ''t1'' ''r1'' 5 (sample_tenant ''t1''))
     \<lparr>ru_users := [''u1'', ''u2''],
      ru_business_value := [(''u1'', 100), (''u2'', 100)],
      ru_risk := map (\<lambda>u. (u, plain_risk u 1 ''M'' 0)) [''u1'', ''u2''],
      ru_impact := map (\<lambda>u. (u, \<lparr>is_p_incentivized = 1, is_p_not_incentivized = 0, is_model = ''M''\<rparr>)) [''u1'', ''u2''],
      ru_segments := [(''u1'', PERSUADABLE), (''u2'', LOST_CAUSE)],
      ru_snapshots := map (\<lambda>u. (u, empty_snapshot u)) [''u1'', ''u2'']\<rparr>"

theorem policy_stage_sound_witness:
  "\<exists>run' d s'. policy_stage sample_externals sample_settings sample_policy_run (sample_store ''1'') = (Inr (run', d), s')
     \<and> map c_user_pseudonym (ru_candidates run') = [''u1'', ''u2''] \<and> map c_user_pseudonym (allowed_candidates run') = [''u1'']
     \<and> (\<exists>f. map_of (ru_decisions run') (c_candidate_id (hd (ru_candidates run')))
           = Some (evaluate (hd (ru_candidates run')) f (policy_config_of sample_settings True)))"
proof -
  have run: "case fst (policy_stage sample_externals sample_settings sample_policy_run (sample_store ''1'')) of Inl e \<Rightarrow> False
    | Inr (run', d) \<Rightarrow> map c_user_pseudonym (ru_candidates run') = [''u1'', ''u2'']
        \<and> map c_user_pseudonym (allowed_candidates run') = [''u1''] \<and> distinct (map c_candidate_id (ru_candidates run'))"
    by code_simp
  then obtain run' d s' where r: "policy_stage sample_externals sample_settings sample_policy_run (sample_store ''1'') = (Inr (run', d), s')"
    by (cases "policy_stage sample_externals sample_settings sample_policy_run (sample_store ''1'')") (auto split: sum.splits)
  have ids: "distinct (map c_candidate_id (ru_candidates run'))" and users: "map c_user_pseudonym (ru_candidates run') = [''u1'', ''u2'']"
    "map c_user_pseudonym (allowed_candidates run') = [''u1'']"
    using run by (simp_all add: r)
  have "hd (ru_candidates run') \<in> set (ru_candidates run')" using users(1) by (intro hd_in_set) auto
  then obtain f where "map_of (ru_decisions run') (c_candidate_id (hd (ru_candidates run')))
      = Some (evaluate (hd (ru_candidates run')) f (policy_config_of sample_settings True))"
    using bspec [OF conjunct1 [OF policy_stage_sound [OF r ids]]] by blast
  then show ?thesis using r users by (intro exI conjI) assumption+
qed

section \<open>Every candidate is decided once\<close>

lemma filter_split3: "mset (map f (filter P xs)) + mset (map f (filter (\<lambda>x. \<not> P x) xs)) = mset (map f xs)"
  by (induction xs) simp_all

lemma excluded_id [simp]: "ad_candidate_id (excluded c reason priority) = c_candidate_id c"
  by (simp add: excluded_def)

lemma naive_rules_ids:
  "naive_rules config facts cs = Inr (allowed, extra) \<Longrightarrow>
   mset (map (c_candidate_id \<circ> fst) allowed) + mset (map ad_candidate_id extra) = mset (map c_candidate_id cs)"
  by (induction cs arbitrary: allowed extra)
    (auto simp: Let_def bind_result_Inr split: if_splits prod.splits)

lemma naive_pick_ids:
  "naive_pick allowed = (ps, others) \<Longrightarrow>
   mset (concat (map pk_candidate_ids ps)) + mset (map ad_candidate_id others) = mset (map (c_candidate_id \<circ> fst) allowed)"
  by (auto simp: naive_pick_def image_mset.compositionality comp_def case_prod_beta split: list.splits)

lemma naive_user_ids:
  assumes "naive_user st run (user, cands) = Inr (ps, extra)"
  shows "mset (concat (map pk_candidate_ids ps)) + mset (map ad_candidate_id extra) = mset (map c_candidate_id cands)"
proof -
  obtain risk where risk: "look (ru_risk run) user = Inr risk"
    using assms by (auto simp: naive_user_def bind_result_Inr)
  show ?thesis
  proof (cases "rs_churn_risk risk < st_measurement_naive_risk_threshold st")
    case True
    then show ?thesis using assms risk by (auto simp: naive_user_def image_mset.compositionality comp_def)
  next
    case False
    let ?cs = "sort_key (\<lambda>c. (c_cost_idr c, c_incentive_code c)) cands"
    obtain facts allowed extra1 where
      rules: "naive_rules (policy_config_of st False) facts ?cs = Inr (allowed, extra1)"
      and res: "(fst (naive_pick allowed), extra1 @ snd (naive_pick allowed)) = (ps, extra)"
      using assms risk False by (auto simp: naive_user_def bind_result_Inr Let_def case_prod_beta)
    obtain others where pick: "naive_pick allowed = (ps, others)" and extra: "extra = extra1 @ others"
      using res by (cases "naive_pick allowed") auto
    have "mset (map c_candidate_id ?cs) = mset (map c_candidate_id cands)" by simp
    then show ?thesis using naive_rules_ids [OF rules] naive_pick_ids [OF pick] by (simp add: extra ac_simps)
  qed
qed

lemma naive_users_ids:
  "map_result (naive_user st run) ucs = Inr rs \<Longrightarrow>
   mset (concat (map pk_candidate_ids (concat (map fst rs)))) + mset (map ad_candidate_id (concat (map snd rs)))
     = mset (map c_candidate_id (concat (map snd ucs)))"
proof (induction ucs arbitrary: rs)
  case (Cons uc ucs)
  obtain user cands ps extra rs' where uc: "uc = (user, cands)" and r: "naive_user st run (user, cands) = Inr (ps, extra)"
    and rs': "map_result (naive_user st run) ucs = Inr rs'" and rs: "rs = (ps, extra) # rs'"
    using Cons.prems by (cases uc) (auto simp: bind_result_Inr)
  show ?case using naive_user_ids [OF r] Cons.IH [OF rs'] by (simp add: uc rs ac_simps)
qed simp

lemma naive_arm_ids:
  assumes "naive_arm st run arms = Inr (ps, extra)"
  shows "mset (concat (map pk_candidate_ids ps)) + mset (map ad_candidate_id extra)
    = mset (map c_candidate_id (naive_candidates run arms))"
proof -
  let ?cs = "naive_candidates run arms"
  let ?us = "sort_key fst (group_by c_user_pseudonym (filter (\<lambda>c. \<not> is_group_candidate c) ?cs))"
  obtain rs where rs: "map_result (naive_user st run) ?us = Inr rs" and ps: "ps = concat (map fst rs)"
    and extra: "extra = map (\<lambda>c. excluded c NAIVE_NOT_CHOSEN 0) (filter is_group_candidate ?cs) @ concat (map snd rs)"
    using assms by (auto simp: naive_arm_def Let_def bind_result_Inr)
  have "mset (concat (map snd ?us)) = mset (concat (map snd (group_by c_user_pseudonym (filter (\<lambda>c. \<not> is_group_candidate c) ?cs))))"
    by (rule mset_concat_eq) simp
  then have "mset (map c_candidate_id (concat (map snd ?us))) = mset (map c_candidate_id (filter (\<lambda>c. \<not> is_group_candidate c) ?cs))"
    by (simp only: mset_map group_by_concat)
  with naive_users_ids [OF rs] have users: "mset (concat (map pk_candidate_ids ps)) + mset (map ad_candidate_id (concat (map snd rs)))
    = mset (map c_candidate_id (filter (\<lambda>c. \<not> is_group_candidate c) ?cs))" unfolding ps by simp
  have groups: "mset (map ad_candidate_id (map (\<lambda>c. excluded c NAIVE_NOT_CHOSEN 0) (filter is_group_candidate ?cs)))
    = mset (map c_candidate_id (filter is_group_candidate ?cs))"
    by (simp add: image_mset.compositionality comp_def)
  have "mset (concat (map pk_candidate_ids ps)) + mset (map ad_candidate_id extra)
    = mset (map c_candidate_id (filter is_group_candidate ?cs))
      + (mset (concat (map pk_candidate_ids ps)) + mset (map ad_candidate_id (concat (map snd rs))))"
    unfolding extra map_append mset_append groups by (simp only: ac_simps)
  then show ?thesis unfolding users filter_split3 .
qed

lemma policy_exclusions_ids:
  "map ad_candidate_id (policy_exclusions run arms) = map c_candidate_id (filter (\<lambda>c. map_of (ru_exclusions run) (c_candidate_id c) \<noteq> None
     \<and> map_of arms (unit_of c) \<noteq> Some NAIVE) (ru_candidates run))"
proof -
  have "map ad_candidate_id (concat (map (\<lambda>c. case map_of (ru_exclusions run) (c_candidate_id c) of
         Some reason \<Rightarrow> if map_of arms (unit_of c) = Some NAIVE then [] else [excluded c reason 0] | None \<Rightarrow> []) cs))
    = map c_candidate_id (filter (\<lambda>c. map_of (ru_exclusions run) (c_candidate_id c) \<noteq> None
     \<and> map_of arms (unit_of c) \<noteq> Some NAIVE) cs)" for cs
    by (induction cs) (auto split: option.splits)
  then show ?thesis by (simp add: policy_exclusions_def)
qed

text \<open>The four places a candidate can end in.\<close>

lemma arm_partition:
  assumes "\<forall>c \<in> set cs. \<exists>a. map_of arms (unit_of c) = Some a"
  shows "mset (map c_candidate_id (filter (\<lambda>c. map_of ex (c_candidate_id c) \<noteq> None \<and> map_of arms (unit_of c) \<noteq> Some NAIVE) cs))
    + mset (map c_candidate_id (filter (\<lambda>c. map_of ex (c_candidate_id c) = None \<and> map_of arms (unit_of c) = Some CONTROL) cs))
    + mset (map c_candidate_id (filter (\<lambda>c. map_of ex (c_candidate_id c) = None \<and> map_of arms (unit_of c) = Some ENGINE) cs))
    + mset (map c_candidate_id (filter (\<lambda>c. map_of arms (unit_of c) = Some NAIVE) cs)) = mset (map c_candidate_id cs)"
  using assms
proof (induction cs)
  case (Cons c cs)
  obtain a where "map_of arms (unit_of c) = Some a" using Cons.prems by auto
  then show ?case using Cons by (cases a) auto
qed simp

lemma filter_ranked:
  assumes "mset (map r_candidate rks) = mset cs"
  shows "mset (map (c_candidate_id \<circ> r_candidate) (filter (in_arm arms a) rks))
    = mset (map c_candidate_id (filter (\<lambda>c. map_of arms (unit_of c) = Some a) cs))"
proof -
  have "mset (map r_candidate (filter (in_arm arms a) rks)) = filter_mset (\<lambda>c. map_of arms (unit_of c) = Some a) (mset (map r_candidate rks))"
    by (induction rks) (simp_all add: in_arm_def)
  then have "image_mset c_candidate_id (mset (map r_candidate (filter (in_arm arms a) rks)))
    = image_mset c_candidate_id (filter_mset (\<lambda>c. map_of arms (unit_of c) = Some a) (mset cs))"
    by (simp only: assms)
  then show ?thesis by (simp add: image_mset.compositionality)
qed

lemma allocated_ids:
  assumes "allocation_items candidates = Inr items" and "solver_domain (al_cost_scale_idr config) items budget"
    and "allocate candidates budget config = Inr res"
  shows "mset (map ad_candidate_id (ar_decisions res)) = mset (map (c_candidate_id \<circ> r_candidate) candidates)"
proof -
  obtain P st where run: "allocate candidates budget config = Inr (Allocation.outcome items budget st (sort_key value_key P))"
    and C: "chosen_items items (sort_key value_key P)"
    by (rule allocate_outcome [OF assms(1,2)])
  obtain Ms where mem: "members candidates items Ms" using items_members [OF assms(1)] by blast
  have "mset (map ad_candidate_id (ar_decisions res)) = mset (map cid candidates)"
    using decided_ids [OF C] items_ids [OF mem] run assms(3) by simp
  then show ?thesis by (simp add: cid_def [abs_def] comp_def)
qed

text \<open>
  C32. Every candidate of the run is accounted for exactly once: its identifier is in exactly one of the allocator's
  decisions, the exclusions recorded beside them, and the picks of the NAIVE arm.  (The ranking is a permutation of
  the candidates the policy allows, every unit has an arm, and the costs are in the solver's range.)
\<close>

theorem decide_arms_accounts:
  assumes "decide_arms x st run arms = Inr (alloc, engine_ps, naive_ps, extra)"
    and "mset (map r_candidate (ru_ranked run)) = mset (allowed_candidates run)"
    and "\<forall>c \<in> set (ru_candidates run). \<exists>a. map_of arms (unit_of c) = Some a"
    and "allocation_items (filter (in_arm arms ENGINE) (ru_ranked run)) = Inr items"
    and "solver_domain (st_allocator_cost_scale_idr st) items (st_default_budget_idr st)"
  shows "mset (map ad_candidate_id (ar_decisions alloc) @ map ad_candidate_id extra @ concat (map pk_candidate_ids naive_ps))
    = mset (map c_candidate_id (ru_candidates run))"
proof -
  obtain naive_extra where
    alloc: "allocate (filter (in_arm arms ENGINE) (ru_ranked run)) (st_default_budget_idr st) (allocator_config_of st) = Inr alloc"
    and naive: "naive_arm st run arms = Inr (naive_ps, naive_extra)"
    and extra: "extra = policy_exclusions run arms @ control_exclusions run arms @ naive_extra"
    using assms(1) by (auto simp: decide_arms_def Let_def bind_result_Inr)
  have dom: "solver_domain (al_cost_scale_idr (allocator_config_of st)) items (st_default_budget_idr st)"
    using assms(5) by (simp add: allocator_config_of_def)
  have control: "mset (map ad_candidate_id (control_exclusions run arms))
    = mset (map (c_candidate_id \<circ> r_candidate) (filter (in_arm arms CONTROL) (ru_ranked run)))"
    by (simp add: control_exclusions_def image_mset.compositionality comp_def)
  show ?thesis
    using arm_partition [OF assms(3), of "ru_exclusions run"] naive_arm_ids [OF naive] allocated_ids [OF assms(4) dom alloc]
      control filter_ranked [OF assms(2), of arms ENGINE] filter_ranked [OF assms(2), of arms CONTROL]
    by (simp add: extra policy_exclusions_ids allowed_candidates_def naive_candidates_def ac_simps)
qed

section \<open>Picks respect arms and rules\<close>

lemma engine_pick_of:
  assumes "engine_pick x decisions rbi (key, ds) = Inr ps" and "p \<in> set ps"
  shows "pk_arm p = ENGINE \<and> pk_candidate_ids p \<noteq> [] \<and> set (pk_candidate_ids p) \<subseteq> ad_candidate_id ` set ds"
proof (cases "filter ad_selected ds")
  case Nil
  then show ?thesis using assms by (simp add: engine_pick_def Let_def)
next
  case (Cons d chosen)
  then have "set (d # chosen) \<subseteq> set ds" by (metis filter_is_subset)
  then have "\<forall>c \<in> set (d # chosen). ad_candidate_id c \<in> ad_candidate_id ` set ds" by blast
  then show ?thesis using assms
    by (auto simp: engine_pick_def Let_def bind_result_Inr Cons split: if_splits)
qed

lemma map_result_in: "map_result f xs = Inr ys \<Longrightarrow> y \<in> set ys \<Longrightarrow> \<exists>a \<in> set xs. f a = Inr y"
  by (induction xs arbitrary: ys) (auto simp: bind_result_Inr)

lemma engine_picks_of:
  assumes "engine_picks x run engine alloc = Inr ps" and "p \<in> set ps"
  shows "pk_arm p = ENGINE \<and> pk_candidate_ids p \<noteq> [] \<and> set (pk_candidate_ids p) \<subseteq> ad_candidate_id ` set (ar_decisions alloc)"
proof -
  let ?by = "sort_key fst (group_by ad_choice_key (ar_decisions alloc))"
  obtain pss rbi where pss: "map_result (engine_pick x (ru_decisions run) rbi) ?by = Inr pss" and ps: "ps = concat pss"
    using assms(1) by (auto simp: engine_picks_def Let_def bind_result_Inr)
  obtain q where q: "q \<in> set pss" "p \<in> set q" using assms(2) ps by auto
  obtain key ds where kd: "(key, ds) \<in> set ?by" "engine_pick x (ru_decisions run) rbi (key, ds) = Inr q"
    using map_result_in [OF pss q(1)] by auto
  have "set ds \<subseteq> set (ar_decisions alloc)" using kd(1) by (auto simp: group_by_in)
  then show ?thesis using engine_pick_of [OF kd(2) q(2)] by blast
qed

lemma naive_rules_allowed:
  "naive_rules config facts cs = Inr (allowed, extra) \<Longrightarrow> (c, d) \<in> set allowed \<Longrightarrow>
   c \<in> set cs \<and> d = evaluate c facts config \<and> decision_allowed d"
  by (induction cs arbitrary: allowed extra) (auto simp: Let_def bind_result_Inr split: if_splits prod.splits)

lemma naive_user_pick:
  assumes "naive_user st run (user, cands) = Inr (ps, extra)" and "p \<in> set ps"
  shows "pk_arm p = NAIVE \<and> (\<exists>c \<in> set cands. \<exists>f r. pk_candidate_ids p = [c_candidate_id c] \<and> pk_top p = naive_ranked c
    \<and> map_of (ru_user_facts run) user = Some f \<and> pk_policy p = evaluate c f (policy_config_of st False)
    \<and> decision_allowed (pk_policy p) \<and> map_of (ru_risk run) user = Some r
    \<and> st_measurement_naive_risk_threshold st \<le> rs_churn_risk r)"
proof -
  obtain r where r: "map_of (ru_risk run) user = Some r"
    using assms(1) by (auto simp: naive_user_def bind_result_Inr look_def split: option.splits)
  have high: "st_measurement_naive_risk_threshold st \<le> rs_churn_risk r"
    using assms r by (auto simp: naive_user_def look_def split: if_splits)
  let ?cs = "sort_key (\<lambda>c. (c_cost_idr c, c_incentive_code c)) cands"
  obtain f allowed extra1 where f: "map_of (ru_user_facts run) user = Some f"
    and rules: "naive_rules (policy_config_of st False) f ?cs = Inr (allowed, extra1)"
    and ps: "ps = fst (naive_pick allowed)"
    using assms(1) r high by (auto simp: naive_user_def look_def bind_result_Inr Let_def case_prod_beta split: option.splits)
  obtain c d others where c: "allowed = (c, d) # others" using assms(2) ps by (cases allowed) (auto simp: naive_pick_def)
  have cd: "c \<in> set cands" "d = evaluate c f (policy_config_of st False)" "decision_allowed d"
    using naive_rules_allowed [OF rules, of c d] unfolding c by auto
  have "p = \<lparr>pk_arm = NAIVE, pk_top = naive_ranked c,
             pk_runner_up = (case others of [] \<Rightarrow> None | (c', _) # _ \<Rightarrow> Some (naive_ranked c')),
             pk_candidate_ids = [c_candidate_id c], pk_rank = None, pk_policy = d,
             pk_group_id = None, pk_members = []\<rparr>"
    using assms(2) ps by (simp add: naive_pick_def c)
  then show ?thesis using cd r f high by (intro conjI bexI [OF _ cd(1)] exI) simp_all
qed

lemma naive_arm_pick:
  assumes "naive_arm st run arms = Inr (ps, extra)" and "p \<in> set ps"
  shows "pk_arm p = NAIVE \<and> (\<exists>c \<in> set (naive_candidates run arms). \<exists>f r. \<not> is_group_candidate c
    \<and> pk_candidate_ids p = [c_candidate_id c] \<and> pk_top p = naive_ranked c
    \<and> map_of (ru_user_facts run) (c_user_pseudonym c) = Some f \<and> pk_policy p = evaluate c f (policy_config_of st False)
    \<and> decision_allowed (pk_policy p) \<and> map_of (ru_risk run) (c_user_pseudonym c) = Some r
    \<and> st_measurement_naive_risk_threshold st \<le> rs_churn_risk r)"
proof -
  let ?cs = "filter (\<lambda>c. \<not> is_group_candidate c) (naive_candidates run arms)"
  let ?us = "sort_key fst (group_by c_user_pseudonym ?cs)"
  obtain rs where rs: "map_result (naive_user st run) ?us = Inr rs" and ps: "ps = concat (map fst rs)"
    using assms(1) by (auto simp: naive_arm_def Let_def bind_result_Inr)
  obtain q where q: "q \<in> set rs" "p \<in> set (fst q)" using assms(2) ps by auto
  obtain user cands where uc: "(user, cands) \<in> set ?us" "naive_user st run (user, cands) = Inr q"
    using map_result_in [OF rs q(1)] by auto
  have "set cands \<subseteq> set ?cs" "\<forall>c \<in> set cands. c_user_pseudonym c = user" using uc(1) by (auto simp: group_by_in)
  moreover have "naive_user st run (user, cands) = Inr (fst q, snd q)" using uc(2) by simp
  note pick = naive_user_pick [OF this q(2)]
  from conjunct2 [OF pick] obtain c f r where c: "c \<in> set cands" and rest: "pk_candidate_ids p = [c_candidate_id c]" "pk_top p = naive_ranked c"
    "map_of (ru_user_facts run) user = Some f" "pk_policy p = evaluate c f (policy_config_of st False)"
    "decision_allowed (pk_policy p)" "map_of (ru_risk run) user = Some r" "st_measurement_naive_risk_threshold st \<le> rs_churn_risk r"
    by blast
  ultimately have "c \<in> set (naive_candidates run arms)" "\<not> is_group_candidate c" "c_user_pseudonym c = user" by auto
  then show ?thesis using conjunct1 [OF pick] rest by blast
qed

text \<open>
  C7. Picks respect the experiment and the rules.  An ENGINE pick consists of candidates the policy allows whose
  units are in the ENGINE arm (so CONTROL and NAIVE units get none), and a NAIVE pick is one individual candidate of
  a NAIVE unit whose risk reaches the threshold and which the hard rules, without the segment rule, allow; the
  pick carries that decision.
\<close>

theorem picks_respect_arms:
  assumes "decide_arms x st run arms = Inr (alloc, engine_ps, naive_ps, extra)"
    and "mset (map r_candidate (ru_ranked run)) = mset (allowed_candidates run)"
    and "allocation_items (filter (in_arm arms ENGINE) (ru_ranked run)) = Inr items"
    and "solver_domain (st_allocator_cost_scale_idr st) items (st_default_budget_idr st)"
  shows "list_all (\<lambda>p. pk_arm p = ENGINE \<and> pk_candidate_ids p \<noteq> []
        \<and> list_all (\<lambda>i. \<exists>c \<in> set (allowed_candidates run). c_candidate_id c = i \<and> map_of arms (unit_of c) = Some ENGINE)
            (pk_candidate_ids p)) engine_ps
    \<and> list_all (\<lambda>p. pk_arm p = NAIVE \<and> (\<exists>c \<in> set (ru_candidates run). \<exists>f r. map_of arms (unit_of c) = Some NAIVE
        \<and> \<not> is_group_candidate c \<and> pk_candidate_ids p = [c_candidate_id c] \<and> pk_top p = naive_ranked c
        \<and> map_of (ru_user_facts run) (c_user_pseudonym c) = Some f \<and> pk_policy p = evaluate c f (policy_config_of st False)
        \<and> decision_allowed (pk_policy p) \<and> map_of (ru_risk run) (c_user_pseudonym c) = Some r
        \<and> st_measurement_naive_risk_threshold st \<le> rs_churn_risk r)) naive_ps"
proof
  let ?engine = "filter (in_arm arms ENGINE) (ru_ranked run)"
  obtain naive_extra where alloc: "allocate ?engine (st_default_budget_idr st) (allocator_config_of st) = Inr alloc"
    and engine: "engine_picks x run ?engine alloc = Inr engine_ps" and naive: "naive_arm st run arms = Inr (naive_ps, naive_extra)"
    using assms(1) by (auto simp: decide_arms_def Let_def bind_result_Inr)
  have dom: "solver_domain (al_cost_scale_idr (allocator_config_of st)) items (st_default_budget_idr st)"
    using assms(4) by (simp add: allocator_config_of_def)
  have ids: "ad_candidate_id ` set (ar_decisions alloc) = (\<lambda>r. c_candidate_id (r_candidate r)) ` set ?engine"
    using arg_cong [OF allocated_ids [OF assms(3) dom alloc], of set_mset] by (simp add: comp_def)
  have sub: "r_candidate ` set (ru_ranked run) = set (allowed_candidates run)"
    using arg_cong [OF assms(2), of set_mset] by simp
  have "\<exists>c \<in> set (allowed_candidates run). c_candidate_id c = i \<and> map_of arms (unit_of c) = Some ENGINE"
    if i: "i \<in> ad_candidate_id ` set (ar_decisions alloc)" for i
    using i sub unfolding ids by (auto simp: in_arm_def)
  then show "list_all (\<lambda>p. pk_arm p = ENGINE \<and> pk_candidate_ids p \<noteq> []
        \<and> list_all (\<lambda>i. \<exists>c \<in> set (allowed_candidates run). c_candidate_id c = i \<and> map_of arms (unit_of c) = Some ENGINE)
            (pk_candidate_ids p)) engine_ps"
    using engine_picks_of [OF engine] unfolding list_all_iff by (meson subset_iff)
  show "list_all (\<lambda>p. pk_arm p = NAIVE \<and> (\<exists>c \<in> set (ru_candidates run). \<exists>f r. map_of arms (unit_of c) = Some NAIVE
        \<and> \<not> is_group_candidate c \<and> pk_candidate_ids p = [c_candidate_id c] \<and> pk_top p = naive_ranked c
        \<and> map_of (ru_user_facts run) (c_user_pseudonym c) = Some f \<and> pk_policy p = evaluate c f (policy_config_of st False)
        \<and> decision_allowed (pk_policy p) \<and> map_of (ru_risk run) (c_user_pseudonym c) = Some r
        \<and> st_measurement_naive_risk_threshold st \<le> rs_churn_risk r)) naive_ps"
    using naive_arm_pick [OF naive] unfolding list_all_iff naive_candidates_def by fastforce
qed

text \<open>Three users in the three arms, and a circle in the ENGINE arm whose member is the CONTROL user.\<close>

definition sample_cand :: "string \<Rightarrow> string option \<Rightarrow> candidate" where
  "sample_cand user group_id =
     \<lparr>c_candidate_id = user @ group_text group_id, c_tenant_id = ''t1'', c_user_pseudonym = user, c_incentive_code = ''CASH'',
      c_cost_idr = 1000, c_business_value_idr = 5000, c_encourages_borrowing = False, c_changes_credit_terms = False,
      c_group_id = group_id, c_churn_risk = 1, c_impact_score = 1, c_segment = PERSUADABLE, c_pattern_type = STABLE\<rparr>"

definition sample_cands :: "candidate list" where
  "sample_cands = [sample_cand ''u1'' None, sample_cand ''u2'' None, sample_cand ''u3'' None, sample_cand ''u3'' (Some ''g'')]"

definition sample_arms :: "(string \<times> arm) list" where
  "sample_arms = [(''u1'', ENGINE), (''u2'', NAIVE), (''u3'', CONTROL), (''group:g'', ENGINE)]"

definition sample_facts :: "string \<Rightarrow> user_facts" where
  "sample_facts user = \<lparr>uf_user_pseudonym = user, uf_now = 5, uf_late_repayment_at = [], uf_contacted_at = []\<rparr>"

definition sample_greedy :: settings where
  "sample_greedy = sample_settings\<lparr>st_allocator_strategy := ''greedy''\<rparr>"

definition sample_arm_run :: run where
  "sample_arm_run = (fresh_run ''t1'' ''r1'' 5 (sample_tenant ''t1''))
     \<lparr>ru_users := [''u1'', ''u2'', ''u3''], ru_candidates := sample_cands,
      ru_risk := map (\<lambda>u. (u, plain_risk u 1 ''M'' 0)) [''u1'', ''u2'', ''u3''],
      ru_user_facts := map (\<lambda>u. (u, sample_facts u)) [''u1'', ''u2'', ''u3''],
      ru_decisions := map (\<lambda>c. (c_candidate_id c, evaluate c (sample_facts (c_user_pseudonym c)) (policy_config_of sample_settings True)))
        sample_cands,
      ru_ranked := map (\<lambda>c. \<lparr>r_candidate = c, r_priority = 50, r_ranking_strategy = FALLBACK\<rparr>) sample_cands\<rparr>"

definition sample_engine_items :: "knapsack_item list" where
  "sample_engine_items = (case allocation_items (filter (in_arm sample_arms ENGINE) (ru_ranked sample_arm_run)) of
     Inr items \<Rightarrow> items | Inl e \<Rightarrow> [])"

lemma sample_arm_facts:
  "mset (map r_candidate (ru_ranked sample_arm_run)) = mset (allowed_candidates sample_arm_run)"
  "allocation_items (filter (in_arm sample_arms ENGINE) (ru_ranked sample_arm_run)) = Inr sample_engine_items"
  "solver_domain (st_allocator_cost_scale_idr sample_greedy) sample_engine_items (st_default_budget_idr sample_greedy)"
proof -
  show "mset (map r_candidate (ru_ranked sample_arm_run)) = mset (allowed_candidates sample_arm_run)"
    by (simp add: sample_arm_run_def allowed_candidates_def fresh_run_def comp_def)
  have "case allocation_items (filter (in_arm sample_arms ENGINE) (ru_ranked sample_arm_run)) of Inr items \<Rightarrow> True | Inl e \<Rightarrow> False"
    by code_simp
  then show "allocation_items (filter (in_arm sample_arms ENGINE) (ru_ranked sample_arm_run)) = Inr sample_engine_items"
    by (simp add: sample_engine_items_def split: sum.splits)
  show "solver_domain (st_allocator_cost_scale_idr sample_greedy) sample_engine_items (st_default_budget_idr sample_greedy)"
    by code_simp
qed

lemma sample_decided:
  obtains alloc engine_ps naive_ps extra
  where "decide_arms sample_externals sample_greedy sample_arm_run sample_arms = Inr (alloc, engine_ps, naive_ps, extra)"
    and "map pk_candidate_ids engine_ps = [[''u3g''], [''u1'']]" and "map pk_members engine_ps = [[''u3''], []]"
    and "map pk_candidate_ids naive_ps = [[''u2'']]"
proof -
  have "case decide_arms sample_externals sample_greedy sample_arm_run sample_arms of Inl e \<Rightarrow> False
    | Inr (alloc, engine_ps, naive_ps, extra) \<Rightarrow> map pk_candidate_ids engine_ps = [[''u3g''], [''u1'']]
        \<and> map pk_members engine_ps = [[''u3''], []] \<and> map pk_candidate_ids naive_ps = [[''u2'']]"
    by code_simp
  then show ?thesis using that by (auto split: sum.splits prod.splits)
qed

theorem decide_arms_accounts_witness:
  "\<exists>alloc engine_ps naive_ps extra. decide_arms sample_externals sample_greedy sample_arm_run sample_arms = Inr (alloc, engine_ps, naive_ps, extra)
     \<and> mset (map ad_candidate_id (ar_decisions alloc) @ map ad_candidate_id extra @ concat (map pk_candidate_ids naive_ps))
        = {#''u1'', ''u2'', ''u3'', ''u3g''#}"
proof -
  have arms: "\<forall>c \<in> set (ru_candidates sample_arm_run). \<exists>a. map_of sample_arms (unit_of c) = Some a"
    by (simp add: sample_arm_run_def sample_cands_def sample_cand_def sample_arms_def unit_of_def is_group_candidate_def group_text_def)
  have ids: "mset (map c_candidate_id (ru_candidates sample_arm_run)) = {#''u1'', ''u2'', ''u3'', ''u3g''#}"
    by (simp add: sample_arm_run_def sample_cands_def sample_cand_def group_text_def)
  obtain alloc engine_ps naive_ps extra where
    r: "decide_arms sample_externals sample_greedy sample_arm_run sample_arms = Inr (alloc, engine_ps, naive_ps, extra)"
    by (rule sample_decided)
  from decide_arms_accounts [OF r sample_arm_facts(1) arms sample_arm_facts(2,3)] ids r show ?thesis by metis
qed

theorem picks_respect_arms_witness:
  "\<exists>alloc engine_ps naive_ps extra. decide_arms sample_externals sample_greedy sample_arm_run sample_arms = Inr (alloc, engine_ps, naive_ps, extra)
     \<and> length engine_ps = 2 \<and> length naive_ps = 1 \<and> list_all (\<lambda>p. pk_arm p = ENGINE) engine_ps
     \<and> list_all (\<lambda>p. pk_arm p = NAIVE \<and> decision_allowed (pk_policy p)) naive_ps"
proof -
  obtain alloc engine_ps naive_ps extra where
    r: "decide_arms sample_externals sample_greedy sample_arm_run sample_arms = Inr (alloc, engine_ps, naive_ps, extra)"
    and ps: "map pk_candidate_ids engine_ps = [[''u3g''], [''u1'']]" "map pk_candidate_ids naive_ps = [[''u2'']]"
    by (rule sample_decided)
  have "length engine_ps = 2" "length naive_ps = 1"
    using arg_cong [OF ps(1), of length] arg_cong [OF ps(2), of length] by simp_all
  moreover have "list_all (\<lambda>p. pk_arm p = ENGINE) engine_ps \<and> list_all (\<lambda>p. pk_arm p = NAIVE \<and> decision_allowed (pk_policy p)) naive_ps"
    using picks_respect_arms [OF r sample_arm_facts(1-3)] by (auto simp: list_all_iff)
  ultimately show ?thesis using r by blast
qed

text \<open>
  A user in the CONTROL arm can be treated: the arm of a bundle is drawn for its group, not for its members, so a
  circle in the ENGINE arm is picked with a member whose own unit is held out; that user's individual candidate is
  excluded with CONTROL_HOLDOUT in the same run.
\<close>

theorem control_member_treated:
  shows "(case decide_arms sample_externals sample_greedy sample_arm_run sample_arms of
      Inl e \<Rightarrow> False
    | Inr (alloc, engine_ps, naive_ps, extra) \<Rightarrow>
        map_of sample_arms ''u3'' = Some CONTROL
        \<and> list_ex (\<lambda>p. pk_arm p = ENGINE \<and> pk_group_id p = Some ''g'' \<and> pk_members p = [''u3'']) engine_ps
        \<and> map (\<lambda>d. (ad_candidate_id d, ad_exclusion_reason d)) extra = [(''u3'', Some CONTROL_HOLDOUT)])"
  by code_simp

end
