(* ===== verification/Narration.thy ===== *)
theory Narration
  imports Decisions
begin

text \<open>
  Properties of the EXPLAIN stage and of the validator of narrations: what leaves the stage is validated against the
  pick's own fact sheet or is the template of that sheet, whatever the language model answers; and what the
  validator does not see.
\<close>

section \<open>Narrations are sound\<close>

text \<open>A narration of a fact sheet: generated and validated against it, or its template.\<close>

definition sound_narration :: "(json \<Rightarrow> string) \<Rightarrow> fact_sheet \<Rightarrow> string \<times> string \<Rightarrow> bool" where
  "sound_narration other fs n \<longleftrightarrow> (case n of (t, source) \<Rightarrow>
     source = SOURCE_LLM \<and> validate_narration t fs = Inr () \<or> source = SOURCE_TEMPLATE \<and> render_template other fs = Inr t)"

definition sound_cache ::
  "(string \<Rightarrow> string) \<Rightarrow> (pyfloat \<Rightarrow> string) \<Rightarrow> (json \<Rightarrow> string) \<Rightarrow> fact_sheet set \<Rightarrow> narration_cache \<Rightarrow> bool" where
  "sound_cache sha float_repr other sheets cache \<longleftrightarrow>
     (\<forall>fs \<in> sheets. \<forall>n. map_of cache (fact_sheet_hash sha float_repr fs) = Some n \<longrightarrow> sound_narration other fs n)"

lemma narrate_sound:
  assumes "narrate_or_fallback sha float_repr other fs narrator (Some cache) = Inr (n, cache')"
    and "sound_cache sha float_repr other sheets cache" and "fs \<in> sheets"
    and "inj_on (fact_sheet_hash sha float_repr) sheets"
  shows "sound_narration other fs n \<and> sound_cache sha float_repr other sheets (case cache' of None \<Rightarrow> cache | Some c \<Rightarrow> c)"
proof (cases "map_of cache (fact_sheet_hash sha float_repr fs)")
  case (Some hit)
  then have "n = hit" "cache' = Some cache" using assms(1) by (simp_all add: narrate_or_fallback_def)
  moreover have "sound_narration other fs hit" using Some assms(2,3) unfolding sound_cache_def by blast
  ultimately show ?thesis using assms(2) by simp
next
  case None
  let ?key = "fact_sheet_hash sha float_repr fs"
  obtain t where t: "render_template other fs = Inr t"
    using assms(1) None by (auto simp: narrate_or_fallback_def bind_result_Inr)
  have n: "sound_narration other fs n" and c: "cache' = Some (AList.update ?key n cache)"
    using assms(1) None t
    by (auto simp: narrate_or_fallback_def sound_narration_def bind_result_Inr Let_def build_prompt_def split: option.splits sum.splits)
  have "sound_narration other fs' n'"
    if "fs' \<in> sheets" "map_of (AList.update ?key n cache) (fact_sheet_hash sha float_repr fs') = Some n'" for fs' n'
  proof (cases "fact_sheet_hash sha float_repr fs' = ?key")
    case True
    then have "fs' = fs" using assms(3,4) that(1) by (auto dest: inj_onD)
    then show ?thesis using that(2) n by (simp add: AList.update_conv')
  next
    case False
    then have "map_of cache (fact_sheet_hash sha float_repr fs') = Some n'" using that(2) by (simp add: AList.update_conv')
    then show ?thesis using that(1) assms(2) unfolding sound_cache_def by blast
  qed
  then show ?thesis using n c by (simp add: sound_cache_def)
qed

lemma explain_loop_sound:
  assumes "explain_loop x st run ps cache s = (Inr ns, s')"
    and "sound_cache (x_sha256_hex x) (x_float_repr x) (x_repr x) {fs. \<exists>p \<in> set ps0. sheet_of st run p = Inr fs} cache"
    and "set ps \<subseteq> set ps0"
    and "inj_on (fact_sheet_hash (x_sha256_hex x) (x_float_repr x)) {fs. \<exists>p \<in> set ps0. sheet_of st run p = Inr fs}"
  shows "list_all2 (\<lambda>p (t, source, digest). \<exists>fs. sheet_of st run p = Inr fs
    \<and> digest = fact_sheet_hash (x_sha256_hex x) (x_float_repr x) fs \<and> sound_narration (x_repr x) fs (t, source)) ps ns"
  using assms(1-3)
proof (induction ps arbitrary: cache s ns s')
  case (Cons p ps)
  let ?sheets = "{fs. \<exists>p \<in> set ps0. sheet_of st run p = Inr fs}"
  let ?hash = "fact_sheet_hash (x_sha256_hex x) (x_float_repr x)"
  obtain fs t source cache' where fs: "sheet_of st run p = Inr fs"
    and n: "narrate_or_fallback (x_sha256_hex x) (x_float_repr x) (x_repr x) fs (x_narrator x) (Some cache) = Inr ((t, source), cache')"
    and rest: "bind_effect (explain_loop x st run ps (case cache' of None \<Rightarrow> cache | Some c \<Rightarrow> c)) (\<lambda>ns. pure (Inr ((t, source, ?hash fs) # ns)))
        (save_narration (ru_tenant_id run)
          \<lparr>na_run_id = ru_run_id run, na_fact_sheet_hash = ?hash fs, na_text = t, na_source = source\<rparr> s) = (Inr ns, s')"
    using Cons.prems(1) by (auto simp: bind_result_Inr Let_def split: sum.splits prod.splits)
  have "fs \<in> ?sheets" using fs Cons.prems(3) by auto
  note sound = narrate_sound [OF n Cons.prems(2) this assms(4)]
  obtain ns' s1 where ns: "ns = (t, source, ?hash fs) # ns'"
    and loop: "explain_loop x st run ps (case cache' of None \<Rightarrow> cache | Some c \<Rightarrow> c) (save_narration (ru_tenant_id run)
          \<lparr>na_run_id = ru_run_id run, na_fact_sheet_hash = ?hash fs, na_text = t, na_source = source\<rparr> s) = (Inr ns', s1)"
    using rest by (auto simp: bind_effect_def split: prod.splits sum.splits)
  have "set ps \<subseteq> set ps0" using Cons.prems(3) by simp
  from Cons.IH [OF loop conjunct2 [OF sound] this] show ?case
    using fs conjunct1 [OF sound] by (auto simp: ns)
qed simp

text \<open>
  C8. No unchecked text leaves EXPLAIN.  If the fact sheets of the run's picks have different hashes, then every
  narration of the stage belongs to its pick: its digest is the hash of the pick's fact sheet, and its text was
  accepted by \<open>validate_narration\<close> for that very sheet or is the template rendered from it - whatever the
  language model returned, and also when the text comes from the cache.
\<close>

theorem explain_stage_sound:
  assumes "explain_stage x st run s = (Inr (run', d), s')"
    and "inj_on (fact_sheet_hash (x_sha256_hex x) (x_float_repr x)) {fs. \<exists>p \<in> set (ru_picks run). sheet_of st run p = Inr fs}"
  shows "list_all2 (\<lambda>p (t, source, digest). \<exists>fs. sheet_of st run p = Inr fs
      \<and> digest = fact_sheet_hash (x_sha256_hex x) (x_float_repr x) fs
      \<and> (source = SOURCE_LLM \<and> validate_narration t fs = Inr () \<or> source = SOURCE_TEMPLATE \<and> render_template (x_repr x) fs = Inr t))
    (ru_picks run) (ru_narrations run')"
proof -
  obtain ns where loop: "explain_loop x st run (ru_picks run) [] s = (Inr ns, s')" and run': "ru_narrations run' = ns"
    using assms(1) by (auto simp: explain_stage_def bind_effect_def pure_def split: prod.splits sum.splits)
  have "sound_cache (x_sha256_hex x) (x_float_repr x) (x_repr x) {fs. \<exists>p \<in> set (ru_picks run). sheet_of st run p = Inr fs} []"
    by (simp add: sound_cache_def)
  from explain_loop_sound [OF loop this subset_refl assms(2)] show ?thesis
    unfolding run' sound_narration_def by simp
qed

definition sample_pick :: pick where
  "sample_pick = \<lparr>pk_arm = NAIVE, pk_top = naive_ranked (sample_cand ''u1'' None), pk_runner_up = None, pk_candidate_ids = [''u1''],
     pk_rank = None, pk_policy = evaluate (sample_cand ''u1'' None) (sample_facts ''u1'') (policy_config_of sample_settings False),
     pk_group_id = None, pk_members = []\<rparr>"

definition sample_explain_run :: run where
  "sample_explain_run = sample_arm_run\<lparr>ru_picks := [sample_pick]\<rparr>"

definition talking :: "string \<Rightarrow> externals" where
  "talking answer = sample_externals\<lparr>x_narrator := Some (\<lambda>system user. Inr answer)\<rparr>"

lemma talking_simps [simp]:
  "x_repr (talking answer) = x_repr sample_externals" "x_float_repr (talking answer) = x_float_repr sample_externals"
  "x_sha256_hex (talking answer) = x_sha256_hex sample_externals"
  "x_narrator (talking answer) = Some (\<lambda>system user. Inr answer)"
  by (simp_all add: talking_def)

text \<open>A blank answer is replaced by the template.\<close>

theorem explain_stage_sound_witness:
  "\<exists>run' d s'. explain_stage (talking '' '') sample_settings sample_explain_run empty_store = (Inr (run', d), s')
     \<and> map (\<lambda>(t, source, digest). source) (ru_narrations run') = [SOURCE_TEMPLATE]
     \<and> (\<exists>fs. sheet_of sample_settings sample_explain_run sample_pick = Inr fs
          \<and> render_template (x_repr (talking '' '')) fs = Inr (fst (hd (ru_narrations run'))))"
proof -
  let ?x = "talking '' ''" and ?sheet = "sheet_of sample_settings sample_explain_run sample_pick"
  have picks: "ru_picks sample_explain_run = [sample_pick]" by (simp add: sample_explain_run_def)
  have "case ?sheet of Inl e \<Rightarrow> False | Inr fs \<Rightarrow> \<not> isl (render_template (x_repr sample_externals) fs)" by code_simp
  then obtain fs t where fs: "?sheet = Inr fs" and t: "render_template (x_repr sample_externals) fs = Inr t"
    by (auto simp: isl_def split: sum.splits) (metis sum.exhaust)
  have n: "\<exists>c. narrate_or_fallback (x_sha256_hex ?x) (x_float_repr ?x) (x_repr ?x) fs (x_narrator ?x) (Some [])
      = Inr ((t, SOURCE_TEMPLATE), c)"
    by (simp add: Let_def narrate_or_fallback_def t build_prompt_def validate_narration_def py_strip_def is_space_def)
  then obtain run' d s' where r: "explain_stage ?x sample_settings sample_explain_run empty_store = (Inr (run', d), s')"
    and src: "map (\<lambda>(t, source, digest). source) (ru_narrations run') = [SOURCE_TEMPLATE]"
    by (auto simp: explain_stage_def picks fs bind_effect_def pure_def Let_def)
  have "inj_on (fact_sheet_hash (x_sha256_hex ?x) (x_float_repr ?x))
      {fs. \<exists>p \<in> set (ru_picks sample_explain_run). sheet_of sample_settings sample_explain_run p = Inr fs}"
    by (auto simp: picks inj_on_def)
  from explain_stage_sound [OF r this] obtain fs where "?sheet = Inr fs"
    "render_template (x_repr ?x) fs = Inr (fst (hd (ru_narrations run')))"
    using src by (auto simp: picks list_all2_Cons1 SOURCE_LLM_def SOURCE_TEMPLATE_def)
  with r src show ?thesis by (intro exI conjI)
qed

section \<open>What the validator sees\<close>

text \<open>
  The validator skips a number that mixes separators or has several of one kind that are not thousands:
  \<open>_interpretations\<close> gives it no reading, and \<open>extract_numbers\<close> drops tokens without one.  So a narration that
  promises an amount of ten million rupiah is accepted for every fact sheet.
\<close>

theorem mixed_separators_unchecked:
  "validate_narration ''Cost Rp 9.999.999,50 or 10,000.00.'' fs = Inr ()"
proof -
  have "extract_numbers ''Cost Rp 9.999.999,50 or 10,000.00.'' = []" by code_simp
  moreover have "hex_ids ''Cost Rp 9.999.999,50 or 10,000.00.'' = []" by code_simp
  moreover have "py_strip ''Cost Rp 9.999.999,50 or 10,000.00.'' \<noteq> []" by code_simp
  ultimately show ?thesis by (simp add: validate_narration_def MAX_CHARS_def)
qed

end
