(* ===== verification/Codec.thy ===== *)
theory Codec
  imports Web
begin

text \<open>
  The text codecs of the standard library that the console's session cookie goes through (\<open>api/auth.py\<close>):
  \<open>base64.urlsafe_b64encode\<close> and \<open>urlsafe_b64decode\<close>, \<open>json.dumps(payload, sort_keys=True)\<close> and
  \<open>json.loads\<close>.  A string's characters are its bytes below 256; escapes of characters above are outside the
  model's text and read as a \<open>ValueError\<close>.  The conversion of a decimal text to a float is a parameter.  The
  lemmas are the round trips: decoding inverts encoding, and loading a flat object inverts dumping it.
\<close>

section \<open>Base64\<close>

definition urlsafe_alphabet :: string where
  "urlsafe_alphabet = ''ABCDEFGHIJKLMNOPQRSTUVWXYZabcdefghijklmnopqrstuvwxyz0123456789-_''"

definition sextet :: "nat \<Rightarrow> char" where
  "sextet n = urlsafe_alphabet ! (n mod 64)"

fun urlsafe_b64encode :: "string \<Rightarrow> string" where
  "urlsafe_b64encode [] = []"
| "urlsafe_b64encode [a] =
     (let n = of_char a * 16 in [sextet (n div 64), sextet n] @ ''=='')"
| "urlsafe_b64encode [a, b] =
     (let n = (of_char a * 256 + of_char b) * 4 in [sextet (n div 4096), sextet (n div 64), sextet n] @ ''='')"
| "urlsafe_b64encode (a # b # c # s) =
     (let n = of_char a * 65536 + of_char b * 256 + of_char c
      in [sextet (n div 262144), sextet (n div 4096), sextet (n div 64), sextet n] @ urlsafe_b64encode s)"

text \<open>The value of a character after \<open>-\<close> and \<open>_\<close> have been translated to \<open>+\<close> and \<open>/\<close>.\<close>

definition sextet_value :: "char \<Rightarrow> nat option" where
  "sextet_value ch = (let n = of_char ch :: nat in
     if 65 \<le> n \<and> n \<le> 90 then Some (n - 65)
     else if 97 \<le> n \<and> n \<le> 122 then Some (n - 71)
     else if 48 \<le> n \<and> n \<le> 57 then Some (n + 4)
     else if ch = CHR ''+'' \<or> ch = CHR ''-'' then Some 62
     else if ch = CHR ''/'' \<or> ch = CHR ''_'' then Some 63 else None)"

text \<open>
  \<open>binascii.a2b_base64\<close>, not strict: foreign characters are skipped, a complete padding ends the input, and a
  quantum that is left open is an error (\<open>None\<close>, a \<open>ValueError\<close>).  \<open>quad\<close> counts the characters of the quantum, \<open>left\<close>
  holds its pending bits, \<open>pads\<close> the \<open>=\<close> seen since its last character.
\<close>

fun a2b :: "nat \<Rightarrow> nat \<Rightarrow> nat \<Rightarrow> string \<Rightarrow> string option" where
  "a2b quad left pads [] = (if quad = 0 then Some [] else None)"
| "a2b quad left pads (ch # s) =
     (if ch = CHR ''=''
      then if 2 \<le> quad then if 4 \<le> quad + (pads + 1) then Some [] else a2b quad left (pads + 1) s
           else a2b quad left pads s
      else case sextet_value ch of
          None \<Rightarrow> a2b quad left pads s
        | Some v \<Rightarrow>
            if quad = 0 then a2b 1 v 0 s
            else if quad = 1 then map_option ((#) (char_of (left * 4 + v div 16))) (a2b 2 (v mod 16) 0 s)
            else if quad = 2 then map_option ((#) (char_of (left * 16 + v div 4))) (a2b 3 (v mod 4) 0 s)
            else map_option ((#) (char_of (left * 64 + v))) (a2b 0 0 0 s))"

definition urlsafe_b64decode :: "string \<Rightarrow> string option" where
  "urlsafe_b64decode s = a2b 0 0 0 s"

lemma sextet_values: "map sextet_value urlsafe_alphabet = map Some [0..<64]"
  by (simp add: urlsafe_alphabet_def sextet_value_def Let_def upt_rec)

lemma alphabet_plain: "list_all (\<lambda>c. c \<noteq> CHR ''='' \<and> c \<noteq> CHR ''.'' \<and> (of_char c :: nat) < 128) urlsafe_alphabet"
  by (simp add: urlsafe_alphabet_def)

lemma alphabet_length: "length urlsafe_alphabet = 64"
  by (simp add: urlsafe_alphabet_def)

lemma sextet_value_sextet [simp]: "sextet_value (sextet n) = Some (n mod 64)"
  using arg_cong [OF sextet_values, of "\<lambda>l. l ! (n mod 64)"] by (simp add: sextet_def alphabet_length)

lemma sextet_plain [simp]: "sextet n \<noteq> CHR ''=''" "sextet n \<noteq> CHR ''.''" "(of_char (sextet n) :: nat) < 128"
  using alphabet_plain unfolding list_all_length alphabet_length sextet_def by simp_all

lemma of_char_less [simp]: "of_char c < (256 :: nat)"
  using of_char_mod_256 [of c] by (metis mod_less_divisor zero_less_numeral)

lemma char_of_of_char_eq: "n = of_char c \<Longrightarrow> char_of (n :: nat) = c"
  by simp

lemma last_sextet: "t < 64 \<Longrightarrow> (x * 64 + t) div 64 = x" "t < 64 \<Longrightarrow> (x * 64 + t) mod 64 = t" for t x :: nat
  by simp_all

lemma quantum:
  fixes p q r t :: nat
  assumes "p < 64" "q < 64" "r < 64" "t < 64" "n = ((p * 64 + q) * 64 + r) * 64 + t"
  shows "n div 262144 mod 64 = p" "n div 4096 mod 64 = q" "n div 64 mod 64 = r" "n mod 64 = t"
proof -
  have "n div 4096 = n div 64 div 64" "n div 262144 = n div 64 div 64 div 64" by (simp_all add: div_mult2_eq [symmetric])
  then show "n div 262144 mod 64 = p" "n div 4096 mod 64 = q" "n div 64 mod 64 = r" "n mod 64 = t"
    using assms(1) unfolding assms(5)
    by (simp_all only: last_sextet [OF assms(2)] last_sextet [OF assms(3)] last_sextet [OF assms(4)] mod_less)
qed

text \<open>Three bytes as four groups of six bits, and back.\<close>

lemma bytes_split:
  fixes a b c :: nat
  assumes "a < 256" "b < 256" "c < 256"
  defines "n \<equiv> a * 65536 + b * 256 + c"
  shows "n div 262144 mod 64 * 4 + n div 4096 mod 64 div 16 = a"
    "n div 4096 mod 64 mod 16 * 16 + n div 64 mod 64 div 4 = b"
    "n div 64 mod 64 mod 4 * 64 + n mod 64 = c"
proof -
  define p a' q b' r c' where "p = a div 4" and "a' = a mod 4" and "q = b div 16" and "b' = b mod 16"
    and "r = c div 64" and "c' = c mod 64"
  note defs = p_def a'_def q_def b'_def r_def c'_def
  have split: "a = p * 4 + a'" "b = q * 16 + b'" "c = r * 64 + c'" by (simp_all add: defs)
  have small: "q < 16" "r < 4" "a' < 4" "b' < 16" "p < 64" "c' < 64" using assms(1-3) by (simp_all add: defs)
  then have bounds: "a' * 16 + q < 64" "b' * 4 + r < 64" by linarith+
  have n: "n = ((p * 64 + (a' * 16 + q)) * 64 + (b' * 4 + r)) * 64 + c'" unfolding n_def split by simp
  note * = quantum [OF small(5) bounds small(6) n]
  show "n div 262144 mod 64 * 4 + n div 4096 mod 64 div 16 = a"
    "n div 4096 mod 64 mod 16 * 16 + n div 64 mod 64 div 4 = b"
    "n div 64 mod 64 mod 4 * 64 + n mod 64 = c"
    unfolding * unfolding split using small by simp_all
qed

lemma a2b_quantum:
  "a2b 0 0 0 ([sextet (n div 64), sextet n] @ ''=='') = Some [char_of (n div 64 mod 64 * 4 + n mod 64 div 16)]"
  "a2b 0 0 0 ([sextet (n div 4096), sextet (n div 64), sextet n] @ ''='')
     = Some [char_of (n div 4096 mod 64 * 4 + n div 64 mod 64 div 16), char_of (n div 64 mod 64 mod 16 * 16 + n mod 64 div 4)]"
  "a2b 0 0 0 ([sextet (n div 262144), sextet (n div 4096), sextet (n div 64), sextet n] @ s)
     = map_option (\<lambda>t. char_of (n div 262144 mod 64 * 4 + n div 4096 mod 64 div 16)
         # char_of (n div 4096 mod 64 mod 16 * 16 + n div 64 mod 64 div 4) # char_of (n div 64 mod 64 mod 4 * 64 + n mod 64) # t)
         (a2b 0 0 0 s)"
  by (simp_all add: option.map_comp comp_def)

lemma short_quantum:
  fixes m :: nat
  shows "m div 64 div 64 = m div 4096" "m div 4096 div 64 = m div 262144"
  by (simp_all only: div_mult2_eq [symmetric]) simp_all

theorem b64_roundtrip: "urlsafe_b64decode (urlsafe_b64encode s) = Some s"
  unfolding urlsafe_b64decode_def
proof (induction s rule: urlsafe_b64encode.induct)
  case (2 a)
  let ?n = "of_char a * 65536 + 0 * 256 + 0 :: nat"
  have n: "of_char a * 16 = ?n div 4096" by simp
  show ?case
    unfolding urlsafe_b64encode.simps Let_def a2b_quantum unfolding n unfolding short_quantum
    by (simp only: bytes_split [OF of_char_less [of a]] zero_less_numeral char_of_char)
next
  case (3 a b)
  let ?n = "of_char a * 65536 + of_char b * 256 + 0 :: nat"
  have n: "(of_char a * 256 + of_char b) * 4 = ?n div 64" by simp
  have "?n div 64 div 4096 = ?n div 262144" by (simp only: div_mult2_eq [symmetric]) simp
  then show ?case
    unfolding urlsafe_b64encode.simps Let_def a2b_quantum unfolding n unfolding short_quantum
    by (simp only: bytes_split [OF of_char_less [of a] of_char_less [of b]] zero_less_numeral char_of_char)
next
  case (4 a b c s)
  then show ?case
    unfolding urlsafe_b64encode.simps Let_def a2b_quantum
    by (simp only: bytes_split [OF of_char_less [of a] of_char_less [of b] of_char_less [of c]] char_of_char option.map)
qed simp

text \<open>The encoding holds no full stop, which separates the body of a cookie from its signature, and is ASCII.\<close>

lemma b64_plain: "c \<in> set (urlsafe_b64encode s) \<Longrightarrow> c \<noteq> CHR ''.'' \<and> (of_char c :: nat) < 128"
  by (induction s rule: urlsafe_b64encode.induct) (auto simp: Let_def)

section \<open>JSON text\<close>

text \<open>\<open>json.dumps(value, sort_keys=True)\<close>: ASCII only, a blank after commas and colons.\<close>

definition escape_ascii :: "char \<Rightarrow> string" where
  "escape_ascii c = (let n = of_char c :: nat in
     if n = 34 then [CHR 0x5C, CHR 0x22] else if n = 92 then [CHR 0x5C, CHR 0x5C]
     else if n = 10 then CHR 0x5C # ''n'' else if n = 13 then CHR 0x5C # ''r''
     else if n = 9 then CHR 0x5C # ''t'' else if n = 12 then CHR 0x5C # ''f''
     else if n = 8 then CHR 0x5C # ''b''
     else if 32 \<le> n \<and> n < 127 then [c]
     else CHR 0x5C # ''u00'' @ [hex_digit (int n div 16), hex_digit (int n mod 16)])"

definition quoted :: "string \<Rightarrow> string" where
  "quoted s = CHR 0x22 # concat (map escape_ascii s) @ [CHR 0x22]"

fun json_dumps :: "(pyfloat \<Rightarrow> string) \<Rightarrow> json \<Rightarrow> string"
and json_dumps_items :: "(pyfloat \<Rightarrow> string) \<Rightarrow> json list \<Rightarrow> string list"
and json_dumps_pairs :: "(pyfloat \<Rightarrow> string) \<Rightarrow> (string \<times> json) list \<Rightarrow> (string \<times> string) list" where
  "json_dumps float_repr JNull = ''null''"
| "json_dumps float_repr (JBool b) = (if b then ''true'' else ''false'')"
| "json_dumps float_repr (JInt n) = show_int n"
| "json_dumps float_repr (JFloat x) = float_repr x"
| "json_dumps float_repr (JStr s) = quoted s"
| "json_dumps float_repr (JList xs) = ''['' @ join '', '' (json_dumps_items float_repr xs) @ '']''"
| "json_dumps float_repr (JDict d) =
     ''{'' @ join '', '' (map (\<lambda>(k, t). quoted k @ '': '' @ t) (sort_key fst (json_dumps_pairs float_repr d))) @ ''}''"
| "json_dumps_items float_repr [] = []"
| "json_dumps_items float_repr (x # xs) = json_dumps float_repr x # json_dumps_items float_repr xs"
| "json_dumps_pairs float_repr [] = []"
| "json_dumps_pairs float_repr ((k, v) # d) = (k, json_dumps float_repr v) # json_dumps_pairs float_repr d"

text \<open>
  \<open>json.loads\<close>: the scanner of the standard library.  The recursion has fuel, one more than the length of the text,
  which every value, item and pair consumes a character of.
\<close>

definition json_blank :: "char \<Rightarrow> bool" where
  "json_blank c \<longleftrightarrow> (of_char c :: nat) \<in> {32, 9, 10, 13}"

definition skip_blanks :: "string \<Rightarrow> string" where
  "skip_blanks s = dropWhile json_blank s"

definition simple_escape :: "char \<Rightarrow> char option" where
  "simple_escape e =
     (if e = CHR 0x22 \<or> e = CHR 0x5C \<or> e = CHR ''/'' then Some e
      else if e = CHR ''b'' then Some (CHR 0x08) else if e = CHR ''f'' then Some (CHR 0x0C)
      else if e = CHR ''n'' then Some (CHR 0x0A) else if e = CHR ''r'' then Some (CHR 0x0D)
      else if e = CHR ''t'' then Some (CHR 0x09) else None)"

text \<open>The four digits after \<open>\u\<close>, for code points below 256.\<close>

definition unicode_escape :: "string \<Rightarrow> char option" where
  "unicode_escape s = (case s of
      a # b # c # d # r \<Rightarrow>
        (case (hex_value a, hex_value b, hex_value c, hex_value d) of
           (Some w, Some x, Some y, Some z) \<Rightarrow>
             (let n = ((w * 16 + x) * 16 + y) * 16 + z in if n < 256 then Some (char_of (nat n)) else None)
         | _ \<Rightarrow> None)
    | _ \<Rightarrow> None)"

fun scan_string :: "string \<Rightarrow> (string \<times> string) option" where
  "scan_string [] = None"
| "scan_string (c # s) =
     (if c = CHR 0x22 then Some ([], s)
      else if c = CHR 0x5C
      then (case s of
              [] \<Rightarrow> None
            | e # r \<Rightarrow>
                if e = CHR ''u''
                then (case unicode_escape r of
                        None \<Rightarrow> None
                      | Some ch \<Rightarrow> map_option (apfst ((#) ch)) (scan_string (drop 4 r)))
                else (case simple_escape e of
                        None \<Rightarrow> None
                      | Some ch \<Rightarrow> map_option (apfst ((#) ch)) (scan_string r)))
      else if (of_char c :: nat) < 32 then None
      else map_option (apfst ((#) c)) (scan_string s))"

definition is_digit :: "char \<Rightarrow> bool" where
  "is_digit c \<longleftrightarrow> 48 \<le> (of_char c :: nat) \<and> (of_char c :: nat) \<le> 57"

fun decimal :: "nat \<Rightarrow> string \<Rightarrow> nat" where
  "decimal n [] = n"
| "decimal n (c # s) = decimal (n * 10 + (of_char c - 48)) s"

text \<open>\<open>(-?(?:0|[1-9]\d*))(\.\d+)?([eE][-+]?\d+)?\<close>\<close>

definition fraction_of :: "string \<Rightarrow> string" where
  "fraction_of s = (case s of
      c # r \<Rightarrow> if c = CHR ''.'' \<and> takeWhile is_digit r \<noteq> [] then c # takeWhile is_digit r else []
    | [] \<Rightarrow> [])"

definition exponent_of :: "string \<Rightarrow> string" where
  "exponent_of s = (case s of
      c # r \<Rightarrow>
        if c = CHR ''e'' \<or> c = CHR ''E''
        then (case r of
                [] \<Rightarrow> []
              | sg # t \<Rightarrow>
                  if sg = CHR ''-'' \<or> sg = CHR ''+''
                  then if takeWhile is_digit t \<noteq> [] then c # sg # takeWhile is_digit t else []
                  else if takeWhile is_digit r \<noteq> [] then c # takeWhile is_digit r else [])
        else []
    | [] \<Rightarrow> [])"

definition int_digits :: "string \<Rightarrow> string" where
  "int_digits s = (if starts_with ''0'' s then ''0'' else takeWhile is_digit s)"

definition scan_number :: "(string \<Rightarrow> pyfloat) \<Rightarrow> string \<Rightarrow> (json \<times> string) option" where
  "scan_number float_of s =
     (let sign = (if starts_with ''-'' s then ''-'' else []);
          s1 = drop (length sign) s;
          ds = int_digits s1;
          s2 = drop (length ds) s1;
          frac = fraction_of s2;
          expo = exponent_of (drop (length frac) s2);
          rest = drop (length frac + length expo) s2
      in if ds = [] then None
         else if frac @ expo = []
         then Some (JInt (if sign = [] then int (decimal 0 ds) else - int (decimal 0 ds)), rest)
         else Some (JFloat (float_of (sign @ ds @ frac @ expo)), rest))"

fun scan_value :: "(string \<Rightarrow> pyfloat) \<Rightarrow> nat \<Rightarrow> string \<Rightarrow> (json \<times> string) option"
and scan_items :: "(string \<Rightarrow> pyfloat) \<Rightarrow> nat \<Rightarrow> string \<Rightarrow> (json list \<times> string) option"
and scan_pairs :: "(string \<Rightarrow> pyfloat) \<Rightarrow> nat \<Rightarrow> (string \<times> json) list \<Rightarrow> string \<Rightarrow> ((string \<times> json) list \<times> string) option" where
  "scan_value float_of 0 s = None"
| "scan_value float_of (Suc n) s = (case s of
      [] \<Rightarrow> None
    | c # r \<Rightarrow>
        if c = CHR 0x22 then map_option (apfst JStr) (scan_string r)
        else if c = CHR ''{''
        then if starts_with ''}'' (skip_blanks r) then Some (JDict [], drop 1 (skip_blanks r))
             else map_option (apfst JDict) (scan_pairs float_of n [] (skip_blanks r))
        else if c = CHR ''[''
        then if starts_with '']'' (skip_blanks r) then Some (JList [], drop 1 (skip_blanks r))
             else map_option (apfst JList) (scan_items float_of n (skip_blanks r))
        else if starts_with ''null'' s then Some (JNull, drop 4 s)
        else if starts_with ''true'' s then Some (JBool True, drop 4 s)
        else if starts_with ''false'' s then Some (JBool False, drop 5 s)
        else scan_number float_of s)"
| "scan_items float_of 0 s = None"
| "scan_items float_of (Suc n) s = (case scan_value float_of n s of
      None \<Rightarrow> None
    | Some (v, r) \<Rightarrow>
        if starts_with '','' (skip_blanks r)
        then map_option (apfst ((#) v)) (scan_items float_of n (skip_blanks (drop 1 (skip_blanks r))))
        else if starts_with '']'' (skip_blanks r) then Some ([v], drop 1 (skip_blanks r)) else None)"
| "scan_pairs float_of 0 d s = None"
| "scan_pairs float_of (Suc n) d s =
     (if \<not> starts_with [CHR 0x22] s then None
      else case scan_string (drop 1 s) of
          None \<Rightarrow> None
        | Some (k, r) \<Rightarrow>
            if \<not> starts_with '':'' (skip_blanks r) then None
            else case scan_value float_of n (skip_blanks (drop 1 (skip_blanks r))) of
                None \<Rightarrow> None
              | Some (v, r2) \<Rightarrow>
                  if starts_with '','' (skip_blanks r2)
                  then scan_pairs float_of n (AList.update k v d) (skip_blanks (drop 1 (skip_blanks r2)))
                  else if starts_with ''}'' (skip_blanks r2) then Some (AList.update k v d, drop 1 (skip_blanks r2)) else None)"

definition json_loads :: "(string \<Rightarrow> pyfloat) \<Rightarrow> string \<Rightarrow> json option" where
  "json_loads float_of s = (case scan_value float_of (Suc (length s)) (skip_blanks s) of
      None \<Rightarrow> None
    | Some (v, r) \<Rightarrow> if skip_blanks r = [] then Some v else None)"

text \<open>The UTF-8 decoding of bytes, for code points below 256.\<close>

fun utf8_decode :: "string \<Rightarrow> string option" where
  "utf8_decode [] = Some []"
| "utf8_decode (c # s) =
     (if (of_char c :: nat) < 128 then map_option ((#) c) (utf8_decode s)
      else if (of_char c :: nat) \<in> {194, 195}
      then (case s of
              [] \<Rightarrow> None
            | d # r \<Rightarrow>
                if 128 \<le> (of_char d :: nat) \<and> (of_char d :: nat) < 192
                then map_option ((#) (char_of ((of_char c - 192) * 64 + (of_char d - 128) :: nat))) (utf8_decode r)
                else None)
      else None)"

section \<open>Loading what was dumped\<close>

lemma hex_value_digit: "0 \<le> n \<Longrightarrow> n < 16 \<Longrightarrow> hex_value (hex_digit n) = Some n"
  using hex_digit_cases by blast

lemma unicode_escape_hex: "unicode_escape (''00'' @ [hex_digit (int (of_char c) div 16), hex_digit (int (of_char c) mod 16)] @ t) = Some c"
proof -
  let ?n = "of_char c :: nat"
  have "int ?n div 16 < 16" using of_char_less [of c] by linarith
  moreover have "((0 * 16 + 0) * 16 + int ?n div 16) * 16 + int ?n mod 16 = int ?n" by simp
  moreover have "hex_value CHR ''0'' = Some 0" by (simp add: hex_value_def)
  ultimately show ?thesis by (simp add: unicode_escape_def hex_value_digit Let_def)
qed

lemma char_of_code: "(of_char c :: nat) = n \<Longrightarrow> c = char_of n"
  by auto

lemma char_codes:
  "((of_char c :: nat) = 34) = (c = CHR 0x22)" "((of_char c :: nat) = 92) = (c = CHR 0x5C)"
  "((of_char c :: nat) = 10) = (c = CHR 0x0A)" "((of_char c :: nat) = 13) = (c = CHR 0x0D)"
  "((of_char c :: nat) = 9) = (c = CHR 0x09)" "((of_char c :: nat) = 12) = (c = CHR 0x0C)"
  "((of_char c :: nat) = 8) = (c = CHR 0x08)"
  by (auto dest!: char_of_code simp: char_of_def bit_Suc_0_iff)

lemma scan_escaped: "scan_string (escape_ascii c @ t) = map_option (apfst ((#) c)) (scan_string t)"
proof (cases "c \<in> set [CHR 0x22, CHR 0x5C, CHR 0x0A, CHR 0x0D, CHR 0x09, CHR 0x0C, CHR 0x08]")
  case True
  then show ?thesis by (auto simp: escape_ascii_def simple_escape_def)
next
  case False
  show ?thesis
  proof (cases "32 \<le> (of_char c :: nat) \<and> (of_char c :: nat) < 127")
    case True
    with False show ?thesis by (simp add: escape_ascii_def char_codes)
  next
    case other: False
    have "scan_string (CHR 0x5C # CHR ''u'' # ''00'' @ [hex_digit (int (of_char c) div 16), hex_digit (int (of_char c) mod 16)] @ t)
        = map_option (apfst ((#) c)) (scan_string t)"
      by (simp only: scan_string.simps list.case unicode_escape_hex [of c t]) simp
    moreover have "escape_ascii c = CHR 0x5C # ''u00'' @ [hex_digit (int (of_char c) div 16), hex_digit (int (of_char c) mod 16)]"
      using False other by (simp only: escape_ascii_def char_codes Let_def list.set) simp
    ultimately show ?thesis by simp
  qed
qed

lemma scan_quoted: "scan_string (concat (map escape_ascii s) @ CHR 0x22 # r) = Some (s, r)"
  by (induction s) (simp_all add: scan_escaped)

lemma decimal_append: "decimal n (xs @ ys) = decimal (decimal n xs) ys"
  by (induction xs arbitrary: n) simp_all

lemma show_nat_digits: "c \<in> set (show_nat n) \<Longrightarrow> is_digit c"
  by (induction n rule: show_nat.induct) (subst (asm) (2) show_nat.simps, auto simp: is_digit_def split: if_splits)

lemma decimal_show_nat: "decimal 0 (show_nat n) = n"
  by (induction n rule: show_nat.induct) (subst show_nat.simps, auto simp: decimal_append)

lemma show_nat_first: "\<exists>c cs. show_nat n = c # cs \<and> is_digit c \<and> (c = CHR ''0'' \<longrightarrow> n = 0)"
proof (induction n rule: show_nat.induct)
  case (1 n)
  show ?case
  proof (cases "n < 10")
    case True
    then have "n = 0 \<or> n = 1 \<or> n = 2 \<or> n = 3 \<or> n = 4 \<or> n = 5 \<or> n = 6 \<or> n = 7 \<or> n = 8 \<or> n = 9" by presburger
    then show ?thesis by (subst show_nat.simps) (elim disjE, simp_all add: is_digit_def char_of_def bit_Suc_0_iff)
  next
    case False
    with 1 obtain c cs where "show_nat (n div 10) = c # cs" "is_digit c" "c = CHR ''0'' \<longrightarrow> n div 10 = 0" by blast
    with False show ?thesis by (subst show_nat.simps) auto
  qed
qed

text \<open>The text after a number does not continue it.\<close>

definition number_ends :: "string \<Rightarrow> bool" where
  "number_ends r \<longleftrightarrow> r = [] \<or> \<not> is_digit (hd r) \<and> hd r \<notin> {CHR ''.'', CHR ''e'', CHR ''E''}"

lemma takeWhile_digits: "\<forall>c \<in> set ds. is_digit c \<Longrightarrow> number_ends r \<Longrightarrow> takeWhile is_digit (ds @ r) = ds"
  by (cases r) (auto simp: number_ends_def takeWhile_append)

lemma scan_digits:
  assumes "number_ends r"
  shows "scan_number f (show_nat n @ r) = Some (JInt (int n), r)" "scan_number f (CHR ''-'' # show_nat n @ r) = Some (JInt (- int n), r)"
proof -
  obtain c cs where c: "show_nat n = c # cs" "is_digit c" "c = CHR ''0'' \<longrightarrow> n = 0" using show_nat_first by blast
  have zero: "show_nat 0 = ''0''" by (subst show_nat.simps) (simp add: char_of_def bit_Suc_0_iff)
  have "int_digits (show_nat n @ r) = show_nat n"
    unfolding int_digits_def using c zero takeWhile_digits [OF _ assms, of "show_nat n"] show_nat_digits [of _ n] by (cases "c = CHR ''0''") auto
  moreover have "\<not> starts_with ''-'' (show_nat n @ r)" using c by (auto simp: is_digit_def)
  moreover have "fraction_of r = []" "exponent_of r = []"
    using assms by (auto simp: number_ends_def fraction_of_def exponent_of_def split: list.splits)
  moreover have "show_nat n \<noteq> []" using c by simp
  ultimately show "scan_number f (show_nat n @ r) = Some (JInt (int n), r)"
    "scan_number f (CHR ''-'' # show_nat n @ r) = Some (JInt (- int n), r)"
    by (simp_all add: scan_number_def Let_def decimal_show_nat)
qed

lemma scan_show_int: "number_ends r \<Longrightarrow> scan_number f (show_int i @ r) = Some (JInt i, r)"
  by (simp add: show_int_def scan_digits)

fun is_flat :: "json \<Rightarrow> bool" where
  "is_flat (JInt n) = True"
| "is_flat (JStr s) = True"
| "is_flat _ = False"

lemma show_int_first: "\<exists>c cs. show_int i = c # cs \<and> (c = CHR ''-'' \<or> is_digit c)"
  using show_nat_first [of "nat i"] by (auto simp: show_int_def)

lemma number_start:
  "c = CHR ''-'' \<or> is_digit c \<Longrightarrow> \<not> json_blank c \<and> c \<noteq> CHR 0x22 \<and> c \<noteq> CHR ''{'' \<and> c \<noteq> CHR ''['' \<and> c \<noteq> CHR ''n''
     \<and> c \<noteq> CHR ''t'' \<and> c \<noteq> CHR ''f''"
  by (elim disjE) (auto simp: is_digit_def json_blank_def)

lemma flat_first: "is_flat v \<Longrightarrow> skip_blanks (json_dumps R v @ t) = json_dumps R v @ t"
proof (cases v)
  case (JInt i)
  obtain c cs where "show_int i = c # cs" "c = CHR ''-'' \<or> is_digit c" using show_int_first by blast
  with number_start show ?thesis by (simp add: JInt skip_blanks_def)
qed (auto simp: skip_blanks_def quoted_def json_blank_def)

lemma scan_flat:
  assumes "is_flat v" "number_ends r"
  shows "scan_value f (Suc n) (json_dumps R v @ r) = Some (v, r)"
proof (cases v)
  case (JInt i)
  obtain c cs where c: "show_int i = c # cs" "c = CHR ''-'' \<or> is_digit c" using show_int_first by blast
  from number_start [OF c(2)] scan_show_int [OF assms(2), of f i] show ?thesis by (auto simp: JInt c(1))
next
  case (JStr s)
  then show ?thesis by (simp add: quoted_def scan_quoted)
qed (use assms in auto)

definition pairs_text :: "(pyfloat \<Rightarrow> string) \<Rightarrow> (string \<times> json) list \<Rightarrow> string" where
  "pairs_text R d = join '', '' (map (\<lambda>(k, v). quoted k @ '': '' @ json_dumps R v) d)"

lemma blanks:
  "skip_blanks (CHR '':'' # t) = CHR '':'' # t" "skip_blanks (CHR '','' # t) = CHR '','' # t"
  "skip_blanks (CHR ''}'' # t) = CHR ''}'' # t" "skip_blanks (CHR '' '' # t) = skip_blanks t"
  "skip_blanks (CHR 0x22 # t) = CHR 0x22 # t"
  by (simp_all add: skip_blanks_def json_blank_def)

lemma scan_pair:
  assumes "is_flat v" "number_ends t"
  shows "scan_pairs f (Suc (Suc m)) acc (quoted k @ '': '' @ json_dumps R v @ t) =
    (if starts_with '','' (skip_blanks t)
     then scan_pairs f (Suc m) (AList.update k v acc) (skip_blanks (drop 1 (skip_blanks t)))
     else if starts_with ''}'' (skip_blanks t) then Some (AList.update k v acc, drop 1 (skip_blanks t)) else None)"
proof -
  have s: "quoted k @ '': '' @ json_dumps R v @ t
      = CHR 0x22 # concat (map escape_ascii k) @ CHR 0x22 # CHR '':'' # CHR '' '' # json_dumps R v @ t"
    by (simp add: quoted_def)
  show ?thesis
    unfolding s scan_pairs.simps
    using scan_flat [OF assms, of f m R] flat_first [OF assms(1), of R t] by (simp add: scan_quoted blanks)
qed

lemma scan_pairs_text:
  assumes "list_all (\<lambda>(k, v). is_flat v) d" "d \<noteq> []" "length d < n"
  shows "scan_pairs f n acc (pairs_text R d @ CHR ''}'' # r) = Some (fold (\<lambda>(k, v). AList.update k v) d acc, r)"
  using assms
proof (induction d arbitrary: n acc)
  case (Cons p d)
  obtain k v where p: "p = (k, v)" by (cases p)
  obtain m where n: "n = Suc (Suc m)" using Cons.prems(3) by (cases n; cases "n - 1") auto
  have flat: "is_flat v" using Cons.prems by (simp add: p)
  show ?case
  proof (cases d)
    case Nil
    have "number_ends (CHR ''}'' # r)" by (simp add: number_ends_def is_digit_def)
    then show ?thesis
      using scan_pair [OF flat, of "CHR ''}'' # r" f m acc k R] by (simp add: p n Nil pairs_text_def blanks)
  next
    case (Cons q e)
    let ?t = "CHR '','' # CHR '' '' # pairs_text R d @ CHR ''}'' # r"
    have body: "pairs_text R (p # d) @ CHR ''}'' # r = quoted k @ '': '' @ json_dumps R v @ ?t"
      by (simp add: p Cons pairs_text_def)
    have "number_ends ?t" by (simp add: number_ends_def is_digit_def)
    note step = scan_pair [OF flat this, of f m acc k R]
    obtain k' v' where q: "q = (k', v')" by (cases q)
    have first: "skip_blanks (pairs_text R d @ t) = pairs_text R d @ t" for t
      by (cases e) (simp_all add: Cons q pairs_text_def quoted_def blanks)
    have "scan_pairs f (Suc m) (AList.update k v acc) (pairs_text R d @ CHR ''}'' # r)
        = Some (fold (\<lambda>(k, v). AList.update k v) d (AList.update k v acc), r)"
      using Cons.IH [of "Suc m"] Cons.prems Cons by (simp add: n del: scan_pairs.simps)
    then show ?thesis
      unfolding body n step by (simp add: p blanks first)
  qed
qed simp

lemma update_fresh: "k \<notin> fst ` set d \<Longrightarrow> AList.update k v d = d @ [(k, v)]"
  by (induction d) auto

lemma fold_update_fresh:
  "distinct (map fst (acc @ d)) \<Longrightarrow> fold (\<lambda>(k, v). AList.update k v) d acc = acc @ d"
  by (induction d arbitrary: acc) (auto simp: update_fresh)

lemma sort_pairs: "sort_key fst (map (\<lambda>(k, v). (k, f v)) d) = map (\<lambda>(k, v). (k, f v)) (sort_key fst d)"
proof (induction d)
  case (Cons p d)
  have "insort_key fst (case p of (k, v) \<Rightarrow> (k, f v)) (map (\<lambda>(k, v). (k, f v)) xs) = map (\<lambda>(k, v). (k, f v)) (insort_key fst p xs)"
    for xs by (induction xs) (auto split: prod.splits)
  with Cons show ?case by simp
qed simp

lemma json_dumps_pairs_map: "json_dumps_pairs R d = map (\<lambda>(k, v). (k, json_dumps R v)) d"
  by (induction d) auto

lemma length_join: "\<forall>x \<in> set xs. x \<noteq> [] \<Longrightarrow> length xs \<le> length (join sep xs)"
proof (induction sep xs rule: join.induct)
  case (3 sep x y zs)
  then show ?case by (cases x) auto
qed (auto simp: Suc_le_eq)

text \<open>Loading a dumped flat object gives its pairs back, in the order of their keys.\<close>

theorem json_roundtrip:
  assumes "list_all (\<lambda>(k, v). is_flat v) d" "distinct (map fst d)"
  shows "json_loads f (json_dumps R (JDict d)) = Some (JDict (sort_key fst d))"
proof -
  let ?d = "sort_key fst d"
  have body: "json_dumps R (JDict d) = CHR ''{'' # pairs_text R ?d @ ''}''"
    unfolding json_dumps.simps json_dumps_pairs_map sort_pairs pairs_text_def by (simp add: comp_def case_prod_beta')
  have flat: "list_all (\<lambda>(k, v). is_flat v) ?d" using assms(1) by (simp add: list_all_iff)
  have "distinct (map fst ?d)" using assms(2) by (metis distinct_map set_sort sort_key_stable distinct_sort inj_on_cong)
  then have fold: "fold (\<lambda>(k, v). AList.update k v) ?d [] = ?d" using fold_update_fresh [of "[]" ?d] by simp
  have len: "length ?d \<le> length (pairs_text R ?d)"
    unfolding pairs_text_def using length_join [of "map (\<lambda>(k, v). quoted k @ '': '' @ json_dumps R v) ?d" "'', ''"]
    by (auto simp: quoted_def split: prod.splits)
  show ?thesis
  proof (cases "?d = []")
    case True
    then show ?thesis unfolding json_loads_def body by (simp add: pairs_text_def blanks skip_blanks_def json_blank_def)
  next
    case False
    then obtain q e where e: "?d = q # e" by (cases ?d) auto
    obtain k' v' where q: "q = (k', v')" by (cases q)
    have first: "\<exists>u. pairs_text R ?d @ t = CHR 0x22 # u" for t
      by (cases e) (simp_all add: e q pairs_text_def quoted_def)
    obtain u where u: "pairs_text R ?d @ ''}'' = CHR 0x22 # u" using first by blast
    have "scan_pairs f (length (pairs_text R ?d) + 2) [] (CHR 0x22 # u) = Some (?d, [])"
      using scan_pairs_text [OF flat False, of "length (pairs_text R ?d) + 2" f "[]" R "[]"] len by (simp add: fold u)
    moreover have "skip_blanks (CHR ''{'' # x) = CHR ''{'' # x" for x by (simp add: skip_blanks_def json_blank_def)
    moreover have "length u = length (pairs_text R ?d)" using arg_cong [OF u, of length] by simp
    ultimately show ?thesis unfolding json_loads_def body u by (simp add: blanks) (simp add: skip_blanks_def)
  qed
qed

end
