(* ===== verification/Access.thy ===== *)
theory Access
  imports Codec Normalize
begin

text \<open>
  Who may call the API: the settings (\<open>api/settings.py\<close>), the token buckets (\<open>api/rate_limit.py\<close>), the bearer key of
  the ingestion surface and the signed session cookie of the console (\<open>api/auth.py\<close>), the endpoint that issues the
  cookie (\<open>console/session.py\<close>), and the tenant directory they look tenants up in (\<open>repositories/tenants.py\<close>).  HMAC
  and the text of a JSON value that is no string or integer are parameters, and so are the two clocks.
\<close>

section \<open>settings.py\<close>

record api_settings =
  as_app_env :: string
  as_database_url :: string
  as_worker_database_url :: string
  as_api_cors_origins :: string
  as_api_request_timeout_seconds :: int
  as_ingest_max_batch_size :: int
  as_ingest_rate_limit_per_min :: int
  as_console_rate_limit_per_min :: int
  as_api_key_hash_pepper :: string
  as_console_session_secret :: string
  as_console_demo_reviewers :: string
  as_console_session_ttl_seconds :: int
  as_measurement_min_arm_size :: int

definition TBD_SENTINELS :: "string list" where
  "TBD_SENTINELS = ['''', ''__TBD__'']"

definition reject_tbd :: "string \<Rightarrow> string \<Rightarrow> string list" where
  "reject_tbd field v =
     (if v \<in> set TBD_SENTINELS then [field @ '' is required and must not be left as __TBD__ or empty''] else [])"

text \<open>The model is validated as a whole: pydantic collects the messages of all fields.\<close>

definition validate_settings :: "api_settings \<Rightarrow> api_settings result" where
  "validate_settings st =
     (let messages = reject_tbd ''database_url'' (as_database_url st)
            @ reject_tbd ''api_key_hash_pepper'' (as_api_key_hash_pepper st)
            @ reject_tbd ''console_session_secret'' (as_console_session_secret st)
            @ reject_tbd ''console_demo_reviewers'' (as_console_demo_reviewers st)
      in if messages = [] then Inr st else Inl (ValidationError (join ''; '' messages)))"

definition ingest_database_url :: "api_settings \<Rightarrow> string" where
  "ingest_database_url st = (if as_worker_database_url st \<noteq> [] then as_worker_database_url st else as_database_url st)"

text \<open>\<open>s.split(",")\<close>\<close>

fun split_commas :: "string \<Rightarrow> string list" where
  "split_commas [] = [[]]"
| "split_commas (c # s) =
     (if c = CHR '','' then [] # split_commas s
      else case split_commas s of [] \<Rightarrow> [[c]] | p # ps \<Rightarrow> (c # p) # ps)"

definition stripped_parts :: "string \<Rightarrow> string list" where
  "stripped_parts s = filter (\<lambda>r. r \<noteq> []) (map py_strip (split_commas s))"

definition cors_origins_list :: "api_settings \<Rightarrow> string list" where
  "cors_origins_list st = stripped_parts (as_api_cors_origins st)"

definition demo_reviewer_set :: "api_settings \<Rightarrow> string set" where
  "demo_reviewer_set st = set (stripped_parts (as_console_demo_reviewers st))"

section \<open>rate\_limit.py\<close>

record bucket =
  bk_tokens :: pyfloat
  bk_last_refill :: pyfloat

record limiter =
  lm_capacity :: int
  lm_refill_per_second :: pyfloat
  lm_buckets :: "(string \<times> bucket) list"

definition new_limiter :: "int \<Rightarrow> int \<Rightarrow> limiter" where
  "new_limiter capacity refill_per_minute =
     \<lparr>lm_capacity = capacity, lm_refill_per_second = int_truediv refill_per_minute 60, lm_buckets = []\<rparr>"

definition refilled :: "limiter \<Rightarrow> pyfloat \<Rightarrow> bucket \<Rightarrow> pyfloat" where
  "refilled l now b =
     (let t = fadd (bk_tokens b) (fmul (fsub now (bk_last_refill b)) (lm_refill_per_second l))
      in if t < of_int (lm_capacity l) then t else of_int (lm_capacity l))"

text \<open>The bucket is written back before the limiter raises; a rate of zero makes the division raise.\<close>

definition check_limit :: "pyfloat \<Rightarrow> string \<Rightarrow> limiter \<Rightarrow> unit handled \<times> limiter" where
  "check_limit now key l =
     (let b = (case map_of (lm_buckets l) key of
                 Some b \<Rightarrow> b
               | None \<Rightarrow> \<lparr>bk_tokens = float_of_int (lm_capacity l), bk_last_refill = now\<rparr>);
          tokens = refilled l now b;
          stored = (\<lambda>t. l\<lparr>lm_buckets := AList.update key \<lparr>bk_tokens = t, bk_last_refill = now\<rparr> (lm_buckets l)\<rparr>)
      in if tokens < 1
         then if lm_refill_per_second l = 0 then (Inl (Raised ZeroDivisionError), stored tokens)
              else (Inl (ApiError (rate_limited
                      (max 1 (py_int (fdiv (fsub 1 tokens) (lm_refill_per_second l)))))), stored tokens)
         else (Inr (), stored (fsub tokens 1)))"

text \<open>The two limiters of a process: created with the first rate asked for.\<close>

record limiters =
  lim_ingest :: "limiter option"
  lim_console :: "limiter option"

definition no_limiters :: limiters where
  "no_limiters = \<lparr>lim_ingest = None, lim_console = None\<rparr>"

definition get_limiter :: "limiter option \<Rightarrow> int \<Rightarrow> limiter" where
  "get_limiter l refill_per_minute = (case l of Some l \<Rightarrow> l | None \<Rightarrow> new_limiter refill_per_minute refill_per_minute)"

definition check_ingest :: "api_settings \<Rightarrow> pyfloat \<Rightarrow> string \<Rightarrow> limiters \<Rightarrow> unit handled \<times> limiters" where
  "check_ingest st now key ls =
     (let (r, l) = check_limit now key (get_limiter (lim_ingest ls) (as_ingest_rate_limit_per_min st))
      in (r, ls\<lparr>lim_ingest := Some l\<rparr>))"

definition check_console :: "api_settings \<Rightarrow> pyfloat \<Rightarrow> string \<Rightarrow> limiters \<Rightarrow> unit handled \<times> limiters" where
  "check_console st now key ls =
     (let (r, l) = check_limit now key (get_limiter (lim_console ls) (as_console_rate_limit_per_min st))
      in (r, ls\<lparr>lim_console := Some l\<rparr>))"

section \<open>repositories/tenants.py\<close>

record tenant =
  tn_id :: string
  tn_slug :: string
  tn_display_name :: string
  tn_profile_type :: string

record api_key =
  ak_id :: string
  ak_tenant_id :: string
  ak_key_hash :: string
  ak_label :: string
  ak_active :: bool

record directory =
  dr_tenants :: "tenant list"
  dr_api_keys :: "api_key list"

text \<open>\<open>scalar_one_or_none\<close>: two rows raise \<open>MultipleResultsFound\<close>.\<close>

definition one_or_none :: "'a list \<Rightarrow> 'a option handled" where
  "one_or_none rows = (case rows of
      [] \<Rightarrow> Inr None
    | [x] \<Rightarrow> Inr (Some x)
    | _ \<Rightarrow> Inl (Raised (RuntimeError ''Multiple rows were found when one or none was required'')))"

definition list_tenants :: "directory \<Rightarrow> tenant list" where
  "list_tenants dir = sort_key tn_slug (dr_tenants dir)"

definition get_by_slug :: "directory \<Rightarrow> string \<Rightarrow> tenant option handled" where
  "get_by_slug dir slug = one_or_none (filter (\<lambda>t. tn_slug t = slug) (dr_tenants dir))"

definition get_by_id :: "directory \<Rightarrow> string \<Rightarrow> tenant option handled" where
  "get_by_id dir tid = one_or_none (filter (\<lambda>t. tn_id t = tid) (dr_tenants dir))"

definition get_tenant_for_api_key :: "directory \<Rightarrow> string \<Rightarrow> tenant option handled" where
  "get_tenant_for_api_key dir key_hash =
     one_or_none (concat (map (\<lambda>t. map (\<lambda>k. t)
        (filter (\<lambda>k. ak_tenant_id k = tn_id t \<and> ak_key_hash k = key_hash \<and> ak_active k) (dr_api_keys dir)))
        (dr_tenants dir)))"

section \<open>auth.py: the ingestion key\<close>

definition hash_api_key :: "(string \<Rightarrow> string \<Rightarrow> string) \<Rightarrow> string \<Rightarrow> string \<Rightarrow> string" where
  "hash_api_key hmac_hex raw_key pepper = hmac_hex pepper raw_key"

definition require_tenant_api_key ::
  "(string \<Rightarrow> string \<Rightarrow> string) \<Rightarrow> api_settings \<Rightarrow> directory \<Rightarrow> string option \<Rightarrow> string handled" where
  "require_tenant_api_key hmac_hex st dir authorization =
     (let header = (case authorization of None \<Rightarrow> [] | Some h \<Rightarrow> h) in
      if header = [] \<or> \<not> starts_with ''Bearer '' header
      then Inl (ApiError (unauthenticated ''Expected Authorization: Bearer <api_key>''))
      else let raw_key = py_strip (drop (length ''Bearer '') header) in
        if raw_key = [] then Inl (ApiError (unauthenticated ''Empty API key''))
        else bind_handled (get_tenant_for_api_key dir (hash_api_key hmac_hex raw_key (as_api_key_hash_pepper st)))
          (\<lambda>t. case t of
             None \<Rightarrow> Inl (ApiError (unauthenticated ''Unknown or inactive API key''))
           | Some t \<Rightarrow> Inr (tn_id t)))"

section \<open>auth.py: the console cookie\<close>

definition sign ::
  "(string \<Rightarrow> string \<Rightarrow> string) \<Rightarrow> (pyfloat \<Rightarrow> string) \<Rightarrow> (string \<times> json) list \<Rightarrow> string \<Rightarrow> string" where
  "sign hmac_hex float_repr payload secret =
     (let body = urlsafe_b64encode (json_dumps float_repr (JDict payload))
      in body @ ''.'' @ hmac_hex secret body)"

text \<open>\<open>token.rsplit(".", 1)\<close>; \<open>None\<close> when there is no full stop.\<close>

definition rsplit_dot :: "string \<Rightarrow> (string \<times> string) option" where
  "rsplit_dot s =
     (if CHR ''.'' \<in> set s
      then Some (rev (tl (dropWhile (\<lambda>c. c \<noteq> CHR ''.'') (rev s))), rev (takeWhile (\<lambda>c. c \<noteq> CHR ''.'') (rev s)))
      else None)"

definition is_ascii :: "string \<Rightarrow> bool" where
  "is_ascii s \<longleftrightarrow> list_all (\<lambda>c. (of_char c :: nat) < 128) s"

text \<open>
  \<open>body.encode("ascii")\<close> and \<open>compare_digest\<close> of two \<open>str\<close> raise outside the \<open>try\<close> when the text is not ASCII.  A body
  that is no base64, UTF-8 or JSON gives \<open>None\<close>.
\<close>

definition verify_token ::
  "(string \<Rightarrow> string \<Rightarrow> string) \<Rightarrow> (string \<Rightarrow> pyfloat) \<Rightarrow> string \<Rightarrow> string \<Rightarrow> json option handled" where
  "verify_token hmac_hex float_of token secret =
     (case rsplit_dot token of
        None \<Rightarrow> Inr None
      | Some (body, sig) \<Rightarrow>
          if \<not> is_ascii body then Inl (Raised (ValueError ''ordinal not in range(128)''))
          else if \<not> is_ascii sig then Inl (Raised (RuntimeError ''comparing strings with non-ASCII characters is not supported''))
          else if sig \<noteq> hmac_hex secret body then Inr None
          else Inr (Option.bind (urlsafe_b64decode body) (\<lambda>bytes. Option.bind (utf8_decode bytes) (json_loads float_of))))"

definition issue_session_cookie ::
  "(string \<Rightarrow> string \<Rightarrow> string) \<Rightarrow> (pyfloat \<Rightarrow> string) \<Rightarrow> string \<Rightarrow> string \<Rightarrow> string \<Rightarrow> api_settings \<Rightarrow> int \<Rightarrow> string" where
  "issue_session_cookie hmac_hex float_repr tid slug reviewer_id st time =
     sign hmac_hex float_repr
       [(''tenant_id'', JStr tid), (''tenant_slug'', JStr slug), (''reviewer_id'', JStr reviewer_id),
        (''exp'', JInt (time + as_console_session_ttl_seconds st))]
       (as_console_session_secret st)"

text \<open>The session object; the slug extends what the other handlers read of it.\<close>

record slug_session = console_session +
  cs_tenant_slug :: string

text \<open>\<open>isinstance(expires_at, int) and expires_at > int(time.time())\<close>; a \<open>bool\<close> is an \<open>int\<close>.\<close>

fun still_valid :: "json option \<Rightarrow> int \<Rightarrow> bool" where
  "still_valid (Some (JInt n)) time = (time < n)"
| "still_valid (Some (JBool b)) time = (time < (if b then 1 else 0))"
| "still_valid _ time = False"

text \<open>\<open>reviewer_id and reviewer_id in the set\<close>: a list or an object is not hashable.\<close>

fun listed_reviewer :: "string set \<Rightarrow> json option \<Rightarrow> bool handled" where
  "listed_reviewer reviewers (Some (JStr r)) = Inr (r \<noteq> [] \<and> r \<in> reviewers)"
| "listed_reviewer reviewers (Some (JList (x # xs))) = Inl (Raised (RuntimeError ''unhashable type''))"
| "listed_reviewer reviewers (Some (JDict (x # xs))) = Inl (Raised (RuntimeError ''unhashable type''))"
| "listed_reviewer reviewers _ = Inr False"

definition item :: "(string \<times> json) list \<Rightarrow> string \<Rightarrow> json handled" where
  "item d k = (case map_of d k of None \<Rightarrow> Inl (Raised (KeyError k)) | Some v \<Rightarrow> Inr v)"

text \<open>
  The tenant id and slug are put into the session as they are; the text form stands for a value that is no string, which
  the cookie never holds.
\<close>

definition require_console_reviewer ::
  "(string \<Rightarrow> string \<Rightarrow> string) \<Rightarrow> (string \<Rightarrow> pyfloat) \<Rightarrow> (json \<Rightarrow> string) \<Rightarrow> api_settings \<Rightarrow> int \<Rightarrow> pyfloat \<Rightarrow>
   string option \<Rightarrow> limiters \<Rightarrow> slug_session handled \<times> limiters" where
  "require_console_reviewer hmac_hex float_of repr st time now cookie ls =
     (case cookie of None \<Rightarrow> (Inl (ApiError (unauthenticated ''No console session'')), ls)
      | Some token \<Rightarrow>
      if token = [] then (Inl (ApiError (unauthenticated ''No console session'')), ls)
      else (case verify_token hmac_hex float_of token (as_console_session_secret st) of
        Inl e \<Rightarrow> (Inl e, ls)
      | Inr None \<Rightarrow> (Inl (ApiError (unauthenticated ''Invalid or tampered console session'')), ls)
      | Inr (Some JNull) \<Rightarrow> (Inl (ApiError (unauthenticated ''Invalid or tampered console session'')), ls)
      | Inr (Some (JDict payload)) \<Rightarrow>
          if \<not> still_valid (map_of payload ''exp'') time
          then (Inl (ApiError (unauthenticated ''Console session expired; sign in again'')), ls)
          else (case listed_reviewer (demo_reviewer_set st) (map_of payload ''reviewer_id'') of
              Inl e \<Rightarrow> (Inl e, ls)
            | Inr False \<Rightarrow> (Inl (ApiError (forbidden ''reviewer_id is not on the approved reviewer list'')), ls)
            | Inr True \<Rightarrow>
                (case (item payload ''tenant_id'', item payload ''reviewer_id'') of
                   (Inl e, _) \<Rightarrow> (Inl e, ls)
                 | (_, Inl e) \<Rightarrow> (Inl e, ls)
                 | (Inr tid, Inr reviewer) \<Rightarrow>
                     (case check_console st now (py_str repr tid @ '':'' @ py_str repr reviewer) ls of
                        (Inl e, ls') \<Rightarrow> (Inl e, ls')
                      | (Inr _, ls') \<Rightarrow>
                          (bind_handled (item payload ''tenant_slug'') (\<lambda>slug.
                             Inr \<lparr>cs_reviewer_id = py_str repr reviewer, cs_tenant_id = py_str repr tid,
                                  cs_tenant_slug = py_str repr slug\<rparr>), ls'))))
      | Inr (Some _) \<Rightarrow> (Inl (Raised (RuntimeError ''object has no attribute get'')), ls)))"

section \<open>console/session.py and console/tenants.py\<close>

record session_out =
  so_tenant_id :: string
  so_tenant_slug :: string
  so_reviewer_id :: string

record cookie =
  ck_key :: string
  ck_value :: string
  ck_httponly :: bool
  ck_samesite :: string
  ck_max_age :: int
  ck_secure :: bool

definition SESSION_COOKIE_NAME :: string where
  "SESSION_COOKIE_NAME = ''console_session''"

text \<open>\<open>py_repr\<close> is \<open>repr\<close> of a string, which the messages quote.\<close>

definition create_session ::
  "(string \<Rightarrow> string \<Rightarrow> string) \<Rightarrow> (pyfloat \<Rightarrow> string) \<Rightarrow> (string \<Rightarrow> string) \<Rightarrow> api_settings \<Rightarrow> directory \<Rightarrow> int \<Rightarrow> string \<Rightarrow> string \<Rightarrow>
   (session_out \<times> cookie) handled" where
  "create_session hmac_hex float_repr py_repr st dir time slug reviewer_id =
     (if reviewer_id \<notin> demo_reviewer_set st
      then Inl (ApiError (forbidden (py_repr reviewer_id @ '' is not in CONSOLE_DEMO_REVIEWERS; there is no default reviewer'')))
      else bind_handled (get_by_slug dir slug) (\<lambda>t. case t of
          None \<Rightarrow> Inl (ApiError (not_found (''tenant '' @ py_repr slug @ '' not found'')))
        | Some t \<Rightarrow>
            Inr (\<lparr>so_tenant_id = tn_id t, so_tenant_slug = tn_slug t, so_reviewer_id = reviewer_id\<rparr>,
                 \<lparr>ck_key = SESSION_COOKIE_NAME,
                  ck_value = issue_session_cookie hmac_hex float_repr (tn_id t) (tn_slug t) reviewer_id st time,
                  ck_httponly = True, ck_samesite = ''lax'', ck_max_age = as_console_session_ttl_seconds st,
                  ck_secure = (as_app_env st \<noteq> ''local'')\<rparr>)))"

record tenant_out =
  to_tenant_id :: string
  to_slug :: string
  to_display_name :: string
  to_profile_type :: string

definition console_list_tenants :: "directory \<Rightarrow> tenant_out list" where
  "console_list_tenants dir =
     map (\<lambda>t. \<lparr>to_tenant_id = tn_id t, to_slug = tn_slug t, to_display_name = tn_display_name t,
               to_profile_type = tn_profile_type t\<rparr>) (list_tenants dir)"

section \<open>The cookie\<close>

lemma rsplit_dot_append: "CHR ''.'' \<notin> set sig \<Longrightarrow> rsplit_dot (body @ CHR ''.'' # sig) = Some (body, sig)"
  by (simp add: rsplit_dot_def takeWhile_append dropWhile_append)

lemma rsplit_dot_parts: "rsplit_dot s = Some (body, sig) \<Longrightarrow> s = body @ CHR ''.'' # sig"
proof -
  assume "rsplit_dot s = Some (body, sig)"
  then have dot: "CHR ''.'' \<in> set (rev s)"
    and parts: "rev body = tl (dropWhile (\<lambda>c. c \<noteq> CHR ''.'') (rev s))" "rev sig = takeWhile (\<lambda>c. c \<noteq> CHR ''.'') (rev s)"
    by (auto simp: rsplit_dot_def split: if_splits)
  let ?P = "\<lambda>c. c \<noteq> CHR ''.''"
  have "dropWhile ?P (rev s) \<noteq> []" using dot by (auto simp: dropWhile_eq_Nil_conv)
  then have "dropWhile ?P (rev s) = CHR ''.'' # rev body"
    using hd_dropWhile [of ?P "rev s"] list.collapse [of "dropWhile ?P (rev s)"] unfolding parts by simp
  with takeWhile_dropWhile_id [of ?P "rev s"] have "rev s = rev sig @ CHR ''.'' # rev body" unfolding parts by simp
  then have "rev (rev s) = rev (rev sig @ CHR ''.'' # rev body)" by (rule arg_cong)
  then show ?thesis by simp
qed

lemma is_ascii_simps [simp]:
  "is_ascii []" "is_ascii (c # s) \<longleftrightarrow> (of_char c :: nat) < 128 \<and> is_ascii s" "is_ascii (s @ t) \<longleftrightarrow> is_ascii s \<and> is_ascii t"
  by (simp_all add: is_ascii_def)

lemma is_ascii_b64: "is_ascii (urlsafe_b64encode s)"
  using b64_plain by (auto simp: is_ascii_def list_all_iff)

lemma utf8_ascii: "is_ascii s \<Longrightarrow> utf8_decode s = Some s"
  by (induction s) auto

lemma hex_digit_ascii: "0 \<le> n \<Longrightarrow> n < 16 \<Longrightarrow> (of_char (Web.hex_digit n) :: nat) < 128"
  using hex_digit_cases [of n] by auto

lemma quoted_ascii: "is_ascii (quoted s)"
proof -
  have "is_ascii (escape_ascii c)" for c
  proof -
    have "int (of_char c) div 16 < 16" using of_char_less [of c] by linarith
    then show ?thesis by (auto simp: escape_ascii_def Let_def hex_digit_ascii)
  qed
  then have "is_ascii (concat (map escape_ascii s))" by (induction s) auto
  then show ?thesis by (simp add: quoted_def)
qed

lemma show_int_ascii: "is_ascii (show_int i)"
  using show_nat_digits by (fastforce simp: show_int_def is_ascii_def list_all_iff is_digit_def)

lemma reviewers_named: "r \<in> demo_reviewer_set st \<Longrightarrow> r \<noteq> []"
  by (auto simp: demo_reviewer_set_def stripped_parts_def)

text \<open>A cookie that was issued is read back as the object it was issued for.\<close>

lemma verify_issued:
  assumes "\<And>k m. is_ascii (hmac_hex k m) \<and> CHR ''.'' \<notin> set (hmac_hex k m)"
  shows "verify_token hmac_hex float_of (issue_session_cookie hmac_hex float_repr tid slug r st t) (as_console_session_secret st)
    = Inr (Some (JDict [(''exp'', JInt (t + as_console_session_ttl_seconds st)), (''reviewer_id'', JStr r),
                        (''tenant_id'', JStr tid), (''tenant_slug'', JStr slug)]))"
proof -
  let ?d = "[(''tenant_id'', JStr tid), (''tenant_slug'', JStr slug), (''reviewer_id'', JStr r),
             (''exp'', JInt (t + as_console_session_ttl_seconds st))]"
  have "is_ascii (json_dumps float_repr (JDict ?d))"
    by (simp add: quoted_ascii show_int_ascii)
  moreover have "json_loads float_of (json_dumps float_repr (JDict ?d)) = Some (JDict (sort_key fst ?d))"
    by (rule json_roundtrip) simp_all
  ultimately show ?thesis
    using assms by (simp add: issue_session_cookie_def sign_def Let_def verify_token_def rsplit_dot_append is_ascii_b64
        b64_roundtrip utf8_ascii del: json_dumps.simps)
qed

definition sample_api_settings :: api_settings where
  "sample_api_settings =
     \<lparr>as_app_env = ''local'', as_database_url = ''postgresql://console'', as_worker_database_url = [],
      as_api_cors_origins = ''http://localhost:3000'', as_api_request_timeout_seconds = 15,
      as_ingest_max_batch_size = 2, as_ingest_rate_limit_per_min = 60, as_console_rate_limit_per_min = 60,
      as_api_key_hash_pepper = ''pepper'', as_console_session_secret = ''secret'',
      as_console_demo_reviewers = ''rev_1, rev_2'', as_console_session_ttl_seconds = 43200,
      as_measurement_min_arm_size = 30\<rparr>"

definition sample_directory :: directory where
  "sample_directory =
     \<lparr>dr_tenants = [\<lparr>tn_id = ''11111111-1111-1111-1111-111111111111'', tn_slug = ''acme'', tn_display_name = ''Acme'',
                     tn_profile_type = ''WALLET''\<rparr>],
      dr_api_keys = [\<lparr>ak_id = ''k1'', ak_tenant_id = ''11111111-1111-1111-1111-111111111111'', ak_key_hash = ''6b6579'',
                      ak_label = ''live'', ak_active = True\<rparr>]\<rparr>"

text \<open>A stand-in for HMAC whose value is text of the right form.\<close>

definition sample_hmac :: "string \<Rightarrow> string \<Rightarrow> string" where
  "sample_hmac key message = (if message = ''key'' then ''6b6579'' else ''00ff'')"

lemma sample_hmac_text: "is_ascii (sample_hmac k m) \<and> CHR ''.'' \<notin> set (sample_hmac k m)"
  by (simp add: sample_hmac_def)

lemma issued_cookie_admits:
  assumes "\<And>k m. is_ascii (hmac_hex k m) \<and> CHR ''.'' \<notin> set (hmac_hex k m)"
    and "r \<in> demo_reviewer_set st"
    and "check_console st now (tid @ '':'' @ r) ls = (Inr (), ls')"
  shows "require_console_reviewer hmac_hex float_of repr st time now
      (Some (issue_session_cookie hmac_hex float_repr tid slug r st t0)) ls
    = (if time < t0 + as_console_session_ttl_seconds st
       then (Inr \<lparr>cs_reviewer_id = r, cs_tenant_id = tid, cs_tenant_slug = slug\<rparr>, ls')
       else (Inl (ApiError (unauthenticated ''Console session expired; sign in again'')), ls))"
proof -
  have "issue_session_cookie hmac_hex float_repr tid slug r st t0 \<noteq> []" by (simp add: issue_session_cookie_def sign_def Let_def)
  then show ?thesis
    using assms(2,3) reviewers_named [OF assms(2)]
    by (simp add: require_console_reviewer_def verify_issued [OF assms(1)] item_def)
qed

text \<open>
  C26. The console's sign-in: a cookie that the session endpoint issued admits exactly the reviewer and tenant it was issued
  for, until its expiry and as long as the rate limiter lets the reviewer through; from its expiry on it is refused.
\<close>

theorem console_cookie_roundtrip:
  assumes "create_session hmac_hex float_repr py_repr st dir t0 slug r = Inr (out, ck)"
    and "\<And>k m. is_ascii (hmac_hex k m) \<and> CHR ''.'' \<notin> set (hmac_hex k m)"
    and "check_console st now (so_tenant_id out @ '':'' @ r) ls = (Inr (), ls')"
  shows "require_console_reviewer hmac_hex float_of repr st time now (Some (ck_value ck)) ls
    = (if time < t0 + as_console_session_ttl_seconds st
       then (Inr \<lparr>cs_reviewer_id = r, cs_tenant_id = so_tenant_id out, cs_tenant_slug = so_tenant_slug out\<rparr>, ls')
       else (Inl (ApiError (unauthenticated ''Console session expired; sign in again'')), ls))"
proof -
  have r: "r \<in> demo_reviewer_set st"
    and "\<exists>t :: tenant. so_tenant_id out = tn_id t \<and> so_tenant_slug out = tn_slug t
       \<and> ck_value ck = issue_session_cookie hmac_hex float_repr (tn_id t) (tn_slug t) r st t0"
    using assms(1) by (auto simp: create_session_def bind_handled_def split: if_splits sum.splits option.splits)
  then show ?thesis using issued_cookie_admits [OF assms(2) r] assms(3) by auto
qed

lemma sample_check: "\<exists>ls'. check_console sample_api_settings 5 ''t1:rev_2'' no_limiters = (Inr (), ls')"
  by (simp add: check_console_def check_limit_def no_limiters_def get_limiter_def new_limiter_def refilled_def
      sample_api_settings_def int_truediv_def float_of_int_def fl_of_int [of 60, simplified] fadd_def fsub_def fmul_def Let_def)

theorem console_cookie_roundtrip_witness:
  "\<exists>out ck ls'. create_session sample_hmac (\<lambda>x. []) id sample_api_settings sample_directory 1000 ''acme'' ''rev_2'' = Inr (out, ck)
     \<and> require_console_reviewer sample_hmac (\<lambda>s. 0) (\<lambda>v. []) sample_api_settings 2000 5 (Some (ck_value ck)) no_limiters
       = (Inr \<lparr>cs_reviewer_id = ''rev_2'', cs_tenant_id = ''11111111-1111-1111-1111-111111111111'', cs_tenant_slug = ''acme''\<rparr>, ls')"
proof -
  let ?s = "create_session sample_hmac (\<lambda>x. []) id sample_api_settings sample_directory 1000 ''acme'' ''rev_2''"
  obtain out ck where s: "?s = Inr (out, ck)"
    and out: "so_tenant_id out = ''11111111-1111-1111-1111-111111111111''" "so_tenant_slug out = ''acme''"
    by (auto simp: create_session_def demo_reviewer_set_def stripped_parts_def sample_api_settings_def sample_directory_def
        py_strip_def is_space_def get_by_slug_def one_or_none_def)
  obtain ls' where l: "check_console sample_api_settings 5 ''11111111-1111-1111-1111-111111111111:rev_2'' no_limiters = (Inr (), ls')"
    by (simp add: check_console_def check_limit_def no_limiters_def get_limiter_def new_limiter_def refilled_def
        sample_api_settings_def int_truediv_def float_of_int_def fl_of_int [of 60, simplified] fadd_def fsub_def fmul_def Let_def)
  have "check_console sample_api_settings 5 (so_tenant_id out @ '':'' @ ''rev_2'') no_limiters = (Inr (), ls')"
    using l by (simp add: out)
  from console_cookie_roundtrip [OF s sample_hmac_text this, of "\<lambda>s. 0" "\<lambda>v. []" 2000] s show ?thesis
    by (auto simp: out sample_api_settings_def)
qed

text \<open>
  C12. Nobody acts as a reviewer without a cookie that carries the HMAC of its own body under the server's secret: a handler is
  only entered with the reviewer, tenant and slug that body names, the reviewer is on the configured list, and the body's
  expiry lies in the future.
\<close>

theorem console_session_authentic:
  assumes "require_console_reviewer hmac_hex float_of repr st time now cookie ls = (Inr s, ls')"
  shows "\<exists>body payload r exp tid slug. cookie = Some (body @ CHR ''.'' # hmac_hex (as_console_session_secret st) body)
     \<and> Option.bind (urlsafe_b64decode body) (\<lambda>b. Option.bind (utf8_decode b) (json_loads float_of)) = Some (JDict payload)
     \<and> map_of payload ''reviewer_id'' = Some (JStr r) \<and> r \<in> demo_reviewer_set st
     \<and> map_of payload ''exp'' = Some exp \<and> still_valid (Some exp) time
     \<and> map_of payload ''tenant_id'' = Some tid \<and> map_of payload ''tenant_slug'' = Some slug
     \<and> s = \<lparr>cs_reviewer_id = r, cs_tenant_id = py_str repr tid, cs_tenant_slug = py_str repr slug\<rparr>"
proof -
  obtain token where cookie: "cookie = Some token" using assms by (auto simp: require_console_reviewer_def split: option.splits)
  obtain payload tid reviewer slug
    where v: "verify_token hmac_hex float_of token (as_console_session_secret st) = Inr (Some (JDict payload))"
      and valid: "still_valid (map_of payload ''exp'') time"
      and listed: "listed_reviewer (demo_reviewer_set st) (map_of payload ''reviewer_id'') = Inr True"
      and items: "map_of payload ''tenant_id'' = Some tid" "map_of payload ''reviewer_id'' = Some reviewer"
        "map_of payload ''tenant_slug'' = Some slug"
      and s: "s = \<lparr>cs_reviewer_id = py_str repr reviewer, cs_tenant_id = py_str repr tid, cs_tenant_slug = py_str repr slug\<rparr>"
    using assms unfolding require_console_reviewer_def cookie
    by (auto simp: item_def bind_handled_def split: if_splits sum.splits option.splits json.splits bool.splits prod.splits)
  have "\<exists>r. reviewer = JStr r \<and> r \<in> demo_reviewer_set st"
    using listed items(2) by (cases reviewer) (auto elim: listed_reviewer.elims)
  moreover obtain exp where "map_of payload ''exp'' = Some exp" using valid by (cases "map_of payload ''exp''") auto
  moreover obtain body where "token = body @ CHR ''.'' # hmac_hex (as_console_session_secret st) body"
    "Option.bind (urlsafe_b64decode body) (\<lambda>b. Option.bind (utf8_decode b) (json_loads float_of)) = Some (JDict payload)"
    using v by (auto simp: verify_token_def dest: rsplit_dot_parts split: option.splits if_splits)
  ultimately show ?thesis using valid items s cookie by auto
qed

theorem console_session_authentic_witness:
  "\<exists>ck s ls' body. require_console_reviewer sample_hmac (\<lambda>s. 0) (\<lambda>v. []) sample_api_settings 2000 5 ck no_limiters = (Inr s, ls')
     \<and> ck = Some (body @ CHR ''.'' # sample_hmac ''secret'' body) \<and> cs_reviewer_id s = ''rev_2''"
proof -
  have listed: "''rev_2'' \<in> demo_reviewer_set sample_api_settings"
    by (simp add: demo_reviewer_set_def stripped_parts_def sample_api_settings_def py_strip_def is_space_def)
  obtain ls' where "check_console sample_api_settings 5 (''t1'' @ '':'' @ ''rev_2'') no_limiters = (Inr (), ls')"
    using sample_check by auto
  from issued_cookie_admits [OF sample_hmac_text listed this, where float_of = "\<lambda>s. 0" and repr = "\<lambda>v. []"
      and time = 2000 and float_repr = "\<lambda>x. []" and slug = "''acme''" and ?t0.0 = 1000]
  have admitted: "require_console_reviewer sample_hmac (\<lambda>s. 0) (\<lambda>v. []) sample_api_settings 2000 5
      (Some (issue_session_cookie sample_hmac (\<lambda>x. []) ''t1'' ''acme'' ''rev_2'' sample_api_settings 1000)) no_limiters
    = (Inr \<lparr>cs_reviewer_id = ''rev_2'', cs_tenant_id = ''t1'', cs_tenant_slug = ''acme''\<rparr>, ls')"
    by (simp add: sample_api_settings_def)
  from console_session_authentic [OF admitted] admitted show ?thesis
    by (fastforce simp: sample_api_settings_def)
qed

section \<open>The limiter\<close>

text \<open>A sequence of checks at one moment: for each key what the limiter answers.\<close>

fun burst :: "pyfloat \<Rightarrow> string list \<Rightarrow> limiter \<Rightarrow> unit handled list \<times> limiter" where
  "burst now [] l = ([], l)"
| "burst now (k # ks) l =
     (let (r, l1) = check_limit now k l; (rs, l2) = burst now ks l1 in (r # rs, l2))"

definition admitted :: "string \<Rightarrow> string list \<Rightarrow> unit handled list \<Rightarrow> nat" where
  "admitted k ks rs = length (filter (\<lambda>(k', r). k' = k \<and> r = Inr ()) (zip ks rs))"

lemma admitted_simps [simp]:
  "admitted k [] rs = 0"
  "admitted k (k' # ks) (r # rs) = (if k' = k \<and> r = Inr () then 1 else 0) + admitted k ks rs"
  by (simp_all add: admitted_def)

text \<open>What a key has left at a moment.\<close>

definition tokens_left :: "pyfloat \<Rightarrow> string \<Rightarrow> limiter \<Rightarrow> pyfloat" where
  "tokens_left now k l = refilled l now (case map_of (lm_buckets l) k of Some b \<Rightarrow> b
     | None \<Rightarrow> \<lparr>bk_tokens = float_of_int (lm_capacity l), bk_last_refill = now\<rparr>)"

lemma refilled_now: "is_float t \<Longrightarrow> refilled l now \<lparr>bk_tokens = t, bk_last_refill = now\<rparr> = min t (of_int (lm_capacity l))"
  by (simp add: refilled_def fadd_def fsub_def fmul_def fl_exact Let_def min_def)

lemma refilled_buckets: "refilled (l\<lparr>lm_buckets := d\<rparr>) t b = refilled l t b"
  by (simp add: refilled_def cong: if_cong)

lemma tokens_left_float:
  assumes "0 \<le> lm_capacity l" "lm_capacity l \<le> 2 ^ 53"
  shows "is_float (tokens_left now k l)" "tokens_left now k l \<le> of_int (lm_capacity l)"
  using is_float_of_int [of "lm_capacity l"] assms
  by (simp_all add: tokens_left_def refilled_def Let_def fadd_def fl_is_float)

lemma check_limit_step:
  assumes "0 \<le> lm_capacity l" "lm_capacity l \<le> 2 ^ 53" "check_limit now k l = (r, l')"
  shows "r = Inr () \<longleftrightarrow> 1 \<le> tokens_left now k l"
    and "tokens_left now k l' = (if r = Inr () then fsub (tokens_left now k l) 1 else tokens_left now k l)"
    and "k' \<noteq> k \<Longrightarrow> tokens_left t k' l' = tokens_left t k' l"
    and "lm_capacity l' = lm_capacity l"
proof -
  let ?t = "tokens_left now k l"
  let ?t' = "if r = Inr () then fsub ?t 1 else ?t"
  have r: "r = Inr () \<longleftrightarrow> 1 \<le> ?t" and l': "l' = l\<lparr>lm_buckets := AList.update k \<lparr>bk_tokens = ?t', bk_last_refill = now\<rparr> (lm_buckets l)\<rparr>"
    using assms(3) by (auto simp: check_limit_def tokens_left_def Let_def split: if_splits)
  note left = tokens_left_float [OF assms(1,2), of now k]
  show "r = Inr () \<longleftrightarrow> 1 \<le> ?t" by (fact r)
  show "lm_capacity l' = lm_capacity l" by (simp add: l')
  show "k' \<noteq> k \<Longrightarrow> tokens_left t k' l' = tokens_left t k' l"
    by (simp add: l' tokens_left_def refilled_buckets AList.update_conv' cong: option.case_cong)
  have "fsub ?t 1 \<le> of_int (lm_capacity l)" unfolding fsub_def using left(2) assms by (intro fl_le_of_int) auto
  then have "?t' \<le> of_int (lm_capacity l)" "is_float ?t'" using left by (simp_all add: fsub_def fl_is_float)
  then show "tokens_left now k l' = ?t'"
    using refilled_now [of ?t' l' now] by (simp add: l' tokens_left_def refilled_buckets AList.update_conv' min_def)
qed

lemma burst_admits:
  assumes "0 \<le> lm_capacity l" "lm_capacity l \<le> 2 ^ 53" "tokens_left now k l \<le> of_nat m" "int m \<le> 2 ^ 53" "burst now ks l = (rs, l')"
  shows "admitted k ks rs \<le> m"
    and "tokens_left now k l = of_nat m \<Longrightarrow> admitted k ks rs = min m (count_list ks k)"
  using assms
proof (induction ks arbitrary: l m rs l')
  case (Cons j ks)
  case 1
  obtain r l1 rs' l2 where step: "check_limit now j l = (r, l1)" and rest: "burst now ks l1 = (rs', l2)" and rs: "rs = r # rs'"
    using 1(5) by (auto split: prod.splits)
  note s = check_limit_step [OF 1(1,2) step]
  have cap: "0 \<le> lm_capacity l1" "lm_capacity l1 \<le> 2 ^ 53" using 1(1,2) s(4) by simp_all
  show ?case
  proof (cases "j = k \<and> r = Inr ()")
    case True
    then have "1 \<le> tokens_left now k l" using s(1) by metis
    then have "1 \<le> rat_of_nat m" using 1(3) by linarith
    then obtain m' where m: "m = Suc m'" by (cases m) auto
    have "tokens_left now k l1 \<le> of_nat m'"
      using True s(2) 1(3,4) fl_le_of_int [of "tokens_left now k l - 1" "int m'"] by (simp add: m fsub_def)
    then have "admitted k ks rs' \<le> m'" using Cons.IH(1) [OF cap _ _ rest, of m'] 1(4) by (simp add: m)
    then show ?thesis by (simp add: rs m)
  next
    case False
    then have "tokens_left now k l1 = tokens_left now k l" using s(2,3) by (cases "j = k") auto
    then show ?thesis using Cons.IH(1) [OF cap _ 1(4) rest] 1(3) False by (auto simp: rs)
  qed
next
  case (Cons j ks)
  case 2
  obtain r l1 rs' l2 where step: "check_limit now j l = (r, l1)" and rest: "burst now ks l1 = (rs', l2)" and rs: "rs = r # rs'"
    using 2(6) by (auto split: prod.splits)
  note s = check_limit_step [OF 2(2,3) step]
  have cap: "0 \<le> lm_capacity l1" "lm_capacity l1 \<le> 2 ^ 53" using 2(2,3) s(4) by simp_all
  show ?case
  proof (cases "j = k \<and> r = Inr ()")
    case True
    then have "1 \<le> tokens_left now k l" using s(1) by metis
    then obtain m' where m: "m = Suc m'" using 2(1) by (cases m) auto
    have "tokens_left now k l1 = of_nat m'"
      using True s(2) 2(1,5) fl_of_int [of "int m'"] by (simp add: m fsub_def)
    then show ?thesis using Cons.IH(2) [OF _ cap _ _ rest, of m'] 2(5) True by (simp add: rs m)
  next
    case False
    then have same: "tokens_left now k l1 = tokens_left now k l" using s(2,3) by (cases "j = k") auto
    have "j = k \<Longrightarrow> m = 0" using False s(1) 2(1) by (cases m) auto
    with same show ?thesis using Cons.IH(2) [OF _ cap _ 2(5) rest] 2(1) False by (auto simp: rs)
  qed
qed simp_all

text \<open>
  C27. A burst is bounded by the capacity of the bucket: of any number of requests at one moment, with those of other keys in
  between, at most \<open>capacity\<close> of one key are admitted, and exactly so many of a key that comes for the first time, whatever
  the refill rate is and in spite of the rounding of the token counts.
\<close>

theorem burst_bounded:
  assumes "0 \<le> lm_capacity l" "lm_capacity l \<le> 2 ^ 53" "burst now ks l = (rs, l')"
  shows "admitted k ks rs \<le> nat (lm_capacity l)
    \<and> (map_of (lm_buckets l) k = None \<longrightarrow> admitted k ks rs = min (nat (lm_capacity l)) (count_list ks k))"
proof (intro conjI impI)
  let ?m = "nat (lm_capacity l)"
  have m: "of_nat ?m = (of_int (lm_capacity l) :: rat)" "int ?m \<le> 2 ^ 53" using assms(1,2) by simp_all
  show "admitted k ks rs \<le> ?m"
    using burst_admits(1) [OF assms(1,2) _ m(2) assms(3)] tokens_left_float(2) [OF assms(1,2)] by (simp only: m(1))
  assume "map_of (lm_buckets l) k = None"
  then have "tokens_left now k l = of_int (lm_capacity l)"
    using refilled_now [of "of_int (lm_capacity l)" l now] is_float_of_int [of "lm_capacity l"] assms(1,2)
    by (simp add: tokens_left_def float_of_int_def fl_exact)
  then show "admitted k ks rs = min ?m (count_list ks k)"
    using burst_admits(2) [OF assms(1,2) _ m(2) assms(3)] by (simp only: m(1) order_refl)
qed

theorem burst_bounded_witness:
  "\<exists>rs l'. burst 7 [''a'', ''b'', ''a'', ''a''] (new_limiter 2 60) = (rs, l')
     \<and> admitted ''a'' [''a'', ''b'', ''a'', ''a''] rs = 2 \<and> admitted ''b'' [''a'', ''b'', ''a'', ''a''] rs = 1"
proof -
  let ?l = "new_limiter 2 60" and ?ks = "[''a'', ''b'', ''a'', ''a'']"
  obtain rs l' where b: "burst 7 ?ks ?l = (rs, l')" by force
  have "0 \<le> lm_capacity ?l" "lm_capacity ?l \<le> 2 ^ 53" "lm_capacity ?l = 2" "map_of (lm_buckets ?l) k = None" for k
    by (simp_all add: new_limiter_def)
  with burst_bounded [OF this(1,2) b, of "''a''"] burst_bounded [OF this(1,2) b, of "''b''"] b show ?thesis
    by (auto simp: numeral_2_eq_2)
qed

text \<open>Refilling: a key that waits for 61 seconds is admitted, if the bucket holds one token and one is refilled per minute.\<close>

theorem waiting_admits:
  assumes "1 \<le> capacity" "1 \<le> rate" "map_of (lm_buckets l) k = Some b" "0 \<le> bk_tokens b" "bk_last_refill b + 61 \<le> now"
    and "lm_capacity l = capacity" "lm_refill_per_second l = int_truediv rate 60"
  shows "fst (check_limit now k l) = Inr ()"
proof -
  have "(17 / 1024 :: rat) \<le> int_truediv rate 60"
  proof -
    have "of_int 17 * 2 powi (-10) = (17 / 1024 :: rat)" by (simp add: power_int_def power_one_over)
    then have "is_float (17 / 1024)" unfolding is_float_def by (intro exI [of _ 17] exI [of _ "- 10"]) simp
    then have "17 / 1024 = fl (17 / 1024)" by (simp add: fl_exact)
    also have "\<dots> \<le> fl (of_int rate / of_int 60)" using assms(2) by (intro fl_mono) (simp add: field_simps)
    finally show ?thesis by (simp add: int_truediv_def)
  qed
  moreover have "61 \<le> fsub now (bk_last_refill b)"
    unfolding fsub_def using of_int_le_fl [of 61 "now - bk_last_refill b"] assms(5) by simp
  ultimately have "1 \<le> fsub now (bk_last_refill b) * int_truediv rate 60"
    using mult_mono [of 61 "fsub now (bk_last_refill b)" "17 / 1024" "int_truediv rate 60"] by simp
  then have "1 \<le> fmul (fsub now (bk_last_refill b)) (int_truediv rate 60)"
    unfolding fmul_def using of_int_le_fl [of 1] by simp
  then have "1 \<le> fadd (bk_tokens b) (fmul (fsub now (bk_last_refill b)) (int_truediv rate 60))"
    unfolding fadd_def using of_int_le_fl [of 1] assms(4) by simp
  then have "1 \<le> refilled l now b" using assms(1,6,7) by (simp add: refilled_def Let_def)
  then show ?thesis using assms(3) by (simp add: check_limit_def Let_def)
qed

section \<open>The ingestion key\<close>

lemma filter_unique: "distinct (map f xs) \<Longrightarrow> (\<exists>x. filter (\<lambda>x. f x = a) xs = [x]) \<or> filter (\<lambda>x. f x = a) xs = []"
  by (induction xs) (auto simp: filter_empty_conv image_iff)

lemma key_rows:
  assumes "distinct (map tn_id (dr_tenants dir))" "distinct (map ak_key_hash (dr_api_keys dir))"
  shows "get_tenant_for_api_key dir h = Inr (case filter (\<lambda>k. ak_key_hash k = h) (dr_api_keys dir) of
      k # _ \<Rightarrow> if ak_active k then find (\<lambda>t. tn_id t = ak_tenant_id k) (dr_tenants dir) else None | [] \<Rightarrow> None)"
proof -
  let ?ks = "filter (\<lambda>k. ak_key_hash k = h) (dr_api_keys dir)"
  have inner: "filter (\<lambda>k. ak_tenant_id k = tn_id t \<and> ak_key_hash k = h \<and> ak_active k) (dr_api_keys dir)
      = filter (\<lambda>k. ak_tenant_id k = tn_id t \<and> ak_active k) ?ks" for t
    by (simp add: conj_ac)
  consider k where "?ks = [k]" | "?ks = []" using filter_unique [OF assms(2)] by blast
  then show ?thesis
  proof cases
    case 1
    have rows: "concat (map (\<lambda>t. map (\<lambda>k. t) (filter (\<lambda>k. ak_tenant_id k = tn_id t \<and> ak_active k) [k])) ts)
        = (if ak_active k then filter (\<lambda>t. tn_id t = ak_tenant_id k) ts else [])" for ts
      by (induction ts) auto
    have "find P ts = (case filter P ts of [] \<Rightarrow> None | t # _ \<Rightarrow> Some t)" for P and ts :: "tenant list"
      by (induction ts) auto
    with filter_unique [OF assms(1), of "ak_tenant_id k"] show ?thesis
      unfolding get_tenant_for_api_key_def inner 1 rows by (auto simp: one_or_none_def)
  next
    case 2
    have none: "concat (map (\<lambda>t. []) ts) = ([] :: tenant list)" for ts :: "tenant list" by (induction ts) auto
    show ?thesis unfolding get_tenant_for_api_key_def inner 2 list.map filter.simps none by (simp add: one_or_none_def)
  qed
qed

text \<open>
  The ingestion surface knows its tenant by the key alone: a request is let in exactly when its bearer token, hashed with
  the pepper, is the hash of an active key, and then as the tenant that key belongs to; every other request is answered
  with 401.
\<close>

theorem api_key_resolves:
  assumes "distinct (map tn_id (dr_tenants dir))" "distinct (map ak_key_hash (dr_api_keys dir))"
    and "\<And>k. k \<in> set (dr_api_keys dir) \<Longrightarrow> ak_tenant_id k \<in> tn_id ` set (dr_tenants dir)"
  shows "(\<exists>m. require_tenant_api_key hmac_hex st dir auth = Inl (ApiError (unauthenticated m))
          \<and> \<not> (\<exists>raw k. auth = Some (''Bearer '' @ raw) \<and> py_strip raw \<noteq> [] \<and> k \<in> set (dr_api_keys dir)
               \<and> ak_active k \<and> ak_key_hash k = hmac_hex (as_api_key_hash_pepper st) (py_strip raw)))
     \<or> (\<exists>raw k. require_tenant_api_key hmac_hex st dir auth = Inr (ak_tenant_id k) \<and> auth = Some (''Bearer '' @ raw)
          \<and> py_strip raw \<noteq> [] \<and> k \<in> set (dr_api_keys dir) \<and> ak_active k
          \<and> ak_key_hash k = hmac_hex (as_api_key_hash_pepper st) (py_strip raw))"
proof (cases "\<exists>raw. auth = Some (''Bearer '' @ raw)")
  case False
  then have "auth = None \<or> (\<exists>h. auth = Some h \<and> \<not> starts_with ''Bearer '' h)"
    by (metis append_take_drop_id not_None_eq starts_with_iff)
  with False show ?thesis by (auto simp: require_tenant_api_key_def)
next
  case True
  then obtain raw where auth: "auth = Some (''Bearer '' @ raw)" by blast
  show ?thesis
  proof (cases "py_strip raw = []")
    case True
    then show ?thesis by (auto simp: auth require_tenant_api_key_def)
  next
    case False
    let ?h = "hmac_hex (as_api_key_hash_pepper st) (py_strip raw)"
    let ?ks = "filter (\<lambda>k. ak_key_hash k = ?h) (dr_api_keys dir)"
    have req: "require_tenant_api_key hmac_hex st dir auth = bind_handled (get_tenant_for_api_key dir ?h)
        (\<lambda>t. case t of None \<Rightarrow> Inl (ApiError (unauthenticated ''Unknown or inactive API key'')) | Some t \<Rightarrow> Inr (tn_id t))"
      using False by (simp add: auth require_tenant_api_key_def hash_api_key_def)
    consider k where "?ks = [k]" | "?ks = []" using filter_unique [OF assms(2)] by blast
    then show ?thesis
    proof cases
      case 1
      have ks: "k' \<in> set ?ks \<longleftrightarrow> k' = k" for k' unfolding 1 by auto
      have k: "k \<in> set (dr_api_keys dir)" "ak_key_hash k = ?h"
        and only: "\<And>k'. k' \<in> set (dr_api_keys dir) \<Longrightarrow> ak_key_hash k' = ?h \<Longrightarrow> k' = k"
        using ks [unfolded set_filter mem_Collect_eq] by blast+
      obtain t where t: "find (\<lambda>t. tn_id t = ak_tenant_id k) (dr_tenants dir) = Some t"
        using assms(3) [OF k(1)] find_None_iff [of "\<lambda>t. tn_id t = ak_tenant_id k" "dr_tenants dir"]
        by (metis imageE option.exhaust)
      from find_SomeD [OF this] have tid: "tn_id t = ak_tenant_id k" by simp
      show ?thesis
      proof (cases "ak_active k")
        case True
        then have "require_tenant_api_key hmac_hex st dir auth = Inr (ak_tenant_id k)"
          using t tid by (simp add: req key_rows [OF assms(1,2)] 1)
        with k True False auth show ?thesis by blast
      next
        case inactive: False
        then have "require_tenant_api_key hmac_hex st dir auth = Inl (ApiError (unauthenticated ''Unknown or inactive API key''))"
          by (simp add: req key_rows [OF assms(1,2)] 1)
        moreover have "\<not> (\<exists>k'. k' \<in> set (dr_api_keys dir) \<and> ak_active k' \<and> ak_key_hash k' = ?h)"
          using only inactive by blast
        ultimately show ?thesis unfolding auth by blast
      qed
    next
      case 2
      then have "\<not> (\<exists>k'. k' \<in> set (dr_api_keys dir) \<and> ak_active k' \<and> ak_key_hash k' = ?h)" by (auto simp: filter_empty_conv)
      moreover have "require_tenant_api_key hmac_hex st dir auth = Inl (ApiError (unauthenticated ''Unknown or inactive API key''))"
        by (simp add: req key_rows [OF assms(1,2)] 2)
      ultimately show ?thesis unfolding auth by blast
    qed
  qed
qed

theorem api_key_resolves_witness:
  "require_tenant_api_key sample_hmac sample_api_settings sample_directory (Some ''Bearer  key'')
     = Inr ''11111111-1111-1111-1111-111111111111''"
proof -
  have "\<not> (\<exists>m. require_tenant_api_key sample_hmac sample_api_settings sample_directory (Some ''Bearer  key'')
      = Inl (ApiError (unauthenticated m)))"
    by (simp add: require_tenant_api_key_def hash_api_key_def sample_hmac_def sample_directory_def py_strip_def is_space_def
        get_tenant_for_api_key_def one_or_none_def)
  moreover have "distinct (map tn_id (dr_tenants sample_directory))" "distinct (map ak_key_hash (dr_api_keys sample_directory))"
    "\<And>k. k \<in> set (dr_api_keys sample_directory) \<Longrightarrow> ak_tenant_id k \<in> tn_id ` set (dr_tenants sample_directory)"
    by (auto simp: sample_directory_def)
  note api_key_resolves [OF this, of sample_hmac sample_api_settings "Some ''Bearer  key''"]
  ultimately show ?thesis by (auto simp: sample_directory_def)
qed

text \<open>
  A cookie that is not ASCII is neither accepted nor refused: encoding its body (or comparing its signature) raises
  outside the \<open>try\<close>, and the client gets 500 instead of 401.
\<close>

theorem foreign_cookie_is_500:
  assumes "rsplit_dot token = Some (body, sig)" "\<not> is_ascii token"
  shows "\<exists>env. respond request_id (fst (require_console_reviewer hmac_hex float_of repr st time now (Some token) ls)) = Inl env
     \<and> en_status_code env = 500"
proof -
  have "\<not> is_ascii body \<or> \<not> is_ascii sig" using rsplit_dot_parts [OF assms(1)] assms(2) by auto
  moreover have "token \<noteq> []" using assms(2) by auto
  ultimately show ?thesis
    using assms(1) by (auto simp: require_console_reviewer_def verify_token_def respond_def render_envelope_def internal_error_def)
qed

theorem foreign_cookie_is_500_witness:
  "\<exists>env. respond None (fst (require_console_reviewer sample_hmac (\<lambda>s. 0) (\<lambda>v. []) sample_api_settings 0 0
      (Some [CHR 0xE9, CHR ''.'', CHR ''0'']) no_limiters)) = Inl env \<and> en_status_code env = 500"
proof -
  have "rsplit_dot [CHR 0xE9, CHR ''.'', CHR ''0''] = Some ([CHR 0xE9], ''0'')" by (simp add: rsplit_dot_def)
  moreover have "\<not> is_ascii [CHR 0xE9, CHR ''.'', CHR ''0'']" by simp
  ultimately show ?thesis by (rule foreign_cookie_is_500)
qed

end
