(* ===== verification/Tables.thy ===== *)
theory Tables
  imports Runs Measurement Access
begin

text \<open>
  The database behind the API and the worker: the tables of \<open>persistence/models.py\<close> beside \<open>recommendations\<close>,
  \<open>audit_log\<close> (in \<open>Lifecycle\<close>), \<open>pipeline_runs\<close> (in \<open>Runs\<close>), \<open>tenants\<close> and \<open>api_keys\<close> (in \<open>Access\<close>), the grants that
  the migrations give the two application roles, row-level security, and the statements the repositories issue: a
  select, an insert, an insert that ignores or updates on conflict, and an update.  A statement needs the grant, sees
  the rows of the session's tenant and may only write rows of that tenant.  Fresh UUIDs and \<open>now()\<close> are arguments.
\<close>

section \<open>Rows\<close>

record mapping_row =
  mp_id :: string
  mp_tenant_id :: string
  mp_client_event_type :: string
  mp_canonical_event_type :: string
  mp_amount_field_path :: string
  mp_counterparty_field_path :: "string option"
  mp_occurred_at_field_path :: string
  mp_active :: bool

record incentive_row =
  iv_id :: string
  iv_tenant_id :: string
  iv_code :: string
  iv_display_name :: string
  iv_cost_idr :: int
  iv_encourages_borrowing :: bool
  iv_changes_credit_terms :: bool
  iv_subject_type :: string
  iv_applicable_profile_types :: "string list"
  iv_active :: bool

record raw_event_row =
  rv_id :: string
  rv_tenant_id :: string
  rv_client_event_id :: string
  rv_received_at :: instant
  rv_payload :: "(string \<times> json) list"
  rv_processed_at :: "instant option"
  rv_process_error :: "string option"

record canonical_event_row =
  cv_id :: string
  cv_tenant_id :: string
  cv_raw_event_id :: string
  cv_user_pseudonym :: string
  cv_canonical_type :: string
  cv_occurred_at :: instant
  cv_amount_idr :: int
  cv_counterparty_pseudonym :: "string option"
  cv_attributes :: "(string \<times> json) list"

record signal_row =
  sg_id :: string
  sg_tenant_id :: string
  sg_scope_type :: string
  sg_scope_key :: string
  sg_signal_type :: string
  sg_value :: pyfloat
  sg_observed_at :: instant
  sg_source :: string
  sg_ingested_at :: instant

record user_row =
  us_tenant_id :: string
  us_user_pseudonym :: string
  us_first_seen_at :: instant
  us_last_event_at :: instant
  us_lifecycle_state :: string
  us_region_code :: "string option"
  us_cohort_key :: "string option"

record circle_row =
  tc_id :: string
  tc_tenant_id :: string
  tc_member_count :: int
  tc_stability_score :: "pyfloat option"
  tc_computed_at :: instant

record circle_member_row =
  cm_circle_id :: string
  cm_tenant_id :: string
  cm_user_pseudonym :: string

record risk_score_row =
  rk_id :: string
  rk_tenant_id :: string
  rk_user_pseudonym :: string
  rk_computed_at :: instant
  rk_pipeline_run_id :: "string option"
  rk_churn_risk :: pyfloat
  rk_delta_stability :: pyfloat
  rk_pattern_type :: string
  rk_external_signal_id :: "string option"
  rk_external_signal_contribution :: "pyfloat option"
  rk_context_row_count :: int
  rk_features :: "(string \<times> json) list"

record impact_score_row =
  ip_id :: string
  ip_tenant_id :: string
  ip_user_pseudonym :: string
  ip_incentive_code :: string
  ip_computed_at :: instant
  ip_p_incentivized :: pyfloat
  ip_p_not_incentivized :: pyfloat
  ip_impact_score :: pyfloat
  ip_segment :: string
  ip_features :: "(string \<times> json) list"

record allocation_run_row =
  al_id :: string
  al_tenant_id :: string
  al_pipeline_run_id :: "string option"
  al_budget_idr :: int
  al_strategy :: string
  al_ranking_strategy :: string
  al_context_row_count :: int
  al_objective_value_idr :: int
  al_candidate_count :: int
  al_selected_count :: int
  al_created_at :: instant
  al_created_by :: "string option"

record allocation_candidate_row =
  ac_id :: string
  ac_tenant_id :: string
  ac_allocation_run_id :: string
  ac_subject_type :: string
  ac_user_pseudonym :: "string option"
  ac_circle_id :: "string option"
  ac_incentive_code :: string
  ac_churn_risk :: "pyfloat option"
  ac_impact_score :: "pyfloat option"
  ac_segment :: "string option"
  ac_pattern_type :: "string option"
  ac_priority_idr :: "int option"
  ac_cost_idr :: int
  ac_user_rank :: "int option"
  ac_selected :: bool
  ac_exclusion_reason :: "string option"

record narration_db_row =
  nb_fact_sheet_hash :: string
  nb_tenant_id :: string
  nb_text :: string
  nb_model :: string
  nb_created_at :: instant

record policy_decision_row =
  pl_id :: string
  pl_tenant_id :: string
  pl_recommendation_id :: "string option"
  pl_candidate_ref :: string
  pl_rule_code :: string
  pl_outcome :: string
  pl_detail :: "(string \<times> json) list"
  pl_created_at :: instant

record contact_row =
  ct_id :: string
  ct_tenant_id :: string
  ct_user_pseudonym :: string
  ct_recommendation_id :: "string option"
  ct_contacted_at :: instant

record experiment_row =
  ep_id :: string
  ep_tenant_id :: string
  ep_name :: string
  ep_control_pct :: int
  ep_naive_pct :: int
  ep_started_at :: instant
  ep_ended_at :: "instant option"

text \<open>The rows of the two tables \<open>Measurement\<close> reads, with their other columns.\<close>

record experiment_assignment_row = assignment_row +
  ea_tenant_id :: string
  ea_experiment_id :: string
  ea_assigned_at :: instant

record outcome_event_row = outcome_row +
  ov_id :: string
  ov_tenant_id :: string
  ov_experiment_id :: string
  ov_observed_at :: instant

record labeled_example_row =
  lx_id :: string
  lx_tenant_id :: string
  lx_source_experiment_id :: "string option"
  lx_source_outcome_id :: "string option"
  lx_user_pseudonym :: string
  lx_arm :: string
  lx_treated :: bool
  lx_retained :: bool
  lx_realized_value_idr :: "int option"
  lx_feature_snapshot :: "(string \<times> json) list"
  lx_created_at :: instant

record feature_snapshot_row =
  fp_id :: string
  fp_tenant_id :: string
  fp_run_id :: string
  fp_user_pseudonym :: string
  fp_features :: "(string \<times> pyfloat) list"
  fp_churn_risk :: "pyfloat option"
  fp_impact_score :: "pyfloat option"
  fp_pattern_type :: "string option"
  fp_incentive_code :: "string option"
  fp_cost_idr :: int
  fp_business_value_idr :: int
  fp_created_at :: instant

record datastore =
  ds_directory :: directory
  ds_mappings :: "mapping_row list"
  ds_incentives :: "incentive_row list"
  ds_raw_events :: "raw_event_row list"
  ds_canonical_events :: "canonical_event_row list"
  ds_external_signals :: "signal_row list"
  ds_users :: "user_row list"
  ds_circles :: "circle_row list"
  ds_circle_members :: "circle_member_row list"
  ds_risk_scores :: "risk_score_row list"
  ds_impact_scores :: "impact_score_row list"
  ds_pipeline_runs :: "pipeline_run list"
  ds_allocation_runs :: "allocation_run_row list"
  ds_allocation_candidates :: "allocation_candidate_row list"
  ds_narrations :: "narration_db_row list"
  ds_policy_decisions :: "policy_decision_row list"
  ds_contact_log :: "contact_row list"
  ds_experiments :: "experiment_row list"
  ds_assignments :: "experiment_assignment_row list"
  ds_outcomes :: "outcome_event_row list"
  ds_labeled_examples :: "labeled_example_row list"
  ds_feature_snapshots :: "feature_snapshot_row list"
  ds_core :: database

section \<open>Grants\<close>

datatype table =
    T_TENANTS | T_API_KEYS | T_EVENT_TYPE_MAPPINGS | T_INCENTIVES | T_RAW_EVENTS | T_CANONICAL_EVENTS
  | T_EXTERNAL_SIGNALS | T_USERS | T_COUNTERPARTY_NODES | T_RELATIONSHIP_EDGES | T_TRANSACTION_CIRCLES
  | T_CIRCLE_MEMBERS | T_RISK_SCORES | T_IMPACT_SCORES | T_PIPELINE_RUNS | T_POLICY_DECISIONS | T_ALLOCATION_RUNS
  | T_ALLOCATION_CANDIDATES | T_RECOMMENDATIONS | T_NARRATIONS | T_CONTACT_LOG | T_EXPERIMENTS
  | T_EXPERIMENT_ASSIGNMENTS | T_OUTCOME_EVENTS | T_LABELED_EXAMPLES | T_AUDIT_LOG | T_FEATURE_SNAPSHOTS

datatype privilege = SELECT | INSERT | UPDATE | UPDATE_OF string

type_synonym grants = "(db_role \<times> privilege \<times> table) list"

definition grant :: "privilege list \<Rightarrow> table list \<Rightarrow> db_role \<Rightarrow> grants" where
  "grant privileges tables role = concat (map (\<lambda>t. map (\<lambda>p. (role, p, t)) privileges) tables)"

definition grants_0006 :: grants where
  "grants_0006 =
     grant [SELECT, INSERT]
       [T_RAW_EVENTS, T_CANONICAL_EVENTS, T_EXTERNAL_SIGNALS, T_USERS, T_COUNTERPARTY_NODES, T_RELATIONSHIP_EDGES,
        T_TRANSACTION_CIRCLES, T_CIRCLE_MEMBERS, T_RISK_SCORES, T_IMPACT_SCORES, T_PIPELINE_RUNS, T_POLICY_DECISIONS,
        T_ALLOCATION_RUNS, T_ALLOCATION_CANDIDATES, T_NARRATIONS, T_CONTACT_LOG, T_EXPERIMENT_ASSIGNMENTS,
        T_OUTCOME_EVENTS, T_LABELED_EXAMPLES] APP_WORKER
     @ grant [UPDATE] [T_RAW_EVENTS, T_PIPELINE_RUNS] APP_WORKER
     @ grant [INSERT] [T_RECOMMENDATIONS] APP_WORKER
     @ grant [UPDATE_OF ''status'', UPDATE_OF ''delivered_at'', UPDATE_OF ''delivery_ref''] [T_RECOMMENDATIONS] APP_WORKER
     @ grant [SELECT]
       [T_TENANTS, T_API_KEYS, T_EVENT_TYPE_MAPPINGS, T_INCENTIVES, T_RAW_EVENTS, T_CANONICAL_EVENTS, T_EXTERNAL_SIGNALS,
        T_USERS, T_COUNTERPARTY_NODES, T_RELATIONSHIP_EDGES, T_TRANSACTION_CIRCLES, T_CIRCLE_MEMBERS, T_RISK_SCORES,
        T_IMPACT_SCORES, T_PIPELINE_RUNS, T_POLICY_DECISIONS, T_ALLOCATION_RUNS, T_ALLOCATION_CANDIDATES,
        T_RECOMMENDATIONS, T_NARRATIONS, T_CONTACT_LOG, T_EXPERIMENTS, T_EXPERIMENT_ASSIGNMENTS, T_OUTCOME_EVENTS,
        T_LABELED_EXAMPLES, T_AUDIT_LOG] APP_CONSOLE
     @ grant [INSERT] [T_EVENT_TYPE_MAPPINGS, T_INCENTIVES, T_EXPERIMENTS, T_PIPELINE_RUNS, T_AUDIT_LOG] APP_CONSOLE
     @ grant [UPDATE] [T_EVENT_TYPE_MAPPINGS, T_INCENTIVES] APP_CONSOLE
     @ grant [UPDATE_OF ''status'', UPDATE_OF ''reviewed_by'', UPDATE_OF ''reviewed_at'', UPDATE_OF ''review_note'']
       [T_RECOMMENDATIONS] APP_CONSOLE"

definition grants_0007 :: grants where
  "grants_0007 = grant [SELECT] [T_RECOMMENDATIONS] APP_WORKER"

definition grants_0008 :: grants where
  "grants_0008 = grant [SELECT, INSERT] [T_FEATURE_SNAPSHOTS] APP_WORKER @ grant [SELECT] [T_FEATURE_SNAPSHOTS] APP_CONSOLE"

definition grants_0009 :: grants where
  "grants_0009 = grant [SELECT] [T_TENANTS, T_EVENT_TYPE_MAPPINGS, T_INCENTIVES] APP_WORKER"

definition grants_0010 :: grants where
  "grants_0010 =
     grant [UPDATE_OF ''last_event_at'', UPDATE_OF ''region_code'', UPDATE_OF ''cohort_key''] [T_USERS] APP_WORKER"

definition grants_0011 :: grants where
  "grants_0011 = grant [SELECT, INSERT] [T_EXPERIMENTS] APP_WORKER @ grant [SELECT, INSERT] [T_AUDIT_LOG] APP_WORKER"

definition GRANTS :: grants where
  "GRANTS = grants_0006 @ grants_0007 @ grants_0008 @ grants_0009 @ grants_0010 @ grants_0011"

definition granted :: "db_role \<Rightarrow> privilege \<Rightarrow> table \<Rightarrow> bool" where
  "granted role p t \<longleftrightarrow> (role, p, t) \<in> set GRANTS"

text \<open>An update of columns needs the privilege on the table or on each column.\<close>

definition may_update :: "db_role \<Rightarrow> table \<Rightarrow> string list \<Rightarrow> bool" where
  "may_update role t columns \<longleftrightarrow> granted role UPDATE t \<or> list_all (\<lambda>c. granted role (UPDATE_OF c) t) columns"

section \<open>Statements\<close>

definition permission_denied :: exn where
  "permission_denied = PermissionError ''permission denied for table''"

definition row_security :: exn where
  "row_security = PermissionError ''new row violates row-level security policy''"

definition unique_violation :: exn where
  "unique_violation = RuntimeError ''duplicate key value violates unique constraint''"

definition sql_select :: "db_session \<Rightarrow> table \<Rightarrow> ('r \<Rightarrow> string) \<Rightarrow> 'r list \<Rightarrow> 'r list result" where
  "sql_select s t tenant_of rows =
     (if granted (ss_role s) SELECT t then Inr (filter (\<lambda>r. tenant_of r = ss_tenant_id s) rows) else Inl permission_denied)"

text \<open>\<open>clash\<close> is the table's unique constraint: the existing row stands in the way of the new one.\<close>

fun sql_insert ::
  "db_session \<Rightarrow> table \<Rightarrow> ('r \<Rightarrow> string) \<Rightarrow> ('r \<Rightarrow> 'r \<Rightarrow> bool) \<Rightarrow> 'r list \<Rightarrow> 'r list \<Rightarrow> 'r list result" where
  "sql_insert s t tenant_of clash [] rows = (if granted (ss_role s) INSERT t then Inr rows else Inl permission_denied)"
| "sql_insert s t tenant_of clash (r # rs) rows =
     (if \<not> granted (ss_role s) INSERT t then Inl permission_denied
      else if tenant_of r \<noteq> ss_tenant_id s then Inl row_security
      else if list_ex (\<lambda>old. clash old r) rows then Inl unique_violation
      else sql_insert s t tenant_of clash rs (rows @ [r]))"

text \<open>\<open>ON CONFLICT DO NOTHING\<close>: which of the new rows were inserted.\<close>

fun sql_insert_or_ignore ::
  "db_session \<Rightarrow> table \<Rightarrow> ('r \<Rightarrow> string) \<Rightarrow> ('r \<Rightarrow> 'r \<Rightarrow> bool) \<Rightarrow> 'r list \<Rightarrow> 'r list \<Rightarrow> ('r list \<times> 'r list) result" where
  "sql_insert_or_ignore s t tenant_of clash [] rows =
     (if granted (ss_role s) INSERT t \<and> granted (ss_role s) SELECT t then Inr (rows, []) else Inl permission_denied)"
| "sql_insert_or_ignore s t tenant_of clash (r # rs) rows =
     (if \<not> (granted (ss_role s) INSERT t \<and> granted (ss_role s) SELECT t) then Inl permission_denied
      else if tenant_of r \<noteq> ss_tenant_id s then Inl row_security
      else if list_ex (\<lambda>old. clash old r) rows then sql_insert_or_ignore s t tenant_of clash rs rows
      else bind_result (sql_insert_or_ignore s t tenant_of clash rs (rows @ [r])) (\<lambda>(rows', new). Inr (rows', r # new)))"

text \<open>\<open>ON CONFLICT DO UPDATE\<close> of one row.\<close>

definition sql_upsert ::
  "db_session \<Rightarrow> table \<Rightarrow> string list \<Rightarrow> ('r \<Rightarrow> string) \<Rightarrow> ('r \<Rightarrow> 'r \<Rightarrow> bool) \<Rightarrow> ('r \<Rightarrow> 'r) \<Rightarrow> 'r \<Rightarrow> 'r list \<Rightarrow> 'r list result" where
  "sql_upsert s t columns tenant_of clash change r rows =
     (if \<not> (granted (ss_role s) INSERT t \<and> granted (ss_role s) SELECT t \<and> may_update (ss_role s) t columns)
      then Inl permission_denied
      else if tenant_of r \<noteq> ss_tenant_id s then Inl row_security
      else if list_ex (\<lambda>old. clash old r) rows then Inr (map (\<lambda>old. if clash old r then change old else old) rows)
      else Inr (rows @ [r]))"

definition sql_update ::
  "db_session \<Rightarrow> table \<Rightarrow> string list \<Rightarrow> ('r \<Rightarrow> string) \<Rightarrow> ('r \<Rightarrow> bool) \<Rightarrow> ('r \<Rightarrow> 'r) \<Rightarrow> 'r list \<Rightarrow> 'r list result" where
  "sql_update s t columns tenant_of cond change rows =
     (if \<not> (granted (ss_role s) SELECT t \<and> may_update (ss_role s) t columns) then Inl permission_denied
      else Inr (map (\<lambda>r. if tenant_of r = ss_tenant_id s \<and> cond r then change r else r) rows))"

definition scalar_one_or_none :: "'a list \<Rightarrow> 'a option result" where
  "scalar_one_or_none rows = (case rows of
      [] \<Rightarrow> Inr None
    | [x] \<Rightarrow> Inr (Some x)
    | _ \<Rightarrow> Inl (RuntimeError ''Multiple rows were found when one or none was required''))"

definition scalar_one :: "'a list \<Rightarrow> 'a result" where
  "scalar_one rows = (case rows of
      [x] \<Rightarrow> Inr x
    | [] \<Rightarrow> Inl (RuntimeError ''No row was found when one was required'')
    | _ \<Rightarrow> Inl (RuntimeError ''Multiple rows were found when one was required''))"

text \<open>\<open>OFFSET\<close> and \<open>LIMIT\<close>; the database raises on a negative number.\<close>

definition page_of :: "int \<Rightarrow> int \<Rightarrow> 'a list \<Rightarrow> 'a list result" where
  "page_of limit offset rows =
     (if limit < 0 \<or> offset < 0 then Inl (RuntimeError ''LIMIT and OFFSET must not be negative'')
      else Inr (take (nat limit) (drop (nat offset) rows)))"

text \<open>\<open>DISTINCT ON (key) \<dots> ORDER BY key, time DESC\<close>: the newest row of each key.\<close>

definition latest_per :: "('r \<Rightarrow> 'k) \<Rightarrow> ('r \<Rightarrow> instant) \<Rightarrow> 'r list \<Rightarrow> ('k \<times> 'r) list" where
  "latest_per key time rows =
     foldl (\<lambda>d r. dict_setdefault (key r) r d) [] (sort_key (\<lambda>r. - time r) rows)"

definition never :: "'r \<Rightarrow> 'r \<Rightarrow> bool" where
  "never old r \<longleftrightarrow> False"

lemma never_False [simp]: "never old r = False"
  by (simp add: never_def)

definition empty_datastore :: datastore where
  "empty_datastore =
     \<lparr>ds_directory = \<lparr>dr_tenants = [], dr_api_keys = []\<rparr>, ds_mappings = [], ds_incentives = [], ds_raw_events = [],
      ds_canonical_events = [], ds_external_signals = [], ds_users = [], ds_circles = [], ds_circle_members = [],
      ds_risk_scores = [], ds_impact_scores = [], ds_pipeline_runs = [], ds_allocation_runs = [],
      ds_allocation_candidates = [], ds_narrations = [], ds_policy_decisions = [], ds_contact_log = [],
      ds_experiments = [], ds_assignments = [], ds_outcomes = [], ds_labeled_examples = [], ds_feature_snapshots = [],
      ds_core = \<lparr>db_recommendations = [], db_audit_log = []\<rparr>\<rparr>"

named_theorems grant_simps \<open>the privileges of the application roles after all migrations\<close>

lemma worker_inserts [grant_simps]:
  "granted APP_WORKER INSERT T_RAW_EVENTS" "granted APP_WORKER SELECT T_RAW_EVENTS" "granted APP_WORKER UPDATE T_RAW_EVENTS"
  "granted APP_WORKER SELECT T_EXPERIMENTS" "granted APP_WORKER INSERT T_OUTCOME_EVENTS"
  by code_simp+

end
