(* ===== verification/Repositories.thy ===== *)
theory Repositories
  imports Tables
begin

text \<open>
  \<open>persistence/repositories\<close>: events, users, measurement, scores, allocations, feedback, feature snapshots, external
  signals, contacts, incentives, policy, narrations, mappings and segments, on the database of \<open>Tables\<close>.  An operation
  runs in a session and returns the database it leaves with its value, or the exception it raises.  Text is ordered by
  its code points and rows that the code leaves unordered come in the order they were inserted.
\<close>

section \<open>events.py\<close>

definition same_client_event :: "raw_event_row \<Rightarrow> raw_event_row \<Rightarrow> bool" where
  "same_client_event a b \<longleftrightarrow> rv_tenant_id a = rv_tenant_id b \<and> rv_client_event_id a = rv_client_event_id b"

definition raw_events_of :: "db_session \<Rightarrow> datastore \<Rightarrow> raw_event_row list result" where
  "raw_events_of s db = sql_select s T_RAW_EVENTS rv_tenant_id (ds_raw_events db)"

definition get_raw_event_id_by_client_id :: "db_session \<Rightarrow> datastore \<Rightarrow> string \<Rightarrow> string \<Rightarrow> string option result" where
  "get_raw_event_id_by_client_id s db tid client_event_id =
     bind_result (raw_events_of s db) (\<lambda>rows.
       scalar_one_or_none (map rv_id (filter (\<lambda>r. rv_tenant_id r = tid \<and> rv_client_event_id r = client_event_id) rows)))"

definition load_since ::
  "db_session \<Rightarrow> datastore \<Rightarrow> string \<Rightarrow> instant \<Rightarrow> (canonical_event_row \<times> string) list result" where
  "load_since s db tid since =
     bind_result (sql_select s T_CANONICAL_EVENTS cv_tenant_id (ds_canonical_events db)) (\<lambda>events.
     bind_result (raw_events_of s db) (\<lambda>raws.
       Inr (sort_key (\<lambda>p. cv_occurred_at (fst p))
         (concat (map (\<lambda>e. map (\<lambda>r. (e, rv_client_event_id r)) (filter (\<lambda>r. rv_id r = cv_raw_event_id e) raws))
            (filter (\<lambda>e. cv_tenant_id e = tid \<and> since \<le> cv_occurred_at e) events))))))"

definition insert_raw_event ::
  "db_session \<Rightarrow> datastore \<Rightarrow> string \<Rightarrow> string \<Rightarrow> (string \<times> json) list \<Rightarrow> string \<Rightarrow> instant \<Rightarrow>
   (datastore \<times> string \<times> bool) result" where
  "insert_raw_event s db tid client_event_id payload fresh_id now =
     (let row = \<lparr>rv_id = fresh_id, rv_tenant_id = tid, rv_client_event_id = client_event_id, rv_received_at = now,
                 rv_payload = payload, rv_processed_at = None, rv_process_error = None\<rparr>
      in bind_result (sql_insert_or_ignore s T_RAW_EVENTS rv_tenant_id same_client_event [row] (ds_raw_events db))
        (\<lambda>(rows, new).
          if new \<noteq> [] then Inr (db\<lparr>ds_raw_events := rows\<rparr>, fresh_id, False)
          else bind_result (raw_events_of s db) (\<lambda>seen.
               bind_result (scalar_one (map rv_id
                   (filter (\<lambda>r. rv_tenant_id r = tid \<and> rv_client_event_id r = client_event_id) seen))) (\<lambda>i.
               Inr (db, i, True)))))"

text \<open>\<open>FOR UPDATE\<close> needs the update privilege; the lock ends with the transaction.\<close>

definition claim_unprocessed :: "db_session \<Rightarrow> datastore \<Rightarrow> string \<Rightarrow> int \<Rightarrow> raw_event_row list result" where
  "claim_unprocessed s db tid batch_size =
     (if \<not> may_update (ss_role s) T_RAW_EVENTS [''processed_at''] then Inl permission_denied
      else bind_result (raw_events_of s db) (\<lambda>rows.
        page_of batch_size 0 (sort_key rv_received_at
          (filter (\<lambda>r. rv_tenant_id r = tid \<and> rv_processed_at r = None) rows))))"

definition mark_raw ::
  "db_session \<Rightarrow> datastore \<Rightarrow> string \<Rightarrow> string option \<Rightarrow> instant \<Rightarrow> datastore result" where
  "mark_raw s db raw_event_id error now =
     bind_result (sql_update s T_RAW_EVENTS [''processed_at'', ''process_error''] rv_tenant_id (\<lambda>r. rv_id r = raw_event_id)
        (\<lambda>r. r\<lparr>rv_processed_at := Some now, rv_process_error := error\<rparr>) (ds_raw_events db)) (\<lambda>rows.
     Inr (db\<lparr>ds_raw_events := rows\<rparr>))"

definition mark_processed :: "db_session \<Rightarrow> datastore \<Rightarrow> string \<Rightarrow> instant \<Rightarrow> datastore result" where
  "mark_processed s db raw_event_id now = mark_raw s db raw_event_id None now"

definition mark_unmapped :: "db_session \<Rightarrow> datastore \<Rightarrow> string \<Rightarrow> string \<Rightarrow> instant \<Rightarrow> datastore result" where
  "mark_unmapped s db raw_event_id error now = mark_raw s db raw_event_id (Some error) now"

text \<open>The rows come with everything but their ids.\<close>

definition insert_canonical_events ::
  "db_session \<Rightarrow> datastore \<Rightarrow> canonical_event_row list \<Rightarrow> (nat \<Rightarrow> string) \<Rightarrow> (datastore \<times> string list) result" where
  "insert_canonical_events s db rows fresh =
     (if rows = [] then Inr (db, [])
      else let ids = map fresh [0..<length rows];
               new = map (\<lambda>(i, r). r\<lparr>cv_id := i\<rparr>) (zip ids rows)
        in bind_result (sql_insert s T_CANONICAL_EVENTS cv_tenant_id never new (ds_canonical_events db)) (\<lambda>rows'.
           Inr (db\<lparr>ds_canonical_events := rows'\<rparr>, ids)))"

section \<open>users.py\<close>

definition same_user :: "user_row \<Rightarrow> user_row \<Rightarrow> bool" where
  "same_user a b \<longleftrightarrow> us_tenant_id a = us_tenant_id b \<and> us_user_pseudonym a = us_user_pseudonym b"

text \<open>The text a scalar of the attributes is stored as; a JSON null is \<open>NULL\<close>.\<close>

fun column_text :: "(json \<Rightarrow> string) \<Rightarrow> json \<Rightarrow> string option" where
  "column_text other JNull = None"
| "column_text other (JStr s) = Some s"
| "column_text other v = Some (other v)"

definition attribute_text :: "(json \<Rightarrow> string) \<Rightarrow> (string \<times> json) list \<Rightarrow> string \<Rightarrow> string option" where
  "attribute_text other attributes key =
     (case map_of attributes key of None \<Rightarrow> None | Some v \<Rightarrow> column_text other v)"

definition upsert_attributes ::
  "(json \<Rightarrow> string) \<Rightarrow> db_session \<Rightarrow> datastore \<Rightarrow> string \<Rightarrow> string \<Rightarrow> (string \<times> json) list \<Rightarrow> instant \<Rightarrow> datastore result" where
  "upsert_attributes other s db tid user attributes now =
     (let region = attribute_text other attributes ''region_code'';
          cohort = attribute_text other attributes ''cohort_key'';
          row = \<lparr>us_tenant_id = tid, us_user_pseudonym = user, us_first_seen_at = now, us_last_event_at = now,
                 us_lifecycle_state = ''ACTIVE'', us_region_code = region, us_cohort_key = cohort\<rparr>;
          columns = ''last_event_at'' # (if region \<noteq> None then [''region_code''] else [])
                      @ (if cohort \<noteq> None then [''cohort_key''] else []);
          change = (\<lambda>old. old\<lparr>us_last_event_at := now,
                              us_region_code := (if region \<noteq> None then region else us_region_code old),
                              us_cohort_key := (if cohort \<noteq> None then cohort else us_cohort_key old)\<rparr>)
      in bind_result (sql_upsert s T_USERS columns us_tenant_id same_user change row (ds_users db)) (\<lambda>rows.
         Inr (db\<lparr>ds_users := rows\<rparr>)))"

definition users_of :: "db_session \<Rightarrow> datastore \<Rightarrow> string \<Rightarrow> user_row list result" where
  "users_of s db tid =
     bind_result (sql_select s T_USERS us_tenant_id (ds_users db)) (\<lambda>rows. Inr (filter (\<lambda>u. us_tenant_id u = tid) rows))"

definition attrs_of :: "user_row \<Rightarrow> (string \<times> string) list" where
  "attrs_of u = (case us_region_code u of None \<Rightarrow> [] | Some r \<Rightarrow> [(''region_code'', r)])
     @ (case us_cohort_key u of None \<Rightarrow> [] | Some c \<Rightarrow> [(''cohort_key'', c)])"

definition load_attributes :: "db_session \<Rightarrow> datastore \<Rightarrow> string \<Rightarrow> (string \<times> (string \<times> string) list) list result" where
  "load_attributes s db tid =
     bind_result (users_of s db tid) (\<lambda>rows.
       Inr (foldl (\<lambda>d u. AList.update (us_user_pseudonym u) (attrs_of u) d) [] rows))"

record user_filter =
  uq_max_delta_stability :: "pyfloat option"
  uq_pattern_type :: "string option"
  uq_segment :: "string option"
  uq_min_churn_risk :: "pyfloat option"

definition opt_all :: "'a option \<Rightarrow> ('a \<Rightarrow> bool) \<Rightarrow> bool" where
  "opt_all v P \<longleftrightarrow> (case v of None \<Rightarrow> True | Some x \<Rightarrow> P x)"

definition needs_risk_join :: "user_filter \<Rightarrow> bool" where
  "needs_risk_join q \<longleftrightarrow> uq_max_delta_stability q \<noteq> None \<or> uq_pattern_type q \<noteq> None \<or> uq_min_churn_risk q \<noteq> None"

definition risk_matches :: "user_filter \<Rightarrow> risk_score_row \<Rightarrow> bool" where
  "risk_matches q r \<longleftrightarrow> opt_all (uq_max_delta_stability q) (\<lambda>v. rk_delta_stability r \<le> v)
     \<and> opt_all (uq_pattern_type q) (\<lambda>v. rk_pattern_type r = v) \<and> opt_all (uq_min_churn_risk q) (\<lambda>v. v \<le> rk_churn_risk r)"

definition latest_risk_of :: "db_session \<Rightarrow> datastore \<Rightarrow> string \<Rightarrow> (string \<times> risk_score_row) list result" where
  "latest_risk_of s db tid =
     bind_result (sql_select s T_RISK_SCORES rk_tenant_id (ds_risk_scores db)) (\<lambda>rows.
       Inr (latest_per rk_user_pseudonym rk_computed_at (filter (\<lambda>r. rk_tenant_id r = tid) rows)))"

definition latest_impact_of :: "db_session \<Rightarrow> datastore \<Rightarrow> string \<Rightarrow> (string \<times> impact_score_row) list result" where
  "latest_impact_of s db tid =
     bind_result (sql_select s T_IMPACT_SCORES ip_tenant_id (ds_impact_scores db)) (\<lambda>rows.
       Inr (latest_per ip_user_pseudonym ip_computed_at (filter (\<lambda>r. ip_tenant_id r = tid) rows)))"

definition list_users ::
  "db_session \<Rightarrow> datastore \<Rightarrow> string \<Rightarrow> user_filter \<Rightarrow> int \<Rightarrow> int \<Rightarrow> user_row list result" where
  "list_users s db tid q limit offset =
     bind_result (users_of s db tid) (\<lambda>users.
     bind_result (if needs_risk_join q then latest_risk_of s db tid else Inr []) (\<lambda>risk.
     bind_result (if uq_segment q \<noteq> None then latest_impact_of s db tid else Inr []) (\<lambda>impact.
       page_of limit offset (sort_key us_user_pseudonym
         (filter (\<lambda>u.
            (needs_risk_join q \<longrightarrow> (case map_of risk (us_user_pseudonym u) of None \<Rightarrow> False | Some r \<Rightarrow> risk_matches q r))
            \<and> opt_all (uq_segment q) (\<lambda>v. case map_of impact (us_user_pseudonym u) of
                                           None \<Rightarrow> False | Some r \<Rightarrow> ip_segment r = v)) users)))))"

definition get_user :: "db_session \<Rightarrow> datastore \<Rightarrow> string \<Rightarrow> string \<Rightarrow> user_row option result" where
  "get_user s db tid user =
     bind_result (users_of s db tid) (\<lambda>rows. scalar_one_or_none (filter (\<lambda>u. us_user_pseudonym u = user) rows))"

text \<open>\<open>DISTINCT ON (incentive\_code)\<close> of one user's rows, in the order of the codes.\<close>

definition get_latest_impact_scores :: "db_session \<Rightarrow> datastore \<Rightarrow> string \<Rightarrow> string \<Rightarrow> impact_score_row list result" where
  "get_latest_impact_scores s db tid user =
     bind_result (sql_select s T_IMPACT_SCORES ip_tenant_id (ds_impact_scores db)) (\<lambda>rows.
       Inr (map snd (sort_key fst (latest_per ip_incentive_code ip_computed_at
         (filter (\<lambda>r. ip_tenant_id r = tid \<and> ip_user_pseudonym r = user) rows)))))"

section \<open>measurement.py\<close>

definition create_experiment ::
  "db_session \<Rightarrow> datastore \<Rightarrow> string \<Rightarrow> string \<Rightarrow> int \<Rightarrow> int \<Rightarrow> string \<Rightarrow> instant \<Rightarrow> (datastore \<times> experiment_row) result" where
  "create_experiment s db tid name control_pct naive_pct fresh_id now =
     (let row = \<lparr>ep_id = fresh_id, ep_tenant_id = tid, ep_name = name, ep_control_pct = control_pct,
                 ep_naive_pct = naive_pct, ep_started_at = now, ep_ended_at = None\<rparr>
      in bind_result (sql_insert s T_EXPERIMENTS ep_tenant_id never [row] (ds_experiments db)) (\<lambda>rows.
         Inr (db\<lparr>ds_experiments := rows\<rparr>, row)))"

definition experiments_of :: "db_session \<Rightarrow> datastore \<Rightarrow> string \<Rightarrow> experiment_row list result" where
  "experiments_of s db tid =
     bind_result (sql_select s T_EXPERIMENTS ep_tenant_id (ds_experiments db)) (\<lambda>rows.
       Inr (filter (\<lambda>e. ep_tenant_id e = tid) rows))"

definition get_experiment :: "db_session \<Rightarrow> datastore \<Rightarrow> string \<Rightarrow> string \<Rightarrow> experiment_row option result" where
  "get_experiment s db tid experiment_id =
     bind_result (experiments_of s db tid) (\<lambda>rows. scalar_one_or_none (filter (\<lambda>e. ep_id e = experiment_id) rows))"

definition get_active_experiment :: "db_session \<Rightarrow> datastore \<Rightarrow> string \<Rightarrow> experiment_row option result" where
  "get_active_experiment s db tid =
     bind_result (experiments_of s db tid) (\<lambda>rows.
       scalar_one_or_none (take 1 (sort_key (\<lambda>e. - ep_started_at e) (filter (\<lambda>e. ep_ended_at e = None) rows))))"

definition same_assignment :: "experiment_assignment_row \<Rightarrow> experiment_assignment_row \<Rightarrow> bool" where
  "same_assignment a b \<longleftrightarrow> ea_tenant_id a = ea_tenant_id b \<and> ea_experiment_id a = ea_experiment_id b
     \<and> asg_user_pseudonym a = asg_user_pseudonym b"

definition record_assignment ::
  "db_session \<Rightarrow> datastore \<Rightarrow> string \<Rightarrow> string \<Rightarrow> string \<Rightarrow> string \<Rightarrow> instant \<Rightarrow> datastore result" where
  "record_assignment s db tid experiment_id user arm now =
     (let row = \<lparr>asg_user_pseudonym = user, asg_arm = arm, ea_tenant_id = tid, ea_experiment_id = experiment_id,
                 ea_assigned_at = now\<rparr>
      in bind_result (sql_insert_or_ignore s T_EXPERIMENT_ASSIGNMENTS ea_tenant_id same_assignment [row] (ds_assignments db))
         (\<lambda>(rows, new). Inr (db\<lparr>ds_assignments := rows\<rparr>)))"

definition list_assignments :: "db_session \<Rightarrow> datastore \<Rightarrow> string \<Rightarrow> string \<Rightarrow> experiment_assignment_row list result" where
  "list_assignments s db tid experiment_id =
     bind_result (sql_select s T_EXPERIMENT_ASSIGNMENTS ea_tenant_id (ds_assignments db)) (\<lambda>rows.
       Inr (filter (\<lambda>a. ea_tenant_id a = tid \<and> ea_experiment_id a = experiment_id) rows))"

definition record_outcome ::
  "db_session \<Rightarrow> datastore \<Rightarrow> string \<Rightarrow> string \<Rightarrow> string \<Rightarrow> string \<Rightarrow> int option \<Rightarrow> instant \<Rightarrow> string \<Rightarrow>
   (datastore \<times> outcome_event_row) result" where
  "record_outcome s db tid experiment_id user outcome_type value_idr observed_at fresh_id =
     (let row = \<lparr>or_user_pseudonym = user, or_outcome_type = outcome_type, or_value_idr = value_idr, ov_id = fresh_id,
                 ov_tenant_id = tid, ov_experiment_id = experiment_id, ov_observed_at = observed_at\<rparr>
      in bind_result (sql_insert s T_OUTCOME_EVENTS ov_tenant_id never [row] (ds_outcomes db)) (\<lambda>rows.
         Inr (db\<lparr>ds_outcomes := rows\<rparr>, row)))"

definition experiment_outcomes :: "db_session \<Rightarrow> datastore \<Rightarrow> string \<Rightarrow> string \<Rightarrow> outcome_event_row list result" where
  "experiment_outcomes s db tid experiment_id =
     bind_result (sql_select s T_OUTCOME_EVENTS ov_tenant_id (ds_outcomes db)) (\<lambda>rows.
       Inr (filter (\<lambda>r. ov_tenant_id r = tid \<and> ov_experiment_id r = experiment_id) rows))"

section \<open>scores.py\<close>

text \<open>The rows come with everything but their ids and the time of the insert.\<close>

definition numbered :: "(nat \<Rightarrow> string) \<Rightarrow> (string \<Rightarrow> 'r \<Rightarrow> 'r) \<Rightarrow> 'r list \<Rightarrow> 'r list" where
  "numbered fresh put rows = map (\<lambda>(n, r). put (fresh n) r) (zip [0..<length rows] rows)"

definition write_risk_scores ::
  "db_session \<Rightarrow> datastore \<Rightarrow> string \<Rightarrow> risk_score_row list \<Rightarrow> (nat \<Rightarrow> string) \<Rightarrow> instant \<Rightarrow>
   (datastore \<times> risk_score_row list) result" where
  "write_risk_scores s db tid rows fresh now =
     (let written = numbered fresh (\<lambda>i r. r\<lparr>rk_id := i, rk_tenant_id := tid, rk_computed_at := now\<rparr>) rows
      in bind_result (sql_insert s T_RISK_SCORES rk_tenant_id never written (ds_risk_scores db)) (\<lambda>rows'.
         Inr (db\<lparr>ds_risk_scores := rows'\<rparr>, written)))"

definition write_impact_scores ::
  "db_session \<Rightarrow> datastore \<Rightarrow> string \<Rightarrow> impact_score_row list \<Rightarrow> (nat \<Rightarrow> string) \<Rightarrow> instant \<Rightarrow>
   (datastore \<times> impact_score_row list) result" where
  "write_impact_scores s db tid rows fresh now =
     (let written = numbered fresh (\<lambda>i r. r\<lparr>ip_id := i, ip_tenant_id := tid, ip_computed_at := now\<rparr>) rows
      in bind_result (sql_insert s T_IMPACT_SCORES ip_tenant_id never written (ds_impact_scores db)) (\<lambda>rows'.
         Inr (db\<lparr>ds_impact_scores := rows'\<rparr>, written)))"

definition write_circle_snapshots ::
  "db_session \<Rightarrow> datastore \<Rightarrow> string \<Rightarrow> circle_row list \<Rightarrow> (nat \<Rightarrow> string) \<Rightarrow> instant \<Rightarrow>
   (datastore \<times> circle_row list) result" where
  "write_circle_snapshots s db tid rows fresh now =
     (let written = numbered fresh (\<lambda>i r. r\<lparr>tc_id := i, tc_tenant_id := tid, tc_computed_at := now\<rparr>) rows
      in bind_result (sql_insert s T_TRANSACTION_CIRCLES tc_tenant_id never written (ds_circles db)) (\<lambda>rows'.
         Inr (db\<lparr>ds_circles := rows'\<rparr>, written)))"

definition write_circle_members ::
  "db_session \<Rightarrow> datastore \<Rightarrow> string \<Rightarrow> string \<Rightarrow> string list \<Rightarrow> datastore result" where
  "write_circle_members s db tid circle_id users =
     (let rows = map (\<lambda>u. \<lparr>cm_circle_id = circle_id, cm_tenant_id = tid, cm_user_pseudonym = u\<rparr>) users
      in if rows = [] then Inr db
      else bind_result (sql_insert s T_CIRCLE_MEMBERS cm_tenant_id (=) rows (ds_circle_members db)) (\<lambda>rows'.
         Inr (db\<lparr>ds_circle_members := rows'\<rparr>)))"

definition get_latest_risk_score :: "db_session \<Rightarrow> datastore \<Rightarrow> string \<Rightarrow> string \<Rightarrow> risk_score_row option result" where
  "get_latest_risk_score s db tid user =
     bind_result (sql_select s T_RISK_SCORES rk_tenant_id (ds_risk_scores db)) (\<lambda>rows.
       scalar_one_or_none (take 1 (sort_key (\<lambda>r. - rk_computed_at r)
         (filter (\<lambda>r. rk_tenant_id r = tid \<and> rk_user_pseudonym r = user) rows))))"

definition load_labeled_rows :: "db_session \<Rightarrow> datastore \<Rightarrow> string \<Rightarrow> labeled_example_row list result" where
  "load_labeled_rows s db tid =
     bind_result (sql_select s T_LABELED_EXAMPLES lx_tenant_id (ds_labeled_examples db)) (\<lambda>rows.
       Inr (sort_key (\<lambda>r. - lx_created_at r) (filter (\<lambda>r. lx_tenant_id r = tid) rows)))"

section \<open>allocations.py\<close>

definition create_allocation_run ::
  "db_session \<Rightarrow> datastore \<Rightarrow> allocation_run_row \<Rightarrow> (datastore \<times> allocation_run_row) result" where
  "create_allocation_run s db row =
     (if al_strategy row \<notin> {''EXACT_DP'', ''GREEDY_DENSITY''} \<or> al_ranking_strategy row \<notin> {''TABPFN'', ''FALLBACK''}
      then Inl (RuntimeError ''check constraint violated'')
      else bind_result (sql_insert s T_ALLOCATION_RUNS al_tenant_id never [row] (ds_allocation_runs db)) (\<lambda>rows.
         Inr (db\<lparr>ds_allocation_runs := rows\<rparr>, row)))"

definition add_candidates ::
  "db_session \<Rightarrow> datastore \<Rightarrow> string \<Rightarrow> string \<Rightarrow> allocation_candidate_row list \<Rightarrow> (nat \<Rightarrow> string) \<Rightarrow>
   (datastore \<times> allocation_candidate_row list) result" where
  "add_candidates s db tid allocation_run_id candidates fresh =
     (let rows = numbered fresh (\<lambda>i c. c\<lparr>ac_id := i, ac_tenant_id := tid, ac_allocation_run_id := allocation_run_id\<rparr>) candidates
      in bind_result (sql_insert s T_ALLOCATION_CANDIDATES ac_tenant_id never rows (ds_allocation_candidates db)) (\<lambda>rows'.
         Inr (db\<lparr>ds_allocation_candidates := rows'\<rparr>, rows)))"

definition get_allocation_run :: "db_session \<Rightarrow> datastore \<Rightarrow> string \<Rightarrow> string \<Rightarrow> allocation_run_row option result" where
  "get_allocation_run s db tid allocation_run_id =
     bind_result (sql_select s T_ALLOCATION_RUNS al_tenant_id (ds_allocation_runs db)) (\<lambda>rows.
       scalar_one_or_none (filter (\<lambda>r. al_tenant_id r = tid \<and> al_id r = allocation_run_id) rows))"

text \<open>\<open>ORDER BY user\_rank\<close> puts NULL last.\<close>

definition list_candidates ::
  "db_session \<Rightarrow> datastore \<Rightarrow> string \<Rightarrow> string \<Rightarrow> allocation_candidate_row list result" where
  "list_candidates s db tid allocation_run_id =
     bind_result (sql_select s T_ALLOCATION_CANDIDATES ac_tenant_id (ds_allocation_candidates db)) (\<lambda>rows.
       Inr (sort_key (\<lambda>c. case ac_user_rank c of None \<Rightarrow> (True, 0) | Some n \<Rightarrow> (False, n))
         (filter (\<lambda>c. ac_tenant_id c = tid \<and> ac_allocation_run_id c = allocation_run_id) rows)))"

section \<open>feedback.py\<close>

text \<open>A NULL \<open>source\_outcome\_id\<close> is no duplicate of another.\<close>

definition same_outcome :: "labeled_example_row \<Rightarrow> labeled_example_row \<Rightarrow> bool" where
  "same_outcome a b \<longleftrightarrow> lx_tenant_id a = lx_tenant_id b \<and> lx_source_outcome_id a \<noteq> None
     \<and> lx_source_outcome_id a = lx_source_outcome_id b"

definition insert_labeled_examples ::
  "db_session \<Rightarrow> datastore \<Rightarrow> string \<Rightarrow> labeled_example_row list \<Rightarrow> (nat \<Rightarrow> string) \<Rightarrow> instant \<Rightarrow> (datastore \<times> nat) result" where
  "insert_labeled_examples s db tid rows fresh now =
     (if rows = [] then Inr (db, 0)
      else let new = numbered fresh (\<lambda>i r. r\<lparr>lx_id := i, lx_tenant_id := tid, lx_created_at := now\<rparr>) rows
        in bind_result (sql_insert_or_ignore s T_LABELED_EXAMPLES lx_tenant_id same_outcome new (ds_labeled_examples db))
           (\<lambda>(rows', inserted). Inr (db\<lparr>ds_labeled_examples := rows'\<rparr>, length inserted)))"

record feedback_counts =
  fc_total :: nat
  fc_new :: nat
  fc_by_arm :: "(string \<times> nat) list"

definition feedback_counts ::
  "db_session \<Rightarrow> datastore \<Rightarrow> string \<Rightarrow> int \<Rightarrow> instant \<Rightarrow> feedback_counts result" where
  "feedback_counts s db tid since_hours now =
     bind_result (sql_select s T_LABELED_EXAMPLES lx_tenant_id (ds_labeled_examples db)) (\<lambda>rows.
       let mine = filter (\<lambda>r. lx_tenant_id r = tid) rows;
           cutoff = now - since_hours * 3600000000
       in Inr \<lparr>fc_total = length mine, fc_new = length (filter (\<lambda>r. cutoff \<le> lx_created_at r) mine),
               fc_by_arm = map (\<lambda>(a, rs). (a, length rs)) (group_by lx_arm mine)\<rparr>)"

section \<open>feature\_snapshots.py\<close>

definition same_snapshot :: "feature_snapshot_row \<Rightarrow> feature_snapshot_row \<Rightarrow> bool" where
  "same_snapshot a b \<longleftrightarrow> fp_tenant_id a = fp_tenant_id b \<and> fp_run_id a = fp_run_id b
     \<and> fp_user_pseudonym a = fp_user_pseudonym b"

definition save_many ::
  "db_session \<Rightarrow> datastore \<Rightarrow> string \<Rightarrow> feature_snapshot_row list \<Rightarrow> (nat \<Rightarrow> string) \<Rightarrow> instant \<Rightarrow> datastore result" where
  "save_many s db tid rows fresh now =
     (if rows = [] then Inr db
      else bind_result (sql_insert s T_FEATURE_SNAPSHOTS fp_tenant_id same_snapshot
             (numbered fresh (\<lambda>i r. r\<lparr>fp_id := i, fp_tenant_id := tid, fp_created_at := now\<rparr>) rows)
             (ds_feature_snapshots db)) (\<lambda>rows'. Inr (db\<lparr>ds_feature_snapshots := rows'\<rparr>)))"

definition load_all :: "db_session \<Rightarrow> datastore \<Rightarrow> string \<Rightarrow> feature_snapshot_row list result" where
  "load_all s db tid =
     bind_result (sql_select s T_FEATURE_SNAPSHOTS fp_tenant_id (ds_feature_snapshots db)) (\<lambda>rows.
       Inr (filter (\<lambda>r. fp_tenant_id r = tid) rows))"

section \<open>external\_signals.py\<close>

definition list_signals ::
  "db_session \<Rightarrow> datastore \<Rightarrow> string \<Rightarrow> string option \<Rightarrow> string option \<Rightarrow> string option \<Rightarrow> int \<Rightarrow> int \<Rightarrow>
   signal_row list result" where
  "list_signals s db tid scope_type scope_key signal_type limit offset =
     bind_result (sql_select s T_EXTERNAL_SIGNALS sg_tenant_id (ds_external_signals db)) (\<lambda>rows.
       page_of limit offset (sort_key (\<lambda>r. - sg_observed_at r)
         (filter (\<lambda>r. sg_tenant_id r = tid \<and> opt_all scope_type (\<lambda>v. sg_scope_type r = v)
            \<and> opt_all scope_key (\<lambda>v. sg_scope_key r = v) \<and> opt_all signal_type (\<lambda>v. sg_signal_type r = v)) rows)))"

definition insert_signals ::
  "db_session \<Rightarrow> datastore \<Rightarrow> string \<Rightarrow> signal_row list \<Rightarrow> (nat \<Rightarrow> string) \<Rightarrow> instant \<Rightarrow>
   (datastore \<times> signal_row list) result" where
  "insert_signals s db tid rows fresh now =
     (let written = numbered fresh (\<lambda>i r. r\<lparr>sg_id := i, sg_tenant_id := tid, sg_ingested_at := now\<rparr>) rows
      in if list_ex (\<lambda>r. sg_scope_type r \<notin> {''CLIENT'', ''REGION'', ''COHORT''}) written
         then Inl (RuntimeError ''check constraint violated'')
         else bind_result (sql_insert s T_EXTERNAL_SIGNALS sg_tenant_id never written (ds_external_signals db)) (\<lambda>rows'.
           Inr (db\<lparr>ds_external_signals := rows'\<rparr>, written)))"

section \<open>contacts.py, incentives.py, policy.py, narrations.py\<close>

definition load_contact_rows :: "db_session \<Rightarrow> datastore \<Rightarrow> string \<Rightarrow> (string \<times> instant list) list result" where
  "load_contact_rows s db tid =
     bind_result (sql_select s T_CONTACT_LOG ct_tenant_id (ds_contact_log db)) (\<lambda>rows.
       Inr (map (\<lambda>(u, cs). (u, map ct_contacted_at cs))
         (group_by ct_user_pseudonym (filter (\<lambda>c. ct_tenant_id c = tid) rows))))"

definition list_incentives :: "db_session \<Rightarrow> datastore \<Rightarrow> string \<Rightarrow> bool \<Rightarrow> incentive_row list result" where
  "list_incentives s db tid active_only =
     bind_result (sql_select s T_INCENTIVES iv_tenant_id (ds_incentives db)) (\<lambda>rows.
       Inr (sort_key iv_code (filter (\<lambda>r. iv_tenant_id r = tid \<and> (active_only \<longrightarrow> iv_active r)) rows)))"

definition write_decisions ::
  "db_session \<Rightarrow> datastore \<Rightarrow> string \<Rightarrow> policy_decision_row list \<Rightarrow> (nat \<Rightarrow> string) \<Rightarrow> instant \<Rightarrow>
   (datastore \<times> policy_decision_row list) result" where
  "write_decisions s db tid rows fresh now =
     (let written = numbered fresh (\<lambda>i r. r\<lparr>pl_id := i, pl_tenant_id := tid, pl_created_at := now\<rparr>) rows
      in bind_result (sql_insert s T_POLICY_DECISIONS pl_tenant_id never written (ds_policy_decisions db)) (\<lambda>rows'.
         Inr (db\<lparr>ds_policy_decisions := rows'\<rparr>, written)))"

definition list_for_candidate :: "db_session \<Rightarrow> datastore \<Rightarrow> string \<Rightarrow> string \<Rightarrow> policy_decision_row list result" where
  "list_for_candidate s db tid candidate_ref =
     bind_result (sql_select s T_POLICY_DECISIONS pl_tenant_id (ds_policy_decisions db)) (\<lambda>rows.
       Inr (filter (\<lambda>r. pl_tenant_id r = tid \<and> pl_candidate_ref r = candidate_ref) rows))"

definition same_sheet :: "narration_db_row \<Rightarrow> narration_db_row \<Rightarrow> bool" where
  "same_sheet a b \<longleftrightarrow> nb_fact_sheet_hash a = nb_fact_sheet_hash b \<and> nb_tenant_id a = nb_tenant_id b"

definition save_narration_row ::
  "db_session \<Rightarrow> datastore \<Rightarrow> string \<Rightarrow> string \<Rightarrow> string \<Rightarrow> string \<Rightarrow> instant \<Rightarrow> datastore result" where
  "save_narration_row s db tid fact_sheet_hash t source now =
     bind_result (sql_insert_or_ignore s T_NARRATIONS nb_tenant_id same_sheet
        [\<lparr>nb_fact_sheet_hash = fact_sheet_hash, nb_tenant_id = tid, nb_text = t, nb_model = source, nb_created_at = now\<rparr>]
        (ds_narrations db)) (\<lambda>(rows, new). Inr (db\<lparr>ds_narrations := rows\<rparr>))"

section \<open>mappings.py\<close>

definition list_mappings :: "db_session \<Rightarrow> datastore \<Rightarrow> string \<Rightarrow> bool \<Rightarrow> mapping_row list result" where
  "list_mappings s db tid active_only =
     bind_result (sql_select s T_EVENT_TYPE_MAPPINGS mp_tenant_id (ds_mappings db)) (\<lambda>rows.
       Inr (sort_key mp_client_event_type (filter (\<lambda>m. mp_tenant_id m = tid \<and> (active_only \<longrightarrow> mp_active m)) rows)))"

definition same_mapping :: "mapping_row \<Rightarrow> mapping_row \<Rightarrow> bool" where
  "same_mapping a b \<longleftrightarrow> mp_tenant_id a = mp_tenant_id b \<and> mp_client_event_type a = mp_client_event_type b"

definition upsert_mapping ::
  "db_session \<Rightarrow> datastore \<Rightarrow> string \<Rightarrow> string \<Rightarrow> string \<Rightarrow> string \<Rightarrow> string option \<Rightarrow> string \<Rightarrow> string \<Rightarrow>
   (datastore \<times> mapping_row) result" where
  "upsert_mapping s db tid client_event_type canonical amount_path counterparty_path occurred_path fresh_id =
     bind_result (sql_select s T_EVENT_TYPE_MAPPINGS mp_tenant_id (ds_mappings db)) (\<lambda>rows.
     bind_result (scalar_one_or_none (filter (\<lambda>m. mp_tenant_id m = tid \<and> mp_client_event_type m = client_event_type) rows))
       (\<lambda>existing. case existing of
          Some m \<Rightarrow>
            let m' = m\<lparr>mp_canonical_event_type := canonical, mp_amount_field_path := amount_path,
                       mp_counterparty_field_path := counterparty_path, mp_occurred_at_field_path := occurred_path,
                       mp_active := True\<rparr>
            in bind_result (sql_update s T_EVENT_TYPE_MAPPINGS
                   [''canonical_event_type'', ''amount_field_path'', ''counterparty_field_path'', ''occurred_at_field_path'', ''active'']
                   mp_tenant_id (\<lambda>r. mp_id r = mp_id m) (\<lambda>r. m') (ds_mappings db)) (\<lambda>rows'.
               Inr (db\<lparr>ds_mappings := rows'\<rparr>, m'))
        | None \<Rightarrow>
            let m = \<lparr>mp_id = fresh_id, mp_tenant_id = tid, mp_client_event_type = client_event_type,
                     mp_canonical_event_type = canonical, mp_amount_field_path = amount_path,
                     mp_counterparty_field_path = counterparty_path, mp_occurred_at_field_path = occurred_path,
                     mp_active = True\<rparr>
            in bind_result (sql_insert s T_EVENT_TYPE_MAPPINGS mp_tenant_id same_mapping [m] (ds_mappings db)) (\<lambda>rows'.
               Inr (db\<lparr>ds_mappings := rows'\<rparr>, m))))"

end
