(* ===== verification/Segments.thy ===== *)
theory Segments
  imports Repositories
begin

text \<open>
  \<open>persistence/repositories/segments.py\<close>: the spend, frequency and risk bands of the console's dashboard.  The query
  joins each user with the latest risk score and with the volume of the window, both possibly absent; the bands are
  computed from the sorted columns.  The lemmas: the spending tiers are monotone in the volume and the biggest spender
  is always in the top tier; and when nobody has spent anything, everybody is.
\<close>

definition MONETARY_TIERS :: "string list" where
  "MONETARY_TIERS = [''lowest-spenders'', ''low-spenders'', ''moderate-spenders'', ''big-spenders'', ''high-rollers'']"

record volume =
  vo_user :: string
  vo_churn_risk :: "pyfloat option"
  vo_monetary :: int
  vo_frequency :: int

definition user_volumes ::
  "db_session \<Rightarrow> datastore \<Rightarrow> string \<Rightarrow> instant \<Rightarrow> volume list result" where
  "user_volumes s db tid since =
     bind_result (latest_risk_of s db tid) (\<lambda>risk.
     bind_result (sql_select s T_CANONICAL_EVENTS cv_tenant_id (ds_canonical_events db)) (\<lambda>events.
     bind_result (users_of s db tid) (\<lambda>users.
       Inr (map (\<lambda>u.
         let mine = filter (\<lambda>e. cv_tenant_id e = tid \<and> since \<le> cv_occurred_at e
                                \<and> cv_user_pseudonym e = us_user_pseudonym u) events
         in \<lparr>vo_user = us_user_pseudonym u,
             vo_churn_risk = map_option rk_churn_risk (map_of risk (us_user_pseudonym u)),
             vo_monetary = sum_list (map cv_amount_idr mine), vo_frequency = int (length mine)\<rparr>) users))))"

definition tercile :: "pyfloat \<Rightarrow> pyfloat list \<Rightarrow> string" where
  "tercile v ordered =
     (if ordered = [] then ''low''
      else let n = length ordered;
               lo = (if 3 \<le> n then ordered ! (n div 3) else ordered ! 0);
               hi = (if 3 \<le> n then ordered ! ((2 * n) div 3) else ordered ! (n - 1))
        in if v \<le> lo then ''low'' else if v \<le> hi then ''medium'' else ''high'')"

definition tier_index :: "int \<Rightarrow> int list \<Rightarrow> nat" where
  "tier_index v ordered =
     (let rank = int_truediv (int (length (filter (\<lambda>w. w \<le> v) ordered))) (int (length ordered))
      in nat (min (py_int (fmul rank 5)) 4))"

definition quintile_tier :: "int \<Rightarrow> int list \<Rightarrow> string" where
  "quintile_tier v ordered = (if ordered = [] then MONETARY_TIERS ! 0 else MONETARY_TIERS ! tier_index v ordered)"

text \<open>\<open>frequency\_sorted[int(len(frequency\_sorted) * 2 / 3)]\<close>\<close>

definition frequency_cutoff :: "int list \<Rightarrow> int option" where
  "frequency_cutoff ordered =
     (if 3 \<le> length ordered
      then Some (ordered ! nat (py_int (int_truediv (int (length ordered) * 2) 3)))
      else None)"

record user_segment =
  ug_user_pseudonym :: string
  ug_churn_risk :: "pyfloat option"
  ug_risk_band :: string
  ug_segment_ids :: "string list"

definition segments_of :: "volume list \<Rightarrow> user_segment list" where
  "segments_of rows =
     (let risks = sort (List.map_filter vo_churn_risk rows);
          monetary_sorted = sort (map vo_monetary rows);
          cutoff = frequency_cutoff (sort (map vo_frequency rows))
      in map (\<lambda>r. \<lparr>ug_user_pseudonym = vo_user r, ug_churn_risk = vo_churn_risk r,
                    ug_risk_band = (case vo_churn_risk r of None \<Rightarrow> ''low'' | Some c \<Rightarrow> tercile c risks),
                    ug_segment_ids = quintile_tier (vo_monetary r) monetary_sorted
                      # (case cutoff of
                           None \<Rightarrow> []
                         | Some c \<Rightarrow> if c \<le> vo_frequency r \<and> 0 < vo_frequency r then [''frequent-buyers''] else [])\<rparr>) rows)"

definition get_user_segments ::
  "db_session \<Rightarrow> datastore \<Rightarrow> string \<Rightarrow> int \<Rightarrow> instant \<Rightarrow> user_segment list result" where
  "get_user_segments s db tid window_days now =
     bind_result (user_volumes s db tid (now - timedelta_days window_days)) (\<lambda>rows.
       if rows = [] then Inr [] else Inr (segments_of rows))"

section \<open>Tiers\<close>

lemma filter_le_mono: "v \<le> w \<Longrightarrow> length (filter (\<lambda>x. x \<le> v) xs) \<le> length (filter (\<lambda>x. x \<le> w) xs)" for v w :: int
  by (induction xs) auto

lemma py_int_mono:
  assumes "x \<le> y"
  shows "py_int x \<le> py_int y"
proof (cases "x < 0 \<and> 0 \<le> y")
  case True
  then have "0 \<le> \<lfloor>- x\<rfloor>" "0 \<le> \<lfloor>y\<rfloor>" by simp_all
  then have "- \<lfloor>- x\<rfloor> \<le> \<lfloor>y\<rfloor>" by linarith
  with True show ?thesis by (simp add: py_int_def)
next
  case False
  with assms show ?thesis by (auto simp: py_int_def intro: floor_mono)
qed

lemma tier_index_mono:
  assumes "v \<le> w"
  shows "tier_index v xs \<le> tier_index w xs"
proof -
  have "int_truediv (int (length (filter (\<lambda>x. x \<le> v) xs))) (int (length xs))
      \<le> int_truediv (int (length (filter (\<lambda>x. x \<le> w) xs))) (int (length xs))"
    unfolding int_truediv_def using filter_le_mono [OF assms, of xs] by (intro fl_mono) (simp add: divide_right_mono)
  then have "fmul (int_truediv (int (length (filter (\<lambda>x. x \<le> v) xs))) (int (length xs))) 5
      \<le> fmul (int_truediv (int (length (filter (\<lambda>x. x \<le> w) xs))) (int (length xs))) 5"
    unfolding fmul_def by (intro fl_mono) simp
  then show ?thesis unfolding tier_index_def Let_def using py_int_mono by (intro nat_mono min.mono) auto
qed

lemma tier_index_top: "xs \<noteq> [] \<Longrightarrow> \<forall>x \<in> set xs. x \<le> v \<Longrightarrow> tier_index v xs = 4"
  by (simp add: tier_index_def int_truediv_def fmul_def filter_id_conv fl_of_int [of 5, simplified] py_int_def)

lemma tier_index_range: "tier_index v xs < 5"
  by (simp add: tier_index_def Let_def)

text \<open>
  The dashboard's spending tiers: every user is listed once and in the order of the directory; whoever spends at least as
  much is in at least as high a tier, in spite of the rounded percentile; and the biggest spender is a high roller, even
  when nobody has spent anything, so that a tenant without transactions shows high rollers only.
\<close>

theorem segments_ranked:
  assumes "i < length rows"
  shows "map ug_user_pseudonym (segments_of rows) = map vo_user rows
    \<and> (\<exists>tier. mono tier \<and> hd (ug_segment_ids (segments_of rows ! i)) = MONETARY_TIERS ! tier (vo_monetary (rows ! i))
         \<and> tier (vo_monetary (rows ! i)) < 5
         \<and> ((\<forall>r \<in> set rows. vo_monetary r \<le> vo_monetary (rows ! i))
            \<longrightarrow> hd (ug_segment_ids (segments_of rows ! i)) = ''high-rollers''))"
proof -
  let ?xs = "sort (map vo_monetary rows)"
  have ne: "?xs \<noteq> []" using assms by auto
  have tiers: "length (segments_of rows) = length rows"
    "hd (ug_segment_ids (segments_of rows ! i)) = MONETARY_TIERS ! tier_index (vo_monetary (rows ! i)) ?xs"
    using assms ne by (simp_all add: segments_of_def Let_def quintile_tier_def)
  have "mono (\<lambda>v. tier_index v ?xs)" by (intro monoI tier_index_mono)
  moreover have "(\<forall>r \<in> set rows. vo_monetary r \<le> vo_monetary (rows ! i)) \<longrightarrow> tier_index (vo_monetary (rows ! i)) ?xs = 4"
    using tier_index_top [OF ne] by auto
  moreover have "map ug_user_pseudonym (segments_of rows) = map vo_user rows" by (simp add: segments_of_def Let_def comp_def)
  ultimately show ?thesis
    using tiers tier_index_range by (auto simp: MONETARY_TIERS_def intro!: exI [of _ "\<lambda>v. tier_index v ?xs"])
qed

theorem segments_ranked_witness:
  "hd (ug_segment_ids (segments_of [\<lparr>vo_user = ''u'', vo_churn_risk = None, vo_monetary = 0, vo_frequency = 0\<rparr>] ! 0))
     = ''high-rollers''"
  using segments_ranked [of 0 "[\<lparr>vo_user = ''u'', vo_churn_risk = None, vo_monetary = 0, vo_frequency = 0\<rparr>]"] by auto

end
