(* ===== verification/Intake.thy ===== *)
theory Intake
  imports Repositories
begin

text \<open>
  The writing half of the client surface, \<open>api/routers/ingest.py\<close>: one event, a batch of events and an outcome, each
  behind the tenant's rate limit, in a transaction of the worker role.  The bearer key has been resolved (\<open>Access\<close>).
  \<open>datetime.fromisoformat\<close> and the wording of pydantic's messages are parameters; a body reaches a handler as the
  model's fields or, inside a batch, as a JSON object.
\<close>

section \<open>The models\<close>

record raw_event_in =
  rn_client_event_id :: string
  rn_event_type :: string
  rn_occurred_at :: string
  rn_user_ref :: string
  rn_user_attributes :: "(string \<times> string) list option"
  rn_payload :: "(string \<times> json) list"

text \<open>The location and the kind of the first of pydantic's errors.\<close>

type_synonym 'a validated = "(string \<times> string) + 'a"

definition bind_valid :: "'a validated \<Rightarrow> ('a \<Rightarrow> 'b validated) \<Rightarrow> 'b validated" where
  "bind_valid m f = (case m of Inl e \<Rightarrow> Inl e | Inr x \<Rightarrow> f x)"

lemma bind_valid_simps [simp]: "bind_valid (Inl e) f = Inl e" "bind_valid (Inr x) f = f x"
  by (simp_all add: bind_valid_def)

definition string_field :: "(string \<times> json) list \<Rightarrow> string \<Rightarrow> string validated" where
  "string_field raw k = (case map_of raw k of
      None \<Rightarrow> Inl (k, ''missing'')
    | Some (JStr s) \<Rightarrow> Inr s
    | Some _ \<Rightarrow> Inl (k, ''string_type''))"

definition rfc3339_or_raise :: "(string \<Rightarrow> py_datetime option) \<Rightarrow> string \<Rightarrow> string \<Rightarrow> py_datetime result" where
  "rfc3339_or_raise fromisoformat v field =
     (case fromisoformat v of
        None \<Rightarrow> Inl (ValueError (field @ '' is not a valid RFC 3339 timestamp''))
      | Some t \<Rightarrow> Inr t)"

fun string_values :: "string \<Rightarrow> (string \<times> json) list \<Rightarrow> (string \<times> string) list validated" where
  "string_values field [] = Inr []"
| "string_values field ((k, v) # d) = (case v of
      JStr s \<Rightarrow> bind_valid (string_values field d) (\<lambda>r. Inr ((k, s) # r))
    | _ \<Rightarrow> Inl (field @ ''.'' @ k, ''string_type''))"

definition attributes_field :: "(string \<times> json) list \<Rightarrow> (string \<times> string) list option validated" where
  "attributes_field raw = (case map_of raw ''user_attributes'' of
      None \<Rightarrow> Inr None
    | Some JNull \<Rightarrow> Inr None
    | Some (JDict d) \<Rightarrow> bind_valid (string_values ''user_attributes'' d) (\<lambda>d'. Inr (Some d'))
    | Some _ \<Rightarrow> Inl (''user_attributes'', ''dict_type''))"

definition payload_field :: "(string \<times> json) list \<Rightarrow> (string \<times> json) list validated" where
  "payload_field raw = (case map_of raw ''payload'' of
      None \<Rightarrow> Inr []
    | Some (JDict d) \<Rightarrow> Inr d
    | Some _ \<Rightarrow> Inl (''payload'', ''dict_type''))"

definition validate_event :: "(string \<Rightarrow> py_datetime option) \<Rightarrow> (string \<times> json) list \<Rightarrow> raw_event_in validated" where
  "validate_event fromisoformat raw =
     bind_valid (string_field raw ''client_event_id'') (\<lambda>cid.
     bind_valid (string_field raw ''event_type'') (\<lambda>ty.
     bind_valid (string_field raw ''occurred_at'') (\<lambda>occurred.
     bind_valid (case rfc3339_or_raise fromisoformat occurred ''occurred_at'' of
                   Inl _ \<Rightarrow> Inl (''occurred_at'', ''value_error'') | Inr _ \<Rightarrow> Inr ()) (\<lambda>_.
     bind_valid (string_field raw ''user_ref'') (\<lambda>ref.
     bind_valid (attributes_field raw) (\<lambda>attrs.
     bind_valid (payload_field raw) (\<lambda>payload.
       Inr \<lparr>rn_client_event_id = cid, rn_event_type = ty, rn_occurred_at = occurred, rn_user_ref = ref,
            rn_user_attributes = attrs, rn_payload = payload\<rparr>)))))))"

text \<open>\<open>model\_dump(mode="json")\<close>\<close>

definition dump_event :: "raw_event_in \<Rightarrow> (string \<times> json) list" where
  "dump_event e =
     [(''client_event_id'', JStr (rn_client_event_id e)), (''event_type'', JStr (rn_event_type e)),
      (''occurred_at'', JStr (rn_occurred_at e)), (''user_ref'', JStr (rn_user_ref e)),
      (''user_attributes'', (case rn_user_attributes e of None \<Rightarrow> JNull | Some d \<Rightarrow> JDict (map (\<lambda>(k, s). (k, JStr s)) d))),
      (''payload'', JDict (rn_payload e))]"

section \<open>Events\<close>

definition lifted :: "'a result \<Rightarrow> 'a handled" where
  "lifted r = (case r of Inl e \<Rightarrow> Inl (Raised e) | Inr x \<Rightarrow> Inr x)"

record event_accepted =
  va_raw_event_id :: string
  va_duplicate :: bool

definition post_event ::
  "api_settings \<Rightarrow> pyfloat \<Rightarrow> raw_event_in \<Rightarrow> string \<Rightarrow> string \<Rightarrow> instant \<Rightarrow> limiters \<times> datastore \<Rightarrow>
   event_accepted handled \<times> limiters \<times> datastore" where
  "post_event st clock body tid fresh_id now = (\<lambda>(ls, db).
     case check_ingest st clock tid ls of
       (Inl e, ls') \<Rightarrow> (Inl e, ls', db)
     | (Inr _, ls') \<Rightarrow>
         let (out, db') = tenant_session (db_for_ingest tid) (\<lambda>s db.
               lifted (bind_result (insert_raw_event s db tid (rn_client_event_id body) (dump_event body) fresh_id now)
                 (\<lambda>(db', i, dup). Inr (db', \<lparr>va_raw_event_id = i, va_duplicate = dup\<rparr>)))) db
         in (out, ls', db'))"

record rejected_event =
  rj_index :: nat
  rj_client_event_id :: "string option"
  rj_code :: string
  rj_message :: string

record batch_accepted =
  ba_accepted_count :: nat
  ba_duplicate_count :: nat
  ba_rejected :: "rejected_event list"

definition first_error :: "(string \<Rightarrow> string) \<Rightarrow> string \<times> string \<Rightarrow> string" where
  "first_error wording e = (if fst e = [] then ''body'' else fst e) @ '': '' @ wording (snd e)"

text \<open>\<open>RejectedEvent\<close> is a model too: a client id that is no string does not validate.\<close>

definition make_rejected :: "nat \<Rightarrow> json option \<Rightarrow> string \<Rightarrow> string \<Rightarrow> rejected_event handled" where
  "make_rejected i client_event_id code message = (case client_event_id of
      None \<Rightarrow> Inr \<lparr>rj_index = i, rj_client_event_id = None, rj_code = code, rj_message = message\<rparr>
    | Some JNull \<Rightarrow> Inr \<lparr>rj_index = i, rj_client_event_id = None, rj_code = code, rj_message = message\<rparr>
    | Some (JStr c) \<Rightarrow> Inr \<lparr>rj_index = i, rj_client_event_id = Some c, rj_code = code, rj_message = message\<rparr>
    | Some _ \<Rightarrow> Inl (Raised (ValidationError ''client_event_id: string_type'')))"

text \<open>A savepoint per row: an insert that raises leaves the transaction as it was before it.\<close>

fun batch_loop ::
  "(string \<Rightarrow> py_datetime option) \<Rightarrow> (string \<Rightarrow> string) \<Rightarrow> db_session \<Rightarrow> string \<Rightarrow> (nat \<Rightarrow> string) \<Rightarrow> instant \<Rightarrow> nat \<Rightarrow>
   (string \<times> json) list list \<Rightarrow> batch_accepted \<Rightarrow> datastore \<Rightarrow> (datastore \<times> batch_accepted) handled" where
  "batch_loop fromisoformat wording s tid fresh now i [] acc db = Inr (db, acc)"
| "batch_loop fromisoformat wording s tid fresh now i (raw # raws) acc db =
     (case validate_event fromisoformat raw of
        Inl e \<Rightarrow> bind_handled (make_rejected i (map_of raw ''client_event_id'') ''VALIDATION_FAILED'' (first_error wording e))
          (\<lambda>r. batch_loop fromisoformat wording s tid fresh now (Suc i) raws (acc\<lparr>ba_rejected := ba_rejected acc @ [r]\<rparr>) db)
      | Inr event \<Rightarrow>
          (case insert_raw_event s db tid (rn_client_event_id event) (dump_event event) (fresh i) now of
             Inl _ \<Rightarrow> batch_loop fromisoformat wording s tid fresh now (Suc i) raws
               (acc\<lparr>ba_rejected := ba_rejected acc @ [\<lparr>rj_index = i, rj_client_event_id = Some (rn_client_event_id event),
                     rj_code = ''INTERNAL'', rj_message = ''event could not be stored''\<rparr>]\<rparr>) db
           | Inr (db', _, dup) \<Rightarrow> batch_loop fromisoformat wording s tid fresh now (Suc i) raws
               (if dup then acc\<lparr>ba_duplicate_count := ba_duplicate_count acc + 1\<rparr>
                else acc\<lparr>ba_accepted_count := ba_accepted_count acc + 1\<rparr>) db'))"

definition post_events_batch ::
  "(string \<Rightarrow> py_datetime option) \<Rightarrow> (string \<Rightarrow> string) \<Rightarrow> api_settings \<Rightarrow> pyfloat \<Rightarrow> (string \<times> json) list list \<Rightarrow> string \<Rightarrow>
   (nat \<Rightarrow> string) \<Rightarrow> instant \<Rightarrow> limiters \<times> datastore \<Rightarrow> batch_accepted handled \<times> limiters \<times> datastore" where
  "post_events_batch fromisoformat wording st clock events tid fresh now = (\<lambda>(ls, db).
     case check_ingest st clock tid ls of
       (Inl e, ls') \<Rightarrow> (Inl e, ls', db)
     | (Inr _, ls') \<Rightarrow>
         if as_ingest_max_batch_size st < int (length events)
         then (Inl (ApiError (payload_too_large (''batch of '' @ show_int (int (length events))
                 @ '' exceeds INGEST_MAX_BATCH_SIZE='' @ show_int (as_ingest_max_batch_size st)))), ls', db)
         else let (out, db') = tenant_session (db_for_ingest tid) (\<lambda>s db.
                batch_loop fromisoformat wording s tid fresh now 0 events
                  \<lparr>ba_accepted_count = 0, ba_duplicate_count = 0, ba_rejected = []\<rparr> db) db
              in (out, ls', db'))"

section \<open>Outcomes\<close>

record outcome_in =
  oi_client_outcome_id :: string
  oi_user_ref :: string
  oi_experiment_id :: string
  oi_outcome_type :: string
  oi_observed_at :: string
  oi_value_idr :: "int option"

text \<open>What request validation lets through to the handler.\<close>

definition valid_outcome :: "(string \<Rightarrow> py_datetime option) \<Rightarrow> outcome_in \<Rightarrow> bool" where
  "valid_outcome fromisoformat b \<longleftrightarrow> oi_outcome_type b \<in> {''RESPONDED'', ''RETAINED'', ''CHURNED''}
     \<and> fromisoformat (oi_observed_at b) \<noteq> None"

definition post_outcome ::
  "(string \<Rightarrow> py_datetime option) \<Rightarrow> api_settings \<Rightarrow> pyfloat \<Rightarrow> outcome_in \<Rightarrow> string \<Rightarrow> string \<Rightarrow> limiters \<times> datastore \<Rightarrow>
   unit handled \<times> limiters \<times> datastore" where
  "post_outcome fromisoformat st clock body tid fresh_id = (\<lambda>(ls, db).
     case check_ingest st clock tid ls of
       (Inl e, ls') \<Rightarrow> (Inl e, ls', db)
     | (Inr _, ls') \<Rightarrow>
         (case parse_uuid (oi_experiment_id body) of
            None \<Rightarrow> (Inl (ApiError (validation_failed ''experiment_id is not a valid id'' [])), ls', db)
          | Some experiment_id \<Rightarrow>
              (case rfc3339_or_raise fromisoformat (oi_observed_at body) ''observed_at'' of
                 Inl e \<Rightarrow> (Inl (Raised e), ls', db)
               | Inr observed_at \<Rightarrow>
                   let (out, db') = tenant_session (db_for_ingest tid) (\<lambda>s db.
                         bind_handled (lifted (get_experiment s db tid experiment_id)) (\<lambda>found. case found of
                             None \<Rightarrow> Inl (ApiError (not_found (''experiment '' @ oi_experiment_id body @ '' not found'')))
                           | Some _ \<Rightarrow> bind_handled (lifted (record_outcome s db tid experiment_id (oi_user_ref body)
                                 (oi_outcome_type body) (oi_value_idr body) (dt_instant observed_at) fresh_id))
                               (\<lambda>(db', _). Inr (db', ())))) db
                   in (out, ls', db'))))"

section \<open>Replays\<close>

lemma insert_or_ignore_one:
  "sql_insert_or_ignore s t tenant_of clash [r] rows =
     (if \<not> (granted (ss_role s) INSERT t \<and> granted (ss_role s) SELECT t) then Inl permission_denied
      else if tenant_of r \<noteq> ss_tenant_id s then Inl row_security
      else if list_ex (\<lambda>old. clash old r) rows then Inr (rows, []) else Inr (rows @ [r], [r]))"
  by simp

definition event_key :: "raw_event_row \<Rightarrow> string \<times> string" where
  "event_key r = (rv_tenant_id r, rv_client_event_id r)"

text \<open>What an insert does in a session of the worker role, with its own tenant's id.\<close>

lemma insert_raw_event_cases:
  assumes "insert_raw_event s db tid c p f now = Inr (db', i, dup)"
  shows "tid = ss_tenant_id s"
    and "dup \<Longrightarrow> db' = db \<and> (\<exists>r. i = rv_id r \<and> filter (\<lambda>r. event_key r = (tid, c)) (ds_raw_events db) = [r])"
    and "\<not> dup \<Longrightarrow> i = f \<and> (tid, c) \<notin> event_key ` set (ds_raw_events db)
      \<and> db' = db\<lparr>ds_raw_events := ds_raw_events db @ [\<lparr>rv_id = f, rv_tenant_id = tid, rv_client_event_id = c, rv_received_at = now,
             rv_payload = p, rv_processed_at = None, rv_process_error = None\<rparr>]\<rparr>"
proof -
  note defs = insert_raw_event_def insert_or_ignore_one Let_def raw_events_of_def sql_select_def scalar_one_def
    same_client_event_def list_ex_iff
  show tid: "tid = ss_tenant_id s" using assms by (auto simp: defs split: if_splits)
  show "dup \<Longrightarrow> db' = db \<and> (\<exists>r. i = rv_id r \<and> filter (\<lambda>r. event_key r = (tid, c)) (ds_raw_events db) = [r])"
    using assms tid by (auto simp: defs res_simps map_eq_Cons_conv event_key_def conj_ac split: if_splits list.splits)
  show "\<not> dup \<Longrightarrow> i = f \<and> (tid, c) \<notin> event_key ` set (ds_raw_events db)
      \<and> db' = db\<lparr>ds_raw_events := ds_raw_events db @ [\<lparr>rv_id = f, rv_tenant_id = tid, rv_client_event_id = c, rv_received_at = now,
             rv_payload = p, rv_processed_at = None, rv_process_error = None\<rparr>]\<rparr>"
    using assms by (auto simp: defs res_simps event_key_def split: if_splits list.splits)
qed

lemma filter_absent: "k \<notin> f ` set rs \<Longrightarrow> filter (\<lambda>r. f r = k) rs = []"
  by (auto simp: filter_empty_conv)

lemma insert_raw_event_again:
  assumes "insert_raw_event s db tid c p f now = Inr (db', i, dup)" "insert_raw_event s db' tid c p' f' now' = Inr (db'', j, dup')"
  shows "dup' \<and> j = i \<and> db'' = db'"
proof -
  obtain r where r: "i = rv_id r" "filter (\<lambda>r. event_key r = (tid, c)) (ds_raw_events db') = [r]"
  proof (cases dup)
    case True
    then show ?thesis using insert_raw_event_cases(2) [OF assms(1)] that by auto
  next
    case False
    with insert_raw_event_cases(3) [OF assms(1)] filter_absent [of "(tid, c)" event_key "ds_raw_events db"] show ?thesis
      by (intro that [of "\<lparr>rv_id = f, rv_tenant_id = tid, rv_client_event_id = c, rv_received_at = now, rv_payload = p,
             rv_processed_at = None, rv_process_error = None\<rparr>"]) (simp_all add: event_key_def)
  qed
  then have "(tid, c) \<in> event_key ` set (ds_raw_events db')" by (force simp: filter_eq_Cons_iff)
  then have dup': dup' using insert_raw_event_cases(3) [OF assms(2)] by auto
  with insert_raw_event_cases(2) [OF assms(2)] r show ?thesis by auto
qed

lemma post_event_inserts:
  assumes "post_event st clock body tid f now (ls, db) = (Inr a, ls', db')"
  shows "insert_raw_event (db_for_ingest tid) db tid (rn_client_event_id body) (dump_event body) f now
    = Inr (db', va_raw_event_id a, va_duplicate a)"
proof -
  have role: "ss_tenant_id (db_for_ingest tid) = tid" by (simp add: db_for_ingest_def)
  show ?thesis
    using assms by (auto simp: post_event_def tenant_session_def lifted_def res_simps Let_def split: prod.splits sum.splits)
qed

text \<open>
  C25. Sending an event is idempotent: once an event was accepted, every later one with its client id is answered with the id of
  the stored row and marked as a duplicate, whatever else it carries, and the database stays as it is.
\<close>

theorem replay_is_duplicate:
  assumes "post_event st clock body tid f now (ls, db) = (Inr a, ls1, db1)"
    and "post_event st clock' body' tid f' now' (ls2, db1) = (Inr b, ls3, db2)"
    and "rn_client_event_id body' = rn_client_event_id body"
  shows "va_duplicate b \<and> va_raw_event_id b = va_raw_event_id a \<and> db2 = db1"
  by (rule insert_raw_event_again [OF post_event_inserts [OF assms(1)] post_event_inserts [OF assms(2), unfolded assms(3)]])

definition sample_body :: "string \<Rightarrow> raw_event_in" where
  "sample_body c = \<lparr>rn_client_event_id = c, rn_event_type = ''pay'', rn_occurred_at = ''2026-01-01'', rn_user_ref = ''u'',
     rn_user_attributes = None, rn_payload = []\<rparr>"

definition sample_tid :: string where
  "sample_tid = ''11111111-1111-1111-1111-111111111111''"

definition sample_fromisoformat :: "string \<Rightarrow> py_datetime option" where
  "sample_fromisoformat s = (if s = ''2026-01-01'' then Some \<lparr>dt_instant = 0, dt_offset = Some 0\<rparr> else None)"

lemma sample_session: "assert_safe_identifier sample_tid = Inr ()"
  by code_simp

lemma sample_limit: "\<exists>ls'. check_ingest sample_api_settings 5 sample_tid no_limiters = (Inr (), ls')"
  by (simp add: check_ingest_def check_limit_def no_limiters_def get_limiter_def new_limiter_def refilled_def
      sample_api_settings_def int_truediv_def float_of_int_def fl_of_int [of 60, simplified] fadd_def fsub_def fmul_def Let_def)

lemma sample_ingest: "ss_tenant_id (db_for_ingest sample_tid) = sample_tid" "ss_role (db_for_ingest sample_tid) = APP_WORKER"
  by (simp_all add: db_for_ingest_def)

theorem replay_is_duplicate_witness:
  "\<exists>ls1 db1 ls2. post_event sample_api_settings 5 (sample_body ''e1'') sample_tid ''r1'' 10 (no_limiters, empty_datastore)
        = (Inr \<lparr>va_raw_event_id = ''r1'', va_duplicate = False\<rparr>, ls1, db1)
     \<and> post_event sample_api_settings 5 (sample_body ''e1''\<lparr>rn_event_type := ''refund''\<rparr>) sample_tid ''r2'' 20 (no_limiters, db1)
        = (Inr \<lparr>va_raw_event_id = ''r1'', va_duplicate = True\<rparr>, ls2, db1)"
proof -
  let ?post = "\<lambda>body f now db. post_event sample_api_settings 5 body sample_tid f now (no_limiters, db)"
  obtain ls where l: "check_ingest sample_api_settings 5 sample_tid no_limiters = (Inr (), ls)" using sample_limit by blast
  note defs = post_event_def l tenant_session_def sample_ingest sample_session lifted_def insert_raw_event_def grant_simps
    raw_events_of_def sql_select_def scalar_one_def same_client_event_def sample_body_def empty_datastore_def Let_def
  obtain ls1 db1 where a: "?post (sample_body ''e1'') ''r1'' 10 empty_datastore
      = (Inr \<lparr>va_raw_event_id = ''r1'', va_duplicate = False\<rparr>, ls1, db1)" by (simp add: defs)
  moreover obtain b ls2 db2 where b: "?post (sample_body ''e1''\<lparr>rn_event_type := ''refund''\<rparr>) ''r2'' 20 db1 = (Inr b, ls2, db2)"
    using a by (auto simp: defs)
  moreover have "rn_client_event_id (sample_body ''e1''\<lparr>rn_event_type := ''refund''\<rparr>) = rn_client_event_id (sample_body ''e1'')"
    by simp
  note replay_is_duplicate [OF a b this]
  moreover have "b = \<lparr>va_raw_event_id = va_raw_event_id b, va_duplicate = va_duplicate b\<rparr>" by simp
  ultimately show ?thesis by (metis (full_types) event_accepted.select_convs(1))
qed

section \<open>Batches\<close>

definition well_named :: "(string \<times> json) list \<Rightarrow> bool" where
  "well_named raw \<longleftrightarrow> (case map_of raw ''client_event_id'' of
      None \<Rightarrow> True | Some JNull \<Rightarrow> True | Some (JStr c) \<Rightarrow> True | Some _ \<Rightarrow> False)"

lemma validate_named:
  "validate_event F raw = Inr e \<Longrightarrow> map_of raw ''client_event_id'' = Some (JStr (rn_client_event_id e))"
  by (auto simp: validate_event_def bind_valid_def string_field_def split: sum.splits option.splits json.splits)

lemma badly_named_rejected: "\<not> well_named raw \<Longrightarrow> \<exists>e x. validate_event F raw = Inl e
    \<and> make_rejected i (map_of raw ''client_event_id'') code m = Inl (Raised x)"
  by (auto simp: well_named_def validate_event_def string_field_def make_rejected_def split: option.splits json.splits)

lemma batch_loop_raises:
  "\<not> list_all well_named raws \<Longrightarrow> \<exists>x. batch_loop F W s tid fresh now i raws acc db = Inl (Raised x)"
proof (induction raws arbitrary: i acc db)
  case (Cons raw raws)
  show ?case
  proof (cases "well_named raw")
    case False
    from badly_named_rejected [OF this, of F i "''VALIDATION_FAILED''"] obtain e where e: "validate_event F raw = Inl e"
      by blast
    from badly_named_rejected [OF False, of F i "''VALIDATION_FAILED''" "first_error W e"] e show ?thesis by auto
  next
    case True
    with Cons.prems have rest: "\<not> list_all well_named raws" by simp
    have "\<exists>r. make_rejected i (map_of raw ''client_event_id'') code m = Inr r" for code m
      using True by (auto simp: well_named_def make_rejected_def split: option.splits json.splits)
    then show ?thesis
      using Cons.IH [OF rest] by (auto split: sum.splits prod.splits if_splits) (metis bind_handled_simps(2))+
  qed
qed simp

text \<open>
  One event can fail its whole batch: if any event of it carries a client id that is a number, a boolean, a list or an
  object, building the rejection for it raises in turn, the transaction is rolled back and the client gets 500 instead of
  a report on the events.
\<close>

theorem misnamed_event_fails_batch:
  assumes "\<not> list_all well_named events"
    and "check_ingest st clock tid ls = (Inr (), ls')" "int (length events) \<le> as_ingest_max_batch_size st"
  shows "\<exists>x. post_events_batch F W st clock events tid fresh now (ls, db) = (Inl (Raised x), ls', db)"
  using assms batch_loop_raises [OF assms(1)]
  by (auto simp: post_events_batch_def tenant_session_def Let_def split: sum.splits)
    (metis Inl_inject old.sum.distinct(1) sum.distinct(1))+

lemma sample_batch_size: "as_ingest_max_batch_size sample_api_settings = 2"
  by (simp add: sample_api_settings_def)

lemma sample_misnamed: "\<not> list_all well_named [[(''client_event_id'', JInt 7)]]"
  by (simp add: well_named_def)

theorem misnamed_event_fails_batch_witness:
  "\<exists>x ls'. post_events_batch sample_fromisoformat (\<lambda>k. k) sample_api_settings 5 [[(''client_event_id'', JInt 7)]] sample_tid
     (\<lambda>_. ''r1'') 10 (no_limiters, empty_datastore) = (Inl (Raised x), ls', empty_datastore)"
proof -
  obtain ls where "check_ingest sample_api_settings 5 sample_tid no_limiters = (Inr (), ls)" using sample_limit by blast
  moreover have "int (length [[(''client_event_id'', JInt 7)]]) \<le> as_ingest_max_batch_size sample_api_settings"
    by (simp add: sample_batch_size)
  ultimately show ?thesis using misnamed_event_fails_batch [OF sample_misnamed] by blast
qed

definition invalid :: "(string \<Rightarrow> py_datetime option) \<Rightarrow> (string \<times> json) list \<Rightarrow> bool" where
  "invalid F raw \<longleftrightarrow> (case validate_event F raw of Inl _ \<Rightarrow> True | Inr _ \<Rightarrow> False)"

definition failed_validation :: "batch_accepted \<Rightarrow> nat list" where
  "failed_validation a = map rj_index (filter (\<lambda>r. rj_code r = ''VALIDATION_FAILED'') (ba_rejected a))"

definition reported :: "batch_accepted \<Rightarrow> nat" where
  "reported a = ba_accepted_count a + ba_duplicate_count a + length (ba_rejected a)"

lemma make_rejected_fields:
  "make_rejected i c code m = Inr r \<Longrightarrow> rj_index r = i \<and> rj_code r = code"
  by (auto simp: make_rejected_def split: option.splits json.splits)

lemma batch_loop_accounts:
  assumes "batch_loop F W s tid fresh now i raws acc db = Inr (db', a)"
  shows "reported a = reported acc + length raws
    \<and> length (ds_raw_events db') + ba_accepted_count acc = length (ds_raw_events db) + ba_accepted_count a
    \<and> failed_validation a = failed_validation acc @ map fst (filter (\<lambda>(_, raw). invalid F raw) (enumerate i raws))"
  using assms
proof (induction raws arbitrary: i acc db)
  case (Cons raw raws)
  show ?case
  proof (cases "validate_event F raw")
    case (Inl e)
    with Cons.prems obtain r where r: "make_rejected i (map_of raw ''client_event_id'') ''VALIDATION_FAILED'' (first_error W e) = Inr r"
      and "batch_loop F W s tid fresh now (Suc i) raws (acc\<lparr>ba_rejected := ba_rejected acc @ [r]\<rparr>) db = Inr (db', a)"
      by (auto simp: bind_handled_def split: sum.splits)
    from Cons.IH [OF this(2)] make_rejected_fields [OF r] Inl show ?thesis
      by (simp add: reported_def failed_validation_def invalid_def)
  next
    case (Inr event)
    note valid = this
    show ?thesis
    proof (cases "insert_raw_event s db tid (rn_client_event_id event) (dump_event event) (fresh i) now")
      case (Inl x)
      with Cons.prems valid show ?thesis
        by (auto dest!: Cons.IH simp: reported_def failed_validation_def invalid_def)
    next
      case (Inr out)
      obtain db1 j dup where out: "out = (db1, j, dup)" by (cases out) auto
      have "length (ds_raw_events db1) = length (ds_raw_events db) + (if dup then 0 else 1)"
        using insert_raw_event_cases(2,3) [OF Inr [unfolded out]] by auto
      with Cons.prems valid Inr out show ?thesis
        by (auto dest!: Cons.IH simp: reported_def failed_validation_def invalid_def split: if_splits)
    qed
  qed
qed (simp add: reported_def)

text \<open>
  C24. A batch that is answered is answered for every event of it: what was accepted, what was a duplicate and what was rejected add up
  to the events sent, as many rows were stored as were accepted, and the positions rejected for validation are exactly
  those of the malformed events, in order.
\<close>

theorem batch_accounts:
  assumes "post_events_batch F W st clock events tid fresh now (ls, db) = (Inr a, ls', db')"
  shows "ba_accepted_count a + ba_duplicate_count a + length (ba_rejected a) = length events
    \<and> length (ds_raw_events db') = length (ds_raw_events db) + ba_accepted_count a
    \<and> map rj_index (filter (\<lambda>r. rj_code r = ''VALIDATION_FAILED'') (ba_rejected a))
        = map fst (filter (\<lambda>(_, raw). invalid F raw) (enumerate 0 events))"
proof -
  from assms have "batch_loop F W (db_for_ingest tid) tid fresh now 0 events
      \<lparr>ba_accepted_count = 0, ba_duplicate_count = 0, ba_rejected = []\<rparr> db = Inr (db', a)"
    by (auto simp: post_events_batch_def tenant_session_def Let_def split: prod.splits sum.splits if_splits)
  from batch_loop_accounts [OF this] show ?thesis by (simp add: reported_def failed_validation_def)
qed

definition intake_raw :: "string \<Rightarrow> (string \<times> json) list" where
  "intake_raw c = [(''client_event_id'', JStr c), (''event_type'', JStr ''pay''), (''occurred_at'', JStr ''2026-01-01''),
     (''user_ref'', JStr ''u'')]"

theorem batch_accounts_witness:
  "\<exists>a ls' db'. post_events_batch sample_fromisoformat (\<lambda>k. k) sample_api_settings 5 [intake_raw ''e1'', []]
       sample_tid (\<lambda>_. ''r1'') 10 (no_limiters, empty_datastore) = (Inr a, ls', db')
     \<and> ba_accepted_count a + ba_duplicate_count a + length (ba_rejected a) = 2 \<and> length (ds_raw_events db') = ba_accepted_count a"
proof -
  obtain ls where l: "check_ingest sample_api_settings 5 sample_tid no_limiters = (Inr (), ls)" using sample_limit by blast
  have "\<exists>a ls' db'. post_events_batch sample_fromisoformat (\<lambda>k. k) sample_api_settings 5 [intake_raw ''e1'', []]
       sample_tid (\<lambda>_. ''r1'') 10 (no_limiters, empty_datastore) = (Inr a, ls', db')"
    by (simp add: post_events_batch_def l tenant_session_def sample_ingest sample_session lifted_def insert_raw_event_def grant_simps
      raw_events_of_def sql_select_def scalar_one_def same_client_event_def intake_raw_def empty_datastore_def Let_def
      validate_event_def string_field_def attributes_field_def payload_field_def rfc3339_or_raise_def sample_fromisoformat_def
      make_rejected_def sample_batch_size)
  then obtain a ls' db' where b: "post_events_batch sample_fromisoformat (\<lambda>k. k) sample_api_settings 5 [intake_raw ''e1'', []]
       sample_tid (\<lambda>_. ''r1'') 10 (no_limiters, empty_datastore) = (Inr a, ls', db')" by blast
  from batch_accounts [OF b] b show ?thesis by (auto simp: empty_datastore_def)
qed

end
