(* ===== verification/Values.thy ===== *)
theory Values
  imports Contracts
begin

text \<open>
  What the code makes of a stored JSON value: \<open>int(v)\<close>, \<open>float(v)\<close> and pydantic's conversion of a field to a string, a
  float or an integer; and the enumerations of \<open>core-contracts\<close> as the database stores them.  The numbers a JSON string
  may stand for are parameters.
\<close>

section \<open>Numbers and strings\<close>

text \<open>\<open>int(v)\<close> and \<open>float(v)\<close>, and pydantic's conversion of a field to a string, a float or an integer.\<close>

definition conversion_error :: exn where
  "conversion_error = ValidationError ''the value has the wrong type''"

fun int_of_value :: "(string \<Rightarrow> int result) \<Rightarrow> json \<Rightarrow> int result" where
  "int_of_value text_int (JInt n) = Inr n"
| "int_of_value text_int (JBool b) = Inr (if b then 1 else 0)"
| "int_of_value text_int (JFloat x) = Inr (py_int x)"
| "int_of_value text_int (JStr s) = text_int s"
| "int_of_value text_int v = Inl conversion_error"

fun float_of_value :: "(string \<Rightarrow> pyfloat result) \<Rightarrow> json \<Rightarrow> pyfloat result" where
  "float_of_value text_float (JInt n) = Inr (float_of_int n)"
| "float_of_value text_float (JBool b) = Inr (if b then 1 else 0)"
| "float_of_value text_float (JFloat x) = Inr x"
| "float_of_value text_float (JStr s) = text_float s"
| "float_of_value text_float v = Inl conversion_error"

fun str_field :: "json option \<Rightarrow> string result" where
  "str_field None = Inr []"
| "str_field (Some (JStr s)) = Inr s"
| "str_field (Some v) = Inl conversion_error"

fun optional_float :: "(string \<Rightarrow> pyfloat result) \<Rightarrow> json option \<Rightarrow> pyfloat option result" where
  "optional_float text_float None = Inr None"
| "optional_float text_float (Some JNull) = Inr None"
| "optional_float text_float (Some v) = bind_result (float_of_value text_float v) (\<lambda>x. Inr (Some x))"

fun optional_int :: "(string \<Rightarrow> int result) \<Rightarrow> json option \<Rightarrow> int option result" where
  "optional_int text_int None = Inr None"
| "optional_int text_int (Some JNull) = Inr None"
| "optional_int text_int (Some (JFloat x)) = (if x = of_int \<lfloor>x\<rfloor> then Inr (Some \<lfloor>x\<rfloor>) else Inl conversion_error)"
| "optional_int text_int (Some v) = bind_result (int_of_value text_int v) (\<lambda>n. Inr (Some n))"

section \<open>Enumerations\<close>

text \<open>\<open>CanonicalEventType(value)\<close>\<close>

fun event_type_value :: "canonical_event_type \<Rightarrow> string" where
  "event_type_value PAYMENT = ''PAYMENT''"
| "event_type_value P2P_TRANSFER = ''P2P_TRANSFER''"
| "event_type_value TOPUP = ''TOPUP''"
| "event_type_value WITHDRAWAL = ''WITHDRAWAL''"
| "event_type_value SPLIT_BILL_CREATED = ''SPLIT_BILL_CREATED''"
| "event_type_value SPLIT_BILL_SETTLED = ''SPLIT_BILL_SETTLED''"
| "event_type_value RECURRING_PAYMENT = ''RECURRING_PAYMENT''"
| "event_type_value LOAN_DISBURSED = ''LOAN_DISBURSED''"
| "event_type_value LOAN_REPAYMENT = ''LOAN_REPAYMENT''"
| "event_type_value LOAN_REPAYMENT_LATE = ''LOAN_REPAYMENT_LATE''"
| "event_type_value SESSION_OPEN = ''SESSION_OPEN''"
| "event_type_value FEATURE_USED = ''FEATURE_USED''"
| "event_type_value SUPPORT_CONTACT = ''SUPPORT_CONTACT''"

definition CANONICAL_EVENT_TYPES :: "canonical_event_type list" where
  "CANONICAL_EVENT_TYPES =
     [PAYMENT, P2P_TRANSFER, TOPUP, WITHDRAWAL, SPLIT_BILL_CREATED, SPLIT_BILL_SETTLED, RECURRING_PAYMENT,
      LOAN_DISBURSED, LOAN_REPAYMENT, LOAN_REPAYMENT_LATE, SESSION_OPEN, FEATURE_USED, SUPPORT_CONTACT]"

definition parse_event_type :: "string \<Rightarrow> canonical_event_type result" where
  "parse_event_type v = (case find (\<lambda>t. event_type_value t = v) CANONICAL_EVENT_TYPES of
      None \<Rightarrow> Inl (ValueError (v @ '' is not a valid CanonicalEventType'')) | Some t \<Rightarrow> Inr t)"

lemma parse_event_type_value [simp]: "parse_event_type (event_type_value t) = Inr t"
  by (cases t) (simp_all add: parse_event_type_def CANONICAL_EVENT_TYPES_def)

fun exclusion_value :: "exclusion_reason \<Rightarrow> string" where
  "exclusion_value BUDGET_EXHAUSTED = ''BUDGET_EXHAUSTED''"
| "exclusion_value RUNNER_UP = ''RUNNER_UP''"
| "exclusion_value NO_EXPECTED_GAIN = ''NO_EXPECTED_GAIN''"
| "exclusion_value POLICY_DENIED = ''POLICY_DENIED''"
| "exclusion_value POLICY_RESPONSIBLE_LENDING = ''POLICY_RESPONSIBLE_LENDING''"
| "exclusion_value POLICY_FREQUENCY_CAP = ''POLICY_FREQUENCY_CAP''"
| "exclusion_value POLICY_NO_CREDIT_DECISION = ''POLICY_NO_CREDIT_DECISION''"
| "exclusion_value SEGMENT_SURE_THING = ''SEGMENT_SURE_THING''"
| "exclusion_value SEGMENT_LOST_CAUSE = ''SEGMENT_LOST_CAUSE''"
| "exclusion_value SEGMENT_SLEEPING_DOG = ''SEGMENT_SLEEPING_DOG''"
| "exclusion_value GROUP_MEMBER_DENIED = ''GROUP_MEMBER_DENIED''"
| "exclusion_value CONTROL_HOLDOUT = ''CONTROL_HOLDOUT''"
| "exclusion_value IMPACT_UNAVAILABLE = ''IMPACT_UNAVAILABLE''"
| "exclusion_value NAIVE_BELOW_THRESHOLD = ''NAIVE_BELOW_THRESHOLD''"
| "exclusion_value NAIVE_NOT_CHOSEN = ''NAIVE_NOT_CHOSEN''"

end
