(* ===== verification/Console.thy ===== *)
theory Console
  imports Segments Intake Values
begin

text \<open>
  The reading half of the console, \<open>api/routers/console\<close>: users and their risk, allocations, mappings (with the one
  write beside approvals), pipeline runs, measurement, external signals, incentives, feedback, segments, the audit log,
  and the health check.  The reviewer's session has been established (\<open>Access\<close>).  A handler runs in a transaction of
  the console role.  The text of a time is a parameter.
\<close>

definition console_read ::
  "string \<Rightarrow> (db_session \<Rightarrow> datastore \<Rightarrow> 'a handled) \<Rightarrow> datastore \<Rightarrow> 'a handled \<times> datastore" where
  "console_read tid body db = tenant_session (db_for_tenant tid) (\<lambda>s db. bind_handled (body s db) (\<lambda>x. Inr (db, x))) db"

section \<open>users.py\<close>

record user_summary_out =
  uo_user_pseudonym :: string
  uo_lifecycle_state :: string
  uo_region_code :: "string option"
  uo_cohort_key :: "string option"

definition list_users_endpoint ::
  "user_filter \<Rightarrow> int \<Rightarrow> int \<Rightarrow> console_session \<Rightarrow> datastore \<Rightarrow> user_summary_out page handled \<times> datastore" where
  "list_users_endpoint q limit cursor console db =
     check_query (1 \<le> limit \<and> limit \<le> 500 \<and> 0 \<le> cursor)
       (console_read (cs_tenant_id console) (\<lambda>s db.
          bind_handled (lifted (list_users s db (cs_tenant_id console) q limit cursor)) (\<lambda>rows.
            Inr \<lparr>pg_items = map (\<lambda>u. \<lparr>uo_user_pseudonym = us_user_pseudonym u, uo_lifecycle_state = us_lifecycle_state u,
                                       uo_region_code = us_region_code u, uo_cohort_key = us_cohort_key u\<rparr>) rows,
                 pg_next_cursor = next_cursor cursor limit (length rows)\<rparr>)) db) db"

record circle_out =
  co_circle_size :: int
  co_neighbor_activity_ratio_now :: pyfloat
  co_neighbor_activity_ratio_30d_ago :: pyfloat
  co_delta_stability :: pyfloat
  co_circle_edge_decay :: "pyfloat option"
  co_circle_dormant_members :: "int option"

record signal_ref_out =
  sf_signal_id :: string
  sf_scope_type :: string
  sf_scope_key :: string
  sf_signal_type :: string
  sf_value :: pyfloat
  sf_contribution :: "pyfloat option"

record impact_out =
  io_incentive_code :: string
  io_p_incentivized :: pyfloat
  io_p_not_incentivized :: pyfloat
  io_impact_score :: pyfloat
  io_segment :: string

record user_risk_out =
  xo_user_pseudonym :: string
  xo_lifecycle_state :: string
  xo_synthetic_data :: bool
  xo_churn_risk :: "pyfloat option"
  xo_context_row_count :: "int option"
  xo_circle :: "circle_out option"
  xo_pattern_type :: "string option"
  xo_external_signal :: "signal_ref_out option"
  xo_impacts :: "impact_out list"

definition circle_part_of ::
  "(string \<Rightarrow> int result) \<Rightarrow> (string \<Rightarrow> pyfloat result) \<Rightarrow> risk_score_row \<Rightarrow> circle_out result" where
  "circle_part_of text_int text_float risk =
     (let f = rk_features risk in
      bind_result (case map_of f ''circle_size'' of None \<Rightarrow> Inr 0 | Some v \<Rightarrow> int_of_value text_int v) (\<lambda>size.
      bind_result (case map_of f ''neighbor_activity_ratio_now'' of None \<Rightarrow> Inr 0 | Some v \<Rightarrow> float_of_value text_float v) (\<lambda>r_now.
      bind_result (case map_of f ''neighbor_activity_ratio_30d_ago'' of None \<Rightarrow> Inr 0 | Some v \<Rightarrow> float_of_value text_float v) (\<lambda>r_ago.
      bind_result (optional_float text_float (map_of f ''circle_edge_decay'')) (\<lambda>decay.
      bind_result (optional_int text_int (map_of f ''circle_dormant_members'')) (\<lambda>dormant.
        Inr \<lparr>co_circle_size = size, co_neighbor_activity_ratio_now = r_now, co_neighbor_activity_ratio_30d_ago = r_ago,
             co_delta_stability = rk_delta_stability risk, co_circle_edge_decay = decay,
             co_circle_dormant_members = dormant\<rparr>))))))"

definition signal_part_of :: "(string \<Rightarrow> pyfloat result) \<Rightarrow> risk_score_row \<Rightarrow> signal_ref_out option result" where
  "signal_part_of text_float risk =
     (case map_of (rk_features risk) ''external_signal'' of
        None \<Rightarrow> Inr None
      | Some v \<Rightarrow> if \<not> truthy v then Inr None else (case v of
            JDict sig \<Rightarrow>
              bind_result (str_field (map_of sig ''signal_id'')) (\<lambda>i.
              bind_result (str_field (map_of sig ''scope_type'')) (\<lambda>ty.
              bind_result (str_field (map_of sig ''scope_key'')) (\<lambda>k.
              bind_result (str_field (map_of sig ''signal_type'')) (\<lambda>st.
              bind_result (case map_of sig ''value'' of None \<Rightarrow> Inr 0 | Some x \<Rightarrow> float_of_value text_float x) (\<lambda>x.
                Inr (Some \<lparr>sf_signal_id = i, sf_scope_type = ty, sf_scope_key = k, sf_signal_type = st, sf_value = x,
                           sf_contribution = rk_external_signal_contribution risk\<rparr>))))))
          | _ \<Rightarrow> Inl (RuntimeError ''object has no attribute get'')))"

definition impact_part_of :: "impact_score_row \<Rightarrow> impact_out" where
  "impact_part_of i = \<lparr>io_incentive_code = ip_incentive_code i, io_p_incentivized = ip_p_incentivized i,
     io_p_not_incentivized = ip_p_not_incentivized i, io_impact_score = ip_impact_score i, io_segment = ip_segment i\<rparr>"

definition user_risk_rows ::
  "(string \<Rightarrow> string) \<Rightarrow> string \<Rightarrow> string \<Rightarrow> db_session \<Rightarrow> datastore \<Rightarrow>
   (user_row \<times> risk_score_row option \<times> impact_score_row list) handled" where
  "user_risk_rows py_repr tid user s db =
     bind_handled (lifted (get_user s db tid user)) (\<lambda>found. case found of
         None \<Rightarrow> Inl (ApiError (not_found (''user '' @ py_repr user @ '' not found'')))
       | Some u \<Rightarrow>
           bind_handled (lifted (get_latest_risk_score s db tid user)) (\<lambda>risk.
           bind_handled (lifted (get_latest_impact_scores s db tid user)) (\<lambda>impacts. Inr (u, risk, impacts))))"

definition get_user_risk ::
  "(string \<Rightarrow> int result) \<Rightarrow> (string \<Rightarrow> pyfloat result) \<Rightarrow> (string \<Rightarrow> string) \<Rightarrow> string \<Rightarrow> console_session \<Rightarrow> datastore \<Rightarrow>
   user_risk_out handled \<times> datastore" where
  "get_user_risk text_int text_float py_repr user console db =
     (let tid = cs_tenant_id console;
          (read, db') = console_read tid (user_risk_rows py_repr tid user) db
      in (bind_handled read (\<lambda>(u, risk, impacts).
            bind_handled (lifted (case risk of None \<Rightarrow> Inr None
                | Some r \<Rightarrow> bind_result (circle_part_of text_int text_float r) (\<lambda>c. Inr (Some c)))) (\<lambda>circle.
            bind_handled (lifted (case risk of None \<Rightarrow> Inr None | Some r \<Rightarrow> signal_part_of text_float r)) (\<lambda>signal.
            Inr \<lparr>xo_user_pseudonym = us_user_pseudonym u, xo_lifecycle_state = us_lifecycle_state u, xo_synthetic_data = True,
                 xo_churn_risk = map_option rk_churn_risk risk, xo_context_row_count = map_option rk_context_row_count risk,
                 xo_circle = circle, xo_pattern_type = map_option rk_pattern_type risk, xo_external_signal = signal,
                 xo_impacts = map impact_part_of impacts\<rparr>))), db'))"

section \<open>allocations.py\<close>

record candidate_out =
  ca_subject_type :: string
  ca_user_pseudonym :: "string option"
  ca_circle_id :: "string option"
  ca_incentive_code :: string
  ca_cost_idr :: int
  ca_churn_risk :: "pyfloat option"
  ca_impact_score :: "pyfloat option"
  ca_segment :: "string option"
  ca_pattern_type :: "string option"
  ca_priority_idr :: "int option"
  ca_user_rank :: "int option"
  ca_selected :: bool
  ca_exclusion_reason :: "string option"

record allocation_run_out =
  ao_allocation_run_id :: string
  ao_budget_idr :: int
  ao_strategy :: string
  ao_ranking_strategy :: string
  ao_context_row_count :: int
  ao_objective_value_idr :: int
  ao_candidate_count :: int
  ao_selected_count :: int
  ao_synthetic_data :: bool
  ao_candidates :: "candidate_out list"

definition candidate_part_of :: "allocation_candidate_row \<Rightarrow> candidate_out" where
  "candidate_part_of c =
     \<lparr>ca_subject_type = ac_subject_type c, ca_user_pseudonym = ac_user_pseudonym c, ca_circle_id = ac_circle_id c,
      ca_incentive_code = ac_incentive_code c, ca_cost_idr = ac_cost_idr c, ca_churn_risk = ac_churn_risk c,
      ca_impact_score = ac_impact_score c, ca_segment = ac_segment c, ca_pattern_type = ac_pattern_type c,
      ca_priority_idr = ac_priority_idr c, ca_user_rank = ac_user_rank c, ca_selected = ac_selected c,
      ca_exclusion_reason = ac_exclusion_reason c\<rparr>"

definition get_allocation :: "string \<Rightarrow> console_session \<Rightarrow> datastore \<Rightarrow> allocation_run_out handled \<times> datastore" where
  "get_allocation allocation_run_id console db =
     (case parse_uuid allocation_run_id of
        None \<Rightarrow> (Inl (ApiError (not_found ''allocation run not found'')), db)
      | Some run_uuid \<Rightarrow> console_read (cs_tenant_id console) (\<lambda>s db.
          bind_handled (lifted (get_allocation_run s db (cs_tenant_id console) run_uuid)) (\<lambda>found. case found of
              None \<Rightarrow> Inl (ApiError (not_found (''allocation run '' @ allocation_run_id @ '' not found'')))
            | Some run \<Rightarrow>
                bind_handled (lifted (list_candidates s db (cs_tenant_id console) run_uuid)) (\<lambda>candidates.
                Inr \<lparr>ao_allocation_run_id = al_id run, ao_budget_idr = al_budget_idr run, ao_strategy = al_strategy run,
                     ao_ranking_strategy = al_ranking_strategy run, ao_context_row_count = al_context_row_count run,
                     ao_objective_value_idr = al_objective_value_idr run, ao_candidate_count = al_candidate_count run,
                     ao_selected_count = al_selected_count run, ao_synthetic_data = True,
                     ao_candidates = map candidate_part_of candidates\<rparr>))) db)"

section \<open>mappings.py\<close>

record mapping_out =
  mo_client_event_type :: string
  mo_canonical_event_type :: string
  mo_amount_field_path :: string
  mo_counterparty_field_path :: "string option"
  mo_occurred_at_field_path :: string
  mo_active :: bool

record mapping_in =
  mi_client_event_type :: string
  mi_canonical_event_type :: string
  mi_amount_field_path :: string
  mi_counterparty_field_path :: "string option"
  mi_occurred_at_field_path :: string

definition mapping_part_of :: "mapping_row \<Rightarrow> mapping_out" where
  "mapping_part_of r =
     \<lparr>mo_client_event_type = mp_client_event_type r, mo_canonical_event_type = mp_canonical_event_type r,
      mo_amount_field_path = mp_amount_field_path r, mo_counterparty_field_path = mp_counterparty_field_path r,
      mo_occurred_at_field_path = mp_occurred_at_field_path r, mo_active = mp_active r\<rparr>"

definition list_mappings_endpoint :: "console_session \<Rightarrow> datastore \<Rightarrow> mapping_out list handled \<times> datastore" where
  "list_mappings_endpoint console =
     console_read (cs_tenant_id console) (\<lambda>s db.
       bind_handled (lifted (list_mappings s db (cs_tenant_id console) False)) (\<lambda>rows. Inr (map mapping_part_of rows)))"

definition create_mapping ::
  "mapping_in \<Rightarrow> console_session \<Rightarrow> string \<Rightarrow> datastore \<Rightarrow> mapping_out handled \<times> datastore" where
  "create_mapping body console fresh_id db =
     (case parse_event_type (mi_canonical_event_type body) of
        Inl (ValueError m) \<Rightarrow> (Inl (ApiError (validation_failed m [])), db)
      | Inl e \<Rightarrow> (Inl (Raised e), db)
      | Inr ty \<Rightarrow> tenant_session (db_for_tenant (cs_tenant_id console)) (\<lambda>s db.
          bind_handled (lifted (upsert_mapping s db (cs_tenant_id console) (mi_client_event_type body) (event_type_value ty)
              (mi_amount_field_path body) (mi_counterparty_field_path body) (mi_occurred_at_field_path body) fresh_id))
            (\<lambda>(db', row). Inr (db', mapping_part_of row))) db)"

section \<open>pipeline.py\<close>

definition run_pipeline_endpoint :: "console_session \<Rightarrow> string \<Rightarrow> instant \<Rightarrow> datastore \<Rightarrow> (string \<times> string) handled \<times> datastore" where
  "run_pipeline_endpoint console fresh_id now =
     tenant_session (db_for_tenant (cs_tenant_id console)) (\<lambda>s db.
       if \<not> granted (ss_role s) INSERT T_PIPELINE_RUNS then Inl (Raised permission_denied)
       else let (rows, run) = create_run (cs_tenant_id console) fresh_id now (ds_pipeline_runs db)
         in Inr (db\<lparr>ds_pipeline_runs := rows\<rparr>, (pr_id run, ''QUEUED'')))"

record run_out =
  rq_run_id :: string
  rq_status :: string
  rq_stages :: "(string \<times> string) list"
  rq_external_source :: "string option"
  rq_ranking_strategy :: "string option"
  rq_context_row_count :: "int option"
  rq_reason_source_counts :: "(string \<times> int) list"
  rq_error :: "string option"
  rq_created_at :: string
  rq_started_at :: "string option"
  rq_finished_at :: "string option"

fun run_status_value :: "run_status \<Rightarrow> string" where
  "run_status_value QUEUED = ''QUEUED''"
| "run_status_value RUNNING = ''RUNNING''"
| "run_status_value SUCCEEDED = ''SUCCEEDED''"
| "run_status_value FAILED = ''FAILED''"

definition get_pipeline_run ::
  "(instant \<Rightarrow> string) \<Rightarrow> string \<Rightarrow> console_session \<Rightarrow> datastore \<Rightarrow> run_out handled \<times> datastore" where
  "get_pipeline_run isoformat run_id console db =
     (case parse_uuid run_id of
        None \<Rightarrow> (Inl (ApiError (not_found ''pipeline run not found'')), db)
      | Some run_uuid \<Rightarrow> console_read (cs_tenant_id console) (\<lambda>s db.
          bind_handled (lifted (sql_select s T_PIPELINE_RUNS pr_tenant_id (ds_pipeline_runs db))) (\<lambda>rows.
          case get_run (cs_tenant_id console) run_uuid rows of
              None \<Rightarrow> Inl (ApiError (not_found (''pipeline run '' @ run_id @ '' not found'')))
            | Some run \<Rightarrow> Inr \<lparr>rq_run_id = pr_id run, rq_status = run_status_value (pr_status run), rq_stages = pr_stages run,
                rq_external_source = pr_external_source run, rq_ranking_strategy = pr_ranking_strategy run,
                rq_context_row_count = pr_context_row_count run, rq_reason_source_counts = pr_reason_source_counts run,
                rq_error = pr_error run, rq_created_at = isoformat (pr_created_at run),
                rq_started_at = map_option isoformat (pr_started_at run),
                rq_finished_at = map_option isoformat (pr_finished_at run)\<rparr>)) db)"

section \<open>measurement.py\<close>

record measurement_out =
  mz_experiment_id :: string
  mz_name :: string
  mz_synthetic_data :: bool
  mz_report :: lift_report

definition measurement_rows ::
  "string \<Rightarrow> string \<Rightarrow> string \<Rightarrow> db_session \<Rightarrow> datastore \<Rightarrow>
   (experiment_row \<times> experiment_assignment_row list \<times> outcome_event_row list) handled" where
  "measurement_rows tid experiment_id experiment_uuid s db =
     bind_handled (lifted (get_experiment s db tid experiment_uuid)) (\<lambda>found. case found of
         None \<Rightarrow> Inl (ApiError (not_found (''experiment '' @ experiment_id @ '' not found'')))
       | Some experiment \<Rightarrow>
           bind_handled (lifted (list_assignments s db tid experiment_uuid)) (\<lambda>assignments.
           bind_handled (lifted (experiment_outcomes s db tid experiment_uuid)) (\<lambda>outcomes.
             Inr (experiment, assignments, outcomes))))"

definition measurement_endpoint :: "api_settings \<Rightarrow> string \<Rightarrow> console_session \<Rightarrow> datastore \<Rightarrow> measurement_out handled \<times> datastore" where
  "measurement_endpoint st experiment_id console db =
     (case parse_uuid experiment_id of
        None \<Rightarrow> (Inl (ApiError (not_found ''experiment not found'')), db)
      | Some experiment_uuid \<Rightarrow>
          let tid = cs_tenant_id console;
              (read, db') = console_read tid (measurement_rows tid experiment_id experiment_uuid) db
          in (bind_handled read (\<lambda>(experiment, assignments, outcomes).
                bind_handled (lifted (get_measurement (map assignment_row.truncate assignments)
                    (map outcome_row.truncate outcomes) (as_measurement_min_arm_size st))) (\<lambda>report.
                  Inr \<lparr>mz_experiment_id = ep_id experiment, mz_name = ep_name experiment, mz_synthetic_data = True,
                       mz_report = report\<rparr>)), db'))"

section \<open>external\_signals.py, incentives.py, feedback.py, segments.py\<close>

record signal_out =
  so_signal_id :: string
  so_scope_type :: string
  so_scope_key :: string
  so_signal_type :: string
  so_value :: pyfloat
  so_observed_at :: string
  so_source :: string

record signal_list =
  sl_source :: string
  sl_synthetic_data :: bool
  sl_items :: "signal_out list"

definition list_external_signals ::
  "(instant \<Rightarrow> string) \<Rightarrow> string option \<Rightarrow> string option \<Rightarrow> string option \<Rightarrow> int \<Rightarrow> console_session \<Rightarrow> datastore \<Rightarrow>
   signal_list handled \<times> datastore" where
  "list_external_signals isoformat scope_type scope_key signal_type limit console db =
     check_query (1 \<le> limit \<and> limit \<le> 500)
       (console_read (cs_tenant_id console) (\<lambda>s db.
          bind_handled (lifted (list_signals s db (cs_tenant_id console) scope_type scope_key signal_type limit 0)) (\<lambda>rows.
          let items = map (\<lambda>r. \<lparr>so_signal_id = sg_id r, so_scope_type = sg_scope_type r, so_scope_key = sg_scope_key r,
                 so_signal_type = sg_signal_type r, so_value = sg_value r, so_observed_at = isoformat (sg_observed_at r),
                 so_source = sg_source r\<rparr>) rows
          in Inr \<lparr>sl_source = (case items of [] \<Rightarrow> ''canned'' | i # _ \<Rightarrow> so_source i), sl_synthetic_data = True,
                  sl_items = items\<rparr>)) db) db"

record incentive_out =
  no_code :: string
  no_display_name :: string
  no_cost_idr :: int
  no_encourages_borrowing :: bool
  no_subject_type :: string
  no_active :: bool

definition list_incentives_endpoint :: "console_session \<Rightarrow> datastore \<Rightarrow> incentive_out list handled \<times> datastore" where
  "list_incentives_endpoint console =
     console_read (cs_tenant_id console) (\<lambda>s db.
       bind_handled (lifted (list_incentives s db (cs_tenant_id console) False)) (\<lambda>rows.
         Inr (map (\<lambda>r. \<lparr>no_code = iv_code r, no_display_name = iv_display_name r, no_cost_idr = iv_cost_idr r,
                      no_encourages_borrowing = iv_encourages_borrowing r, no_subject_type = iv_subject_type r,
                      no_active = iv_active r\<rparr>) rows)))"

record feedback_summary_out =
  fo_tenant_id :: string
  fo_synthetic_data :: bool
  fo_labeled_examples_total :: nat
  fo_new_since_last_run :: nat
  fo_by_arm :: "(string \<times> nat) list"

definition feedback_summary_endpoint :: "console_session \<Rightarrow> instant \<Rightarrow> datastore \<Rightarrow> feedback_summary_out handled \<times> datastore" where
  "feedback_summary_endpoint console now =
     console_read (cs_tenant_id console) (\<lambda>s db.
       bind_handled (lifted (feedback_counts s db (cs_tenant_id console) 24 now)) (\<lambda>r.
         Inr \<lparr>fo_tenant_id = cs_tenant_id console, fo_synthetic_data = True, fo_labeled_examples_total = fc_total r,
              fo_new_since_last_run = fc_new r, fo_by_arm = fc_by_arm r\<rparr>))"

definition list_segments :: "console_session \<Rightarrow> instant \<Rightarrow> datastore \<Rightarrow> user_segment list handled \<times> datastore" where
  "list_segments console now =
     console_read (cs_tenant_id console) (\<lambda>s db. lifted (get_user_segments s db (cs_tenant_id console) 30 now))"

section \<open>audit.py\<close>

record audit_entry_out =
  eo_id :: string
  eo_actor :: string
  eo_action :: string
  eo_entity_type :: string
  eo_entity_id :: string
  eo_at :: string
  eo_detail :: "(string \<times> json) list"

definition list_audit_log ::
  "(instant \<Rightarrow> string) \<Rightarrow> int \<Rightarrow> int \<Rightarrow> console_session \<Rightarrow> datastore \<Rightarrow> audit_entry_out page handled \<times> datastore" where
  "list_audit_log isoformat limit cursor console db =
     check_query (1 \<le> limit \<and> limit \<le> 500 \<and> 0 \<le> cursor)
       (console_read (cs_tenant_id console) (\<lambda>s db.
          let rows = audit_list_recent s (ds_core db) (cs_tenant_id console) (nat limit) (nat cursor)
          in Inr \<lparr>pg_items = map (\<lambda>r. \<lparr>eo_id = au_id r, eo_actor = au_actor r, eo_action = au_action r,
                    eo_entity_type = au_entity_type r, eo_entity_id = au_entity_id r, eo_at = isoformat (au_at r),
                    eo_detail = au_detail r\<rparr>) rows,
                  pg_next_cursor = next_cursor cursor limit (length rows)\<rparr>) db) db"

end
