(* ===== verification/Isolation.thy ===== *)
theory Isolation
  imports Console
begin

text \<open>
  What the console's reads depend on: the rows of the reviewer's own tenant, and nothing else.
\<close>

definition tenant_view :: "string \<Rightarrow> datastore \<Rightarrow> datastore" where
  "tenant_view tid db = db
     \<lparr>ds_mappings := filter (\<lambda>r. mp_tenant_id r = tid) (ds_mappings db),
      ds_incentives := filter (\<lambda>r. iv_tenant_id r = tid) (ds_incentives db),
      ds_raw_events := filter (\<lambda>r. rv_tenant_id r = tid) (ds_raw_events db),
      ds_canonical_events := filter (\<lambda>r. cv_tenant_id r = tid) (ds_canonical_events db),
      ds_external_signals := filter (\<lambda>r. sg_tenant_id r = tid) (ds_external_signals db),
      ds_users := filter (\<lambda>r. us_tenant_id r = tid) (ds_users db),
      ds_risk_scores := filter (\<lambda>r. rk_tenant_id r = tid) (ds_risk_scores db),
      ds_impact_scores := filter (\<lambda>r. ip_tenant_id r = tid) (ds_impact_scores db),
      ds_pipeline_runs := filter (\<lambda>r. pr_tenant_id r = tid) (ds_pipeline_runs db),
      ds_allocation_runs := filter (\<lambda>r. al_tenant_id r = tid) (ds_allocation_runs db),
      ds_allocation_candidates := filter (\<lambda>r. ac_tenant_id r = tid) (ds_allocation_candidates db),
      ds_experiments := filter (\<lambda>r. ep_tenant_id r = tid) (ds_experiments db),
      ds_assignments := filter (\<lambda>r. ea_tenant_id r = tid) (ds_assignments db),
      ds_outcomes := filter (\<lambda>r. ov_tenant_id r = tid) (ds_outcomes db),
      ds_labeled_examples := filter (\<lambda>r. lx_tenant_id r = tid) (ds_labeled_examples db),
      ds_core := (ds_core db)\<lparr>db_audit_log := filter (\<lambda>r. Lifecycle.audit_row.au_tenant_id r = tid) (db_audit_log (ds_core db))\<rparr>\<rparr>"

named_theorems view_simps \<open>a statement of the session of a tenant does not see the rows of another\<close>

lemma sql_select_view [view_simps]:
  "tid = ss_tenant_id s \<Longrightarrow> sql_select s t f (filter (\<lambda>r. f r = tid) rows) = sql_select s t f rows"
  by (simp add: sql_select_def conj_commute)

lemma console_tenant [simp]: "ss_tenant_id (db_for_tenant tid) = tid"
  by (simp add: db_for_tenant_def)




lemma users_of_view [view_simps]: "ss_tenant_id s = tid \<Longrightarrow> users_of s (tenant_view tid db) t = users_of s db t"
  by (simp add: users_of_def tenant_view_def view_simps)

lemma latest_risk_of_view [view_simps]: "ss_tenant_id s = tid \<Longrightarrow> latest_risk_of s (tenant_view tid db) t = latest_risk_of s db t"
  by (simp add: latest_risk_of_def tenant_view_def view_simps)

lemma latest_impact_of_view [view_simps]:
  "ss_tenant_id s = tid \<Longrightarrow> latest_impact_of s (tenant_view tid db) t = latest_impact_of s db t"
  by (simp add: latest_impact_of_def tenant_view_def view_simps)

lemma list_users_view [view_simps]:
  "ss_tenant_id s = tid \<Longrightarrow> list_users s (tenant_view tid db) t q limit off = list_users s db t q limit off"
  by (simp add: list_users_def view_simps)

lemma get_user_view [view_simps]: "ss_tenant_id s = tid \<Longrightarrow> get_user s (tenant_view tid db) t u = get_user s db t u"
  by (simp add: get_user_def view_simps)

lemma risk_view [view_simps]:
  "ss_tenant_id s = tid \<Longrightarrow> get_latest_risk_score s (tenant_view tid db) t u = get_latest_risk_score s db t u"
  "ss_tenant_id s = tid \<Longrightarrow> get_latest_impact_scores s (tenant_view tid db) t u = get_latest_impact_scores s db t u"
  by (simp_all add: get_latest_risk_score_def get_latest_impact_scores_def tenant_view_def view_simps)

lemma allocation_view [view_simps]:
  "ss_tenant_id s = tid \<Longrightarrow> get_allocation_run s (tenant_view tid db) t i = get_allocation_run s db t i"
  "ss_tenant_id s = tid \<Longrightarrow> list_candidates s (tenant_view tid db) t i = list_candidates s db t i"
  by (simp_all add: get_allocation_run_def list_candidates_def tenant_view_def view_simps)

lemma experiment_view [view_simps]:
  "ss_tenant_id s = tid \<Longrightarrow> get_experiment s (tenant_view tid db) t i = get_experiment s db t i"
  "ss_tenant_id s = tid \<Longrightarrow> list_assignments s (tenant_view tid db) t i = list_assignments s db t i"
  "ss_tenant_id s = tid \<Longrightarrow> experiment_outcomes s (tenant_view tid db) t i = experiment_outcomes s db t i"
  by (simp_all add: get_experiment_def experiments_of_def list_assignments_def experiment_outcomes_def tenant_view_def view_simps)

lemma catalog_view [view_simps]:
  "ss_tenant_id s = tid \<Longrightarrow> list_mappings s (tenant_view tid db) t a = list_mappings s db t a"
  "ss_tenant_id s = tid \<Longrightarrow> list_incentives s (tenant_view tid db) t a = list_incentives s db t a"
  "ss_tenant_id s = tid \<Longrightarrow> list_signals s (tenant_view tid db) t x y z l off = list_signals s db t x y z l off"
  "ss_tenant_id s = tid \<Longrightarrow> feedback_counts s (tenant_view tid db) t h now = feedback_counts s db t h now"
  by (simp_all add: list_mappings_def list_incentives_def list_signals_def feedback_counts_def tenant_view_def view_simps)

lemma tenant_canonical_view:
  "ss_tenant_id s = tid \<Longrightarrow> sql_select s t cv_tenant_id (ds_canonical_events (tenant_view tid db))
     = sql_select s t cv_tenant_id (ds_canonical_events db)"
  by (simp add: tenant_view_def view_simps)

lemma segments_view [view_simps]:
  "ss_tenant_id s = tid \<Longrightarrow> get_user_segments s (tenant_view tid db) t w now = get_user_segments s db t w now"
  by (simp add: get_user_segments_def user_volumes_def view_simps tenant_canonical_view)

lemma runs_view [view_simps]:
  "ss_tenant_id s = tid \<Longrightarrow> sql_select s T_PIPELINE_RUNS pr_tenant_id (ds_pipeline_runs (tenant_view tid db))
     = sql_select s T_PIPELINE_RUNS pr_tenant_id (ds_pipeline_runs db)"
  by (simp add: tenant_view_def view_simps)

lemma audit_view [view_simps]:
  "ss_tenant_id s = tid \<Longrightarrow> audit_list_recent s (ds_core (tenant_view tid db)) t l off = audit_list_recent s (ds_core db) t l off"
  by (simp add: audit_list_recent_def tenant_view_def conj_ac)


section \<open>Endpoints\<close>


lemma user_risk_rows_view [view_simps]:
  "ss_tenant_id s = tid \<Longrightarrow> user_risk_rows repr t u s (tenant_view tid db) = user_risk_rows repr t u s db"
  by (simp add: user_risk_rows_def view_simps cong: option.case_cong)

lemma measurement_rows_view [view_simps]:
  "ss_tenant_id s = tid \<Longrightarrow> measurement_rows t i u s (tenant_view tid db) = measurement_rows t i u s db"
  by (simp add: measurement_rows_def view_simps cong: option.case_cong)







end
