(* ===== verification/Postgres.thy ===== *)
theory Postgres
  imports Store Repositories Values
begin

text \<open>
  \<open>worker/postgres_store.py\<close>: the store of a worker over the repositories, one function per method, under the method's
  name with \<open>\_pg\<close>.  A store is bound to one tenant and lives for one run; it keeps the five caches that carry the
  ids of one stage's rows to a later one.  Each method is a transaction of the worker role: what it wrote is undone when it
  raises, its caches are not.  Fresh UUIDs and the time of the inserts are arguments; so are the UTC offset of the times
  the driver returns, the text of a JSON scalar and the numbers a JSON string may stand for.
\<close>

section \<open>The store\<close>

record postgres_store =
  pg_database :: datastore
  pg_tenant_id :: string
  pg_snapshot_by_user :: "(string \<times> circle_snapshot) list"
  pg_circle_id_by_str :: "(string \<times> string) list"
  pg_signal_id_by_str :: "(string \<times> string) list"
  pg_allocation_run_id :: "string option"
  pg_alloc_candidate_row_id_by_candidate_id :: "(string \<times> string) list"

definition new_store :: "datastore \<Rightarrow> string \<Rightarrow> postgres_store" where
  "new_store db tid =
     \<lparr>pg_database = db, pg_tenant_id = tid, pg_snapshot_by_user = [], pg_circle_id_by_str = [], pg_signal_id_by_str = [],
      pg_allocation_run_id = None, pg_alloc_candidate_row_id_by_candidate_id = []\<rparr>"

type_synonym 'a stored = "postgres_store \<Rightarrow> 'a result \<times> postgres_store"

definition bind_stored :: "'a stored \<Rightarrow> ('a \<Rightarrow> 'b stored) \<Rightarrow> 'b stored" where
  "bind_stored m f = (\<lambda>st. case m st of (Inl e, st') \<Rightarrow> (Inl e, st') | (Inr x, st') \<Rightarrow> f x st')"

definition returned :: "'a result \<Rightarrow> 'a stored" where
  "returned r = (\<lambda>st. (r, st))"

text \<open>A read and a write of the database.\<close>

definition queried :: "(datastore \<Rightarrow> 'a result) \<Rightarrow> 'a stored" where
  "queried q = (\<lambda>st. (q (pg_database st), st))"

definition executed :: "(datastore \<Rightarrow> (datastore \<times> 'a) result) \<Rightarrow> 'a stored" where
  "executed w = (\<lambda>st. case w (pg_database st) of Inl e \<Rightarrow> (Inl e, st) | Inr (db, x) \<Rightarrow> (Inr x, st\<lparr>pg_database := db\<rparr>))"

definition executed_unit :: "(datastore \<Rightarrow> datastore result) \<Rightarrow> unit stored" where
  "executed_unit w = executed (\<lambda>db. bind_result (w db) (\<lambda>db'. Inr (db', ())))"

definition cached :: "(postgres_store \<Rightarrow> postgres_store) \<Rightarrow> unit stored" where
  "cached f = (\<lambda>st. (Inr (), f st))"

text \<open>\<open>with self.\_session() as session\<close>\<close>

definition in_session :: "(db_session \<Rightarrow> 'a stored) \<Rightarrow> 'a stored" where
  "in_session body = (\<lambda>st. case assert_safe_identifier (pg_tenant_id st) of
      Inl e \<Rightarrow> (Inl e, st)
    | Inr _ \<Rightarrow> (case body (db_for_ingest (pg_tenant_id st)) st of
          (Inl e, st') \<Rightarrow> (Inl e, st'\<lparr>pg_database := pg_database st\<rparr>)
        | (Inr x, st') \<Rightarrow> (Inr x, st')))"

text \<open>\<open>for i, x in enumerate(xs): body(i, x)\<close>\<close>

fun each :: "nat \<Rightarrow> 'x list \<Rightarrow> (nat \<Rightarrow> 'x \<Rightarrow> unit stored) \<Rightarrow> unit stored" where
  "each i [] body = returned (Inr ())"
| "each i (x # xs) body = bind_stored (body i x) (\<lambda>_. each (Suc i) xs body)"

definition parse_uuid_or_raise :: "string \<Rightarrow> string result" where
  "parse_uuid_or_raise v =
     (case parse_uuid v of None \<Rightarrow> Inl (ValueError ''badly formed hexadecimal UUID string'') | Some u \<Rightarrow> Inr u)"

definition or_zero :: "int option \<Rightarrow> int" where
  "or_zero v = (case v of None \<Rightarrow> 0 | Some n \<Rightarrow> n)"

section \<open>Tenants and events\<close>

record pg_tenant_record =
  pt_tenant_id :: string
  pt_slug :: string
  pt_profile_type :: string
  pt_mapping :: "(string \<times> json) list"

definition json_text :: "string option \<Rightarrow> json" where
  "json_text v = (case v of None \<Rightarrow> JNull | Some s \<Rightarrow> JStr s)"

definition mapping_json :: "mapping_row \<Rightarrow> json" where
  "mapping_json r = JDict
     [(''client_event_type'', JStr (mp_client_event_type r)), (''canonical_event_type'', JStr (mp_canonical_event_type r)),
      (''amount_field_path'', JStr (mp_amount_field_path r)), (''counterparty_field_path'', json_text (mp_counterparty_field_path r)),
      (''occurred_at_field_path'', JStr (mp_occurred_at_field_path r)), (''active'', JBool (mp_active r))]"

definition select_tenant :: "db_session \<Rightarrow> datastore \<Rightarrow> string \<Rightarrow> tenant option result" where
  "select_tenant s db tid =
     (if \<not> granted (ss_role s) SELECT T_TENANTS then Inl permission_denied
      else scalar_one_or_none (filter (\<lambda>t :: tenant. tn_id t = tid) (dr_tenants (ds_directory db))))"

definition get_tenant_pg :: "string \<Rightarrow> pg_tenant_record stored" where
  "get_tenant_pg tid = in_session (\<lambda>s. queried (\<lambda>db.
     bind_result (select_tenant s db tid) (\<lambda>found. case found of
         None \<Rightarrow> Inl (LookupError (''tenant '' @ tid @ '' not found''))
       | Some t \<Rightarrow> bind_result (list_mappings s db tid True) (\<lambda>rows.
           Inr \<lparr>pt_tenant_id = tn_id t, pt_slug = tn_slug t, pt_profile_type = tn_profile_type t,
                pt_mapping = [(''tenant_slug'', JStr (tn_slug t)), (''profile_type'', JStr (tn_profile_type t)),
                              (''mappings'', JList (map mapping_json rows))]\<rparr>))))"

definition claim_raw_events_pg :: "string \<Rightarrow> int \<Rightarrow> raw_event_record list stored" where
  "claim_raw_events_pg tid limit = in_session (\<lambda>s. queried (\<lambda>db.
     bind_result (claim_unprocessed s db tid limit) (\<lambda>rows.
       Inr (map (\<lambda>r. \<lparr>re_raw_event_id = rv_id r, re_tenant_id = tid, re_body = rv_payload r, re_status = ''NEW'',
                      re_error = None\<rparr>) rows))))"

definition mark_raw_event_pg :: "string \<Rightarrow> string \<Rightarrow> string \<Rightarrow> string option \<Rightarrow> instant \<Rightarrow> unit stored" where
  "mark_raw_event_pg tid raw_event_id status error now = in_session (\<lambda>s.
     bind_stored (returned (parse_uuid_or_raise raw_event_id)) (\<lambda>rid.
       if status = ''PROCESSED'' then executed_unit (\<lambda>db. mark_processed s db rid now)
       else if status = ''UNMAPPED''
       then executed_unit (\<lambda>db. mark_unmapped s db rid (case error of None \<Rightarrow> [] | Some m \<Rightarrow> m) now)
       else returned (Inl (ValueError (''unknown raw event status '' @ status)))))"

definition canonical_row :: "db_session \<Rightarrow> datastore \<Rightarrow> string \<Rightarrow> canonical_event \<Rightarrow> canonical_event_row result" where
  "canonical_row s db tid e =
     bind_result (get_raw_event_id_by_client_id s db tid (e_client_event_id e)) (\<lambda>found. case found of
         None \<Rightarrow> Inl (LookupError (''no raw_events row for client_event_id '' @ e_client_event_id e))
       | Some raw_id \<Rightarrow> Inr
           \<lparr>cv_id = [], cv_tenant_id = tid, cv_raw_event_id = raw_id, cv_user_pseudonym = e_user_pseudonym e,
            cv_canonical_type = event_type_value (e_event_type e), cv_occurred_at = e_occurred_at e,
            cv_amount_idr = or_zero (e_amount_idr e), cv_counterparty_pseudonym = e_counterparty_pseudonym e,
            cv_attributes = e_attributes e\<rparr>)"

definition save_canonical_events_pg :: "string \<Rightarrow> canonical_event list \<Rightarrow> (nat \<Rightarrow> string) \<Rightarrow> nat stored" where
  "save_canonical_events_pg tid events fresh =
     (if events = [] then returned (Inr 0)
      else in_session (\<lambda>s. executed (\<lambda>db.
        bind_result (map_result (canonical_row s db tid) events) (\<lambda>rows.
        bind_result (insert_canonical_events s db rows fresh) (\<lambda>(db', ids). Inr (db', length ids))))))"

definition event_of_row :: "(instant \<Rightarrow> int) \<Rightarrow> canonical_event_row \<times> string \<Rightarrow> canonical_event result" where
  "event_of_row offset_of = (\<lambda>(r, client_event_id).
     bind_result (parse_event_type (cv_canonical_type r)) (\<lambda>ty.
       make_canonical_event (cv_tenant_id r) client_event_id ty
         \<lparr>dt_instant = cv_occurred_at r, dt_offset = Some (offset_of (cv_occurred_at r))\<rparr> (cv_user_pseudonym r)
         (Some (cv_amount_idr r)) (cv_counterparty_pseudonym r) (cv_attributes r)))"

definition load_canonical_events_pg :: "(instant \<Rightarrow> int) \<Rightarrow> string \<Rightarrow> instant \<Rightarrow> canonical_event list stored" where
  "load_canonical_events_pg offset_of tid since = in_session (\<lambda>s. queried (\<lambda>db.
     bind_result (load_since s db tid since) (map_result (event_of_row offset_of))))"

definition upsert_user_attributes_pg ::
  "(json \<Rightarrow> string) \<Rightarrow> string \<Rightarrow> string \<Rightarrow> (string \<times> json) list \<Rightarrow> instant \<Rightarrow> unit stored" where
  "upsert_user_attributes_pg other tid user attributes now =
     in_session (\<lambda>s. executed_unit (\<lambda>db. upsert_attributes other s db tid user attributes now))"

definition load_user_attributes_pg :: "string \<Rightarrow> (string \<times> (string \<times> string) list) list stored" where
  "load_user_attributes_pg tid = in_session (\<lambda>s. queried (\<lambda>db. load_attributes s db tid))"

section \<open>Catalog, signals, context\<close>

definition incentive_of_row :: "incentive_row \<Rightarrow> incentive" where
  "incentive_of_row r =
     \<lparr>in_code = iv_code r, in_display_name = iv_display_name r, in_cost_idr = iv_cost_idr r,
      in_encourages_borrowing = iv_encourages_borrowing r, in_changes_credit_terms = iv_changes_credit_terms r,
      in_is_group = (iv_subject_type r = ''GROUP''), in_applicable_profile_types = iv_applicable_profile_types r,
      in_active = iv_active r\<rparr>"

definition load_incentives_pg :: "string \<Rightarrow> incentive list stored" where
  "load_incentives_pg tid = in_session (\<lambda>s. queried (\<lambda>db.
     bind_result (list_incentives s db tid True) (\<lambda>rows. Inr (map incentive_of_row rows))))"

definition signal_row_of :: "external_signal \<Rightarrow> signal_row" where
  "signal_row_of x =
     \<lparr>sg_id = [], sg_tenant_id = [], sg_scope_type = scope_value (s_scope_type x), sg_scope_key = s_scope_key x,
      sg_signal_type = signal_type_value (s_signal_type x), sg_value = s_value x, sg_observed_at = s_observed_at x,
      sg_source = s_source x, sg_ingested_at = 0\<rparr>"

definition put_all :: "('k \<times> 'v) list \<Rightarrow> ('k \<times> 'v) list \<Rightarrow> ('k \<times> 'v) list" where
  "put_all kvs d = foldl (\<lambda>d (k, v). AList.update k v d) d kvs"

definition save_external_signals_pg :: "external_signal list \<Rightarrow> (nat \<Rightarrow> string) \<Rightarrow> instant \<Rightarrow> unit stored" where
  "save_external_signals_pg signals fresh now st =
     (if signals = [] then returned (Inr ())
      else in_session (\<lambda>s. bind_stored
        (executed (\<lambda>db. insert_signals s db (pg_tenant_id st) (map signal_row_of signals) fresh now)) (\<lambda>written.
        cached (\<lambda>st. st\<lparr>pg_signal_id_by_str :=
          put_all (zip (map s_signal_id signals) (map sg_id written)) (pg_signal_id_by_str st)\<rparr>)))) st"

definition load_contact_times_pg :: "string \<Rightarrow> (string \<times> instant list) list stored" where
  "load_contact_times_pg tid = in_session (\<lambda>s. queried (\<lambda>db. load_contact_rows s db tid))"

section \<open>Labeled examples\<close>

text \<open>The stored snapshot of an example, and what is read back from one (\<open>row.feature\_snapshot or \{\}\<close>).\<close>

definition float_value :: "pyfloat option \<Rightarrow> json" where
  "float_value v = (case v of None \<Rightarrow> JNull | Some x \<Rightarrow> JFloat x)"

definition example_snapshot :: "labeled_example \<Rightarrow> (string \<times> json) list" where
  "example_snapshot e =
     [(''features'', JDict (map (\<lambda>(k, x). (k, JFloat x)) (le_features e))),
      (''churn_risk'', float_value (le_churn_risk e)), (''impact_score'', float_value (le_impact_score e)),
      (''pattern_type'', json_text (le_pattern_type e)), (''incentive_code'', json_text (le_incentive_code e)),
      (''cost_idr'', JInt (le_cost_idr e)), (''business_value_idr'', JInt (le_business_value_idr e))]"

fun text_column :: "json option \<Rightarrow> string option result" where
  "text_column None = Inr None"
| "text_column (Some JNull) = Inr None"
| "text_column (Some (JStr s)) = Inr (Some s)"
| "text_column (Some v) = Inl conversion_error"

definition float_items :: "(string \<Rightarrow> pyfloat result) \<Rightarrow> (string \<times> json) list \<Rightarrow> (string \<times> pyfloat) list result" where
  "float_items text_float = map_result (\<lambda>(k, v). bind_result (float_of_value text_float v) (\<lambda>x. Inr (k, x)))"

definition features_of :: "(string \<Rightarrow> pyfloat result) \<Rightarrow> json option \<Rightarrow> (string \<times> pyfloat) list result" where
  "features_of text_float v = (case v of
      None \<Rightarrow> Inr []
    | Some (JDict d) \<Rightarrow> float_items text_float d
    | Some _ \<Rightarrow> Inl conversion_error)"

definition int_column :: "(string \<Rightarrow> int result) \<Rightarrow> json option \<Rightarrow> int result" where
  "int_column text_int v = (case v of
      None \<Rightarrow> Inr 0
    | Some JNull \<Rightarrow> Inl conversion_error
    | Some w \<Rightarrow> bind_result (optional_int text_int (Some w)) (\<lambda>n. Inr (or_zero n)))"

definition example_of_row ::
  "(string \<Rightarrow> int result) \<Rightarrow> (string \<Rightarrow> pyfloat result) \<Rightarrow> string \<Rightarrow> labeled_example_row \<Rightarrow> labeled_example result" where
  "example_of_row text_int text_float tid row =
     (let snap = map_of (lx_feature_snapshot row) in
      bind_result (features_of text_float (snap ''features'')) (\<lambda>features.
      bind_result (parse_arm (lx_arm row)) (\<lambda>arm.
      bind_result (optional_float text_float (snap ''churn_risk'')) (\<lambda>risk.
      bind_result (optional_float text_float (snap ''impact_score'')) (\<lambda>impact.
      bind_result (text_column (snap ''pattern_type'')) (\<lambda>pattern.
      bind_result (text_column (snap ''incentive_code'')) (\<lambda>code.
      bind_result (int_column text_int (snap ''cost_idr'')) (\<lambda>cost.
      bind_result (int_column text_int (snap ''business_value_idr'')) (\<lambda>value.
        Inr \<lparr>le_tenant_id = tid,
             le_source_outcome_id = (case lx_source_outcome_id row of Some i \<Rightarrow> i | None \<Rightarrow> lx_id row),
             le_user_pseudonym = lx_user_pseudonym row, le_features = features, le_arm = arm,
             le_treated = lx_treated row, le_retained = lx_retained row, le_churn_risk = risk, le_impact_score = impact,
             le_pattern_type = pattern, le_incentive_code = code, le_cost_idr = cost, le_business_value_idr = value,
             le_realized_value_idr = float_of_int (or_zero (lx_realized_value_idr row))\<rparr>)))))))))"

definition load_labeled_examples_pg ::
  "(string \<Rightarrow> int result) \<Rightarrow> (string \<Rightarrow> pyfloat result) \<Rightarrow> string \<Rightarrow> labeled_example list stored" where
  "load_labeled_examples_pg text_int text_float tid = in_session (\<lambda>s. queried (\<lambda>db.
     bind_result (load_labeled_rows s db tid) (map_result (example_of_row text_int text_float tid))))"

definition row_of_example :: "labeled_example \<Rightarrow> labeled_example_row" where
  "row_of_example e =
     \<lparr>lx_id = [], lx_tenant_id = [], lx_source_experiment_id = None,
      lx_source_outcome_id = parse_uuid (le_source_outcome_id e), lx_user_pseudonym = le_user_pseudonym e,
      lx_arm = arm_value (le_arm e), lx_treated = le_treated e, lx_retained = le_retained e,
      lx_realized_value_idr = Some (round_half_even (le_realized_value_idr e)),
      lx_feature_snapshot = example_snapshot e, lx_created_at = 0\<rparr>"

definition save_labeled_examples_pg :: "labeled_example list \<Rightarrow> (string \<Rightarrow> nat \<Rightarrow> string) \<Rightarrow> instant \<Rightarrow> unit stored" where
  "save_labeled_examples_pg examples fresh now =
     (if examples = [] then returned (Inr ())
      else in_session (\<lambda>s. each 0 (group_by le_tenant_id examples) (\<lambda>_ (tid, es).
        executed (\<lambda>db. bind_result (insert_labeled_examples s db tid (map row_of_example es) (fresh tid) now)
          (\<lambda>(db', n). Inr (db', ()))))))"

section \<open>Run bookkeeping and scores\<close>

definition record_stage_pg :: "stage_record \<Rightarrow> instant \<Rightarrow> unit stored" where
  "record_stage_pg r now = in_session (\<lambda>s. executed_unit (\<lambda>db.
     bind_result (parse_uuid_or_raise (sr_run_id r)) (\<lambda>run_id.
     bind_result (sql_select s T_PIPELINE_RUNS pr_tenant_id (ds_pipeline_runs db)) (\<lambda>seen.
     case get_run (sr_tenant_id r) run_id seen of
       None \<Rightarrow> Inr db
     | Some _ \<Rightarrow> if \<not> may_update (ss_role s) T_PIPELINE_RUNS [''stages'', ''status'', ''started_at''] then Inl permission_denied
         else Inr (db\<lparr>ds_pipeline_runs :=
                fst (update_stage (sr_tenant_id r) run_id (sr_stage r) (sr_status r) now (ds_pipeline_runs db))\<rparr>)))))"

definition circle_row_of :: "(string \<times> circle_snapshot) list \<Rightarrow> circle \<Rightarrow> circle_row" where
  "circle_row_of snap_by_user c =
     (let members = List.map_filter (map_of snap_by_user) (ci_members c)
      in \<lparr>tc_id = [], tc_tenant_id = [], tc_member_count = int (length (ci_members c)),
          tc_stability_score = (if members = [] then None
             else Some (fdiv (py_fsum (map cs_delta_stability members)) (float_of_int (int (length members))))),
          tc_computed_at = 0\<rparr>)"

definition save_circles_pg ::
  "string \<Rightarrow> circle_snapshot list \<Rightarrow> circle list \<Rightarrow> (nat \<Rightarrow> string) \<Rightarrow> instant \<Rightarrow> unit stored" where
  "save_circles_pg tid snapshots circles fresh now =
     (let by_user = map (\<lambda>x. (cs_user_pseudonym x, x)) snapshots;
          snap_by_user = put_all by_user []
      in bind_stored (cached (\<lambda>st. st\<lparr>pg_snapshot_by_user := put_all by_user (pg_snapshot_by_user st)\<rparr>)) (\<lambda>_.
         if circles = [] then returned (Inr ())
         else in_session (\<lambda>s. each 0 circles (\<lambda>i c.
           bind_stored (executed (\<lambda>db. write_circle_snapshots s db tid [circle_row_of snap_by_user c] (\<lambda>_. fresh i) now))
             (\<lambda>rows. bind_stored (cached (\<lambda>st. st\<lparr>pg_circle_id_by_str :=
                AList.update (ci_circle_id c) (tc_id (hd rows)) (pg_circle_id_by_str st)\<rparr>)) (\<lambda>_.
              executed_unit (\<lambda>db. write_circle_members s db tid (tc_id (hd rows)) (ci_members c))))))))"

definition risk_row_of :: "postgres_store \<Rightarrow> string \<Rightarrow> risk_score \<Rightarrow> risk_score_row" where
  "risk_row_of st run_id x =
     (let snap = map_of (pg_snapshot_by_user st) (rs_user_pseudonym x)
      in \<lparr>rk_id = [], rk_tenant_id = [], rk_user_pseudonym = rs_user_pseudonym x, rk_computed_at = 0,
          rk_pipeline_run_id = Some run_id, rk_churn_risk = rs_churn_risk x,
          rk_delta_stability = (case snap of None \<Rightarrow> 0 | Some c \<Rightarrow> cs_delta_stability c),
          rk_pattern_type = (case snap of None \<Rightarrow> ''STABLE'' | Some c \<Rightarrow> pattern_value (cs_pattern_type c)),
          rk_external_signal_id = (case rs_external_signal_id x of
             None \<Rightarrow> None | Some i \<Rightarrow> if i = [] then None else map_of (pg_signal_id_by_str st) i),
          rk_external_signal_contribution = Some (rs_external_signal_contribution x),
          rk_context_row_count = rs_context_row_count x, rk_features = []\<rparr>)"

definition save_risk_scores_pg :: "string \<Rightarrow> string \<Rightarrow> risk_score list \<Rightarrow> (nat \<Rightarrow> string) \<Rightarrow> instant \<Rightarrow> unit stored" where
  "save_risk_scores_pg tid run_id scores fresh now st =
     (if scores = [] then returned (Inr ())
      else bind_stored (returned (parse_uuid_or_raise run_id)) (\<lambda>run_uuid.
        in_session (\<lambda>s. executed_unit (\<lambda>db.
          bind_result (write_risk_scores s db tid (map (risk_row_of st run_uuid) scores) fresh now)
            (\<lambda>(db', rows). Inr db'))))) st"

definition impact_row_of :: "(string \<times> impact_segment) list \<Rightarrow> string \<times> impact_score_rec \<Rightarrow> impact_score_row result" where
  "impact_row_of segments = (\<lambda>(user, x). case map_of segments user of
      None \<Rightarrow> Inl (KeyError user)
    | Some seg \<Rightarrow> Inr
        \<lparr>ip_id = [], ip_tenant_id = [], ip_user_pseudonym = user, ip_incentive_code = ''GENERIC'', ip_computed_at = 0,
         ip_p_incentivized = is_p_incentivized x, ip_p_not_incentivized = is_p_not_incentivized x,
         ip_impact_score = impact_score x, ip_segment = segment_value seg, ip_features = []\<rparr>)"

definition save_impact_scores_pg ::
  "string \<Rightarrow> string \<Rightarrow> (string \<times> impact_score_rec) list \<Rightarrow> (string \<times> impact_segment) list \<Rightarrow> (nat \<Rightarrow> string) \<Rightarrow> instant \<Rightarrow> unit stored" where
  "save_impact_scores_pg tid run_id scores segments fresh now =
     (if scores = [] then returned (Inr ())
      else bind_stored (returned (map_result (impact_row_of segments) scores)) (\<lambda>rows.
        in_session (\<lambda>s. executed_unit (\<lambda>db.
          bind_result (write_impact_scores s db tid rows fresh now) (\<lambda>(db', written). Inr db')))))"

definition decision_rows :: "policy_decision \<Rightarrow> policy_decision_row list" where
  "decision_rows d = map (\<lambda>r.
     \<lparr>pl_id = [], pl_tenant_id = [], pl_recommendation_id = None, pl_candidate_ref = pd_candidate_id d,
      pl_rule_code = rule_value (rr_rule_code r), pl_outcome = (if rr_allowed r then ''ALLOW'' else ''DENY''),
      pl_detail = [(''reason'', JStr (rr_reason r)), (''user_pseudonym'', JStr (pd_user_pseudonym d))],
      pl_created_at = 0\<rparr>) (pd_results d)"

definition save_policy_decisions_pg :: "string \<Rightarrow> string \<Rightarrow> policy_decision list \<Rightarrow> (nat \<Rightarrow> string) \<Rightarrow> instant \<Rightarrow> unit stored" where
  "save_policy_decisions_pg tid run_id decisions fresh now =
     (if decisions = [] then returned (Inr ())
      else in_session (\<lambda>s. executed_unit (\<lambda>db.
        bind_result (write_decisions s db tid (concat (map decision_rows decisions)) fresh now) (\<lambda>(db', rows). Inr db'))))"

section \<open>Arms and allocations\<close>

definition get_or_create_experiment_pg :: "string \<Rightarrow> int \<Rightarrow> int \<Rightarrow> string \<Rightarrow> instant \<Rightarrow> string stored" where
  "get_or_create_experiment_pg tid control_pct naive_pct fresh_id now = in_session (\<lambda>s.
     bind_stored (queried (\<lambda>db. get_active_experiment s db tid)) (\<lambda>existing. case existing of
         Some e \<Rightarrow> returned (Inr (ep_id e))
       | None \<Rightarrow> executed (\<lambda>db. bind_result (create_experiment s db tid ''default'' control_pct naive_pct fresh_id now)
           (\<lambda>(db', e). Inr (db', ep_id e)))))"

definition save_arm_assignments_pg :: "string \<Rightarrow> string \<Rightarrow> (string \<times> arm) list \<Rightarrow> instant \<Rightarrow> unit stored" where
  "save_arm_assignments_pg tid experiment_id arms now =
     (if arms = [] then returned (Inr ())
      else bind_stored (returned (parse_uuid_or_raise experiment_id)) (\<lambda>exp_uuid.
        in_session (\<lambda>s. each 0 arms (\<lambda>_ (unit_id, arm). executed_unit (\<lambda>db.
          record_assignment s db tid exp_uuid unit_id (arm_value arm) now)))))"

fun RANKING_STRATEGY_FOR_DB :: "ranking_strategy \<Rightarrow> string" where
  "RANKING_STRATEGY_FOR_DB TABPFN = ''TABPFN''"
| "RANKING_STRATEGY_FOR_DB SKLEARN_STAND_IN = ''TABPFN''"
| "RANKING_STRATEGY_FOR_DB FALLBACK = ''FALLBACK''"
| "RANKING_STRATEGY_FOR_DB NAIVE_RISK_ONLY = ''FALLBACK''"

definition truthy_id :: "string option \<Rightarrow> string option" where
  "truthy_id v = (case v of Some (c # cs) \<Rightarrow> Some (c # cs) | _ \<Rightarrow> None)"

definition candidate_columns ::
  "postgres_store \<Rightarrow> (string \<times> candidate) list \<Rightarrow> allocation_decision \<Rightarrow> allocation_candidate_row result" where
  "candidate_columns st by_id d = (case map_of by_id (ad_candidate_id d) of
      None \<Rightarrow> Inl (KeyError (ad_candidate_id d))
    | Some c \<Rightarrow> Inr
        \<lparr>ac_id = [], ac_tenant_id = [], ac_allocation_run_id = [],
         ac_subject_type = (if truthy_id (c_group_id c) = None then ''USER'' else ''GROUP''),
         ac_user_pseudonym = Some (c_user_pseudonym c),
         ac_circle_id = Option.bind (truthy_id (c_group_id c)) (map_of (pg_circle_id_by_str st)),
         ac_incentive_code = c_incentive_code c, ac_churn_risk = Some (c_churn_risk c),
         ac_impact_score = Some (c_impact_score c), ac_segment = Some (segment_value (c_segment c)),
         ac_pattern_type = Some (pattern_value (c_pattern_type c)),
         ac_priority_idr = Some (round_half_even (ad_priority d)), ac_cost_idr = ad_cost_idr d,
         ac_user_rank = map_option int (ad_rank d), ac_selected = ad_selected d,
         ac_exclusion_reason = map_option exclusion_value (ad_exclusion_reason d)\<rparr>)"

definition save_allocation_pg ::
  "string \<Rightarrow> string \<Rightarrow> allocation_result \<Rightarrow> allocation_decision list \<Rightarrow> candidate list \<Rightarrow> ranking_strategy option \<Rightarrow> int \<Rightarrow>
   string \<Rightarrow> (nat \<Rightarrow> string) \<Rightarrow> instant \<Rightarrow> unit stored" where
  "save_allocation_pg tid run_id result extra candidates ranking context_row_count fresh_id fresh now =
     (let by_id = put_all (map (\<lambda>c. (c_candidate_id c, c)) candidates) [];
          decisions = ar_decisions result @ extra;
          strategy_db = (case ranking of None \<Rightarrow> ''FALLBACK'' | Some r \<Rightarrow> RANKING_STRATEGY_FOR_DB r)
      in in_session (\<lambda>s.
        bind_stored (returned (parse_uuid_or_raise run_id)) (\<lambda>run_uuid.
        bind_stored (executed (\<lambda>db. create_allocation_run s db
            \<lparr>al_id = fresh_id, al_tenant_id = tid, al_pipeline_run_id = Some run_uuid, al_budget_idr = ar_budget_idr result,
             al_strategy = ar_strategy result, al_ranking_strategy = strategy_db, al_context_row_count = context_row_count,
             al_objective_value_idr = round_half_even (ar_objective_value_idr result),
             al_candidate_count = int (length candidates), al_selected_count = int (length (ar_selected result)),
             al_created_at = now, al_created_by = None\<rparr>)) (\<lambda>run_row.
        bind_stored (cached (\<lambda>st. st\<lparr>pg_allocation_run_id := Some (al_id run_row)\<rparr>)) (\<lambda>_.
        bind_stored (\<lambda>st. (map_result (candidate_columns st by_id) decisions, st)) (\<lambda>rows.
        bind_stored (executed (\<lambda>db. add_candidates s db tid (al_id run_row) rows fresh)) (\<lambda>written.
        cached (\<lambda>st. st\<lparr>pg_alloc_candidate_row_id_by_candidate_id :=
          put_all (zip (map ad_candidate_id decisions) (map ac_id written))
            (pg_alloc_candidate_row_id_by_candidate_id st)\<rparr>))))))))"

section \<open>Narrations, snapshots, recommendations and the audit log\<close>

definition save_narration_pg :: "string \<Rightarrow> string \<Rightarrow> string \<Rightarrow> string \<Rightarrow> string \<Rightarrow> instant \<Rightarrow> unit stored" where
  "save_narration_pg tid run_id fact_sheet_hash body source now =
     in_session (\<lambda>s. executed_unit (\<lambda>db. save_narration_row s db tid fact_sheet_hash body source now))"

definition snapshot_columns :: "feature_snapshot \<Rightarrow> feature_snapshot_row result" where
  "snapshot_columns f = bind_result (parse_uuid_or_raise (fs_run_id f)) (\<lambda>run_id. Inr
     \<lparr>fp_id = [], fp_tenant_id = [], fp_run_id = run_id, fp_user_pseudonym = fs_user_pseudonym f,
      fp_features = fs_features f, fp_churn_risk = fs_churn_risk f, fp_impact_score = fs_impact_score f,
      fp_pattern_type = fs_pattern_type f, fp_incentive_code = fs_incentive_code f, fp_cost_idr = fs_cost_idr f,
      fp_business_value_idr = fs_business_value_idr f, fp_created_at = 0\<rparr>)"

definition save_feature_snapshots_pg :: "feature_snapshot list \<Rightarrow> (nat \<Rightarrow> string) \<Rightarrow> instant \<Rightarrow> unit stored" where
  "save_feature_snapshots_pg snapshots fresh now st =
     (if snapshots = [] then returned (Inr ())
      else bind_stored (returned (map_result snapshot_columns snapshots)) (\<lambda>rows.
        in_session (\<lambda>s. executed_unit (\<lambda>db. save_many s db (pg_tenant_id st) rows fresh now)))) st"

definition circle_id_of :: "string option \<Rightarrow> postgres_store \<Rightarrow> string option result" where
  "circle_id_of group_id st = (case truthy_id group_id of
      None \<Rightarrow> Inr None
    | Some g \<Rightarrow> (case map_of (pg_circle_id_by_str st) g of
        None \<Rightarrow> Inl (LookupError (''no persisted circle for group_id '' @ g))
      | Some c \<Rightarrow> Inr (Some c)))"

definition pending_columns :: "postgres_store \<Rightarrow> string \<Rightarrow> string option \<Rightarrow> new_recommendation \<Rightarrow> instant \<Rightarrow> recommendation" where
  "pending_columns st run_id circle_id r now =
     (let grouped = truthy_id (nr_group_id r) \<noteq> None
      in \<lparr>rec_id = [], rec_tenant_id = nr_tenant_id r, rec_allocation_run_id = run_id,
          rec_allocation_candidate_id = map_of (pg_alloc_candidate_row_id_by_candidate_id st) (nr_candidate_id r),
          rec_subject_type = (if grouped then ''GROUP'' else ''USER''),
          rec_user_pseudonym = (if grouped then None else nr_user_pseudonym r), rec_circle_id = circle_id,
          rec_incentive_code = nr_incentive_code r, rec_cost_idr = nr_cost_idr r,
          rec_priority_idr = round_half_even (nr_priority r), rec_user_rank = 1, rec_is_runner_up = False,
          rec_status = PENDING_APPROVAL, rec_reason_text = Some (nr_reason_text r), rec_reason_factors = [],
          rec_reason_source = Some (nr_reason_source r), rec_fact_sheet_hash = Some (nr_fact_sheet_hash r),
          rec_created_at = now, rec_submitted_at = None, rec_reviewed_by = None, rec_reviewed_at = None,
          rec_review_note = None, rec_delivered_at = None, rec_delivery_ref = None\<rparr>)"

definition create_recommendations_pg :: "new_recommendation list \<Rightarrow> (nat \<Rightarrow> string) \<Rightarrow> instant \<Rightarrow> unit stored" where
  "create_recommendations_pg recs fresh now st =
     (if recs = [] then returned (Inr ())
      else case pg_allocation_run_id st of
        None \<Rightarrow> returned (Inl (RuntimeError ''create_recommendations called before save_allocation in this run''))
      | Some run_id \<Rightarrow> in_session (\<lambda>s. each 0 recs (\<lambda>i r.
          bind_stored (\<lambda>st. (circle_id_of (nr_group_id r) st, st)) (\<lambda>circle_id.
          executed_unit (\<lambda>db.
            bind_result (create_pending s (ds_core db) (nr_tenant_id r) (pending_columns st run_id circle_id r now) (fresh i) now)
              (\<lambda>(core, row). Inr (db\<lparr>ds_core := core\<rparr>))))))) st"

definition append_audit_pg :: "string \<Rightarrow> audit_entry \<Rightarrow> string \<Rightarrow> instant \<Rightarrow> unit stored" where
  "append_audit_pg tid e fresh_id now = in_session (\<lambda>s. executed_unit (\<lambda>db.
     bind_result (audit_append s (ds_core db) tid (audit_entry.au_actor e) (audit_entry.au_action e) (audit_entry.au_entity_type e)
        (audit_entry.au_entity_id e) (audit_entry.au_detail e) fresh_id now) (\<lambda>core. Inr (db\<lparr>ds_core := core\<rparr>))))"

section \<open>Outcomes and snapshots read back\<close>

definition event_of_outcome :: "string \<Rightarrow> (string \<times> string) list \<Rightarrow> outcome_event_row \<times> string \<Rightarrow> outcome_event result" where
  "event_of_outcome tid latest_run = (\<lambda>(row, arm_text).
     bind_result (parse_arm arm_text) (\<lambda>arm. Inr
       \<lparr>o_outcome_event_id = ov_id row, o_tenant_id = tid,
        o_run_id = (case map_of latest_run (or_user_pseudonym row) of None \<Rightarrow> [] | Some r \<Rightarrow> r),
        o_user_pseudonym = or_user_pseudonym row, o_arm = arm, o_treated = (arm \<noteq> CONTROL),
        o_retained = (or_outcome_type row = ''RETAINED''), o_spend_idr = or_zero (or_value_idr row),
        o_observed_at = ov_observed_at row\<rparr>))"

definition load_outcomes_pg :: "string \<Rightarrow> outcome_event list stored" where
  "load_outcomes_pg tid = in_session (\<lambda>s. queried (\<lambda>db.
     bind_result (sql_select s T_OUTCOME_EVENTS ov_tenant_id (ds_outcomes db)) (\<lambda>outcomes.
     bind_result (sql_select s T_EXPERIMENT_ASSIGNMENTS ea_tenant_id (ds_assignments db)) (\<lambda>assignments.
     bind_result (sql_select s T_FEATURE_SNAPSHOTS fp_tenant_id (ds_feature_snapshots db)) (\<lambda>snapshots.
       let rows = concat (map (\<lambda>o1. map (\<lambda>a. (o1, asg_arm a)) (filter (\<lambda>a. ea_tenant_id a = ov_tenant_id o1
               \<and> ea_experiment_id a = ov_experiment_id o1 \<and> asg_user_pseudonym a = or_user_pseudonym o1) assignments))
             (filter (\<lambda>o1. ov_tenant_id o1 = tid) outcomes));
           latest_run = map (\<lambda>(u, f). (u, fp_run_id f))
             (latest_per fp_user_pseudonym fp_created_at (filter (\<lambda>f. fp_tenant_id f = tid) snapshots))
       in map_result (event_of_outcome tid latest_run) rows)))))"

definition snapshot_of_row :: "string \<Rightarrow> feature_snapshot_row \<Rightarrow> feature_snapshot" where
  "snapshot_of_row tid r =
     \<lparr>fs_tenant_id = tid, fs_run_id = fp_run_id r, fs_user_pseudonym = fp_user_pseudonym r, fs_features = fp_features r,
      fs_churn_risk = fp_churn_risk r, fs_impact_score = fp_impact_score r, fs_pattern_type = fp_pattern_type r,
      fs_incentive_code = fp_incentive_code r, fs_cost_idr = fp_cost_idr r, fs_business_value_idr = fp_business_value_idr r\<rparr>"

definition load_feature_snapshots_pg :: "string \<Rightarrow> ((string \<times> string) \<times> feature_snapshot) list stored" where
  "load_feature_snapshots_pg tid = in_session (\<lambda>s. queried (\<lambda>db.
     bind_result (load_all s db tid) (\<lambda>rows.
       Inr (put_all (map (\<lambda>r. ((fp_run_id r, fp_user_pseudonym r), snapshot_of_row tid r)) rows) []))))"

end
