(* ===== verification/Durable.thy ===== *)
theory Durable
  imports Postgres Console Intake Pipeline
begin

text \<open>
  What the tables keep between the worker and the API: rows written through \<open>Postgres\<close> or the endpoints of \<open>Intake\<close> and
  read back through the other side or by a later run.
\<close>

section \<open>Sessions and inserts\<close>

lemma worker_session [simp]:
  "ss_role (db_for_ingest tid) = APP_WORKER" "ss_tenant_id (db_for_ingest tid) = tid"
  by (simp_all add: db_for_ingest_def)

lemma in_session_Inr:
  "in_session body st = (Inr x, st') \<longleftrightarrow>
     assert_safe_identifier (pg_tenant_id st) = Inr () \<and> body (db_for_ingest (pg_tenant_id st)) st = (Inr x, st')"
  by (auto simp: in_session_def split: sum.splits prod.splits)

lemma executed_Inr:
  "executed w st = (Inr x, st') \<longleftrightarrow> (\<exists>db. w (pg_database st) = Inr (db, x) \<and> st' = st\<lparr>pg_database := db\<rparr>)"
  by (auto simp: executed_def split: sum.splits)

lemma executed_unit_Inr:
  "executed_unit w st = (Inr (), st') \<longleftrightarrow> (\<exists>db. w (pg_database st) = Inr db \<and> st' = st\<lparr>pg_database := db\<rparr>)"
  by (auto simp: executed_unit_def executed_Inr res_simps)

lemma queried_eq [simp]: "queried q st = (q (pg_database st), st)"
  by (simp add: queried_def)

lemma returned_eq [simp]: "returned r st = (r, st)"
  by (simp add: returned_def)

lemma cached_eq [simp]: "cached f st = (Inr (), f st)"
  by (simp add: cached_def)

lemma bind_stored_Inr:
  "bind_stored m f st = (Inr y, st') \<longleftrightarrow> (\<exists>x st1. m st = (Inr x, st1) \<and> f x st1 = (Inr y, st'))"
  by (auto simp: bind_stored_def split: prod.splits sum.splits)

lemma list_ex_False [simp]: "\<not> list_ex (\<lambda>old. False) rows"
  by (induction rows) simp_all

lemma sql_insert_Inr:
  assumes "sql_insert s t f clash new rows = Inr rows'"
  shows "rows' = rows @ new"
  using assms by (induction new arbitrary: rows) (fastforce split: if_splits)+

lemma sql_insert_never:
  "granted (ss_role s) INSERT t \<Longrightarrow> \<forall>r \<in> set new. f r = ss_tenant_id s \<Longrightarrow> sql_insert s t f never new rows = Inr (rows @ new)"
  by (induction new arbitrary: rows) (auto simp: list_ex_iff)

lemma set_numbered: "r \<in> set (numbered fresh put rows) \<Longrightarrow> \<exists>i r0. r = put i r0 \<and> r0 \<in> set rows"
  by (auto simp: numbered_def dest: set_zip_rightD)

lemma numbered_in: "r0 \<in> set rows \<Longrightarrow> \<exists>i. put i r0 \<in> set (numbered fresh put rows)"
  unfolding numbered_def by (metis (no_types, lifting) case_prod_conv imageI in_set_impl_in_set_zip2 length_map map_nth
      length_upt minus_nat.diff_0 list.set_map)

section \<open>The risk page\<close>

definition featureless :: "datastore \<Rightarrow> bool" where
  "featureless db \<longleftrightarrow> list_all (\<lambda>r. rk_features r = []) (ds_risk_scores db)"

lemma save_risk_scores_featureless:
  assumes "save_risk_scores_pg tid run_id scores fresh now st = (Inr (), st')" "featureless (pg_database st)"
  shows "featureless (pg_database st')"
proof (cases "scores = []")
  case True
  with assms show ?thesis by (simp add: save_risk_scores_pg_def)
next
  case False
  with assms(1) obtain run_uuid db rows
    where "write_risk_scores (db_for_ingest (pg_tenant_id st)) (pg_database st) tid (map (risk_row_of st run_uuid) scores) fresh now
        = Inr (db, rows)" and st': "st' = st\<lparr>pg_database := db\<rparr>"
    by (auto simp: save_risk_scores_pg_def bind_stored_Inr in_session_Inr executed_unit_Inr res_simps)
  then have "\<forall>r \<in> set (ds_risk_scores db). rk_features r = []"
    using assms(2) by (auto simp: write_risk_scores_def Let_def res_simps featureless_def list_all_iff risk_row_of_def
        dest!: sql_insert_Inr set_numbered)
  then show ?thesis by (simp add: st' featureless_def list_all_iff)
qed

lemma latest_risk_featureless:
  assumes "get_latest_risk_score s db tid u = Inr (Some r)" "featureless db"
  shows "rk_features r = []"
proof -
  have "r \<in> set (take 1 (sort_key (\<lambda>r. - rk_computed_at r)
      (filter (\<lambda>r. rk_tenant_id r = tid \<and> rk_user_pseudonym r = u)
        (filter (\<lambda>r. rk_tenant_id r = ss_tenant_id s) (ds_risk_scores db)))))"
    using assms(1) by (auto simp: get_latest_risk_score_def sql_select_def res_simps scalar_one_or_none_def
        split: if_splits list.splits)
  then have "r \<in> set (ds_risk_scores db)" by (auto dest!: in_set_takeD)
  with assms(2) show ?thesis by (simp add: featureless_def list_all_iff)
qed

text \<open>
  The risk page cannot show what it promises: the worker writes every risk score without its features, so that on tables the worker has
  filled the page of a scored user shows a circle of no members with no activity, whatever circle the graph stage found,
  and never names the external signal.
\<close>

theorem risk_page_shows_no_circle:
  assumes "featureless (pg_database st)" "save_risk_scores_pg tid run_id scores fresh now st = (Inr (), st')"
    and "get_user_risk text_int text_float py_repr user console (pg_database st') = (Inr out, db)"
  shows "xo_external_signal out = None
    \<and> (\<forall>c. xo_circle out = Some c \<longrightarrow> co_circle_size c = 0 \<and> co_neighbor_activity_ratio_now c = 0
         \<and> co_neighbor_activity_ratio_30d_ago c = 0 \<and> co_circle_edge_decay c = None \<and> co_circle_dormant_members c = None)"
proof -
  note plain = save_risk_scores_featureless [OF assms(2,1)]
  obtain u risk impacts where rows: "fst (console_read (cs_tenant_id console)
        (user_risk_rows py_repr (cs_tenant_id console) user) (pg_database st')) = Inr (u, risk, impacts)"
    and circle: "lifted (case risk of None \<Rightarrow> Inr None
        | Some r \<Rightarrow> bind_result (circle_part_of text_int text_float r) (\<lambda>c. Inr (Some c))) = Inr (xo_circle out)"
    and signal: "lifted (case risk of None \<Rightarrow> Inr None | Some r \<Rightarrow> signal_part_of text_float r) = Inr (xo_external_signal out)"
    using assms(3) by (auto simp: get_user_risk_def Let_def case_prod_beta bind_handled_def split: sum.splits)
  have "rk_features r = []" if "risk = Some r" for r
    using rows that plain latest_risk_featureless
    by (auto simp: console_read_def tenant_session_def user_risk_rows_def bind_handled_def lifted_def
        split: sum.splits option.splits)
  then show ?thesis
    using circle signal by (auto simp: lifted_def circle_part_of_def signal_part_of_def split: option.splits sum.splits)
qed

section \<open>Outcomes\<close>

definition posted_row :: "outcome_in \<Rightarrow> string \<Rightarrow> instant \<Rightarrow> string \<Rightarrow> outcome_event_row" where
  "posted_row body tid seen_at fresh_id =
     \<lparr>or_user_pseudonym = oi_user_ref body, or_outcome_type = oi_outcome_type body, or_value_idr = oi_value_idr body,
      ov_id = fresh_id, ov_tenant_id = tid, ov_experiment_id = the (parse_uuid (oi_experiment_id body)),
      ov_observed_at = seen_at\<rparr>"

lemma post_outcome_adds:
  assumes "post_outcome F st clock body tid f (ls, db) = (Inr u, ls', db')"
  shows "\<exists>t. F (oi_observed_at body) = Some t
    \<and> db' = db\<lparr>ds_outcomes := ds_outcomes db @ [posted_row body tid (dt_instant t) f]\<rparr>"
  using assms
  by (auto simp: post_outcome_def tenant_session_def rfc3339_or_raise_def bind_handled_def lifted_def record_outcome_def
      posted_row_def Let_def res_simps simp del: sql_insert.simps dest!: sql_insert_Inr split: prod.splits sum.splits option.splits)

text \<open>
  Outcomes, unlike events, are not idempotent: the client's id of an outcome is read by nobody, so that an outcome sent again (by a client
  that never saw the answer, say) is stored as another outcome of the same user, to be counted and learned from again.
\<close>

theorem outcome_replay_counts_twice:
  assumes "post_outcome F st clock body tid f (ls, db) = (Inr u, ls1, db1)"
    and "post_outcome F st clock' (body\<lparr>oi_client_outcome_id := c\<rparr>) tid f' (ls2, db1) = (Inr u', ls3, db2)"
  shows "\<exists>seen_at. ds_outcomes db2 = ds_outcomes db @ [posted_row body tid seen_at f, posted_row body tid seen_at f']"
proof -
  obtain t where t: "F (oi_observed_at body) = Some t"
    and "db1 = db\<lparr>ds_outcomes := ds_outcomes db @ [posted_row body tid (dt_instant t) f]\<rparr>"
    using post_outcome_adds [OF assms(1)] by auto
  moreover have "posted_row (body\<lparr>oi_client_outcome_id := c\<rparr>) tid i f' = posted_row body tid i f'" for i
    by (simp add: posted_row_def)
  ultimately show ?thesis using post_outcome_adds [OF assms(2)] by auto
qed

section \<open>Labeled examples\<close>

definition label_row :: "labeled_example_row list \<Rightarrow> string \<Rightarrow> string \<Rightarrow> labeled_example_row option" where
  "label_row rows tid k = find (\<lambda>r. lx_tenant_id r = tid \<and> lx_source_outcome_id r = Some k) rows"

text \<open>The rows of a tenant name their outcomes, each outcome once.\<close>

definition keyed_rows :: "string \<Rightarrow> labeled_example_row list \<Rightarrow> bool" where
  "keyed_rows tid rows \<longleftrightarrow> (let mine = map lx_source_outcome_id (filter (\<lambda>r. lx_tenant_id r = tid) rows)
     in distinct mine \<and> None \<notin> set mine)"

definition labels_agree ::
  "(string \<Rightarrow> int result) \<Rightarrow> (string \<Rightarrow> pyfloat result) \<Rightarrow> string \<Rightarrow> postgres_store \<Rightarrow> memory_store \<Rightarrow> bool" where
  "labels_agree text_int text_float tid st ms \<longleftrightarrow> pg_tenant_id st = tid
     \<and> keyed_rows tid (ds_labeled_examples (pg_database st))
     \<and> distinct (map fst (bucket_of (ms_labeled_examples ms) tid))
     \<and> (\<forall>k. case label_row (ds_labeled_examples (pg_database st)) tid k of
             None \<Rightarrow> find_example ms (tid, k) = None
           | Some r \<Rightarrow> (case find_example ms (tid, k) of
               None \<Rightarrow> False | Some e \<Rightarrow> example_of_row text_int text_float tid r = Inr e))"

text \<open>An example the tables can hold: of this tenant, named by a UUID, worth a whole number of rupiah.\<close>

definition storable :: "string \<Rightarrow> labeled_example \<Rightarrow> bool" where
  "storable tid e \<longleftrightarrow> le_tenant_id e = tid \<and> parse_uuid (le_source_outcome_id e) = Some (le_source_outcome_id e)
     \<and> le_realized_value_idr e = float_of_int \<lfloor>le_realized_value_idr e\<rfloor> \<and> is_float (le_realized_value_idr e)
     \<and> le_realized_value_idr e = of_int \<lfloor>le_realized_value_idr e\<rfloor>"

definition written :: "string \<Rightarrow> instant \<Rightarrow> string \<Rightarrow> labeled_example_row \<Rightarrow> labeled_example_row" where
  "written tid now i r = r\<lparr>lx_id := i, lx_tenant_id := tid, lx_created_at := now\<rparr>"

lemma float_items_of [simp]: "float_items tf (map (\<lambda>(k, x). (k, JFloat x)) fs) = Inr fs"
  by (induction fs) (auto simp: float_items_def)

lemma text_column_json [simp]: "text_column (Some (json_text v)) = Inr v"
  by (cases v) (simp_all add: json_text_def)

lemma optional_float_value [simp]: "optional_float tf (Some (float_value v)) = Inr v"
  by (cases v) (simp_all add: float_value_def)

lemma int_column_int [simp]: "int_column ti (Some (JInt n)) = Inr n"
  by (simp add: int_column_def or_zero_def)

lemma example_read_back:
  assumes "storable tid e"
  shows "example_of_row ti tf tid (written tid now i (row_of_example e)) = Inr e"
proof -
  have "round_half_even (le_realized_value_idr e) = \<lfloor>le_realized_value_idr e\<rfloor>"
    using assms unfolding storable_def by (metis round_half_even_of_int)
  then show ?thesis
    using assms by (simp add: storable_def example_of_row_def written_def row_of_example_def example_snapshot_def
        features_of_def or_zero_def Let_def)
qed

lemma find_numbered:
  assumes "\<And>i e. P (put i (h e)) \<longleftrightarrow> Q e"
  shows "case find Q es of None \<Rightarrow> find P (numbered fresh put (map h es)) = None
    | Some e \<Rightarrow> (\<exists>i. find P (numbered fresh put (map h es)) = Some (put i (h e)))"
proof -
  have "case find Q es of None \<Rightarrow> find P (map (\<lambda>(n, r). put (fresh n) r) (zip ns (map h es))) = None
    | Some e \<Rightarrow> (\<exists>i. find P (map (\<lambda>(n, r). put (fresh n) r) (zip ns (map h es))) = Some (put i (h e)))"
    if "length ns = length es" for ns
    using that by (induction ns es rule: list_induct2) (auto simp: assms split: option.splits)
  from this [of "[0..<length es]"] show ?thesis by (simp add: numbered_def split: option.splits)
qed

lemma group_into_one: "(\<And>x. x \<in> set xs \<Longrightarrow> f x = k) \<Longrightarrow> group_into f xs [(k, ys)] = [(k, ys @ xs)]"
  by (induction xs arbitrary: ys) (simp_all add: group_add_def dict_get_def)

lemma group_by_one: "xs \<noteq> [] \<Longrightarrow> (\<And>x. x \<in> set xs \<Longrightarrow> f x = k) \<Longrightarrow> group_by f xs = [(k, xs)]"
  using group_into_one [of "tl xs" f k "[hd xs]"]
  by (cases xs) (simp_all add: group_by_def group_add_def dict_get_def)

text \<open>The insert that ignores duplicates, on rows that name their outcomes.\<close>

lemma insert_labels:
  assumes "\<forall>r \<in> set new. lx_tenant_id r = ss_tenant_id s \<and> lx_source_outcome_id r \<noteq> None"
    and "granted (ss_role s) INSERT T_LABELED_EXAMPLES" "granted (ss_role s) SELECT T_LABELED_EXAMPLES"
    and "keyed_rows (ss_tenant_id s) rows"
  shows "\<exists>rows' ins. sql_insert_or_ignore s T_LABELED_EXAMPLES lx_tenant_id same_outcome new rows = Inr (rows', ins)
    \<and> keyed_rows (ss_tenant_id s) rows'
    \<and> (\<forall>k. label_row rows' (ss_tenant_id s) k = (case label_row rows (ss_tenant_id s) k of
         Some r \<Rightarrow> Some r | None \<Rightarrow> label_row new (ss_tenant_id s) k))"
  using assms
proof (induction new arbitrary: rows)
  case Nil
  then show ?case by (auto simp: label_row_def split: option.splits)
next
  case (Cons r new)
  let ?tid = "ss_tenant_id s"
  from Cons.prems(1) obtain key where r: "lx_tenant_id r = ?tid" "lx_source_outcome_id r = Some key" by auto
  have clash: "list_ex (\<lambda>old. same_outcome old r) rows \<longleftrightarrow> label_row rows ?tid key \<noteq> None"
    by (auto simp: list_ex_iff same_outcome_def r label_row_def find_None_iff)
  show ?case
  proof (cases "label_row rows ?tid key")
    case None
    then have "keyed_rows ?tid (rows @ [r])"
      using Cons.prems(4) by (fastforce simp: keyed_rows_def Let_def r label_row_def find_None_iff)
    from Cons.IH [OF _ Cons.prems(2,3) this] Cons.prems(1) obtain rows' ins
      where ih: "sql_insert_or_ignore s T_LABELED_EXAMPLES lx_tenant_id same_outcome new (rows @ [r]) = Inr (rows', ins)"
        "keyed_rows ?tid rows'"
        "\<forall>k. label_row rows' ?tid k = (case label_row (rows @ [r]) ?tid k of Some r \<Rightarrow> Some r | None \<Rightarrow> label_row new ?tid k)"
      by auto
    have "label_row (rows @ [r]) ?tid k = (case label_row rows ?tid k of Some r \<Rightarrow> Some r
        | None \<Rightarrow> if k = key then Some r else None)" for k
      by (induction rows) (auto simp: label_row_def r)
    with ih None clash Cons.prems show ?thesis
      by (auto simp: r label_row_def split: option.splits)
  next
    case (Some old)
    from Cons.IH [OF _ Cons.prems(2-4)] Cons.prems(1) obtain rows' ins
      where "sql_insert_or_ignore s T_LABELED_EXAMPLES lx_tenant_id same_outcome new rows = Inr (rows', ins)"
        "keyed_rows ?tid rows'"
        "\<forall>k. label_row rows' ?tid k = (case label_row rows ?tid k of Some r \<Rightarrow> Some r | None \<Rightarrow> label_row new ?tid k)"
      by auto
    with Some clash Cons.prems show ?thesis
      by (auto simp: r label_row_def split: option.splits)
  qed
qed

lemma worker_labels [grant_simps]:
  "granted APP_WORKER INSERT T_LABELED_EXAMPLES" "granted APP_WORKER SELECT T_LABELED_EXAMPLES"
  by code_simp+

lemma memory_bucket_distinct:
  "distinct (map fst (bucket_of (ms_labeled_examples ms) tid)) \<Longrightarrow>
   distinct (map fst (bucket_of (ms_labeled_examples (save_labeled_examples es ms)) tid))"
  unfolding save_labeled_examples_def
proof (induction es arbitrary: ms)
  case (Cons e es)
  from Cons.prems have "distinct (map fst (bucket_of (ms_labeled_examples (save_labeled_example ms e)) tid))"
    by (auto simp: save_labeled_example_def Let_def dict_simps)
  from Cons.IH [OF this] show ?case by simp
qed simp

text \<open>Under the relation the two stores hand the scorer the same examples.\<close>

lemma agree_load:
  assumes agree: "labels_agree ti tf tid st ms" and ok: "assert_safe_identifier tid = Inr ()"
  shows "\<exists>es. load_labeled_examples_pg ti tf tid st = (Inr es, st) \<and> set es = set (load_labeled_examples tid ms)"
proof -
  let ?rows = "ds_labeled_examples (pg_database st)" and ?bucket = "bucket_of (ms_labeled_examples ms) tid"
  let ?mine = "filter (\<lambda>r. lx_tenant_id r = tid) ?rows"
  have tid: "pg_tenant_id st = tid" and keyed: "keyed_rows tid ?rows" and dist: "distinct (map fst ?bucket)"
    and rel: "case label_row ?rows tid k of None \<Rightarrow> find_example ms (tid, k) = None
      | Some r \<Rightarrow> (case find_example ms (tid, k) of None \<Rightarrow> False | Some e \<Rightarrow> example_of_row ti tf tid r = Inr e)" for k
    using agree by (auto simp: labels_agree_def)
  have found: "label_row ?rows tid k = Some r \<longleftrightarrow> r \<in> set ?mine \<and> lx_source_outcome_id r = Some k" for r k
  proof
    assume r: "r \<in> set ?mine \<and> lx_source_outcome_id r = Some k"
    then have "label_row ?rows tid k \<noteq> None" by (auto simp: label_row_def find_None_iff)
    then obtain r' where r': "label_row ?rows tid k = Some r'" by auto
    then have "r' \<in> set ?mine \<and> lx_source_outcome_id r' = Some k" by (auto simp: label_row_def dest: find_SomeD)
    moreover have "inj_on lx_source_outcome_id (set ?mine)"
      using keyed unfolding keyed_rows_def Let_def distinct_map by blast
    ultimately have "r' = r" using r by (metis inj_onD)
    with r' show "label_row ?rows tid k = Some r" by simp
  qed (auto simp: label_row_def dest: find_SomeD)
  have row: "\<exists>k e. lx_source_outcome_id r = Some k \<and> find_example ms (tid, k) = Some e \<and> example_of_row ti tf tid r = Inr e"
    if "r \<in> set ?mine" for r
  proof -
    have "lx_source_outcome_id r \<noteq> None"
    proof
      assume "lx_source_outcome_id r = None"
      with that have "None \<in> lx_source_outcome_id ` set ?mine" by (metis imageI)
      with keyed show False by (simp add: keyed_rows_def Let_def)
    qed
    then obtain k where k: "lx_source_outcome_id r = Some k" by auto
    with that found have "label_row ?rows tid k = Some r" by blast
    with rel [of k] k show ?thesis by (auto split: option.splits)
  qed
  define g where "g r = the (find_example ms (tid, the (lx_source_outcome_id r)))" for r :: labeled_example_row
  have g: "example_of_row ti tf tid r = Inr (g r)" if "r \<in> set ?mine" for r
    using row [OF that] by (auto simp: g_def)
  let ?sorted = "sort_key (\<lambda>r. - lx_created_at r) ?mine"
  have "load_labeled_examples_pg ti tf tid st = (Inr (map g ?sorted), st)"
    using map_result_total [of ?sorted "example_of_row ti tf tid" g] g
    by (simp add: load_labeled_examples_pg_def in_session_def tid ok load_labeled_rows_def sql_select_def grant_simps)
  moreover have "g ` set ?mine = snd ` set ?bucket"
  proof
    show "g ` set ?mine \<subseteq> snd ` set ?bucket"
      using row by (force simp: g_def find_example_def dest: map_of_SomeD)
    show "snd ` set ?bucket \<subseteq> g ` set ?mine"
    proof
      fix e assume "e \<in> snd ` set ?bucket"
      then obtain k where "find_example ms (tid, k) = Some e" using dist by (auto simp: find_example_def)
      moreover with rel [of k] obtain r where "label_row ?rows tid k = Some r" by (auto split: option.splits)
      ultimately show "e \<in> g ` set ?mine" using found by (force simp: g_def)
    qed
  qed
  ultimately show ?thesis by (simp add: load_labeled_examples_def)
qed

lemma agree_save:
  assumes agree: "labels_agree ti tf tid st ms" and es: "list_all (storable tid) es"
    and ok: "assert_safe_identifier tid = Inr ()"
  shows "\<exists>st'. save_labeled_examples_pg es fresh now st = (Inr (), st')
    \<and> labels_agree ti tf tid st' (save_labeled_examples es ms)"
proof (cases "es = []")
  case True
  with agree show ?thesis by (simp add: save_labeled_examples_pg_def save_labeled_examples_def)
next
  case False
  let ?rows = "ds_labeled_examples (pg_database st)" and ?new = "numbered (fresh tid) (written tid now) (map row_of_example es)"
  have tid: "pg_tenant_id st = tid" and keyed: "keyed_rows tid ?rows" using agree by (auto simp: labels_agree_def)
  have group: "group_by le_tenant_id es = [(tid, es)]"
    using False es by (auto simp: list_all_iff storable_def intro: group_by_one)
  have "\<forall>r \<in> set ?new. lx_tenant_id r = tid \<and> lx_source_outcome_id r \<noteq> None"
    using es by (fastforce dest!: set_numbered simp: written_def row_of_example_def list_all_iff storable_def)
  with insert_labels [of ?new "db_for_ingest tid" ?rows, unfolded worker_session] keyed obtain rows' ins
    where ins: "sql_insert_or_ignore (db_for_ingest tid) T_LABELED_EXAMPLES lx_tenant_id same_outcome ?new ?rows = Inr (rows', ins)"
      and keyed': "keyed_rows tid rows'"
      and lookup: "\<And>k. label_row rows' tid k = (case label_row ?rows tid k of Some r \<Rightarrow> Some r | None \<Rightarrow> label_row ?new tid k)"
    by (auto simp: grant_simps)
  define st' where "st' = st\<lparr>pg_database := (pg_database st)\<lparr>ds_labeled_examples := rows'\<rparr>\<rparr>"
  have "numbered (fresh tid) (\<lambda>i r. r\<lparr>lx_id := i, lx_tenant_id := tid, lx_created_at := now\<rparr>) (map row_of_example es) = ?new"
    by (simp add: numbered_def written_def)
  with ins have "save_labeled_examples_pg es fresh now st = (Inr (), st')"
    by (simp add: save_labeled_examples_pg_def in_session_def tid ok False group bind_stored_def executed_def
        insert_labeled_examples_def st'_def)
  moreover have "labels_agree ti tf tid st' (save_labeled_examples es ms)"
  proof -
    have "case label_row rows' tid k of None \<Rightarrow> find_example (save_labeled_examples es ms) (tid, k) = None
      | Some r \<Rightarrow> (case find_example (save_labeled_examples es ms) (tid, k) of
          None \<Rightarrow> False | Some e \<Rightarrow> example_of_row ti tf tid r = Inr e)" for k
    proof -
      have rel: "case label_row ?rows tid k of None \<Rightarrow> find_example ms (tid, k) = None
        | Some r \<Rightarrow> (case find_example ms (tid, k) of None \<Rightarrow> False | Some e \<Rightarrow> example_of_row ti tf tid r = Inr e)"
        using agree by (auto simp: labels_agree_def)
      have memory: "find_example (save_labeled_examples es ms) (tid, k) = (case find_example ms (tid, k) of
          Some w \<Rightarrow> Some w | None \<Rightarrow> find (\<lambda>e. example_key e = (tid, k)) es)"
        by (simp add: save_labeled_examples_def labels.find_saves)
      have "find (\<lambda>e. example_key e = (tid, k)) es = find (\<lambda>e. parse_uuid (le_source_outcome_id e) = Some k) es"
        using es by (intro find_cong) (auto simp: list_all_iff storable_def example_key_def)
      moreover have "case find (\<lambda>e. parse_uuid (le_source_outcome_id e) = Some k) es of None \<Rightarrow> label_row ?new tid k = None
        | Some e \<Rightarrow> (\<exists>i. label_row ?new tid k = Some (written tid now i (row_of_example e)))"
        unfolding label_row_def by (rule find_numbered) (simp add: written_def row_of_example_def)
      moreover have "storable tid e" if "find (\<lambda>e. parse_uuid (le_source_outcome_id e) = Some k) es = Some e" for e
        using es find_SomeD [OF that] by (auto simp: list_all_iff)
      ultimately show ?thesis
        using rel by (auto simp: lookup memory example_read_back split: option.splits)
    qed
    moreover have "distinct (map fst (bucket_of (ms_labeled_examples (save_labeled_examples es ms)) tid))"
      using agree by (intro memory_bucket_distinct) (simp add: labels_agree_def)
    ultimately show ?thesis using tid keyed' by (simp add: labels_agree_def st'_def)
  qed
  ultimately show ?thesis by blast
qed

text \<open>
  C17. The tables refine the in-memory store on what the worker learns from: on stores that agree, saving the same examples (new
  ones, known ones, several of an outcome) succeeds, leaves the stores in agreement, and both then hand the scorer the
  same set of examples, to the last feature.
\<close>

theorem labeled_examples_refine:
  assumes "labels_agree ti tf tid st ms" "list_all (storable tid) es" "assert_safe_identifier tid = Inr ()"
  shows "\<exists>st' loaded. save_labeled_examples_pg es fresh now st = (Inr (), st')
    \<and> labels_agree ti tf tid st' (save_labeled_examples es ms)
    \<and> load_labeled_examples_pg ti tf tid st' = (Inr loaded, st')
    \<and> set loaded = set (load_labeled_examples tid (save_labeled_examples es ms))"
proof -
  from agree_save [OF assms] obtain st' where "save_labeled_examples_pg es fresh now st = (Inr (), st')"
    and agree: "labels_agree ti tf tid st' (save_labeled_examples es ms)" by blast
  with agree_load [OF agree assms(3)] show ?thesis by blast
qed

section \<open>A run that is retried\<close>

text \<open>The writes of \<open>\_persist\<close> in \<open>worker/pipeline.py\<close>, in their order.\<close>

definition persist_writes ::
  "new_recommendation list \<Rightarrow> feature_snapshot list \<Rightarrow> (nat \<Rightarrow> string) \<Rightarrow> (nat \<Rightarrow> string) \<Rightarrow> (nat \<Rightarrow> string) \<Rightarrow> instant \<Rightarrow> unit stored" where
  "persist_writes recs snapshots rec_ids snapshot_ids audit_ids now =
     bind_stored (create_recommendations_pg recs rec_ids now) (\<lambda>_.
     bind_stored (save_feature_snapshots_pg snapshots snapshot_ids now) (\<lambda>_.
     each 0 recs (\<lambda>i r. append_audit_pg (nr_tenant_id r)
       \<lparr>audit_entry.au_actor = ''app_worker'', au_action = ''RECOMMENDATION_CREATED'', au_entity_type = ''recommendation'',
        au_entity_id = nr_recommendation_id r,
        au_detail = [(''status'', JStr (status_value (nr_status r))), (''arm'', JStr (arm_value (nr_arm r)))]\<rparr>
       (audit_ids i) now)))"

abbreviation snapshots_of :: "postgres_store \<Rightarrow> feature_snapshot_row list" where
  "snapshots_of st \<equiv> ds_feature_snapshots (pg_database st)"

abbreviation recommendations_of :: "postgres_store \<Rightarrow> recommendation list" where
  "recommendations_of st \<equiv> db_recommendations (ds_core (pg_database st))"

text \<open>What every step of a loop keeps, and what every step adds.\<close>

lemma each_keeps:
  assumes "each i xs body st = (Inr u, st')" "\<And>i x st st' u. body i x st = (Inr u, st') \<Longrightarrow> f st' = f st"
  shows "f st' = f st"
  using assms(1) by (induction xs arbitrary: i st) (auto simp: bind_stored_Inr dest!: assms(2))

lemma each_adds:
  assumes "each i xs body st = (Inr u, st')" "\<And>i x st st' u. body i x st = (Inr u, st') \<Longrightarrow> n st' = Suc (n st)"
  shows "n st' = n st + length xs"
  using assms(1) by (induction xs arbitrary: i st) (auto simp: bind_stored_Inr dest!: assms(2))

lemma create_recommendations_adds:
  assumes "create_recommendations_pg recs fresh now st = (Inr u, st')"
  shows "length (recommendations_of st') = length (recommendations_of st) + length recs"
    and "snapshots_of st' = snapshots_of st" and "pg_tenant_id st' = pg_tenant_id st"
proof -
  have *: "length (recommendations_of st2) = Suc (length (recommendations_of st1)) \<and> snapshots_of st2 = snapshots_of st1
      \<and> pg_tenant_id st2 = pg_tenant_id st1"
    if "bind_stored (\<lambda>st. (circle_id_of (nr_group_id r) st, st)) (\<lambda>circle_id. executed_unit (\<lambda>db.
      bind_result (create_pending s (ds_core db) (nr_tenant_id r) (pending_columns st0 run_id circle_id r now) (fresh i) now)
        (\<lambda>(core, row). Inr (db\<lparr>ds_core := core\<rparr>)))) st1 = (Inr u, st2)" for st1 st2 i r s st0 run_id u
    using that by (auto simp: bind_stored_Inr executed_unit_Inr create_pending_def flush_insert_def Let_def res_simps
        split: if_splits)
  have "recs = [] \<and> st' = st \<or> (\<exists>run_id s. each 0 recs (\<lambda>i r.
      bind_stored (\<lambda>st. (circle_id_of (nr_group_id r) st, st)) (\<lambda>circle_id. executed_unit (\<lambda>db.
      bind_result (create_pending s (ds_core db) (nr_tenant_id r) (pending_columns st run_id circle_id r now) (fresh i) now)
        (\<lambda>(core, row). Inr (db\<lparr>ds_core := core\<rparr>))))) st = (Inr u, st'))"
    using assms by (auto simp: create_recommendations_pg_def in_session_Inr split: if_splits option.splits)
  then show "length (recommendations_of st') = length (recommendations_of st) + length recs"
    "snapshots_of st' = snapshots_of st" "pg_tenant_id st' = pg_tenant_id st"
    using each_adds [where n = "\<lambda>st. length (recommendations_of st)"] each_keeps [where f = snapshots_of]
      each_keeps [where f = pg_tenant_id] * by (metis (no_types, lifting) add.right_neutral list.size(3))+
qed

lemma sql_insert_clash:
  "granted (ss_role s) INSERT t \<Longrightarrow> \<forall>r \<in> set new. f r = ss_tenant_id s \<Longrightarrow>
   \<exists>r \<in> set new. \<exists>old \<in> set rows. clash old r \<Longrightarrow> sql_insert s t f clash new rows = Inl unique_violation"
proof (induction new arbitrary: rows)
  case (Cons a new)
  show ?case
  proof (cases "list_ex (\<lambda>old. clash old a) rows")
    case False
    with Cons.prems(3) have "\<exists>r \<in> set new. \<exists>old \<in> set (rows @ [a]). clash old r" by (auto simp: list_ex_iff)
    with Cons False show ?thesis by simp
  qed (use Cons.prems in simp)
qed simp

lemma worker_snapshots [grant_simps]:
  "granted APP_WORKER INSERT T_FEATURE_SNAPSHOTS" "granted APP_WORKER SELECT T_FEATURE_SNAPSHOTS"
  by code_simp+

definition snapshot_key :: "feature_snapshot \<Rightarrow> string option \<times> string" where
  "snapshot_key f = (parse_uuid (fs_run_id f), fs_user_pseudonym f)"

lemma save_feature_snapshots_rows:
  assumes "save_feature_snapshots_pg snaps fresh now st = (Inr u, st')" "f \<in> set snaps"
  shows "\<exists>r \<in> set (snapshots_of st'). fp_tenant_id r = pg_tenant_id st \<and> (Some (fp_run_id r), fp_user_pseudonym r) = snapshot_key f"
proof -
  have "snaps \<noteq> []" using assms(2) by auto
  with assms(1) obtain rows rows' where rows: "map_result snapshot_columns snaps = Inr rows"
    and ins: "sql_insert (db_for_ingest (pg_tenant_id st)) T_FEATURE_SNAPSHOTS fp_tenant_id same_snapshot
        (numbered fresh (\<lambda>i r. r\<lparr>fp_id := i, fp_tenant_id := pg_tenant_id st, fp_created_at := now\<rparr>) rows) (snapshots_of st) = Inr rows'
      \<or> rows = []" and st': "rows \<noteq> [] \<Longrightarrow> snapshots_of st' = rows'"
    by (auto simp: save_feature_snapshots_pg_def bind_stored_Inr in_session_Inr executed_unit_Inr save_many_def res_simps
        split: if_splits)
  from rows assms(2) obtain r where r: "r \<in> set rows" "snapshot_columns f = Inr r"
    by (auto simp: map_result_Inr_iff list_all2_conv_all_nth in_set_conv_nth) metis
  from r(1) obtain i where "r\<lparr>fp_id := i, fp_tenant_id := pg_tenant_id st, fp_created_at := now\<rparr>
      \<in> set (numbered fresh (\<lambda>i r. r\<lparr>fp_id := i, fp_tenant_id := pg_tenant_id st, fp_created_at := now\<rparr>) rows)"
    using numbered_in [where put = "\<lambda>i r. r\<lparr>fp_id := i, fp_tenant_id := pg_tenant_id st, fp_created_at := now\<rparr>"] by blast
  with ins r(1) st' have "r\<lparr>fp_id := i, fp_tenant_id := pg_tenant_id st, fp_created_at := now\<rparr> \<in> set (snapshots_of st')"
    by (cases rows) (auto dest!: sql_insert_Inr)
  then show ?thesis
    using r(2) by (auto simp: snapshot_key_def snapshot_columns_def parse_uuid_or_raise_def res_simps split: option.splits
        intro!: bexI)
qed

lemma save_feature_snapshots_clash:
  assumes "f \<in> set snaps" "r \<in> set (snapshots_of st)" "fp_tenant_id r = pg_tenant_id st"
    and "(Some (fp_run_id r), fp_user_pseudonym r) = snapshot_key f"
    and rows: "map_result snapshot_columns snaps = Inr rows" and ok: "assert_safe_identifier (pg_tenant_id st) = Inr ()"
  shows "save_feature_snapshots_pg snaps fresh now st = (Inl unique_violation, st)"
proof -
  let ?put = "\<lambda>i r. r\<lparr>fp_id := i, fp_tenant_id := pg_tenant_id st, fp_created_at := now\<rparr>"
  from rows assms(1) obtain new where new: "new \<in> set rows" "snapshot_columns f = Inr new"
    by (auto simp: map_result_Inr_iff list_all2_conv_all_nth in_set_conv_nth) metis
  have key: "fp_run_id new = fp_run_id r" "fp_user_pseudonym new = fp_user_pseudonym r"
    using new(2) assms(4) by (auto simp: snapshot_key_def snapshot_columns_def parse_uuid_or_raise_def res_simps split: option.splits)
  from new(1) obtain i where i: "?put i new \<in> set (numbered fresh ?put rows)"
    using numbered_in [where put = ?put] by blast
  have "same_snapshot r (?put i new)" by (simp add: same_snapshot_def assms(3) key)
  then have "\<exists>n \<in> set (numbered fresh ?put rows). \<exists>old \<in> set (snapshots_of st). same_snapshot old n"
    using i assms(2) by blast
  then have "sql_insert (db_for_ingest (pg_tenant_id st)) T_FEATURE_SNAPSHOTS fp_tenant_id same_snapshot
      (numbered fresh ?put rows) (snapshots_of st) = Inl unique_violation"
    by (rule sql_insert_clash [rotated 2]) (auto simp: grant_simps dest!: set_numbered)
  moreover have "rows \<noteq> []" "snaps \<noteq> []" using new(1) assms(1) by auto
  ultimately show ?thesis
    by (simp add: save_feature_snapshots_pg_def bind_stored_def rows in_session_def ok executed_unit_def executed_def save_many_def)
qed

text \<open>
  C40. A run that is picked up again after its recommendations were stored (the worker died before it could report, or the audit log refused an
  entry) cannot finish: creating its recommendations again succeeds, so that each of them waits for approval twice, and
  then the snapshots of the first attempt are in the way of the second; and so on with every further attempt.
\<close>

theorem retried_run_duplicates_and_fails:
  assumes "persist_writes recs snaps i1 i2 i3 now st = (Inr (), st1)" "f \<in> set snaps"
    and "pg_database st2 = pg_database st1" "pg_tenant_id st2 = pg_tenant_id st"
    and "create_recommendations_pg recs' j1 now' st2 = (Inr (), st3)"
    and "f' \<in> set snaps'" "snapshot_key f' = snapshot_key f" "map_result snapshot_columns snaps' = Inr rows"
    and "assert_safe_identifier (pg_tenant_id st) = Inr ()"
  shows "persist_writes recs' snaps' j1 j2 j3 now' st2 = (Inl unique_violation, st3)
    \<and> length (recommendations_of st3) = length (recommendations_of st1) + length recs'"
proof -
  from assms(1) obtain sa sb where a: "create_recommendations_pg recs i1 now st = (Inr (), sa)"
    and b: "save_feature_snapshots_pg snaps i2 now sa = (Inr (), sb)"
    and c: "each 0 recs (\<lambda>i r. append_audit_pg (nr_tenant_id r)
       \<lparr>audit_entry.au_actor = ''app_worker'', au_action = ''RECOMMENDATION_CREATED'', au_entity_type = ''recommendation'',
        au_entity_id = nr_recommendation_id r,
        au_detail = [(''status'', JStr (status_value (nr_status r))), (''arm'', JStr (arm_value (nr_arm r)))]\<rparr>
       (i3 i) now) sb = (Inr (), st1)"
    by (auto simp: persist_writes_def bind_stored_Inr)
  have "snapshots_of st1 = snapshots_of sb"
    using c by (rule each_keeps) (auto simp: append_audit_pg_def in_session_Inr executed_unit_Inr res_simps)
  moreover have "pg_tenant_id sa = pg_tenant_id st" using create_recommendations_adds(3) [OF a] .
  ultimately obtain r where r: "r \<in> set (snapshots_of st1)" "fp_tenant_id r = pg_tenant_id st"
      "(Some (fp_run_id r), fp_user_pseudonym r) = snapshot_key f"
    using save_feature_snapshots_rows [OF b assms(2)] by auto
  have st3: "snapshots_of st3 = snapshots_of st1" "pg_tenant_id st3 = pg_tenant_id st"
    using create_recommendations_adds(2,3) [OF assms(5)] assms(3,4) by auto
  have "save_feature_snapshots_pg snaps' j2 now' st3 = (Inl unique_violation, st3)"
    using save_feature_snapshots_clash [OF assms(6) _ _ _ assms(8)] r assms(7,9) st3 by auto
  moreover have "length (recommendations_of st3) = length (recommendations_of st1) + length recs'"
    using create_recommendations_adds(1) [OF assms(5)] assms(3) by simp
  ultimately show ?thesis using assms(5) by (simp add: persist_writes_def bind_stored_def)
qed

section \<open>Canonical events\<close>

text \<open>An event as it comes back: the driver gives the time its own offset, and an event without an amount has amount 0.\<close>

definition reloaded :: "(instant \<Rightarrow> int) \<Rightarrow> canonical_event \<Rightarrow> canonical_event" where
  "reloaded offset_of e = e\<lparr>e_amount_idr := Some (or_zero (e_amount_idr e)), e_utcoffset := offset_of (e_occurred_at e)\<rparr>"

definition well_formed_event :: "string \<Rightarrow> canonical_event \<Rightarrow> bool" where
  "well_formed_event tid e \<longleftrightarrow> e_tenant_id e = tid
     \<and> list_all (\<lambda>k. k \<in> set ALLOWED_ATTRIBUTE_KEYS) (map fst (e_attributes e))"

lemma map_result_set:
  "\<forall>x \<in> set xs. \<exists>y. f x = Inr y \<Longrightarrow> \<exists>ys. map_result f xs = Inr ys \<and> set ys = {y. \<exists>x \<in> set xs. f x = Inr y}"
proof (induction xs)
  case (Cons x xs)
  then obtain y ys where "f x = Inr y" "map_result f xs = Inr ys" "set ys = {y. \<exists>x \<in> set xs. f x = Inr y}" by auto
  then show ?case by auto
qed simp

lemma map_result_setD: "map_result f xs = Inr ys \<Longrightarrow> \<forall>x \<in> set xs. \<exists>y. f x = Inr y"
  by (induction xs arbitrary: ys) (auto simp: res_simps)

definition joined :: "string \<Rightarrow> instant \<Rightarrow> raw_event_row list \<Rightarrow> canonical_event_row list \<Rightarrow> (canonical_event_row \<times> string) set" where
  "joined tid since raws events = {(e, rv_client_event_id r) | e r.
     e \<in> set events \<and> cv_tenant_id e = tid \<and> since \<le> cv_occurred_at e \<and> r \<in> set raws \<and> rv_tenant_id r = tid
     \<and> rv_id r = cv_raw_event_id e}"

lemma joined_append: "joined tid since raws (xs @ ys) = joined tid since raws xs \<union> joined tid since raws ys"
  unfolding joined_def set_append by blast

lemma worker_events [grant_simps]:
  "granted APP_WORKER INSERT T_CANONICAL_EVENTS" "granted APP_WORKER SELECT T_CANONICAL_EVENTS"
  by code_simp+

lemma load_since_joined:
  "\<exists>rows. load_since (db_for_ingest tid) db tid since = Inr rows
     \<and> set rows = joined tid since (ds_raw_events db) (ds_canonical_events db)"
  by (auto simp: load_since_def raw_events_of_def sql_select_def grant_simps joined_def)

lemma load_events_pg:
  assumes "pg_tenant_id st = tid" "assert_safe_identifier tid = Inr ()"
    and "\<forall>p \<in> joined tid since (ds_raw_events (pg_database st)) (ds_canonical_events (pg_database st)). \<exists>e. event_of_row off p = Inr e"
  shows "\<exists>es. load_canonical_events_pg off tid since st = (Inr es, st)
    \<and> set es = {e. \<exists>p \<in> joined tid since (ds_raw_events (pg_database st)) (ds_canonical_events (pg_database st)). event_of_row off p = Inr e}"
proof -
  obtain rows where "load_since (db_for_ingest tid) (pg_database st) tid since = Inr rows"
    "set rows = joined tid since (ds_raw_events (pg_database st)) (ds_canonical_events (pg_database st))"
    using load_since_joined by blast
  moreover with map_result_set [of rows "event_of_row off"] assms(3) obtain es where "map_result (event_of_row off) rows = Inr es"
    "set es = {e. \<exists>p \<in> set rows. event_of_row off p = Inr e}" by auto
  ultimately show ?thesis using assms(1,2) by (auto simp: load_canonical_events_pg_def in_session_def)
qed

lemma load_events_pgD:
  assumes "load_canonical_events_pg off tid since st = (Inr es, st)" "pg_tenant_id st = tid"
  shows "assert_safe_identifier tid = Inr ()"
    and "\<forall>p \<in> joined tid since (ds_raw_events (pg_database st)) (ds_canonical_events (pg_database st)). \<exists>e. event_of_row off p = Inr e"
proof -
  show "assert_safe_identifier tid = Inr ()" using assms by (auto simp: load_canonical_events_pg_def in_session_Inr)
  obtain rows where "load_since (db_for_ingest tid) (pg_database st) tid since = Inr rows"
    "set rows = joined tid since (ds_raw_events (pg_database st)) (ds_canonical_events (pg_database st))"
    using load_since_joined by blast
  with assms show "\<forall>p \<in> joined tid since (ds_raw_events (pg_database st)) (ds_canonical_events (pg_database st)).
      \<exists>e. event_of_row off p = Inr e"
    using map_result_setD [of "event_of_row off" rows es] by (auto simp: load_canonical_events_pg_def in_session_Inr)
qed

text \<open>The rows of a save, and what each joins to.\<close>

lemma saved_rows:
  assumes "save_canonical_events_pg tid events fresh st = (Inr n, st')" "pg_tenant_id st = tid" "events \<noteq> []"
  shows "\<exists>rows. map_result (canonical_row (db_for_ingest tid) (pg_database st) tid) events = Inr rows
    \<and> ds_raw_events (pg_database st') = ds_raw_events (pg_database st) \<and> pg_tenant_id st' = tid
    \<and> (\<exists>ids. length ids = length rows \<and> ds_canonical_events (pg_database st')
         = ds_canonical_events (pg_database st) @ map (\<lambda>(i, r). r\<lparr>cv_id := i\<rparr>) (zip ids rows))"
proof -
  obtain rows db where rows: "map_result (canonical_row (db_for_ingest tid) (pg_database st) tid) events = Inr rows"
    and ins: "insert_canonical_events (db_for_ingest tid) (pg_database st) rows fresh = Inr (db, map fresh [0..<length rows])"
    and st': "st' = st\<lparr>pg_database := db\<rparr>"
    using assms by (auto simp: save_canonical_events_pg_def in_session_Inr executed_Inr res_simps insert_canonical_events_def
        Let_def split: if_splits)
  have "rows \<noteq> []" using map_result_length [OF rows] assms(3) by auto
  with ins have "db = (pg_database st)\<lparr>ds_canonical_events := ds_canonical_events (pg_database st)
      @ map (\<lambda>(i, r). r\<lparr>cv_id := i\<rparr>) (zip (map fresh [0..<length rows]) rows)\<rparr>"
    by (auto simp: insert_canonical_events_def Let_def res_simps dest!: sql_insert_Inr)
  with rows st' assms(2) show ?thesis
    by (intro exI [of _ rows] conjI exI [of _ "map fresh [0..<length rows]"]) simp_all
qed

lemma scalar_in: "scalar_one_or_none (map f xs) = Inr (Some y) \<Longrightarrow> \<exists>x \<in> set xs. y = f x"
  by (auto simp: scalar_one_or_none_def split: list.splits)

lemma canonical_row_joins:
  assumes "canonical_row (db_for_ingest tid) db tid e = Inr r" "distinct (map rv_id (ds_raw_events db))" "well_formed_event tid e"
  shows "\<exists>w \<in> set (ds_raw_events db). rv_tenant_id w = tid \<and> rv_id w = cv_raw_event_id r"
    and "w \<in> set (ds_raw_events db) \<Longrightarrow> rv_id w = cv_raw_event_id r \<Longrightarrow>
      event_of_row off (r\<lparr>cv_id := i\<rparr>, rv_client_event_id w) = Inr (reloaded off e)"
    and "cv_tenant_id r = tid" "cv_occurred_at r = e_occurred_at e"
proof -
  obtain w0 where w0: "w0 \<in> set (ds_raw_events db)" "rv_tenant_id w0 = tid" "rv_client_event_id w0 = e_client_event_id e"
    and r: "cv_raw_event_id r = rv_id w0" "cv_tenant_id r = tid" "cv_occurred_at r = e_occurred_at e"
      "cv_canonical_type r = event_type_value (e_event_type e)" "cv_user_pseudonym r = e_user_pseudonym e"
      "cv_amount_idr r = or_zero (e_amount_idr e)" "cv_counterparty_pseudonym r = e_counterparty_pseudonym e"
      "cv_attributes r = e_attributes e"
    using assms(1) by (auto simp: canonical_row_def get_raw_event_id_by_client_id_def raw_events_of_def sql_select_def
        grant_simps res_simps dest!: scalar_in split: option.splits)
  show "\<exists>w \<in> set (ds_raw_events db). rv_tenant_id w = tid \<and> rv_id w = cv_raw_event_id r" using w0 r by auto
  show "cv_tenant_id r = tid" "cv_occurred_at r = e_occurred_at e" by (fact r)+
  assume w: "w \<in> set (ds_raw_events db)" "rv_id w = cv_raw_event_id r"
  with w0(1) r(1) assms(2) have "w = w0" by (auto simp: distinct_map dest: inj_onD)
  with w0 r assms(3) show "event_of_row off (r\<lparr>cv_id := i\<rparr>, rv_client_event_id w) = Inr (reloaded off e)"
    by (simp add: event_of_row_def make_canonical_event_def whitelist_attributes_def well_formed_event_def reloaded_def)
qed

text \<open>The rows of a save join to the events they were made from.\<close>

lemma fresh_events:
  assumes rows: "map_result (canonical_row (db_for_ingest tid) db tid) events = Inr rows"
    and ids: "distinct (map rv_id (ds_raw_events db))" and wf: "list_all (well_formed_event tid) events"
    and news: "length news = length rows" "\<forall>j < length rows. \<exists>i. news ! j = (rows ! j)\<lparr>cv_id := i\<rparr>"
  shows "\<forall>p \<in> joined tid since (ds_raw_events db) news. \<exists>e. event_of_row off p = Inr e"
    and "{e. \<exists>p \<in> joined tid since (ds_raw_events db) news. event_of_row off p = Inr e}
      = reloaded off ` {e \<in> set events. since \<le> e_occurred_at e}"
proof -
  let ?fresh = "joined tid since (ds_raw_events db) news"
  have row: "canonical_row (db_for_ingest tid) db tid (events ! j) = Inr (rows ! j)"
      "well_formed_event tid (events ! j)" if "j < length rows" for j
    using rows wf that by (auto simp: map_result_Inr_iff list_all2_conv_all_nth list_all_length)
  note joins = canonical_row_joins [OF row(1) ids row(2)]
  have len: "length rows = length events" by (rule map_result_length [OF rows])
  have of_fresh: "\<exists>j < length rows. event_of_row off p = Inr (reloaded off (events ! j)) \<and> since \<le> e_occurred_at (events ! j)"
    if "p \<in> ?fresh" for p
  proof -
    from that obtain c w where p: "p = (c, rv_client_event_id w)" "c \<in> set news" "since \<le> cv_occurred_at c"
      "w \<in> set (ds_raw_events db)" "rv_id w = cv_raw_event_id c" by (auto simp: joined_def)
    from p(2) obtain j where j: "j < length rows" "c = news ! j" using news(1) by (metis in_set_conv_nth)
    then obtain i where "c = (rows ! j)\<lparr>cv_id := i\<rparr>" using news(2) by blast
    with j(1) p joins(2,4) show ?thesis by (auto intro!: exI [of _ j])
  qed
  then show "\<forall>p \<in> ?fresh. \<exists>e. event_of_row off p = Inr e" by blast
  have "\<exists>p \<in> ?fresh. event_of_row off p = Inr (reloaded off e)" if e: "e \<in> set events" "since \<le> e_occurred_at e" for e
  proof -
    from e(1) len obtain j where j: "j < length rows" "e = events ! j" by (metis in_set_conv_nth)
    from joins(1) [OF j(1) j(1)] obtain w where w: "w \<in> set (ds_raw_events db)" "rv_tenant_id w = tid"
      "rv_id w = cv_raw_event_id (rows ! j)" by blast
    from news(2) j(1) obtain i where i: "news ! j = (rows ! j)\<lparr>cv_id := i\<rparr>" by blast
    have "news ! j \<in> set news" using j(1) news(1) by (intro nth_mem) simp
    then have "((rows ! j)\<lparr>cv_id := i\<rparr>, rv_client_event_id w) \<in> ?fresh"
      using w e(2) joins(3,4) [OF j(1) j(1)] i j(2) unfolding joined_def by force
    with joins(2) [OF j(1) j(1) w(1,3)] j(2) show ?thesis by blast
  qed
  with of_fresh len show "{e. \<exists>p \<in> ?fresh. event_of_row off p = Inr e} = reloaded off ` {e \<in> set events. since \<le> e_occurred_at e}"
    by (auto simp: image_iff) (metis Inr_inject nth_mem)+
qed

text \<open>
  C18. What the worker normalized is what later runs score: saving events and loading the tenant's history gives the events that were there
  and the saved ones of the period, each as it was but for a missing amount, which comes back as 0, and the UTC offset
  of its time, which comes back as the connection's.
\<close>

theorem canonical_events_reload:
  assumes saved: "save_canonical_events_pg tid events fresh st = (Inr n, st')" and tid: "pg_tenant_id st = tid"
    and before: "load_canonical_events_pg off tid since st = (Inr old, st)"
    and ids: "distinct (map rv_id (ds_raw_events (pg_database st)))" and wf: "list_all (well_formed_event tid) events"
  shows "\<exists>es. load_canonical_events_pg off tid since st' = (Inr es, st')
    \<and> set es = set old \<union> reloaded off ` {e \<in> set events. since \<le> e_occurred_at e}"
proof (cases "events = []")
  case True
  with saved before show ?thesis by (simp add: save_canonical_events_pg_def)
next
  case False
  let ?raws = "ds_raw_events (pg_database st)" and ?old = "ds_canonical_events (pg_database st)"
  note ok = load_events_pgD [OF before tid]
  obtain rows ids' where rows: "map_result (canonical_row (db_for_ingest tid) (pg_database st) tid) events = Inr rows"
    and st': "ds_raw_events (pg_database st') = ?raws" "pg_tenant_id st' = tid" "length ids' = length rows"
      "ds_canonical_events (pg_database st') = ?old @ map (\<lambda>(i, r). r\<lparr>cv_id := i\<rparr>) (zip ids' rows)"
    using saved_rows [OF saved tid False] by blast
  define news where "news = map (\<lambda>(i, r). r\<lparr>cv_id := i\<rparr>) (zip ids' rows)"
  have news: "length news = length rows" "\<forall>j < length rows. \<exists>i. news ! j = (rows ! j)\<lparr>cv_id := i\<rparr>"
    using st'(3) by (auto simp: news_def)
  note fresh = fresh_events [OF rows ids wf news, of since off]
  have split: "joined tid since (ds_raw_events (pg_database st')) (ds_canonical_events (pg_database st'))
      = joined tid since ?raws ?old \<union> joined tid since ?raws news"
    by (simp add: st' joined_append flip: news_def)
  have "set old = {e. \<exists>p \<in> joined tid since ?raws ?old. event_of_row off p = Inr e}"
    using load_events_pg [OF tid ok] before by auto
  moreover have all: "\<forall>p \<in> joined tid since ?raws ?old \<union> joined tid since ?raws news. \<exists>e. event_of_row off p = Inr e"
    using conjI [OF ok(2) fresh(1)] by (simp only: ball_Un)
  moreover obtain es where "load_canonical_events_pg off tid since st' = (Inr es, st')"
    "set es = {e. \<exists>p \<in> joined tid since ?raws ?old \<union> joined tid since ?raws news. event_of_row off p = Inr e}"
    using load_events_pg [OF st'(2) ok(1), of since off, unfolded split, OF all] by (elim exE conjE)
  ultimately show ?thesis using fresh(2) by blast
qed

section \<open>At concrete inputs\<close>

definition durable_store :: "datastore \<Rightarrow> postgres_store" where
  "durable_store db = new_store db sample_tid"

definition durable_user_row :: user_row where
  "durable_user_row = \<lparr>us_tenant_id = sample_tid, us_user_pseudonym = ''u'', us_first_seen_at = 0, us_last_event_at = 0,
     us_lifecycle_state = ''ACTIVE'', us_region_code = None, us_cohort_key = None\<rparr>"

definition durable_risk :: risk_score where
  "durable_risk = \<lparr>rs_user_pseudonym = ''u'', rs_churn_risk = 1/2, rs_model = ''m'', rs_context_row_count = 3,
     rs_external_signal_id = None, rs_external_signal_contribution = 0\<rparr>"

definition durable_console :: console_session where
  "durable_console = \<lparr>cs_reviewer_id = ''rev'', cs_tenant_id = sample_tid\<rparr>"

lemma durable_uuid: "parse_uuid sample_tid = Some sample_tid"
  by code_simp

lemma durable_store_simps [simp]:
  "pg_tenant_id (durable_store db) = sample_tid" "pg_database (durable_store db) = db"
  "pg_snapshot_by_user (durable_store db) = []" "pg_signal_id_by_str (durable_store db) = []"
  by (simp_all add: durable_store_def new_store_def)

lemma scores_grants [grant_simps]:
  "granted APP_WORKER INSERT T_RISK_SCORES" "granted APP_CONSOLE SELECT T_RISK_SCORES" "granted APP_CONSOLE SELECT T_USERS"
  "granted APP_CONSOLE SELECT T_IMPACT_SCORES"
  by code_simp+

theorem risk_page_shows_no_circle_witness:
  "\<exists>st' out db c. save_risk_scores_pg sample_tid sample_tid [durable_risk] (\<lambda>_. ''r1'') 5
        (durable_store (empty_datastore\<lparr>ds_users := [durable_user_row]\<rparr>)) = (Inr (), st')
     \<and> get_user_risk (\<lambda>_. Inr 0) (\<lambda>_. Inr 0) id ''u'' durable_console (pg_database st') = (Inr out, db)
     \<and> xo_circle out = Some c \<and> co_circle_size c = 0"
proof -
  let ?st = "durable_store (empty_datastore\<lparr>ds_users := [durable_user_row]\<rparr>)"
  obtain st' where saved: "save_risk_scores_pg sample_tid sample_tid [durable_risk] (\<lambda>_. ''r1'') 5 ?st = (Inr (), st')"
    and db: "ds_users (pg_database st') = [durable_user_row]"
      "ds_risk_scores (pg_database st') = [(risk_row_of ?st sample_tid durable_risk)\<lparr>rk_id := ''r1'', rk_tenant_id := sample_tid, rk_computed_at := 5\<rparr>]"
      "ds_impact_scores (pg_database st') = []"
    by (simp add: save_risk_scores_pg_def bind_stored_def parse_uuid_or_raise_def durable_uuid in_session_def sample_session
        executed_unit_def executed_def write_risk_scores_def numbered_def grant_simps empty_datastore_def Let_def)
  have plain: "featureless (pg_database ?st)" by (simp add: featureless_def empty_datastore_def)
  obtain out db2 c where page: "get_user_risk (\<lambda>_. Inr 0) (\<lambda>_. Inr 0) id ''u'' durable_console (pg_database st') = (Inr out, db2)"
    and c: "xo_circle out = Some c"
    by (simp add: get_user_risk_def console_read_def tenant_session_def durable_console_def sample_session db_for_tenant_def
        user_risk_rows_def get_user_def users_of_def sql_select_def grant_simps db durable_user_row_def scalar_one_or_none_def
        get_latest_risk_score_def get_latest_impact_scores_def risk_row_of_def durable_risk_def lifted_def circle_part_of_def
        signal_part_of_def latest_per_def Let_def)
  from risk_page_shows_no_circle [OF plain saved page] c saved page show ?thesis by blast
qed

definition durable_experiment :: experiment_row where
  "durable_experiment = \<lparr>ep_id = sample_tid, ep_tenant_id = sample_tid, ep_name = ''default'', ep_control_pct = 10,
     ep_naive_pct = 10, ep_started_at = 0, ep_ended_at = None\<rparr>"

definition durable_outcome_in :: outcome_in where
  "durable_outcome_in = \<lparr>oi_client_outcome_id = ''o1'', oi_user_ref = ''u'', oi_experiment_id = sample_tid,
     oi_outcome_type = ''RETAINED'', oi_observed_at = ''2026-01-01'', oi_value_idr = Some 7\<rparr>"

theorem outcome_replay_counts_twice_witness:
  "\<exists>ls1 db1 ls2 db2. post_outcome sample_fromisoformat sample_api_settings 5 durable_outcome_in sample_tid ''i1''
        (no_limiters, empty_datastore\<lparr>ds_experiments := [durable_experiment]\<rparr>) = (Inr (), ls1, db1)
     \<and> post_outcome sample_fromisoformat sample_api_settings 5 (durable_outcome_in\<lparr>oi_client_outcome_id := ''o1''\<rparr>) sample_tid ''i2''
        (no_limiters, db1) = (Inr (), ls2, db2)
     \<and> length (ds_outcomes db2) = 2"
proof -
  let ?post = "\<lambda>body f db. post_outcome sample_fromisoformat sample_api_settings 5 body sample_tid f (no_limiters, db)"
  obtain ls where l: "check_ingest sample_api_settings 5 sample_tid no_limiters = (Inr (), ls)" using sample_limit by blast
  note defs = post_outcome_def l tenant_session_def sample_ingest sample_session durable_uuid lifted_def rfc3339_or_raise_def
    sample_fromisoformat_def get_experiment_def experiments_of_def sql_select_def grant_simps scalar_one_or_none_def
    durable_experiment_def record_outcome_def Let_def
  let ?body = "durable_outcome_in\<lparr>oi_client_outcome_id := ''o1''\<rparr>"
  obtain ls1 db1 where a: "?post durable_outcome_in ''i1'' (empty_datastore\<lparr>ds_experiments := [durable_experiment]\<rparr>) = (Inr (), ls1, db1)"
    and db1: "ds_experiments db1 = [durable_experiment]"
    by (simp add: defs durable_outcome_in_def)
  obtain ls2 db2 where b: "?post ?body ''i2'' db1 = (Inr (), ls2, db2)"
    using db1 by (simp add: defs durable_outcome_in_def)
  from outcome_replay_counts_twice [OF a b] a b show ?thesis by (fastforce simp: empty_datastore_def)
qed

definition durable_label :: labeled_example where
  "durable_label = \<lparr>le_tenant_id = sample_tid, le_source_outcome_id = sample_tid, le_user_pseudonym = ''u'',
     le_features = [(''recency_days'', 1)], le_arm = ENGINE, le_treated = True, le_retained = True, le_churn_risk = Some (1/2),
     le_impact_score = None, le_pattern_type = None, le_incentive_code = Some ''CASH'', le_cost_idr = 5,
     le_business_value_idr = 9, le_realized_value_idr = 7\<rparr>"

theorem labeled_examples_refine_witness:
  "\<exists>st' loaded. save_labeled_examples_pg [durable_label] (\<lambda>_ _. ''l1'') 5 (durable_store empty_datastore) = (Inr (), st')
    \<and> load_labeled_examples_pg (\<lambda>_. Inr 0) (\<lambda>_. Inr 0) sample_tid st' = (Inr loaded, st') \<and> set loaded = {durable_label}"
proof -
  have agree: "labels_agree (\<lambda>_. Inr 0) (\<lambda>_. Inr 0) sample_tid (durable_store empty_datastore) empty_store"
    by (simp add: labels_agree_def empty_datastore_def empty_store_def keyed_rows_def label_row_def find_example_def bucket_of_def dict_get_def)
  have storable: "list_all (storable sample_tid) [durable_label]"
    using is_float_of_int [of 7] fl_of_int [of 7] by (simp add: storable_def durable_label_def durable_uuid float_of_int_def)
  have "set (load_labeled_examples sample_tid (save_labeled_examples [durable_label] empty_store)) = {durable_label}"
    by code_simp
  with labeled_examples_refine [OF agree storable sample_session, of "\<lambda>_ _. ''l1''" 5] show ?thesis by auto
qed

definition durable_raw :: raw_event_row where
  "durable_raw = \<lparr>rv_id = ''r1'', rv_tenant_id = sample_tid, rv_client_event_id = ''e1'', rv_received_at = 0, rv_payload = [],
     rv_processed_at = None, rv_process_error = None\<rparr>"

definition durable_event :: canonical_event where
  "durable_event = \<lparr>e_tenant_id = sample_tid, e_client_event_id = ''e1'', e_event_type = SESSION_OPEN, e_occurred_at = 40,
     e_utcoffset = 7, e_user_pseudonym = ''u'', e_amount_idr = None, e_counterparty_pseudonym = None,
     e_attributes = [(''channel'', JStr ''app'')]\<rparr>"

theorem canonical_events_reload_witness:
  "\<exists>st' es. save_canonical_events_pg sample_tid [durable_event] (\<lambda>_. ''c1'') (durable_store (empty_datastore\<lparr>ds_raw_events := [durable_raw]\<rparr>))
      = (Inr 1, st')
    \<and> load_canonical_events_pg (\<lambda>_. 0) sample_tid 30 st' = (Inr es, st')
    \<and> set es = {durable_event\<lparr>e_amount_idr := Some 0, e_utcoffset := 0\<rparr>}"
proof -
  let ?st = "durable_store (empty_datastore\<lparr>ds_raw_events := [durable_raw]\<rparr>)"
  have "fst (save_canonical_events_pg sample_tid [durable_event] (\<lambda>_. ''c1'') ?st) = Inr 1" by code_simp
  then obtain st' where saved: "save_canonical_events_pg sample_tid [durable_event] (\<lambda>_. ''c1'') ?st = (Inr 1, st')"
    by (cases "save_canonical_events_pg sample_tid [durable_event] (\<lambda>_. ''c1'') ?st") simp
  have before: "load_canonical_events_pg (\<lambda>_. 0) sample_tid 30 ?st = (Inr [], ?st)"
    by (simp add: load_canonical_events_pg_def in_session_def sample_session load_since_def sql_select_def grant_simps
        empty_datastore_def raw_events_of_def)
  have wf: "list_all (well_formed_event sample_tid) [durable_event]"
    by (simp add: well_formed_event_def durable_event_def ALLOWED_ATTRIBUTE_KEYS_def)
  from canonical_events_reload [OF saved _ before _ wf] obtain es where
    "load_canonical_events_pg (\<lambda>_. 0) sample_tid 30 st' = (Inr es, st')"
    "set es = reloaded (\<lambda>_. 0) ` {e \<in> {durable_event}. 30 \<le> e_occurred_at e}"
    by (auto simp: durable_raw_def)
  moreover have "{e \<in> {durable_event}. 30 \<le> e_occurred_at e} = {durable_event}" by (auto simp: durable_event_def)
  ultimately show ?thesis using saved by (auto simp: reloaded_def or_zero_def durable_event_def)
qed

definition durable_recommendation :: new_recommendation where
  "durable_recommendation =
     \<lparr>nr_recommendation_id = ''n1'', nr_tenant_id = sample_tid, nr_run_id = sample_tid, nr_candidate_id = ''c1'', nr_arm = ENGINE,
      nr_status = PENDING_APPROVAL, nr_incentive_code = ''CASH'', nr_cost_idr = 5, nr_priority = 3,
      nr_user_pseudonym = Some ''u'', nr_group_id = None, nr_member_pseudonyms = [''u''], nr_runner_up_candidate_id = None,
      nr_reason_text = ''text'', nr_reason_source = ''TEMPLATE'', nr_fact_sheet_hash = ''h'', nr_created_at = 5,
      nr_reviewed_by = None, nr_reviewed_at = None\<rparr>"

definition durable_snapshot :: feature_snapshot where
  "durable_snapshot = \<lparr>fs_tenant_id = sample_tid, fs_run_id = sample_tid, fs_user_pseudonym = ''u'', fs_features = [],
     fs_churn_risk = None, fs_impact_score = None, fs_pattern_type = None, fs_incentive_code = None, fs_cost_idr = 0,
     fs_business_value_idr = 0\<rparr>"

definition durable_attempt :: "string \<Rightarrow> postgres_store \<Rightarrow> unit result \<times> postgres_store" where
  "durable_attempt run st = persist_writes [durable_recommendation] [durable_snapshot] (\<lambda>_. run @ ''a'') (\<lambda>_. run @ ''b'')
     (\<lambda>_. run @ ''c'') 5 (st\<lparr>pg_allocation_run_id := Some run\<rparr>)"

lemma durable_attempts:
  "fst (durable_attempt ''x'' (durable_store empty_datastore)) = Inr ()"
  "fst (create_recommendations_pg [durable_recommendation] (\<lambda>_. ''ya'') 5
     ((snd (durable_attempt ''x'' (durable_store empty_datastore)))\<lparr>pg_allocation_run_id := Some ''y''\<rparr>)) = Inr ()"
  "pg_tenant_id (snd (durable_attempt ''x'' (durable_store empty_datastore))) = sample_tid"
  by code_simp+

theorem retried_run_duplicates_and_fails_witness:
  "\<exists>st1 st3. durable_attempt ''x'' (durable_store empty_datastore) = (Inr (), st1)
     \<and> durable_attempt ''y'' st1 = (Inl unique_violation, st3)
     \<and> length (recommendations_of st3) = length (recommendations_of st1) + 1"
proof -
  let ?st = "durable_store empty_datastore" and ?mk = "create_recommendations_pg [durable_recommendation] (\<lambda>_. ''ya'') 5"
  obtain st1 where first: "durable_attempt ''x'' ?st = (Inr (), st1)" "pg_tenant_id st1 = sample_tid"
    using durable_attempts(1,3) by (cases "durable_attempt ''x'' ?st") auto
  obtain st3 where again: "?mk (st1\<lparr>pg_allocation_run_id := Some ''y''\<rparr>) = (Inr (), st3)"
    using durable_attempts(2) first(1) by (cases "?mk (st1\<lparr>pg_allocation_run_id := Some ''y''\<rparr>)") auto
  have "map_result snapshot_columns [durable_snapshot] = Inr (map (\<lambda>f. case snapshot_columns f of Inr r \<Rightarrow> r) [durable_snapshot])"
    by (simp add: snapshot_columns_def durable_snapshot_def parse_uuid_or_raise_def durable_uuid)
  with retried_run_duplicates_and_fails [OF first(1) [unfolded durable_attempt_def], of durable_snapshot
      "st1\<lparr>pg_allocation_run_id := Some ''y''\<rparr>" "[durable_recommendation]" "\<lambda>_. ''ya''" 5 st3 durable_snapshot
      "[durable_snapshot]" _ "\<lambda>_. ''yb''" "\<lambda>_. ''yc''"] first again sample_session
  show ?thesis by (auto simp: durable_attempt_def)
qed
end
