(* ===== verification/Scorer.thy ===== *)
theory Scorer
  imports Codec Pipeline
begin

text \<open>
  The resident churn scorer, \<open>services/worker/src/worker/churn_scorer.py\<close>: the artifact bundle and its
  integrity check, the scorer that is fitted on the saved context, and the preparation and scoring of candidates.
  What the code takes from pandas (reading a parquet file, coercing a cell to a number, a date or an integer), from
  \<open>torch\<close> and \<open>tabpfn\<close> (the devices, the classifier) and from \<open>hashlib\<close> is the record
  \<open>scorer_world\<close>.  A data frame is its columns in order, each a list of cells; a cell that pandas holds to
  be missing is \<open>Missing\<close>.  The last section composes the scorer with the risk stage of \<open>Stages\<close>.
\<close>

section \<open>Data frames\<close>

datatype cell = Missing | Cell scorer_value

type_synonym frame = "(string \<times> cell list) list"

definition frame_len :: "frame \<Rightarrow> nat" where
  "frame_len f = (case f of [] \<Rightarrow> 0 | (c, xs) # _ \<Rightarrow> length xs)"

definition column :: "frame \<Rightarrow> string \<Rightarrow> cell list result" where
  "column f c = look f c"

text \<open>\<open>frame[names]\<close>, and the rows a mask selects.\<close>

definition columns :: "frame \<Rightarrow> string list \<Rightarrow> frame result" where
  "columns f names = map_result (\<lambda>c. bind_result (column f c) (\<lambda>xs. Inr (c, xs))) names"

definition rows_where :: "bool list \<Rightarrow> frame \<Rightarrow> frame" where
  "rows_where chosen f = map (\<lambda>(c, xs). (c, map fst (filter snd (zip xs chosen)))) f"





section \<open>Artifact bundle\<close>

record scorer_world =
  w_sha256 :: "string \<Rightarrow> string"
  w_float_of :: "string \<Rightarrow> pyfloat"
  w_repr :: "json \<Rightarrow> string"
  w_float_repr :: "pyfloat \<Rightarrow> string"
  w_read_parquet :: "string \<Rightarrow> frame result"
  w_numeric :: "string \<Rightarrow> scorer_value option"
  w_date :: "cell \<Rightarrow> string option"
  w_int64 :: "cell \<Rightarrow> int result"
  w_missing_text :: string
  w_cuda :: "bool option"

definition SCHEMA_VERSION :: string where "SCHEMA_VERSION = ''1.0.0''"
definition PARQUET_NAME :: string where "PARQUET_NAME = ''synthetic_churn_context.parquet''"
definition SCHEMA_NAME :: string where "SCHEMA_NAME = ''context_schema.json''"
definition METADATA_NAME :: string where "METADATA_NAME = ''run_metadata.json''"

text \<open>\<open>w_cuda\<close> is \<open>None\<close> where \<open>torch\<close> cannot be imported.\<close>

definition resolve_device :: "scorer_world \<Rightarrow> string \<Rightarrow> string" where
  "resolve_device w device =
     (if device \<noteq> ''auto'' then device
      else case w_cuda w of None \<Rightarrow> ''cpu'' | Some available \<Rightarrow> if available then ''cuda'' else ''cpu'')"

text \<open>A directory is its path and the bytes of its files.\<close>

record artifact_dir =
  ad_path :: string
  ad_files :: "string \<Rightarrow> string option"

definition file_path :: "artifact_dir \<Rightarrow> string \<Rightarrow> string" where
  "file_path d name = ad_path d @ ''/'' @ name"

definition read_bytes :: "artifact_dir \<Rightarrow> string \<Rightarrow> string result" where
  "read_bytes d name = (case ad_files d name of
       None \<Rightarrow> Inl (RuntimeError (''FileNotFoundError: Missing scorer artifact: '' @ file_path d name))
     | Some bytes \<Rightarrow> Inr bytes)"

definition read_json :: "scorer_world \<Rightarrow> artifact_dir \<Rightarrow> string \<Rightarrow> json result" where
  "read_json w d name =
     bind_result (read_bytes d name) (\<lambda>bytes. case utf8_decode bytes of
         None \<Rightarrow> Inl (RuntimeError ''UnicodeDecodeError: invalid start byte'')
       | Some s \<Rightarrow> (case json_loads (w_float_of w) s of
             None \<Rightarrow> Inl (RuntimeError ''JSONDecodeError: Expecting value'')
           | Some v \<Rightarrow> Inr v))"

text \<open>\<open>v[k]\<close>, \<open>v.get(k, default)\<close>, and a value that names a column.\<close>

definition subscript :: "json \<Rightarrow> string \<Rightarrow> json result" where
  "subscript v k = (case v of JDict d \<Rightarrow> look d k | _ \<Rightarrow> Inl (RuntimeError ''TypeError: indices must be integers''))"

definition get_or :: "json \<Rightarrow> string \<Rightarrow> json \<Rightarrow> json result" where
  "get_or v k dflt = (case v of JDict d \<Rightarrow> Inr (dict_get d k dflt)
     | _ \<Rightarrow> Inl (RuntimeError ''AttributeError: object has no attribute get''))"

definition name_of :: "scorer_world \<Rightarrow> json \<Rightarrow> string result" where
  "name_of w v = (case v of JStr s \<Rightarrow> Inr s | _ \<Rightarrow> Inl (KeyError (w_repr w v)))"

definition text_of :: "scorer_world \<Rightarrow> json \<Rightarrow> string" where
  "text_of w v = (case v of JStr s \<Rightarrow> s | _ \<Rightarrow> w_repr w v)"

record artifact_bundle =
  ab_dir :: artifact_dir
  ab_schema :: json
  ab_metadata :: json

definition recorded_hash :: "artifact_bundle \<Rightarrow> string \<Rightarrow> json result" where
  "recorded_hash b name =
     bind_result (get_or (ab_metadata b) ''artifacts'' (JDict [])) (\<lambda>recorded.
     bind_result (get_or recorded name (JDict [])) (\<lambda>entry. get_or entry ''sha256'' JNull))"

definition verify_hash :: "scorer_world \<Rightarrow> artifact_bundle \<Rightarrow> string \<Rightarrow> unit result" where
  "verify_hash w b name =
     bind_result (recorded_hash b name) (\<lambda>expected.
     if \<not> truthy expected then Inl (ValueError (''No recorded SHA-256 hash for '' @ name))
     else
       bind_result (read_bytes (ab_dir b) name) (\<lambda>bytes.
       if JStr (w_sha256 w bytes) \<noteq> expected
       then Inl (ValueError (''Artifact integrity check failed for '' @ name @ '': expected '' @ text_of w expected
              @ '', received '' @ w_sha256 w bytes))
       else Inr ()))"

definition verify_hashes :: "scorer_world \<Rightarrow> artifact_bundle \<Rightarrow> unit result" where
  "verify_hashes w b = bind_result (map_result (verify_hash w b) [PARQUET_NAME, SCHEMA_NAME]) (\<lambda>_. Inr ())"

definition load_bundle :: "scorer_world \<Rightarrow> artifact_dir \<Rightarrow> bool \<Rightarrow> artifact_bundle result" where
  "load_bundle w d verify =
     bind_result (map_result (read_bytes d) [PARQUET_NAME, SCHEMA_NAME, METADATA_NAME]) (\<lambda>_.
     bind_result (read_json w d SCHEMA_NAME) (\<lambda>schema.
     bind_result (read_json w d METADATA_NAME) (\<lambda>metadata.
     bind_result (get_or schema ''schema_version'' JNull) (\<lambda>version.
     if version \<noteq> JStr SCHEMA_VERSION then Inl (ValueError (''Unsupported schema version: '' @ w_repr w version))
     else
       let b = \<lparr>ab_dir = d, ab_schema = schema, ab_metadata = metadata\<rparr>
       in if verify then bind_result (verify_hashes w b) (\<lambda>_. Inr b) else Inr b))))"



section \<open>Fitting the saved context\<close>

text \<open>
  A classifier factory sees the process environment and the arguments of the constructor and returns the model that
  is fitted on a frame and its labels.
\<close>

record fitted_model =
  fm_classes :: "int list"
  fm_predict_proba :: "frame \<Rightarrow> pyfloat list list result"

type_synonym environ = "(string \<times> string) list"
type_synonym classifier_factory =
  "environ \<Rightarrow> (string \<times> json) list \<Rightarrow> frame \<Rightarrow> int list \<Rightarrow> fitted_model result"

record scorer_spec =
  ss_bundle :: artifact_bundle
  ss_device :: string
  ss_feature_names :: "string list"
  ss_positive_class :: json
  ss_categorical :: "(string \<times> string list) list"
  ss_numeric :: "string list"

record churn_risk_scorer =
  cs_spec :: scorer_spec
  cs_context_row_count :: nat
  cs_model :: fitted_model
  cs_positive_class_position :: nat

text \<open>
  The comprehensions over the feature specifications.  A categorical feature without a list of categories is refused
  here already; in the code its first prediction fails.
\<close>

definition feature_names :: "scorer_world \<Rightarrow> json list \<Rightarrow> string list result" where
  "feature_names w specs = map_result (\<lambda>item. bind_result (subscript item ''name'') (name_of w)) specs"

definition categories_of :: "scorer_world \<Rightarrow> json \<Rightarrow> (string \<times> string list) list result" where
  "categories_of w item =
     bind_result (subscript item ''kind'') (\<lambda>kind.
     if kind = JStr ''categorical''
     then bind_result (subscript item ''name'') (\<lambda>n. bind_result (name_of w n) (\<lambda>name.
          bind_result (subscript item ''categories'') (\<lambda>c. bind_result (iter_json c) (\<lambda>cs.
          bind_result (map_result (name_of w) cs) (\<lambda>categories. Inr [(name, categories)])))))
     else Inr [])"

definition categorical_categories :: "scorer_world \<Rightarrow> json list \<Rightarrow> (string \<times> string list) list result" where
  "categorical_categories w specs =
     bind_result (map_result (categories_of w) specs) (\<lambda>parts.
     Inr (foldl (\<lambda>d (k, v). AList.update k v d) [] (concat parts)))"

definition numeric_features :: "scorer_world \<Rightarrow> json list \<Rightarrow> string list result" where
  "numeric_features w specs =
     bind_result (map_result (\<lambda>item. bind_result (subscript item ''kind'') (\<lambda>kind.
        if kind = JStr ''numerical''
        then bind_result (subscript item ''name'') (\<lambda>n. bind_result (name_of w n) (\<lambda>name. Inr [name]))
        else Inr [])) specs) (\<lambda>parts. Inr (concat parts))"

text \<open>\<open>pd.Categorical(cells, categories=...)\<close>: what is no category is missing.\<close>

definition categorical :: "string list \<Rightarrow> cell list \<Rightarrow> cell list result" where
  "categorical categories xs =
     (if distinct categories
      then Inr (map (\<lambda>x. case x of Cell (SStr s) \<Rightarrow> if s \<in> set categories then x else Missing | _ \<Rightarrow> Missing) xs)
      else Inl (ValueError ''Categorical categories must be unique''))"

fun restore_categories :: "(string \<times> string list) list \<Rightarrow> frame \<Rightarrow> frame result" where
  "restore_categories [] f = Inr f"
| "restore_categories ((c, categories) # rest) f =
     bind_result (column f c) (\<lambda>xs. bind_result (categorical categories xs) (\<lambda>ys.
     restore_categories rest (AList.update c ys f)))"

definition cell_text :: "scorer_world \<Rightarrow> cell \<Rightarrow> string" where
  "cell_text w x = (case x of Missing \<Rightarrow> w_missing_text w | Cell (SStr s) \<Rightarrow> s | Cell (SInt i) \<Rightarrow> show_int i
     | Cell (SFloat v) \<Rightarrow> w_float_repr w v)"

definition context_mask :: "scorer_world \<Rightarrow> json \<Rightarrow> frame \<Rightarrow> bool list result" where
  "context_mask w schema tbl =
     bind_result (subscript schema ''split'') (\<lambda>split.
     bind_result (subscript split ''column'') (\<lambda>c. bind_result (name_of w c) (\<lambda>name.
     bind_result (column tbl name) (\<lambda>xs.
     bind_result (subscript split ''context_value'') (\<lambda>v. Inr (map (\<lambda>x. JStr (cell_text w x) = v) xs))))))"

definition context_of :: "scorer_world \<Rightarrow> json \<Rightarrow> string list \<Rightarrow> string \<Rightarrow> frame \<Rightarrow> (frame \<times> int list) result" where
  "context_of w schema names target tbl =
     bind_result (context_mask w schema tbl) (\<lambda>chosen.
     let context = rows_where chosen tbl
     in if frame_len context = 0 then Inl (ValueError ''The artifact contains no TabPFN context rows'')
        else
          bind_result (columns context names) (\<lambda>X.
          bind_result (column context target) (\<lambda>cells. bind_result (map_result (w_int64 w) cells) (\<lambda>y.
          if set y \<noteq> {0, 1} then Inl (ValueError ''The saved context must contain both binary target classes'')
          else Inr (X, y)))))"

definition constructor_of :: "json \<Rightarrow> string \<Rightarrow> string list \<Rightarrow> string list \<Rightarrow> (string \<times> json) list result" where
  "constructor_of metadata device names categorical_names =
     bind_result (subscript metadata ''tabpfn'') (\<lambda>t. bind_result (subscript t ''constructor'') (\<lambda>c.
     case c of JDict d \<Rightarrow>
         Inr (AList.update ''categorical_features_indices''
                (JList (map (\<lambda>n. JInt (int (index_of names n))) categorical_names))
                (AList.update ''device'' (JStr device) d))
       | _ \<Rightarrow> Inl (RuntimeError ''TypeError: constructor is not a dictionary'')))"

text \<open>\<open>ChurnRiskScorer.__init__\<close> up to the constructor of the model.\<close>

definition prepare_fit ::
  "scorer_world \<Rightarrow> artifact_dir \<Rightarrow> string \<Rightarrow> bool \<Rightarrow> (scorer_spec \<times> frame \<times> int list \<times> (string \<times> json) list) result" where
  "prepare_fit w d device0 verify =
     bind_result (load_bundle w d verify) (\<lambda>b.
     let schema = ab_schema b; device = resolve_device w device0 in
     bind_result (subscript schema ''model_features_ordered'') (\<lambda>fs. bind_result (iter_json fs) (\<lambda>specs.
     bind_result (feature_names w specs) (\<lambda>names.
     bind_result (subscript schema ''target'') (\<lambda>target.
     bind_result (subscript target ''name'') (\<lambda>tn. bind_result (name_of w tn) (\<lambda>target_name.
     bind_result (subscript target ''positive_class'') (\<lambda>positive.
     bind_result (categorical_categories w specs) (\<lambda>cats.
     bind_result (numeric_features w specs) (\<lambda>numeric.
     bind_result (read_bytes d PARQUET_NAME) (\<lambda>bytes.
     bind_result (w_read_parquet w bytes) (\<lambda>tbl0.
     bind_result (restore_categories cats tbl0) (\<lambda>tbl.
     bind_result (context_of w schema names target_name tbl) (\<lambda>(X, y).
     bind_result (constructor_of (ab_metadata b) device names (map fst cats)) (\<lambda>kwargs.
     Inr (\<lparr>ss_bundle = b, ss_device = device, ss_feature_names = names, ss_positive_class = positive,
            ss_categorical = cats, ss_numeric = numeric\<rparr>, X, y, kwargs))))))))))))))))"

text \<open>\<open>np.asarray(classes_) == positive_class\<close>, elementwise.\<close>

definition same_class :: "json \<Rightarrow> int \<Rightarrow> bool" where
  "same_class v c = (case v of JInt i \<Rightarrow> i = c | JBool b \<Rightarrow> of_bool b = c | JFloat x \<Rightarrow> x = of_int c | _ \<Rightarrow> False)"

definition fit_scorer ::
  "scorer_world \<Rightarrow> classifier_factory \<Rightarrow> environ \<Rightarrow> scorer_spec \<times> frame \<times> int list \<times> (string \<times> json) list \<Rightarrow>
   churn_risk_scorer result" where
  "fit_scorer w factory env plan = (case plan of (spec, X, y, kwargs) \<Rightarrow>
     bind_result (factory env kwargs X y) (\<lambda>model.
     let matching = filter (\<lambda>i. same_class (ss_positive_class spec) (fm_classes model ! i)) [0..<length (fm_classes model)]
     in if length matching \<noteq> 1
        then Inl (ValueError (''Positive class '' @ w_repr w (ss_positive_class spec) @ '' is absent from model classes''))
        else Inr \<lparr>cs_spec = spec, cs_context_row_count = frame_len X, cs_model = model,
                  cs_positive_class_position = hd matching\<rparr>))"

definition make_scorer ::
  "scorer_world \<Rightarrow> classifier_factory \<Rightarrow> environ \<Rightarrow> artifact_dir \<Rightarrow> string \<Rightarrow> bool \<Rightarrow> bool \<Rightarrow>
   churn_risk_scorer result \<times> environ" where
  "make_scorer w factory env d device verify allow_cpu_large_context =
     (case prepare_fit w d device verify of
        Inl e \<Rightarrow> (Inl e, env)
      | Inr plan \<Rightarrow>
          let env' = (if ss_device (fst plan) = ''cpu'' \<and> allow_cpu_large_context
                      then dict_setdefault ''TABPFN_ALLOW_CPU_LARGE_DATASET'' ''1'' env else env)
          in (fit_scorer w factory env' plan, env'))"

record scorer_settings =
  sc_tabpfn_token :: "string option"
  sc_artifact_dir :: artifact_dir
  sc_device :: string
  sc_verify_hashes :: bool
  sc_allow_cpu_large_context :: bool

definition load_scorer ::
  "scorer_world \<Rightarrow> classifier_factory \<Rightarrow> environ \<Rightarrow> scorer_settings \<Rightarrow> churn_risk_scorer result \<times> environ" where
  "load_scorer w factory env st =
     (let env1 = (case sc_tabpfn_token st of
            Some token \<Rightarrow> if token \<noteq> [] \<and> dict_get env ''TABPFN_TOKEN'' [] = []
                          then AList.update ''TABPFN_TOKEN'' token env else env
          | None \<Rightarrow> env)
      in case make_scorer w factory env1 (sc_artifact_dir st) (sc_device st) (sc_verify_hashes st)
              (sc_allow_cpu_large_context st) of
           (Inr s, env2) \<Rightarrow> (Inr s, env2)
         | (Inl e, env2) \<Rightarrow> (Inl (ChurnScorerUnavailable (''trained churn scorer could not load from ''
               @ w_repr w (JStr (ad_path (sc_artifact_dir st))) @ '': '' @ exn_text e)), env2))"

text \<open>\<open>python -m worker.churn_scorer --verify\<close>: what it writes and its exit status.\<close>

definition verify_command :: "scorer_world \<Rightarrow> artifact_dir \<Rightarrow> (string \<times> nat) result" where
  "verify_command w d =
     (case load_bundle w d True of
        Inl e \<Rightarrow> Inr (''churn scorer bundle INVALID: '' @ exn_text e, 1)
      | Inr b \<Rightarrow>
          bind_result (get_or (ab_metadata b) ''environment'' (JDict [])) (\<lambda>environment.
          bind_result (get_or environment ''tabpfn'' JNull) (\<lambda>version.
          Inr (''churn scorer bundle OK: '' @ ad_path d @ '' (tabpfn '' @ text_of w version @ '')'', 0))))"


section \<open>Scoring candidates\<close>














section \<open>The integrity check\<close>

lemma verify_hash_Inr:
  "verify_hash w b name = Inr u \<longleftrightarrow> (\<exists>bytes. ad_files (ab_dir b) name = Some bytes
     \<and> recorded_hash b name = Inr (JStr (w_sha256 w bytes)) \<and> w_sha256 w bytes \<noteq> [])"
  by (cases "recorded_hash b name"; cases "ad_files (ab_dir b) name") (auto simp: verify_hash_def read_bytes_def split: if_splits)

lemma load_bundle_Inr:
  "load_bundle w d verify = Inr b \<longleftrightarrow> (\<exists>schema metadata. b = \<lparr>ab_dir = d, ab_schema = schema, ab_metadata = metadata\<rparr>
     \<and> (\<forall>name \<in> {PARQUET_NAME, SCHEMA_NAME, METADATA_NAME}. ad_files d name \<noteq> None)
     \<and> read_json w d SCHEMA_NAME = Inr schema \<and> read_json w d METADATA_NAME = Inr metadata
     \<and> get_or schema ''schema_version'' JNull = Inr (JStr SCHEMA_VERSION)
     \<and> (verify \<longrightarrow> (\<forall>name \<in> {PARQUET_NAME, SCHEMA_NAME}. verify_hash w b name = Inr ())))"
  by (auto simp: load_bundle_def read_bytes_def verify_hashes_def res_simps Let_def split: option.splits if_splits)

lemma verified_bundle:
  assumes "load_bundle w d True = Inr b" "name \<in> {PARQUET_NAME, SCHEMA_NAME}"
  shows "\<exists>bytes. ad_files d name = Some bytes \<and> recorded_hash b name = Inr (JStr (w_sha256 w bytes))"
proof -
  have "verify_hash w b name = Inr ()" "ab_dir b = d" using assms by (auto simp: load_bundle_Inr)
  then show ?thesis by (auto simp: verify_hash_Inr)
qed

lemma recorded_hash_metadata:
  assumes "load_bundle w d v = Inr b" "load_bundle w d' v' = Inr b'" "ad_files d' METADATA_NAME = ad_files d METADATA_NAME"
  shows "recorded_hash b' name = recorded_hash b name"
  using assms by (auto simp: load_bundle_Inr read_json_def read_bytes_def recorded_hash_def res_simps)

lemma load_scorer_error:
  "fst (load_scorer w factory env st) = Inl e \<Longrightarrow> \<exists>m. e = ChurnScorerUnavailable m"
  by (auto simp: load_scorer_def Let_def split: prod.splits sum.splits)

text \<open>
  C23. Once a bundle verifies, no other content of its table or its schema is served in its place: a directory with the
  same run metadata whose table or schema has another hash does not open, and the worker that is configured to verify
  it refuses to start with \<open>ChurnScorerUnavailable\<close>.
\<close>

theorem tampered_bundle_unavailable:
  assumes "load_bundle w d True = Inr b" "ad_files d' METADATA_NAME = ad_files d METADATA_NAME"
    and "name \<in> {PARQUET_NAME, SCHEMA_NAME}" "ad_files d name = Some x" "ad_files d' name = Some y" "w_sha256 w x \<noteq> w_sha256 w y"
    and "sc_artifact_dir st = d'" "sc_verify_hashes st"
  shows "(\<exists>e. load_bundle w d' True = Inl e)
    \<and> (\<exists>m. fst (load_scorer w factory env st) = Inl (ChurnScorerUnavailable m))"
proof -
  have "load_bundle w d' True \<noteq> Inr b'" for b'
  proof
    assume b': "load_bundle w d' True = Inr b'"
    from verified_bundle [OF b' assms(3)] verified_bundle [OF assms(1,3)] assms(4,5,6)
      recorded_hash_metadata [OF assms(1) b' assms(2)] show False by auto
  qed
  then obtain e where e: "load_bundle w d' True = Inl e" by (cases "load_bundle w d' True") auto
  then have "prepare_fit w d' dev True = Inl e" for dev by (simp add: prepare_fit_def)
  then have "\<exists>e'. fst (load_scorer w factory env st) = Inl e'"
    using assms(7,8) by (auto simp: load_scorer_def make_scorer_def Let_def split: option.splits)
  with e load_scorer_error show ?thesis by blast
qed

section \<open>Well-typed candidates\<close>











section \<open>The candidates of the risk stage\<close>



























section \<open>At concrete inputs\<close>




definition scorer_factory :: classifier_factory where
  "scorer_factory env kwargs X y =
     Inr \<lparr>fm_classes = [0, 1], fm_predict_proba = (\<lambda>X. Inr (replicate (frame_len X) [1/2, 1/2]))\<rparr>"

definition small_world :: scorer_world where
  "small_world = \<lparr>w_sha256 = rev, w_float_of = (\<lambda>s. 0), w_repr = (\<lambda>v. ''?''), w_float_repr = (\<lambda>v. ''0''),
     w_read_parquet = (\<lambda>b. Inr []), w_numeric = (\<lambda>s. None), w_date = (\<lambda>x. Some ''2026-09-17''), w_int64 = (\<lambda>x. Inr 0),
     w_missing_text = ''nan'', w_cuda = None\<rparr>"



text \<open>A bundle in miniature: its hash is the reversed content.\<close>

definition small_files :: "string \<Rightarrow> string \<Rightarrow> string option" where
  "small_files parquet name =
     (if name = PARQUET_NAME then Some parquet
      else if name = SCHEMA_NAME then Some (json_dumps (\<lambda>v. []) (JDict [(''schema_version'', JStr ''1.0.0'')]))
      else if name = METADATA_NAME then Some (json_dumps (\<lambda>v. []) (JDict [(''artifacts'', JDict
        [(PARQUET_NAME, JDict [(''sha256'', JStr ''cba'')]),
         (SCHEMA_NAME, JDict [(''sha256'', JStr (rev (json_dumps (\<lambda>v. []) (JDict [(''schema_version'', JStr ''1.0.0'')]))))])])]))
      else None)"

definition small_dir :: "string \<Rightarrow> artifact_dir" where
  "small_dir parquet = \<lparr>ad_path = ''artifacts'', ad_files = small_files parquet\<rparr>"

definition small_scorer_settings :: scorer_settings where
  "small_scorer_settings = \<lparr>sc_tabpfn_token = None, sc_artifact_dir = small_dir ''abd'', sc_device = ''auto'', sc_verify_hashes = True,
     sc_allow_cpu_large_context = True\<rparr>"

theorem tampered_bundle_unavailable_witness:
  "(\<exists>b. load_bundle small_world (small_dir ''abc'') True = Inr b)
   \<and> (\<exists>m. fst (load_scorer small_world scorer_factory [] small_scorer_settings) = Inl (ChurnScorerUnavailable m))"
proof -
  have "(case load_bundle small_world (small_dir ''abc'') True of Inl e \<Rightarrow> False | Inr b \<Rightarrow> True)" by code_simp
  then obtain b where b: "load_bundle small_world (small_dir ''abc'') True = Inr b" by (auto split: sum.splits)
  have "\<exists>m. fst (load_scorer small_world scorer_factory [] small_scorer_settings) = Inl (ChurnScorerUnavailable m)"
    by (rule conjunct2 [OF tampered_bundle_unavailable [OF b, of "small_dir ''abd''" PARQUET_NAME "''abc''" "''abd''"]])
      (simp_all add: small_dir_def small_files_def METADATA_NAME_def PARQUET_NAME_def SCHEMA_NAME_def small_world_def
        small_scorer_settings_def)
  with b show ?thesis by blast
qed

end
