(* ===== verification/Service.thy ===== *)
theory Service
  imports Scorer Access
begin

text \<open>
  The shells of the two services: the request middleware of the API (\<open>api/main.py\<close>) and its health route, the
  client of the language model (\<open>worker/llm_narrator.py\<close>), the settings the worker derives from its environment
  (\<open>worker/settings.py\<close>), and the start and the offline pass of the worker (\<open>worker/main.py\<close>).  The transports
  (an HTTP post, the classifier, the clock, the fixtures' files) are arguments.
\<close>

section \<open>The middleware of the API\<close>

definition READ_METHODS :: "string list" where
  "READ_METHODS = [''GET'', ''HEAD'', ''OPTIONS'']"

text \<open>\<open>_VERSION\<close> and the body of \<open>GET /v1/health\<close>.\<close>

definition health :: "string \<Rightarrow> (string \<times> string) list" where
  "health time = [(''status'', ''ok''), (''version'', ''0.2.0''), (''time'', time)]"

record 'a http_reply =
  hp_body :: "envelope + 'a"
  hp_request_id :: "string option"
  hp_response_time_ms :: "string option"

definition is_timeout :: "exn \<Rightarrow> bool" where
  "is_timeout e = (case e of RuntimeError m \<Rightarrow> starts_with ''TimeoutError'' m | _ \<Rightarrow> False)"

text \<open>
  \<open>request_id_and_timeout\<close>.  \<open>h\<close> is what the handler of the route returns or raises and \<open>elapsed\<close> the seconds it
  takes; an \<open>ApiError\<close> of the route is answered inside \<open>call_next\<close> by the handler the app registers for it,
  any other exception reaches the middleware.  \<open>hex\<close> is the random hex text of the request.
\<close>

definition request_id_and_timeout ::
  "(pyfloat \<Rightarrow> string) \<Rightarrow> api_settings \<Rightarrow> string \<Rightarrow> string \<Rightarrow> pyfloat \<Rightarrow> 'a handled \<Rightarrow> 'a http_reply" where
  "request_id_and_timeout one_decimal st hex method elapsed h =
     (let rid = ''req_'' @ take 20 hex;
          deadline = (if method \<in> set READ_METHODS then Some (as_api_request_timeout_seconds st) else None);
          failed = (\<lambda>err. \<lparr>hp_body = Inl (render_envelope (Some rid) err), hp_request_id = None, hp_response_time_ms = None\<rparr>);
          late = internal_error (''request exceeded API_REQUEST_TIMEOUT_SECONDS=''
                   @ (case deadline of Some t \<Rightarrow> show_int t | None \<Rightarrow> ''None'') @ ''s'');
          answered = \<lparr>hp_body = respond (Some rid) h, hp_request_id = Some rid,
                      hp_response_time_ms = Some (one_decimal (fmul elapsed 1000))\<rparr>
      in if (case deadline of Some t \<Rightarrow> of_int t < elapsed | None \<Rightarrow> False) then failed late
         else case h of
             Inl (Raised e) \<Rightarrow> if is_timeout e then failed late else failed (internal_error ''Internal error'')
           | Inl (ApiError err) \<Rightarrow> answered
           | Inr body \<Rightarrow> answered)"

section \<open>URLs\<close>

text \<open>
  \<open>urlsplit\<close> and \<open>urlunsplit\<close> of \<open>urllib.parse\<close>: the parts of a URL, and the URL of parts without a
  fragment.  The checks of a bracketed host beyond its brackets, and of the characters of a non-ASCII host, are not
  modelled.
\<close>

record url_parts =
  up_scheme :: string
  up_netloc :: string
  up_path :: string
  up_query :: string

definition is_alpha :: "char \<Rightarrow> bool" where
  "is_alpha c \<longleftrightarrow> (let n = of_char c :: nat in 65 \<le> n \<and> n \<le> 90 \<or> 97 \<le> n \<and> n \<le> 122)"

definition scheme_char :: "char \<Rightarrow> bool" where
  "scheme_char c \<longleftrightarrow> is_alpha c \<or> is_digit c \<or> c \<in> {CHR ''+'', CHR ''-'', CHR ''.''}"

definition clean_url :: "string \<Rightarrow> string" where
  "clean_url s = filter (\<lambda>c. c \<notin> {CHR 0x09, CHR 0x0D, CHR 0x0A}) (dropWhile (\<lambda>c. (of_char c :: nat) \<le> 32) s)"

definition split_scheme :: "string \<Rightarrow> string \<times> string" where
  "split_scheme u =
     (let p = takeWhile (\<lambda>c. c \<noteq> CHR '':'') u; rest = dropWhile (\<lambda>c. c \<noteq> CHR '':'') u
      in if rest \<noteq> [] \<and> p \<noteq> [] \<and> is_alpha (hd p) \<and> list_all scheme_char p then (py_lower p, tl rest) else ([], u))"

definition split_netloc :: "string \<Rightarrow> string \<times> string" where
  "split_netloc u =
     (if starts_with ''//'' u
      then (takeWhile (\<lambda>c. c \<notin> set ''/?#'') (drop 2 u), dropWhile (\<lambda>c. c \<notin> set ''/?#'') (drop 2 u))
      else ([], u))"

definition split_query :: "string \<Rightarrow> string \<times> string" where
  "split_query u = (takeWhile (\<lambda>c. c \<noteq> CHR ''?'') u, drop 1 (dropWhile (\<lambda>c. c \<noteq> CHR ''?'') u))"

definition urlsplit :: "string \<Rightarrow> url_parts result" where
  "urlsplit s =
     (case split_scheme (clean_url s) of (scheme, u) \<Rightarrow> case split_netloc u of (netloc, v) \<Rightarrow>
        if (CHR ''['' \<in> set netloc) \<noteq> (CHR '']'' \<in> set netloc) then Inl (ValueError ''Invalid IPv6 URL'')
        else case split_query (takeWhile (\<lambda>c. c \<noteq> CHR ''#'') v) of (path, query) \<Rightarrow>
          Inr \<lparr>up_scheme = scheme, up_netloc = netloc, up_path = path, up_query = query\<rparr>)"

definition USES_NETLOC :: "string list" where
  "USES_NETLOC = [[], ''ftp'', ''http'', ''gopher'', ''nntp'', ''telnet'', ''imap'', ''wais'', ''file'', ''mms'', ''https'',
     ''shttp'', ''snews'', ''prospero'', ''rtsp'', ''rtspu'', ''rsync'', ''svn'', ''svn+ssh'', ''sftp'', ''nfs'', ''git'',
     ''git+ssh'', ''ws'', ''wss'']"

definition urlunsplit :: "url_parts \<Rightarrow> string" where
  "urlunsplit p =
     (let url = (if up_netloc p \<noteq> [] \<or> up_scheme p \<noteq> [] \<and> up_scheme p \<in> set USES_NETLOC \<and> \<not> starts_with ''//'' (up_path p)
            then ''//'' @ up_netloc p
              @ (if up_path p \<noteq> [] \<and> \<not> starts_with ''/'' (up_path p) then ''/'' @ up_path p else up_path p)
            else up_path p);
          full = (if up_scheme p \<noteq> [] then up_scheme p @ '':'' @ url else url)
      in if up_query p \<noteq> [] then full @ ''?'' @ up_query p else full)"

section \<open>The client of the language model\<close>

record http_narrator =
  hn_url_parts :: url_parts
  hn_base_url :: string
  hn_model :: string
  hn_api_key :: "string option"
  hn_timeout_s :: pyfloat
  hn_temperature :: pyfloat
  hn_max_tokens :: int
  hn_max_retries :: nat
  hn_retry_backoff_s :: pyfloat

definition rstrip_slash :: "string \<Rightarrow> string" where
  "rstrip_slash s = rev (dropWhile (\<lambda>c. c = CHR ''/'') (rev s))"

definition new_narrator :: "string \<Rightarrow> string \<Rightarrow> string option \<Rightarrow> pyfloat \<Rightarrow> pyfloat \<Rightarrow> int \<Rightarrow> http_narrator result" where
  "new_narrator base_url model api_key timeout_s temperature max_tokens =
     bind_result (urlsplit base_url) (\<lambda>parts. Inr
       \<lparr>hn_url_parts = parts\<lparr>up_path := rstrip_slash (up_path parts)\<rparr>, hn_base_url = rstrip_slash base_url,
        hn_model = model, hn_api_key = api_key, hn_timeout_s = timeout_s, hn_temperature = temperature,
        hn_max_tokens = max_tokens, hn_max_retries = 3, hn_retry_backoff_s = 2\<rparr>)"

record http_request =
  rq_url :: string
  rq_headers :: "(string \<times> string) list"
  rq_timeout :: pyfloat
  rq_json :: json

record http_response =
  rp_status_code :: int
  rp_retry_after :: "string option"
  rp_json :: "json result"

definition narrate_request :: "http_narrator \<Rightarrow> string \<Rightarrow> string \<Rightarrow> http_request" where
  "narrate_request n system user =
     \<lparr>rq_url = urlunsplit ((hn_url_parts n)\<lparr>up_path := up_path (hn_url_parts n) @ ''/chat/completions''\<rparr>),
      rq_headers = (case hn_api_key n of
          Some key \<Rightarrow> if key \<noteq> [] then [(''Authorization'', ''Bearer '' @ key)] else []
        | None \<Rightarrow> []),
      rq_timeout = hn_timeout_s n,
      rq_json = JDict
        [(''model'', JStr (hn_model n)), (''temperature'', JFloat (hn_temperature n)), (''max_tokens'', JInt (hn_max_tokens n)),
         (''messages'', JList [JDict [(''role'', JStr ''system''), (''content'', JStr system)],
                               JDict [(''role'', JStr ''user''), (''content'', JStr user)]]),
         (''chat_template_kwargs'', JDict [(''enable_thinking'', JBool False)])]\<rparr>"

text \<open>\<open>raise_for_status()\<close> and \<open>json()["choices"][0]["message"]["content"].strip()\<close>\<close>

definition first_of :: "json \<Rightarrow> json result" where
  "first_of v = (case v of
       JList xs \<Rightarrow> py_nth xs 0
     | JStr s \<Rightarrow> (case s of [] \<Rightarrow> Inl IndexError | c # _ \<Rightarrow> Inr (JStr [c]))
     | JDict d \<Rightarrow> Inl (KeyError ''0'')
     | _ \<Rightarrow> Inl (RuntimeError ''TypeError: object is not subscriptable''))"

definition reply_text :: "http_response \<Rightarrow> string result" where
  "reply_text r =
     (if rp_status_code r < 200 \<or> 300 \<le> rp_status_code r then Inl (RuntimeError ''HTTPStatusError: no success'')
      else
        bind_result (rp_json r) (\<lambda>v. bind_result (subscript v ''choices'') (\<lambda>cs. bind_result (first_of cs) (\<lambda>c.
        bind_result (subscript c ''message'') (\<lambda>m. bind_result (subscript m ''content'') (\<lambda>t.
        case t of JStr s \<Rightarrow> Inr (py_strip s) | _ \<Rightarrow> Inl (RuntimeError ''AttributeError: object has no attribute strip'')))))))"

text \<open>
  The delay before the next attempt.  \<open>isdigit\<close> also holds of the superscript digits, which \<open>float\<close> refuses.
\<close>

definition is_superscript :: "char \<Rightarrow> bool" where
  "is_superscript c \<longleftrightarrow> (of_char c :: nat) \<in> {178, 179, 185}"

definition retry_delay :: "http_narrator \<Rightarrow> http_response \<Rightarrow> nat \<Rightarrow> pyfloat result" where
  "retry_delay n r attempt =
     (let backoff = fmul (hn_retry_backoff_s n) (float_of_int (2 ^ attempt)) in
      case rp_retry_after r of
        None \<Rightarrow> Inr backoff
      | Some s \<Rightarrow>
          if s \<noteq> [] \<and> list_all (\<lambda>c. is_digit c \<or> is_superscript c) s
          then if list_all is_digit s then Inr (float_of_int (int (decimal 0 s)))
               else Inl (ValueError ''could not convert string to float'')
          else Inr backoff)"

text \<open>The loop: \<open>post i\<close> is the answer to attempt \<open>i\<close>; the second component are the seconds slept.\<close>

fun narrate_loop ::
  "http_narrator \<Rightarrow> (nat \<Rightarrow> http_response result) \<Rightarrow> nat \<Rightarrow> nat \<Rightarrow> string result \<times> pyfloat list" where
  "narrate_loop n post attempt 0 =
     (case post attempt of Inl e \<Rightarrow> (Inl e, []) | Inr r \<Rightarrow> (reply_text r, []))"
| "narrate_loop n post attempt (Suc left) =
     (case post attempt of
        Inl e \<Rightarrow> (Inl e, [])
      | Inr r \<Rightarrow>
          if rp_status_code r = 429
          then (case retry_delay n r attempt of
                  Inl e \<Rightarrow> (Inl e, [])
                | Inr d \<Rightarrow> apsnd ((#) d) (narrate_loop n post (Suc attempt) left))
          else (reply_text r, []))"

definition narrate :: "(http_request \<Rightarrow> nat \<Rightarrow> http_response result) \<Rightarrow> http_narrator \<Rightarrow> string \<Rightarrow> string \<Rightarrow> string result \<times> pyfloat list" where
  "narrate http_post n system user =
     narrate_loop n (http_post (narrate_request n system user)) 0 (hn_max_retries n)"

section \<open>The worker's settings\<close>

text \<open>\<open>_tbd_is_unset\<close>: an open decision is no value.\<close>

definition tbd_is_unset :: "json \<Rightarrow> json" where
  "tbd_is_unset v = (case v of JStr s \<Rightarrow> if py_strip s \<in> {[], ''__TBD__''} then JNull else v | _ \<Rightarrow> v)"

definition graph_profiles :: "string \<Rightarrow> string list" where
  "graph_profiles text = remdups (map (\<lambda>p. py_upper (py_strip p)) (filter (\<lambda>p. py_strip p \<noteq> []) (split_commas text)))"

record llm_settings =
  ll_enabled :: bool
  ll_base_url :: "string option"
  ll_model :: "string option"
  ll_api_key :: "string option"
  ll_timeout_s :: pyfloat
  ll_temperature :: pyfloat
  ll_max_tokens :: int

definition set_text :: "string option \<Rightarrow> bool" where
  "set_text v = (case v of None \<Rightarrow> False | Some s \<Rightarrow> s \<noteq> [])"

definition narrator_from_settings :: "llm_settings \<Rightarrow> http_narrator option result" where
  "narrator_from_settings st =
     (if \<not> ll_enabled st then Inr None
      else if \<not> set_text (ll_base_url st) \<or> \<not> set_text (ll_model st) then Inr None
      else map_sum id Some (new_narrator (the (ll_base_url st)) (the (ll_model st)) (ll_api_key st) (ll_timeout_s st)
             (ll_temperature st) (ll_max_tokens st)))"

section \<open>Start and offline pass of the worker\<close>

text \<open>The scorer is loaded once, before any run; without it the worker does not start.\<close>

definition start_scorer ::
  "scorer_world \<Rightarrow> classifier_factory \<Rightarrow> environ \<Rightarrow> bool \<Rightarrow> scorer_settings \<Rightarrow> churn_risk_scorer option result \<times> environ" where
  "start_scorer w factory env enabled st =
     (if \<not> enabled then (Inr None, env)
      else case load_scorer w factory env st of
          (Inr s, env') \<Rightarrow> (Inr (Some s), env')
        | (Inl (ChurnScorerUnavailable m), env') \<Rightarrow> (Inl (RuntimeError (''SystemExit: worker startup failed: '' @ m)), env')
        | (Inl e, env') \<Rightarrow> (Inl e, env'))"

text \<open>
  \<open>seed_store\<close>.  The fixtures are the contents of the mapping files in the order of their paths, with the
  configuration each describes, the catalog and the events; \<open>uuid5\<close> is the name-based identifier of a slug.
\<close>

record mapping_file =
  mf_tenant_slug :: json
  mf_profile_type :: "string option"
  mf_config :: tenant_mapping_config

record fixtures =
  fx_mappings :: "mapping_file list"
  fx_incentives :: "incentive list result"
  fx_events :: "(string \<times> json) list list result option"

definition seed_store :: "(string \<Rightarrow> string) \<Rightarrow> fixtures \<Rightarrow> string \<Rightarrow> (memory_store \<times> string) result" where
  "seed_store uuid5 fx slug =
     (case filter (\<lambda>f. mf_tenant_slug f = JStr slug) (fx_mappings fx) of
        [] \<Rightarrow> Inl (RuntimeError (''SystemExit: no mapping fixture for tenant '' @ [CHR 0x27] @ slug @ [CHR 0x27]))
      | found \<Rightarrow>
          let mapping = last found; tid = uuid5 slug in
          (case mf_profile_type mapping of
             None \<Rightarrow> Inl (KeyError ''profile_type'')
           | Some profile_type \<Rightarrow>
               let s1 = add_tenant \<lparr>tr_tenant_id = tid, tr_slug = slug, tr_profile_type = profile_type,
                                    tr_mapping = mf_config mapping\<rparr> empty_store
               in bind_result (fx_incentives fx) (\<lambda>incentives.
                  let s2 = set_incentives tid incentives s1
                  in case fx_events fx of
                       None \<Rightarrow> Inr (s2, tid)
                     | Some events \<Rightarrow> bind_result events (\<lambda>bodies. Inr (add_raw_events tid bodies s2, tid)))))"

text \<open>The result of the pass and the exit status of the process.\<close>

definition run_offline ::
  "(string \<Rightarrow> string) \<Rightarrow> externals \<Rightarrow> settings \<Rightarrow> fixtures \<Rightarrow> string \<Rightarrow> string \<Rightarrow> instant \<Rightarrow> (pipeline_run_result \<times> nat) result" where
  "run_offline uuid5 x st fx slug hex now =
     bind_result (seed_store uuid5 fx slug) (\<lambda>(s, tid).
     bind_result (fst (run_pipeline x st tid (''run-'' @ take 12 hex) now s)) (\<lambda>res.
     Inr (res, if res_status res = ''DONE'' then 0 else 1)))"

section \<open>What the shells promise\<close>

lemma failed_approval_keeps:
  "approve_recommendation fmt rid nt console i now db = (Inl e, db') \<Longrightarrow> db' = db"
  by (auto simp: approve_recommendation_def tenant_session_def split: option.splits sum.splits)

lemma write_reply:
  assumes "method \<notin> set READ_METHODS"
  shows "case hp_body (request_id_and_timeout od st hex method t h) of
      Inr body \<Rightarrow> h = Inr body
    | Inl env \<Rightarrow> (\<exists>e. h = Inl e) \<and> en_request_id env = ''req_'' @ take 20 hex"
  using assms by (auto simp: request_id_and_timeout_def Let_def respond_def render_envelope_def split: sum.split api_exn.split)

text \<open>A read that is late is an error whatever its handler returned, and like a crash it carries no identifier in its headers.\<close>

lemma late_read:
  assumes "method \<in> set READ_METHODS" "of_int (as_api_request_timeout_seconds st) < t"
  shows "\<exists>env. request_id_and_timeout od st hex method t h = \<lparr>hp_body = Inl env, hp_request_id = None, hp_response_time_ms = None\<rparr>
    \<and> en_status_code env = 500"
  using assms by (simp add: request_id_and_timeout_def Let_def render_envelope_def internal_error_def)

text \<open>
  The middleware tells the truth about an approval: since a write has no deadline, however long it takes, the reviewer is
  told of success exactly when the handler approved, and an error answer, which carries the request's identifier, means
  that the database is as before.
\<close>

theorem approval_reply_truthful:
  assumes "approve_recommendation fmt rid nt console i now db = (h, db')"
  shows "case hp_body (request_id_and_timeout od st hex ''POST'' t h) of
      Inr body \<Rightarrow> h = Inr body
    | Inl env \<Rightarrow> db' = db \<and> (\<exists>e. h = Inl e) \<and> en_request_id env = ''req_'' @ take 20 hex"
proof -
  have "''POST'' \<notin> set READ_METHODS" by (simp add: READ_METHODS_def)
  from write_reply [OF this, where od = od and st = st and hex = hex and t = t and h = h] assms show ?thesis
    by (auto split: sum.splits dest: failed_approval_keeps)
qed

theorem approval_reply_truthful_witness:
  "\<exists>body db'. approve_recommendation (\<lambda>t. ''t'') sample_id None \<lparr>cs_reviewer_id = ''ana'', cs_tenant_id = sample_id\<rparr>
      ''e'' 7 sample_web_db = (Inr body, db')
     \<and> hp_body (request_id_and_timeout (\<lambda>x. ''0.0'') sample_api_settings ''abc'' ''POST'' 900 (Inr body)) = Inr body"
proof -
  let ?run = "approve_recommendation (\<lambda>t. ''t'') sample_id None \<lparr>cs_reviewer_id = ''ana'', cs_tenant_id = sample_id\<rparr>
      ''e'' 7 sample_web_db"
  have "case fst ?run of Inl _ \<Rightarrow> False | Inr _ \<Rightarrow> True" by code_simp
  then obtain body db' where r: "?run = (Inr body, db')" by (cases ?run) (auto split: sum.splits)
  from approval_reply_truthful [OF r, where od = "\<lambda>x. ''0.0''" and st = sample_api_settings and hex = "''abc''" and t = 900] r show ?thesis
    by (auto split: sum.splits)
qed

lemma narrate_waits_bounded: "length (snd (narrate_loop n post a left)) \<le> left"
  by (induction left arbitrary: a) (auto split: sum.split simp: apsnd_def)

lemma narrate_loop_step:
  assumes "\<forall>i < k. \<exists>r. post (a + i) = Inr r \<and> rp_status_code r = 429 \<and> retry_delay n r (a + i) = Inr (ds ! i)" "length ds = k"
  shows "narrate_loop n post a (k + left) = apsnd ((@) ds) (narrate_loop n post (a + k) left)"
  using assms
proof (induction k arbitrary: a ds)
  case (Suc k)
  then obtain d ds' where ds: "ds = d # ds'" by (cases ds) auto
  from Suc.prems(1) have "\<exists>r. post a = Inr r \<and> rp_status_code r = 429 \<and> retry_delay n r a = Inr d" by (force simp: ds)
  moreover have "narrate_loop n post (Suc a) (k + left) = apsnd ((@) ds') (narrate_loop n post (Suc a + k) left)"
    using Suc.prems by (intro Suc.IH) (force simp: ds)+
  ultimately show ?case by (auto simp: ds apsnd_compose comp_def)
qed (simp add: apsnd_def map_prod_def)

text \<open>
  A throttled call waits and tries again: the answer is that of the first attempt that is not throttled, or of the last of the
  four; before it the client has slept once per throttled attempt, the seconds the server asked for or the doubling
  backoff.
\<close>

theorem narrate_first_unthrottled:
  assumes "\<forall>i < k. \<exists>r. http_post (narrate_request n system user) i = Inr r \<and> rp_status_code r = 429
      \<and> retry_delay n r i = Inr (ds ! i)" "length ds = k"
    and "http_post (narrate_request n system user) k = Inr r" "rp_status_code r \<noteq> 429 \<or> k = hn_max_retries n" "k \<le> hn_max_retries n"
  shows "narrate http_post n system user = (reply_text r, ds)"
proof -
  let ?post = "http_post (narrate_request n system user)"
  obtain left where left: "hn_max_retries n = k + left" using assms(5) le_Suc_ex by blast
  have "narrate_loop n ?post 0 (k + left) = apsnd ((@) ds) (narrate_loop n ?post k left)"
    using narrate_loop_step [of k ?post 0 n ds left] assms(1,2) by simp
  moreover have "narrate_loop n ?post k left = (reply_text r, [])"
    using assms(3,4) left by (cases left) auto
  ultimately show ?thesis by (simp add: narrate_def left)
qed

text \<open>
  The URL of a call: the path grows by \<open>/chat/completions\<close> in front of the query of the base URL, which
  every request carries.
\<close>

definition plain_char :: "char \<Rightarrow> bool" where
  "plain_char c \<longleftrightarrow> 32 < (of_char c :: nat) \<and> c \<notin> set ''/?#[]''"

lemma dropWhile_app: "list_all P xs \<Longrightarrow> dropWhile P (xs @ ys) = dropWhile P ys"
  by (induction xs) auto

lemma takeWhile_app: "list_all P xs \<Longrightarrow> takeWhile P (xs @ ys) = xs @ takeWhile P ys"
  by (induction xs) auto

lemma urlsplit_parts:
  assumes sch: "sch \<noteq> []" "list_all scheme_char sch" "is_alpha (hd sch)" "py_lower sch = sch"
    and net: "list_all plain_char net"
    and path: "list_all (\<lambda>c. plain_char c \<or> c = CHR ''/'') path" "path = [] \<or> hd path = CHR ''/''"
    and query: "list_all (\<lambda>c. 32 < (of_char c :: nat) \<and> c \<noteq> CHR ''#'') q"
  shows "urlsplit (sch @ ''://'' @ net @ path @ (if q = [] then [] else ''?'' @ q))
    = Inr \<lparr>up_scheme = sch, up_netloc = net, up_path = path, up_query = q\<rparr>"
proof -
  define tail where "tail = (if q = [] then [] else ''?'' @ q)"
  let ?rest = "''//'' @ net @ path @ tail"
  have big: "32 < (of_char c :: nat)" if "scheme_char c" for c
    using that by (auto simp: scheme_char_def is_alpha_def is_digit_def Let_def)
  have colon: "list_all (\<lambda>c. c \<noteq> CHR '':'') sch"
    using sch(2) by (auto simp: list_all_iff scheme_char_def is_alpha_def is_digit_def Let_def)
  have visible: "list_all (\<lambda>c. 32 < (of_char c :: nat)) (sch @ '':'' @ ?rest)"
  proof -
    let ?P = "\<lambda>c. 32 < (of_char c :: nat)"
    have "list_all ?P sch" using sch(2) by (rule list.pred_mono_strong) (rule big)
    moreover have "list_all ?P net" using net by (rule list.pred_mono_strong) (simp add: plain_char_def)
    moreover have "list_all ?P path" using path(1) by (rule list.pred_mono_strong) (auto simp: plain_char_def)
    moreover have "list_all ?P q" using query by (rule list.pred_mono_strong) simp
    ultimately show ?thesis by (simp add: tail_def)
  qed
  have "clean_url u = u" if "u \<noteq> []" "list_all (\<lambda>c. 32 < (of_char c :: nat)) u" for u
  proof -
    have "dropWhile (\<lambda>c. (of_char c :: nat) \<le> 32) u = u" using that by (cases u) auto
    moreover have "filter (\<lambda>c. c \<notin> {CHR 0x09, CHR 0x0D, CHR 0x0A}) u = u"
      using that(2) by (intro filter_True) (auto simp: list_all_iff)
    ultimately show ?thesis by (simp add: clean_url_def)
  qed
  with visible have clean: "clean_url (sch @ '':'' @ ?rest) = sch @ '':'' @ ?rest" by simp
  have scheme: "split_scheme (sch @ '':'' @ ?rest) = (sch, ?rest)"
    using sch by (simp add: split_scheme_def Let_def takeWhile_app [OF colon] dropWhile_app [OF colon])
  have "list_all (\<lambda>c. c \<notin> set ''/?#'') net" using net by (auto simp: list_all_iff plain_char_def)
  moreover have "takeWhile (\<lambda>c. c \<notin> set ''/?#'') (path @ tail) = []" "dropWhile (\<lambda>c. c \<notin> set ''/?#'') (path @ tail) = path @ tail"
    using path(2) by (cases path; simp add: tail_def)+
  ultimately have netloc: "split_netloc ?rest = (net, path @ tail)"
    by (simp add: split_netloc_def takeWhile_app dropWhile_app)
  have "list_all (\<lambda>c. c \<noteq> CHR ''#'') (path @ tail)"
    using path(1) query by (auto simp: list_all_iff plain_char_def tail_def)
  then have fragment: "takeWhile (\<lambda>c. c \<noteq> CHR ''#'') (path @ tail) = path @ tail"
    using takeWhile_app [of _ "path @ tail" "[]"] by simp
  have "list_all (\<lambda>c. c \<noteq> CHR ''?'') path" using path(1) by (auto simp: list_all_iff plain_char_def)
  then have query': "split_query (path @ tail) = (path, q)"
    by (simp add: split_query_def takeWhile_app dropWhile_app tail_def)
  have "CHR ''['' \<notin> set net" "CHR '']'' \<notin> set net" using net by (auto simp: list_all_iff plain_char_def)
  then have "urlsplit (sch @ '':'' @ ?rest) = Inr \<lparr>up_scheme = sch, up_netloc = net, up_path = path, up_query = q\<rparr>"
    by (simp only: urlsplit_def clean scheme netloc fragment query' prod.case) simp
  then show ?thesis by (simp add: tail_def)
qed

lemma narration_url:
  assumes "sch \<noteq> []" "list_all scheme_char sch" "is_alpha (hd sch)" "py_lower sch = sch" "list_all plain_char net" "net \<noteq> []"
    and "list_all (\<lambda>c. plain_char c \<or> c = CHR ''/'') path" "path = [] \<or> hd path = CHR ''/''"
    and "list_all (\<lambda>c. 32 < (of_char c :: nat) \<and> c \<noteq> CHR ''#'') q"
    and "new_narrator (sch @ ''://'' @ net @ path @ (if q = [] then [] else ''?'' @ q)) m key t temp k = Inr n"
  shows "rq_url (narrate_request n system user)
    = sch @ ''://'' @ net @ rstrip_slash path @ ''/chat/completions'' @ (if q = [] then [] else ''?'' @ q)"
proof -
  have "rstrip_slash path = [] \<or> hd (rstrip_slash path) = CHR ''/''"
  proof (cases path)
    case (Cons c rest)
    have "rstrip_slash (CHR ''/'' # r) = [] \<or> hd (rstrip_slash (CHR ''/'' # r)) = CHR ''/''" for r
      by (simp add: rstrip_slash_def dropWhile_append)
    moreover have "c = CHR ''/''" using Cons assms(8) by simp
    ultimately show ?thesis using Cons by blast
  qed (simp add: rstrip_slash_def)
  then have "starts_with ''/'' (rstrip_slash path @ ''/chat/completions'')" by (cases "rstrip_slash path") auto
  moreover have "hn_url_parts n = \<lparr>up_scheme = sch, up_netloc = net, up_path = rstrip_slash path, up_query = q\<rparr>"
    using assms(10) unfolding new_narrator_def urlsplit_parts [OF assms(1-5,7-9)] by auto
  ultimately show ?thesis
    using assms(1,6) by (simp add: narrate_request_def urlunsplit_def Let_def)
qed

definition small_narrator :: http_narrator where
  "small_narrator = \<lparr>hn_url_parts = \<lparr>up_scheme = ''https'', up_netloc = ''llm'', up_path = ''/v1'', up_query = ''k=1''\<rparr>,
     hn_base_url = ''https://llm/v1?k=1'', hn_model = ''m'', hn_api_key = Some ''s'', hn_timeout_s = 6, hn_temperature = 0,
     hn_max_tokens = 220, hn_max_retries = 3, hn_retry_backoff_s = 2\<rparr>"

definition small_post :: "http_request \<Rightarrow> nat \<Rightarrow> http_response result" where
  "small_post rq i =
     (if i = 0 then Inr \<lparr>rp_status_code = 429, rp_retry_after = Some ''7'', rp_json = Inr JNull\<rparr>
      else Inr \<lparr>rp_status_code = 200, rp_retry_after = None, rp_json = Inr (JDict [(''choices'', JList [JDict
        [(''message'', JDict [(''content'', JStr '' Offer cashback. '')])]])])\<rparr>)"

theorem narrate_first_unthrottled_witness:
  "narrate small_post small_narrator ''s'' ''u'' = (Inr ''Offer cashback.'', [7])"
proof -
  let ?last = "\<lparr>rp_status_code = 200, rp_retry_after = None, rp_json = Inr (JDict [(''choices'', JList [JDict
        [(''message'', JDict [(''content'', JStr '' Offer cashback. '')])]])])\<rparr>"
  have "narrate small_post small_narrator ''s'' ''u'' = (reply_text ?last, [7])"
  proof (rule narrate_first_unthrottled [of 1])
    show "\<forall>i < 1. \<exists>r. small_post (narrate_request small_narrator ''s'' ''u'') i = Inr r \<and> rp_status_code r = 429
        \<and> retry_delay small_narrator r i = Inr ([7] ! i)"
      using fl_of_int [of 7] by (simp add: small_post_def retry_delay_def is_digit_def float_of_int_def Let_def)
  qed (simp_all add: small_post_def small_narrator_def)
  moreover have "reply_text ?last = Inr ''Offer cashback.''" by code_simp
  ultimately show ?thesis by simp
qed

end
