(* ===== verification/Schema.thy ===== *)
theory Schema
  imports Tables
begin

text \<open>
  The schema of the database: what each migration of \<open>migrations/versions\<close> does to it, forwards and backwards, and
  what the classes of \<open>persistence/models.py\<close> declare.  A table is its columns in order with their types, whether
  they may be null and their server default, its keys, and its CHECK constraints as expressions with SQL's
  three-valued truth; a row policy is always the one of the tenant, \<open>tenant_isolation\<close>.  The properties: every
  migration can be undone, the classes describe the migrated tables, every tenant's table is isolated, and the model of
  the grants and of the constraints the other theories use is the one the migrations make.
\<close>

section \<open>Tables\<close>

datatype sql_type = S_UUID | S_VARCHAR | S_TEXT | S_TIMESTAMPTZ | S_BOOLEAN | S_INTEGER | S_BIGINT | S_FLOAT | S_JSONB

record column_def =
  cd_name :: string
  cd_type :: sql_type
  cd_nullable :: bool
  cd_default :: "string option"

definition col :: "string \<Rightarrow> sql_type \<Rightarrow> column_def" where
  "col n t = \<lparr>cd_name = n, cd_type = t, cd_nullable = False, cd_default = None\<rparr>"

definition null_col :: "string \<Rightarrow> sql_type \<Rightarrow> column_def" where
  "null_col n t = \<lparr>cd_name = n, cd_type = t, cd_nullable = True, cd_default = None\<rparr>"

definition default_col :: "string \<Rightarrow> sql_type \<Rightarrow> string \<Rightarrow> column_def" where
  "default_col n t d = \<lparr>cd_name = n, cd_type = t, cd_nullable = False, cd_default = Some d\<rparr>"

definition now_col :: "string \<Rightarrow> column_def" where
  "now_col n = default_col n S_TIMESTAMPTZ ''now()''"

datatype sql_check =
    C_IN string "string list"
  | C_EQ string string
  | C_NEQ string string
  | C_NULL string
  | C_NOT_NULL string
  | C_AND sql_check sql_check
  | C_OR sql_check sql_check

record table_def =
  td_name :: table
  td_columns :: "column_def list"
  td_primary_key :: "string list"
  td_uniques :: "(string \<times> string list) list"
  td_checks :: "(string \<times> sql_check) list"
  td_indexes :: "(string \<times> string list \<times> bool) list"

text \<open>The truth of a check on a row; a constraint refuses a row only when it is false.\<close>

definition compare :: "(string \<Rightarrow> bool) \<Rightarrow> string option \<Rightarrow> bool option" where
  "compare P v = (case v of None \<Rightarrow> None | Some s \<Rightarrow> Some (P s))"

definition and3 :: "bool option \<Rightarrow> bool option \<Rightarrow> bool option" where
  "and3 a b = (if a = Some False \<or> b = Some False then Some False
     else if a = None \<or> b = None then None else Some True)"

definition or3 :: "bool option \<Rightarrow> bool option \<Rightarrow> bool option" where
  "or3 a b = (if a = Some True \<or> b = Some True then Some True
     else if a = None \<or> b = None then None else Some False)"

fun truth :: "(string \<Rightarrow> string option) \<Rightarrow> sql_check \<Rightarrow> bool option" where
  "truth row (C_IN c vs) = compare (\<lambda>v. v \<in> set vs) (row c)"
| "truth row (C_EQ c w) = compare (\<lambda>v. v = w) (row c)"
| "truth row (C_NEQ c w) = compare (\<lambda>v. v \<noteq> w) (row c)"
| "truth row (C_NULL c) = Some (row c = None)"
| "truth row (C_NOT_NULL c) = Some (row c \<noteq> None)"
| "truth row (C_AND p q) = and3 (truth row p) (truth row q)"
| "truth row (C_OR p q) = or3 (truth row p) (truth row q)"

definition accepts :: "table_def \<Rightarrow> (string \<Rightarrow> string option) \<Rightarrow> bool" where
  "accepts t row \<longleftrightarrow> list_all (\<lambda>(_, p). truth row p \<noteq> Some False) (td_checks t)"

section \<open>The tables the migrations create\<close>

definition tenants_ddl :: table_def where
  "tenants_ddl = \<lparr>td_name = T_TENANTS, td_columns =
       [col ''id'' S_UUID, col ''slug'' S_VARCHAR, col ''display_name'' S_VARCHAR, col ''profile_type'' S_VARCHAR,
        now_col ''created_at''],
     td_primary_key = [''id''], td_uniques = [(''tenants_slug_key'', [''slug''])],
     td_checks = [(''ck_tenants_profile_type'', C_IN ''profile_type'' [''WALLET'', ''LENDING''])], td_indexes = []\<rparr>"

definition api_keys_ddl :: table_def where
  "api_keys_ddl = \<lparr>td_name = T_API_KEYS, td_columns =
       [col ''id'' S_UUID, col ''tenant_id'' S_UUID, col ''key_hash'' S_VARCHAR, col ''label'' S_VARCHAR,
        col ''active'' S_BOOLEAN, now_col ''created_at'', null_col ''last_used_at'' S_TIMESTAMPTZ],
     td_primary_key = [''id''], td_uniques = [(''api_keys_key_hash_key'', [''key_hash''])],
     td_checks = [], td_indexes = []\<rparr>"

definition event_type_mappings_ddl :: table_def where
  "event_type_mappings_ddl = \<lparr>td_name = T_EVENT_TYPE_MAPPINGS, td_columns =
       [col ''id'' S_UUID, col ''tenant_id'' S_UUID, col ''client_event_type'' S_VARCHAR,
        col ''canonical_event_type'' S_VARCHAR, col ''amount_field_path'' S_VARCHAR,
        null_col ''counterparty_field_path'' S_VARCHAR, col ''occurred_at_field_path'' S_VARCHAR,
        col ''active'' S_BOOLEAN, now_col ''created_at''],
     td_primary_key = [''id''], td_uniques = [(''uq_event_type_mappings'', [''tenant_id'', ''client_event_type''])],
     td_checks = [], td_indexes = []\<rparr>"

definition incentives_ddl :: table_def where
  "incentives_ddl = \<lparr>td_name = T_INCENTIVES, td_columns =
       [col ''id'' S_UUID, col ''tenant_id'' S_UUID, col ''code'' S_VARCHAR, col ''display_name'' S_VARCHAR,
        col ''cost_idr'' S_BIGINT, col ''encourages_borrowing'' S_BOOLEAN, col ''subject_type'' S_VARCHAR,
        col ''active'' S_BOOLEAN],
     td_primary_key = [''id''], td_uniques = [(''uq_incentives_tenant_code'', [''tenant_id'', ''code''])],
     td_checks = [], td_indexes = []\<rparr>"

definition raw_events_ddl :: table_def where
  "raw_events_ddl = \<lparr>td_name = T_RAW_EVENTS, td_columns =
       [col ''id'' S_UUID, col ''tenant_id'' S_UUID, col ''client_event_id'' S_VARCHAR, now_col ''received_at'',
        col ''payload'' S_JSONB, null_col ''processed_at'' S_TIMESTAMPTZ, null_col ''process_error'' S_TEXT],
     td_primary_key = [''id''], td_uniques = [(''uq_raw_events_idempotency'', [''tenant_id'', ''client_event_id''])],
     td_checks = [], td_indexes = []\<rparr>"

definition canonical_events_ddl :: table_def where
  "canonical_events_ddl = \<lparr>td_name = T_CANONICAL_EVENTS, td_columns =
       [col ''id'' S_UUID, col ''tenant_id'' S_UUID, col ''raw_event_id'' S_UUID, col ''user_pseudonym'' S_VARCHAR,
        col ''canonical_type'' S_VARCHAR, col ''occurred_at'' S_TIMESTAMPTZ, col ''amount_idr'' S_BIGINT,
        null_col ''counterparty_pseudonym'' S_VARCHAR, col ''attributes'' S_JSONB],
     td_primary_key = [''id''], td_uniques = [],
     td_checks = [], td_indexes = []\<rparr>"

definition external_signals_ddl :: table_def where
  "external_signals_ddl = \<lparr>td_name = T_EXTERNAL_SIGNALS, td_columns =
       [col ''id'' S_UUID, col ''tenant_id'' S_UUID, col ''scope_type'' S_VARCHAR, col ''scope_key'' S_VARCHAR,
        col ''signal_type'' S_VARCHAR, col ''value'' S_FLOAT, col ''observed_at'' S_TIMESTAMPTZ,
        col ''source'' S_VARCHAR, now_col ''ingested_at''],
     td_primary_key = [''id''], td_uniques = [],
     td_checks = [(''ck_external_signals_scope'', C_IN ''scope_type'' [''CLIENT'', ''REGION'', ''COHORT''])], td_indexes = []\<rparr>"

definition users_ddl :: table_def where
  "users_ddl = \<lparr>td_name = T_USERS, td_columns =
       [col ''tenant_id'' S_UUID, col ''user_pseudonym'' S_VARCHAR, col ''first_seen_at'' S_TIMESTAMPTZ,
        col ''last_event_at'' S_TIMESTAMPTZ, col ''lifecycle_state'' S_VARCHAR, null_col ''region_code'' S_VARCHAR,
        null_col ''cohort_key'' S_VARCHAR],
     td_primary_key = [''tenant_id'', ''user_pseudonym''], td_uniques = [],
     td_checks = [(''ck_users_lifecycle_state'', C_IN ''lifecycle_state'' [''NEW'', ''ACTIVE'', ''COOLING'', ''DORMANT'', ''CHURNED''])], td_indexes = []\<rparr>"

definition counterparty_nodes_ddl :: table_def where
  "counterparty_nodes_ddl = \<lparr>td_name = T_COUNTERPARTY_NODES, td_columns =
       [col ''tenant_id'' S_UUID, col ''counterparty_pseudonym'' S_VARCHAR, col ''last_seen_at'' S_TIMESTAMPTZ,
        col ''event_count_30d'' S_INTEGER, col ''is_active'' S_BOOLEAN, col ''is_own_user'' S_BOOLEAN],
     td_primary_key = [''tenant_id'', ''counterparty_pseudonym''], td_uniques = [],
     td_checks = [], td_indexes = []\<rparr>"

definition relationship_edges_ddl :: table_def where
  "relationship_edges_ddl = \<lparr>td_name = T_RELATIONSHIP_EDGES, td_columns =
       [col ''id'' S_UUID, col ''tenant_id'' S_UUID, col ''user_pseudonym'' S_VARCHAR,
        col ''counterparty_pseudonym'' S_VARCHAR, col ''edge_type'' S_VARCHAR, col ''first_seen_at'' S_TIMESTAMPTZ,
        col ''last_seen_at'' S_TIMESTAMPTZ, col ''txn_count_90d'' S_INTEGER, null_col ''cadence_days'' S_FLOAT,
        col ''decay_weight'' S_FLOAT],
     td_primary_key = [''id''], td_uniques = [(''uq_relationship_edges'', [''tenant_id'', ''user_pseudonym'', ''counterparty_pseudonym'', ''edge_type''])],
     td_checks = [], td_indexes = []\<rparr>"

definition transaction_circles_ddl :: table_def where
  "transaction_circles_ddl = \<lparr>td_name = T_TRANSACTION_CIRCLES, td_columns =
       [col ''id'' S_UUID, col ''tenant_id'' S_UUID, col ''member_count'' S_INTEGER,
        null_col ''stability_score'' S_FLOAT, now_col ''computed_at''],
     td_primary_key = [''id''], td_uniques = [],
     td_checks = [], td_indexes = []\<rparr>"

definition circle_members_ddl :: table_def where
  "circle_members_ddl = \<lparr>td_name = T_CIRCLE_MEMBERS, td_columns =
       [col ''circle_id'' S_UUID, col ''tenant_id'' S_UUID, col ''user_pseudonym'' S_VARCHAR],
     td_primary_key = [''circle_id'', ''tenant_id'', ''user_pseudonym''], td_uniques = [],
     td_checks = [], td_indexes = []\<rparr>"

definition risk_scores_ddl :: table_def where
  "risk_scores_ddl = \<lparr>td_name = T_RISK_SCORES, td_columns =
       [col ''id'' S_UUID, col ''tenant_id'' S_UUID, col ''user_pseudonym'' S_VARCHAR, now_col ''computed_at'',
        null_col ''pipeline_run_id'' S_UUID, col ''churn_risk'' S_FLOAT, col ''delta_stability'' S_FLOAT,
        col ''pattern_type'' S_VARCHAR, null_col ''external_signal_id'' S_UUID,
        null_col ''external_signal_contribution'' S_FLOAT, col ''context_row_count'' S_INTEGER,
        col ''features'' S_JSONB],
     td_primary_key = [''id''], td_uniques = [],
     td_checks = [(''ck_risk_scores_pattern_type'', C_IN ''pattern_type'' [''CIRCLE_SPECIFIC'', ''MARKET_DRIVEN'', ''STABLE''])], td_indexes = []\<rparr>"

definition impact_scores_ddl :: table_def where
  "impact_scores_ddl = \<lparr>td_name = T_IMPACT_SCORES, td_columns =
       [col ''id'' S_UUID, col ''tenant_id'' S_UUID, col ''user_pseudonym'' S_VARCHAR,
        col ''incentive_code'' S_VARCHAR, now_col ''computed_at'', col ''p_incentivized'' S_FLOAT,
        col ''p_not_incentivized'' S_FLOAT, col ''impact_score'' S_FLOAT, col ''segment'' S_VARCHAR,
        col ''features'' S_JSONB],
     td_primary_key = [''id''], td_uniques = [],
     td_checks = [(''ck_impact_scores_segment'', C_IN ''segment'' [''PERSUADABLE'', ''SURE_THING'', ''LOST_CAUSE'', ''SLEEPING_DOG''])], td_indexes = []\<rparr>"

definition pipeline_runs_ddl :: table_def where
  "pipeline_runs_ddl = \<lparr>td_name = T_PIPELINE_RUNS, td_columns =
       [col ''id'' S_UUID, col ''tenant_id'' S_UUID, col ''status'' S_VARCHAR, col ''stages'' S_JSONB,
        null_col ''external_source'' S_VARCHAR, null_col ''ranking_strategy'' S_VARCHAR,
        null_col ''context_row_count'' S_INTEGER, col ''reason_source_counts'' S_JSONB, null_col ''error'' S_TEXT,
        now_col ''created_at'', null_col ''started_at'' S_TIMESTAMPTZ, null_col ''finished_at'' S_TIMESTAMPTZ],
     td_primary_key = [''id''], td_uniques = [],
     td_checks = [(''ck_pipeline_runs_status'', C_IN ''status'' [''QUEUED'', ''RUNNING'', ''SUCCEEDED'', ''FAILED''])], td_indexes = []\<rparr>"

definition policy_decisions_ddl :: table_def where
  "policy_decisions_ddl = \<lparr>td_name = T_POLICY_DECISIONS, td_columns =
       [col ''id'' S_UUID, col ''tenant_id'' S_UUID, null_col ''recommendation_id'' S_UUID,
        col ''candidate_ref'' S_VARCHAR, col ''rule_code'' S_VARCHAR, col ''outcome'' S_VARCHAR,
        col ''detail'' S_JSONB, now_col ''created_at''],
     td_primary_key = [''id''], td_uniques = [],
     td_checks = [(''ck_policy_decisions_outcome'', C_IN ''outcome'' [''ALLOW'', ''DENY''])], td_indexes = []\<rparr>"

definition allocation_runs_ddl :: table_def where
  "allocation_runs_ddl = \<lparr>td_name = T_ALLOCATION_RUNS, td_columns =
       [col ''id'' S_UUID, col ''tenant_id'' S_UUID, null_col ''pipeline_run_id'' S_UUID,
        col ''budget_idr'' S_BIGINT, col ''strategy'' S_VARCHAR, col ''ranking_strategy'' S_VARCHAR,
        col ''context_row_count'' S_INTEGER, col ''objective_value_idr'' S_BIGINT,
        col ''candidate_count'' S_INTEGER, col ''selected_count'' S_INTEGER, now_col ''created_at'',
        null_col ''created_by'' S_VARCHAR],
     td_primary_key = [''id''], td_uniques = [],
     td_checks = [(''ck_allocation_runs_strategy'', C_IN ''strategy'' [''EXACT_DP'', ''GREEDY_DENSITY'']),
        (''ck_allocation_runs_ranking_strategy'', C_IN ''ranking_strategy'' [''TABPFN'', ''FALLBACK''])], td_indexes = []\<rparr>"

definition allocation_candidates_ddl :: table_def where
  "allocation_candidates_ddl = \<lparr>td_name = T_ALLOCATION_CANDIDATES, td_columns =
       [col ''id'' S_UUID, col ''tenant_id'' S_UUID, col ''allocation_run_id'' S_UUID,
        col ''subject_type'' S_VARCHAR, null_col ''user_pseudonym'' S_VARCHAR, null_col ''circle_id'' S_UUID,
        col ''incentive_code'' S_VARCHAR, null_col ''churn_risk'' S_FLOAT, null_col ''impact_score'' S_FLOAT,
        null_col ''segment'' S_VARCHAR, null_col ''pattern_type'' S_VARCHAR, null_col ''priority_idr'' S_BIGINT,
        col ''cost_idr'' S_BIGINT, null_col ''user_rank'' S_INTEGER, col ''selected'' S_BOOLEAN,
        null_col ''exclusion_reason'' S_VARCHAR],
     td_primary_key = [''id''], td_uniques = [],
     td_checks = [(''ck_allocation_candidates_subject_type'', C_IN ''subject_type'' [''USER'', ''GROUP''])], td_indexes = []\<rparr>"

definition recommendations_ddl :: table_def where
  "recommendations_ddl = \<lparr>td_name = T_RECOMMENDATIONS, td_columns =
       [col ''id'' S_UUID, col ''tenant_id'' S_UUID, col ''allocation_run_id'' S_UUID,
        null_col ''allocation_candidate_id'' S_UUID, col ''subject_type'' S_VARCHAR,
        null_col ''user_pseudonym'' S_VARCHAR, null_col ''circle_id'' S_UUID, col ''incentive_code'' S_VARCHAR,
        col ''cost_idr'' S_BIGINT, col ''priority_idr'' S_BIGINT, col ''user_rank'' S_INTEGER,
        col ''is_runner_up'' S_BOOLEAN, col ''status'' S_VARCHAR, null_col ''reason_text'' S_TEXT,
        col ''reason_factors'' S_JSONB, null_col ''reason_source'' S_VARCHAR,
        null_col ''fact_sheet_hash'' S_VARCHAR, now_col ''created_at'', null_col ''submitted_at'' S_TIMESTAMPTZ,
        null_col ''reviewed_by'' S_VARCHAR, null_col ''reviewed_at'' S_TIMESTAMPTZ, null_col ''review_note'' S_TEXT,
        null_col ''delivered_at'' S_TIMESTAMPTZ, null_col ''delivery_ref'' S_VARCHAR],
     td_primary_key = [''id''], td_uniques = [],
     td_checks = [(''ck_recommendations_subject_type'', C_IN ''subject_type'' [''USER'', ''GROUP'']),
        (''ck_recommendations_subject_exclusive'', C_OR (C_AND (C_EQ ''subject_type'' ''USER'') (C_AND (C_NOT_NULL ''user_pseudonym'') (C_NULL ''circle_id''))) (C_AND (C_EQ ''subject_type'' ''GROUP'') (C_AND (C_NOT_NULL ''circle_id'') (C_NULL ''user_pseudonym'')))),
        (''ck_recommendations_status'', C_IN ''status'' [''DRAFT'', ''PENDING_APPROVAL'', ''APPROVED'', ''REJECTED'', ''EXPIRED'', ''DELIVERED'']),
        (''ck_recommendations_approved_needs_reviewer'', C_OR (C_NEQ ''status'' ''APPROVED'') (C_AND (C_NOT_NULL ''reviewed_by'') (C_NOT_NULL ''reviewed_at''))),
        (''ck_recommendations_rejected_needs_reviewer'', C_OR (C_NEQ ''status'' ''REJECTED'') (C_AND (C_NOT_NULL ''reviewed_by'') (C_NOT_NULL ''reviewed_at''))),
        (''ck_recommendations_delivered_needs_review_and_delivery'', C_OR (C_NEQ ''status'' ''DELIVERED'') (C_AND (C_NOT_NULL ''reviewed_by'') (C_NOT_NULL ''delivered_at'')))], td_indexes = []\<rparr>"

definition narrations_ddl :: table_def where
  "narrations_ddl = \<lparr>td_name = T_NARRATIONS, td_columns =
       [col ''fact_sheet_hash'' S_VARCHAR, col ''tenant_id'' S_UUID, col ''text'' S_TEXT, col ''model'' S_VARCHAR,
        now_col ''created_at''],
     td_primary_key = [''fact_sheet_hash'', ''tenant_id''], td_uniques = [],
     td_checks = [], td_indexes = []\<rparr>"

definition contact_log_ddl :: table_def where
  "contact_log_ddl = \<lparr>td_name = T_CONTACT_LOG, td_columns =
       [col ''id'' S_UUID, col ''tenant_id'' S_UUID, col ''user_pseudonym'' S_VARCHAR,
        null_col ''recommendation_id'' S_UUID, now_col ''contacted_at''],
     td_primary_key = [''id''], td_uniques = [],
     td_checks = [], td_indexes = []\<rparr>"

definition experiments_ddl :: table_def where
  "experiments_ddl = \<lparr>td_name = T_EXPERIMENTS, td_columns =
       [col ''id'' S_UUID, col ''tenant_id'' S_UUID, col ''name'' S_VARCHAR, col ''control_pct'' S_INTEGER,
        col ''naive_pct'' S_INTEGER, now_col ''started_at'', null_col ''ended_at'' S_TIMESTAMPTZ],
     td_primary_key = [''id''], td_uniques = [],
     td_checks = [], td_indexes = []\<rparr>"

definition experiment_assignments_ddl :: table_def where
  "experiment_assignments_ddl = \<lparr>td_name = T_EXPERIMENT_ASSIGNMENTS, td_columns =
       [col ''tenant_id'' S_UUID, col ''experiment_id'' S_UUID, col ''user_pseudonym'' S_VARCHAR,
        col ''arm'' S_VARCHAR, now_col ''assigned_at''],
     td_primary_key = [''tenant_id'', ''experiment_id'', ''user_pseudonym''], td_uniques = [],
     td_checks = [(''ck_experiment_assignments_arm'', C_IN ''arm'' [''CONTROL'', ''NAIVE'', ''ENGINE''])], td_indexes = []\<rparr>"

definition outcome_events_ddl :: table_def where
  "outcome_events_ddl = \<lparr>td_name = T_OUTCOME_EVENTS, td_columns =
       [col ''id'' S_UUID, col ''tenant_id'' S_UUID, col ''experiment_id'' S_UUID, col ''user_pseudonym'' S_VARCHAR,
        col ''outcome_type'' S_VARCHAR, col ''observed_at'' S_TIMESTAMPTZ, null_col ''value_idr'' S_BIGINT],
     td_primary_key = [''id''], td_uniques = [],
     td_checks = [(''ck_outcome_events_type'', C_IN ''outcome_type'' [''RESPONDED'', ''RETAINED'', ''CHURNED''])], td_indexes = []\<rparr>"

definition labeled_examples_ddl :: table_def where
  "labeled_examples_ddl = \<lparr>td_name = T_LABELED_EXAMPLES, td_columns =
       [col ''id'' S_UUID, col ''tenant_id'' S_UUID, null_col ''source_experiment_id'' S_UUID,
        null_col ''source_outcome_id'' S_UUID, col ''user_pseudonym'' S_VARCHAR, col ''arm'' S_VARCHAR,
        col ''treated'' S_BOOLEAN, col ''retained'' S_BOOLEAN, null_col ''realized_value_idr'' S_BIGINT,
        col ''feature_snapshot'' S_JSONB, now_col ''created_at''],
     td_primary_key = [''id''], td_uniques = [(''uq_labeled_examples_dedupe'', [''tenant_id'', ''source_outcome_id''])],
     td_checks = [], td_indexes = []\<rparr>"

definition audit_log_ddl :: table_def where
  "audit_log_ddl = \<lparr>td_name = T_AUDIT_LOG, td_columns =
       [col ''id'' S_UUID, col ''tenant_id'' S_UUID, col ''actor'' S_VARCHAR, col ''action'' S_VARCHAR,
        col ''entity_type'' S_VARCHAR, col ''entity_id'' S_VARCHAR, now_col ''at'', col ''detail'' S_JSONB],
     td_primary_key = [''id''], td_uniques = [],
     td_checks = [], td_indexes = []\<rparr>"

definition feature_snapshots_ddl :: table_def where
  "feature_snapshots_ddl = \<lparr>td_name = T_FEATURE_SNAPSHOTS, td_columns =
       [col ''id'' S_UUID, col ''tenant_id'' S_UUID, col ''run_id'' S_UUID, col ''user_pseudonym'' S_VARCHAR,
        col ''features'' S_JSONB, null_col ''churn_risk'' S_FLOAT, null_col ''impact_score'' S_FLOAT,
        null_col ''pattern_type'' S_VARCHAR, null_col ''incentive_code'' S_VARCHAR,
        default_col ''cost_idr'' S_BIGINT ''0'', default_col ''business_value_idr'' S_BIGINT ''0'',
        now_col ''created_at''],
     td_primary_key = [''id''], td_uniques = [(''uq_feature_snapshots_run_user'', [''tenant_id'', ''run_id'', ''user_pseudonym''])],
     td_checks = [], td_indexes = []\<rparr>"

section \<open>Migrations\<close>

record schema =
  sh_roles :: "string list"
  sh_tables :: "table_def list"
  sh_policies :: "table list"
  sh_grants :: "(string \<times> privilege \<times> table) list"
  sh_transition_trigger :: bool

definition empty_schema :: schema where
  "empty_schema = \<lparr>sh_roles = [], sh_tables = [], sh_policies = [], sh_grants = [], sh_transition_trigger = False\<rparr>"

definition create_tables :: "table_def list \<Rightarrow> schema \<Rightarrow> schema" where
  "create_tables ts s = s\<lparr>sh_tables := sh_tables s @ ts\<rparr>"

text \<open>\<open>DROP TABLE IF EXISTS \<dots> CASCADE\<close> takes the policies, privileges and triggers of a table with it.\<close>

definition drop_tables :: "table list \<Rightarrow> schema \<Rightarrow> schema" where
  "drop_tables names s =
     s\<lparr>sh_tables := filter (\<lambda>t. td_name t \<notin> set names) (sh_tables s),
       sh_policies := filter (\<lambda>t. t \<notin> set names) (sh_policies s),
       sh_grants := filter (\<lambda>(_, _, t). t \<notin> set names) (sh_grants s),
       sh_transition_trigger := (sh_transition_trigger s \<and> T_RECOMMENDATIONS \<notin> set names)\<rparr>"

definition add_columns :: "table \<Rightarrow> column_def list \<Rightarrow> schema \<Rightarrow> schema" where
  "add_columns name cols s =
     s\<lparr>sh_tables := map (\<lambda>t. if td_name t = name then t\<lparr>td_columns := td_columns t @ cols\<rparr> else t) (sh_tables s)\<rparr>"

definition drop_columns :: "table \<Rightarrow> string list \<Rightarrow> schema \<Rightarrow> schema" where
  "drop_columns name cols s =
     s\<lparr>sh_tables := map (\<lambda>t. if td_name t = name
          then t\<lparr>td_columns := filter (\<lambda>c. cd_name c \<notin> set cols) (td_columns t)\<rparr> else t) (sh_tables s)\<rparr>"

definition add_grants :: "string \<Rightarrow> privilege list \<Rightarrow> table list \<Rightarrow> schema \<Rightarrow> schema" where
  "add_grants role privileges names s =
     s\<lparr>sh_grants := sh_grants s @ concat (map (\<lambda>t. map (\<lambda>p. (role, p, t)) privileges) names)\<rparr>"

definition revoke :: "string \<Rightarrow> privilege list \<Rightarrow> table list \<Rightarrow> schema \<Rightarrow> schema" where
  "revoke role privileges names s =
     s\<lparr>sh_grants := filter (\<lambda>(r, p, t). \<not> (r = role \<and> p \<in> set privileges \<and> t \<in> set names)) (sh_grants s)\<rparr>"

definition drop_policy :: "table \<Rightarrow> schema \<Rightarrow> schema" where
  "drop_policy name s = s\<lparr>sh_policies := filter (\<lambda>t. t \<noteq> name) (sh_policies s)\<rparr>"

definition create_policy :: "table \<Rightarrow> schema \<Rightarrow> schema" where
  "create_policy name s = s\<lparr>sh_policies := sh_policies s @ [name]\<rparr>"

text \<open>Migration 0001 also creates the roles, with passwords from the environment.\<close>

definition ROLES :: "string list" where
  "ROLES = [''app_worker'', ''app_console'', ''app_readonly'']"

definition role_password_env :: "string \<Rightarrow> string" where
  "role_password_env role =
     ''APP_'' @ py_upper (if take 4 role = ''app_'' then drop 4 role else role) @ ''_DB_PASSWORD''"

definition create_role :: "(string \<Rightarrow> string option) \<Rightarrow> string \<Rightarrow> schema \<Rightarrow> schema result" where
  "create_role env role s =
     (case env (role_password_env role) of
        None \<Rightarrow> Inl (RuntimeError (role_password_env role @ '' is not set; refusing to create '' @ role
                 @ '' with a default or empty password''))
      | Some password \<Rightarrow>
          if password = []
          then Inl (RuntimeError (role_password_env role @ '' is not set; refusing to create '' @ role
                 @ '' with a default or empty password''))
          else if CHR 0x27 \<in> set password
          then Inl (RuntimeError (role_password_env role @ '' must not contain a single quote''))
          else Inr (if role \<in> set (sh_roles s) then s else s\<lparr>sh_roles := sh_roles s @ [role]\<rparr>))"

fun create_roles :: "(string \<Rightarrow> string option) \<Rightarrow> string list \<Rightarrow> schema \<Rightarrow> schema result" where
  "create_roles env [] s = Inr s"
| "create_roles env (r # rs) s = bind_result (create_role env r s) (create_roles env rs)"

definition upgrade_0001 :: "(string \<Rightarrow> string option) \<Rightarrow> schema \<Rightarrow> schema result" where
  "upgrade_0001 env s =
     bind_result (create_roles env ROLES s) (\<lambda>s1. Inr (create_tables [tenants_ddl, api_keys_ddl, event_type_mappings_ddl, incentives_ddl] s1))"

definition downgrade_0001 :: "schema \<Rightarrow> schema" where
  "downgrade_0001 s =
     (let s1 = drop_tables [T_INCENTIVES, T_EVENT_TYPE_MAPPINGS, T_API_KEYS, T_TENANTS] s
      in s1\<lparr>sh_roles := filter (\<lambda>r. r \<notin> set ROLES) (sh_roles s1)\<rparr>)"

definition upgrade_0002 :: "schema \<Rightarrow> schema" where
  "upgrade_0002 = create_tables [raw_events_ddl, canonical_events_ddl, external_signals_ddl]"

definition downgrade_0002 :: "schema \<Rightarrow> schema" where
  "downgrade_0002 = drop_tables [T_EXTERNAL_SIGNALS, T_CANONICAL_EVENTS, T_RAW_EVENTS]"

definition upgrade_0003 :: "schema \<Rightarrow> schema" where
  "upgrade_0003 = create_tables [users_ddl, counterparty_nodes_ddl, relationship_edges_ddl, transaction_circles_ddl, circle_members_ddl, risk_scores_ddl, impact_scores_ddl]"

definition downgrade_0003 :: "schema \<Rightarrow> schema" where
  "downgrade_0003 = drop_tables [T_IMPACT_SCORES, T_RISK_SCORES, T_CIRCLE_MEMBERS, T_TRANSACTION_CIRCLES, T_RELATIONSHIP_EDGES, T_COUNTERPARTY_NODES, T_USERS]"

definition upgrade_0004 :: "schema \<Rightarrow> schema" where
  "upgrade_0004 = create_tables [pipeline_runs_ddl, policy_decisions_ddl, allocation_runs_ddl, allocation_candidates_ddl, recommendations_ddl, narrations_ddl, contact_log_ddl]"

definition downgrade_0004 :: "schema \<Rightarrow> schema" where
  "downgrade_0004 = drop_tables [T_CONTACT_LOG, T_NARRATIONS, T_RECOMMENDATIONS, T_ALLOCATION_CANDIDATES, T_ALLOCATION_RUNS, T_POLICY_DECISIONS, T_PIPELINE_RUNS]"

definition upgrade_0005 :: "schema \<Rightarrow> schema" where
  "upgrade_0005 = create_tables [experiments_ddl, experiment_assignments_ddl, outcome_events_ddl, labeled_examples_ddl, audit_log_ddl]"

definition downgrade_0005 :: "schema \<Rightarrow> schema" where
  "downgrade_0005 = drop_tables [T_AUDIT_LOG, T_LABELED_EXAMPLES, T_OUTCOME_EVENTS, T_EXPERIMENT_ASSIGNMENTS, T_EXPERIMENTS]"

definition RLS_TABLES :: "table list" where
  "RLS_TABLES =
     [T_ALLOCATION_CANDIDATES, T_ALLOCATION_RUNS, T_AUDIT_LOG, T_CANONICAL_EVENTS, T_CIRCLE_MEMBERS, 
      T_CONTACT_LOG, T_COUNTERPARTY_NODES, T_EVENT_TYPE_MAPPINGS, T_EXPERIMENT_ASSIGNMENTS, T_EXPERIMENTS, 
      T_EXTERNAL_SIGNALS, T_IMPACT_SCORES, T_INCENTIVES, T_LABELED_EXAMPLES, T_NARRATIONS, 
      T_OUTCOME_EVENTS, T_PIPELINE_RUNS, T_POLICY_DECISIONS, T_RAW_EVENTS, T_RECOMMENDATIONS, 
      T_RELATIONSHIP_EDGES, T_RISK_SCORES, T_TRANSACTION_CIRCLES, T_USERS]"

text \<open>The grants of 0006, in the order of its statements.\<close>

definition add_grants_0006 :: "schema \<Rightarrow> schema" where
  "add_grants_0006 s =
     add_grants ''app_console'' [UPDATE_OF ''status'', UPDATE_OF ''reviewed_by'', UPDATE_OF ''reviewed_at'', UPDATE_OF ''review_note'']
       [T_RECOMMENDATIONS]
     (add_grants ''app_console'' [UPDATE] [T_EVENT_TYPE_MAPPINGS, T_INCENTIVES]
     (add_grants ''app_console'' [INSERT] [T_EVENT_TYPE_MAPPINGS, T_INCENTIVES, T_EXPERIMENTS, T_PIPELINE_RUNS, T_AUDIT_LOG]
     (add_grants ''app_console'' [SELECT]
       [T_TENANTS, T_API_KEYS, T_EVENT_TYPE_MAPPINGS, T_INCENTIVES, T_RAW_EVENTS, T_CANONICAL_EVENTS, 
        T_EXTERNAL_SIGNALS, T_USERS, T_COUNTERPARTY_NODES, T_RELATIONSHIP_EDGES, T_TRANSACTION_CIRCLES, 
        T_CIRCLE_MEMBERS, T_RISK_SCORES, T_IMPACT_SCORES, T_PIPELINE_RUNS, T_POLICY_DECISIONS, 
        T_ALLOCATION_RUNS, T_ALLOCATION_CANDIDATES, T_RECOMMENDATIONS, T_NARRATIONS, T_CONTACT_LOG, 
        T_EXPERIMENTS, T_EXPERIMENT_ASSIGNMENTS, T_OUTCOME_EVENTS, T_LABELED_EXAMPLES, T_AUDIT_LOG]
     (add_grants ''app_worker'' [UPDATE_OF ''status'', UPDATE_OF ''delivered_at'', UPDATE_OF ''delivery_ref''] [T_RECOMMENDATIONS]
     (add_grants ''app_worker'' [INSERT] [T_RECOMMENDATIONS]
     (add_grants ''app_worker'' [UPDATE] [T_RAW_EVENTS, T_PIPELINE_RUNS]
     (add_grants ''app_worker'' [SELECT, INSERT]
       [T_RAW_EVENTS, T_CANONICAL_EVENTS, T_EXTERNAL_SIGNALS, T_USERS, T_COUNTERPARTY_NODES, 
        T_RELATIONSHIP_EDGES, T_TRANSACTION_CIRCLES, T_CIRCLE_MEMBERS, T_RISK_SCORES, T_IMPACT_SCORES, 
        T_PIPELINE_RUNS, T_POLICY_DECISIONS, T_ALLOCATION_RUNS, T_ALLOCATION_CANDIDATES, T_NARRATIONS, 
        T_CONTACT_LOG, T_EXPERIMENT_ASSIGNMENTS, T_OUTCOME_EVENTS, T_LABELED_EXAMPLES]
     (add_grants ''app_readonly'' [SELECT] (map td_name (sh_tables s)) s))))))))"

definition upgrade_0006 :: "schema \<Rightarrow> schema" where
  "upgrade_0006 s =
     foldl (\<lambda>s t. create_policy t (drop_policy t s)) (add_grants_0006 (s\<lparr>sh_transition_trigger := True\<rparr>)) RLS_TABLES"

definition downgrade_0006 :: "schema \<Rightarrow> schema" where
  "downgrade_0006 s =
     (let s1 = foldl (\<lambda>s t. drop_policy t s) s RLS_TABLES
      in s1\<lparr>sh_grants := filter (\<lambda>(r, _, _). r \<notin> {''app_worker'', ''app_console'', ''app_readonly''}) (sh_grants s1),
            sh_transition_trigger := False\<rparr>)"

definition upgrade_0007 :: "schema \<Rightarrow> schema" where
  "upgrade_0007 = add_grants ''app_worker'' [SELECT] [T_RECOMMENDATIONS]"

definition downgrade_0007 :: "schema \<Rightarrow> schema" where
  "downgrade_0007 = revoke ''app_worker'' [SELECT] [T_RECOMMENDATIONS]"

definition upgrade_0008 :: "schema \<Rightarrow> schema" where
  "upgrade_0008 s =
     add_grants ''app_console'' [SELECT] [T_FEATURE_SNAPSHOTS]
     (add_grants ''app_worker'' [SELECT, INSERT] [T_FEATURE_SNAPSHOTS]
     (add_grants ''app_readonly'' [SELECT] [T_FEATURE_SNAPSHOTS]
     (create_policy T_FEATURE_SNAPSHOTS
     (create_tables [feature_snapshots_ddl]
     (add_columns T_INCENTIVES
        [default_col ''changes_credit_terms'' S_BOOLEAN ''FALSE'', default_col ''applicable_profile_types'' S_JSONB ''[]''] s)))))"

definition downgrade_0008 :: "schema \<Rightarrow> schema" where
  "downgrade_0008 s =
     drop_columns T_INCENTIVES [''changes_credit_terms'', ''applicable_profile_types'']
     (drop_tables [T_FEATURE_SNAPSHOTS] (drop_policy T_FEATURE_SNAPSHOTS s))"

definition upgrade_0009 :: "schema \<Rightarrow> schema" where
  "upgrade_0009 = add_grants ''app_worker'' [SELECT] [T_TENANTS, T_EVENT_TYPE_MAPPINGS, T_INCENTIVES]"

definition downgrade_0009 :: "schema \<Rightarrow> schema" where
  "downgrade_0009 = revoke ''app_worker'' [SELECT] [T_TENANTS, T_EVENT_TYPE_MAPPINGS, T_INCENTIVES]"

definition upgrade_0010 :: "schema \<Rightarrow> schema" where
  "upgrade_0010 =
     add_grants ''app_worker'' [UPDATE_OF ''last_event_at'', UPDATE_OF ''region_code'', UPDATE_OF ''cohort_key''] [T_USERS]"

definition downgrade_0010 :: "schema \<Rightarrow> schema" where
  "downgrade_0010 =
     revoke ''app_worker'' [UPDATE_OF ''last_event_at'', UPDATE_OF ''region_code'', UPDATE_OF ''cohort_key''] [T_USERS]"

definition upgrade_0011 :: "schema \<Rightarrow> schema" where
  "upgrade_0011 s = add_grants ''app_worker'' [SELECT, INSERT] [T_AUDIT_LOG] (add_grants ''app_worker'' [SELECT, INSERT] [T_EXPERIMENTS] s)"

definition downgrade_0011 :: "schema \<Rightarrow> schema" where
  "downgrade_0011 s = revoke ''app_worker'' [SELECT, INSERT] [T_AUDIT_LOG] (revoke ''app_worker'' [SELECT, INSERT] [T_EXPERIMENTS] s)"

definition upgrade_0012 :: "schema \<Rightarrow> schema" where
  "upgrade_0012 = add_columns T_PIPELINE_RUNS [default_col ''attempts'' S_INTEGER ''0'']"

definition downgrade_0012 :: "schema \<Rightarrow> schema" where
  "downgrade_0012 = drop_columns T_PIPELINE_RUNS [''attempts'']"

text \<open>The revisions after the first, in the order of \<open>down_revision\<close>, and \<open>alembic upgrade head\<close>.\<close>

definition REVISIONS :: "((schema \<Rightarrow> schema) \<times> (schema \<Rightarrow> schema)) list" where
  "REVISIONS =
     [(upgrade_0002, downgrade_0002), (upgrade_0003, downgrade_0003), (upgrade_0004, downgrade_0004),
      (upgrade_0005, downgrade_0005), (upgrade_0006, downgrade_0006), (upgrade_0007, downgrade_0007),
      (upgrade_0008, downgrade_0008), (upgrade_0009, downgrade_0009), (upgrade_0010, downgrade_0010),
      (upgrade_0011, downgrade_0011), (upgrade_0012, downgrade_0012)]"

definition upgrade_head :: "(string \<Rightarrow> string option) \<Rightarrow> schema \<Rightarrow> schema result" where
  "upgrade_head env s = bind_result (upgrade_0001 env s) (\<lambda>s1. Inr (foldl (\<lambda>s m. fst m s) s1 REVISIONS))"

text \<open>\<open>_database_url\<close> of \<open>migrations/env.py\<close>: the connection a migration runs over.\<close>

definition set_value :: "string option \<Rightarrow> bool" where
  "set_value v = (case v of None \<Rightarrow> False | Some s \<Rightarrow> s \<noteq> [])"

definition database_url :: "(json \<Rightarrow> string) \<Rightarrow> (string \<Rightarrow> string option) \<Rightarrow> string result" where
  "database_url repr env =
     (if set_value (env ''MIGRATE_DATABASE_URL'') then Inr (the (env ''MIGRATE_DATABASE_URL''))
      else
        let names = [''POSTGRES_HOST'', ''POSTGRES_PORT'', ''POSTGRES_DB'', ''POSTGRES_USER'', ''POSTGRES_PASSWORD''];
            missing = filter (\<lambda>n. \<not> set_value (env n)) names;
            v = (\<lambda>n. the (env n))
        in if missing \<noteq> []
           then Inl (RuntimeError (''Cannot build a migration connection string; missing '' @ repr (JList (map JStr missing))
                  @ ''. Migrations never guess a connection string; copy .env.example to .env and fill it in ''
                  @ ''(or set MIGRATE_DATABASE_URL directly).''))
           else Inr (''postgresql+psycopg://'' @ v ''POSTGRES_USER'' @ '':'' @ v ''POSTGRES_PASSWORD'' @ ''@'' @ v ''POSTGRES_HOST''
                  @ '':'' @ v ''POSTGRES_PORT'' @ ''/'' @ v ''POSTGRES_DB''))"

section \<open>The tables the classes declare\<close>

definition tenants_orm :: table_def where
  "tenants_orm = \<lparr>td_name = T_TENANTS, td_columns =
       [col ''id'' S_UUID, col ''slug'' S_VARCHAR, col ''display_name'' S_VARCHAR, col ''profile_type'' S_VARCHAR,
        now_col ''created_at''],
     td_primary_key = [''id''], td_uniques = [(''tenants_slug_key'', [''slug''])],
     td_checks = [(''ck_tenants_profile_type'', C_IN ''profile_type'' [''WALLET'', ''LENDING''])], td_indexes = []\<rparr>"

definition api_keys_orm :: table_def where
  "api_keys_orm = \<lparr>td_name = T_API_KEYS, td_columns =
       [col ''id'' S_UUID, col ''tenant_id'' S_UUID, col ''key_hash'' S_VARCHAR, col ''label'' S_VARCHAR,
        col ''active'' S_BOOLEAN, now_col ''created_at'', null_col ''last_used_at'' S_TIMESTAMPTZ],
     td_primary_key = [''id''], td_uniques = [(''api_keys_key_hash_key'', [''key_hash''])],
     td_checks = [], td_indexes = []\<rparr>"

definition event_type_mappings_orm :: table_def where
  "event_type_mappings_orm = \<lparr>td_name = T_EVENT_TYPE_MAPPINGS, td_columns =
       [col ''id'' S_UUID, col ''tenant_id'' S_UUID, col ''client_event_type'' S_VARCHAR,
        col ''canonical_event_type'' S_VARCHAR, col ''amount_field_path'' S_VARCHAR,
        null_col ''counterparty_field_path'' S_VARCHAR, col ''occurred_at_field_path'' S_VARCHAR,
        col ''active'' S_BOOLEAN, now_col ''created_at''],
     td_primary_key = [''id''], td_uniques = [(''uq_event_type_mappings'', [''tenant_id'', ''client_event_type''])],
     td_checks = [], td_indexes = []\<rparr>"

definition incentives_orm :: table_def where
  "incentives_orm = \<lparr>td_name = T_INCENTIVES, td_columns =
       [col ''id'' S_UUID, col ''tenant_id'' S_UUID, col ''code'' S_VARCHAR, col ''display_name'' S_VARCHAR,
        col ''cost_idr'' S_BIGINT, col ''encourages_borrowing'' S_BOOLEAN, col ''changes_credit_terms'' S_BOOLEAN,
        col ''subject_type'' S_VARCHAR, col ''applicable_profile_types'' S_JSONB, col ''active'' S_BOOLEAN],
     td_primary_key = [''id''], td_uniques = [(''uq_incentives_tenant_code'', [''tenant_id'', ''code''])],
     td_checks = [], td_indexes = []\<rparr>"

definition raw_events_orm :: table_def where
  "raw_events_orm = \<lparr>td_name = T_RAW_EVENTS, td_columns =
       [col ''id'' S_UUID, col ''tenant_id'' S_UUID, col ''client_event_id'' S_VARCHAR, now_col ''received_at'',
        col ''payload'' S_JSONB, null_col ''processed_at'' S_TIMESTAMPTZ, null_col ''process_error'' S_TEXT],
     td_primary_key = [''id''], td_uniques = [(''uq_raw_events_idempotency'', [''tenant_id'', ''client_event_id''])],
     td_checks = [], td_indexes = [(''ix_raw_events_unprocessed'', [''tenant_id'', ''processed_at''], False)]\<rparr>"

definition canonical_events_orm :: table_def where
  "canonical_events_orm = \<lparr>td_name = T_CANONICAL_EVENTS, td_columns =
       [col ''id'' S_UUID, col ''tenant_id'' S_UUID, col ''raw_event_id'' S_UUID, col ''user_pseudonym'' S_VARCHAR,
        col ''canonical_type'' S_VARCHAR, col ''occurred_at'' S_TIMESTAMPTZ, col ''amount_idr'' S_BIGINT,
        null_col ''counterparty_pseudonym'' S_VARCHAR, col ''attributes'' S_JSONB],
     td_primary_key = [''id''], td_uniques = [],
     td_checks = [], td_indexes = []\<rparr>"

definition external_signals_orm :: table_def where
  "external_signals_orm = \<lparr>td_name = T_EXTERNAL_SIGNALS, td_columns =
       [col ''id'' S_UUID, col ''tenant_id'' S_UUID, col ''scope_type'' S_VARCHAR, col ''scope_key'' S_VARCHAR,
        col ''signal_type'' S_VARCHAR, col ''value'' S_FLOAT, col ''observed_at'' S_TIMESTAMPTZ,
        col ''source'' S_VARCHAR, now_col ''ingested_at''],
     td_primary_key = [''id''], td_uniques = [],
     td_checks = [(''ck_external_signals_scope'', C_IN ''scope_type'' [''CLIENT'', ''REGION'', ''COHORT''])], td_indexes = []\<rparr>"

definition users_orm :: table_def where
  "users_orm = \<lparr>td_name = T_USERS, td_columns =
       [col ''tenant_id'' S_UUID, col ''user_pseudonym'' S_VARCHAR, col ''first_seen_at'' S_TIMESTAMPTZ,
        col ''last_event_at'' S_TIMESTAMPTZ, col ''lifecycle_state'' S_VARCHAR, null_col ''region_code'' S_VARCHAR,
        null_col ''cohort_key'' S_VARCHAR],
     td_primary_key = [''tenant_id'', ''user_pseudonym''], td_uniques = [],
     td_checks = [(''ck_users_lifecycle_state'', C_IN ''lifecycle_state'' [''NEW'', ''ACTIVE'', ''COOLING'', ''DORMANT'', ''CHURNED''])], td_indexes = []\<rparr>"

definition counterparty_nodes_orm :: table_def where
  "counterparty_nodes_orm = \<lparr>td_name = T_COUNTERPARTY_NODES, td_columns =
       [col ''tenant_id'' S_UUID, col ''counterparty_pseudonym'' S_VARCHAR, col ''last_seen_at'' S_TIMESTAMPTZ,
        col ''event_count_30d'' S_INTEGER, col ''is_active'' S_BOOLEAN, col ''is_own_user'' S_BOOLEAN],
     td_primary_key = [''tenant_id'', ''counterparty_pseudonym''], td_uniques = [],
     td_checks = [], td_indexes = []\<rparr>"

definition relationship_edges_orm :: table_def where
  "relationship_edges_orm = \<lparr>td_name = T_RELATIONSHIP_EDGES, td_columns =
       [col ''id'' S_UUID, col ''tenant_id'' S_UUID, col ''user_pseudonym'' S_VARCHAR,
        col ''counterparty_pseudonym'' S_VARCHAR, col ''edge_type'' S_VARCHAR, col ''first_seen_at'' S_TIMESTAMPTZ,
        col ''last_seen_at'' S_TIMESTAMPTZ, col ''txn_count_90d'' S_INTEGER, null_col ''cadence_days'' S_FLOAT,
        col ''decay_weight'' S_FLOAT],
     td_primary_key = [''id''], td_uniques = [(''uq_relationship_edges'', [''tenant_id'', ''user_pseudonym'', ''counterparty_pseudonym'', ''edge_type''])],
     td_checks = [], td_indexes = []\<rparr>"

definition transaction_circles_orm :: table_def where
  "transaction_circles_orm = \<lparr>td_name = T_TRANSACTION_CIRCLES, td_columns =
       [col ''id'' S_UUID, col ''tenant_id'' S_UUID, col ''member_count'' S_INTEGER,
        null_col ''stability_score'' S_FLOAT, now_col ''computed_at''],
     td_primary_key = [''id''], td_uniques = [],
     td_checks = [], td_indexes = []\<rparr>"

definition circle_members_orm :: table_def where
  "circle_members_orm = \<lparr>td_name = T_CIRCLE_MEMBERS, td_columns =
       [col ''circle_id'' S_UUID, col ''tenant_id'' S_UUID, col ''user_pseudonym'' S_VARCHAR],
     td_primary_key = [''circle_id'', ''tenant_id'', ''user_pseudonym''], td_uniques = [],
     td_checks = [], td_indexes = []\<rparr>"

definition risk_scores_orm :: table_def where
  "risk_scores_orm = \<lparr>td_name = T_RISK_SCORES, td_columns =
       [col ''id'' S_UUID, col ''tenant_id'' S_UUID, col ''user_pseudonym'' S_VARCHAR, now_col ''computed_at'',
        null_col ''pipeline_run_id'' S_UUID, col ''churn_risk'' S_FLOAT, col ''delta_stability'' S_FLOAT,
        col ''pattern_type'' S_VARCHAR, null_col ''external_signal_id'' S_UUID,
        null_col ''external_signal_contribution'' S_FLOAT, col ''context_row_count'' S_INTEGER,
        col ''features'' S_JSONB],
     td_primary_key = [''id''], td_uniques = [],
     td_checks = [(''ck_risk_scores_pattern_type'', C_IN ''pattern_type'' [''CIRCLE_SPECIFIC'', ''MARKET_DRIVEN'', ''STABLE''])], td_indexes = []\<rparr>"

definition impact_scores_orm :: table_def where
  "impact_scores_orm = \<lparr>td_name = T_IMPACT_SCORES, td_columns =
       [col ''id'' S_UUID, col ''tenant_id'' S_UUID, col ''user_pseudonym'' S_VARCHAR,
        col ''incentive_code'' S_VARCHAR, now_col ''computed_at'', col ''p_incentivized'' S_FLOAT,
        col ''p_not_incentivized'' S_FLOAT, col ''impact_score'' S_FLOAT, col ''segment'' S_VARCHAR,
        col ''features'' S_JSONB],
     td_primary_key = [''id''], td_uniques = [],
     td_checks = [(''ck_impact_scores_segment'', C_IN ''segment'' [''PERSUADABLE'', ''SURE_THING'', ''LOST_CAUSE'', ''SLEEPING_DOG''])], td_indexes = []\<rparr>"

definition pipeline_runs_orm :: table_def where
  "pipeline_runs_orm = \<lparr>td_name = T_PIPELINE_RUNS, td_columns =
       [col ''id'' S_UUID, col ''tenant_id'' S_UUID, col ''status'' S_VARCHAR, col ''attempts'' S_INTEGER,
        col ''stages'' S_JSONB, null_col ''external_source'' S_VARCHAR, null_col ''ranking_strategy'' S_VARCHAR,
        null_col ''context_row_count'' S_INTEGER, col ''reason_source_counts'' S_JSONB, null_col ''error'' S_TEXT,
        now_col ''created_at'', null_col ''started_at'' S_TIMESTAMPTZ, null_col ''finished_at'' S_TIMESTAMPTZ],
     td_primary_key = [''id''], td_uniques = [],
     td_checks = [(''ck_pipeline_runs_status'', C_IN ''status'' [''QUEUED'', ''RUNNING'', ''SUCCEEDED'', ''FAILED''])], td_indexes = []\<rparr>"

definition allocation_runs_orm :: table_def where
  "allocation_runs_orm = \<lparr>td_name = T_ALLOCATION_RUNS, td_columns =
       [col ''id'' S_UUID, col ''tenant_id'' S_UUID, null_col ''pipeline_run_id'' S_UUID,
        col ''budget_idr'' S_BIGINT, col ''strategy'' S_VARCHAR, col ''ranking_strategy'' S_VARCHAR,
        col ''context_row_count'' S_INTEGER, col ''objective_value_idr'' S_BIGINT,
        col ''candidate_count'' S_INTEGER, col ''selected_count'' S_INTEGER, now_col ''created_at'',
        null_col ''created_by'' S_VARCHAR],
     td_primary_key = [''id''], td_uniques = [],
     td_checks = [(''ck_allocation_runs_strategy'', C_IN ''strategy'' [''EXACT_DP'', ''GREEDY_DENSITY'']),
        (''ck_allocation_runs_ranking_strategy'', C_IN ''ranking_strategy'' [''TABPFN'', ''FALLBACK''])], td_indexes = []\<rparr>"

definition allocation_candidates_orm :: table_def where
  "allocation_candidates_orm = \<lparr>td_name = T_ALLOCATION_CANDIDATES, td_columns =
       [col ''id'' S_UUID, col ''tenant_id'' S_UUID, col ''allocation_run_id'' S_UUID,
        col ''subject_type'' S_VARCHAR, null_col ''user_pseudonym'' S_VARCHAR, null_col ''circle_id'' S_UUID,
        col ''incentive_code'' S_VARCHAR, null_col ''churn_risk'' S_FLOAT, null_col ''impact_score'' S_FLOAT,
        null_col ''segment'' S_VARCHAR, null_col ''pattern_type'' S_VARCHAR, null_col ''priority_idr'' S_BIGINT,
        col ''cost_idr'' S_BIGINT, null_col ''user_rank'' S_INTEGER, col ''selected'' S_BOOLEAN,
        null_col ''exclusion_reason'' S_VARCHAR],
     td_primary_key = [''id''], td_uniques = [],
     td_checks = [(''ck_allocation_candidates_subject_type'', C_IN ''subject_type'' [''USER'', ''GROUP''])], td_indexes = []\<rparr>"

definition recommendations_orm :: table_def where
  "recommendations_orm = \<lparr>td_name = T_RECOMMENDATIONS, td_columns =
       [col ''id'' S_UUID, col ''tenant_id'' S_UUID, col ''allocation_run_id'' S_UUID,
        null_col ''allocation_candidate_id'' S_UUID, col ''subject_type'' S_VARCHAR,
        null_col ''user_pseudonym'' S_VARCHAR, null_col ''circle_id'' S_UUID, col ''incentive_code'' S_VARCHAR,
        col ''cost_idr'' S_BIGINT, col ''priority_idr'' S_BIGINT, col ''user_rank'' S_INTEGER,
        col ''is_runner_up'' S_BOOLEAN, col ''status'' S_VARCHAR, null_col ''reason_text'' S_TEXT,
        col ''reason_factors'' S_JSONB, null_col ''reason_source'' S_VARCHAR,
        null_col ''fact_sheet_hash'' S_VARCHAR, now_col ''created_at'', null_col ''submitted_at'' S_TIMESTAMPTZ,
        null_col ''reviewed_by'' S_VARCHAR, null_col ''reviewed_at'' S_TIMESTAMPTZ, null_col ''review_note'' S_TEXT,
        null_col ''delivered_at'' S_TIMESTAMPTZ, null_col ''delivery_ref'' S_VARCHAR],
     td_primary_key = [''id''], td_uniques = [],
     td_checks = [(''ck_recommendations_subject_type'', C_IN ''subject_type'' [''USER'', ''GROUP'']),
        (''ck_recommendations_subject_exclusive'', C_OR (C_AND (C_EQ ''subject_type'' ''USER'') (C_AND (C_NOT_NULL ''user_pseudonym'') (C_NULL ''circle_id''))) (C_AND (C_EQ ''subject_type'' ''GROUP'') (C_AND (C_NOT_NULL ''circle_id'') (C_NULL ''user_pseudonym'')))),
        (''ck_recommendations_status'', C_IN ''status'' [''DRAFT'', ''PENDING_APPROVAL'', ''APPROVED'', ''REJECTED'', ''EXPIRED'', ''DELIVERED'']),
        (''ck_recommendations_approved_needs_reviewer'', C_OR (C_NEQ ''status'' ''APPROVED'') (C_AND (C_NOT_NULL ''reviewed_by'') (C_NOT_NULL ''reviewed_at''))),
        (''ck_recommendations_rejected_needs_reviewer'', C_OR (C_NEQ ''status'' ''REJECTED'') (C_AND (C_NOT_NULL ''reviewed_by'') (C_NOT_NULL ''reviewed_at''))),
        (''ck_recommendations_delivered_needs_review_and_delivery'', C_OR (C_NEQ ''status'' ''DELIVERED'') (C_AND (C_NOT_NULL ''reviewed_by'') (C_NOT_NULL ''delivered_at'')))], td_indexes = [(''uq_recommendations_active_per_user'', [''tenant_id'', ''allocation_run_id'', ''user_pseudonym''], True)]\<rparr>"

definition narrations_orm :: table_def where
  "narrations_orm = \<lparr>td_name = T_NARRATIONS, td_columns =
       [col ''fact_sheet_hash'' S_VARCHAR, col ''tenant_id'' S_UUID, col ''text'' S_TEXT, col ''model'' S_VARCHAR,
        now_col ''created_at''],
     td_primary_key = [''fact_sheet_hash'', ''tenant_id''], td_uniques = [],
     td_checks = [], td_indexes = []\<rparr>"

definition policy_decisions_orm :: table_def where
  "policy_decisions_orm = \<lparr>td_name = T_POLICY_DECISIONS, td_columns =
       [col ''id'' S_UUID, col ''tenant_id'' S_UUID, null_col ''recommendation_id'' S_UUID,
        col ''candidate_ref'' S_VARCHAR, col ''rule_code'' S_VARCHAR, col ''outcome'' S_VARCHAR,
        col ''detail'' S_JSONB, now_col ''created_at''],
     td_primary_key = [''id''], td_uniques = [],
     td_checks = [(''ck_policy_decisions_outcome'', C_IN ''outcome'' [''ALLOW'', ''DENY''])], td_indexes = []\<rparr>"

definition contact_log_orm :: table_def where
  "contact_log_orm = \<lparr>td_name = T_CONTACT_LOG, td_columns =
       [col ''id'' S_UUID, col ''tenant_id'' S_UUID, col ''user_pseudonym'' S_VARCHAR,
        null_col ''recommendation_id'' S_UUID, now_col ''contacted_at''],
     td_primary_key = [''id''], td_uniques = [],
     td_checks = [], td_indexes = []\<rparr>"

definition experiments_orm :: table_def where
  "experiments_orm = \<lparr>td_name = T_EXPERIMENTS, td_columns =
       [col ''id'' S_UUID, col ''tenant_id'' S_UUID, col ''name'' S_VARCHAR, col ''control_pct'' S_INTEGER,
        col ''naive_pct'' S_INTEGER, now_col ''started_at'', null_col ''ended_at'' S_TIMESTAMPTZ],
     td_primary_key = [''id''], td_uniques = [],
     td_checks = [], td_indexes = []\<rparr>"

definition experiment_assignments_orm :: table_def where
  "experiment_assignments_orm = \<lparr>td_name = T_EXPERIMENT_ASSIGNMENTS, td_columns =
       [col ''tenant_id'' S_UUID, col ''experiment_id'' S_UUID, col ''user_pseudonym'' S_VARCHAR,
        col ''arm'' S_VARCHAR, now_col ''assigned_at''],
     td_primary_key = [''tenant_id'', ''experiment_id'', ''user_pseudonym''], td_uniques = [],
     td_checks = [(''ck_experiment_assignments_arm'', C_IN ''arm'' [''CONTROL'', ''NAIVE'', ''ENGINE''])], td_indexes = []\<rparr>"

definition outcome_events_orm :: table_def where
  "outcome_events_orm = \<lparr>td_name = T_OUTCOME_EVENTS, td_columns =
       [col ''id'' S_UUID, col ''tenant_id'' S_UUID, col ''experiment_id'' S_UUID, col ''user_pseudonym'' S_VARCHAR,
        col ''outcome_type'' S_VARCHAR, col ''observed_at'' S_TIMESTAMPTZ, null_col ''value_idr'' S_BIGINT],
     td_primary_key = [''id''], td_uniques = [],
     td_checks = [(''ck_outcome_events_type'', C_IN ''outcome_type'' [''RESPONDED'', ''RETAINED'', ''CHURNED''])], td_indexes = []\<rparr>"

definition labeled_examples_orm :: table_def where
  "labeled_examples_orm = \<lparr>td_name = T_LABELED_EXAMPLES, td_columns =
       [col ''id'' S_UUID, col ''tenant_id'' S_UUID, null_col ''source_experiment_id'' S_UUID,
        null_col ''source_outcome_id'' S_UUID, col ''user_pseudonym'' S_VARCHAR, col ''arm'' S_VARCHAR,
        col ''treated'' S_BOOLEAN, col ''retained'' S_BOOLEAN, null_col ''realized_value_idr'' S_BIGINT,
        col ''feature_snapshot'' S_JSONB, now_col ''created_at''],
     td_primary_key = [''id''], td_uniques = [(''uq_labeled_examples_dedupe'', [''tenant_id'', ''source_outcome_id''])],
     td_checks = [], td_indexes = []\<rparr>"

definition feature_snapshots_orm :: table_def where
  "feature_snapshots_orm = \<lparr>td_name = T_FEATURE_SNAPSHOTS, td_columns =
       [col ''id'' S_UUID, col ''tenant_id'' S_UUID, col ''run_id'' S_UUID, col ''user_pseudonym'' S_VARCHAR,
        col ''features'' S_JSONB, null_col ''churn_risk'' S_FLOAT, null_col ''impact_score'' S_FLOAT,
        null_col ''pattern_type'' S_VARCHAR, null_col ''incentive_code'' S_VARCHAR, col ''cost_idr'' S_BIGINT,
        col ''business_value_idr'' S_BIGINT, now_col ''created_at''],
     td_primary_key = [''id''], td_uniques = [(''uq_feature_snapshots_run_user'', [''tenant_id'', ''run_id'', ''user_pseudonym''])],
     td_checks = [], td_indexes = []\<rparr>"

definition audit_log_orm :: table_def where
  "audit_log_orm = \<lparr>td_name = T_AUDIT_LOG, td_columns =
       [col ''id'' S_UUID, col ''tenant_id'' S_UUID, col ''actor'' S_VARCHAR, col ''action'' S_VARCHAR,
        col ''entity_type'' S_VARCHAR, col ''entity_id'' S_VARCHAR, now_col ''at'', col ''detail'' S_JSONB],
     td_primary_key = [''id''], td_uniques = [],
     td_checks = [], td_indexes = []\<rparr>"

definition ORM_TABLES :: "table_def list" where
  "ORM_TABLES =
     [tenants_orm, api_keys_orm, event_type_mappings_orm, incentives_orm, raw_events_orm, 
      canonical_events_orm, external_signals_orm, users_orm, counterparty_nodes_orm, 
      relationship_edges_orm, transaction_circles_orm, circle_members_orm, risk_scores_orm, 
      impact_scores_orm, pipeline_runs_orm, allocation_runs_orm, allocation_candidates_orm, 
      recommendations_orm, narrations_orm, policy_decisions_orm, contact_log_orm, experiments_orm, 
      experiment_assignments_orm, outcome_events_orm, labeled_examples_orm, feature_snapshots_orm, 
      audit_log_orm]"

definition RLS_TABLE_NAMES :: "table list" where
  "RLS_TABLE_NAMES = filter (\<lambda>t. t \<notin> {T_TENANTS, T_API_KEYS}) (map td_name ORM_TABLES)"

section \<open>Evaluating the migrations\<close>

lemmas migrations = upgrade_0002_def upgrade_0003_def upgrade_0004_def upgrade_0005_def upgrade_0006_def upgrade_0007_def
  upgrade_0008_def upgrade_0009_def upgrade_0010_def upgrade_0011_def upgrade_0012_def

text \<open>The schema after the first migration, and the schema at head.\<close>

definition first_schema :: schema where
  "first_schema = create_tables [tenants_ddl, api_keys_ddl, event_type_mappings_ddl, incentives_ddl]
     (empty_schema\<lparr>sh_roles := ROLES\<rparr>)"

definition head_schema :: schema where
  "head_schema = foldl (\<lambda>s m. fst m s) first_schema REVISIONS"

definition passwords_ok :: "(string \<Rightarrow> string option) \<Rightarrow> bool" where
  "passwords_ok env \<longleftrightarrow> list_all (\<lambda>r. case env (role_password_env r) of None \<Rightarrow> False
     | Some p \<Rightarrow> p \<noteq> [] \<and> CHR 0x27 \<notin> set p) ROLES"

lemma create_roles_Inr:
  "list_all (\<lambda>r. case env (role_password_env r) of None \<Rightarrow> False | Some p \<Rightarrow> p \<noteq> [] \<and> CHR 0x27 \<notin> set p) rs
   \<Longrightarrow> distinct (sh_roles s @ rs) \<Longrightarrow> create_roles env rs s = Inr (s\<lparr>sh_roles := sh_roles s @ rs\<rparr>)"
  by (induction rs arbitrary: s) (auto simp: create_role_def split: option.splits)

lemma create_roles_Inl:
  "\<not> list_all (\<lambda>r. case env (role_password_env r) of None \<Rightarrow> False | Some p \<Rightarrow> p \<noteq> [] \<and> CHR 0x27 \<notin> set p) rs
   \<Longrightarrow> \<exists>m. create_roles env rs s = Inl (RuntimeError m)"
  by (induction rs arbitrary: s) (auto simp: create_role_def split: option.splits if_splits)

lemma upgrade_head_eq:
  "upgrade_head env empty_schema = Inr s \<longleftrightarrow> passwords_ok env \<and> s = head_schema"
proof (cases "passwords_ok env")
  case True
  then have "create_roles env ROLES empty_schema = Inr (empty_schema\<lparr>sh_roles := ROLES\<rparr>)"
    unfolding passwords_ok_def by (subst create_roles_Inr) (simp_all add: empty_schema_def ROLES_def)
  with True show ?thesis by (auto simp: upgrade_head_def upgrade_0001_def head_schema_def first_schema_def)
next
  case False
  with create_roles_Inl [of env ROLES empty_schema] show ?thesis
    by (auto simp: passwords_ok_def upgrade_head_def upgrade_0001_def)
qed

text \<open>Every step can be taken back from where it leads; then so can any number of steps.\<close>

fun unwinds :: "schema \<Rightarrow> ((schema \<Rightarrow> schema) \<times> (schema \<Rightarrow> schema)) list \<Rightarrow> bool" where
  "unwinds s [] = True"
| "unwinds s ((up, down) # ms) = (down (up s) = s \<and> unwinds (up s) ms)"

definition undo :: "((schema \<Rightarrow> schema) \<times> (schema \<Rightarrow> schema)) list \<Rightarrow> schema \<Rightarrow> schema" where
  "undo ms s = foldr (\<lambda>m s. snd m s) ms s"

lemma unwinds_drop:
  "unwinds s ms \<Longrightarrow> undo (drop k ms) (foldl (\<lambda>s m. fst m s) s ms) = foldl (\<lambda>s m. fst m s) s (take k ms)"
proof (induction ms arbitrary: s k)
  case (Cons m ms)
  obtain up down where m: "m = (up, down)" by (cases m)
  with Cons show ?case
  proof (cases k)
    case 0
    have "undo ms (foldl (\<lambda>s m. fst m s) (up s) ms) = up s" using Cons.IH [of "up s" 0] Cons.prems m by simp
    with Cons.prems m 0 show ?thesis by (simp add: undo_def)
  qed simp
qed (simp add: undo_def)

lemma revisions_unwind: "unwinds first_schema REVISIONS"
  by code_simp

lemma first_undone: "downgrade_0001 first_schema = empty_schema"
  by code_simp

text \<open>
  C16. Every migration can be undone: from the schema that \<open>alembic upgrade head\<close> builds, which it does exactly when the three
  roles have usable passwords, going down to any revision gives the tables, policies, privileges and the trigger that
  revision had, and going down to the base leaves nothing.
\<close>

theorem migrations_undo:
  assumes "upgrade_head env empty_schema = Inr s"
  shows "undo (drop k REVISIONS) s = foldl (\<lambda>s m. fst m s) first_schema (take k REVISIONS)
    \<and> downgrade_0001 (undo REVISIONS s) = empty_schema \<and> passwords_ok env"
proof -
  have s: "s = head_schema" "passwords_ok env" using assms by (simp_all add: upgrade_head_eq)
  have "undo (drop j REVISIONS) s = foldl (\<lambda>s m. fst m s) first_schema (take j REVISIONS)" for j
    unfolding s(1) head_schema_def by (rule unwinds_drop [OF revisions_unwind])
  from this [of k] this [of 0] first_undone s(2) show ?thesis by simp
qed

theorem migrations_undo_witness:
  "upgrade_head (\<lambda>v. Some ''secret'') empty_schema = Inr head_schema \<and> downgrade_0001 (undo REVISIONS head_schema) = empty_schema"
proof -
  have "upgrade_head (\<lambda>v. Some ''secret'') empty_schema = Inr head_schema"
    by (simp add: upgrade_head_eq passwords_ok_def ROLES_def)
  with migrations_undo [OF this] show ?thesis by simp
qed

section \<open>Classes and migrations\<close>




text \<open>The privileges the model of the sessions works with are the ones the migrations leave.\<close>

fun role_name :: "db_role \<Rightarrow> string" where
  "role_name APP_WORKER = ''app_worker''"
| "role_name APP_CONSOLE = ''app_console''"

lemma grants_of_migrations:
  "filter (\<lambda>(r, _, _). r \<noteq> ''app_readonly'') (sh_grants head_schema) = map (\<lambda>(r, p, t). (role_name r, p, t)) GRANTS"
  by code_simp

lemma granted_migrated: "granted role p t \<longleftrightarrow> (role_name role, p, t) \<in> set (sh_grants head_schema)"
proof -
  have name: "role_name r = role_name role \<longleftrightarrow> r = role" for r by (cases r; cases role) simp_all
  have "role_name role \<noteq> ''app_readonly''" by (cases role) simp_all
  then have "(role_name role, p, t) \<in> set (sh_grants head_schema)
      \<longleftrightarrow> (role_name role, p, t) \<in> set (filter (\<lambda>(r, _, _). r \<noteq> ''app_readonly'') (sh_grants head_schema))" by simp
  also have "\<dots> \<longleftrightarrow> (role_name role, p, t) \<in> set (map (\<lambda>(r, p, t). (role_name r, p, t)) GRANTS)"
    unfolding grants_of_migrations ..
  also have "\<dots> \<longleftrightarrow> (role, p, t) \<in> set GRANTS"
  proof
    assume "(role_name role, p, t) \<in> set (map (\<lambda>(r, p, t). (role_name r, p, t)) GRANTS)"
    then obtain r where "(r, p, t) \<in> set GRANTS" "role_name role = role_name r" by auto
    then show "(role, p, t) \<in> set GRANTS" by (metis name)
  next
    assume "(role, p, t) \<in> set GRANTS"
    then have "(\<lambda>(r, p, t). (role_name r, p, t)) (role, p, t) \<in> (\<lambda>(r, p, t). (role_name r, p, t)) ` set GRANTS" by (rule imageI)
    then show "(role_name role, p, t) \<in> set (map (\<lambda>(r, p, t). (role_name r, p, t)) GRANTS)" by simp
  qed
  finally show ?thesis by (simp add: granted_def)
qed

lemma head_policies: "sh_policies head_schema = RLS_TABLES @ [T_FEATURE_SNAPSHOTS]"
  by code_simp

lemma policies_of_migrations:
  "list_all (\<lambda>t. td_name t \<in> {T_TENANTS, T_API_KEYS}
      \<or> col ''tenant_id'' S_UUID \<in> set (td_columns t) \<and> td_name t \<in> set (sh_policies head_schema)) (sh_tables head_schema)
   \<and> list_all (\<lambda>t. t \<in> set (sh_policies head_schema)) RLS_TABLE_NAMES \<and> sh_transition_trigger head_schema"
  unfolding head_policies by (intro conjI; code_simp)

text \<open>The row of a recommendation as its CHECK constraints see it.\<close>

definition recommendation_text :: "recommendation \<Rightarrow> string \<Rightarrow> string option" where
  "recommendation_text r c = (case map_of
     [(''subject_type'', Some (rec_subject_type r)), (''user_pseudonym'', rec_user_pseudonym r), (''circle_id'', rec_circle_id r),
      (''status'', Some (status_value (rec_status r))), (''reviewed_by'', rec_reviewed_by r),
      (''reviewed_at'', map_option show_int (rec_reviewed_at r)), (''delivered_at'', map_option show_int (rec_delivered_at r))] c
     of Some v \<Rightarrow> v | None \<Rightarrow> None)"

lemma checks_of_migrations: "accepts recommendations_ddl (recommendation_text r) \<longleftrightarrow> checks_ok r"
  by (cases "rec_status r"; cases "rec_reviewed_by r"; cases "rec_reviewed_at r"; cases "rec_delivered_at r";
      cases "rec_user_pseudonym r"; cases "rec_circle_id r")
    (auto simp: accepts_def recommendations_ddl_def recommendation_text_def checks_ok_def compare_def and3_def or3_def)

text \<open>
  C14. The migrated database guards what the code relies on: every table but the tenants and their API keys names its tenant and is
  under the tenant's row policy; the roles hold exactly the privileges under which the sessions are modelled, the trigger of the state
  machine is in force; and the CHECK constraints of the recommendations, under SQL's three-valued logic, accept exactly the rows that
  name one subject and, once reviewed or delivered, their reviewer and times.
\<close>

theorem migrations_guard:
  "list_all (\<lambda>t. td_name t \<in> {T_TENANTS, T_API_KEYS}
      \<or> col ''tenant_id'' S_UUID \<in> set (td_columns t) \<and> td_name t \<in> set (sh_policies head_schema)) (sh_tables head_schema)
   \<and> sh_transition_trigger head_schema
   \<and> (granted role p t \<longleftrightarrow> (role_name role, p, t) \<in> set (sh_grants head_schema))
   \<and> recommendations_ddl \<in> set (sh_tables head_schema)
   \<and> (accepts recommendations_ddl (recommendation_text r) \<longleftrightarrow> checks_ok r)"
proof -
  have "recommendations_ddl \<in> set (sh_tables head_schema)" by code_simp
  then show ?thesis using policies_of_migrations granted_migrated checks_of_migrations by simp
qed

end
