(* ===== verification/Spec2Isabelle.thy ===== *)
theory Spec2Isabelle
  imports ADA_Prelude Floats Contracts Policy Impact Measurement Feedback Ranker Allocator Allocation Selection Graph
    Lifecycle Web Runs Signals Churn Normalize Explain Store Stages Arms Orchestration Frame Pipeline Ingest Decisions Narration
    Codec Access Tables Repositories Segments Intake Values Console Isolation Postgres Durable Scorer Service Schema
begin

text \<open>
  A retention recommendation engine, verified.  The repository turns the events of client companies into offers to users
  who are about to leave: clients post events to an API (\<open>services/api\<close>); a worker (\<open>services/worker\<close>) runs a
  pipeline of eleven stages over them, built from pure packages (\<open>packages/*\<close>); a person approves each
  recommendation in a console; clients pull what was approved and report outcomes, which become the context of later
  runs.  Everything is kept per tenant in one database (\<open>packages/persistence\<close>, \<open>migrations\<close>).  This theory only
  imports the others; each of them opens with what it holds.

  \<^bold>\<open>Definitions, by part of the code\<close>

  \<^item> Shared: \<open>ADA_Prelude\<close> has exceptions as values (\<open>exn + 'a\<close>), dictionaries as association lists in insertion order, and
    Python's string functions; \<open>Floats\<close> has binary64 arithmetic, a finite float being the rational it denotes and
    every operation the correctly rounded one; \<open>Contracts\<close> the domain types of \<open>core-contracts\<close>.
  \<^item> Packages: \<open>Policy\<close> (policy-guard), \<open>Impact\<close>, \<open>Measurement\<close>, \<open>Feedback\<close>, \<open>Ranker\<close>, \<open>Allocator\<close> (knapsack, greedy
    fallback, selection), \<open>Graph\<close> (graph-signal), \<open>Signals\<close> (external-signals and the worker's feed adapter), \<open>Churn\<close>
    (churn-risk), \<open>Normalize\<close> (ingest-mapping), \<open>Explain\<close> (fact sheets, template, validator of narrations).
  \<^item> Worker: \<open>Store\<close> (\<open>store.py\<close>, \<open>memory\_store.py\<close>); \<open>Stages\<close> (\<open>pipeline.py\<close> up to RANK, \<open>outcomes.py\<close>), \<open>Arms\<close> (ALLOCATE),
    \<open>Orchestration\<close> (EXPLAIN, PERSIST, \<open>run\_pipeline\<close>); \<open>Scorer\<close> (\<open>churn\_scorer.py\<close>); \<open>Runs\<close> (the queue of runs and the
    poll loop of \<open>main.py\<close>); \<open>Postgres\<close> (\<open>postgres\_store.py\<close>); \<open>Service\<close> (\<open>llm\_narrator.py\<close>, \<open>settings.py\<close>, start and offline
    pass of \<open>main.py\<close>).
  \<^item> Database: \<open>Schema\<close> (all migrations up and down, the classes of \<open>models.py\<close>); \<open>Tables\<close> (rows, grants, row policies and
    the statements of a session); \<open>Lifecycle\<close> (the recommendations' state machine, repository, constraints, trigger
    and audit log); \<open>Repositories\<close>, \<open>Segments\<close> (the other repositories).
  \<^item> API: \<open>Web\<close> (errors, \<open>tenant\_session\<close>, recommendations), \<open>Codec\<close> (base64, JSON and UTF-8 as the session cookie uses
    them), \<open>Access\<close> (settings, rate limits, API keys, console sessions), \<open>Intake\<close> (events and outcomes), \<open>Values\<close> and
    \<open>Console\<close> (the console's other endpoints), \<open>Service\<close> (the middleware).

  The state a stage sees is the record \<open>run\<close> (\<open>\_Run\<close>) and the store; a stage is a function from externals, settings, run and
  store to a result and the new store, composed by \<open>bind\_effect\<close>, so that what was written before an exception stays.  A
  transaction is a function of a session (role and tenant) and the database; one that raises leaves the
  database as it was.  Interleavings are sequences of transactions: the relations \<open>step\<close> (recommendations)
  and \<open>run\_step\<close> (runs), with \<open>reachable\<close> and \<open>run\_reachable\<close>.

  \<^bold>\<open>Lemmas, by what they show\<close>

  \<^item> Human approval: \<open>Lifecycle\<close> shows the invariant of reachable databases, that a transaction moves one row along the
    state machine with one audit entry, and what \<open>approve\<close> returns on every branch; \<open>Web\<close> carries it to the endpoint,
    \<open>Service\<close> through the middleware; \<open>Pipeline\<close> shows that a run creates only pending recommendations.
  \<^item> Decisions: \<open>Policy\<close> and \<open>Decisions\<close> (hard rules, bundles, arms, accounting), \<open>Allocation\<close> and \<open>Selection\<close> (budget, optimality
    of the dynamic program, reasons), \<open>Ranker\<close>, \<open>Impact\<close>, \<open>Measurement\<close>.
  \<^item> Data: \<open>Normalize\<close> and \<open>Ingest\<close> (types, pseudonyms, draining, batching), \<open>Churn\<close> and \<open>Feedback\<close> (no leak from the future,
    exact labels), \<open>Scorer\<close> (integrity of the artifact; the stage's candidates pass the scorer's checks), \<open>Narration\<close> (only
    validated texts leave), \<open>Graph\<close> (circles are the large components).
  \<^item> Tenants and access: \<open>Frame\<close> and \<open>Pipeline\<close> (a run leaves other tenants alone), \<open>Isolation\<close> (the console's answers depend
    on the reviewer's tenant only), \<open>Access\<close> (cookies, buckets, keys), \<open>Intake\<close> (idempotence, accounting of a batch).
  \<^item> Database: \<open>Durable\<close> shows which of the store's promises survive the database (a refinement of the in-memory store on
    labeled examples, the round trip of events) and which do not (retries, replayed outcomes, features of risk
    scores); \<open>Schema\<close> ties the grants of \<open>Tables\<close> and the constraints of \<open>Lifecycle\<close> to the migrations; \<open>Runs\<close> bounds attempts
    and shows that polling drains the queue.

  Interfaces are locales, each interpreted on the model's own definitions: \<open>hard\_rule\<close> (every rule of the guard),
  \<open>allocation\_solver\<close> (greedy and dynamic program), \<open>disjoint\_sets\<close> (the union-find with path halving), \<open>row\_invariant\<close>
  (budget and times of a run), \<open>first\_write\_wins\<close> (labels, events and arms of the store), \<open>stage\_invariant\<close> and
  \<open>store\_invariant\<close> (what the stages keep: the log, other tenants, pending recommendations).

  \<^bold>\<open>Loops, bounds and fuel\<close>

  Loops are structural recursion or functions with a measure; the union-find loop is an option-valued partial
  function, shown to return on every forest the code builds.  The JSON scanner has fuel one more than the length of the
  text, of which every call spends one and consumes a character, so that it never runs out before the text does.  The poll
  loop takes its number of cycles as an argument (\<open>--max-cycles\<close>; the unbounded loop is every such number) and is
  shown to be done within as many cycles as attempts are left.  The retries of the model's client are bounded by their
  count.  Integers are unbounded as in Python; column widths are not enforced.

  \<^bold>\<open>What is an argument\<close>

  HMAC and SHA-256, random and name-based identifiers, clocks, the parsing and printing of timestamps and of the
  decimal text of a float, pseudo-random sampling, the classifiers and regressors, pandas' reading of files and cells, HTTP
  answers, the environment, and files.  Hypotheses about them are stated where used: that a
  classifier returns one probability per class and row, or that an environment has passwords.

  \<^bold>\<open>Reading notes\<close>

  Characters are code points below 256, and regular expressions, \<open>upper\<close> and \<open>lower\<close> are read in ASCII.  Floats are finite; the code paths that
  make an infinity or a NaN are exceptions of the model where Python raises.  JSON objects stored in the database keep the order of their
  keys, and a query without ORDER BY returns rows in the order of insertion.  An exception that is no constructor of \<open>exn\<close>
  is a \<open>RuntimeError\<close> whose text begins with its Python type.  Logging is not modelled.

  \<^bold>\<open>Not modelled\<close>

  Mounting of routes, CORS, argument parsing, signal handlers, connection pools and cached engines, the text of log
  lines; alembic's driver; package exports (\<open>\_\_init\_\_.py\<close>) and protocols, which only name what is modelled; the
  generator stubs of \<open>tools/synthetic\<close>, the tests, and the TypeScript console of \<open>apps/web\<close>, which is a client of the API.
  Two-phase effects of a worker that dies in the middle of a transaction are the database's roll-back; power loss and
  replication are outside.
\<close>

end
